(* ===== verification/Prelude.thy ===== *)
theory Prelude
  imports Complex_Main "HOL-Library.Log_Nat"
begin

text \<open>
  Shared vocabulary of the development.

  \<^item> \<open>prog\<close>: stateful, fallible Go code. A Go function that returns \<open>(value, error)\<close> and
    reads or writes the database is a function from a state to an error or a value, and the
    state it leaves behind. \<open>bnd\<close> is \<open>x, err := f(); if err != nil { return err }\<close>,
    \<open>attempt\<close> hands the error to the caller as a value, \<open>ignore\<close> is \<open>_ = f()\<close>.
  \<^item> \<open>keeps\<close> and \<open>preserves\<close>: frame and invariant statements about such code, with one rule
    per combinator, so that a frame property of a handler follows from its shape.
  \<^item> decimals: \<open>shopspring/decimal\<close> values and SQL \<open>NUMERIC\<close> values are the rationals they
    denote. Their exact operations (sum, difference, product, comparison) are those of
    \<open>rat\<close>; every operation that rounds is a parameter (theory \<open>Core_DB\<close>).
  \<^item> \<open>fl64\<close>: rounding of an exact result to a Go \<open>float64\<close> (binary64, ties to even).
  \<^item> \<open>strconv.FormatInt\<close> and \<open>strconv.ParseInt\<close> in base 10 with their round trip.
\<close>

named_theorems keeps_intros \<open>frame rules: which combinators leave a component unchanged\<close>
named_theorems preserves_intros \<open>invariant rules: which combinators preserve a predicate\<close>
named_theorems atomic_intros \<open>error rules: which combinators change nothing when they fail\<close>
named_theorems prog_simps \<open>unfolding of the program combinators\<close>

section \<open>Programs with state and errors\<close>

type_synonym ('s, 'e, 'a) prog = "'s \<Rightarrow> ('e + 'a) \<times> 's"

definition ret :: "'a \<Rightarrow> ('s, 'e, 'a) prog" where
  "ret a s = (Inr a, s)"

definition fail :: "'e \<Rightarrow> ('s, 'e, 'a) prog" where
  "fail e s = (Inl e, s)"

definition bnd :: "('s, 'e, 'a) prog \<Rightarrow> ('a \<Rightarrow> ('s, 'e, 'b) prog) \<Rightarrow> ('s, 'e, 'b) prog" where
  "bnd m f s = (case m s of (Inl e, s') \<Rightarrow> (Inl e, s') | (Inr a, s') \<Rightarrow> f a s')"

definition attempt :: "('s, 'e, 'a) prog \<Rightarrow> ('s, 'e, 'e + 'a) prog" where
  "attempt m s = (case m s of (r, s') \<Rightarrow> (Inr r, s'))"

definition ignore :: "('s, 'e, 'a) prog \<Rightarrow> ('s, 'e, unit) prog" where
  "ignore m s = (case m s of (r, s') \<Rightarrow> (Inr (), s'))"

definition gets :: "('s \<Rightarrow> 'a) \<Rightarrow> ('s, 'e, 'a) prog" where
  "gets f s = (Inr (f s), s)"

definition modify :: "('s \<Rightarrow> 's) \<Rightarrow> ('s, 'e, unit) prog" where
  "modify f s = (Inr (), f s)"

text \<open>A Go \<open>for\<close> loop over a slice whose body returns on the first error.\<close>

primrec foreach :: "'x list \<Rightarrow> ('x \<Rightarrow> ('s, 'e, unit) prog) \<Rightarrow> ('s, 'e, unit) prog" where
  "foreach [] body = ret ()"
| "foreach (x # xs) body = bnd (body x) (\<lambda>_. foreach xs body)"

lemma ret_run [simp]: "ret a s = (Inr a, s)"
  by (simp add: ret_def)

lemma fail_run [simp]: "fail e s = (Inl e, s)"
  by (simp add: fail_def)

lemma gets_run [simp]: "gets f s = (Inr (f s), s)"
  by (simp add: gets_def)

lemma modify_run [simp]: "modify f s = (Inr (), f s)"
  by (simp add: modify_def)

lemma bnd_run_Inr: "m s = (Inr a, s') \<Longrightarrow> bnd m f s = f a s'"
  by (simp add: bnd_def)

lemma bnd_run_Inl: "m s = (Inl e, s') \<Longrightarrow> bnd m f s = (Inl e, s')"
  by (simp add: bnd_def)

lemma attempt_run: "m s = (r, s') \<Longrightarrow> attempt m s = (Inr r, s')"
  by (simp add: attempt_def)

lemma ignore_run: "m s = (r, s') \<Longrightarrow> ignore m s = (Inr (), s')"
  by (simp add: ignore_def)

lemmas run_rules = bnd_run_Inr bnd_run_Inl attempt_run ignore_run

lemma bnd_InrE:
  assumes "bnd m f s = (Inr b, s'')"
  obtains a s' where "m s = (Inr a, s')" and "f a s' = (Inr b, s'')"
  using assms by (auto simp: bnd_def split: prod.splits sum.splits)

lemma bnd_InlE:
  assumes "bnd m f s = (Inl e, s'')"
  obtains "m s = (Inl e, s'')" | a s' where "m s = (Inr a, s')" and "f a s' = (Inl e, s'')"
  using assms by (auto simp: bnd_def split: prod.splits sum.splits)

lemma bnd_ret_left [simp]: "bnd (ret a) f = f a"
  by (rule ext) (simp add: bnd_def)

lemma bnd_Pair_left [simp]: "bnd (Pair (Inr a)) f = f a" "bnd (Pair (Inl e)) f = Pair (Inl e)"
  by (rule ext, simp add: bnd_def)+

lemma bnd_ret_right [simp]: "bnd m ret = m"
  by (rule ext) (auto simp: bnd_def split: prod.splits sum.splits)

lemma bnd_assoc: "bnd (bnd m f) g = bnd m (\<lambda>a. bnd (f a) g)"
  by (rule ext) (auto simp: bnd_def split: prod.splits sum.splits)

lemma foreach_append: "foreach (xs @ ys) body = bnd (foreach xs body) (\<lambda>_. foreach ys body)"
proof (induction xs)
  case Nil
  show ?case by simp
next
  case (Cons x xs)
  then show ?case by (simp add: bnd_assoc)
qed

declare bnd_def [prog_simps] attempt_def [prog_simps] ignore_def [prog_simps]

subsection \<open>Frames and invariants\<close>

definition keeps :: "('s \<Rightarrow> 'b) \<Rightarrow> ('s, 'e, 'a) prog \<Rightarrow> bool" where
  "keeps f m \<longleftrightarrow> (\<forall>s. f (snd (m s)) = f s)"

definition preserves :: "('s \<Rightarrow> bool) \<Rightarrow> ('s, 'e, 'a) prog \<Rightarrow> bool" where
  "preserves P m \<longleftrightarrow> (\<forall>s. P s \<longrightarrow> P (snd (m s)))"

lemma keepsD: "keeps f m \<Longrightarrow> m s = (r, s') \<Longrightarrow> f s' = f s"
  unfolding keeps_def by (metis snd_conv)

lemma keeps_snd: "keeps f m \<Longrightarrow> f (snd (m s)) = f s"
  by (simp add: keeps_def)

lemma preservesD: "preserves P m \<Longrightarrow> P s \<Longrightarrow> m s = (r, s') \<Longrightarrow> P s'"
  unfolding preserves_def by (metis snd_conv)

lemma keeps_ret [keeps_intros]: "keeps f (ret a)"
  by (simp add: keeps_def)

lemma keeps_fail [keeps_intros]: "keeps f (fail e)"
  by (simp add: keeps_def)

lemma keeps_gets [keeps_intros]: "keeps f (gets g)"
  by (simp add: keeps_def)

lemma keeps_bnd [keeps_intros]:
  "keeps f m \<Longrightarrow> (\<And>a. keeps f (g a)) \<Longrightarrow> keeps f (bnd m g)"
  by (simp add: keeps_def bnd_def split: prod.splits sum.splits) (metis snd_conv)

lemma keeps_attempt [keeps_intros]: "keeps f m \<Longrightarrow> keeps f (attempt m)"
  by (simp add: keeps_def attempt_def split_beta)

lemma keeps_ignore [keeps_intros]: "keeps f m \<Longrightarrow> keeps f (ignore m)"
  by (simp add: keeps_def ignore_def split_beta)

lemma keeps_if [keeps_intros]: "keeps f m \<Longrightarrow> keeps f n \<Longrightarrow> keeps f (if b then m else n)"
  by simp

lemma keeps_Let [keeps_intros]: "(\<And>a. keeps f (g a)) \<Longrightarrow> keeps f (Let x g)"
  by simp

lemma keeps_case_option [keeps_intros]:
  "keeps f m \<Longrightarrow> (\<And>a. keeps f (g a)) \<Longrightarrow> keeps f (case x of None \<Rightarrow> m | Some a \<Rightarrow> g a)"
  by (cases x) auto

lemma keeps_case_sum [keeps_intros]:
  "(\<And>a. keeps f (g a)) \<Longrightarrow> (\<And>a. keeps f (h a)) \<Longrightarrow>
   keeps f (case x of Inl a \<Rightarrow> g a | Inr a \<Rightarrow> h a)"
  by (cases x) auto

lemma keeps_case_prod [keeps_intros]:
  "(\<And>a b. keeps f (g a b)) \<Longrightarrow> keeps f (case x of (a, b) \<Rightarrow> g a b)"
  by (cases x) auto

lemma keeps_foreach [keeps_intros]: "(\<And>x. keeps f (body x)) \<Longrightarrow> keeps f (foreach xs body)"
  by (induction xs) (auto intro: keeps_intros)

lemma preserves_ret [preserves_intros]: "preserves P (ret a)"
  by (simp add: preserves_def)

lemma preserves_fail [preserves_intros]: "preserves P (fail e)"
  by (simp add: preserves_def)

lemma preserves_gets [preserves_intros]: "preserves P (gets g)"
  by (simp add: preserves_def)

lemma preserves_bnd [preserves_intros]:
  "preserves P m \<Longrightarrow> (\<And>a. preserves P (g a)) \<Longrightarrow> preserves P (bnd m g)"
  by (simp add: preserves_def bnd_def split: prod.splits sum.splits) (metis snd_conv)

lemma preserves_attempt [preserves_intros]: "preserves P m \<Longrightarrow> preserves P (attempt m)"
  by (simp add: preserves_def attempt_def split_beta)

lemma preserves_ignore [preserves_intros]: "preserves P m \<Longrightarrow> preserves P (ignore m)"
  by (simp add: preserves_def ignore_def split_beta)

lemma preserves_if [preserves_intros]:
  "preserves P m \<Longrightarrow> preserves P n \<Longrightarrow> preserves P (if b then m else n)"
  by simp

lemma preserves_Let [preserves_intros]: "(\<And>a. preserves P (g a)) \<Longrightarrow> preserves P (Let x g)"
  by simp

lemma preserves_case_option [preserves_intros]:
  "preserves P m \<Longrightarrow> (\<And>a. preserves P (g a)) \<Longrightarrow>
   preserves P (case x of None \<Rightarrow> m | Some a \<Rightarrow> g a)"
  by (cases x) auto

lemma preserves_case_sum [preserves_intros]:
  "(\<And>a. preserves P (g a)) \<Longrightarrow> (\<And>a. preserves P (h a)) \<Longrightarrow>
   preserves P (case x of Inl a \<Rightarrow> g a | Inr a \<Rightarrow> h a)"
  by (cases x) auto

lemma preserves_case_prod [preserves_intros]:
  "(\<And>a b. preserves P (g a b)) \<Longrightarrow> preserves P (case x of (a, b) \<Rightarrow> g a b)"
  by (cases x) auto

lemma preserves_foreach [preserves_intros]:
  "(\<And>x. preserves P (body x)) \<Longrightarrow> preserves P (foreach xs body)"
  by (induction xs) (auto intro: preserves_intros)

lemma keeps_preserves: "keeps f m \<Longrightarrow> preserves (\<lambda>s. P (f s)) m"
  by (simp add: keeps_def preserves_def)

text \<open>\<open>hoare P m Q R\<close>: started in a state with \<open>P\<close>, a run of \<open>m\<close> that returns a value ends with \<open>Q\<close>
  of it, and a run that returns an error ends with \<open>R\<close>.\<close>

definition hoare ::
    "('s \<Rightarrow> bool) \<Rightarrow> ('s, 'e, 'a) prog \<Rightarrow> ('a \<Rightarrow> 's \<Rightarrow> bool) \<Rightarrow> ('s \<Rightarrow> bool) \<Rightarrow> bool" where
  "hoare P m Q R \<longleftrightarrow> (\<forall>s. P s \<longrightarrow> (case m s of (Inl _, s') \<Rightarrow> R s' | (Inr a, s') \<Rightarrow> Q a s'))"

lemma hoareI:
  "(\<And>s a s'. P s \<Longrightarrow> m s = (Inr a, s') \<Longrightarrow> Q a s') \<Longrightarrow>
   (\<And>s e s'. P s \<Longrightarrow> m s = (Inl e, s') \<Longrightarrow> R s') \<Longrightarrow> hoare P m Q R"
  by (auto simp: hoare_def split: prod.splits sum.splits)

lemma hoareD:
  assumes "hoare P m Q R" and "P s"
  shows "m s = (Inr a, s') \<Longrightarrow> Q a s'" and "m s = (Inl e, s') \<Longrightarrow> R s'"
  using assms by (auto simp: hoare_def)

lemma hoare_bnd:
  assumes m: "hoare P m Q' R" and g: "\<And>a. hoare (Q' a) (g a) Q R"
  shows "hoare P (bnd m g) Q R"
proof (rule hoareI)
  fix s b s'
  assume "P s" and "bnd m g s = (Inr b, s')"
  then show "Q b s'" by (elim bnd_InrE) (rule hoareD(1) [OF g hoareD(1) [OF m]])
next
  fix s e s'
  assume P: "P s" and "bnd m g s = (Inl e, s')"
  then show "R s'"
    by (elim bnd_InlE) (rule hoareD(2) [OF m P], assumption, rule hoareD(2) [OF g hoareD(1) [OF m P]])
qed

lemma hoare_weaken:
  assumes "hoare P' m Q' R'" and "\<And>s. P s \<Longrightarrow> P' s" and "\<And>a s. Q' a s \<Longrightarrow> Q a s"
    and "\<And>s. R' s \<Longrightarrow> R s"
  shows "hoare P m Q R"
  by (rule hoareI) (blast intro: assms hoareD [OF assms(1)])+

lemma hoare_ret: "(\<And>s. P s \<Longrightarrow> Q a s) \<Longrightarrow> hoare P (ret a) Q R"
  by (simp add: hoare_def)

lemma hoare_attempt:
  "hoare P m Q R \<Longrightarrow> hoare P (attempt m) (\<lambda>r s. case r of Inl _ \<Rightarrow> R s | Inr a \<Rightarrow> Q a s) R'"
  by (auto simp: hoare_def attempt_def split: prod.splits sum.splits)

lemma hoare_ignore: "hoare P m (\<lambda>_. Q) Q \<Longrightarrow> hoare P (ignore m) (\<lambda>_. Q) R"
  by (auto simp: hoare_def ignore_def split: prod.splits sum.splits)

lemma hoare_of_keeps:
  assumes "keeps f m" and "\<And>s s'. f s' = f s \<Longrightarrow> P s \<Longrightarrow> P s'"
  shows "hoare P m (\<lambda>_. P) P"
  by (rule hoareI) (use assms keepsD in \<open>metis+\<close>)

lemma preserves_hoare: "hoare P m (\<lambda>_. P) P \<Longrightarrow> preserves P m"
  by (auto simp: preserves_def hoare_def split_beta split: sum.splits)

lemma hoare_of_preserves: "preserves P m \<Longrightarrow> hoare P m (\<lambda>_. P) P"
  by (rule hoareI) (blast intro: preservesD)+

text \<open>\<open>atomic f m\<close>: a run that returns an error leaves \<open>f\<close> as it was. In a sequence, everything
  before the last part that may both change \<open>f\<close> and fail has to keep \<open>f\<close>.\<close>

definition atomic :: "('s \<Rightarrow> 'b) \<Rightarrow> ('s, 'e, 'a) prog \<Rightarrow> bool" where
  "atomic f m \<longleftrightarrow> (\<forall>s e s'. m s = (Inl e, s') \<longrightarrow> f s' = f s)"

definition never_fails :: "('s, 'e, 'a) prog \<Rightarrow> bool" where
  "never_fails m \<longleftrightarrow> (\<forall>s. \<exists>a s'. m s = (Inr a, s'))"

lemma atomicD: "atomic f m \<Longrightarrow> m s = (Inl e, s') \<Longrightarrow> f s' = f s"
  by (simp add: atomic_def)

lemma atomic_keeps: "keeps f m \<Longrightarrow> atomic f m"
  using keepsD by (auto simp: atomic_def)

lemma atomic_ret [atomic_intros]: "atomic f (ret a)" "atomic f (fail e)"
  by (simp_all add: atomic_def)

lemma atomic_bnd [atomic_intros]:
  assumes m: "keeps f m" and g: "\<And>a. atomic f (g a)"
  shows "atomic f (bnd m g)"
  unfolding atomic_def
proof (intro allI impI)
  fix s e s'
  assume "bnd m g s = (Inl e, s')"
  then show "f s' = f s"
  proof (rule bnd_InlE)
    assume "m s = (Inl e, s')"
    then show ?thesis by (rule keepsD [OF m])
  next
    fix a s1
    assume "m s = (Inr a, s1)" and "g a s1 = (Inl e, s')"
    then show ?thesis using keepsD [OF m, of s] atomicD [OF g, of a s1] by simp
  qed
qed

lemma never_failsD: "never_fails m \<Longrightarrow> m s \<noteq> (Inl e, s')"
  unfolding never_fails_def by (metis Inl_Inr_False prod.inject)

lemma atomic_bnd_never_fails:
  assumes m: "atomic f m" and g: "\<And>a. never_fails (g a)"
  shows "atomic f (bnd m g)"
  unfolding atomic_def
proof (intro allI impI)
  fix s e s'
  assume "bnd m g s = (Inl e, s')"
  then show "f s' = f s"
    by (rule bnd_InlE) (use atomicD [OF m] never_failsD [OF g] in blast)+
qed

lemma atomic_if [atomic_intros]: "atomic f m \<Longrightarrow> atomic f n \<Longrightarrow> atomic f (if b then m else n)"
  by simp

lemma atomic_Let [atomic_intros]: "(\<And>a. atomic f (g a)) \<Longrightarrow> atomic f (Let x g)"
  by simp

lemma atomic_case_option [atomic_intros]:
  "atomic f m \<Longrightarrow> (\<And>a. atomic f (g a)) \<Longrightarrow> atomic f (case x of None \<Rightarrow> m | Some a \<Rightarrow> g a)"
  by (cases x) auto

lemma atomic_case_sum [atomic_intros]:
  "(\<And>a. atomic f (g a)) \<Longrightarrow> (\<And>a. atomic f (h a)) \<Longrightarrow>
   atomic f (case x of Inl a \<Rightarrow> g a | Inr a \<Rightarrow> h a)"
  by (cases x) auto

lemma atomic_case_prod [atomic_intros]:
  "(\<And>a b. atomic f (g a b)) \<Longrightarrow> atomic f (case x of (a, b) \<Rightarrow> g a b)"
  by (cases x) auto

lemma never_fails_basic [simp]: "never_fails (ret a)" "never_fails (ignore m)" "never_fails (attempt m)"
  by (auto simp: never_fails_def ignore_def attempt_def split_beta)

section \<open>Decimals\<close>

type_synonym decimal = rat
type_synonym float64 = rat

text \<open>A whole number of cents: what a \<open>DECIMAL(15,2)\<close> column can hold.\<close>

definition cents :: "rat \<Rightarrow> bool" where
  "cents x \<longleftrightarrow> of_int \<lfloor>100 * x\<rfloor> = 100 * x"

lemma cents_iff: "cents x \<longleftrightarrow> (\<exists>n :: int. x = of_int n / 100)"
proof
  assume "cents x"
  then have "x = of_int \<lfloor>100 * x\<rfloor> / 100" unfolding cents_def by linarith
  then show "\<exists>n :: int. x = of_int n / 100" by blast
next
  assume "\<exists>n :: int. x = of_int n / 100"
  then obtain n :: int where "x = of_int n / 100" by blast
  then have "100 * x = of_int n" by simp
  then show "cents x" by (simp only: cents_def floor_of_int)
qed

lemma cents_add [simp, intro]: "cents x \<Longrightarrow> cents y \<Longrightarrow> cents (x + y)"
  unfolding cents_iff by (metis add_divide_distrib of_int_add)

lemma cents_diff [simp, intro]: "cents x \<Longrightarrow> cents y \<Longrightarrow> cents (x - y)"
  unfolding cents_iff by (metis diff_divide_distrib of_int_diff)

lemma cents_minus [simp, intro]: "cents x \<Longrightarrow> cents (- x)"
  unfolding cents_iff by (metis minus_divide_left of_int_minus)

lemma cents_abs [simp, intro]: "cents x \<Longrightarrow> cents \<bar>x\<bar>"
  by (cases "x < 0") auto

lemma cents_0 [simp]: "cents 0"
  by (simp add: cents_def)

text \<open>Two amounts in cents that are less than a cent apart are equal.\<close>

lemma cents_less:
  assumes "cents x" "cents y" "x < y"
  shows "x + 1 / 100 \<le> y"
proof -
  from assms obtain m n :: int where e: "x = of_int m / 100" "y = of_int n / 100" unfolding cents_iff by blast
  with assms(3) have "m < n" by simp
  then have "(of_int (m + 1) :: rat) \<le> of_int n" by (subst of_int_le_iff) simp
  then show ?thesis by (simp add: e)
qed

lemma cents_close: "cents x \<Longrightarrow> cents y \<Longrightarrow> \<bar>x - y\<bar> < 1 / 100 \<Longrightarrow> x = y"
  using cents_less [of x y] cents_less [of y x] by (cases x y rule: linorder_cases) auto

text \<open>An amount that ends in exactly half a cent, which rounding to cents has to break the tie for.\<close>

definition half_cent :: "rat \<Rightarrow> bool" where
  "half_cent x \<longleftrightarrow> cents (2 * x) \<and> \<not> cents x"

lemma cents_max [simp, intro]: "cents x \<Longrightarrow> cents y \<Longrightarrow> cents (max x y)"
  by (simp add: max_def)

text \<open>Rounding to two decimals, ties away from zero, as PostgreSQL rounds \<open>NUMERIC\<close>.\<close>

definition half_away :: "rat \<Rightarrow> int" where
  "half_away x = (if 0 \<le> x then \<lfloor>x + 1/2\<rfloor> else - \<lfloor>1/2 - x\<rfloor>)"

definition pg_round :: "nat \<Rightarrow> rat \<Rightarrow> rat" where
  "pg_round k x = of_int (half_away (10 ^ k * x)) / 10 ^ k"

lemma half_away_of_int [simp]: "half_away (of_int n) = n"
proof (cases "0 \<le> n")
  case True
  then show ?thesis by (simp add: half_away_def) linarith
next
  case False
  then have "\<lfloor>1 / 2 - of_int n :: rat\<rfloor> = - n" by linarith
  with False show ?thesis by (simp add: half_away_def)
qed

lemma half_away_mono: "x \<le> y \<Longrightarrow> half_away x \<le> half_away y"
proof -
  assume le: "x \<le> y"
  consider "0 \<le> x" | "x < 0" "0 \<le> y" | "x < 0" "y < 0" by linarith
  then show ?thesis
  proof cases
    case 1
    with le show ?thesis by (simp add: half_away_def floor_mono)
  next
    case 2
    then have "0 \<le> \<lfloor>1/2 - x\<rfloor>" and "0 \<le> \<lfloor>y + 1/2\<rfloor>" by linarith+
    then have "- \<lfloor>1/2 - x\<rfloor> \<le> \<lfloor>y + 1/2\<rfloor>" by linarith
    with 2 show ?thesis unfolding half_away_def by simp
  next
    case 3
    with le show ?thesis by (simp add: half_away_def floor_mono)
  qed
qed

lemma pg_round_mono: "x \<le> y \<Longrightarrow> pg_round k x \<le> pg_round k y"
  by (simp add: pg_round_def divide_right_mono half_away_mono mult_left_mono)

lemma half_away_error: "\<bar>of_int (half_away y) - y\<bar> \<le> 1 / 2"
proof (cases "0 \<le> y")
  case True
  then have e: "half_away y = \<lfloor>y + 1 / 2\<rfloor>" by (simp add: half_away_def)
  show ?thesis unfolding e using floor_correct [of "y + 1 / 2"] by linarith
next
  case False
  then have e: "half_away y = - \<lfloor>1 / 2 - y\<rfloor>" by (simp add: half_away_def)
  show ?thesis unfolding e of_int_minus using floor_correct [of "1 / 2 - y"] by linarith
qed

lemma pg_round2_error: "\<bar>pg_round 2 x - x\<bar> \<le> 1 / 200"
proof -
  define n where "n = (of_int (half_away (100 * x)) :: rat)"
  have "pg_round 2 x = n / 100" by (simp add: pg_round_def n_def)
  moreover have "\<bar>n - 100 * x\<bar> \<le> 1 / 2" unfolding n_def by (rule half_away_error)
  ultimately show ?thesis by linarith
qed

lemma pg_round_nonneg: "0 \<le> x \<Longrightarrow> 0 \<le> pg_round k x"
  by (simp add: pg_round_def half_away_def)

lemma pg_round2_cents: "cents (pg_round 2 x)"
  by (auto simp: cents_iff pg_round_def)

lemma pg_round2_id: "cents x \<Longrightarrow> pg_round 2 x = x"
proof -
  assume "cents x"
  then obtain n :: int where "x = of_int n / 100" unfolding cents_iff by blast
  moreover from this have "10 ^ 2 * x = of_int n" by simp
  ultimately show ?thesis by (simp only: pg_round_def half_away_of_int) simp
qed

lemma pg_round_keeps_cents: "cents x \<Longrightarrow> 2 \<le> k \<Longrightarrow> pg_round k x = x"
proof -
  assume "cents x" and k: "2 \<le> k"
  then obtain n :: int where x: "x = of_int n / 100" unfolding cents_iff by blast
  obtain j where j: "k = j + 2" using k le_Suc_ex [of 2 k] by (auto simp: add.commute)
  have "10 ^ k * x = of_int (n * 10 ^ j)" by (simp add: x j power_add)
  then have "half_away (10 ^ k * x) = n * 10 ^ j" by (simp only: half_away_of_int)
  then show ?thesis unfolding pg_round_def by (simp add: x j power_add)
qed

section \<open>Go float64\<close>

text \<open>
  An operation on \<open>float64\<close> values computes the exact result and rounds it to the nearest
  binary64 number, ties to even; \<open>fl64\<close> is that rounding, with gradual underflow. Results of
  magnitude \<open>2 ^ 1024\<close> and above, which Go turns into infinities, do not arise from amounts that
  fit the database columns.
\<close>

definition half_even :: "rat \<Rightarrow> int" where
  "half_even x = (let f = \<lfloor>x\<rfloor>; r = x - of_int f in
     if r < 1/2 then f else if r > 1/2 then f + 1 else if even f then f else f + 1)"

definition exponent2 :: "rat \<Rightarrow> int" where
  "exponent2 m = (case quotient_of m of (n, d) \<Rightarrow>
     let e = bitlen n - bitlen d in if 2 powi e \<le> m then e else e - 1)"

definition fl64 :: "rat \<Rightarrow> rat" where
  "fl64 x = (if x = 0 then 0
     else let e = max (exponent2 \<bar>x\<bar> - 52) (- 1074)
          in sgn x * of_int (half_even (\<bar>x\<bar> / 2 powi e)) * 2 powi e)"

lemma half_even_nonneg: "0 \<le> x \<Longrightarrow> 0 \<le> half_even x"
  by (simp add: half_even_def Let_def)

lemma half_even_of_int [simp]: "half_even (of_int n) = n"
  by (simp add: half_even_def)

lemma half_even_ge: "of_int n \<le> x \<Longrightarrow> n \<le> half_even x"
  by (simp add: half_even_def Let_def le_floor_iff) linarith

lemma fl64_0 [simp]: "fl64 0 = 0"
  by (simp add: fl64_def)

lemma fl64_nonneg: "0 \<le> x \<Longrightarrow> 0 \<le> fl64 x"
  by (simp add: fl64_def Let_def half_even_nonneg)

lemma fl64_minus: "fl64 (- x) = - fl64 x"
  by (simp add: fl64_def Let_def)

text \<open>The relative error of one rounding in the normal range, and the round trip of a literal
  with two decimals through binary64.\<close>

lemma half_even_error: "\<bar>of_int (half_even x) - x\<bar> \<le> 1 / 2"
  unfolding half_even_def Let_def by (auto simp: abs_if; linarith)

lemma powi_2_pos: "(0::rat) < 2 powi e"
  by (simp add: zero_less_power_int)

lemma bitlen_rat_bounds:
  assumes "0 < (n::int)"
  shows "2 powi (bitlen n - 1) \<le> (of_int n :: rat)" and "(of_int n :: rat) < 2 powi (bitlen n)"
proof -
  have b: "2 ^ nat (bitlen n - 1) \<le> n" "n < 2 ^ nat (bitlen n)" and p: "0 < bitlen n"
    using bitlen_bounds [OF assms] assms bitlen_eq_zero_iff [of n] bitlen_nonneg [of n] by auto
  have "(2::rat) powi (bitlen n - 1) = of_int (2 ^ nat (bitlen n - 1))"
    using p by (simp add: power_int_def)
  with b(1) show "2 powi (bitlen n - 1) \<le> (of_int n :: rat)" by (metis of_int_le_iff)
  have "(2::rat) powi (bitlen n) = of_int (2 ^ nat (bitlen n))"
    using p by (simp add: power_int_def)
  with b(2) show "(of_int n :: rat) < 2 powi (bitlen n)" by (metis of_int_less_iff)
qed

lemma exponent2_le:
  assumes "0 < m"
  shows "2 powi exponent2 m \<le> m"
proof -
  obtain n d where q: "quotient_of m = (n, d)" by force
  have d: "0 < d" and m: "m = of_int n / of_int d"
    using quotient_of_denom_pos [OF q] quotient_of_div [OF q] by auto
  with assms have n: "0 < n" by (simp add: zero_less_divide_iff)
  let ?e = "bitlen n - bitlen d"
  have "2 powi (?e - 1) = (2::rat) powi (bitlen n - 1) / 2 powi bitlen d"
    by (simp add: power_int_diff)
  also have "\<dots> \<le> of_int n / of_int d"
    using bitlen_rat_bounds [OF n] bitlen_rat_bounds [OF d] d n
    by (intro frac_le) auto
  finally have "2 powi (?e - 1) \<le> m" by (simp only: m)
  then show ?thesis
    by (simp add: exponent2_def q Let_def)
qed

lemma fl64_error:
  assumes "2 powi (- 1022) \<le> \<bar>x\<bar>"
  shows "\<bar>fl64 x - x\<bar> \<le> \<bar>x\<bar> / 2 ^ 53"
proof -
  have pos: "0 < \<bar>x\<bar>" using assms powi_2_pos [of "-1022"] by linarith
  then have x0: "x \<noteq> 0" by simp
  let ?e = "max (exponent2 \<bar>x\<bar> - 52) (- 1074)"
  let ?q = "\<bar>x\<bar> / 2 powi ?e"
  have e0: "(2::rat) powi ?e > 0" by (rule powi_2_pos)
  have "fl64 x - x = sgn x * ((of_int (half_even ?q) - ?q) * 2 powi ?e)"
    using x0 e0 by (simp add: fl64_def Let_def algebra_simps sgn_mult_abs abs_mult_sgn)
  then have "\<bar>fl64 x - x\<bar> = \<bar>of_int (half_even ?q) - ?q\<bar> * 2 powi ?e"
    using x0 e0 by (simp add: abs_mult)
  also have "\<dots> \<le> 1 / 2 * 2 powi ?e"
    using half_even_error [of ?q] e0 by (intro mult_right_mono) auto
  also have "\<dots> \<le> \<bar>x\<bar> / 2 ^ 53"
  proof (cases "exponent2 \<bar>x\<bar> - 52 \<le> - 1074")
    case True
    have "(2::rat) powi (- 1074) = 2 powi (- 1022) * 2 powi (- 52)"
      by (subst power_int_add [symmetric]) simp_all
    also have "(2::rat) powi (- 52) = 1 / 2 ^ 52" by (simp add: power_int_def power_divide)
    finally have "(1/2) * (2::rat) powi ?e = 2 powi (- 1022) / 2 ^ 53"
      using True by (simp add: max_def)
    with assms show ?thesis by (simp add: divide_right_mono)
  next
    case False
    then have "(1/2) * (2::rat) powi ?e = 2 powi exponent2 \<bar>x\<bar> / 2 ^ 53"
      by (simp add: max_def power_int_diff)
    with exponent2_le [OF pos] show ?thesis by (simp add: divide_right_mono)
  qed
  finally show ?thesis .
qed

lemma half_away_near: "\<bar>x - of_int n\<bar> < 1 / 2 \<Longrightarrow> half_away x = n"
  unfolding half_away_def abs_less_iff by (cases "0 \<le> x"; simp; linarith)

lemma pg_round2_near:
  assumes "cents x" and "\<bar>y - x\<bar> < 1 / 200"
  shows "pg_round 2 y = x"
proof -
  from assms(1) obtain n :: int where x: "x = of_int n / 100" unfolding cents_iff by blast
  with assms(2) have "\<bar>10 ^ 2 * y - of_int n\<bar> < 1 / 2" by (simp add: abs_less_iff field_simps)
  then have "half_away (10 ^ 2 * y) = n" by (rule half_away_near)
  then show ?thesis by (simp only: pg_round_def x) simp
qed

lemma pg_round2_fl64:
  assumes c: "cents x" and b: "\<bar>x\<bar> < 10 ^ 13"
  shows "pg_round 2 (fl64 x) = x"
proof (cases "x = 0")
  case True
  then show ?thesis by (simp add: pg_round2_id)
next
  case False
  from c obtain n :: int where x: "x = of_int n / 100" unfolding cents_iff by blast
  with False have "1 \<le> \<bar>n\<bar>" by auto
  then have "1 / 100 \<le> \<bar>x\<bar>" unfolding x by simp
  moreover have "(2::rat) powi (- 1022) \<le> 2 powi (- 7)"
    by (rule power_int_increasing) simp_all
  moreover have "(2::rat) powi (- 7) = 1 / 128" by (simp add: power_int_def power_divide)
  ultimately have "2 powi (- 1022) \<le> \<bar>x\<bar>" by linarith
  then have "\<bar>fl64 x - x\<bar> \<le> \<bar>x\<bar> / 2 ^ 53" by (rule fl64_error)
  moreover have "\<bar>x\<bar> / 2 ^ 53 < 1 / 200" using b by simp
  ultimately have "\<bar>fl64 x - x\<bar> < 1 / 200" by linarith
  with c show ?thesis by (rule pg_round2_near)
qed

section \<open>strconv: decimal integers as text\<close>

definition digit_char :: "nat \<Rightarrow> char" where
  "digit_char d = char_of (48 + d)"

definition digit_val :: "char \<Rightarrow> nat option" where
  "digit_val c = (let k = of_char c :: nat in if 48 \<le> k \<and> k \<le> 57 then Some (k - 48) else None)"

fun nat_str :: "nat \<Rightarrow> string" where
  "nat_str n = (if n < 10 then [digit_char n] else nat_str (n div 10) @ [digit_char (n mod 10)])"

declare nat_str.simps [simp del]

text \<open>\<open>strconv.FormatInt(n, 10)\<close>\<close>

definition FormatInt :: "int \<Rightarrow> string" where
  "FormatInt n = (if n < 0 then CHR ''-'' # nat_str (nat (- n)) else nat_str (nat n))"

fun parse_digits :: "nat \<Rightarrow> string \<Rightarrow> nat option" where
  "parse_digits acc [] = Some acc"
| "parse_digits acc (c # cs) =
     (case digit_val c of None \<Rightarrow> None | Some d \<Rightarrow> parse_digits (10 * acc + d) cs)"

text \<open>\<open>strconv.ParseInt(s, 10, 64)\<close>: an optional sign, at least one digit, the int64 range.\<close>

definition parse_nat :: "string \<Rightarrow> nat option" where
  "parse_nat s = (if s = [] then None else parse_digits 0 s)"

definition ParseInt :: "string \<Rightarrow> int option" where
  "ParseInt s = (case s of
       [] \<Rightarrow> None
     | c # cs \<Rightarrow>
         (if c = CHR ''-'' then
            (case parse_nat cs of None \<Rightarrow> None
             | Some n \<Rightarrow> if n \<le> 2 ^ 63 then Some (- int n) else None)
          else
            (case parse_nat (if c = CHR ''+'' then cs else s) of None \<Rightarrow> None
             | Some n \<Rightarrow> if n < 2 ^ 63 then Some (int n) else None)))"

definition int64 :: "int \<Rightarrow> bool" where
  "int64 n \<longleftrightarrow> - (2 ^ 63) \<le> n \<and> n < 2 ^ 63"

text \<open>Conversion to \<open>int64\<close> keeps the low 64 bits.\<close>

definition wrap64 :: "int \<Rightarrow> int" where
  "wrap64 n = (n + 2 ^ 63) mod 2 ^ 64 - 2 ^ 63"

lemma wrap64_id: "int64 n \<Longrightarrow> wrap64 n = n"
  by (simp add: wrap64_def int64_def)

lemma wrap64_range: "int64 (wrap64 n)"
  using pos_mod_bound [of "2 ^ 64 :: int" "n + 2 ^ 63"] pos_mod_sign [of "2 ^ 64 :: int" "n + 2 ^ 63"]
  unfolding wrap64_def int64_def by simp

text \<open>\<open>decimal.IntPart\<close>: the digits before the point, as an \<open>int64\<close>.\<close>

definition IntPart :: "decimal \<Rightarrow> int" where
  "IntPart d = wrap64 (if d < 0 then - \<lfloor>- d\<rfloor> else \<lfloor>d\<rfloor>)"

definition int32 :: "int \<Rightarrow> bool" where
  "int32 n \<longleftrightarrow> - (2 ^ 31) \<le> n \<and> n < 2 ^ 31"

lemma digit_val_digit_char: "d < 10 \<Longrightarrow> digit_val (digit_char d) = Some d"
  by (simp add: digit_val_def digit_char_def Let_def)

lemma digit_char_not_sign: "d < 10 \<Longrightarrow> digit_char d \<noteq> CHR ''-'' \<and> digit_char d \<noteq> CHR ''+''"
  by (auto dest!: arg_cong [where f = "of_char :: char \<Rightarrow> nat"] simp: digit_char_def)

lemma parse_digits_append:
  "parse_digits acc (xs @ ys) =
     (case parse_digits acc xs of None \<Rightarrow> None | Some a \<Rightarrow> parse_digits a ys)"
  by (induction acc xs rule: parse_digits.induct) (auto split: option.splits)

lemma nat_str_not_Nil: "nat_str n \<noteq> []"
  by (subst nat_str.simps) simp

lemma parse_digits_nat_str: "parse_digits 0 (nat_str n) = Some n"
proof (induction n rule: nat_str.induct)
  case (1 n)
  show ?case
  proof (cases "n < 10")
    case True
    then show ?thesis by (simp add: nat_str.simps [of n] digit_val_digit_char)
  next
    case False
    with 1 show ?thesis
      by (simp add: nat_str.simps [of n] parse_digits_append digit_val_digit_char)
  qed
qed

lemma parse_nat_nat_str: "parse_nat (nat_str n) = Some n"
  by (simp add: parse_nat_def nat_str_not_Nil parse_digits_nat_str)

lemma nat_str_chars: "c \<in> set (nat_str n) \<Longrightarrow> \<exists>d < 10. c = digit_char d"
proof (induction n rule: nat_str.induct)
  case (1 n)
  have "n mod 10 < 10" by simp
  with 1 show ?case
    by (cases "n < 10") (auto simp: nat_str.simps [of n] simp del: mod_less_divisor)
qed

lemma nat_str_hd: "\<exists>d < 10. hd (nat_str n) = digit_char d"
  by (rule nat_str_chars [of _ n]) (simp add: nat_str_not_Nil)

lemma ParseInt_FormatInt: "int64 n \<Longrightarrow> ParseInt (FormatInt n) = Some n"
proof (cases "n < 0")
  case True
  assume "int64 n"
  with True show ?thesis
    by (simp add: ParseInt_def FormatInt_def parse_nat_nat_str int64_def nat_le_iff)
next
  case False
  assume n: "int64 n"
  obtain c cs where cs: "nat_str (nat n) = c # cs"
    using nat_str_not_Nil by (cases "nat_str (nat n)") auto
  with nat_str_hd [of "nat n"] have "c \<noteq> CHR ''-''" and "c \<noteq> CHR ''+''"
    using digit_char_not_sign by auto
  moreover have "parse_nat (c # cs) = Some (nat n)"
    using parse_nat_nat_str [of "nat n"] cs by simp
  ultimately show ?thesis
    using False n by (simp add: ParseInt_def FormatInt_def cs int64_def nat_less_iff)
qed

lemma int32_mult_int64: "int32 a \<Longrightarrow> int32 b \<Longrightarrow> int64 (a * b)"
proof -
  assume a: "int32 a" and b: "int32 b"
  then have "\<bar>a\<bar> \<le> 2 ^ 31" and "\<bar>b\<bar> \<le> 2 ^ 31" by (auto simp: int32_def abs_if)
  then have "\<bar>a * b\<bar> \<le> 2 ^ 31 * 2 ^ 31" unfolding abs_mult by (intro mult_mono) auto
  then have "\<bar>a * b\<bar> \<le> 2 ^ 62" by simp
  then show ?thesis by (simp add: int64_def abs_le_iff)
qed

end
