(* ===== verification/Interbank_Types.thy ===== *)
theory Interbank_Types
  imports Prelude "HOL-Library.Monad_Syntax"
begin

text \<open>
  The wire types of the inter-bank protocol (\<open>domain/interbank.go\<close>) and their JSON form.

  JSON text is represented by its syntax tree. \<open>encoding/json\<close> is modelled where the source
  relies on it: an absent member or \<open>null\<close> leaves the zero value, a member of the wrong kind is
  an error, unknown members are skipped, the last of several equal members wins; member names are
  compared exactly. The text form of a \<open>decimal.Decimal\<close> is chosen by the decimal package, so the
  codec \<open>('d)\<close> below is a parameter, with the round trip the package documents as its only law.
\<close>

section \<open>JSON trees and struct fields\<close>

datatype json = JNull | JBool bool | JNum rat | JStr string | JArr "json list"
  | JObj "(string \<times> json) list"

record dcodec =
  decEnc :: "decimal \<Rightarrow> json"
  decDec :: "json \<Rightarrow> decimal option"

text \<open>The package writes a decimal as a quoted string without trailing zeros and reads quoted and bare
  numbers, with an optional sign, one optional point and an optional exponent. \<open>scale d\<close> is the number
  of digits after the point; a rational with no such number is not a decimal.\<close>

definition digits_after :: "decimal \<Rightarrow> nat \<Rightarrow> bool" where
  "digits_after d k \<longleftrightarrow> of_int \<lfloor>d * 10 ^ k\<rfloor> = d * 10 ^ k"

definition scale :: "decimal \<Rightarrow> nat option" where
  "scale d = List.find (digits_after d) [0..<Suc (nat (snd (quotient_of d)))]"

definition is_decimal :: "decimal \<Rightarrow> bool" where
  "is_decimal d \<longleftrightarrow> scale d \<noteq> None"

locale decimal_codec =
  fixes C :: dcodec
  assumes decimal_roundtrip: "is_decimal d \<Longrightarrow> decDec C (decEnc C d) = Some d"

definition jfield :: "string \<Rightarrow> (string \<times> json) list \<Rightarrow> json option" where
  "jfield k fs = map_of (rev fs) k"

text \<open>The members a struct is decoded from: an object's own, none for \<open>null\<close>.\<close>

fun jmembers :: "json \<Rightarrow> (string \<times> json) list option" where
  "jmembers (JObj fs) = Some fs"
| "jmembers JNull = Some []"
| "jmembers _ = None"

definition decStr :: "string \<Rightarrow> (string \<times> json) list \<Rightarrow> string option" where
  "decStr k fs = (case jfield k fs of
      None \<Rightarrow> Some [] | Some JNull \<Rightarrow> Some [] | Some (JStr s) \<Rightarrow> Some s | Some _ \<Rightarrow> None)"

definition decStrPtr :: "string \<Rightarrow> (string \<times> json) list \<Rightarrow> string option option" where
  "decStrPtr k fs = (case jfield k fs of
      None \<Rightarrow> Some None | Some JNull \<Rightarrow> Some None | Some (JStr s) \<Rightarrow> Some (Some s) | Some _ \<Rightarrow> None)"

definition decInt :: "string \<Rightarrow> (string \<times> json) list \<Rightarrow> int option" where
  "decInt k fs = (case jfield k fs of
      None \<Rightarrow> Some 0 | Some JNull \<Rightarrow> Some 0
    | Some (JNum q) \<Rightarrow> if of_int \<lfloor>q\<rfloor> = q \<and> int64 \<lfloor>q\<rfloor> then Some \<lfloor>q\<rfloor> else None
    | Some _ \<Rightarrow> None)"

definition decDecimal :: "dcodec \<Rightarrow> string \<Rightarrow> (string \<times> json) list \<Rightarrow> decimal option" where
  "decDecimal C k fs = (case jfield k fs of None \<Rightarrow> Some 0 | Some j \<Rightarrow> decDec C j)"

definition decStruct ::
    "(json \<Rightarrow> 'a option) \<Rightarrow> string \<Rightarrow> (string \<times> json) list \<Rightarrow> 'a option" where
  "decStruct f k fs = (case jfield k fs of None \<Rightarrow> f JNull | Some j \<Rightarrow> f j)"

definition decPtr ::
    "(json \<Rightarrow> 'a option) \<Rightarrow> string \<Rightarrow> (string \<times> json) list \<Rightarrow> 'a option option" where
  "decPtr f k fs = (case jfield k fs of
      None \<Rightarrow> Some None | Some JNull \<Rightarrow> Some None | Some j \<Rightarrow> map_option Some (f j))"

lemmas dec_defs = jfield_def decStr_def decStrPtr_def decInt_def decDecimal_def decStruct_def
  decPtr_def

section \<open>Identifiers, assets, accounts\<close>

record IdempotenceKey =
  ik_routingNumber :: int
  ik_locallyGeneratedKey :: string

record ForeignBankId =
  fb_routingNumber :: int
  fb_id :: string

datatype AssetType = MONAS | STOCK | OPTION | OtherAsset string

record MonetaryValue =
  mv_currency :: string
  mv_amount :: decimal

record OptionDescription =
  od_negotiationId :: ForeignBankId
  od_ticker :: string
  od_pricePerUnit :: MonetaryValue
  od_settlementDate :: string
  od_amount :: decimal

text \<open>\<open>MonAs\<close> and \<open>Stock\<close> point to one-field structs: their field is kept.\<close>

record Asset =
  as_type :: AssetType
  as_monAs :: "string option"
  as_stock :: "string option"
  as_option :: "OptionDescription option"

datatype AccountKind = PERSON | ACCOUNT | OPTION_ACC | OtherKind string

record TxAccount =
  ta_type :: AccountKind
  ta_id :: "ForeignBankId option"
  ta_num :: "string option"

record Posting =
  p_account :: TxAccount
  p_amount :: decimal
  p_asset :: Asset

record Transaction =
  tx_postings :: "Posting list"
  tx_transactionId :: ForeignBankId
  tx_message :: string
  tx_callNumber :: "string option"
  tx_paymentCode :: string
  tx_paymentPurpose :: string

datatype MessageType = NEW_TX | COMMIT_TX | ROLLBACK_TX | OtherMessage string

record InterbankMessage =
  im_key :: IdempotenceKey
  im_type :: MessageType
  im_message :: json

datatype VoteAnswer = YES | NO | OtherVote string

datatype NoVoteReasonCode = UNBALANCED_TX | NO_SUCH_ACCOUNT | NO_SUCH_ASSET | UNACCEPTABLE_ASSET
  | INSUFFICIENT_ASSET | OPTION_AMOUNT_INCORRECT | OPTION_USED_OR_EXPIRED
  | OPTION_NEGOTIATION_NOT_FOUND | OtherReason string

record NoVoteReason =
  nv_reason :: NoVoteReasonCode
  nv_posting :: "Posting option"

record TransactionVote =
  tv_vote :: VoteAnswer
  tv_reasons :: "NoVoteReason list"

section \<open>The string values behind the enumerations\<close>

fun assetTypeStr :: "AssetType \<Rightarrow> string" where
  "assetTypeStr MONAS = ''MONAS''"
| "assetTypeStr STOCK = ''STOCK''"
| "assetTypeStr OPTION = ''OPTION''"
| "assetTypeStr (OtherAsset s) = s"

definition assetTypeOf :: "string \<Rightarrow> AssetType" where
  "assetTypeOf s = (if s = ''MONAS'' then MONAS else if s = ''STOCK'' then STOCK
     else if s = ''OPTION'' then OPTION else OtherAsset s)"

fun accountKindStr :: "AccountKind \<Rightarrow> string" where
  "accountKindStr PERSON = ''PERSON''"
| "accountKindStr ACCOUNT = ''ACCOUNT''"
| "accountKindStr OPTION_ACC = ''OPTION''"
| "accountKindStr (OtherKind s) = s"

definition accountKindOf :: "string \<Rightarrow> AccountKind" where
  "accountKindOf s = (if s = ''PERSON'' then PERSON else if s = ''ACCOUNT'' then ACCOUNT
     else if s = ''OPTION'' then OPTION_ACC else OtherKind s)"

fun voteStr :: "VoteAnswer \<Rightarrow> string" where
  "voteStr YES = ''YES''"
| "voteStr NO = ''NO''"
| "voteStr (OtherVote s) = s"

definition voteOf :: "string \<Rightarrow> VoteAnswer" where
  "voteOf s = (if s = ''YES'' then YES else if s = ''NO'' then NO else OtherVote s)"

fun reasonStr :: "NoVoteReasonCode \<Rightarrow> string" where
  "reasonStr UNBALANCED_TX = ''UNBALANCED_TX''"
| "reasonStr NO_SUCH_ACCOUNT = ''NO_SUCH_ACCOUNT''"
| "reasonStr NO_SUCH_ASSET = ''NO_SUCH_ASSET''"
| "reasonStr UNACCEPTABLE_ASSET = ''UNACCEPTABLE_ASSET''"
| "reasonStr INSUFFICIENT_ASSET = ''INSUFFICIENT_ASSET''"
| "reasonStr OPTION_AMOUNT_INCORRECT = ''OPTION_AMOUNT_INCORRECT''"
| "reasonStr OPTION_USED_OR_EXPIRED = ''OPTION_USED_OR_EXPIRED''"
| "reasonStr OPTION_NEGOTIATION_NOT_FOUND = ''OPTION_NEGOTIATION_NOT_FOUND''"
| "reasonStr (OtherReason s) = s"

definition reasonOf :: "string \<Rightarrow> NoVoteReasonCode" where
  "reasonOf s = (case map_of (map (\<lambda>r. (reasonStr r, r))
       [UNBALANCED_TX, NO_SUCH_ACCOUNT, NO_SUCH_ASSET, UNACCEPTABLE_ASSET, INSUFFICIENT_ASSET,
        OPTION_AMOUNT_INCORRECT, OPTION_USED_OR_EXPIRED, OPTION_NEGOTIATION_NOT_FOUND]) s of
     None \<Rightarrow> OtherReason s | Some r \<Rightarrow> r)"

section \<open>Marshalling\<close>

definition encForeignBankId :: "ForeignBankId \<Rightarrow> json" where
  "encForeignBankId f = JObj [(''routingNumber'', JNum (of_int (fb_routingNumber f))),
     (''id'', JStr (fb_id f))]"

definition decForeignBankId :: "json \<Rightarrow> ForeignBankId option" where
  "decForeignBankId j = do {
     fs \<leftarrow> jmembers j;
     rn \<leftarrow> decInt ''routingNumber'' fs;
     i \<leftarrow> decStr ''id'' fs;
     Some \<lparr>fb_routingNumber = rn, fb_id = i\<rparr> }"

definition encMonetaryValue :: "dcodec \<Rightarrow> MonetaryValue \<Rightarrow> json" where
  "encMonetaryValue C m = JObj [(''currency'', JStr (mv_currency m)),
     (''amount'', decEnc C (mv_amount m))]"

definition decMonetaryValue :: "dcodec \<Rightarrow> json \<Rightarrow> MonetaryValue option" where
  "decMonetaryValue C j = do {
     fs \<leftarrow> jmembers j;
     c \<leftarrow> decStr ''currency'' fs;
     a \<leftarrow> decDecimal C ''amount'' fs;
     Some \<lparr>mv_currency = c, mv_amount = a\<rparr> }"

text \<open>\<open>MonetaryAsset\<close> and \<open>StockDescription\<close>: one string member each.\<close>

definition encOne :: "string \<Rightarrow> string \<Rightarrow> json" where
  "encOne k v = JObj [(k, JStr v)]"

definition decOne :: "string \<Rightarrow> json \<Rightarrow> string option" where
  "decOne k j = do { fs \<leftarrow> jmembers j; decStr k fs }"

definition encOption :: "dcodec \<Rightarrow> OptionDescription \<Rightarrow> json" where
  "encOption C d = JObj [
     (''negotiationId'', encForeignBankId (od_negotiationId d)),
     (''stock'', encOne ''ticker'' (od_ticker d)),
     (''pricePerUnit'', encMonetaryValue C (od_pricePerUnit d)),
     (''settlementDate'', JStr (od_settlementDate d)),
     (''amount'', decEnc C (od_amount d))]"

definition decOption :: "dcodec \<Rightarrow> json \<Rightarrow> OptionDescription option" where
  "decOption C j = do {
     fs \<leftarrow> jmembers j;
     n \<leftarrow> decStruct decForeignBankId ''negotiationId'' fs;
     t \<leftarrow> decStruct (decOne ''ticker'') ''stock'' fs;
     p \<leftarrow> decStruct (decMonetaryValue C) ''pricePerUnit'' fs;
     sd \<leftarrow> decStr ''settlementDate'' fs;
     a \<leftarrow> decDecimal C ''amount'' fs;
     Some \<lparr>od_negotiationId = n, od_ticker = t, od_pricePerUnit = p, od_settlementDate = sd,
           od_amount = a\<rparr> }"

definition encPtr :: "('a \<Rightarrow> json) \<Rightarrow> 'a option \<Rightarrow> json" where
  "encPtr f x = (case x of None \<Rightarrow> JNull | Some a \<Rightarrow> f a)"

text \<open>\<open>Asset.MarshalJSON\<close>: the branch is chosen by the discriminator; a nil pointer is \<open>null\<close>.\<close>

definition MarshalAsset :: "dcodec \<Rightarrow> Asset \<Rightarrow> json option" where
  "MarshalAsset C a = (let wrap = (\<lambda>v. Some (JObj [(''type'', JStr (assetTypeStr (as_type a))), (''asset'', v)]))
     in case as_type a of
          MONAS \<Rightarrow> wrap (encPtr (encOne ''currency'') (as_monAs a))
        | STOCK \<Rightarrow> wrap (encPtr (encOne ''ticker'') (as_stock a))
        | OPTION \<Rightarrow> wrap (encPtr (encOption C) (as_option a))
        | OtherAsset _ \<Rightarrow> None)"

text \<open>\<open>Asset.UnmarshalJSON\<close>: an absent \<open>asset\<close> member is an empty raw message, which
  \<open>json.Unmarshal\<close> rejects; an unknown discriminator is an error.\<close>

definition UnmarshalAsset :: "dcodec \<Rightarrow> json \<Rightarrow> Asset option" where
  "UnmarshalAsset C j = do {
     fs \<leftarrow> jmembers j;
     t \<leftarrow> decStr ''type'' fs;
     let body = jfield ''asset'' fs;
     (case assetTypeOf t of
        MONAS \<Rightarrow> do { b \<leftarrow> body; v \<leftarrow> decOne ''currency'' b;
           Some \<lparr>as_type = MONAS, as_monAs = Some v, as_stock = None, as_option = None\<rparr> }
      | STOCK \<Rightarrow> do { b \<leftarrow> body; v \<leftarrow> decOne ''ticker'' b;
           Some \<lparr>as_type = STOCK, as_monAs = None, as_stock = Some v, as_option = None\<rparr> }
      | OPTION \<Rightarrow> do { b \<leftarrow> body; v \<leftarrow> decOption C b;
           Some \<lparr>as_type = OPTION, as_monAs = None, as_stock = None, as_option = Some v\<rparr> }
      | OtherAsset _ \<Rightarrow> None) }"

definition encTxAccount :: "TxAccount \<Rightarrow> json" where
  "encTxAccount a = JObj ([(''type'', JStr (accountKindStr (ta_type a)))]
     @ (case ta_id a of None \<Rightarrow> [] | Some i \<Rightarrow> [(''id'', encForeignBankId i)])
     @ (case ta_num a of None \<Rightarrow> [] | Some n \<Rightarrow> [(''num'', JStr n)]))"

definition decTxAccount :: "json \<Rightarrow> TxAccount option" where
  "decTxAccount j = do {
     fs \<leftarrow> jmembers j;
     t \<leftarrow> decStr ''type'' fs;
     i \<leftarrow> decPtr decForeignBankId ''id'' fs;
     n \<leftarrow> decStrPtr ''num'' fs;
     Some \<lparr>ta_type = accountKindOf t, ta_id = i, ta_num = n\<rparr> }"

definition encPosting :: "dcodec \<Rightarrow> Posting \<Rightarrow> json option" where
  "encPosting C p = do {
     a \<leftarrow> MarshalAsset C (p_asset p);
     Some (JObj [(''account'', encTxAccount (p_account p)), (''amount'', decEnc C (p_amount p)),
                 (''asset'', a)]) }"

definition decPosting :: "dcodec \<Rightarrow> json \<Rightarrow> Posting option" where
  "decPosting C j = do {
     fs \<leftarrow> jmembers j;
     acc \<leftarrow> decStruct decTxAccount ''account'' fs;
     amt \<leftarrow> decDecimal C ''amount'' fs;
     ast \<leftarrow> (case jfield ''asset'' fs of
              None \<Rightarrow> Some \<lparr>as_type = OtherAsset [], as_monAs = None, as_stock = None, as_option = None\<rparr>
            | Some a \<Rightarrow> UnmarshalAsset C a);
     Some \<lparr>p_account = acc, p_amount = amt, p_asset = ast\<rparr> }"

fun mapM_option :: "('a \<Rightarrow> 'b option) \<Rightarrow> 'a list \<Rightarrow> 'b list option" where
  "mapM_option f [] = Some []"
| "mapM_option f (x # xs) = do { y \<leftarrow> f x; ys \<leftarrow> mapM_option f xs; Some (y # ys) }"

definition decArr :: "(json \<Rightarrow> 'a option) \<Rightarrow> string \<Rightarrow> (string \<times> json) list \<Rightarrow> 'a list option" where
  "decArr f k fs = (case jfield k fs of
      None \<Rightarrow> Some [] | Some JNull \<Rightarrow> Some [] | Some (JArr js) \<Rightarrow> mapM_option f js | Some _ \<Rightarrow> None)"

definition MarshalTransaction :: "dcodec \<Rightarrow> Transaction \<Rightarrow> json option" where
  "MarshalTransaction C t = do {
     ps \<leftarrow> mapM_option (encPosting C) (tx_postings t);
     Some (JObj ([(''postings'', JArr ps), (''transactionId'', encForeignBankId (tx_transactionId t)),
        (''message'', JStr (tx_message t))]
       @ (case tx_callNumber t of None \<Rightarrow> [] | Some n \<Rightarrow> [(''callNumber'', JStr n)])
       @ [(''paymentCode'', JStr (tx_paymentCode t)), (''paymentPurpose'', JStr (tx_paymentPurpose t))])) }"

definition UnmarshalTransaction :: "dcodec \<Rightarrow> json \<Rightarrow> Transaction option" where
  "UnmarshalTransaction C j = do {
     fs \<leftarrow> jmembers j;
     ps \<leftarrow> decArr (decPosting C) ''postings'' fs;
     i \<leftarrow> decStruct decForeignBankId ''transactionId'' fs;
     m \<leftarrow> decStr ''message'' fs;
     cn \<leftarrow> decStrPtr ''callNumber'' fs;
     pc \<leftarrow> decStr ''paymentCode'' fs;
     pp \<leftarrow> decStr ''paymentPurpose'' fs;
     Some \<lparr>tx_postings = ps, tx_transactionId = i, tx_message = m, tx_callNumber = cn,
           tx_paymentCode = pc, tx_paymentPurpose = pp\<rparr> }"

text \<open>\<open>CommitTransaction\<close> and \<open>RollbackTransaction\<close> have the same single member.\<close>

definition encTxRef :: "ForeignBankId \<Rightarrow> json" where
  "encTxRef i = JObj [(''transactionId'', encForeignBankId i)]"

definition decTxRef :: "json \<Rightarrow> ForeignBankId option" where
  "decTxRef j = do { fs \<leftarrow> jmembers j; decStruct decForeignBankId ''transactionId'' fs }"

definition encReason :: "dcodec \<Rightarrow> NoVoteReason \<Rightarrow> json option" where
  "encReason C r = (case nv_posting r of
      None \<Rightarrow> Some (JObj [(''reason'', JStr (reasonStr (nv_reason r)))])
    | Some p \<Rightarrow> do { pj \<leftarrow> encPosting C p;
        Some (JObj [(''reason'', JStr (reasonStr (nv_reason r))), (''posting'', pj)]) })"

definition decReason :: "dcodec \<Rightarrow> json \<Rightarrow> NoVoteReason option" where
  "decReason C j = do {
     fs \<leftarrow> jmembers j;
     r \<leftarrow> decStr ''reason'' fs;
     p \<leftarrow> decPtr (decPosting C) ''posting'' fs;
     Some \<lparr>nv_reason = reasonOf r, nv_posting = p\<rparr> }"

definition encVote :: "dcodec \<Rightarrow> TransactionVote \<Rightarrow> json option" where
  "encVote C v = do {
     rs \<leftarrow> mapM_option (encReason C) (tv_reasons v);
     Some (JObj ((''vote'', JStr (voteStr (tv_vote v)))
        # (if rs = [] then [] else [(''reasons'', JArr rs)]))) }"

definition decVote :: "dcodec \<Rightarrow> json \<Rightarrow> TransactionVote option" where
  "decVote C j = do {
     fs \<leftarrow> jmembers j;
     v \<leftarrow> decStr ''vote'' fs;
     rs \<leftarrow> decArr (decReason C) ''reasons'' fs;
     Some \<lparr>tv_vote = voteOf v, tv_reasons = rs\<rparr> }"

section \<open>Well-formed values and the round trips\<close>

definition wf_fbid :: "ForeignBankId \<Rightarrow> bool" where
  "wf_fbid f \<longleftrightarrow> int64 (fb_routingNumber f)"

definition wf_option :: "OptionDescription \<Rightarrow> bool" where
  "wf_option d \<longleftrightarrow> wf_fbid (od_negotiationId d) \<and> is_decimal (mv_amount (od_pricePerUnit d)) \<and> is_decimal (od_amount d)"

definition wf_asset :: "Asset \<Rightarrow> bool" where
  "wf_asset a \<longleftrightarrow> (case as_type a of
      MONAS \<Rightarrow> as_monAs a \<noteq> None \<and> as_stock a = None \<and> as_option a = None
    | STOCK \<Rightarrow> as_monAs a = None \<and> as_stock a \<noteq> None \<and> as_option a = None
    | OPTION \<Rightarrow> as_monAs a = None \<and> as_stock a = None \<and>
        (case as_option a of None \<Rightarrow> False | Some d \<Rightarrow> wf_option d)
    | OtherAsset _ \<Rightarrow> False)"

definition wf_account :: "TxAccount \<Rightarrow> bool" where
  "wf_account a \<longleftrightarrow> accountKindOf (accountKindStr (ta_type a)) = ta_type a \<and>
     (case ta_id a of None \<Rightarrow> True | Some i \<Rightarrow> wf_fbid i)"

definition wf_posting :: "Posting \<Rightarrow> bool" where
  "wf_posting p \<longleftrightarrow> wf_account (p_account p) \<and> wf_asset (p_asset p) \<and> is_decimal (p_amount p)"

definition wf_tx :: "Transaction \<Rightarrow> bool" where
  "wf_tx t \<longleftrightarrow> list_all wf_posting (tx_postings t) \<and> wf_fbid (tx_transactionId t)"

definition wf_vote :: "TransactionVote \<Rightarrow> bool" where
  "wf_vote v \<longleftrightarrow> voteOf (voteStr (tv_vote v)) = tv_vote v \<and>
     list_all (\<lambda>r. reasonOf (reasonStr (nv_reason r)) = nv_reason r \<and>
       (case nv_posting r of None \<Rightarrow> True | Some p \<Rightarrow> wf_posting p)) (tv_reasons v)"

lemma decForeignBankId_enc [simp]:
  "wf_fbid f \<Longrightarrow> decForeignBankId (encForeignBankId f) = Some f"
  by (simp add: decForeignBankId_def encForeignBankId_def dec_defs wf_fbid_def)

lemma decOne_enc [simp]: "decOne k (encOne k v) = Some v"
  by (simp add: decOne_def encOne_def dec_defs)

lemma encForeignBankId_not_null [simp]: "encForeignBankId f \<noteq> JNull"
  by (simp add: encForeignBankId_def)

lemma assetTypeOf_str [simp]:
  "assetTypeOf ''MONAS'' = MONAS" "assetTypeOf ''STOCK'' = STOCK" "assetTypeOf ''OPTION'' = OPTION"
  by (simp_all add: assetTypeOf_def)

lemma decTxAccount_enc [simp]: "wf_account a \<Longrightarrow> decTxAccount (encTxAccount a) = Some a"
  by (cases "ta_id a"; cases "ta_num a")
    (auto simp: decTxAccount_def encTxAccount_def dec_defs wf_account_def encForeignBankId_def
       decForeignBankId_def wf_fbid_def)

lemma mapM_option_roundtrip:
  assumes "\<And>x. x \<in> set xs \<Longrightarrow> \<exists>y. f x = Some y \<and> g y = Some x"
  shows "\<exists>ys. mapM_option f xs = Some ys \<and> mapM_option g ys = Some xs \<and> length ys = length xs"
  using assms
proof (induction xs)
  case Nil
  show ?case by simp
next
  case (Cons x xs)
  then obtain y ys where "f x = Some y" "g y = Some x"
    and "mapM_option f xs = Some ys" "mapM_option g ys = Some xs" "length ys = length xs"
    by (meson list.set_intros(1) list.set_intros(2))
  then show ?case by simp
qed

context decimal_codec
begin

lemma decMonetaryValue_enc: "is_decimal (mv_amount m) \<Longrightarrow> decMonetaryValue C (encMonetaryValue C m) = Some m"
  by (simp add: decMonetaryValue_def encMonetaryValue_def dec_defs decimal_roundtrip)

lemma decOption_enc: "wf_option d \<Longrightarrow> decOption C (encOption C d) = Some d"
  by (simp add: wf_option_def decOption_def encOption_def dec_defs decMonetaryValue_enc decimal_roundtrip)

lemma UnmarshalAsset_Marshal:
  "wf_asset a \<Longrightarrow> \<exists>j. MarshalAsset C a = Some j \<and> UnmarshalAsset C j = Some a"
  by (cases "as_type a")
    (auto simp: wf_asset_def MarshalAsset_def UnmarshalAsset_def dec_defs Let_def encPtr_def
       decOption_enc split: option.splits intro: Asset.equality)

lemma decPosting_enc:
  assumes "wf_posting p"
  shows "\<exists>j fs. encPosting C p = Some j \<and> decPosting C j = Some p \<and> j = JObj fs"
proof -
  from assms obtain a where "MarshalAsset C (p_asset p) = Some a" "UnmarshalAsset C a = Some (p_asset p)"
    using UnmarshalAsset_Marshal unfolding wf_posting_def by blast
  with assms show ?thesis
    by (simp add: encPosting_def decPosting_def dec_defs decimal_roundtrip wf_posting_def)
qed

lemma UnmarshalTransaction_Marshal:
  assumes "wf_tx t"
  shows "\<exists>j. MarshalTransaction C t = Some j \<and> UnmarshalTransaction C j = Some t"
proof -
  have "\<exists>ys. mapM_option (encPosting C) (tx_postings t) = Some ys \<and>
      mapM_option (decPosting C) ys = Some (tx_postings t) \<and> length ys = length (tx_postings t)"
    by (rule mapM_option_roundtrip) (use assms decPosting_enc in \<open>fastforce simp: wf_tx_def list_all_iff\<close>)
  then obtain ys where "mapM_option (encPosting C) (tx_postings t) = Some ys"
      "mapM_option (decPosting C) ys = Some (tx_postings t)" by blast
  with assms show ?thesis
    by (cases "tx_callNumber t")
      (auto simp: MarshalTransaction_def UnmarshalTransaction_def dec_defs decArr_def wf_tx_def
         intro: Transaction.equality)
qed

lemma decReason_enc:
  assumes "reasonOf (reasonStr (nv_reason r)) = nv_reason r"
    and "case nv_posting r of None \<Rightarrow> True | Some p \<Rightarrow> wf_posting p"
  shows "\<exists>j. encReason C r = Some j \<and> decReason C j = Some r"
proof (cases "nv_posting r")
  case None
  with assms show ?thesis
    by (simp add: encReason_def decReason_def dec_defs)
next
  case (Some p)
  with assms(2) obtain fs where "encPosting C p = Some (JObj fs)" "decPosting C (JObj fs) = Some p"
    using decPosting_enc by fastforce
  with Some assms(1) show ?thesis
    by (simp add: encReason_def decReason_def dec_defs)
qed

lemma decVote_enc:
  assumes "wf_vote v"
  shows "\<exists>j. encVote C v = Some j \<and> decVote C j = Some v"
proof -
  have "\<exists>ys. mapM_option (encReason C) (tv_reasons v) = Some ys \<and>
      mapM_option (decReason C) ys = Some (tv_reasons v) \<and> length ys = length (tv_reasons v)"
    by (rule mapM_option_roundtrip) (use assms decReason_enc in \<open>auto simp: wf_vote_def list_all_iff\<close>)
  then obtain ys where "mapM_option (encReason C) (tv_reasons v) = Some ys"
      "mapM_option (decReason C) ys = Some (tv_reasons v)" "length ys = length (tv_reasons v)" by blast
  with assms show ?thesis
    by (auto simp: encVote_def decVote_def dec_defs decArr_def wf_vote_def)
qed

end

section \<open>Decimals as text\<close>

definition decimal_text :: "decimal \<Rightarrow> string" where
  "decimal_text d =
     (let k = (case scale d of None \<Rightarrow> 0 | Some k \<Rightarrow> k); n = nat \<bar>\<lfloor>d * 10 ^ k\<rfloor>\<bar>; ds = nat_str n;
          ps = replicate (Suc k - length ds) (CHR ''0'') @ ds; i = length ps - k
      in (if d < 0 then ''-'' else []) @ take i ps @ (if k = 0 then [] else CHR ''.'' # drop i ps))"

definition split_at :: "(char \<Rightarrow> bool) \<Rightarrow> string \<Rightarrow> string \<times> string option" where
  "split_at P s = (takeWhile (\<lambda>c. \<not> P c) s, case dropWhile (\<lambda>c. \<not> P c) s of [] \<Rightarrow> None | _ # r \<Rightarrow> Some r)"

definition signed_nat :: "string \<Rightarrow> int option" where
  "signed_nat s = (case s of
       [] \<Rightarrow> None
     | c # cs \<Rightarrow> if c = CHR ''-'' then map_option (\<lambda>n. - int n) (parse_nat cs)
         else map_option int (parse_nat (if c = CHR ''+'' then cs else s)))"

definition text_decimal :: "string \<Rightarrow> decimal option" where
  "text_decimal s =
     (case split_at (\<lambda>c. c = CHR ''e'' \<or> c = CHR ''E'') s of (m, ex) \<Rightarrow>
      case split_at (\<lambda>c. c = CHR ''.'') m of (w, fr) \<Rightarrow> do {
        e \<leftarrow> (case ex of None \<Rightarrow> Some 0 | Some x \<Rightarrow> ParseInt x);
        c \<leftarrow> signed_nat (w @ (case fr of None \<Rightarrow> [] | Some f \<Rightarrow> f));
        let k = e - (case fr of None \<Rightarrow> 0 | Some f \<Rightarrow> int (length f));
        Some (if k \<ge> 0 then of_int c * 10 ^ nat k else of_int c / 10 ^ nat (- k)) })"

definition text_codec :: dcodec where
  "text_codec = \<lparr>decEnc = (\<lambda>d. JStr (decimal_text d)),
     decDec = (\<lambda>j. case j of JStr s \<Rightarrow> text_decimal s | JNum q \<Rightarrow> Some q | JNull \<Rightarrow> Some 0 | _ \<Rightarrow> None)\<rparr>"

lemma parse_digits_zeros: "parse_digits 0 (replicate k (CHR ''0'') @ ds) = parse_digits 0 ds"
  by (induction k) (simp_all add: digit_val_def)

definition number_char :: "char \<Rightarrow> bool" where
  "number_char c \<longleftrightarrow> c \<noteq> CHR ''.'' \<and> c \<noteq> CHR ''e'' \<and> c \<noteq> CHR ''E'' \<and> c \<noteq> CHR ''-'' \<and> c \<noteq> CHR ''+''"

lemma number_char_digit: "d < 10 \<Longrightarrow> number_char (digit_char d)"
proof -
  assume "d < 10"
  then have "digit_val (digit_char d) = Some d" by (rule digit_val_digit_char)
  moreover have "digit_val c = None" if "\<not> number_char c" for c
    using that by (auto simp: number_char_def digit_val_def)
  ultimately show ?thesis by fastforce
qed

lemma split_at_none: "(\<And>c. c \<in> set s \<Longrightarrow> \<not> P c) \<Longrightarrow> split_at P s = (s, None)"
  by (simp add: split_at_def takeWhile_eq_all_conv [THEN iffD2] dropWhile_eq_Nil_conv [THEN iffD2])

lemma split_at_mid: "(\<And>c. c \<in> set s \<Longrightarrow> \<not> P c) \<Longrightarrow> P x \<Longrightarrow> split_at P (s @ x # r) = (s, Some r)"
  by (simp add: split_at_def takeWhile_append dropWhile_append takeWhile_eq_all_conv [THEN iffD2]
      dropWhile_eq_Nil_conv [THEN iffD2])

lemma signed_nat_text:
  assumes "ps \<noteq> []" and "\<And>c. c \<in> set ps \<Longrightarrow> number_char c" and "parse_digits 0 ps = Some n"
  shows "signed_nat ((if b then ''-'' else []) @ ps) = Some (if b then - int n else int n)"
  using assms by (cases ps) (auto simp: signed_nat_def parse_nat_def number_char_def)

lemma text_decimal_text:
  assumes "is_decimal d"
  shows "text_decimal (decimal_text d) = Some d"
proof -
  from assms obtain k where k: "scale d = Some k" by (auto simp: is_decimal_def)
  then have "digits_after d k" by (auto simp: scale_def find_Some_iff)
  then have c: "of_int \<lfloor>d * 10 ^ k\<rfloor> = d * 10 ^ k" by (simp add: digits_after_def)
  define n where "n = nat \<bar>\<lfloor>d * 10 ^ k\<rfloor>\<bar>"
  define ps where "ps = replicate (Suc k - length (nat_str n)) (CHR ''0'') @ nat_str n"
  define i where "i = length ps - k"
  let ?sg = "if d < 0 then ''-'' else []"
  have txt_eq: "decimal_text d = ?sg @ take i ps @ (if k = 0 then [] else CHR ''.'' # drop i ps)"
    by (simp add: decimal_text_def k n_def ps_def i_def Let_def)
  have len: "k < length ps" by (simp add: ps_def)
  have "number_char (CHR ''0'')" by (simp add: number_char_def)
  then have chars: "number_char x" if "x \<in> set ps" for x
    using that nat_str_chars [of x n] number_char_digit by (auto simp: ps_def split: if_splits)
  have dot: "x \<noteq> CHR ''.''" "x \<noteq> CHR ''e''" "x \<noteq> CHR ''E''" if "x \<in> set ?sg \<union> set ps" for x
    using that chars [of x] by (auto simp: number_char_def split: if_splits)
  have sub: "set (take i ps) \<subseteq> set ps" "set (drop i ps) \<subseteq> set ps" by (auto dest: in_set_takeD in_set_dropD)
  have ne: "ps \<noteq> []" using len by auto
  have pd: "parse_digits 0 ps = Some n" by (simp add: ps_def parse_digits_zeros parse_digits_nat_str)
  have val: "signed_nat (?sg @ ps) = Some (if d < 0 then - int n else int n)"
    by (rule signed_nat_text [OF ne chars pd])
  have "(d * 10 ^ k < 0) = (d < 0)" by (simp add: mult_less_0_iff)
  then have "(if d < 0 then - int n else int n) = \<lfloor>d * 10 ^ k\<rfloor>"
    by (auto simp: n_def)
  with val c have v: "signed_nat (?sg @ ps) = Some \<lfloor>d * 10 ^ k\<rfloor>" by simp
  have noexp: "split_at (\<lambda>c. c = CHR ''e'' \<or> c = CHR ''E'') (decimal_text d) = (decimal_text d, None)"
  proof (rule split_at_none)
    fix c
    assume "c \<in> set (decimal_text d)"
    then consider "c \<in> set ?sg \<union> set ps" | "c = CHR ''.''" unfolding txt_eq using sub by (auto split: if_splits)
    then show "\<not> (c = CHR ''e'' \<or> c = CHR ''E'')"
      by cases (use dot(2,3) [of c] in \<open>blast, simp\<close>)
  qed
  show ?thesis
  proof (cases "k = 0")
    case True
    then have "decimal_text d = ?sg @ ps" by (simp add: txt_eq i_def)
    moreover have "split_at (\<lambda>c. c = CHR ''.'') (?sg @ ps) = (?sg @ ps, None)"
      by (rule split_at_none) (use dot(1) in \<open>unfold set_append, blast\<close>)
    ultimately show ?thesis using noexp v c True by (simp add: text_decimal_def)
  next
    case False
    then have "decimal_text d = (?sg @ take i ps) @ CHR ''.'' # drop i ps" by (simp add: txt_eq)
    moreover have "split_at (\<lambda>c. c = CHR ''.'') ((?sg @ take i ps) @ CHR ''.'' # drop i ps) = (?sg @ take i ps, Some (drop i ps))"
      by (rule split_at_mid) (use dot(1) sub in \<open>unfold set_append, blast+\<close>)
    moreover have "length (drop i ps) = k" using len by (simp add: i_def)
    moreover have "of_int \<lfloor>d * 10 ^ k\<rfloor> / 10 ^ k = d" unfolding c by simp
    ultimately show ?thesis using noexp v False by (simp add: text_decimal_def)
  qed
qed

interpretation dectext: decimal_codec text_codec
  by unfold_locales (simp add: text_codec_def text_decimal_text)

section \<open>Properties: the wire format\<close>

text \<open>C39. A transaction survives the wire: for every transaction whose postings carry exactly the part
  their discriminator announces, \<open>json.Marshal\<close> succeeds and \<open>json.Unmarshal\<close> of the result gives the
  same transaction back, whatever text form the decimal package uses.\<close>

theorem transaction_wire_roundtrip:
  assumes "decimal_codec C" and "wf_tx t"
  shows "\<exists>j. MarshalTransaction C t = Some j \<and> UnmarshalTransaction C j = Some t"
  by (rule decimal_codec.UnmarshalTransaction_Marshal [OF assms])

text \<open>A vote survives the wire, with its reasons and the postings they point to.\<close>

theorem vote_wire_roundtrip:
  assumes "decimal_codec C" and "wf_vote v"
  shows "\<exists>j. encVote C v = Some j \<and> decVote C j = Some v"
  by (rule decimal_codec.decVote_enc [OF assms])

definition sample_account :: "string \<Rightarrow> TxAccount" where
  "sample_account n = \<lparr>ta_type = ACCOUNT, ta_id = None, ta_num = Some n\<rparr>"

definition sample_money :: "string \<Rightarrow> Asset" where
  "sample_money c = \<lparr>as_type = MONAS, as_monAs = Some c, as_stock = None, as_option = None\<rparr>"

definition sample_posting :: "string \<Rightarrow> decimal \<Rightarrow> string \<Rightarrow> Posting" where
  "sample_posting n a c = \<lparr>p_account = sample_account n, p_amount = a, p_asset = sample_money c\<rparr>"

definition sample_tx :: Transaction where
  "sample_tx = \<lparr>tx_postings = [sample_posting ''A10'' (- 5 / 2) ''EUR'', sample_posting ''F77'' (5 / 2) ''EUR''],
     tx_transactionId = \<lparr>fb_routingNumber = 333, fb_id = ''t1''\<rparr>, tx_message = ''rent'', tx_callNumber = None,
     tx_paymentCode = ''289'', tx_paymentPurpose = ''rent''\<rparr>"

definition sample_no_vote :: TransactionVote where
  "sample_no_vote = \<lparr>tv_vote = NO,
     tv_reasons = [\<lparr>nv_reason = INSUFFICIENT_ASSET, nv_posting = Some (sample_posting ''A10'' (- 5 / 2) ''EUR'')\<rparr>]\<rparr>"

lemma sample_decimals: "is_decimal (- (5 / 2))" "is_decimal (5 / 2)"
  by code_simp+

lemma sample_posting_wf: "is_decimal a \<Longrightarrow> wf_posting (sample_posting n a c)"
  by (simp add: wf_posting_def sample_posting_def sample_account_def sample_money_def wf_account_def wf_asset_def
      accountKindOf_def)

theorem transaction_wire_roundtrip_witness:
  "\<exists>j. MarshalTransaction text_codec sample_tx = Some j \<and> UnmarshalTransaction text_codec j = Some sample_tx"
  by (rule transaction_wire_roundtrip [OF dectext.decimal_codec_axioms])
    (simp add: wf_tx_def sample_tx_def sample_posting_wf sample_decimals wf_fbid_def int64_def)

theorem vote_wire_roundtrip_witness:
  "\<exists>j. encVote text_codec sample_no_vote = Some j \<and> decVote text_codec j = Some sample_no_vote"
  by (rule vote_wire_roundtrip [OF dectext.decimal_codec_axioms])
    (simp add: wf_vote_def sample_no_vote_def sample_posting_wf sample_decimals voteOf_def reasonOf_def)

end
