(* ===== verification/Core_DB.thy ===== *)
theory Core_DB
  imports Interbank_Types
begin

text \<open>
  The \<open>core_banking\<close> schema as one state record, and the ways the Go code reaches it.

  A table is the list of its rows in insertion order, so an ascending identity column or an
  ascending \<open>created_at\<close> is list order; \<open>ORDER BY id\<close> is written with \<open>sort_key\<close>. \<open>racun\<close> carries the
  currency code its foreign key \<open>id_valute\<close> points to. Texts for people (\<open>opis\<close>, notes) and timestamps
  are left out.

  Every statement sent to the database is one \<open>stmt\<close>: it may fail (the field \<open>faults\<close> decides it for
  each statement, by its number \<open>tick\<close>, and theorems quantify over it), or fail because of the
  data (a value that does not fit its column), or change the state. \<open>in_tx\<close> is
  \<open>db.Transaction(func(tx) error)\<close>: an error of the body or of \<open>COMMIT\<close> undoes every write made
  through \<open>tx\<close>, and only those. As in PostgreSQL, a failed statement aborts the transaction it runs in:
  until the end every further statement fails, and so does \<open>COMMIT\<close>, also when the Go code dropped the
  error. Statements through the root handle (\<open>stmt_root\<close>: the \<open>ib_\<close> tables, which the code only
  reaches through \<open>InterbankRepository\<close>) are outside any transaction: they neither fail with it nor are
  undone.

  Arithmetic outside the repository is a parameter, the record \<open>env\<close>: conversions of the decimal
  package (\<open>NewFromFloat\<close>, \<open>InexactFloat64\<close> as bound to a statement, \<open>Div\<close>, \<open>StringFixed(2)\<close>), the
  rounding of the database on storing into \<open>DECIMAL(15,2)\<close>, \<open>DECIMAL(15,4)\<close> and \<open>NUMERIC(20,6)\<close>, its
  reading of a \<open>UUID\<close> (\<open>None\<close> for text that is none), the precision of a
  stored \<open>TIMESTAMPTZ\<close> (times count nanoseconds since 1970, the column keeps microseconds), the time zone
  database (\<open>loadLocation\<close>: the offset from UTC in seconds at each Unix second), the day a \<open>time.Time\<close> becomes when it
  is bound to a \<open>DATE\<close> column (\<open>sqlDate\<close>), and the exchange rates. The locale \<open>numerics\<close> collects what the proofs use of it.
\<close>

section \<open>Errors\<close>

text \<open>One constructor per sentinel error of the source; wrapped messages keep their sentinel
  (\<open>errors.Is\<close>), and an error without a sentinel is \<open>Errorf\<close> with a short tag. The packages
  \<open>trading\<close> and \<open>domain\<close> each have an \<open>ErrInsufficientFunds\<close>; the second is \<open>ErrPaymentFunds\<close> here.\<close>

datatype err = DBError | ErrOrderNotFound | ErrLimitPriceRequired | ErrInvalidOrderType
  | ErrInvalidDirection | ErrStopPriceRequired | ErrInsufficientMargin | ErrInvalidOrderState
  | ErrPermissionDenied | ErrSettlementDatePassed | ErrListingTypeNotAllowed
  | ErrInsufficientHoldings | ErrInsufficientFunds | ErrForexAccountNotFound
  | ErrForexCurrencyMismatch | ErrForexSameCurrency | ErrForexSameAccount | ErrActuaryNotFound
  | ErrActuaryLimitExceeded | ErrActuaryLimitBelowUsed
  | ErrActuaryLimitNegative | ErrActuaryLimitZero | ErrListingNotFound
  | ErrInterbankNotFound | ErrInterbankConflict | ErrExchangeNotFound
  | ErrPaymentIntentNotFound | ErrPaymentRecipientNotFound | ErrPaymentAlreadyFailed
  | ErrInvalidPaymentCode | ErrSameAccount | ErrAccountNotOwned | ErrRecipientAccountInvalid
  | ErrPaymentFunds | ErrDailyLimitExceeded | ErrMonthlyLimitExceeded | ErrPendingNotFound
  | ErrTooManyAttempts | ErrCodeExpired | ErrWrongCode | ErrInvalidCurrency | ErrInvalidPodvrsta
  | ErrAccountNotFound | ErrNazivVecPostoji | ErrNazivIsti | ErrAlreadyApproved | ErrPendingAlreadyExists
  | ErrKreditNotFound | ErrKreditniZahtevNotFound | ErrZahtevVecObradjen | ErrRataNotFound
  | ErrRataVecPlacena | ErrKreditForbidden | ErrKarticaNotFound | ErrKarticaLimitPremasen
  | ErrKarticaVecPostoji | ErrRacunNijeAktivan | ErrRacunNijeTvoj | ErrInvalidEmailFormat
  | ErrOvlascenoLiceMissingData | ErrOvlascenoLiceNijeDozvoljeno | ErrNotificationFailed
  | ErrDinaCardSamoRSD | ErrNepoznatTipKartice | ErrKarticaNijeTvoja | ErrKarticaVecBlokirana
  | ErrKarticaDeaktivirana | ErrNedozvoljenaPromenaSatusa | ErrKarticaVecAktivna
  | ErrCardRequestNotFound | ErrOTPInvalid | ErrOTPMaxAttempts
  | Errorf string

section \<open>Rows\<close>

record racun =
  r_id :: int
  broj_racuna :: string
  id_vlasnika :: int
  valuta_oznaka :: string
  vrsta_racuna :: string
  r_status :: string
  stanje_racuna :: decimal
  rezervisana_sredstva :: decimal
  dnevni_limit :: "decimal option"
  mesecni_limit :: "decimal option"
  dnevna_potrosnja :: decimal
  mesecna_potrosnja :: decimal
  kategorija_racuna :: string
  naziv_racuna :: string
  id_firme :: "int option"

record firma =
  f_id :: int
  naziv_firme :: string
  maticni_broj :: string
  poreski_broj :: string
  id_delatnosti :: int
  f_adresa :: string
  f_vlasnik_id :: int

record transakcija =
  t_racun_id :: int
  tip_transakcije :: string
  t_iznos :: decimal

datatype OrderType = MARKET | LIMIT | STOP | STOP_LIMIT | OtherOrderType string
datatype OrderDirection = BUY | SELL | OtherDirection string
datatype OrderStatus = PENDING | APPROVED | DECLINED | DONE | CANCELED

record Order =
  o_ID :: int
  o_UserID :: int
  o_AccountID :: int
  o_ListingID :: int
  o_OrderType :: OrderType
  o_Direction :: OrderDirection
  o_Quantity :: int
  o_ContractSize :: int
  o_PricePerUnit :: "decimal option"
  o_StopPrice :: "decimal option"
  o_Status :: OrderStatus
  o_ApprovedBy :: "string option"
  o_IsDone :: bool
  o_RemainingPortions :: int
  o_AfterHours :: bool
  o_AllOrNone :: bool
  o_Margin :: bool
  o_IsClient :: bool
  o_FundID :: "int option"

record OrderTransaction =
  ot_OrderID :: int
  ot_ExecutedQuantity :: int
  ot_ExecutedPrice :: decimal

record order_audit =
  oa_order_id :: int
  oa_old_status :: "OrderStatus option"
  oa_new_status :: OrderStatus
  oa_changed_by :: "int option"

datatype ListingType = LT_STOCK | LT_FOREX | LT_FUTURE | LT_OPTION

record Listing =
  l_ID :: int
  l_Ticker :: string
  l_Type :: ListingType
  l_Price :: float64
  l_Ask :: float64
  l_Bid :: float64
  l_Volume :: int
  l_ExchangeID :: int
  l_Details :: "json option"

record Exchange =
  x_ID :: int
  x_MICCode :: string
  x_Polity :: string
  x_Timezone :: string
  x_OpenTime :: string
  x_CloseTime :: string

record investment_fund =
  if_id :: int
  if_liquid_assets :: decimal
  if_account_id :: "int option"

record fund_security =
  fs_fund_id :: int
  fs_listing_id :: int
  fs_quantity :: decimal
  fs_acquisition_date :: int
  fs_initial_cost_rsd :: decimal

datatype ActionType = PROMENA_LIMITA | PLACANJE | PRENOS
datatype ActionStatus = PaPending | PaApproved | PaExpired | PaCancelled

record pending_action =
  pa_id :: int
  pa_vlasnik_id :: int
  pa_racun_id :: int
  pa_action_type :: ActionType
  pa_params :: json
  pa_status :: ActionStatus
  pa_code :: "string option"
  pa_expires_at :: "int option"
  pa_attempts :: int
  pa_created_at :: int

datatype IntentStatus = U_OBRADI | REALIZOVANO | ODBIJENO

record PaymentIntent =
  pi_ID :: int
  pi_IdempotencyKey :: string
  pi_BrojNaloga :: string
  pi_TipTransakcije :: ActionType
  pi_RacunPlatiocaID :: int
  pi_BrojRacunaPlatioca :: string
  pi_RacunPrimaocaID :: "int option"
  pi_BrojRacunaPrimaoca :: string
  pi_NazivPrimaoca :: string
  pi_Iznos :: decimal
  pi_KrajnjiIznos :: "decimal option"
  pi_Provizija :: decimal
  pi_Kurs :: decimal
  pi_ValutaPrimaoca :: string
  pi_Valuta :: string
  pi_SifraPlacanja :: string
  pi_PozivNaBroj :: string
  pi_SvrhaPlacanja :: string
  pi_Status :: IntentStatus
  pi_PendingActionID :: "int option"
  pi_InitiatedByUserID :: int
  pi_CreatedAt :: int
  pi_VerifiedAt :: "int option"
  pi_ExecutedAt :: "int option"
  pi_FailedReason :: string

record PaymentRecipient =
  pr_ID :: int
  pr_VlasnikID :: int
  pr_Naziv :: string
  pr_BrojRacuna :: string

datatype ActuaryType = SUPERVISOR | AGENT

record Actuary =
  a_ID :: int
  a_EmployeeID :: int
  a_Type :: ActuaryType
  a_Limit :: decimal
  a_UsedLimit :: decimal
  a_NeedApproval :: bool

record actuary_limit_change =
  al_actor :: int
  al_target :: int
  al_old_limit :: decimal
  al_new_limit :: decimal

datatype ZahtevStatus = NA_CEKANJU | ZahtevODOBREN | ZahtevODBIJEN

record KreditniZahtev =
  z_ID :: int
  z_VlasnikID :: int
  z_VrstaKredita :: string
  z_TipKamate :: string
  z_IznosKredita :: decimal
  z_Valuta :: string
  z_SvrhaKredita :: string
  z_IznosMesecnePlate :: decimal
  z_StatusZaposlenja :: string
  z_PeriodZaposlenja :: int
  z_KontaktTelefon :: string
  z_BrojRacuna :: string
  z_RokOtplate :: int
  z_Status :: ZahtevStatus
  z_DatumPodnosenja :: int

datatype KreditStatus = ODOBREN | OTPLACEN | U_KASNJENJU | ODBIJEN

record kredit =
  k_id :: int
  k_broj :: string
  k_zahtev :: "int option"
  k_racun :: string
  k_vlasnik :: int
  k_vrsta :: string
  k_tip :: string
  k_iznos :: decimal
  k_period :: int
  k_nominalna :: decimal
  k_efektivna :: decimal
  k_ugovaranja :: int
  k_isplate :: "int option"
  k_mesecna_rata :: decimal
  k_sledeca_rata :: "int option"
  k_dugovanje :: decimal
  k_valuta :: string
  k_status :: KreditStatus

datatype RataStatus = PLACENO | NEPLACENO | KASNI

record rata =
  rt_id :: int
  rt_kredit :: int
  rt_iznos :: decimal
  rt_kamata :: decimal
  rt_valuta :: string
  rt_dospece :: int
  rt_placena :: "int option"
  rt_status :: RataStatus
  rt_pokusaja :: int
  rt_sledeci :: "int option"

datatype KarticaStatus = AKTIVNA | BLOKIRANA | DEAKTIVIRANA

record kartica =
  kt_id :: int
  kt_broj :: string
  kt_tip :: string
  kt_vrsta :: string
  kt_kreirana :: int
  kt_istice :: int
  kt_racun :: int
  kt_cvv :: string
  kt_limit :: decimal
  kt_status :: KarticaStatus
  kt_provizija :: "decimal option"
  kt_konverzija :: "decimal option"

record OvlascenoLiceInput =
  ol_Ime :: string
  ol_Prezime :: string
  ol_Pol :: string
  ol_EmailAdresa :: string
  ol_BrojTelefona :: string
  ol_Adresa :: string
  ol_DatumRodjenja :: int

record CardRequestState =
  cq_AccountID :: int
  cq_TipKartice :: string
  cq_OvlascenoLice :: "OvlascenoLiceInput option"
  cq_OTPCode :: string
  cq_Attempts :: int

record public_share =
  ps_id :: int
  ps_listing_id :: int
  ps_user_id :: int
  ps_quantity :: int

datatype MsgDirection = INCOMING | OUTGOING
datatype MsgStatus = MsgPending | MsgProcessed | MsgSent | MsgFailed | MsgAccepted | MsgNoVote

text \<open>A response body as received or stored: the JSON tree of a body that parses, \<open>None\<close> else.\<close>

record InterbankMessageLog =
  ml_ID :: int
  ml_Direction :: MsgDirection
  ml_MessageType :: MessageType
  ml_IdemRouting :: int
  ml_IdemKey :: string
  ml_TargetRouting :: "int option"
  ml_Payload :: json
  ml_ResponsePayload :: "json option option"
  ml_ResponseStatusCode :: "int option"
  ml_Status :: MsgStatus
  ml_RetryCount :: int
  ml_NextRetryAt :: "int option"

datatype TxRole = COORDINATOR | PARTICIPANT
datatype TxStatus = TxNew | TxPrepared | TxCommitted | TxRolledBack | TxFailed

record InterbankTransaction =
  it_ID :: int
  it_Routing :: int
  it_ForeignID :: string
  it_Role :: TxRole
  it_Status :: TxStatus
  it_Step :: string
  it_Payload :: json
  it_InitiatorUserID :: "int option"
  it_InitiatorAccountID :: "int option"

record InterbankReservation =
  rv_TxID :: int
  rv_PostingIndex :: nat
  rv_AccountKind :: AccountKind
  rv_AccountNum :: "string option"
  rv_ForeignRouting :: "int option"
  rv_ForeignID :: "string option"
  rv_AssetType :: AssetType
  rv_AssetCurrency :: "string option"
  rv_AssetTicker :: "string option"
  rv_NegotiationRouting :: "int option"
  rv_NegotiationID :: "string option"
  rv_Amount :: decimal
  rv_Reserved :: bool

datatype ContractStatus = CsActive | CsExercised | CsExpired

record InterbankOptionContract =
  ic_Routing :: int
  ic_ForeignID :: string
  ic_StockTicker :: string
  ic_PriceCurrency :: string
  ic_PriceAmount :: decimal
  ic_PremiumCurrency :: string
  ic_PremiumAmount :: decimal
  ic_SettlementDate :: int
  ic_Amount :: int
  ic_BuyerRouting :: int
  ic_BuyerID :: string
  ic_SellerRouting :: int
  ic_SellerID :: string
  ic_Status :: ContractStatus

datatype NegotiationStatus = NsOpen | NsClosed | NsAccepted | NsCancelled

record InterbankNegotiation =
  ng_Routing :: int
  ng_ForeignID :: string
  ng_StockTicker :: string
  ng_SettlementDate :: int
  ng_PriceCurrency :: string
  ng_PriceAmount :: decimal
  ng_PremiumCurrency :: string
  ng_PremiumAmount :: decimal
  ng_Amount :: int
  ng_BuyerRouting :: int
  ng_BuyerID :: string
  ng_SellerRouting :: int
  ng_SellerID :: string
  ng_LastModifiedRouting :: int
  ng_LastModifiedID :: string
  ng_IsOngoing :: bool
  ng_Status :: NegotiationStatus
  ng_UpdatedAt :: int

section \<open>The state\<close>

record db =
  racuni :: "racun list"
  racun_seq :: int
  valute :: "(int \<times> string) list"
  delatnosti :: "int list"
  firme :: "firma list"
  firma_seq :: int
  transakcije :: "transakcija list"
  orders :: "Order list"
  order_seq :: int
  order_transactions :: "OrderTransaction list"
  order_audit_log :: "order_audit list"
  listings :: "Listing list"
  actuary_info :: "Actuary list"
  actuary_seq :: int
  actuary_limit_audit :: "actuary_limit_change list"
  krediti :: "kredit list"
  kredit_seq :: int
  kreditni_zahtevi :: "KreditniZahtev list"
  zahtev_seq :: int
  rate_kredita :: "rata list"
  rata_seq :: int
  kartice :: "kartica list"
  kartica_seq :: int
  ovlascena_lica :: "(int \<times> OvlascenoLiceInput) list"
  card_requests :: "(int \<times> CardRequestState \<times> int) list"
  public_shares :: "public_share list"
  public_shares_seq :: int
  exchanges :: "Exchange list"
  exchange_holidays :: "(string \<times> int) list"
  market_test_mode :: bool
  investment_funds :: "investment_fund list"
  fund_securities :: "fund_security list"
  pending_actions :: "pending_action list"
  pending_action_seq :: int
  payment_intents :: "PaymentIntent list"
  payment_intent_seq :: int
  payment_recipients :: "PaymentRecipient list"
  payment_recipient_seq :: int
  ib_messages :: "InterbankMessageLog list"
  ib_msg_seq :: int
  ib_transactions :: "InterbankTransaction list"
  ib_tx_seq :: int
  ib_reservations :: "InterbankReservation list"
  ib_contracts :: "InterbankOptionContract list"
  ib_negotiations :: "InterbankNegotiation list"
  key_seq :: nat
  sent :: "InterbankMessage list"
  now_utc :: int
  faults :: "nat \<Rightarrow> bool"
  tick :: nat
  tx_open :: bool
  tx_aborted :: bool

definition empty_db :: db where
  "empty_db = \<lparr>racuni = [], racun_seq = 1, valute = [], delatnosti = [], firme = [], firma_seq = 1, transakcije = [], orders = [], order_seq = 1,
     order_transactions = [], order_audit_log = [],
     listings = [], actuary_info = [], actuary_seq = 1, actuary_limit_audit = [], krediti = [], kredit_seq = 1, kreditni_zahtevi = [], zahtev_seq = 1,
     rate_kredita = [], rata_seq = 1, kartice = [], kartica_seq = 1, ovlascena_lica = [], card_requests = [], public_shares = [], public_shares_seq = 1,
     exchanges = [], exchange_holidays = [], market_test_mode = False, investment_funds = [], fund_securities = [],
     pending_actions = [], pending_action_seq = 1, payment_intents = [], payment_intent_seq = 1,
     payment_recipients = [], payment_recipient_seq = 1,
     ib_messages = [], ib_msg_seq = 1, ib_transactions = [], ib_tx_seq = 1, ib_reservations = [],
     ib_contracts = [], ib_negotiations = [], key_seq = 0, sent = [], now_utc = 0, faults = (\<lambda>_. False), tick = 0,
     tx_open = False, tx_aborted = False\<rparr>"

text \<open>\<open>key_seq\<close> counts the keys drawn from the random source, and \<open>sent\<close> lists the messages handed to the
  HTTP client, in order; both belong to the outside world and are never undone.\<close>

text \<open>The tables that are written through the handle of a transaction.\<close>

type_synonym core_tables =
  "racun list \<times> transakcija list \<times> Order list \<times> OrderTransaction list \<times> order_audit list \<times>
   Actuary list \<times> actuary_limit_change list \<times> public_share list \<times> investment_fund list \<times>
   fund_security list \<times> pending_action list \<times> PaymentIntent list \<times> firma list \<times>
   kredit list \<times> KreditniZahtev list \<times> rata list \<times> kartica list \<times> (int \<times> OvlascenoLiceInput) list"

definition core :: "db \<Rightarrow> core_tables" where
  "core s = (racuni s, transakcije s, orders s, order_transactions s, order_audit_log s, actuary_info s,
     actuary_limit_audit s, public_shares s, investment_funds s, fund_securities s, pending_actions s,
     payment_intents s, firme s, krediti s, kreditni_zahtevi s, rate_kredita s, kartice s, ovlascena_lica s)"

section \<open>Parameters: conversions, rounding, rates\<close>

record ExchangeRate =
  er_Oznaka :: string
  er_Kupovni :: float64
  er_Srednji :: float64
  er_Prodajni :: float64

record env =
  newFromFloat :: "float64 \<Rightarrow> decimal"
  sqlFloat :: "decimal \<Rightarrow> decimal"
  decDiv :: "decimal \<Rightarrow> decimal \<Rightarrow> decimal"
  stringFixed2 :: "decimal \<Rightarrow> decimal"
  round2 :: "decimal \<Rightarrow> decimal"
  round6 :: "decimal \<Rightarrow> decimal"
  round4 :: "decimal \<Rightarrow> decimal"
  uuidIn :: "string \<Rightarrow> string option"
  storeTime :: "int \<Rightarrow> int"
  loadLocation :: "string \<Rightarrow> (int \<Rightarrow> int) option"
  sqlDate :: "(int \<Rightarrow> int) \<Rightarrow> int \<Rightarrow> int"
  getRates :: "ExchangeRate list option"
  provizijaRate :: float64

locale numerics =
  fixes E :: env
  assumes round2_cents: "cents (round2 E x)"
    and round2_id: "cents x \<Longrightarrow> round2 E x = x"
    and round2_near: "\<bar>round2 E x - x\<bar> \<le> 1 / 200"
    and round2_mono: "x \<le> y \<Longrightarrow> round2 E x \<le> round2 E y"
    and sqlFloat_nonneg: "0 \<le> x \<Longrightarrow> 0 \<le> sqlFloat E x"
    and sqlFloat_cents: "cents x \<Longrightarrow> \<bar>x\<bar> < 10 ^ 13 \<Longrightarrow> sqlFloat E x = x"
    and newFromFloat_nonneg: "0 \<le> x \<Longrightarrow> 0 \<le> newFromFloat E x"
    and newFromFloat_mono: "x \<le> y \<Longrightarrow> newFromFloat E x \<le> newFromFloat E y"
    and newFromFloat_literal: "cents x \<Longrightarrow> \<bar>x\<bar> < 10 ^ 13 \<Longrightarrow> newFromFloat E (fl64 x) = x"
    and round6_cents: "cents x \<Longrightarrow> round6 E x = x"
    and round4_cents: "cents x \<Longrightarrow> round4 E x = x"
    and round4_mono: "x \<le> y \<Longrightarrow> round4 E x \<le> round4 E y"
    and round6_mono: "x \<le> y \<Longrightarrow> round6 E x \<le> round6 E y"
    and stringFixed2_cents: "cents x \<Longrightarrow> stringFixed2 E x = x"
    and stringFixed2_mono: "x \<le> y \<Longrightarrow> stringFixed2 E x \<le> stringFixed2 E y"
    and storeTime_micros: "t mod 1000 = 0 \<Longrightarrow> storeTime E t = t"
    and decDiv_nonneg: "0 \<le> x \<Longrightarrow> 0 \<le> y \<Longrightarrow> 0 \<le> decDiv E x y"
begin

lemma round2_nonneg: "0 \<le> x \<Longrightarrow> 0 \<le> round2 E x"
  using round2_mono [of 0 x] round2_id [of 0] by simp

lemma round2_le: "cents y \<Longrightarrow> x \<le> y \<Longrightarrow> round2 E x \<le> y"
  using round2_mono [of x y] round2_id [of y] by simp

lemma round2_unique:
  assumes "cents y" and "\<bar>y - x\<bar> < 1 / 200"
  shows "round2 E x = y"
proof -
  have "\<bar>round2 E x - y\<bar> < 1 / 100" using round2_near [of x] assms(2) by linarith
  with round2_cents assms(1) show ?thesis by (rule cents_close)
qed

lemma round2_shift:
  assumes "cents b" and "\<not> half_cent x"
  shows "round2 E (b + x) = b + round2 E x" "round2 E (b - x) = b - round2 E x"
proof -
  have "2 * x = round2 E x + round2 E x + 1 / 100 \<or> 2 * x = round2 E x + round2 E x - 1 / 100" if "\<bar>round2 E x - x\<bar> = 1 / 200"
    using that by linarith
  moreover have h: "cents (1 / 100)" by (simp add: cents_def)
  moreover have "cents (round2 E x + round2 E x + 1 / 100)" "cents (round2 E x + round2 E x - 1 / 100)"
    by (intro cents_add cents_diff round2_cents h)+
  ultimately have "cents (2 * x)" if "\<bar>round2 E x - x\<bar> = 1 / 200" using that by metis
  moreover have "\<not> cents x" if "\<bar>round2 E x - x\<bar> = 1 / 200" using that round2_id [of x] by auto
  ultimately have "\<bar>round2 E x - x\<bar> = 1 / 200 \<Longrightarrow> half_cent x" unfolding half_cent_def by blast
  with assms(2) have "\<bar>round2 E x - x\<bar> \<noteq> 1 / 200" by (rule contrapos_nn)
  with round2_near [of x] have near: "\<bar>round2 E x - x\<bar> < 1 / 200" by linarith
  show "round2 E (b + x) = b + round2 E x"
    by (rule round2_unique) (use assms(1) round2_cents near in \<open>simp, linarith\<close>)
  show "round2 E (b - x) = b - round2 E x"
    by (rule round2_unique) (use assms(1) round2_cents near in \<open>simp, linarith\<close>)
qed

end

text \<open>A concrete instance: two decimals kept by every conversion, PostgreSQL's rounding, and no
  exchange rates.\<close>

definition exact_env :: env where
  "exact_env = \<lparr>newFromFloat = pg_round 2, sqlFloat = (\<lambda>x. x), decDiv = (/), stringFixed2 = pg_round 2,
     round2 = pg_round 2, round6 = pg_round 6, round4 = pg_round 4, uuidIn = Some, storeTime = (\<lambda>t. t div 1000 * 1000),
     loadLocation = (\<lambda>_. Some (\<lambda>_. 0)), sqlDate = (\<lambda>off t. (t + off t) div 86400), getRates = None, provizijaRate = 0\<rparr>"

lemma numerics_exact: "numerics (exact_env\<lparr>getRates := rs, provizijaRate := p\<rparr>)"
  by unfold_locales (auto simp: exact_env_def pg_round2_cents pg_round2_id pg_round_mono pg_round2_error [simplified]
       pg_round_nonneg pg_round2_fl64 pg_round_keeps_cents)

interpretation exact: numerics exact_env
  using numerics_exact [where rs = None and p = 0] by (simp add: exact_env_def)

section \<open>Statements\<close>

definition bump :: "db \<Rightarrow> db" where
  "bump s = s\<lparr>tick := Suc (tick s)\<rparr>"

type_synonym 'a dbp = "(db, err, 'a) prog"

definition failed :: "db \<Rightarrow> db" where
  "failed s = (bump s)\<lparr>tx_aborted := tx_aborted s \<or> tx_open s\<rparr>"

definition stmt :: "(db \<Rightarrow> ('a \<times> db) option) \<Rightarrow> 'a dbp" where
  "stmt f s = (if tx_aborted s \<or> faults s (tick s) then (Inl DBError, failed s)
     else case f (bump s) of None \<Rightarrow> (Inl DBError, failed s) | Some (a, s') \<Rightarrow> (Inr a, s'))"

definition stmt_root :: "(db \<Rightarrow> ('a \<times> db) option) \<Rightarrow> 'a dbp" where
  "stmt_root f s = (if faults s (tick s) then (Inl DBError, bump s)
     else case f (bump s) of None \<Rightarrow> (Inl DBError, bump s) | Some (a, s') \<Rightarrow> (Inr a, s'))"

text \<open>A read whose error is returned, and a read whose error the code drops, which leaves the
  scan target at its zero value \<open>d\<close>.\<close>

definition query :: "(db \<Rightarrow> 'a) \<Rightarrow> 'a dbp" where
  "query f = stmt (\<lambda>s. Some (f s, s))"

definition query_or :: "'a \<Rightarrow> (db \<Rightarrow> 'a) \<Rightarrow> 'a dbp" where
  "query_or d f = bnd (attempt (query f)) (\<lambda>r. ret (case r of Inl _ \<Rightarrow> d | Inr x \<Rightarrow> x))"

definition rollback_core :: "db \<Rightarrow> db \<Rightarrow> db" where
  "rollback_core s s' = s'\<lparr>racuni := racuni s, transakcije := transakcije s, orders := orders s,
     order_transactions := order_transactions s, order_audit_log := order_audit_log s,
     actuary_info := actuary_info s, actuary_limit_audit := actuary_limit_audit s,
     public_shares := public_shares s, investment_funds := investment_funds s,
     fund_securities := fund_securities s, pending_actions := pending_actions s,
     payment_intents := payment_intents s, firme := firme s, krediti := krediti s,
     kreditni_zahtevi := kreditni_zahtevi s, rate_kredita := rate_kredita s, kartice := kartice s,
     ovlascena_lica := ovlascena_lica s\<rparr>"

definition begin_tx :: "db \<Rightarrow> db" where
  "begin_tx s = (bump s)\<lparr>tx_open := True\<rparr>"

definition end_tx :: "db \<Rightarrow> db \<Rightarrow> db" where
  "end_tx s s' = s'\<lparr>tx_open := tx_open s, tx_aborted := tx_aborted s\<rparr>"

definition in_tx :: "'a dbp \<Rightarrow> 'a dbp" where
  "in_tx m s = (if tx_aborted s \<or> faults s (tick s) then (Inl DBError, failed s)
     else case m (begin_tx s) of
       (Inl e, s') \<Rightarrow> (Inl e, end_tx s (rollback_core s (bump s')))
     | (Inr a, s') \<Rightarrow>
         if tx_aborted s' \<or> faults s' (tick s') then (Inl DBError, end_tx s (rollback_core s (bump s')))
         else (Inr a, end_tx s (bump s')))"

text \<open>\<open>UPDATE core_banking.racun SET ... WHERE ...\<close>: the number of rows it hit. The amounts are
  rounded to the column's scale, and the statement fails if one does not fit \<open>DECIMAL(15,2)\<close>.\<close>

definition store_racun :: "env \<Rightarrow> racun \<Rightarrow> racun" where
  "store_racun E r = r\<lparr>stanje_racuna := round2 E (stanje_racuna r),
     rezervisana_sredstva := round2 E (rezervisana_sredstva r)\<rparr>"

definition fits_racun :: "racun \<Rightarrow> bool" where
  "fits_racun r \<longleftrightarrow> \<bar>stanje_racuna r\<bar> < 10 ^ 13 \<and> \<bar>rezervisana_sredstva r\<bar> < 10 ^ 13"

definition upd_where :: "('r \<Rightarrow> bool) \<Rightarrow> ('r \<Rightarrow> 'r) \<Rightarrow> 'r list \<Rightarrow> 'r list" where
  "upd_where P f rs = map (\<lambda>r. if P r then f r else r) rs"

definition update_racun :: "env \<Rightarrow> (racun \<Rightarrow> bool) \<Rightarrow> (racun \<Rightarrow> racun) \<Rightarrow> nat dbp" where
  "update_racun E P f = stmt (\<lambda>s.
     if list_all (\<lambda>r. P r \<longrightarrow> fits_racun (store_racun E (f r))) (racuni s)
     then Some (length (filter P (racuni s)),
            s\<lparr>racuni := upd_where P (\<lambda>r. store_racun E (f r)) (racuni s)\<rparr>)
     else None)"

text \<open>\<open>INSERT INTO core_banking.transakcija\<close>: the amount is rounded to \<open>DECIMAL(15,2)\<close>, and
  \<open>racun_id\<close> has to reference an account.\<close>

definition insert_transakcije :: "env \<Rightarrow> transakcija list \<Rightarrow> unit dbp" where
  "insert_transakcije E ts = stmt (\<lambda>s.
     let ts' = map (\<lambda>t. t\<lparr>t_iznos := round2 E (t_iznos t)\<rparr>) ts
     in if list_all (\<lambda>t. \<bar>t_iznos t\<bar> < 10 ^ 13 \<and> list_ex (\<lambda>r. r_id r = t_racun_id t) (racuni s)) ts'
        then Some ((), s\<lparr>transakcije := transakcije s @ ts'\<rparr>) else None)"

text \<open>\<open>SELECT ... ORDER BY id LIMIT 1\<close>\<close>

definition first_racun :: "(racun \<Rightarrow> bool) \<Rightarrow> db \<Rightarrow> racun option" where
  "first_racun P s = List.find P (sort_key r_id (racuni s))"

section \<open>Rules for statements\<close>

abbreviation no_faults :: "db \<Rightarrow> bool" where
  "no_faults s \<equiv> faults s = (\<lambda>_. False) \<and> \<not> tx_aborted s"

text \<open>A component of the state that does not look at the clock and the transaction flags.\<close>

definition clock_free :: "(db \<Rightarrow> 'b) \<Rightarrow> bool" where
  "clock_free f \<longleftrightarrow> (\<forall>s t b a. f (s\<lparr>tick := t, tx_open := b, tx_aborted := a\<rparr>) = f s)"

lemma clock_freeD:
  assumes "clock_free f"
  shows "f (bump s) = f s" "f (failed s) = f s" "f (begin_tx s) = f s" "f (end_tx r s) = f s"
proof -
  have k: "f (s\<lparr>tick := t, tx_open := b, tx_aborted := a\<rparr>) = f s" for s t b a
    using assms by (simp add: clock_free_def)
  show "f (bump s) = f s" using k [where s = s and t = "Suc (tick s)" and b = "tx_open s" and a = "tx_aborted s"] by (simp add: bump_def)
  show "f (failed s) = f s"
    using k [where s = s and t = "Suc (tick s)" and b = "tx_open s" and a = "tx_aborted s \<or> tx_open s"] by (simp add: failed_def bump_def)
  show "f (begin_tx s) = f s"
    using k [where s = s and t = "Suc (tick s)" and b = True and a = "tx_aborted s"] by (simp add: begin_tx_def bump_def)
  show "f (end_tx r s) = f s"
    using k [where s = s and t = "tick s" and b = "tx_open r" and a = "tx_aborted r"] by (simp add: end_tx_def)
qed

lemma clock_free_fields:
  "clock_free racuni" "clock_free transakcije" "clock_free orders" "clock_free order_seq"
  "clock_free racun_seq" "clock_free valute" "clock_free delatnosti" "clock_free firme" "clock_free firma_seq"
  "clock_free order_transactions" "clock_free order_audit_log" "clock_free listings"
  "clock_free actuary_info" "clock_free actuary_seq" "clock_free actuary_limit_audit"
  "clock_free krediti" "clock_free kredit_seq" "clock_free kreditni_zahtevi" "clock_free zahtev_seq"
  "clock_free rate_kredita" "clock_free rata_seq" "clock_free kartice" "clock_free kartica_seq"
  "clock_free ovlascena_lica" "clock_free card_requests" "clock_free public_shares" "clock_free public_shares_seq"
 "clock_free exchanges" "clock_free exchange_holidays" "clock_free market_test_mode"
  "clock_free investment_funds" "clock_free fund_securities" "clock_free pending_actions"
  "clock_free pending_action_seq" "clock_free payment_intents" "clock_free payment_intent_seq"
  "clock_free payment_recipients" "clock_free payment_recipient_seq"
  "clock_free ib_messages" "clock_free ib_msg_seq" "clock_free ib_transactions" "clock_free ib_tx_seq"
  "clock_free ib_reservations" "clock_free ib_contracts" "clock_free ib_negotiations"
  "clock_free key_seq" "clock_free sent" "clock_free now_utc" "clock_free faults"
  "clock_free core"
  by (simp_all add: clock_free_def core_def)

declare clock_free_fields [simp]
lemmas clock_fields [simp] = clock_free_fields [THEN clock_freeD(1)] clock_free_fields [THEN clock_freeD(2)]
  clock_free_fields [THEN clock_freeD(3)] clock_free_fields [THEN clock_freeD(4)]

lemma clock_flags [simp]:
  "tx_aborted (bump s) = tx_aborted s" "tx_open (bump s) = tx_open s" "tx_open (failed s) = tx_open s"
  "tx_aborted (failed s) = (tx_aborted s \<or> tx_open s)" "tx_aborted (begin_tx s) = tx_aborted s"
  "tx_aborted (end_tx r s) = tx_aborted r" "tx_open (end_tx r s) = tx_open r"
  by (simp_all add: bump_def failed_def begin_tx_def end_tx_def)

lemma rollback_core_fields [simp]:
  "core (rollback_core s s') = core s" "racuni (rollback_core s s') = racuni s"
  "transakcije (rollback_core s s') = transakcije s" "orders (rollback_core s s') = orders s"
  "order_transactions (rollback_core s s') = order_transactions s"
  "actuary_limit_audit (rollback_core s s') = actuary_limit_audit s"
  "public_shares (rollback_core s s') = public_shares s"
  "order_audit_log (rollback_core s s') = order_audit_log s"
  "actuary_info (rollback_core s s') = actuary_info s"
  "faults (rollback_core s s') = faults s'" "ib_reservations (rollback_core s s') = ib_reservations s'"
  "ib_transactions (rollback_core s s') = ib_transactions s'"
  "ib_messages (rollback_core s s') = ib_messages s'" "ib_contracts (rollback_core s s') = ib_contracts s'"
  "ib_negotiations (rollback_core s s') = ib_negotiations s'" "key_seq (rollback_core s s') = key_seq s'"
  "sent (rollback_core s s') = sent s'" "ib_tx_seq (rollback_core s s') = ib_tx_seq s'"
  "listings (rollback_core s s') = listings s'" "now_utc (rollback_core s s') = now_utc s'"
  "krediti (rollback_core s s') = krediti s" "kredit_seq (rollback_core s s') = kredit_seq s'"
  "kreditni_zahtevi (rollback_core s s') = kreditni_zahtevi s" "zahtev_seq (rollback_core s s') = zahtev_seq s'"
  "rate_kredita (rollback_core s s') = rate_kredita s" "rata_seq (rollback_core s s') = rata_seq s'"
  "kartice (rollback_core s s') = kartice s" "kartica_seq (rollback_core s s') = kartica_seq s'"
  "ovlascena_lica (rollback_core s s') = ovlascena_lica s" "card_requests (rollback_core s s') = card_requests s'"
  "order_seq (rollback_core s s') = order_seq s'"
  "investment_funds (rollback_core s s') = investment_funds s" "fund_securities (rollback_core s s') = fund_securities s"
  "pending_actions (rollback_core s s') = pending_actions s" "payment_intents (rollback_core s s') = payment_intents s"
  "exchanges (rollback_core s s') = exchanges s'" "exchange_holidays (rollback_core s s') = exchange_holidays s'"
  "market_test_mode (rollback_core s s') = market_test_mode s'"
  "pending_action_seq (rollback_core s s') = pending_action_seq s'"
  "payment_intent_seq (rollback_core s s') = payment_intent_seq s'"
  "payment_recipients (rollback_core s s') = payment_recipients s'"
  "payment_recipient_seq (rollback_core s s') = payment_recipient_seq s'"
  "firme (rollback_core s s') = firme s" "racun_seq (rollback_core s s') = racun_seq s'"
  "firma_seq (rollback_core s s') = firma_seq s'" "valute (rollback_core s s') = valute s'"
  "delatnosti (rollback_core s s') = delatnosti s'"
  by (simp_all add: rollback_core_def core_def)

lemma stmt_ok:
  "no_faults s \<Longrightarrow> stmt f s =
     (case f (bump s) of None \<Rightarrow> (Inl DBError, failed s) | Some (a, s') \<Rightarrow> (Inr a, s'))"
  by (simp add: stmt_def)

lemma query_ok: "no_faults s \<Longrightarrow> query f s = (Inr (f (bump s)), bump s)"
  by (simp add: query_def stmt_def)

lemma query_cases: "query f s = (Inl DBError, failed s) \<or> query f s = (Inr (f (bump s)), bump s)"
  by (simp add: query_def stmt_def)

lemma query_or_ok: "no_faults s \<Longrightarrow> query_or d f s = (Inr (f (bump s)), bump s)"
  by (simp add: query_or_def bnd_def attempt_def query_ok)

lemma query_or_cases: "query_or d f s = (Inr d, failed s) \<or> query_or d f s = (Inr (f (bump s)), bump s)"
  using query_cases [of f s] by (auto simp: query_or_def bnd_def attempt_def)

lemma query_or_InrD: "query_or d f s = (Inr a, s') \<Longrightarrow> s' = failed s \<and> a = d \<or> s' = bump s \<and> a = f (bump s)"
  by (auto simp: query_or_def query_def stmt_def bnd_def attempt_def split: if_splits)

lemma query_InrD: "query f s = (Inr a, s') \<Longrightarrow> s' = bump s \<and> a = f (bump s)"
  by (auto simp: query_def stmt_def split: if_splits)

lemma query_or_never_fails [simp]: "never_fails (query_or d f)"
  by (simp add: never_fails_def query_or_def query_def stmt_def bnd_def attempt_def)

lemma update_racun_ok:
  "no_faults s \<Longrightarrow> update_racun E P f s =
     (if list_all (\<lambda>r. P r \<longrightarrow> fits_racun (store_racun E (f r))) (racuni s)
      then (Inr (length (filter P (racuni s))),
         (bump s)\<lparr>racuni := upd_where P (\<lambda>r. store_racun E (f r)) (racuni s)\<rparr>)
      else (Inl DBError, failed s))"
  by (simp add: update_racun_def stmt_def)

lemma update_racun_Inr:
  assumes "update_racun E P f s = (Inr n, s')"
  shows "n = length (filter P (racuni s))"
    and "s' = (bump s)\<lparr>racuni := upd_where P (\<lambda>r. store_racun E (f r)) (racuni s)\<rparr>"
  using assms by (auto simp: update_racun_def stmt_def split: if_splits)

lemma update_racun_Inl: "update_racun E P f s = (Inl e, s') \<Longrightarrow> s' = failed s \<and> e = DBError"
  by (auto simp: update_racun_def stmt_def split: if_splits)

lemma insert_transakcije_Inr:
  assumes "insert_transakcije E ts s = (Inr u, s')"
  shows "s' = (bump s)\<lparr>transakcije := transakcije s @ map (\<lambda>t. t\<lparr>t_iznos := round2 E (t_iznos t)\<rparr>) ts\<rparr>"
  using assms by (auto simp: insert_transakcije_def stmt_def Let_def split: if_splits)

lemma insert_transakcije_Inl: "insert_transakcije E ts s = (Inl e, s') \<Longrightarrow> s' = failed s"
  by (auto simp: insert_transakcije_def stmt_def Let_def split: if_splits)

subsection \<open>Transactions\<close>

lemma in_tx_Inl:
  assumes "in_tx m s = (Inl e, s')"
  shows "core s' = core s"
  using assms by (auto simp: in_tx_def split: prod.splits sum.splits if_splits)

lemma in_tx_InrE:
  assumes "in_tx m s = (Inr a, s')"
  obtains s1 where "m (begin_tx s) = (Inr a, s1)" and "\<not> tx_aborted s1" and "s' = end_tx s (bump s1)"
    and "\<not> tx_aborted s"
  using assms by (auto simp: in_tx_def split: prod.splits sum.splits if_splits)

lemma in_tx_ok:
  assumes "no_faults s" and "m (begin_tx s) = (Inr a, s1)" and "no_faults s1"
  shows "in_tx m s = (Inr a, end_tx s (bump s1))"
  using assms by (simp add: in_tx_def)

lemma in_tx_ok_Inl:
  assumes "no_faults s" and "m (begin_tx s) = (Inl e, s1)"
  shows "in_tx m s = (Inl e, end_tx s (rollback_core s (bump s1)))"
  using assms by (simp add: in_tx_def)

lemma keeps_stmt:
  assumes "clock_free f" and "\<And>s a s'. g s = Some (a, s') \<Longrightarrow> f s' = f s"
  shows "keeps f (stmt g)"
  using assms(2) by (auto simp: keeps_def stmt_def clock_freeD [OF assms(1)] split: option.splits)

lemma keeps_stmt_root:
  assumes "clock_free f" and "\<And>s a s'. g s = Some (a, s') \<Longrightarrow> f s' = f s"
  shows "keeps f (stmt_root g)"
  using assms(2) by (auto simp: keeps_def stmt_root_def clock_freeD [OF assms(1)] split: option.splits)

lemma keeps_query [keeps_intros]: "clock_free f \<Longrightarrow> keeps f (query g)"
  unfolding query_def by (rule keeps_stmt) auto

lemma keeps_query_or [keeps_intros]: "clock_free f \<Longrightarrow> keeps f (query_or d g)"
  unfolding query_or_def by (intro keeps_intros)

lemma keeps_in_tx:
  assumes "keeps f m" and "clock_free f"
    and "\<And>s s'. f s' = f s \<Longrightarrow> f (rollback_core s s') = f s"
  shows "keeps f (in_tx m)"
  using keepsD [OF assms(1)] assms(3)
  by (auto simp: keeps_def in_tx_def clock_freeD [OF assms(2)] split: prod.splits sum.splits)

lemma keeps_update_racun:
  "clock_free f \<Longrightarrow> (\<And>s rs. f (s\<lparr>racuni := rs\<rparr>) = f s) \<Longrightarrow> keeps f (update_racun E P g)"
  unfolding update_racun_def by (rule keeps_stmt) (auto split: if_splits)

lemma keeps_insert_transakcije:
  "clock_free f \<Longrightarrow> (\<And>s ts. f (s\<lparr>transakcije := ts\<rparr>) = f s) \<Longrightarrow>
   keeps f (insert_transakcije E us)"
  unfolding insert_transakcije_def by (rule keeps_stmt) (auto simp: Let_def split: if_splits)

lemma keeps_faults_basic [keeps_intros]:
  "keeps faults (update_racun E P g)" "keeps faults (insert_transakcije E us)"
  by (rule keeps_update_racun; simp) (rule keeps_insert_transakcije; simp)

lemma keeps_faults_in_tx [keeps_intros]: "keeps faults m \<Longrightarrow> keeps faults (in_tx m)"
  by (rule keeps_in_tx) auto

subsection \<open>Accounts\<close>

text \<open>What every amount on an account obeys as long as nothing overdraws it: whole cents, and
  \<open>0 \<le> rezervisana_sredstva \<le> stanje_racuna\<close>.\<close>

definition racun_ok :: "racun \<Rightarrow> bool" where
  "racun_ok r \<longleftrightarrow> cents (stanje_racuna r) \<and> cents (rezervisana_sredstva r) \<and>
     0 \<le> rezervisana_sredstva r \<and> rezervisana_sredstva r \<le> stanje_racuna r"

definition racuni_ok :: "db \<Rightarrow> bool" where
  "racuni_ok s \<longleftrightarrow> list_all racun_ok (racuni s)"

definition raspolozivo :: "racun \<Rightarrow> decimal" where
  "raspolozivo r = stanje_racuna r - rezervisana_sredstva r"

text \<open>The account with a given id, as a partial function of the table.\<close>

definition racun_of :: "db \<Rightarrow> int \<Rightarrow> racun option" where
  "racun_of s i = List.find (\<lambda>r. r_id r = i) (racuni s)"

definition ids_unique :: "db \<Rightarrow> bool" where
  "ids_unique s \<longleftrightarrow> distinct (map r_id (racuni s)) \<and> distinct (map broj_racuna (racuni s))"

lemma clock_free_accounts:
  "clock_free racuni_ok" "clock_free ids_unique" "clock_free (\<lambda>s. racun_of s i)"
  by (simp_all add: clock_free_def racuni_ok_def ids_unique_def racun_of_def)

declare clock_free_accounts [simp]
lemmas clock_accounts [simp] = clock_free_accounts [THEN clock_freeD(1)] clock_free_accounts [THEN clock_freeD(2)]
  clock_free_accounts [THEN clock_freeD(3)] clock_free_accounts [THEN clock_freeD(4)]

lemma find_upd_where:
  assumes "\<And>r. key (f r) = key r"
  shows "List.find (\<lambda>r. key r = i) (upd_where P f rs) =
    map_option (\<lambda>r. if P r then f r else r) (List.find (\<lambda>r. key r = i) rs)"
  using assms by (induction rs) (auto simp: upd_where_def)

lemma store_racun_fields [simp]:
  "r_id (store_racun E r) = r_id r" "broj_racuna (store_racun E r) = broj_racuna r"
  "id_vlasnika (store_racun E r) = id_vlasnika r" "valuta_oznaka (store_racun E r) = valuta_oznaka r"
  "vrsta_racuna (store_racun E r) = vrsta_racuna r" "r_status (store_racun E r) = r_status r"
  "stanje_racuna (store_racun E r) = round2 E (stanje_racuna r)"
  "rezervisana_sredstva (store_racun E r) = round2 E (rezervisana_sredstva r)"
  by (simp_all add: store_racun_def)

lemma list_all_upd_where:
  "list_all Q rs \<Longrightarrow> (\<And>r. r \<in> set rs \<Longrightarrow> P r \<Longrightarrow> Q r \<Longrightarrow> Q (f r)) \<Longrightarrow> list_all Q (upd_where P f rs)"
  by (auto simp: upd_where_def list_all_iff)

lemma map_upd_where: "(\<And>r. P r \<Longrightarrow> g (f r) = g r) \<Longrightarrow> map g (upd_where P f rs) = map g rs"
  by (simp add: upd_where_def)

lemma length_filter_0: "(length (filter P rs) = 0) = (\<forall>r \<in> set rs. \<not> P r)"
  by (simp add: filter_empty_conv)

lemma upd_where_None: "\<forall>r \<in> set rs. \<not> P r \<Longrightarrow> upd_where P f rs = rs"
  by (simp add: upd_where_def map_idI)

lemma preserves_racuni_update:
  assumes "\<And>r. racun_ok r \<Longrightarrow> P r \<Longrightarrow> racun_ok (store_racun E (f r))"
  shows "preserves racuni_ok (update_racun E P f)"
  unfolding preserves_def
proof (intro allI impI)
  fix s
  assume "racuni_ok s"
  then have "list_all racun_ok (upd_where P (\<lambda>r. store_racun E (f r)) (racuni s))"
    unfolding racuni_ok_def by (rule list_all_upd_where) (rule assms)
  with \<open>racuni_ok s\<close> show "racuni_ok (snd (update_racun E P f s))"
    by (auto simp: update_racun_def stmt_def racuni_ok_def)
qed

text \<open>Identity columns never change: an update that leaves \<open>r_id\<close> and \<open>broj_racuna\<close> alone keeps the
  keys of the table.\<close>

definition racun_keys :: "db \<Rightarrow> (int \<times> string \<times> int \<times> string \<times> string \<times> string) list" where
  "racun_keys s = map (\<lambda>r. (r_id r, broj_racuna r, id_vlasnika r, valuta_oznaka r, vrsta_racuna r, r_status r))
     (racuni s)"

definition same_key :: "(racun \<Rightarrow> racun) \<Rightarrow> bool" where
  "same_key f \<longleftrightarrow> (\<forall>r. r_id (f r) = r_id r \<and> broj_racuna (f r) = broj_racuna r \<and>
     id_vlasnika (f r) = id_vlasnika r \<and> valuta_oznaka (f r) = valuta_oznaka r \<and>
     vrsta_racuna (f r) = vrsta_racuna r \<and> r_status (f r) = r_status r)"

lemma clock_free_racun_keys [simp]: "clock_free racun_keys"
  by (simp add: clock_free_def racun_keys_def)

lemmas clock_racun_keys [simp] = clock_freeD [OF clock_free_racun_keys]

lemma keeps_racun_keys_update [keeps_intros]:
  "same_key f \<Longrightarrow> keeps racun_keys (update_racun E P f)"
  unfolding update_racun_def
  by (rule keeps_stmt) (auto simp: racun_keys_def upd_where_def same_key_def split: if_splits)

lemma keeps_racun_keys_insert [keeps_intros]: "keeps racun_keys (insert_transakcije E us)"
  by (rule keeps_insert_transakcije) (simp_all add: racun_keys_def)

lemma keeps_racun_keys_in_tx [keeps_intros]:
  "keeps racun_keys m \<Longrightarrow> keeps racun_keys (in_tx m)"
  by (rule keeps_in_tx) (simp_all add: racun_keys_def)

lemma ids_unique_keys:
  "ids_unique s \<longleftrightarrow> distinct (map fst (racun_keys s)) \<and> distinct (map (fst \<circ> snd) (racun_keys s))"
  by (simp add: ids_unique_def racun_keys_def comp_def)

lemma ids_unique_cong: "racun_keys s' = racun_keys s \<Longrightarrow> ids_unique s' = ids_unique s"
  by (simp add: ids_unique_keys)

text \<open>The clients' accounts (the treasury belongs to user 2 and may be overdrawn by the code).\<close>

definition clients_ok :: "db \<Rightarrow> bool" where
  "clients_ok s \<longleftrightarrow> ids_unique s \<and> list_all (\<lambda>r. id_vlasnika r \<noteq> 2 \<longrightarrow> racun_ok r) (racuni s)"

lemma clock_free_clients [simp]: "clock_free clients_ok"
  by (simp add: clock_free_def clients_ok_def ids_unique_def)

lemmas clock_clients [simp] = clock_freeD [OF clock_free_clients]

lemma clients_ok_cong: "racuni s' = racuni s \<Longrightarrow> clients_ok s' = clients_ok s"
  by (simp add: clients_ok_def ids_unique_def)

lemma preserves_clients_update:
  assumes "same_key f"
    and "\<And>r. racun_ok r \<Longrightarrow> P r \<Longrightarrow> id_vlasnika r \<noteq> 2 \<Longrightarrow> racun_ok (store_racun E (f r))"
  shows "preserves clients_ok (update_racun E P f)"
  unfolding preserves_def
proof (intro allI impI)
  fix s
  assume s: "clients_ok s"
  have "ids_unique (snd (update_racun E P f s)) = ids_unique s"
    by (rule ids_unique_cong) (rule keeps_snd [OF keeps_racun_keys_update [OF assms(1)]])
  moreover have "list_all (\<lambda>r. id_vlasnika r \<noteq> 2 \<longrightarrow> racun_ok r) (upd_where P (\<lambda>r. store_racun E (f r)) (racuni s))"
    by (rule list_all_upd_where) (use s assms in \<open>auto simp: clients_ok_def same_key_def\<close>)
  ultimately show "clients_ok (snd (update_racun E P f s))"
    using s by (auto simp: clients_ok_def update_racun_def stmt_def)
qed

lemma preserves_stmt:
  assumes "clock_free P" and "\<And>s a s'. P s \<Longrightarrow> g s = Some (a, s') \<Longrightarrow> P s'"
  shows "preserves P (stmt g)"
proof -
  have g: "P s \<Longrightarrow> g (bump s) = Some (a, s') \<Longrightarrow> P s'" for s a s'
    using assms(2) [of "bump s"] by (simp add: clock_freeD [OF assms(1)])
  show ?thesis
    by (auto simp: preserves_def stmt_def clock_freeD [OF assms(1)] intro: g split: option.splits)
qed

lemma preserves_query [preserves_intros]: "clock_free P \<Longrightarrow> preserves P (query f)"
  unfolding query_def by (rule preserves_stmt) auto

lemma preserves_query_or [preserves_intros]: "clock_free P \<Longrightarrow> preserves P (query_or d f)"
  unfolding query_or_def by (intro preserves_intros)

lemma preserves_insert_transakcije [preserves_intros]:
  "clock_free P \<Longrightarrow> (\<And>s ts. P (s\<lparr>transakcije := ts\<rparr>) = P s) \<Longrightarrow> preserves P (insert_transakcije E us)"
  unfolding insert_transakcije_def by (rule preserves_stmt) (auto simp: Let_def split: if_splits)

lemma preserves_in_tx:
  assumes "preserves P m" and "clock_free P" and "\<And>s s'. P s \<Longrightarrow> P s' \<Longrightarrow> P (rollback_core s s')"
  shows "preserves P (in_tx m)"
  unfolding preserves_def
proof (intro allI impI)
  fix s
  assume s: "P s"
  obtain r s1 where m: "m (begin_tx s) = (r, s1)" by force
  have s1: "P s1" by (rule preservesD [OF assms(1) _ m]) (simp add: clock_freeD [OF assms(2)] s)
  then have "P (rollback_core s (bump s1))" by (intro assms(3) s) (simp add: clock_freeD [OF assms(2)])
  with s s1 show "P (snd (in_tx m s))"
    by (simp add: in_tx_def m clock_freeD [OF assms(2)] split: sum.split)
qed

lemma clients_ok_fields [simp]:
  "clients_ok (s\<lparr>transakcije := ts\<rparr>) = clients_ok s" "clients_ok (s\<lparr>public_shares := ps\<rparr>) = clients_ok s"
  "clients_ok (s\<lparr>orders := os\<rparr>) = clients_ok s"
  by (rule clients_ok_cong; simp)+

lemma preserves_clients_in_tx [preserves_intros]:
  "preserves clients_ok m \<Longrightarrow> preserves clients_ok (in_tx m)"
  by (rule preserves_in_tx) (auto intro: clients_ok_cong [THEN iffD2])

subsection \<open>Errors\<close>

lemma core_update:
  "core (s\<lparr>racuni := rs\<rparr>) = core s \<longleftrightarrow> rs = racuni s"
  by (auto simp: core_def)

lemma atomic_in_tx [atomic_intros]: "atomic core (in_tx m)"
  unfolding atomic_def using in_tx_Inl by blast

lemma atomic_update_racun [atomic_intros]: "atomic core (update_racun E P f)"
  unfolding atomic_def by (auto dest: update_racun_Inl)

lemma atomic_insert_transakcije [atomic_intros]: "atomic core (insert_transakcije E ts)"
  unfolding atomic_def by (auto dest: insert_transakcije_Inl)

lemma keeps_core_query [keeps_intros]: "keeps core (query f)" "keeps core (query_or d f)"
  by (intro keeps_intros; simp)+

text \<open>An \<open>UPDATE\<close> whose \<open>RowsAffected == 0\<close> is an error.\<close>

lemma update_racun_InrD:
  "update_racun E P f s = (Inr n, s') \<Longrightarrow> n = length (filter P (racuni s)) \<and>
     s' = (bump s)\<lparr>racuni := upd_where P (\<lambda>r. store_racun E (f r)) (racuni s)\<rparr>"
  using update_racun_Inr by blast

lemma guarded_update_Inl:
  assumes "bnd (update_racun E P f) (\<lambda>n. if n = 0 then fail e else ret a) s = (Inl e', s')"
  shows "racuni s' = racuni s \<and> core s' = core s"
  using assms
  by (auto elim!: bnd_InlE dest!: update_racun_Inl update_racun_InrD simp: core_def
      filter_empty_conv upd_where_None split: if_splits)

lemma guarded_update_InrE:
  assumes "bnd (update_racun E P f) (\<lambda>n. if n = 0 then fail e else ret a) s = (Inr a', s')"
  obtains r where "r \<in> set (racuni s)" "P r"
    "s' = (bump s)\<lparr>racuni := upd_where P (\<lambda>r. store_racun E (f r)) (racuni s)\<rparr>"
  using assms
  by (auto elim!: bnd_InrE dest!: update_racun_InrD split: if_splits simp: filter_empty_conv)

lemma atomic_guarded_update [atomic_intros]:
  "atomic core (bnd (update_racun E P f) (\<lambda>n. if n = 0 then fail e else ret a))"
  unfolding atomic_def by (blast dest: guarded_update_Inl)

text \<open>With unique ids, the account a guarded update hits is the one its id names.\<close>

lemma find_unique:
  "distinct (map key rs) \<Longrightarrow> r \<in> set rs \<Longrightarrow> List.find (\<lambda>x. key x = key r) rs = Some r"
  by (induction rs) (auto simp: image_iff)

lemma racun_of_unique: "ids_unique s \<Longrightarrow> r \<in> set (racuni s) \<Longrightarrow> racun_of s (r_id r) = Some r"
  unfolding ids_unique_def racun_of_def by (blast intro: find_unique)

lemma racun_of_SomeD: "racun_of s i = Some r \<Longrightarrow> r \<in> set (racuni s) \<and> r_id r = i"
  by (auto simp: racun_of_def find_Some_iff)

lemma racun_of_upd:
  assumes "\<And>r. r_id (f r) = r_id r"
  shows "racun_of (s\<lparr>racuni := upd_where P f (racuni s)\<rparr>) i =
    map_option (\<lambda>r. if P r then f r else r) (racun_of s i)"
  unfolding racun_of_def using find_upd_where [of r_id f] assms by simp

subsection \<open>Runs without database failures\<close>

text \<open>No statement fails on its own, and no transaction is open. Outside a transaction a statement
  refused because of the data leaves the connection usable.\<close>

definition healthy :: "db \<Rightarrow> bool" where
  "healthy s \<longleftrightarrow> faults s = (\<lambda>_. False) \<and> \<not> tx_aborted s \<and> \<not> tx_open s"

lemma healthy_clock [simp]: "healthy (bump s) = healthy s" "healthy s \<Longrightarrow> healthy (failed s)"
  by (simp_all add: healthy_def)

lemma healthy_no_faults: "healthy s \<Longrightarrow> no_faults s"
  by (simp add: healthy_def)

lemma preserves_healthy_stmt:
  assumes "\<And>s a s'. g s = Some (a, s') \<Longrightarrow> healthy s' = healthy s"
  shows "preserves healthy (stmt g)"
proof -
  have g: "healthy s \<Longrightarrow> g (bump s) = Some (a, s') \<Longrightarrow> healthy s'" for s a s'
    using assms [of "bump s"] by simp
  show ?thesis by (auto simp: preserves_def stmt_def intro: g split: option.splits)
qed

lemma preserves_healthy_query [preserves_intros]: "preserves healthy (query f)" "preserves healthy (query_or d f)"
proof -
  show q: "preserves healthy (query f)" for f :: "db \<Rightarrow> 'a"
    unfolding query_def by (rule preserves_healthy_stmt) auto
  show "preserves healthy (query_or d f)"
    unfolding query_or_def by (intro preserves_intros q)
qed

lemma preserves_healthy_update_racun [preserves_intros]: "preserves healthy (update_racun E P f)"
  unfolding update_racun_def by (rule preserves_healthy_stmt) (auto simp: healthy_def split: if_splits)

lemma preserves_healthy_insert [preserves_intros]: "preserves healthy (insert_transakcije E ts)"
  unfolding insert_transakcije_def
  by (rule preserves_healthy_stmt) (auto simp: healthy_def Let_def split: if_splits)

subsection \<open>Single accounts\<close>

text \<open>The table seen through its primary key: \<open>racun_of\<close> reads a row, \<open>put_racun\<close> replaces it.\<close>

definition put_racun :: "int \<Rightarrow> racun \<Rightarrow> db \<Rightarrow> db" where
  "put_racun i r s = s\<lparr>racuni := upd_where (\<lambda>x. r_id x = i) (\<lambda>_. r) (racuni s)\<rparr>"

lemma put_racun_frame [simp]:
  "transakcije (put_racun i r s) = transakcije s" "orders (put_racun i r s) = orders s"
  "public_shares (put_racun i r s) = public_shares s" "faults (put_racun i r s) = faults s"
  "tx_aborted (put_racun i r s) = tx_aborted s" "listings (put_racun i r s) = listings s"
  "ib_transactions (put_racun i r s) = ib_transactions s" "ib_messages (put_racun i r s) = ib_messages s"
  "krediti (put_racun i r s) = krediti s" "kreditni_zahtevi (put_racun i r s) = kreditni_zahtevi s"
  "rate_kredita (put_racun i r s) = rate_kredita s" "kartice (put_racun i r s) = kartice s"
  "actuary_info (put_racun i r s) = actuary_info s" "ib_reservations (put_racun i r s) = ib_reservations s"
  "ib_contracts (put_racun i r s) = ib_contracts s" "ib_negotiations (put_racun i r s) = ib_negotiations s"
  "order_transactions (put_racun i r s) = order_transactions s" "order_audit_log (put_racun i r s) = order_audit_log s"
  "investment_funds (put_racun i r s) = investment_funds s" "fund_securities (put_racun i r s) = fund_securities s"
  "pending_actions (put_racun i r s) = pending_actions s" "payment_intents (put_racun i r s) = payment_intents s"
  "key_seq (put_racun i r s) = key_seq s" "sent (put_racun i r s) = sent s" "now_utc (put_racun i r s) = now_utc s"
  by (simp_all add: put_racun_def)

lemma bump_put_racun:
  "bump (put_racun i r s) = put_racun i r (bump s)" "begin_tx (put_racun i r s) = put_racun i r (begin_tx s)"
  by (simp_all add: bump_def begin_tx_def put_racun_def)

lemma find_put:
  "key r = i \<Longrightarrow> List.find (\<lambda>x. key x = j) (upd_where (\<lambda>x. key x = i) (\<lambda>_. r) rs) =
     (if j = i then map_option (\<lambda>_. r) (List.find (\<lambda>x. key x = i) rs)
      else List.find (\<lambda>x. key x = j) rs)"
  by (induction rs) (auto simp: upd_where_def)

lemma racun_of_put:
  "r_id r = i \<Longrightarrow> racun_of (put_racun i r s) j =
     (if j = i then map_option (\<lambda>_. r) (racun_of s i) else racun_of s j)"
  by (simp add: racun_of_def put_racun_def find_put [where key = r_id])

lemma put_put: "r_id r = i \<Longrightarrow> put_racun i r' (put_racun i r s) = put_racun i r' s"
  by (simp add: put_racun_def upd_where_def)

lemma put_same:
  assumes "ids_unique s" and "racun_of s i = Some r"
  shows "put_racun i r s = s"
proof -
  have "x = r" if "x \<in> set (racuni s)" and "r_id x = i" for x
    using racun_of_unique [OF assms(1) that(1)] assms(2) that(2) by simp
  then have "upd_where (\<lambda>x. r_id x = i) (\<lambda>_. r) (racuni s) = racuni s"
    unfolding upd_where_def by (intro map_idI) auto
  then show ?thesis by (simp add: put_racun_def)
qed

lemma racun_keys_put:
  assumes "ids_unique s" and "racun_of s i = Some r" and "r_id r' = r_id r" "broj_racuna r' = broj_racuna r"
    "id_vlasnika r' = id_vlasnika r" "valuta_oznaka r' = valuta_oznaka r"
    "vrsta_racuna r' = vrsta_racuna r" "r_status r' = r_status r"
  shows "racun_keys (put_racun i r' s) = racun_keys s"
proof -
  have "x = r" if "x \<in> set (racuni s)" and "r_id x = i" for x
    using racun_of_unique [OF assms(1) that(1)] assms(2) that(2) by simp
  then show ?thesis using assms(3-8) by (auto simp: racun_keys_def put_racun_def upd_where_def)
qed

lemma filter_key:
  assumes "distinct (map key rs)" and "List.find (\<lambda>x. key x = i) rs = Some r"
    and "\<And>x. P x \<Longrightarrow> key x = i"
  shows "filter P rs = (if P r then [r] else [])"
  using assms
proof (induction rs)
  case (Cons a rs)
  show ?case
  proof (cases "key a = i")
    case True
    with Cons.prems have "filter P rs = []" by (auto simp: filter_empty_conv image_iff)
    with True Cons.prems show ?thesis by simp
  next
    case False
    with Cons show ?thesis by auto
  qed
qed simp

text \<open>An \<open>UPDATE ... WHERE id = ?\<close> with a guard, on a table with unique ids.\<close>

lemma update_racun_one:
  assumes nf: "no_faults s" and u: "ids_unique s" and r: "racun_of s i = Some r"
    and P: "\<And>x. P x \<Longrightarrow> r_id x = i"
  shows "update_racun E P f s =
    (if \<not> P r then (Inr 0, bump s)
     else if fits_racun (store_racun E (f r)) then (Inr 1, put_racun i (store_racun E (f r)) (bump s))
     else (Inl DBError, failed s))"
proof -
  have d: "distinct (map r_id (racuni s))" and fr: "List.find (\<lambda>x. r_id x = i) (racuni s) = Some r"
    using u r by (auto simp: ids_unique_def racun_of_def)
  have eq: "x = r" if "x \<in> set (racuni s)" and "r_id x = i" for x
    using racun_of_unique [OF u that(1)] r that(2) by simp
  have mem: "r \<in> set (racuni s)" "r_id r = i" using racun_of_SomeD [OF r] by auto
  have flt: "filter P (racuni s) = (if P r then [r] else [])" by (rule filter_key [OF d fr P])
  have all: "list_all (\<lambda>r. P r \<longrightarrow> fits_racun (store_racun E (f r))) (racuni s) \<longleftrightarrow>
      (P r \<longrightarrow> fits_racun (store_racun E (f r)))"
    unfolding list_all_iff using eq P mem by blast
  have upd: "upd_where P (\<lambda>r. store_racun E (f r)) (racuni s) =
      (if P r then upd_where (\<lambda>x. r_id x = i) (\<lambda>_. store_racun E (f r)) (racuni s) else racuni s)"
  proof (cases "P r")
    case True
    then have "P x \<longleftrightarrow> r_id x = i" if "x \<in> set (racuni s)" for x
      using eq [OF that] P [of x] by blast
    then show ?thesis
      using True eq unfolding upd_where_def by (simp only: if_True) (rule map_cong; simp)
  next
    case False
    then have "\<forall>x \<in> set (racuni s). \<not> P x" using eq P by blast
    then show ?thesis using False by (simp only: if_False upd_where_None)
  qed
  have id: "bump s\<lparr>racuni := racuni s\<rparr> = bump s" by (simp add: bump_def)
  show ?thesis
    unfolding update_racun_ok [OF nf] all flt upd by (auto simp: put_racun_def id)
qed

text \<open>The sum of the balances in one currency.\<close>

definition ukupno :: "string \<Rightarrow> db \<Rightarrow> decimal" where
  "ukupno c s = (\<Sum>r \<leftarrow> racuni s. if valuta_oznaka r = c then stanje_racuna r else 0)"

lemma sum_upd_where:
  assumes "distinct (map key rs)" and "List.find (\<lambda>x. key x = i) rs = Some r"
  shows "(\<Sum>x \<leftarrow> upd_where (\<lambda>x. key x = i) (\<lambda>_. r') rs. g x :: rat) = (\<Sum>x \<leftarrow> rs. g x) - g r + g r'"
  using assms
proof (induction rs)
  case (Cons a rs)
  show ?case
  proof (cases "key a = i")
    case True
    then have "upd_where (\<lambda>x. key x = i) (\<lambda>_. r') rs = rs"
      using Cons.prems(1) by (intro upd_where_None) (auto simp: image_iff)
    with True Cons.prems show ?thesis by (simp add: upd_where_def)
  next
    case False
    with Cons show ?thesis by (simp add: upd_where_def)
  qed
qed simp

lemma ukupno_put:
  assumes "ids_unique s" and "racun_of s i = Some r" and "valuta_oznaka r' = valuta_oznaka r"
  shows "ukupno c (put_racun i r' s) = ukupno c s +
    (if valuta_oznaka r = c then stanje_racuna r' - stanje_racuna r else 0)"
proof -
  have "distinct (map r_id (racuni s))" and "List.find (\<lambda>x. r_id x = i) (racuni s) = Some r"
    using assms by (auto simp: ids_unique_def racun_of_def)
  from sum_upd_where [OF this, where r' = r' and g = "\<lambda>r. if valuta_oznaka r = c then stanje_racuna r else 0"]
  show ?thesis using assms(3) by (auto simp: ukupno_def put_racun_def)
qed

lemma clock_free_ukupno [simp]: "clock_free (ukupno c)"
  by (simp add: clock_free_def ukupno_def)

lemmas clock_ukupno [simp] = clock_freeD [OF clock_free_ukupno]

lemma ukupno_transakcije [simp]: "ukupno c (s\<lparr>transakcije := ts\<rparr>) = ukupno c s"
  by (simp add: ukupno_def)

context numerics
begin

lemma racun_ok_store_add_balance:
  "racun_ok r \<Longrightarrow> 0 \<le> d \<Longrightarrow> racun_ok (store_racun E (r\<lparr>stanje_racuna := stanje_racuna r + d\<rparr>))"
  by (auto simp: racun_ok_def round2_cents round2_id intro: round2_mono order_trans
      [OF _ round2_mono [of "stanje_racuna r"]])

end

section \<open>A small bank\<close>

text \<open>Concrete data the witnesses evaluate: a client with a EUR and a USD account, the treasury's
  EUR and USD accounts, and a rate list.\<close>

definition sample_racun :: "int \<Rightarrow> string \<Rightarrow> int \<Rightarrow> string \<Rightarrow> decimal \<Rightarrow> racun" where
  "sample_racun i num owner c b = \<lparr>r_id = i, broj_racuna = num, id_vlasnika = owner, valuta_oznaka = c,
     vrsta_racuna = ''LICNI'', r_status = ''AKTIVAN'', stanje_racuna = b, rezervisana_sredstva = 0,
     dnevni_limit = None, mesecni_limit = None, dnevna_potrosnja = 0, mesecna_potrosnja = 0,
     kategorija_racuna = ''TEKUCI'', naziv_racuna = num, id_firme = None\<rparr>"

definition sample_db :: db where
  "sample_db = empty_db\<lparr>racuni := [sample_racun 10 ''A10'' 7 ''EUR'' 1000,
     sample_racun 11 ''A11'' 7 ''USD'' 500, sample_racun 20 ''B20'' 2 ''EUR'' 5000,
     sample_racun 21 ''B21'' 2 ''USD'' 5000]\<rparr>"

definition sample_order :: Order where
  "sample_order = \<lparr>o_ID = 1, o_UserID = 7, o_AccountID = 10, o_ListingID = 3, o_OrderType = LIMIT,
     o_Direction = BUY, o_Quantity = 4, o_ContractSize = 1, o_PricePerUnit = Some 2, o_StopPrice = None,
     o_Status = DONE, o_ApprovedBy = None, o_IsDone = True, o_RemainingPortions = 0, o_AfterHours = False,
     o_AllOrNone = False, o_Margin = False, o_IsClient = True, o_FundID = None\<rparr>"

definition sample_env :: env where
  "sample_env = exact_env\<lparr>getRates := Some
     [\<lparr>er_Oznaka = ''USD'', er_Kupovni = 90, er_Srednji = 100, er_Prodajni = 110\<rparr>,
      \<lparr>er_Oznaka = ''EUR'', er_Kupovni = 110, er_Srednji = 115, er_Prodajni = 120\<rparr>]\<rparr>"

lemma sample_numerics: "numerics sample_env"
  using numerics_exact [where p = 0] by (simp add: sample_env_def exact_env_def)

lemma pg_round_nat [simp]: "pg_round 2 (of_int n) = of_int n" "pg_round 2 (numeral k) = numeral k"
  "pg_round 2 0 = 0" "pg_round 2 1 = 1" "pg_round 2 (- numeral k) = - numeral k"
  by (simp_all add: pg_round2_id cents_def)

lemma sample_env_fields [simp]:
  "newFromFloat sample_env = pg_round 2" "sqlFloat sample_env = (\<lambda>x. x)" "round2 sample_env = pg_round 2"
  "decDiv sample_env = (/)" "provizijaRate sample_env = 0"
  "round6 sample_env = pg_round 6" "stringFixed2 sample_env = pg_round 2"
  "getRates sample_env = Some
     [\<lparr>er_Oznaka = ''USD'', er_Kupovni = 90, er_Srednji = 100, er_Prodajni = 110\<rparr>,
      \<lparr>er_Oznaka = ''EUR'', er_Kupovni = 110, er_Srednji = 115, er_Prodajni = 120\<rparr>]"
  by (simp_all add: sample_env_def exact_env_def)

lemma sample_db_fields [simp]:
  "racuni sample_db = [sample_racun 10 ''A10'' 7 ''EUR'' 1000,
     sample_racun 11 ''A11'' 7 ''USD'' 500, sample_racun 20 ''B20'' 2 ''EUR'' 5000,
     sample_racun 21 ''B21'' 2 ''USD'' 5000]"
  "no_faults sample_db" "transakcije sample_db = []" "orders sample_db = []" "public_shares sample_db = []"
  "tick sample_db = 0"
  by (simp_all add: sample_db_def empty_db_def)

lemma sample_racun_fields [simp]:
  "r_id (sample_racun i n w c b) = i" "broj_racuna (sample_racun i n w c b) = n"
  "id_vlasnika (sample_racun i n w c b) = w" "valuta_oznaka (sample_racun i n w c b) = c"
  "stanje_racuna (sample_racun i n w c b) = b" "rezervisana_sredstva (sample_racun i n w c b) = 0"
  "r_status (sample_racun i n w c b) = ''AKTIVAN''"
  by (simp_all add: sample_racun_def)

lemma sample_ids: "ids_unique sample_db"
  by (simp add: ids_unique_def)

lemma sample_clients: "clients_ok sample_db"
  by (simp add: clients_ok_def sample_ids racun_ok_def cents_def)

end
