(* ===== verification/Trading_Calc.thy ===== *)
theory Trading_Calc
  imports Core_DB
begin

text \<open>
  The pure part of the trading domain: prices and commissions of \<open>trading/calculations.go\<close>, and
  the contract size and maintenance margin of \<open>service/listing_service.go\<close> with its listing lookup.
\<close>

section \<open>calculations.go\<close>

definition marketCommissionRate :: "env \<Rightarrow> decimal" where
  "marketCommissionRate E = newFromFloat E (fl64 (14 / 100))"

definition marketCommissionCap :: "env \<Rightarrow> decimal" where
  "marketCommissionCap E = newFromFloat E (fl64 7)"

definition limitCommissionRate :: "env \<Rightarrow> decimal" where
  "limitCommissionRate E = newFromFloat E (fl64 (24 / 100))"

definition limitCommissionCap :: "env \<Rightarrow> decimal" where
  "limitCommissionCap E = newFromFloat E (fl64 12)"

definition approxPrice :: "int \<Rightarrow> decimal \<Rightarrow> int \<Rightarrow> decimal" where
  "approxPrice contractSize pricePerUnit quantity = of_int contractSize * pricePerUnit * of_int quantity"

definition marketCommissionFor :: "env \<Rightarrow> decimal \<Rightarrow> decimal" where
  "marketCommissionFor E notional = (let pct = notional * marketCommissionRate E in
     if pct < marketCommissionCap E then pct else marketCommissionCap E)"

definition limitCommissionFor :: "env \<Rightarrow> decimal \<Rightarrow> decimal" where
  "limitCommissionFor E notional = (let pct = notional * limitCommissionRate E in
     if pct < limitCommissionCap E then pct else limitCommissionCap E)"

definition calcMarketOrder :: "env \<Rightarrow> int \<Rightarrow> decimal \<Rightarrow> int \<Rightarrow> decimal \<times> decimal" where
  "calcMarketOrder E contractSize pricePerUnit quantity =
     (let notional = approxPrice contractSize pricePerUnit quantity
      in (notional, marketCommissionFor E notional))"

definition calcLimitOrder :: "env \<Rightarrow> int \<Rightarrow> decimal \<Rightarrow> int \<Rightarrow> decimal \<times> decimal" where
  "calcLimitOrder E contractSize pricePerUnit quantity =
     (let notional = approxPrice contractSize pricePerUnit quantity
      in (notional, limitCommissionFor E notional))"

definition calcStopOrder :: "env \<Rightarrow> int \<Rightarrow> decimal \<Rightarrow> int \<Rightarrow> decimal \<times> decimal" where
  "calcStopOrder E contractSize stopPrice quantity =
     (let notional = approxPrice contractSize stopPrice quantity
      in (notional, marketCommissionFor E notional))"

definition calcStopLimitOrder :: "env \<Rightarrow> int \<Rightarrow> decimal \<Rightarrow> int \<Rightarrow> decimal \<times> decimal" where
  "calcStopLimitOrder E contractSize limitPrice quantity =
     (let notional = approxPrice contractSize limitPrice quantity
      in (notional, limitCommissionFor E notional))"

definition CalcMarketCommission :: "env \<Rightarrow> decimal \<Rightarrow> decimal" where
  "CalcMarketCommission E notional = marketCommissionFor E notional"

definition CalcLimitCommission :: "env \<Rightarrow> decimal \<Rightarrow> decimal" where
  "CalcLimitCommission E notional = limitCommissionFor E notional"

definition CalcInitialMarginCost :: "env \<Rightarrow> decimal \<Rightarrow> decimal" where
  "CalcInitialMarginCost E maintenanceMargin = maintenanceMargin * newFromFloat E (fl64 (11 / 10))"

section \<open>listing_service.go\<close>

text \<open>A number member of the details document as a \<open>float64\<close>; a document that does not parse, or
  a member of another kind, gives 0.\<close>

definition detailsNumber :: "string \<Rightarrow> json option \<Rightarrow> float64" where
  "detailsNumber k d = (case d of None \<Rightarrow> 0 | Some j \<Rightarrow>
     (case jmembers j of None \<Rightarrow> 0 | Some fs \<Rightarrow>
       (case jfield k fs of Some (JNum q) \<Rightarrow> fl64 q | _ \<Rightarrow> 0)))"

definition parseFutureContractSize :: "json option \<Rightarrow> float64" where
  "parseFutureContractSize d = detailsNumber ''contract_size'' d"

definition parseOptionUnderlyingPrice :: "json option \<Rightarrow> float64" where
  "parseOptionUnderlyingPrice d = detailsNumber ''underlying_price'' d"

definition contractSizeAndMargin :: "Listing \<Rightarrow> float64 \<times> float64" where
  "contractSizeAndMargin l = (case l_Type l of
       LT_STOCK \<Rightarrow> (1, fl64 (fl64 (1 / 2) * l_Price l))
     | LT_FOREX \<Rightarrow> (1000, fl64 (fl64 (1000 * l_Price l) * fl64 (1 / 10)))
     | LT_FUTURE \<Rightarrow>
         (let cs0 = parseFutureContractSize (l_Details l); cs = (if cs0 = 0 then 1 else cs0)
          in (cs, fl64 (fl64 (cs * l_Price l) * fl64 (1 / 10))))
     | LT_OPTION \<Rightarrow>
         (100, fl64 (fl64 (100 * fl64 (1 / 2)) * parseOptionUnderlyingPrice (l_Details l))))"

text \<open>The part of \<open>ListingCalculated\<close> the trading domain reads.\<close>

record ListingCalculated =
  lc_Listing :: Listing
  lc_ContractSize :: float64
  lc_MaintenanceMargin :: float64

definition calculate :: "Listing \<Rightarrow> ListingCalculated" where
  "calculate l = (case contractSizeAndMargin l of (cs, mm) \<Rightarrow>
     \<lparr>lc_Listing = l, lc_ContractSize = cs, lc_MaintenanceMargin = mm\<rparr>)"

text \<open>\<open>repo.GetByID\<close>, then \<open>GetLatestDailyChange\<close>, whose error is dropped and whose value only
  feeds the displayed change.\<close>

definition GetListingByID :: "int \<Rightarrow> ListingCalculated dbp" where
  "GetListingByID i =
     bnd (query (\<lambda>s. List.find (\<lambda>l. l_ID l = i) (listings s))) (\<lambda>r.
       case r of None \<Rightarrow> fail ErrListingNotFound
       | Some l \<Rightarrow> bnd (ignore (query (\<lambda>_. ()))) (\<lambda>_. ret (calculate l)))"

section \<open>Commissions\<close>

lemma marketCommissionFor_min:
  "marketCommissionFor E n = min (n * marketCommissionRate E) (marketCommissionCap E)"
  by (simp add: marketCommissionFor_def Let_def min_def)

lemma limitCommissionFor_min:
  "limitCommissionFor E n = min (n * limitCommissionRate E) (limitCommissionCap E)"
  by (simp add: limitCommissionFor_def Let_def min_def)

context numerics
begin

lemma commission_constants:
  "marketCommissionRate E = 14 / 100" "marketCommissionCap E = 7"
  "limitCommissionRate E = 24 / 100" "limitCommissionCap E = 12"
proof -
  have c: "cents (14 / 100)" "cents 7" "cents (24 / 100)" "cents 12"
    unfolding cents_def by simp_all
  show "marketCommissionRate E = 14 / 100" "marketCommissionCap E = 7"
    "limitCommissionRate E = 24 / 100" "limitCommissionCap E = 12"
    unfolding marketCommissionRate_def marketCommissionCap_def limitCommissionRate_def
      limitCommissionCap_def
    by (intro newFromFloat_literal c; simp)+
qed

lemma marketCommissionFor_eq: "marketCommissionFor E n = min (n * 14 / 100) 7"
  by (simp add: marketCommissionFor_min commission_constants)

lemma limitCommissionFor_eq: "limitCommissionFor E n = min (n * 24 / 100) 12"
  by (simp add: limitCommissionFor_min commission_constants)

lemma marketCommissionFor_nonneg: "0 \<le> n \<Longrightarrow> 0 \<le> marketCommissionFor E n"
  by (simp add: marketCommissionFor_eq)

lemma limitCommissionFor_nonneg: "0 \<le> n \<Longrightarrow> 0 \<le> limitCommissionFor E n"
  by (simp add: limitCommissionFor_eq)

lemma commissions_mono:
  "m \<le> n \<Longrightarrow> marketCommissionFor E m \<le> marketCommissionFor E n"
  "m \<le> n \<Longrightarrow> limitCommissionFor E m \<le> limitCommissionFor E n"
  by (auto simp: marketCommissionFor_eq limitCommissionFor_eq min_def)

lemma commissions_subadditive:
  "0 \<le> m \<Longrightarrow> 0 \<le> n \<Longrightarrow> marketCommissionFor E (m + n) \<le> marketCommissionFor E m + marketCommissionFor E n"
  "0 \<le> m \<Longrightarrow> 0 \<le> n \<Longrightarrow> limitCommissionFor E (m + n) \<le> limitCommissionFor E m + limitCommissionFor E n"
  by (auto simp: marketCommissionFor_eq limitCommissionFor_eq min_def)

lemma initial_margin: "CalcInitialMarginCost E m = m * 11 / 10"
proof -
  have "newFromFloat E (fl64 (11 / 10)) = 11 / 10"
    by (rule newFromFloat_literal) (simp_all add: cents_def)
  then show ?thesis by (simp add: CalcInitialMarginCost_def)
qed

end

lemma approxPrice_nonneg: "0 \<le> c \<Longrightarrow> 0 \<le> p \<Longrightarrow> 0 \<le> q \<Longrightarrow> 0 \<le> approxPrice c p q"
  by (simp add: approxPrice_def)

lemma approxPrice_split: "approxPrice c p (q + r) = approxPrice c p q + approxPrice c p r"
  by (simp add: approxPrice_def algebra_simps)

lemma approxPrice_mono: "0 \<le> c \<Longrightarrow> 0 \<le> p \<Longrightarrow> q \<le> r \<Longrightarrow> approxPrice c p q \<le> approxPrice c p r"
  by (simp add: approxPrice_def mult_left_mono)

lemma GetListingByID_keeps [keeps_intros]:
  "clock_free f \<Longrightarrow> keeps f (GetListingByID i)"
  unfolding GetListingByID_def by (intro keeps_intros)

lemma GetListingByID_ok:
  "no_faults s \<Longrightarrow> GetListingByID i s = (case List.find (\<lambda>l. l_ID l = i) (listings s) of
     None \<Rightarrow> (Inl ErrListingNotFound, bump s) | Some l \<Rightarrow> (Inr (calculate l), bump (bump s)))"
  by (auto simp: GetListingByID_def bnd_def ignore_def query_ok split: option.splits)

lemma contractSizeAndMargin_nonneg:
  assumes "0 \<le> l_Price l" and "0 \<le> parseFutureContractSize (l_Details l)"
    and "0 \<le> parseOptionUnderlyingPrice (l_Details l)"
  shows "0 \<le> snd (contractSizeAndMargin l)"
  using assms
  by (cases "l_Type l") (auto simp: contractSizeAndMargin_def Let_def intro!: fl64_nonneg mult_nonneg_nonneg)

end
