(* ===== verification/Funds_Manager.thy ===== *)
theory Funds_Manager
  imports Trading_Calc
begin

text \<open>
  \<open>repository/funds_manager.go\<close>: the account movements of the order life cycle.

  \<open>isClient\<close> is the flag \<open>IsClientFromCtx(ctx)\<close> carries; an amount bound to a statement as
  \<open>d.InexactFloat64()\<close> is \<open>sqlFloat E d\<close>. Each operation is one definition, statement by statement.
\<close>

section \<open>Currencies and conversion\<close>

definition accountCurrency :: "int \<Rightarrow> string dbp" where
  "accountCurrency accountID =
     bnd (query_or [] (\<lambda>s. case racun_of s accountID of None \<Rightarrow> [] | Some r \<Rightarrow> valuta_oznaka r))
       (\<lambda>currency. ret (if currency = [] then ''USD'' else currency))"

definition rateOf :: "string \<Rightarrow> ExchangeRate list \<Rightarrow> ExchangeRate option" where
  "rateOf c rates = List.find (\<lambda>r. er_Oznaka r = c) rates"

definition applyProvizija :: "env \<Rightarrow> bool \<Rightarrow> bool \<Rightarrow> decimal \<Rightarrow> decimal" where
  "applyProvizija E isClient isDebit d =
     (if isClient \<and> provizijaRate E > 0
      then if isDebit then d * newFromFloat E (fl64 (1 + provizijaRate E))
           else d * newFromFloat E (fl64 (1 - provizijaRate E))
      else d)"

definition convertUSDToAccountCurrency ::
    "env \<Rightarrow> bool \<Rightarrow> decimal \<Rightarrow> string \<Rightarrow> bool \<Rightarrow> decimal" where
  "convertUSDToAccountCurrency E isClient usdAmount targetCurrency isDebit =
     (if targetCurrency = ''USD'' then usdAmount
      else case getRates E of
        None \<Rightarrow> usdAmount
      | Some rates \<Rightarrow>
          (let usdToRSD = (case rateOf ''USD'' rates of None \<Rightarrow> 0
                 | Some r \<Rightarrow> if isClient \<and> er_Prodajni r > 0 then er_Prodajni r else er_Srednji r)
           in if usdToRSD \<le> 0 then usdAmount
              else let rsdAmount = usdAmount * newFromFloat E usdToRSD
                in if targetCurrency = ''RSD'' then applyProvizija E isClient isDebit rsdAmount
                   else let rsdToTarget = (case rateOf targetCurrency rates of None \<Rightarrow> 0
                          | Some r \<Rightarrow> if isClient \<and> er_Kupovni r > 0 then er_Kupovni r
                                      else if er_Srednji r > 0 then er_Srednji r else 0)
                     in if rsdToTarget \<le> 0 then applyProvizija E isClient isDebit rsdAmount
                        else applyProvizija E isClient isDebit
                               (decDiv E rsdAmount (newFromFloat E rsdToTarget))))"

definition ConvertUSDToRSD :: "env \<Rightarrow> decimal \<Rightarrow> err + decimal" where
  "ConvertUSDToRSD E usdAmount = (case getRates E of
       None \<Rightarrow> Inl (Errorf ''rates'')
     | Some rates \<Rightarrow>
         (case List.find (\<lambda>r. er_Oznaka r = ''USD'' \<and> er_Srednji r > 0) rates of
            Some r \<Rightarrow> Inr (usdAmount * newFromFloat E (er_Srednji r))
          | None \<Rightarrow> Inr usdAmount))"

section \<open>Reservation\<close>

definition reserve_guard :: "int \<Rightarrow> decimal \<Rightarrow> racun \<Rightarrow> bool" where
  "reserve_guard accountID d r \<longleftrightarrow>
     r_id r = accountID \<and> stanje_racuna r - rezervisana_sredstva r \<ge> d"

definition add_reserved :: "decimal \<Rightarrow> racun \<Rightarrow> racun" where
  "add_reserved d r = r\<lparr>rezervisana_sredstva := rezervisana_sredstva r + d\<rparr>"

definition sub_reserved :: "decimal \<Rightarrow> racun \<Rightarrow> racun" where
  "sub_reserved d r = r\<lparr>rezervisana_sredstva := max 0 (rezervisana_sredstva r - d)\<rparr>"

definition add_balance :: "decimal \<Rightarrow> racun \<Rightarrow> racun" where
  "add_balance d r = r\<lparr>stanje_racuna := stanje_racuna r + d\<rparr>"

definition settle_debit :: "decimal \<Rightarrow> racun \<Rightarrow> racun" where
  "settle_debit d r = r\<lparr>stanje_racuna := stanje_racuna r - d,
     rezervisana_sredstva := max 0 (rezervisana_sredstva r - d)\<rparr>"

definition ReserveFunds :: "env \<Rightarrow> bool \<Rightarrow> int \<Rightarrow> decimal \<Rightarrow> unit dbp" where
  "ReserveFunds E isClient accountID usdAmount =
     bnd (accountCurrency accountID) (\<lambda>currency.
       let debit = sqlFloat E (convertUSDToAccountCurrency E isClient usdAmount currency True) in
       bnd (update_racun E (reserve_guard accountID debit) (add_reserved debit)) (\<lambda>n.
         if n = 0 then fail ErrInsufficientFunds else ret ()))"

definition ReleaseFunds :: "env \<Rightarrow> bool \<Rightarrow> int \<Rightarrow> decimal \<Rightarrow> unit dbp" where
  "ReleaseFunds E isClient accountID usdAmount =
     bnd (accountCurrency accountID) (\<lambda>currency.
       let debit = sqlFloat E (convertUSDToAccountCurrency E isClient usdAmount currency True) in
       bnd (update_racun E (\<lambda>r. r_id r = accountID) (sub_reserved debit)) (\<lambda>_. ret ()))"

section \<open>Fills\<close>

definition fetchCurrencyTrezorID :: "string \<Rightarrow> int dbp" where
  "fetchCurrencyTrezorID c = query_or 0 (\<lambda>s.
     case List.find (\<lambda>r. id_vlasnika r = 2 \<and> valuta_oznaka r = c \<and> r_status r = ''AKTIVAN'') (racuni s) of
       None \<Rightarrow> 0 | Some r \<Rightarrow> r_id r)"

definition bankTrezorAccountID :: "int dbp" where
  "bankTrezorAccountID = query_or 0 (\<lambda>s.
     case List.find (\<lambda>r. broj_racuna r = ''666000122200000008'') (racuni s) of
       None \<Rightarrow> 0 | Some r \<Rightarrow> r_id r)"

definition isplata :: "int \<Rightarrow> decimal \<Rightarrow> transakcija" where
  "isplata i d = \<lparr>t_racun_id = i, tip_transakcije = ''ISPLATA'', t_iznos = d\<rparr>"

definition uplata :: "int \<Rightarrow> decimal \<Rightarrow> transakcija" where
  "uplata i d = \<lparr>t_racun_id = i, tip_transakcije = ''UPLATA'', t_iznos = d\<rparr>"

text \<open>The guarded debit that opens every branch of \<open>SettleBuyFill\<close>.\<close>

definition settle_update :: "env \<Rightarrow> int \<Rightarrow> decimal \<Rightarrow> unit dbp" where
  "settle_update E accountID d =
     bnd (update_racun E (\<lambda>r. r_id r = accountID \<and> stanje_racuna r \<ge> d) (settle_debit d)) (\<lambda>n.
       if n = 0 then fail ErrInsufficientFunds else ret ())"

definition credit_update :: "env \<Rightarrow> int \<Rightarrow> decimal \<Rightarrow> unit dbp" where
  "credit_update E accountID d =
     bnd (update_racun E (\<lambda>r. r_id r = accountID) (add_balance d)) (\<lambda>_. ret ())"

definition SettleBuyFill :: "env \<Rightarrow> bool \<Rightarrow> int \<Rightarrow> decimal \<Rightarrow> unit dbp" where
  "SettleBuyFill E isClient accountID amount =
     bnd (accountCurrency accountID) (\<lambda>currency.
       let debit = sqlFloat E (convertUSDToAccountCurrency E isClient amount currency True);
           amountF = sqlFloat E amount in
       if \<not> isClient \<or> currency = ''USD'' then
         in_tx (bnd (settle_update E accountID debit) (\<lambda>_.
           insert_transakcije E [isplata accountID debit]))
       else
         bnd (fetchCurrencyTrezorID currency) (\<lambda>trezorFromID.
         bnd (fetchCurrencyTrezorID ''USD'') (\<lambda>trezorUSDID.
           if trezorFromID = 0 \<or> trezorUSDID = 0 then
             bnd (settle_update E accountID debit) (\<lambda>_.
               ignore (insert_transakcije E [isplata accountID debit]))
           else
             in_tx (bnd (settle_update E accountID debit) (\<lambda>_.
               bnd (credit_update E trezorFromID debit) (\<lambda>_.
               bnd (credit_update E trezorUSDID (- amountF)) (\<lambda>_.
                 insert_transakcije E [isplata accountID debit, uplata trezorFromID debit,
                   isplata trezorUSDID amountF])))))))"

definition CreditSellFill :: "env \<Rightarrow> bool \<Rightarrow> int \<Rightarrow> decimal \<Rightarrow> unit dbp" where
  "CreditSellFill E isClient accountID amount =
     bnd (accountCurrency accountID) (\<lambda>currency.
       let credit = sqlFloat E (convertUSDToAccountCurrency E isClient amount currency False);
           amountF = sqlFloat E amount;
           direct = in_tx (bnd (credit_update E accountID credit) (\<lambda>_.
             insert_transakcije E [uplata accountID credit])) in
       if \<not> isClient \<or> currency = ''USD'' then direct
       else
         bnd (fetchCurrencyTrezorID currency) (\<lambda>trezorLocalID.
         bnd (fetchCurrencyTrezorID ''USD'') (\<lambda>trezorUSDID.
           if trezorLocalID = 0 \<or> trezorUSDID = 0 then direct
           else
             in_tx (bnd (credit_update E accountID credit) (\<lambda>_.
               bnd (credit_update E trezorLocalID (- credit)) (\<lambda>_.
               bnd (credit_update E trezorUSDID amountF) (\<lambda>_.
                 insert_transakcije E [uplata accountID credit, isplata trezorLocalID credit,
                   uplata trezorUSDID amountF])))))))"

definition ChargeCommission :: "env \<Rightarrow> bool \<Rightarrow> int \<Rightarrow> decimal \<Rightarrow> unit dbp" where
  "ChargeCommission E isClient accountID amount =
     (if \<not> isClient then ret ()
      else bnd (accountCurrency accountID) (\<lambda>currency.
        let debit = sqlFloat E (convertUSDToAccountCurrency E isClient amount currency True) in
        bnd (fetchCurrencyTrezorID currency) (\<lambda>trezorID.
          in_tx (bnd (update_racun E (\<lambda>r. r_id r = accountID) (settle_debit debit)) (\<lambda>_.
            bnd (insert_transakcije E [isplata accountID debit]) (\<lambda>_.
              if trezorID = 0 then ret ()
              else bnd (credit_update E trezorID debit) (\<lambda>_.
                insert_transakcije E [uplata trezorID debit])))))))"

section \<open>Balance checks\<close>

definition HasSufficientFunds :: "env \<Rightarrow> bool \<Rightarrow> int \<Rightarrow> decimal \<Rightarrow> bool dbp" where
  "HasSufficientFunds E isClient accountID usdAmount =
     bnd (query (\<lambda>s. racun_of s accountID)) (\<lambda>row. case row of
         None \<Rightarrow> fail (Errorf ''record not found'')
       | Some r \<Rightarrow> bnd (accountCurrency accountID) (\<lambda>currency.
           ret (raspolozivo r \<ge> convertUSDToAccountCurrency E isClient usdAmount currency True)))"

definition HasSufficientFreeBalance :: "int \<Rightarrow> decimal \<Rightarrow> bool dbp" where
  "HasSufficientFreeBalance accountID required =
     bnd (query (\<lambda>s. racun_of s accountID)) (\<lambda>row. case row of
         None \<Rightarrow> fail (Errorf ''record not found'')
       | Some r \<Rightarrow> ret (raspolozivo r \<ge> required))"

section \<open>Published shares\<close>

definition netHoldings :: "(Order \<Rightarrow> bool) \<Rightarrow> Order list \<Rightarrow> int" where
  "netHoldings P os = (\<Sum>ord \<leftarrow> filter P os.
     if o_Direction ord = BUY \<and> o_Status ord = DONE \<and> o_IsDone ord then o_Quantity ord
     else if o_Direction ord = BUY \<and> o_Status ord = CANCELED then o_Quantity ord - o_RemainingPortions ord
     else if o_Direction ord = SELL \<and> o_Status ord = DONE \<and> o_IsDone ord then - o_Quantity ord
     else if o_Direction ord = SELL \<and> o_Status ord = CANCELED then - (o_Quantity ord - o_RemainingPortions ord)
     else 0)"

definition delete_share :: "int \<Rightarrow> unit dbp" where
  "delete_share i = stmt (\<lambda>s.
     Some ((), s\<lparr>public_shares := filter (\<lambda>p. ps_id p \<noteq> i) (public_shares s)\<rparr>))"

text \<open>\<open>UPDATE public_shares SET quantity = ?\<close>, refused by \<open>CHECK (quantity > 0)\<close>.\<close>

definition set_share :: "int \<Rightarrow> int \<Rightarrow> unit dbp" where
  "set_share i q = stmt (\<lambda>s.
     if q > 0 \<or> (\<forall>p \<in> set (public_shares s). ps_id p \<noteq> i)
     then Some ((), s\<lparr>public_shares := upd_where (\<lambda>p. ps_id p = i) (\<lambda>p. p\<lparr>ps_quantity := q\<rparr>)
            (public_shares s)\<rparr>)
     else None)"

fun clamp_loop :: "public_share list \<Rightarrow> int \<Rightarrow> unit dbp" where
  "clamp_loop [] remaining = ret ()"
| "clamp_loop (row # rows) remaining =
     (if remaining \<le> 0 then ret ()
      else let take = (if ps_quantity row > remaining then remaining else ps_quantity row);
               newQty = ps_quantity row - take in
        bnd (if newQty \<le> 0 then delete_share (ps_id row) else set_share (ps_id row) newQty)
          (\<lambda>_. clamp_loop rows (remaining - take)))"

definition isActuaryID :: "db \<Rightarrow> int \<Rightarrow> bool" where
  "isActuaryID s u \<longleftrightarrow> list_ex (\<lambda>a. a_EmployeeID a = u) (actuary_info s)"

definition ClampPublicSharesToHoldings :: "bool \<Rightarrow> int \<Rightarrow> int \<Rightarrow> unit dbp" where
  "ClampPublicSharesToHoldings isClient userID listingID =
     bnd (query_or 0 (\<lambda>s. netHoldings (\<lambda>ord. o_ListingID ord = listingID \<and>
            (if isClient then o_UserID ord = userID else isActuaryID s (o_UserID ord))) (orders s)))
       (\<lambda>owned0.
     bnd (query (\<lambda>s. filter (\<lambda>p. ps_listing_id p = listingID \<and>
            (if isClient then ps_user_id p = userID else isActuaryID s (ps_user_id p))) (public_shares s)))
       (\<lambda>rows.
         let owned = (if owned0 < 0 then 0 else owned0);
             excess = (\<Sum>p \<leftarrow> rows. ps_quantity p) - owned in
         if excess \<le> 0 then ret () else clamp_loop rows excess))"

section \<open>Forex\<close>

definition resolveForexDebitAccountID :: "bool \<Rightarrow> int \<Rightarrow> string \<Rightarrow> int dbp" where
  "resolveForexDebitAccountID isClient fromAccountID quoteCurrency =
     (if \<not> isClient then
        bnd (query_or 0 (\<lambda>s. case first_racun (\<lambda>r. id_vlasnika r = 2 \<and> valuta_oznaka r = quoteCurrency
               \<and> r_status r = ''AKTIVAN'') s of None \<Rightarrow> 0 | Some r \<Rightarrow> r_id r)) (\<lambda>i.
          if i = 0 then fail ErrForexAccountNotFound else ret i)
      else bnd (accountCurrency fromAccountID) (\<lambda>currency.
        if currency \<noteq> quoteCurrency then fail ErrForexCurrencyMismatch else ret fromAccountID))"

definition ReserveForexFunds :: "env \<Rightarrow> bool \<Rightarrow> int \<Rightarrow> string \<Rightarrow> decimal \<Rightarrow> unit dbp" where
  "ReserveForexFunds E isClient fromAccountID quoteCurrency amount =
     bnd (resolveForexDebitAccountID isClient fromAccountID quoteCurrency) (\<lambda>accountID.
       let d = sqlFloat E amount in
       bnd (update_racun E (reserve_guard accountID d) (add_reserved d)) (\<lambda>n.
         if n = 0 then fail ErrInsufficientFunds else ret ()))"

definition ReleaseForexFunds :: "env \<Rightarrow> bool \<Rightarrow> int \<Rightarrow> string \<Rightarrow> decimal \<Rightarrow> unit dbp" where
  "ReleaseForexFunds E isClient fromAccountID quoteCurrency amount =
     bnd (resolveForexDebitAccountID isClient fromAccountID quoteCurrency) (\<lambda>accountID.
       bnd (update_racun E (\<lambda>r. r_id r = accountID) (sub_reserved (sqlFloat E amount))) (\<lambda>_. ret ()))"

text \<open>A lookup whose error and whose empty result are both \<open>ErrForexAccountNotFound\<close>.\<close>

definition forexAccount :: "(db \<Rightarrow> racun option) \<Rightarrow> racun dbp" where
  "forexAccount f = bnd (query_or None f) (\<lambda>r.
     case r of None \<Rightarrow> fail ErrForexAccountNotFound
     | Some acc \<Rightarrow> if r_id acc = 0 then fail ErrForexAccountNotFound else ret acc)"

definition activeAccount :: "int \<Rightarrow> string \<Rightarrow> racun dbp" where
  "activeAccount owner c = forexAccount (first_racun (\<lambda>r. id_vlasnika r = owner \<and>
     valuta_oznaka r = c \<and> r_status r = ''AKTIVAN''))"

definition resolveForexAccounts ::
    "bool \<Rightarrow> int \<Rightarrow> int \<Rightarrow> string \<Rightarrow> string \<Rightarrow> (racun \<times> racun) dbp" where
  "resolveForexAccounts isClient userID fromAccountID debitCurrency creditCurrency =
     (if \<not> isClient then
        bnd (activeAccount 2 debitCurrency) (\<lambda>fromAcc.
        bnd (activeAccount 2 creditCurrency) (\<lambda>toAcc. ret (fromAcc, toAcc)))
      else
        bnd (forexAccount (\<lambda>s. racun_of s fromAccountID)) (\<lambda>fromAcc.
          if id_vlasnika fromAcc \<noteq> userID then fail ErrForexAccountNotFound
          else if valuta_oznaka fromAcc \<noteq> debitCurrency then fail ErrForexCurrencyMismatch
          else bnd (activeAccount userID creditCurrency) (\<lambda>toAcc. ret (fromAcc, toAcc))))"

definition ForexSwap ::
    "env \<Rightarrow> bool \<Rightarrow> int \<Rightarrow> int \<Rightarrow> string \<Rightarrow> string \<Rightarrow> decimal \<Rightarrow> decimal \<Rightarrow> OrderDirection \<Rightarrow> unit dbp" where
  "ForexSwap E isClient userID fromAccountID baseCurrency quoteCurrency nominalBase rate direction =
     (if baseCurrency = quoteCurrency then fail ErrForexSameCurrency
      else
        let (debitCurrency, creditCurrency, debitAmount, creditAmount) =
              (if direction = BUY then (quoteCurrency, baseCurrency, nominalBase * rate, nominalBase)
               else (baseCurrency, quoteCurrency, nominalBase, nominalBase * rate)) in
        bnd (resolveForexAccounts isClient userID fromAccountID debitCurrency creditCurrency)
          (\<lambda>(fromAcc, toAcc).
            if r_id fromAcc = r_id toAcc then fail ErrForexSameAccount
            else bnd (query (\<lambda>s. racun_of s (r_id fromAcc))) (\<lambda>locked. case locked of
                None \<Rightarrow> fail ErrForexAccountNotFound
              | Some lockedFrom \<Rightarrow>
                  if raspolozivo lockedFrom < debitAmount then fail ErrInsufficientFunds
                  else let d = sqlFloat E debitAmount; c = sqlFloat E creditAmount in
                    bnd (update_racun E (\<lambda>r. r_id r = r_id fromAcc) (settle_debit d)) (\<lambda>_.
                    bnd (credit_update E (r_id toAcc) c) (\<lambda>_.
                      insert_transakcije E [isplata (r_id fromAcc) d, uplata (r_id toAcc) c])))))"

section \<open>Frames and errors\<close>

lemmas funds_defs = ReserveFunds_def ReleaseFunds_def SettleBuyFill_def CreditSellFill_def
  ChargeCommission_def ReserveForexFunds_def ReleaseForexFunds_def

lemma same_key_funds [simp]:
  "same_key (add_reserved d)" "same_key (sub_reserved d)" "same_key (add_balance d)"
  "same_key (settle_debit d)"
  by (simp_all add: same_key_def add_reserved_def sub_reserved_def add_balance_def settle_debit_def)

lemma accountCurrency_ok:
  "no_faults s \<Longrightarrow> accountCurrency i s =
     (Inr (case racun_of s i of None \<Rightarrow> ''USD'' | Some r \<Rightarrow>
        if valuta_oznaka r = [] then ''USD'' else valuta_oznaka r), bump s)"
  by (simp add: accountCurrency_def bnd_def query_or_ok split: option.splits)

lemma keeps_accountCurrency [keeps_intros]: "clock_free f \<Longrightarrow> keeps f (accountCurrency i)"
  unfolding accountCurrency_def by (intro keeps_intros)

lemma keeps_fetchCurrencyTrezorID [keeps_intros]:
  "clock_free f \<Longrightarrow> keeps f (fetchCurrencyTrezorID c)"
  unfolding fetchCurrencyTrezorID_def by (intro keeps_intros)

lemma keeps_resolveForexDebit [keeps_intros]:
  "clock_free f \<Longrightarrow> keeps f (resolveForexDebitAccountID isClient i q)"
  unfolding resolveForexDebitAccountID_def by (intro keeps_intros)

lemma preserves_lookups [preserves_intros]:
  assumes "clock_free P"
  shows "preserves P (accountCurrency i)" "preserves P (fetchCurrencyTrezorID c)"
    "preserves P (resolveForexDebitAccountID isClient i q)"
  unfolding accountCurrency_def fetchCurrencyTrezorID_def resolveForexDebitAccountID_def
  using assms by (intro preserves_intros; simp)+

lemma atomic_settle_update [atomic_intros]: "atomic core (settle_update E i d)"
  unfolding settle_update_def by (rule atomic_guarded_update)

lemma keeps_core_lookups [keeps_intros]:
  "keeps core (accountCurrency i)" "keeps core (fetchCurrencyTrezorID c)"
  "keeps core (resolveForexDebitAccountID isClient i q)"
  by (intro keeps_intros; simp)+

lemma funds_atomic:
  "atomic core (ReserveFunds E isClient i x)" "atomic core (ReleaseFunds E isClient i x)"
  "atomic core (SettleBuyFill E isClient i x)" "atomic core (CreditSellFill E isClient i x)"
  "atomic core (ChargeCommission E isClient i x)" "atomic core (ReserveForexFunds E isClient i q x)"
  "atomic core (ReleaseForexFunds E isClient i q x)"
  unfolding funds_defs Let_def
  by (intro atomic_intros keeps_intros atomic_bnd_never_fails never_fails_basic)+

section \<open>Amounts stay within accounts\<close>

context numerics
begin

lemma applyProvizija_debit_nonneg: "0 \<le> d \<Longrightarrow> 0 \<le> applyProvizija E isClient True d"
  by (simp add: applyProvizija_def fl64_nonneg newFromFloat_nonneg)

lemma applyProvizija_credit_nonneg:
  "0 \<le> d \<Longrightarrow> provizijaRate E \<le> 1 \<Longrightarrow> 0 \<le> applyProvizija E isClient False d"
  by (simp add: applyProvizija_def fl64_nonneg newFromFloat_nonneg)

lemma convert_nonneg:
  assumes "0 \<le> x" and "isDebit \<or> provizijaRate E \<le> 1"
  shows "0 \<le> convertUSDToAccountCurrency E isClient x c isDebit"
proof -
  have p: "0 \<le> d \<Longrightarrow> 0 \<le> applyProvizija E b isDebit d" for b d
    using assms(2) applyProvizija_debit_nonneg applyProvizija_credit_nonneg by (cases isDebit) auto
  show ?thesis
    using assms(1)
    by (auto simp: convertUSDToAccountCurrency_def Let_def newFromFloat_nonneg decDiv_nonneg
        intro!: p split: option.splits)
qed

lemma debit_nonneg: "0 \<le> x \<Longrightarrow> 0 \<le> sqlFloat E (convertUSDToAccountCurrency E isClient x c True)"
  by (simp add: convert_nonneg sqlFloat_nonneg)

lemma racun_ok_add_reserved:
  "racun_ok r \<Longrightarrow> reserve_guard i d r \<Longrightarrow> 0 \<le> d \<Longrightarrow> racun_ok (store_racun E (add_reserved d r))"
  by (auto simp: racun_ok_def reserve_guard_def add_reserved_def round2_cents round2_id
      intro: round2_nonneg round2_le)

lemma racun_ok_sub_reserved:
  assumes "racun_ok r" and "0 \<le> d"
  shows "racun_ok (store_racun E (sub_reserved d r))"
  using assms
  by (auto simp: racun_ok_def sub_reserved_def round2_cents round2_id intro!: round2_nonneg round2_le)

lemma racun_ok_settle_debit:
  assumes "racun_ok r" and "d \<le> stanje_racuna r" and "0 \<le> d"
  shows "racun_ok (store_racun E (settle_debit d r))"
  using assms
  by (auto simp: racun_ok_def settle_debit_def round2_cents intro!: round2_nonneg round2_mono)

lemma racun_ok_add_balance:
  "racun_ok r \<Longrightarrow> 0 \<le> d \<Longrightarrow> racun_ok (store_racun E (add_balance d r))"
  unfolding add_balance_def by (rule racun_ok_store_add_balance)

lemma preserves_reservations [preserves_intros]:
  "0 \<le> x \<Longrightarrow> preserves clients_ok (ReserveFunds E isClient i x)"
  "0 \<le> x \<Longrightarrow> preserves clients_ok (ReleaseFunds E isClient i x)"
  "0 \<le> x \<Longrightarrow> preserves clients_ok (ReserveForexFunds E isClient i q x)"
  "0 \<le> x \<Longrightarrow> preserves clients_ok (ReleaseForexFunds E isClient i q x)"
  unfolding ReserveFunds_def ReleaseFunds_def ReserveForexFunds_def ReleaseForexFunds_def Let_def
  by (intro preserves_intros preserves_clients_update same_key_funds
      racun_ok_add_reserved racun_ok_sub_reserved debit_nonneg sqlFloat_nonneg; (assumption | simp))+

lemma preserves_settle_update [preserves_intros]:
  "0 \<le> d \<Longrightarrow> preserves clients_ok (settle_update E i d)"
  unfolding settle_update_def
  by (intro preserves_intros preserves_clients_update same_key_funds) (simp add: racun_ok_settle_debit)

lemma preserves_credit_update [preserves_intros]:
  "0 \<le> d \<Longrightarrow> preserves clients_ok (credit_update E i d)"
  unfolding credit_update_def
  by (intro preserves_intros preserves_clients_update same_key_funds racun_ok_add_balance)

end

text \<open>Rows of the treasury may be debited without a guard: the update that does it only reaches
  rows of user 2.\<close>

definition bank_account :: "int \<Rightarrow> db \<Rightarrow> bool" where
  "bank_account i s \<longleftrightarrow> list_all (\<lambda>r. r_id r = i \<longrightarrow> id_vlasnika r = 2) (racuni s)"

lemma clock_free_bank [simp]: "clock_free (bank_account i)"
  by (simp add: clock_free_def bank_account_def)

lemmas clock_bank [simp] = clock_freeD [OF clock_free_bank]

lemma bank_account_transakcije [simp]: "bank_account i (s\<lparr>transakcije := ts\<rparr>) = bank_account i s"
  by (simp add: bank_account_def)

lemma clock_free_conj [simp]: "clock_free P \<Longrightarrow> clock_free Q \<Longrightarrow> clock_free (\<lambda>s. P s \<and> Q s)"
  "clock_free Q \<Longrightarrow> clock_free (\<lambda>s. b \<or> Q s)"
  by (simp_all add: clock_free_def)

lemma bank_account_keys:
  "bank_account i s \<longleftrightarrow> list_all (\<lambda>(j, _, v, _). j = i \<longrightarrow> v = 2) (racun_keys s)"
  by (simp add: bank_account_def racun_keys_def list_all_iff)

lemma fetchCurrencyTrezorID_bank:
  assumes "ids_unique s" and "fetchCurrencyTrezorID c s = (Inr t, s')" and "t \<noteq> 0"
  shows "bank_account t s"
proof -
  let ?P = "\<lambda>r. id_vlasnika r = 2 \<and> valuta_oznaka r = c \<and> r_status r = ''AKTIVAN''"
  from assms(2,3) obtain r where "List.find ?P (racuni s) = Some r" and t: "t = r_id r"
    by (auto simp: fetchCurrencyTrezorID_def dest!: query_or_InrD split: option.splits)
  then have "r \<in> set (racuni s)" and "id_vlasnika r = 2" by (auto simp: find_Some_iff)
  moreover have "r' = r" if "r' \<in> set (racuni s)" and "r_id r' = r_id r" for r'
  proof -
    have "racun_of s (r_id r) = Some r'"
      using racun_of_unique [OF assms(1) that(1)] that(2) by (simp only:)
    moreover have "racun_of s (r_id r) = Some r"
      by (rule racun_of_unique [OF assms(1) \<open>r \<in> set (racuni s)\<close>])
    ultimately show ?thesis by (simp only: option.inject)
  qed
  ultimately show ?thesis unfolding bank_account_def list_all_iff t by blast
qed

lemma preserves_with_keys:
  assumes "preserves clients_ok m" and "keeps racun_keys m"
  shows "preserves (\<lambda>s. clients_ok s \<and> bank_account t s \<and> bank_account u s) m"
  using assms unfolding preserves_def keeps_def bank_account_keys by simp

lemma preserves_bank_update:
  assumes "t' = t \<or> t' = u"
  shows "preserves (\<lambda>s. clients_ok s \<and> bank_account t s \<and> bank_account u s) (credit_update E t' d)"
  unfolding preserves_def
proof (intro allI impI)
  fix s
  assume s: "clients_ok s \<and> bank_account t s \<and> bank_account u s"
  have k: "keeps racun_keys (credit_update E t' d)"
    unfolding credit_update_def by (intro keeps_intros same_key_funds)
  have "list_all (\<lambda>r. id_vlasnika r \<noteq> 2 \<longrightarrow> racun_ok r)
      (upd_where (\<lambda>r. r_id r = t') (\<lambda>r. store_racun E (add_balance d r)) (racuni s))"
    by (rule list_all_upd_where)
      (use s assms in \<open>auto simp: clients_ok_def bank_account_def list_all_iff add_balance_def\<close>)
  then have "list_all (\<lambda>r. id_vlasnika r \<noteq> 2 \<longrightarrow> racun_ok r) (racuni (snd (credit_update E t' d s)))"
    using s by (auto simp: credit_update_def bnd_def update_racun_def stmt_def clients_ok_def)
  with s keeps_snd [OF k, of s]
  show "clients_ok (snd (credit_update E t' d s)) \<and> bank_account t (snd (credit_update E t' d s)) \<and>
      bank_account u (snd (credit_update E t' d s))"
    by (simp add: clients_ok_def bank_account_keys ids_unique_cong [OF keeps_snd [OF k]])
qed

context numerics
begin

lemma keeps_keys_settle: "keeps racun_keys (settle_update E i d)"
  unfolding settle_update_def by (intro keeps_intros same_key_funds)

text \<open>The three bookings of a fill that goes through the treasury.\<close>

lemma preserves_bank_bookings:
  assumes "preserves clients_ok m" and "keeps racun_keys m"
  shows "hoare (\<lambda>s. clients_ok s \<and> bank_account t s \<and> bank_account u s)
    (in_tx (bnd m (\<lambda>_. bnd (credit_update E t x) (\<lambda>_. bnd (credit_update E u y)
       (\<lambda>_. insert_transakcije E ts))))) (\<lambda>_. clients_ok) clients_ok"
proof -
  let ?I = "\<lambda>s. clients_ok s \<and> bank_account t s \<and> bank_account u s"
  have "preserves ?I (bnd m (\<lambda>_. bnd (credit_update E t x) (\<lambda>_. bnd (credit_update E u y)
       (\<lambda>_. insert_transakcije E ts))))"
    by (intro preserves_intros preserves_with_keys assms(1,2) preserves_bank_update) simp_all
  then have "preserves ?I (in_tx (bnd m (\<lambda>_. bnd (credit_update E t x) (\<lambda>_. bnd (credit_update E u y)
       (\<lambda>_. insert_transakcije E ts)))))"
    by (rule preserves_in_tx) (simp, auto simp: bank_account_def intro: clients_ok_cong [THEN iffD2])
  then show ?thesis by (rule hoare_weaken [OF hoare_of_preserves]) auto
qed

lemma hoare_fetch:
  assumes "clock_free P" and "\<And>s. P s \<Longrightarrow> ids_unique s"
  shows "hoare P (fetchCurrencyTrezorID c) (\<lambda>t s. P s \<and> (t = 0 \<or> bank_account t s)) P"
proof (rule hoareI)
  fix s t s'
  assume s: "P s" and r: "fetchCurrencyTrezorID c s = (Inr t, s')"
  then have "s' = bump s \<or> s' = failed s" by (auto simp: fetchCurrencyTrezorID_def dest: query_or_InrD)
  moreover have "t = 0 \<or> bank_account t s"
    using fetchCurrencyTrezorID_bank [OF assms(2) [OF s] r] by blast
  ultimately show "P s' \<and> (t = 0 \<or> bank_account t s')" using s clock_freeD [OF assms(1)] by auto
next
  fix s e s'
  assume "P s" and "fetchCurrencyTrezorID c s = (Inl e, s')"
  then show "P s'" by (simp add: fetchCurrencyTrezorID_def never_failsD)
qed

lemma preserves_via_treasury:
  assumes "preserves clients_ok direct" and "preserves clients_ok m" and "keeps racun_keys m"
  shows "preserves clients_ok
    (bnd (fetchCurrencyTrezorID c) (\<lambda>t. bnd (fetchCurrencyTrezorID c') (\<lambda>u.
       if t = 0 \<or> u = 0 then direct
       else in_tx (bnd m (\<lambda>_. bnd (credit_update E t x) (\<lambda>_. bnd (credit_update E u y)
         (\<lambda>_. insert_transakcije E (ts t u))))))))"
proof (rule preserves_hoare, rule hoare_bnd)
  show "hoare clients_ok (fetchCurrencyTrezorID c)
      (\<lambda>t s. clients_ok s \<and> (t = 0 \<or> bank_account t s)) clients_ok"
    by (rule hoare_fetch) (simp_all add: clients_ok_def [THEN iffD1])
  fix t
  have "hoare (\<lambda>s. clients_ok s \<and> (t = 0 \<or> bank_account t s)) (fetchCurrencyTrezorID c')
      (\<lambda>u s. (clients_ok s \<and> (t = 0 \<or> bank_account t s)) \<and> (u = 0 \<or> bank_account u s))
      (\<lambda>s. clients_ok s \<and> (t = 0 \<or> bank_account t s))"
    by (rule hoare_fetch) (simp_all, simp add: clients_ok_def)
  then have f: "hoare (\<lambda>s. clients_ok s \<and> (t = 0 \<or> bank_account t s)) (fetchCurrencyTrezorID c')
      (\<lambda>u s. (clients_ok s \<and> (t = 0 \<or> bank_account t s)) \<and> (u = 0 \<or> bank_account u s)) clients_ok"
    by (rule hoare_weaken) auto
  have b: "hoare (\<lambda>s. (clients_ok s \<and> (t = 0 \<or> bank_account t s)) \<and> (u = 0 \<or> bank_account u s))
      (if t = 0 \<or> u = 0 then direct
       else in_tx (bnd m (\<lambda>_. bnd (credit_update E t x) (\<lambda>_. bnd (credit_update E u y)
         (\<lambda>_. insert_transakcije E (ts t u)))))) (\<lambda>_. clients_ok) clients_ok" for u
  proof (cases "t = 0 \<or> u = 0")
    case True
    then show ?thesis
      by (simp only: if_True) (rule hoare_weaken [OF hoare_of_preserves [OF assms(1)]]; simp)
  next
    case False
    then show ?thesis
      by (simp only: if_False) (rule hoare_weaken [OF preserves_bank_bookings [OF assms(2,3)]]; auto)
  qed
  show "hoare (\<lambda>s. clients_ok s \<and> (t = 0 \<or> bank_account t s))
      (bnd (fetchCurrencyTrezorID c') (\<lambda>u. if t = 0 \<or> u = 0 then direct
       else in_tx (bnd m (\<lambda>_. bnd (credit_update E t x) (\<lambda>_. bnd (credit_update E u y)
         (\<lambda>_. insert_transakcije E (ts t u))))))) (\<lambda>_. clients_ok) clients_ok"
    by (rule hoare_bnd [OF f b])
qed

lemma preserves_SettleBuyFill [preserves_intros]:
  "0 \<le> x \<Longrightarrow> preserves clients_ok (SettleBuyFill E isClient i x)"
  unfolding SettleBuyFill_def Let_def
  by (intro preserves_intros preserves_via_treasury keeps_keys_settle debit_nonneg; simp)

lemma preserves_CreditSellFill [preserves_intros]:
  "0 \<le> x \<Longrightarrow> provizijaRate E \<le> 1 \<Longrightarrow> preserves clients_ok (CreditSellFill E isClient i x)"
  unfolding CreditSellFill_def Let_def
  by (intro preserves_intros preserves_via_treasury sqlFloat_nonneg convert_nonneg;
      (simp | simp add: credit_update_def, intro keeps_intros same_key_funds)?)

end

section \<open>Effects\<close>

definition currency_of :: "racun \<Rightarrow> string" where
  "currency_of r = (if valuta_oznaka r = [] then ''USD'' else valuta_oznaka r)"

definition debit_of :: "env \<Rightarrow> bool \<Rightarrow> decimal \<Rightarrow> racun \<Rightarrow> decimal" where
  "debit_of E isClient x r = sqlFloat E (convertUSDToAccountCurrency E isClient x (currency_of r) True)"

lemma accountCurrency_Some:
  "no_faults s \<Longrightarrow> racun_of s i = Some r \<Longrightarrow> accountCurrency i s = (Inr (currency_of r), bump s)"
  by (simp add: accountCurrency_ok currency_of_def)

lemma ReserveFunds_Some:
  assumes "no_faults s" and "ids_unique s" and "racun_of s i = Some r"
  shows "ReserveFunds E isClient i x s =
    (let d = debit_of E isClient x r; r' = store_racun E (add_reserved d r) in
     if raspolozivo r < d then (Inl ErrInsufficientFunds, bump (bump s))
     else if fits_racun r' then (Inr (), put_racun i r' (bump (bump s)))
     else (Inl DBError, failed (bump s)))"
proof -
  have i: "r_id r = i" using racun_of_SomeD [OF assms(3)] by simp
  have "update_racun E (reserve_guard i d) (add_reserved d) (bump s) =
     (if \<not> reserve_guard i d r then (Inr 0, bump (bump s))
      else if fits_racun (store_racun E (add_reserved d r))
        then (Inr 1, put_racun i (store_racun E (add_reserved d r)) (bump (bump s)))
      else (Inl DBError, failed (bump s)))" for d
    by (rule update_racun_one) (use assms in \<open>auto simp: reserve_guard_def\<close>)
  then show ?thesis
    using assms
    by (simp add: ReserveFunds_def Let_def bnd_def accountCurrency_Some debit_of_def reserve_guard_def
        raspolozivo_def i not_le)
qed

lemma ReleaseFunds_Some:
  assumes "no_faults s" and "ids_unique s" and "racun_of s i = Some r"
  shows "ReleaseFunds E isClient i x s =
    (let r' = store_racun E (sub_reserved (debit_of E isClient x r) r) in
     if fits_racun r' then (Inr (), put_racun i r' (bump (bump s))) else (Inl DBError, failed (bump s)))"
proof -
  have i: "r_id r = i" using racun_of_SomeD [OF assms(3)] by simp
  have "update_racun E (\<lambda>x. r_id x = i) (sub_reserved d) (bump s) =
     (if \<not> r_id r = i then (Inr 0, bump (bump s))
      else if fits_racun (store_racun E (sub_reserved d r))
        then (Inr 1, put_racun i (store_racun E (sub_reserved d r)) (bump (bump s)))
      else (Inl DBError, failed (bump s)))" for d
    by (rule update_racun_one) (use assms in auto)
  then show ?thesis
    using assms by (simp add: ReleaseFunds_def Let_def bnd_def accountCurrency_Some debit_of_def i)
qed

lemma ids_unique_put:
  assumes "ids_unique s" and "racun_of s i = Some r" and "r_id r' = r_id r" "broj_racuna r' = broj_racuna r"
  shows "ids_unique (put_racun i r' s)"
proof -
  have "x = r" if "x \<in> set (racuni s)" and "r_id x = i" for x
    using racun_of_unique [OF assms(1) that(1)] assms(2) that(2) by simp
  then have "map r_id (racuni (put_racun i r' s)) = map r_id (racuni s)"
    and "map broj_racuna (racuni (put_racun i r' s)) = map broj_racuna (racuni s)"
    using assms(3,4) by (auto simp: put_racun_def upd_where_def)
  with assms(1) show ?thesis by (simp add: ids_unique_def)
qed

lemma racun_key_fields [simp]:
  "r_id (add_reserved d r) = r_id r" "broj_racuna (add_reserved d r) = broj_racuna r"
  "r_id (sub_reserved d r) = r_id r" "broj_racuna (sub_reserved d r) = broj_racuna r"
  "r_id (add_balance d r) = r_id r" "broj_racuna (add_balance d r) = broj_racuna r"
  "r_id (settle_debit d r) = r_id r" "broj_racuna (settle_debit d r) = broj_racuna r"
  "valuta_oznaka (add_reserved d r) = valuta_oznaka r" "valuta_oznaka (sub_reserved d r) = valuta_oznaka r"
  "valuta_oznaka (add_balance d r) = valuta_oznaka r" "valuta_oznaka (settle_debit d r) = valuta_oznaka r"
  by (simp_all add: add_reserved_def sub_reserved_def add_balance_def settle_debit_def)

context numerics
begin

lemma release_after_reserve:
  assumes "racun_ok r" and "0 \<le> d" and "cents d"
  shows "store_racun E (sub_reserved d (store_racun E (add_reserved d r))) = r"
  using assms by (simp add: racun_ok_def store_racun_def sub_reserved_def add_reserved_def round2_id)

lemma reserve_release_run:
  assumes s: "no_faults s" "ids_unique s" and r: "racun_of s i = Some r" "racun_ok r"
    and d: "0 \<le> x" "cents (debit_of E isClient x r)"
    and run: "ReserveFunds E isClient i x s = (Inr (), s1)"
  shows "\<exists>s2. ReleaseFunds E isClient i x s1 = (Inr (), s2) \<and> racuni s2 = racuni s"
proof -
  let ?d = "debit_of E isClient x r" and ?r = "store_racun E (add_reserved (debit_of E isClient x r) r)"
  have i: "r_id r = i" using racun_of_SomeD [OF r(1)] by simp
  have d0: "0 \<le> ?d" using d(1) by (simp add: debit_of_def debit_nonneg)
  from run have f: "fits_racun ?r" and s1: "s1 = put_racun i ?r (bump (bump s))"
    unfolding ReserveFunds_Some [OF s r(1)] Let_def by (auto split: if_splits)
  have u1: "ids_unique s1" and nf1: "no_faults s1"
    using ids_unique_put [of "bump (bump s)" i r ?r] s r(1) by (simp_all add: s1 i)
  have r1: "racun_of s1 i = Some ?r" by (simp add: s1 racun_of_put i r(1))
  have "debit_of E isClient x ?r = ?d" by (simp add: debit_of_def currency_of_def)
  then have undo: "store_racun E (sub_reserved (debit_of E isClient x ?r) ?r) = r"
    using release_after_reserve [OF r(2) d0 d(2)] by simp
  have fr: "fits_racun r"
    using f r(2) d0 d(2) by (auto simp: fits_racun_def racun_ok_def round2_id add_reserved_def)
  have "ReleaseFunds E isClient i x s1 = (Inr (), put_racun i r (bump (bump s1)))"
    unfolding ReleaseFunds_Some [OF nf1 u1 r1] Let_def undo using fr by simp
  moreover have "racuni (put_racun i r (bump (bump s1))) = racuni s"
  proof -
    have "put_racun i r (bump (bump s1)) = put_racun i r (bump (bump (bump (bump s))))"
      unfolding s1 bump_put_racun by (rule put_put) (simp add: i)
    also have "\<dots> = bump (bump (bump (bump s)))" by (rule put_same) (simp_all add: s r)
    finally show ?thesis by simp
  qed
  ultimately show ?thesis by blast
qed

end

text \<open>One booking: the balance of one account moves by \<open>d\<close>, and with it the sum of its currency.\<close>

definition cents_db :: "db \<Rightarrow> bool" where
  "cents_db s \<longleftrightarrow> list_all (\<lambda>r. cents (stanje_racuna r)) (racuni s)"

definition booked :: "int \<Rightarrow> decimal \<Rightarrow> db \<Rightarrow> db \<Rightarrow> bool" where
  "booked i d s s' \<longleftrightarrow> racun_keys s' = racun_keys s \<and> faults s' = faults s \<and>
     tx_aborted s' = tx_aborted s \<and>
     transakcije s' = transakcije s \<and> cents_db s' \<and>
     (\<forall>r. racun_of s i = Some r \<longrightarrow>
        map_option stanje_racuna (racun_of s' i) = Some (stanje_racuna r + d) \<and>
        (\<forall>c. ukupno c s' = ukupno c s + (if valuta_oznaka r = c then d else 0)))"

lemma cents_db_put:
  "cents_db s \<Longrightarrow> cents (stanje_racuna r) \<Longrightarrow> cents_db (put_racun i r s)"
  by (auto simp: cents_db_def put_racun_def intro: list_all_upd_where)

lemma clock_free_cents [simp]: "clock_free cents_db"
  by (simp add: clock_free_def cents_db_def)

lemmas clock_cents [simp] = clock_freeD [OF clock_free_cents]

lemma cents_db_racun: "cents_db s \<Longrightarrow> racun_of s i = Some r \<Longrightarrow> cents (stanje_racuna r)"
  using racun_of_SomeD by (auto simp: cents_db_def list_all_iff)

lemma booked_put:
  assumes "ids_unique s" and "cents_db s" and "racun_of s i = Some r" and "same_key f"
    and "stanje_racuna (f r) = stanje_racuna r + d" and "cents d"
  shows "booked i d s (put_racun i (f r) (bump s))"
proof -
  have i: "r_id r = i" using racun_of_SomeD [OF assms(3)] by simp
  have "racun_keys (put_racun i (f r) (bump s)) = racun_keys (bump s)"
    using assms(1,3,4) by (intro racun_keys_put [of _ i r]) (auto simp: same_key_def)
  moreover have "ukupno c (put_racun i (f r) (bump s)) = ukupno c s +
      (if valuta_oznaka r = c then d else 0)" for c
    using assms ukupno_put [of "bump s" i r "f r" c] by (auto simp: same_key_def)
  moreover have "cents_db (put_racun i (f r) (bump s))"
    using assms cents_db_racun [OF assms(2,3)] by (intro cents_db_put) auto
  ultimately show ?thesis
    using assms(3-5) i by (simp add: booked_def racun_of_put same_key_def)
qed

lemma find_keys: "map_option valuta_oznaka (racun_of s i) =
    map_option (\<lambda>(_, _, _, c, _). c) (List.find (\<lambda>k. fst k = i) (racun_keys s))"
proof -
  have "map_option valuta_oznaka (List.find (\<lambda>r. r_id r = i) rs) =
      map_option (\<lambda>(_, _, _, c, _). c) (List.find (\<lambda>k. fst k = i)
        (map (\<lambda>r. (r_id r, broj_racuna r, id_vlasnika r, valuta_oznaka r, vrsta_racuna r, r_status r)) rs))"
    for rs by (induction rs) auto
  then show ?thesis by (simp add: racun_of_def racun_keys_def)
qed

lemma racun_of_keys:
  assumes "racun_keys s' = racun_keys s" and "racun_of s i = Some r"
  obtains r' where "racun_of s' i = Some r'" "valuta_oznaka r' = valuta_oznaka r"
proof -
  have "map_option valuta_oznaka (racun_of s' i) = map_option valuta_oznaka (racun_of s i)"
    by (simp only: find_keys assms(1))
  then show ?thesis using assms(2) that by (cases "racun_of s' i") auto
qed

context numerics
begin

lemma same_key_store: "same_key f \<Longrightarrow> same_key (\<lambda>r. store_racun E (f r))"
  by (simp add: same_key_def)

lemma credit_update_booked:
  assumes "no_faults s" "ids_unique s" "cents_db s" and r: "racun_of s i = Some r" and "cents d"
    and run: "credit_update E i d s = (Inr (), s')"
  shows "booked i d s s'"
proof -
  have one: "update_racun E (\<lambda>x. r_id x = i) (add_balance d) s =
    (if \<not> r_id r = i then (Inr 0, bump s)
     else if fits_racun (store_racun E (add_balance d r))
       then (Inr 1, put_racun i (store_racun E (add_balance d r)) (bump s))
     else (Inl DBError, failed s))"
    by (rule update_racun_one) (use assms in auto)
  have "s' = put_racun i (store_racun E (add_balance d r)) (bump s)"
    using run racun_of_SomeD [OF r] by (auto simp: credit_update_def bnd_def one split: if_splits)
  moreover have "stanje_racuna (store_racun E (add_balance d r)) = stanje_racuna r + d"
    using assms(5) cents_db_racun [OF assms(3) r] by (simp add: add_balance_def round2_id)
  ultimately show ?thesis
    using booked_put [OF assms(2,3) r same_key_store [of "add_balance d"]] assms(5) by simp
qed

lemma settle_update_booked:
  assumes "no_faults s" "ids_unique s" "cents_db s" and r: "racun_of s i = Some r" and "cents d"
    and run: "settle_update E i d s = (Inr (), s')"
  shows "d \<le> stanje_racuna r" and "booked i (- d) s s'"
proof -
  have one: "update_racun E (\<lambda>x. r_id x = i \<and> d \<le> stanje_racuna x) (settle_debit d) s =
    (if \<not> (r_id r = i \<and> d \<le> stanje_racuna r) then (Inr 0, bump s)
     else if fits_racun (store_racun E (settle_debit d r))
       then (Inr 1, put_racun i (store_racun E (settle_debit d r)) (bump s))
     else (Inl DBError, failed s))"
    by (rule update_racun_one) (use assms in auto)
  from run have "s' = put_racun i (store_racun E (settle_debit d r)) (bump s)"
    and "d \<le> stanje_racuna r"
    by (auto simp: settle_update_def bnd_def one split: if_splits)
  moreover have "stanje_racuna (store_racun E (settle_debit d r)) = stanje_racuna r + - d"
    using assms(5) cents_db_racun [OF assms(3) r] by (simp add: settle_debit_def round2_id)
  ultimately show "d \<le> stanje_racuna r" and "booked i (- d) s s'"
    using booked_put [OF assms(2,3) r same_key_store [of "settle_debit d"]] assms(5) by simp_all
qed

text \<open>The account moves by \<open>d0\<close> through some first statement, then the two treasury accounts by \<open>x\<close> and \<open>y\<close>.\<close>

lemma three_bookings:
  assumes s: "no_faults s" "ids_unique s" "cents_db s"
    and r: "racun_of s i = Some r" "racun_of s t = Some rt" "racun_of s u = Some ru"
    and c: "cents x" "cents y"
    and m: "\<And>s1 s2. no_faults s1 \<Longrightarrow> ids_unique s1 \<Longrightarrow> cents_db s1 \<Longrightarrow> racun_of s1 i = Some r \<Longrightarrow>
       m s1 = (Inr (), s2) \<Longrightarrow> booked i d0 s1 s2"
    and run: "in_tx (bnd m (\<lambda>_. bnd (credit_update E t x) (\<lambda>_. bnd (credit_update E u y)
       (\<lambda>_. insert_transakcije E ts)))) s = (Inr (), s')"
  shows "ukupno c' s' = ukupno c' s + (if valuta_oznaka r = c' then d0 else 0)
      + (if valuta_oznaka rt = c' then x else 0) + (if valuta_oznaka ru = c' then y else 0)"
    and "transakcije s' = transakcije s @ map (\<lambda>t. t\<lparr>t_iznos := round2 E (t_iznos t)\<rparr>) ts"
proof -
  from run obtain s1 s2 s3 s4 where m1: "m (begin_tx s) = (Inr (), s1)"
    and m2: "credit_update E t x s1 = (Inr (), s2)" and m3: "credit_update E u y s2 = (Inr (), s3)"
    and m4: "insert_transakcije E ts s3 = (Inr (), s4)" and s': "s' = end_tx s (bump s4)"
    by (elim in_tx_InrE bnd_InrE) auto
  have b1: "booked i d0 (begin_tx s) s1" by (rule m [OF _ _ _ _ m1]) (simp_all add: s r)
  have k1: "racun_keys s1 = racun_keys s" and p1: "no_faults s1" "ids_unique s1" "cents_db s1"
    using b1 s ids_unique_cong [of s1 s] by (auto simp: booked_def)
  obtain rt1 where rt1: "racun_of s1 t = Some rt1" "valuta_oznaka rt1 = valuta_oznaka rt"
    by (rule racun_of_keys [OF k1 r(2)])
  have b2: "booked t x s1 s2" by (rule credit_update_booked [OF p1 rt1(1) c(1) m2])
  have k2: "racun_keys s2 = racun_keys s" and p2: "no_faults s2" "ids_unique s2" "cents_db s2"
    using b2 k1 p1 ids_unique_cong [of s2 s1] by (auto simp: booked_def)
  obtain ru2 where ru2: "racun_of s2 u = Some ru2" "valuta_oznaka ru2 = valuta_oznaka ru"
    by (rule racun_of_keys [OF k2 r(3)])
  have b3: "booked u y s2 s3" by (rule credit_update_booked [OF p2 ru2(1) c(2) m3])
  have s4: "s4 = (bump s3)\<lparr>transakcije := transakcije s3 @ map (\<lambda>t. t\<lparr>t_iznos := round2 E (t_iznos t)\<rparr>) ts\<rparr>"
    by (rule insert_transakcije_Inr [OF m4])
  show "ukupno c' s' = ukupno c' s + (if valuta_oznaka r = c' then d0 else 0)
      + (if valuta_oznaka rt = c' then x else 0) + (if valuta_oznaka ru = c' then y else 0)"
    using b1 b2 b3 r(1) rt1 ru2 by (simp add: booked_def s' s4)
  show "transakcije s' = transakcije s @ map (\<lambda>t. t\<lparr>t_iznos := round2 E (t_iznos t)\<rparr>) ts"
    using b1 b2 b3 by (simp add: booked_def s' s4)
qed

end

definition trezor :: "string \<Rightarrow> db \<Rightarrow> racun option" where
  "trezor c s = List.find (\<lambda>r. id_vlasnika r = 2 \<and> valuta_oznaka r = c \<and> r_status r = ''AKTIVAN'') (racuni s)"

lemma clock_free_trezor [simp]: "clock_free (trezor c)"
  by (simp add: clock_free_def trezor_def)

lemmas clock_trezor [simp] = clock_freeD [OF clock_free_trezor]

lemma fetchCurrencyTrezorID_ok:
  "no_faults s \<Longrightarrow> fetchCurrencyTrezorID c s =
     (Inr (case trezor c s of None \<Rightarrow> 0 | Some r \<Rightarrow> r_id r), bump s)"
  by (simp add: fetchCurrencyTrezorID_def query_or_ok trezor_def)

lemma trezor_racun_of:
  "ids_unique s \<Longrightarrow> trezor c s = Some r \<Longrightarrow> racun_of s (r_id r) = Some r \<and> valuta_oznaka r = c"
  using racun_of_unique by (auto simp: trezor_def find_Some_iff)

section \<open>Clamping published shares\<close>

lemma delete_share_ok:
  "no_faults s \<Longrightarrow> delete_share i s =
     (Inr (), (bump s)\<lparr>public_shares := filter (\<lambda>p. ps_id p \<noteq> i) (public_shares s)\<rparr>)"
  by (simp add: delete_share_def stmt_ok)

lemma set_share_ok:
  "no_faults s \<Longrightarrow> 0 < q \<Longrightarrow> set_share i q s =
     (Inr (), (bump s)\<lparr>public_shares := upd_where (\<lambda>p. ps_id p = i) (\<lambda>p. p\<lparr>ps_quantity := q\<rparr>) (public_shares s)\<rparr>)"
  by (simp add: set_share_def stmt_ok)

text \<open>What the loop leaves of the rows it walks: the oldest go first.\<close>

fun clamped :: "public_share list \<Rightarrow> int \<Rightarrow> public_share list" where
  "clamped [] n = []"
| "clamped (p # ps) n =
     (if n \<le> 0 then p # ps
      else if ps_quantity p \<le> n then clamped ps (n - ps_quantity p)
      else p\<lparr>ps_quantity := ps_quantity p - n\<rparr> # ps)"

lemma clamped_sum:
  "\<forall>p \<in> set ps. 0 < ps_quantity p \<Longrightarrow> 0 \<le> n \<Longrightarrow> n \<le> (\<Sum>p \<leftarrow> ps. ps_quantity p) \<Longrightarrow>
   (\<Sum>p \<leftarrow> clamped ps n. ps_quantity p) = (\<Sum>p \<leftarrow> ps. ps_quantity p) - n"
  by (induction ps n rule: clamped.induct) auto

lemma clamped_pos: "\<forall>p \<in> set ps. 0 < ps_quantity p \<Longrightarrow> \<forall>p \<in> set (clamped ps n). 0 < ps_quantity p"
  by (induction ps n rule: clamped.induct) auto

lemma clamp_loop_run:
  assumes "no_faults s" and "distinct (map ps_id (public_shares s))"
    and "\<forall>p \<in> set (public_shares s). 0 < ps_quantity p"
    and "rows = filter Q (public_shares s)" and "\<And>p q. Q (p\<lparr>ps_quantity := q\<rparr>) = Q p"
  shows "\<exists>s'. clamp_loop rows n s = (Inr (), s') \<and> no_faults s' \<and> orders s' = orders s \<and>
     filter Q (public_shares s') = clamped rows n \<and>
     filter (\<lambda>p. \<not> Q p) (public_shares s') = filter (\<lambda>p. \<not> Q p) (public_shares s)"
  using assms(1-4)
proof (induction rows arbitrary: n s)
  case Nil
  then show ?case by simp
next
  case (Cons p rows)
  note s = Cons.prems
  have p: "p \<in> set (public_shares s)" "Q p" and pos: "0 < ps_quantity p"
    using s(3,4) by (auto simp: Cons_eq_filter_iff)
  have d: "distinct (map ps_id (p # rows))"
    unfolding s(4) by (rule distinct_map_filter [OF s(2)])
  have only: "x = p" if "x \<in> set (public_shares s)" and "ps_id x = ps_id p" for x
    using s(2) p that by (auto dest: inj_onD [OF distinct_map [THEN iffD1, THEN conjunct2]])
  consider "n \<le> 0" | "0 < n" "ps_quantity p \<le> n" | "0 < n" "n < ps_quantity p" by linarith
  then show ?case
  proof cases
    case 1
    then show ?thesis using s(1) s(4) [symmetric] by simp
  next
    case 2
    let ?s1 = "(bump s)\<lparr>public_shares := filter (\<lambda>x. ps_id x \<noteq> ps_id p) (public_shares s)\<rparr>"
    have keep: "filter (\<lambda>x. \<not> Q x) (public_shares ?s1) = filter (\<lambda>x. \<not> Q x) (public_shares s)"
      using only p(2) by (auto intro!: filter_cong)
    have rows: "rows = filter Q (public_shares ?s1)"
    proof -
      have "filter (\<lambda>x. ps_id x \<noteq> ps_id p) (p # rows) = rows"
        using d by (auto simp: filter_id_conv image_iff)
      moreover have "filter Q (public_shares ?s1) = filter (\<lambda>x. ps_id x \<noteq> ps_id p) (filter Q (public_shares s))"
        by (simp add: conj_commute)
      ultimately show ?thesis using s(4) by simp
    qed
    have "\<exists>s'. clamp_loop rows (n - ps_quantity p) ?s1 = (Inr (), s') \<and> no_faults s' \<and>
        orders s' = orders ?s1 \<and> filter Q (public_shares s') = clamped rows (n - ps_quantity p) \<and>
        filter (\<lambda>x. \<not> Q x) (public_shares s') = filter (\<lambda>x. \<not> Q x) (public_shares ?s1)"
      by (rule Cons.IH [OF _ _ _ rows]) (use s in \<open>auto simp: distinct_map_filter\<close>)
    then show ?thesis
      unfolding keep using 2 s(1) by (simp add: bnd_def delete_share_ok)
  next
    case 3
    let ?f = "\<lambda>x. x\<lparr>ps_quantity := ps_quantity p - n\<rparr>"
    let ?s1 = "(bump s)\<lparr>public_shares := upd_where (\<lambda>x. ps_id x = ps_id p) ?f (public_shares s)\<rparr>"
    have q: "filter R (upd_where (\<lambda>x. ps_id x = ps_id p) ?f ps) =
        upd_where (\<lambda>x. ps_id x = ps_id p) ?f (filter R ps)" if "\<And>x q. R (x\<lparr>ps_quantity := q\<rparr>) = R x" for R ps
      by (induction ps) (auto simp: upd_where_def that)
    have "upd_where (\<lambda>x. ps_id x = ps_id p) ?f rows = rows"
      using d by (intro upd_where_None) (auto simp: image_iff)
    moreover have "upd_where (\<lambda>x. ps_id x = ps_id p) ?f (filter (\<lambda>x. \<not> Q x) (public_shares s)) =
        filter (\<lambda>x. \<not> Q x) (public_shares s)"
      using only p(2) by (intro upd_where_None) auto
    moreover have "clamp_loop rows 0 = ret ()" by (cases rows) simp_all
    ultimately show ?thesis
      using 3 s(1) q [of Q] q [of "\<lambda>x. \<not> Q x"] assms(5) s(4) [symmetric]
      by (simp add: bnd_def set_share_ok upd_where_def)
  qed
qed

section \<open>Properties\<close>


text \<open>Any interleaving of the operations, for any users and any pattern of database failures.\<close>

inductive funds_step :: "env \<Rightarrow> db \<Rightarrow> db \<Rightarrow> bool" for E where
  reserve: "0 \<le> x \<Longrightarrow> funds_step E s (snd (ReserveFunds E isClient i x s))"
| release: "0 \<le> x \<Longrightarrow> funds_step E s (snd (ReleaseFunds E isClient i x s))"
| settle: "0 \<le> x \<Longrightarrow> funds_step E s (snd (SettleBuyFill E isClient i x s))"
| credit: "0 \<le> x \<Longrightarrow> funds_step E s (snd (CreditSellFill E isClient i x s))"
| forex_reserve: "0 \<le> x \<Longrightarrow> funds_step E s (snd (ReserveForexFunds E isClient i q x s))"
| forex_release: "0 \<le> x \<Longrightarrow> funds_step E s (snd (ReleaseForexFunds E isClient i q x s))"

inductive_cases funds_stepE: "funds_step E s s'"

lemma funds_step_clients_ok:
  assumes "numerics E" and "provizijaRate E \<le> 1" and "funds_step E s s'" and "clients_ok s"
  shows "clients_ok s'"
  using assms(3,4) numerics.preserves_reservations [OF assms(1)]
    numerics.preserves_SettleBuyFill [OF assms(1)] numerics.preserves_CreditSellFill [OF assms(1) _ assms(2)]
  by (auto elim!: funds_stepE simp: preserves_def)



lemma sample_racun_of: "racun_of sample_db 10 = Some (sample_racun 10 ''A10'' 7 ''EUR'' 1000)"
  by (simp add: racun_of_def)

lemma sample_debit: "debit_of sample_env True 11 (sample_racun 10 ''A10'' 7 ''EUR'' 1000) = 11"
  by (simp add: debit_of_def currency_of_def convertUSDToAccountCurrency_def rateOf_def applyProvizija_def)

text \<open>\<open>ReserveFunds\<close> on an existing account, when no statement fails: if the converted debit exceeds
  the free balance it is refused with \<open>ErrInsufficientFunds\<close> and no account changes; otherwise exactly
  the reservation of that account grows by the debit (rounded to cents), unless the new amount does
  not fit the column.\<close>

theorem reserve_funds_exact:
  assumes "no_faults s" and "ids_unique s" and "racun_of s i = Some r"
    and "d = debit_of E isClient x r" and "r' = store_racun E (add_reserved d r)"
  shows "\<exists>s'. ReserveFunds E isClient i x s =
      (if raspolozivo r < d then Inl ErrInsufficientFunds else if fits_racun r' then Inr () else Inl DBError, s')
    \<and> (\<forall>j. racun_of s' j =
        (if j = i \<and> d \<le> raspolozivo r \<and> fits_racun r' then Some r' else racun_of s j))"
proof -
  have i: "r_id r = i" using racun_of_SomeD [OF assms(3)] by simp
  show ?thesis
    using assms(3) unfolding ReserveFunds_Some [OF assms(1-3)] Let_def assms(4,5)
    by (simp add: racun_of_put i)
qed

theorem reserve_funds_exact_witness:
  "\<exists>s'. ReserveFunds sample_env True 10 11 sample_db = (Inr (), s') \<and>
     map_option rezervisana_sredstva (racun_of s' 10) = Some 11"
  using reserve_funds_exact [OF _ sample_ids sample_racun_of refl refl, of sample_env True 11]
  by (auto simp: sample_debit raspolozivo_def add_reserved_def fits_racun_def)

text \<open>Releasing what was just reserved restores every account, when the converted amount is a
  whole number of cents: \<open>ReleaseFunds\<close> is the inverse of a successful \<open>ReserveFunds\<close> made with the
  same amount and the same client flag.\<close>

theorem reserve_then_release:
  assumes "numerics E" and "no_faults s" and "ids_unique s" and "racun_of s i = Some r" and "racun_ok r"
    and "0 \<le> x" and "cents (debit_of E isClient x r)"
    and "ReserveFunds E isClient i x s = (Inr (), s1)"
  shows "\<exists>s2. ReleaseFunds E isClient i x s1 = (Inr (), s2) \<and> racuni s2 = racuni s"
  by (rule numerics.reserve_release_run) (fact assms)+

theorem reserve_then_release_witness:
  "\<exists>s2. ReleaseFunds sample_env True 10 11 (snd (ReserveFunds sample_env True 10 11 sample_db)) = (Inr (), s2)
     \<and> racuni s2 = racuni sample_db"
proof -
  let ?r = "sample_racun 10 ''A10'' 7 ''EUR'' 1000"
  have "ReserveFunds sample_env True 10 11 sample_db = (Inr (), snd (ReserveFunds sample_env True 10 11 sample_db))"
    using ReserveFunds_Some [OF _ sample_ids sample_racun_of, of sample_env True 11]
    by (simp add: sample_debit raspolozivo_def add_reserved_def fits_racun_def Let_def)
  from reserve_then_release [OF sample_numerics _ sample_ids sample_racun_of _ _ _ this] show ?thesis
    by (simp add: sample_debit racun_ok_def cents_def)
qed

lemma SettleBuyFill_client:
  assumes "no_faults s" and "racun_of s i = Some r" and "currency_of r \<noteq> ''USD''"
    and "trezor (currency_of r) s = Some t" "r_id t \<noteq> 0" and "trezor ''USD'' s = Some u" "r_id u \<noteq> 0"
  shows "SettleBuyFill E True i x s =
    in_tx (bnd (settle_update E i (debit_of E True x r)) (\<lambda>_.
      bnd (credit_update E (r_id t) (debit_of E True x r)) (\<lambda>_.
      bnd (credit_update E (r_id u) (- sqlFloat E x)) (\<lambda>_.
        insert_transakcije E [isplata i (debit_of E True x r), uplata (r_id t) (debit_of E True x r),
          isplata (r_id u) (sqlFloat E x)])))) (bump (bump (bump s)))"
  using assms
  by (simp add: SettleBuyFill_def Let_def bnd_def [of "accountCurrency i"] accountCurrency_Some
      bnd_def [of "fetchCurrencyTrezorID c" for c] fetchCurrencyTrezorID_ok debit_of_def)

lemma CreditSellFill_client:
  assumes "no_faults s" and "racun_of s i = Some r" and "currency_of r \<noteq> ''USD''"
    and "trezor (currency_of r) s = Some t" "r_id t \<noteq> 0" and "trezor ''USD'' s = Some u" "r_id u \<noteq> 0"
    and "k = sqlFloat E (convertUSDToAccountCurrency E True x (currency_of r) False)"
  shows "CreditSellFill E True i x s =
    in_tx (bnd (credit_update E i k) (\<lambda>_. bnd (credit_update E (r_id t) (- k)) (\<lambda>_.
      bnd (credit_update E (r_id u) (sqlFloat E x)) (\<lambda>_.
        insert_transakcije E [uplata i k, isplata (r_id t) k, uplata (r_id u) (sqlFloat E x)]))))
      (bump (bump (bump s)))"
  using assms
  by (simp add: CreditSellFill_def Let_def bnd_def [of "accountCurrency i"] accountCurrency_Some
      bnd_def [of "fetchCurrencyTrezorID c" for c] fetchCurrencyTrezorID_ok)


text \<open>The mirror image for a sell fill: what the client receives leaves the treasury in the same
  currency, and the USD proceeds go to the treasury.\<close>

theorem credit_sell_conserves:
  assumes "numerics E" and "no_faults s" "ids_unique s" "cents_db s"
    and "racun_of s i = Some r" and "currency_of r = valuta_oznaka r" and "valuta_oznaka r \<noteq> ''USD''"
    and "trezor (valuta_oznaka r) s = Some t" "r_id t \<noteq> 0" and "trezor ''USD'' s = Some u" "r_id u \<noteq> 0"
    and "k = sqlFloat E (convertUSDToAccountCurrency E True x (currency_of r) False)"
    and "cents k" and "sqlFloat E x = x" and "cents x"
    and "CreditSellFill E True i x s = (Inr (), s')"
  shows "ukupno (valuta_oznaka r) s' = ukupno (valuta_oznaka r) s \<and>
    ukupno ''USD'' s' = ukupno ''USD'' s + x \<and>
    transakcije s' = transakcije s @ [uplata i k, isplata (r_id t) k, uplata (r_id u) x]"
proof -
  let ?s = "bump (bump (bump s))"
  note run = assms(16) [unfolded CreditSellFill_client [OF assms(2,5) _ _ assms(9,10,11),
    unfolded assms(6), OF assms(7,8) assms(12) [unfolded assms(6)]] assms(14)]
  note tr = trezor_racun_of [OF assms(3) assms(8)] trezor_racun_of [OF assms(3) assms(10)]
  have m: "booked i k s1 s2"
    if "no_faults s1" "ids_unique s1" "cents_db s1" "racun_of s1 i = Some r" "credit_update E i k s1 = (Inr (), s2)"
    for s1 s2
    by (rule numerics.credit_update_booked [OF assms(1) that(1-4) assms(13) that(5)])
  have "ukupno c s' = ukupno c ?s + (if valuta_oznaka r = c then k else 0)
      + (if valuta_oznaka t = c then - k else 0) + (if valuta_oznaka u = c then x else 0)" for c
    by (rule numerics.three_bookings(1) [OF assms(1) _ _ _ _ _ _ _ _ m run])
      (simp_all add: assms(2-5,13-15) tr)
  moreover have "transakcije s' = transakcije ?s @
      map (\<lambda>t. t\<lparr>t_iznos := round2 E (t_iznos t)\<rparr>) [uplata i k, isplata (r_id t) k, uplata (r_id u) x]"
    by (rule numerics.three_bookings(2) [OF assms(1) _ _ _ _ _ _ _ _ m run])
      (simp_all add: assms(2-5,13-15) tr)
  ultimately show ?thesis
    using assms(7) tr numerics.round2_id [OF assms(1)] assms(13,15) by (simp add: isplata_def uplata_def)
qed

lemma sample_trezor:
  "trezor ''EUR'' sample_db = Some (sample_racun 20 ''B20'' 2 ''EUR'' 5000)"
  "trezor ''USD'' sample_db = Some (sample_racun 21 ''B21'' 2 ''USD'' 5000)"
  by (simp_all add: trezor_def)

lemma sample_cents: "cents_db sample_db"
  by (simp add: cents_db_def cents_def)

lemmas eval_simps = bnd_def in_tx_def query_def query_or_def stmt_def attempt_def ignore_def
  accountCurrency_def fetchCurrencyTrezorID_def racun_of_def settle_update_def credit_update_def
  update_racun_def insert_transakcije_def store_racun_def fits_racun_def upd_where_def settle_debit_def
  add_balance_def add_reserved_def reserve_guard_def sub_reserved_def isplata_def uplata_def
  convertUSDToAccountCurrency_def rateOf_def applyProvizija_def Let_def sample_racun_def
  sample_db_def empty_db_def bump_def

lemma sample_runs:
  "fst (SettleBuyFill sample_env True 10 11 sample_db) = Inr ()"
  "fst (CreditSellFill sample_env True 10 11 sample_db) = Inr ()"
  by (simp_all add: SettleBuyFill_def CreditSellFill_def eval_simps)


theorem credit_sell_conserves_witness:
  "ukupno ''EUR'' (snd (CreditSellFill sample_env True 10 11 sample_db)) = ukupno ''EUR'' sample_db \<and>
   ukupno ''USD'' (snd (CreditSellFill sample_env True 10 11 sample_db)) = ukupno ''USD'' sample_db + 11"
proof -
  have k: "11 = sqlFloat sample_env (convertUSDToAccountCurrency sample_env True 11 ''EUR'' False)"
    by (simp add: convertUSDToAccountCurrency_def rateOf_def applyProvizija_def)
  show ?thesis
    using credit_sell_conserves [OF sample_numerics _ sample_ids sample_cents sample_racun_of,
        where k = 11 and x = 11 and s' = "snd (CreditSellFill sample_env True 10 11 sample_db)"]
      sample_trezor sample_runs(2) k
    by (simp add: prod_eq_iff currency_of_def cents_def)
qed

definition in_scope :: "bool \<Rightarrow> int \<Rightarrow> int \<Rightarrow> db \<Rightarrow> public_share \<Rightarrow> bool" where
  "in_scope isClient u l s p \<longleftrightarrow> ps_listing_id p = l \<and>
     (if isClient then ps_user_id p = u else isActuaryID s (ps_user_id p))"

lemma in_scope_quantity: "in_scope isClient u l s (p\<lparr>ps_quantity := q\<rparr>) = in_scope isClient u l s p"
  by (simp add: in_scope_def)

definition holdings :: "bool \<Rightarrow> int \<Rightarrow> int \<Rightarrow> db \<Rightarrow> int" where
  "holdings isClient u l s = netHoldings (\<lambda>ord. o_ListingID ord = l \<and>
     (if isClient then o_UserID ord = u else isActuaryID s (o_UserID ord))) (orders s)"

definition published :: "(public_share \<Rightarrow> bool) \<Rightarrow> db \<Rightarrow> int" where
  "published Q s = (\<Sum>p \<leftarrow> filter Q (public_shares s). ps_quantity p)"

lemma published_nonneg:
  "\<forall>p \<in> set (public_shares s). 0 < ps_quantity p \<Longrightarrow> 0 \<le> published Q s"
  unfolding published_def by (intro sum_list_nonneg) auto

text \<open>After a sale, \<open>ClampPublicSharesToHoldings\<close> leaves published at most what is still held, and
  removes no more than the excess: the published quantity becomes the smaller of what it was and the
  (non-negative) holding; no row is left empty, and rows of other users or listings are untouched.\<close>

theorem clamp_published_to_holdings:
  assumes "no_faults s" and "distinct (map ps_id (public_shares s))"
    and "list_all (\<lambda>p. 0 < ps_quantity p) (public_shares s)"
  shows "\<exists>s'. ClampPublicSharesToHoldings isClient u l s = (Inr (), s') \<and>
     published (in_scope isClient u l s) s' =
       min (published (in_scope isClient u l s) s) (max 0 (holdings isClient u l s)) \<and>
     list_all (\<lambda>p. 0 < ps_quantity p) (filter (in_scope isClient u l s) (public_shares s')) \<and>
     filter (\<lambda>p. \<not> in_scope isClient u l s p) (public_shares s') =
       filter (\<lambda>p. \<not> in_scope isClient u l s p) (public_shares s) \<and> orders s' = orders s"
proof -
  let ?Q = "in_scope isClient u l s" and ?s = "bump (bump s)" and ?own = "max 0 (holdings isClient u l s)"
  let ?rows = "filter ?Q (public_shares s)"
  let ?x = "published ?Q s - ?own"
  have pos: "\<forall>p \<in> set (public_shares s). 0 < ps_quantity p" using assms(3) by (simp add: list_all_iff)
  have scope: "(\<lambda>p. ps_listing_id p = l \<and> (if isClient then ps_user_id p = u else isActuaryID (bump s') (ps_user_id p)))
      = in_scope isClient u l s'" for s' by (rule ext) (simp add: in_scope_def isActuaryID_def)
  have run: "ClampPublicSharesToHoldings isClient u l s =
      (if ?x \<le> 0 then ret () else clamp_loop ?rows ?x) ?s"
    using assms(1)
    by (simp add: ClampPublicSharesToHoldings_def bnd_def query_ok query_or_ok Let_def scope max_def
        holdings_def published_def in_scope_def [abs_def] isActuaryID_def)
  show ?thesis
  proof (cases "?x \<le> 0")
    case True
    with run pos show ?thesis by (auto simp: published_def list_all_iff)
  next
    case False
    obtain s' where "clamp_loop ?rows ?x ?s = (Inr (), s')" "orders s' = orders s"
      and Q: "filter ?Q (public_shares s') = clamped ?rows ?x"
      and "filter (\<lambda>p. \<not> ?Q p) (public_shares s') = filter (\<lambda>p. \<not> ?Q p) (public_shares s)"
      using clamp_loop_run [of ?s ?rows ?Q ?x] assms pos in_scope_quantity by fastforce
    moreover have "published ?Q s' = ?own"
      unfolding published_def Q
      by (subst clamped_sum) (use False pos in \<open>auto simp: published_def\<close>)
    moreover have "list_all (\<lambda>p. 0 < ps_quantity p) (filter ?Q (public_shares s'))"
      unfolding Q list_all_iff by (rule clamped_pos) (use pos in auto)
    ultimately show ?thesis using False run by (simp add: min_def)
  qed
qed

theorem clamp_published_to_holdings_witness:
  "let s = sample_db\<lparr>orders := [sample_order],
       public_shares := [\<lparr>ps_id = 1, ps_listing_id = 3, ps_user_id = 7, ps_quantity = 5\<rparr>]\<rparr>
   in \<exists>s'. ClampPublicSharesToHoldings True 7 3 s = (Inr (), s') \<and>
      published (in_scope True 7 3 s) s' = 4"
proof -
  let ?s = "sample_db\<lparr>orders := [sample_order],
       public_shares := [\<lparr>ps_id = 1, ps_listing_id = 3, ps_user_id = 7, ps_quantity = 5\<rparr>]\<rparr>"
  have "published (in_scope True 7 3 ?s) ?s = 5" and "holdings True 7 3 ?s = 4"
    by (simp_all add: published_def in_scope_def holdings_def netHoldings_def sample_order_def)
  with clamp_published_to_holdings [of ?s True 7 3] show ?thesis by auto
qed

section \<open>Forex properties\<close>

lemma ReserveForexFunds_client_InrE:
  assumes "no_faults s" and "ids_unique s" and "ReserveForexFunds E True i q x s = (Inr (), s')"
  obtains r where "racun_of s i = Some r" "currency_of r = q" "sqlFloat E x \<le> raspolozivo r"
    "s' = put_racun i (store_racun E (add_reserved (sqlFloat E x) r)) (bump (bump s))"
proof (cases "racun_of s i")
  case None
  then have "\<forall>r \<in> set (racuni s). r_id r \<noteq> i"
    by (auto simp: racun_of_def find_None_iff)
  then have "filter (reserve_guard i d) (racuni s) = []" for d
    by (auto simp: reserve_guard_def filter_empty_conv)
  then show ?thesis
    using assms None
    by (auto simp: ReserveForexFunds_def resolveForexDebitAccountID_def bnd_def accountCurrency_ok
        update_racun_ok Let_def split: if_splits)
next
  case (Some r)
  have i: "r_id r = i" using racun_of_SomeD [OF Some] by simp
  have one: "update_racun E (reserve_guard i d) (add_reserved d) (bump s) =
     (if \<not> reserve_guard i d r then (Inr 0, bump (bump s))
      else if fits_racun (store_racun E (add_reserved d r))
        then (Inr 1, put_racun i (store_racun E (add_reserved d r)) (bump (bump s)))
      else (Inl DBError, failed (bump s)))" for d
    by (rule update_racun_one) (use assms Some in \<open>auto simp: reserve_guard_def\<close>)
  show ?thesis
    by (rule that [OF Some]; use assms(1,3) Some in
        \<open>simp add: ReserveForexFunds_def resolveForexDebitAccountID_def bnd_def accountCurrency_Some one
          Let_def reserve_guard_def raspolozivo_def i split: if_splits\<close>)
qed

lemma forexAccount_ok:
  "no_faults s \<Longrightarrow> forexAccount f s = (case f (bump s) of None \<Rightarrow> (Inl ErrForexAccountNotFound, bump s)
     | Some r \<Rightarrow> if r_id r = 0 then (Inl ErrForexAccountNotFound, bump s) else (Inr r, bump s))"
  by (simp add: forexAccount_def bnd_def query_or_ok split: option.splits)

lemma clock_free_first_racun [simp]: "clock_free (first_racun P)"
  by (simp add: clock_free_def first_racun_def)

lemmas clock_first_racun [simp] = clock_freeD [OF clock_free_first_racun]

lemma find_SomeD: "List.find P xs = Some x \<Longrightarrow> x \<in> set xs \<and> P x"
  by (auto simp: find_Some_iff)

lemma first_racun_SomeD: "first_racun P s = Some r \<Longrightarrow> r \<in> set (racuni s) \<and> P r"
  unfolding first_racun_def using find_SomeD [of P "sort_key r_id (racuni s)" r] by simp

lemma ForexSwap_buy_client:
  assumes "no_faults s" and "base \<noteq> q" and "racun_of s i = Some r" "i \<noteq> 0" "id_vlasnika r = u" "valuta_oznaka r = q"
    and "first_racun (\<lambda>r. id_vlasnika r = u \<and> valuta_oznaka r = base \<and> r_status r = ''AKTIVAN'') s = Some t"
      "r_id t \<noteq> 0" "r_id t \<noteq> i"
  shows "ForexSwap E True u i base q n rate BUY s =
    (if raspolozivo r < n * rate then fail ErrInsufficientFunds
     else bnd (update_racun E (\<lambda>x. r_id x = i) (settle_debit (sqlFloat E (n * rate)))) (\<lambda>_.
       bnd (credit_update E (r_id t) (sqlFloat E n)) (\<lambda>_.
         insert_transakcije E [isplata i (sqlFloat E (n * rate)), uplata (r_id t) (sqlFloat E n)])))
      (bump (bump (bump s)))"
proof -
  have i: "r_id r = i" using racun_of_SomeD [OF assms(3)] by simp
  show ?thesis
    using assms i
    by (simp add: ForexSwap_def resolveForexAccounts_def activeAccount_def bnd_def [of "forexAccount f" for f]
        bnd_def [of "bnd m f" for m f] forexAccount_ok bnd_def [of "query f" for f] query_ok Let_def)
qed

context numerics
begin

lemma debit_booked:
  assumes "no_faults s" "ids_unique s" "cents_db s" and r: "racun_of s i = Some r" and "cents d"
    and run: "update_racun E (\<lambda>x. r_id x = i) (settle_debit d) s = (Inr n, s')"
  shows "booked i (- d) s s'"
proof -
  have one: "update_racun E (\<lambda>x. r_id x = i) (settle_debit d) s =
    (if \<not> r_id r = i then (Inr 0, bump s)
     else if fits_racun (store_racun E (settle_debit d r))
       then (Inr 1, put_racun i (store_racun E (settle_debit d r)) (bump s))
     else (Inl DBError, failed s))"
    by (rule update_racun_one) (use assms in auto)
  have "s' = put_racun i (store_racun E (settle_debit d r)) (bump s)"
    using run racun_of_SomeD [OF r] by (auto simp: one split: if_splits)
  moreover have "stanje_racuna (store_racun E (settle_debit d r)) = stanje_racuna r + - d"
    using assms(5) cents_db_racun [OF assms(3) r] by (simp add: settle_debit_def round2_id)
  ultimately show ?thesis
    using booked_put [OF assms(2,3) r same_key_store [of "settle_debit d"]] assms(5) by simp
qed

lemma forex_bookings:
  assumes s: "no_faults s" "ids_unique s" "cents_db s" and r: "racun_of s i = Some r" "racun_of s t = Some rt"
    and c: "cents d" "cents k"
    and run: "bnd (update_racun E (\<lambda>x. r_id x = i) (settle_debit d)) (\<lambda>_.
       bnd (credit_update E t k) (\<lambda>_. insert_transakcije E ts)) s = (Inr (), s')"
  shows "ukupno c' s' = ukupno c' s + (if valuta_oznaka r = c' then - d else 0)
      + (if valuta_oznaka rt = c' then k else 0)"
proof -
  from run obtain n s1 s2 where m1: "update_racun E (\<lambda>x. r_id x = i) (settle_debit d) s = (Inr n, s1)"
    and m2: "credit_update E t k s1 = (Inr (), s2)" and m3: "insert_transakcije E ts s2 = (Inr (), s')"
    by (elim bnd_InrE) auto
  have b1: "booked i (- d) s s1" by (rule debit_booked [OF s r(1) c(1) m1])
  have k1: "racun_keys s1 = racun_keys s" and p1: "no_faults s1" "ids_unique s1" "cents_db s1"
    using b1 s ids_unique_cong [of s1 s] by (auto simp: booked_def)
  obtain rt1 where rt1: "racun_of s1 t = Some rt1" "valuta_oznaka rt1 = valuta_oznaka rt"
    by (rule racun_of_keys [OF k1 r(2)])
  have b2: "booked t k s1 s2" by (rule credit_update_booked [OF p1 rt1(1) c(2) m2])
  show ?thesis
    using b1 b2 r(1) rt1 by (simp add: booked_def insert_transakcije_Inr [OF m3])
qed

end

text \<open>A forex purchase by a client that succeeds debits the quote account by \<open>nominal \<times> rate\<close>,
  which its free balance covers, and credits the client's account in the base currency by the nominal
  amount; no other currency moves.\<close>

theorem forex_swap_buy_moves:
  assumes "numerics E" and "no_faults s" "ids_unique s" "cents_db s" and "base \<noteq> q"
    and "racun_of s i = Some r" "i \<noteq> 0" "id_vlasnika r = u" "valuta_oznaka r = q"
    and "first_racun (\<lambda>r. id_vlasnika r = u \<and> valuta_oznaka r = base \<and> r_status r = ''AKTIVAN'') s = Some t"
      "r_id t \<noteq> 0" "r_id t \<noteq> i"
    and "cents n" "sqlFloat E n = n" and "cents (n * rate)" "sqlFloat E (n * rate) = n * rate"
    and "ForexSwap E True u i base q n rate BUY s = (Inr (), s')"
  shows "n * rate \<le> raspolozivo r \<and> ukupno q s' = ukupno q s - n * rate \<and>
    ukupno base s' = ukupno base s + n \<and> (\<forall>c. c \<noteq> q \<and> c \<noteq> base \<longrightarrow> ukupno c s' = ukupno c s)"
proof -
  let ?s = "bump (bump (bump s))"
  have t: "t \<in> set (racuni s)" "valuta_oznaka t = base"
    using first_racun_SomeD [OF assms(10)] by simp_all
  note rt = racun_of_unique [OF assms(3) t(1)]
  note swap = ForexSwap_buy_client [OF assms(2,5-12), of E n rate, unfolded assms(14,16)]
  from assms(17) have le: "n * rate \<le> raspolozivo r"
    and run: "bnd (update_racun E (\<lambda>x. r_id x = i) (settle_debit (n * rate))) (\<lambda>_.
       bnd (credit_update E (r_id t) n) (\<lambda>_. insert_transakcije E [isplata i (n * rate), uplata (r_id t) n])) ?s
       = (Inr (), s')"
    unfolding swap by (auto split: if_splits)
  have "ukupno c s' = ukupno c ?s + (if valuta_oznaka r = c then - (n * rate) else 0)
      + (if valuta_oznaka t = c then n else 0)" for c
    by (rule numerics.forex_bookings [OF assms(1) _ _ _ _ _ assms(15,13) run]) (simp_all add: assms(2-4,6) rt)
  with le show ?thesis using assms(5,9) t(2) by auto
qed

text \<open>The balance check of \<open>ForexSwap\<close> counts the order's own reservation against it: a client who
  reserved a purchase with \<open>ReserveForexFunds\<close> and whose account holds less than twice its amount free
  is refused with \<open>ErrInsufficientFunds\<close> when the order executes, although the reserved money is there.\<close>

theorem forex_reservation_blocks_itself:
  assumes "numerics E" and "no_faults s" "ids_unique s" "racun_ok r" and "base \<noteq> q" and "racun_of s i = Some r"
      "i \<noteq> 0" "id_vlasnika r = u" "valuta_oznaka r = q"
    and "cents (n * rate)" "sqlFloat E (n * rate) = n * rate" and "raspolozivo r < 2 * (n * rate)"
    and "ReserveForexFunds E True i q (n * rate) s = (Inr (), s1)"
    and "first_racun (\<lambda>r. id_vlasnika r = u \<and> valuta_oznaka r = base \<and> r_status r = ''AKTIVAN'') s1 = Some t"
      "r_id t \<noteq> 0" "r_id t \<noteq> i"
  shows "\<exists>s2. ForexSwap E True u i base q n rate BUY s1 = (Inl ErrInsufficientFunds, s2)"
proof -
  let ?r = "store_racun E (add_reserved (n * rate) r)"
  have i: "r_id r = i" using racun_of_SomeD [OF assms(6)] by simp
  obtain r' where "racun_of s i = Some r'"
    and s1: "s1 = put_racun i (store_racun E (add_reserved (n * rate) r')) (bump (bump s))"
    by (rule ReserveForexFunds_client_InrE [OF assms(2,3,13)]) (use assms(11) in auto)
  with assms(6) have s1: "s1 = put_racun i ?r (bump (bump s))" by simp
  have r1: "racun_of s1 i = Some ?r" by (simp add: s1 racun_of_put i assms(6))
  have "raspolozivo ?r < n * rate"
    using assms(4,10,12) by (simp add: raspolozivo_def add_reserved_def racun_ok_def numerics.round2_id [OF assms(1)])
  moreover have "no_faults s1" by (simp add: s1 assms(2))
  ultimately show ?thesis
    using ForexSwap_buy_client [OF _ assms(5) r1 assms(7) _ _ assms(14-16)] assms(8,9)
    by (simp add: add_reserved_def)
qed

lemma sample_counterpart:
  "first_racun (\<lambda>r. id_vlasnika r = 7 \<and> valuta_oznaka r = ''USD'' \<and> r_status r = ''AKTIVAN'') sample_db =
     Some (sample_racun 11 ''A11'' 7 ''USD'' 500)"
  by (simp add: first_racun_def)

theorem forex_swap_buy_moves_witness:
  "ukupno ''EUR'' (snd (ForexSwap sample_env True 7 10 ''USD'' ''EUR'' 100 2 BUY sample_db)) = ukupno ''EUR'' sample_db - 200"
proof -
  have run: "fst (ForexSwap sample_env True 7 10 ''USD'' ''EUR'' 100 2 BUY sample_db) = Inr ()"
    by (simp add: ForexSwap_def resolveForexAccounts_def forexAccount_def activeAccount_def first_racun_def
        raspolozivo_def eval_simps)
  show ?thesis
    using forex_swap_buy_moves [OF sample_numerics _ sample_ids sample_cents _ sample_racun_of _ _ _ sample_counterpart,
        where n = 100 and rate = 2 and q = "''EUR''"
          and s' = "snd (ForexSwap sample_env True 7 10 ''USD'' ''EUR'' 100 2 BUY sample_db)"] run
    by (simp add: prod_eq_iff cents_def)
qed

theorem forex_reservation_blocks_itself_witness:
  "fst (ForexSwap sample_env True 7 10 ''USD'' ''EUR'' 300 2 BUY
     (snd (ReserveForexFunds sample_env True 10 ''EUR'' 600 sample_db))) = Inl ErrInsufficientFunds"
proof -
  let ?s1 = "snd (ReserveForexFunds sample_env True 10 ''EUR'' 600 sample_db)"
  have run: "ReserveForexFunds sample_env True 10 ''EUR'' (300 * 2) sample_db = (Inr (), ?s1)"
    by (simp add: ReserveForexFunds_def resolveForexDebitAccountID_def eval_simps)
  have t: "first_racun (\<lambda>r. id_vlasnika r = 7 \<and> valuta_oznaka r = ''USD'' \<and> r_status r = ''AKTIVAN'') ?s1 =
      Some (sample_racun 11 ''A11'' 7 ''USD'' 500)"
    by (simp add: first_racun_def ReserveForexFunds_def resolveForexDebitAccountID_def eval_simps)
  show ?thesis
    using forex_reservation_blocks_itself [OF sample_numerics _ sample_ids _ _ sample_racun_of _ _ _ _ _ _ run t]
    by (auto simp: cents_def racun_ok_def raspolozivo_def)
qed

end
