(* ===== verification/Order_Repo.thy ===== *)
theory Order_Repo
  imports Funds_Manager
begin

text \<open>
  The repositories behind the trading service: \<open>repository/order_repository.go\<close>,
  \<open>repository/actuary_repository.go\<close> with \<open>service/actuary_service.go\<close>, and
  \<open>repository/margin_checker.go\<close>.

  The columns \<open>price_per_unit\<close>, \<open>stop_price\<close> and \<open>executed_price\<close> are \<open>NUMERIC(18,6)\<close>: \<open>round6\<close> on storing,
  and a value of \<open>10 ^ 12\<close> or more is refused. What \<open>Create\<close> returns is the object in memory, not the
  stored row. The \<open>CHECK\<close> constraints and foreign keys of the tables are conditions of the statements.
\<close>

section \<open>Orders\<close>

record CreateOrderRequest =
  cr_UserID :: int
  cr_AccountID :: int
  cr_ListingID :: int
  cr_OrderType :: OrderType
  cr_Direction :: OrderDirection
  cr_Quantity :: int
  cr_ContractSize :: int
  cr_PricePerUnit :: "decimal option"
  cr_StopPrice :: "decimal option"
  cr_AfterHours :: bool
  cr_AllOrNone :: bool
  cr_Margin :: bool
  cr_IsSupervisor :: bool
  cr_IsClient :: bool
  cr_IsForex :: bool
  cr_SettlementExpired :: bool
  cr_ApprovedByOverride :: "string option"
  cr_FundID :: "int option"

definition fits6 :: "env \<Rightarrow> decimal option \<Rightarrow> bool" where
  "fits6 E p = (case p of None \<Rightarrow> True | Some x \<Rightarrow> \<bar>round6 E x\<bar> < 10 ^ 12)"

definition known_type :: "OrderType \<Rightarrow> bool" where
  "known_type t \<longleftrightarrow> t = MARKET \<or> t = LIMIT \<or> t = STOP \<or> t = STOP_LIMIT"

definition known_direction :: "OrderDirection \<Rightarrow> bool" where
  "known_direction d \<longleftrightarrow> d = BUY \<or> d = SELL"

text \<open>The constraints of \<open>core_banking.orders\<close>.\<close>

definition order_check :: "env \<Rightarrow> db \<Rightarrow> Order \<Rightarrow> bool" where
  "order_check E s ord \<longleftrightarrow> known_type (o_OrderType ord) \<and> known_direction (o_Direction ord) \<and>
     o_Quantity ord > 0 \<and> o_ContractSize ord > 0 \<and> o_RemainingPortions ord \<ge> 0 \<and>
     fits6 E (o_PricePerUnit ord) \<and> fits6 E (o_StopPrice ord) \<and>
     list_ex (\<lambda>r. r_id r = o_AccountID ord) (racuni s) \<and> list_ex (\<lambda>l. l_ID l = o_ListingID ord) (listings s)"

definition store_order :: "env \<Rightarrow> Order \<Rightarrow> Order" where
  "store_order E ord = ord\<lparr>o_PricePerUnit := map_option (round6 E) (o_PricePerUnit ord),
     o_StopPrice := map_option (round6 E) (o_StopPrice ord)\<rparr>"

definition insert_order :: "env \<Rightarrow> Order \<Rightarrow> Order dbp" where
  "insert_order E ord = stmt (\<lambda>s. let m = ord\<lparr>o_ID := order_seq s\<rparr> in
     if order_check E s m
     then Some (m, s\<lparr>orders := orders s @ [store_order E m], order_seq := order_seq s + 1\<rparr>) else None)"

definition ApprovedByNoApproval :: string where
  "ApprovedByNoApproval = ''No need for approval''"

definition new_order :: "CreateOrderRequest \<Rightarrow> OrderStatus \<Rightarrow> Order" where
  "new_order req status = \<lparr>o_ID = 0, o_UserID = cr_UserID req,
     o_AccountID = cr_AccountID req, o_ListingID = cr_ListingID req, o_OrderType = cr_OrderType req,
     o_Direction = cr_Direction req, o_Quantity = cr_Quantity req, o_ContractSize = cr_ContractSize req,
     o_PricePerUnit = cr_PricePerUnit req, o_StopPrice = cr_StopPrice req, o_Status = status,
     o_ApprovedBy = (case cr_ApprovedByOverride req of Some a \<Rightarrow> Some a
        | None \<Rightarrow> if status = APPROVED then Some ApprovedByNoApproval else None),
     o_IsDone = False, o_RemainingPortions = cr_Quantity req, o_AfterHours = cr_AfterHours req,
     o_AllOrNone = cr_AllOrNone req, o_Margin = cr_Margin req, o_IsClient = cr_IsClient req,
     o_FundID = cr_FundID req\<rparr>"

definition orders_Create :: "env \<Rightarrow> CreateOrderRequest \<Rightarrow> OrderStatus \<Rightarrow> Order dbp" where
  "orders_Create E req status = insert_order E (new_order req status)"

definition order_of :: "db \<Rightarrow> int \<Rightarrow> Order option" where
  "order_of s i = List.find (\<lambda>ord. o_ID ord = i) (orders s)"

definition orders_GetByID :: "int \<Rightarrow> Order dbp" where
  "orders_GetByID i = bnd (query (\<lambda>s. order_of s i)) (\<lambda>r.
     case r of None \<Rightarrow> fail ErrOrderNotFound | Some ord \<Rightarrow> ret ord)"

text \<open>\<open>Updates(...)\<close> on the row with the given id; the only constraint an update can break is the
  one on \<open>remaining_portions\<close>.\<close>

definition update_order :: "int \<Rightarrow> (Order \<Rightarrow> Order) \<Rightarrow> nat dbp" where
  "update_order i f = stmt (\<lambda>s.
     if list_all (\<lambda>ord. o_ID ord = i \<longrightarrow> o_RemainingPortions (f ord) \<ge> 0) (orders s)
     then Some (length (filter (\<lambda>ord. o_ID ord = i) (orders s)),
            s\<lparr>orders := upd_where (\<lambda>ord. o_ID ord = i) f (orders s)\<rparr>)
     else None)"

definition insertAuditLog :: "int \<Rightarrow> OrderStatus option \<Rightarrow> OrderStatus \<Rightarrow> int option \<Rightarrow> unit dbp" where
  "insertAuditLog orderID oldStatus newStatus changedBy = ignore (stmt (\<lambda>s.
     if list_ex (\<lambda>ord. o_ID ord = orderID) (orders s)
     then Some ((), s\<lparr>order_audit_log := order_audit_log s @ [\<lparr>oa_order_id = orderID,
            oa_old_status = oldStatus, oa_new_status = newStatus, oa_changed_by = changedBy\<rparr>]\<rparr>)
     else None))"

definition set_status :: "OrderStatus \<Rightarrow> string option \<Rightarrow> Order \<Rightarrow> Order" where
  "set_status status approvedBy ord = ord\<lparr>o_Status := status, o_ApprovedBy :=
     (case approvedBy of None \<Rightarrow> o_ApprovedBy ord | Some a \<Rightarrow> Some a)\<rparr>"

definition set_canceled :: "Order \<Rightarrow> Order" where
  "set_canceled ord = ord\<lparr>o_Status := CANCELED, o_IsDone := True\<rparr>"

definition orders_UpdateStatus :: "int \<Rightarrow> OrderStatus \<Rightarrow> string option \<Rightarrow> Order dbp" where
  "orders_UpdateStatus i status approvedBy =
     bnd (query_or None (\<lambda>s. order_of s i)) (\<lambda>existing.
     bnd (update_order i (set_status status approvedBy)) (\<lambda>n.
       if n = 0 then fail ErrOrderNotFound
       else bnd (insertAuditLog i (map_option o_Status existing) status
              (case approvedBy of None \<Rightarrow> None | Some a \<Rightarrow> ParseInt a)) (\<lambda>_.
         orders_GetByID i)))"

definition orders_UpdateRemainingPortions :: "int \<Rightarrow> int \<Rightarrow> bool \<Rightarrow> Order dbp" where
  "orders_UpdateRemainingPortions i remaining isDone =
     bnd (update_order i (\<lambda>ord. ord\<lparr>o_RemainingPortions := remaining, o_IsDone := isDone\<rparr>)) (\<lambda>n.
       if n = 0 then fail ErrOrderNotFound else orders_GetByID i)"

text \<open>Newest first: the reverse of insertion order.\<close>

definition orders_ListByUserID :: "int \<Rightarrow> OrderStatus option \<Rightarrow> Order list dbp" where
  "orders_ListByUserID userID statusFilter = query (\<lambda>s. rev (filter (\<lambda>ord. o_UserID ord = userID \<and>
     (case statusFilter of None \<Rightarrow> True | Some st \<Rightarrow> o_Status ord = st)) (orders s)))"

definition orders_ListByStatus :: "OrderStatus option \<Rightarrow> Order list dbp" where
  "orders_ListByStatus statusFilter = query (\<lambda>s. rev (filter (\<lambda>ord.
     case statusFilter of None \<Rightarrow> True | Some st \<Rightarrow> o_Status ord = st) (orders s)))"

definition orders_ListActiveByListing :: "int \<Rightarrow> Order list dbp" where
  "orders_ListActiveByListing listingID = query (\<lambda>s. filter (\<lambda>ord. o_ListingID ord = listingID \<and>
     o_Status ord = APPROVED \<and> \<not> o_IsDone ord) (orders s))"

definition orders_CreateTransaction :: "env \<Rightarrow> int \<Rightarrow> int \<Rightarrow> decimal \<Rightarrow> OrderTransaction dbp" where
  "orders_CreateTransaction E orderID qty price = stmt (\<lambda>s.
     let m = \<lparr>ot_OrderID = orderID, ot_ExecutedQuantity = qty, ot_ExecutedPrice = price\<rparr> in
     if qty > 0 \<and> round6 E price > 0 \<and> fits6 E (Some price) \<and> list_ex (\<lambda>ord. o_ID ord = orderID) (orders s)
     then Some (m, s\<lparr>order_transactions := order_transactions s @ [m\<lparr>ot_ExecutedPrice := round6 E price\<rparr>]\<rparr>)
     else None)"

definition orders_GetTransactionsByOrderID :: "int \<Rightarrow> OrderTransaction list dbp" where
  "orders_GetTransactionsByOrderID orderID =
     query (\<lambda>s. filter (\<lambda>t. ot_OrderID t = orderID) (order_transactions s))"

definition orders_MarkDone :: "int \<Rightarrow> Order dbp" where
  "orders_MarkDone i =
     bnd (update_order i (\<lambda>ord. ord\<lparr>o_Status := DONE, o_IsDone := True, o_RemainingPortions := 0\<rparr>)) (\<lambda>n.
       if n = 0 then fail ErrOrderNotFound
       else bnd (insertAuditLog i (Some APPROVED) DONE None) (\<lambda>_. orders_GetByID i))"

definition orders_Cancel :: "int \<Rightarrow> Order dbp" where
  "orders_Cancel i =
     bnd (query_or None (\<lambda>s. order_of s i)) (\<lambda>existing.
     bnd (update_order i set_canceled) (\<lambda>n.
       if n = 0 then fail ErrOrderNotFound
       else bnd (insertAuditLog i (map_option o_Status existing) CANCELED None) (\<lambda>_. orders_GetByID i)))"

definition net_of :: "Order \<Rightarrow> int" where
  "net_of ord = (if o_Direction ord = BUY \<and> o_Status ord = DONE then o_Quantity ord
     else if o_Direction ord = BUY \<and> o_Status ord = CANCELED \<and> o_Quantity ord - o_RemainingPortions ord > 0
       then o_Quantity ord - o_RemainingPortions ord
     else if o_Direction ord = SELL \<and> o_Status ord = DONE then - o_Quantity ord
     else if o_Direction ord = SELL \<and> o_Status ord = CANCELED \<and> o_Quantity ord - o_RemainingPortions ord > 0
       then - (o_Quantity ord - o_RemainingPortions ord)
     else if o_Direction ord = SELL \<and> (o_Status ord = PENDING \<or> o_Status ord = APPROVED) \<and> \<not> o_IsDone ord
       then - o_Quantity ord
     else 0)"

definition orders_GetNetHoldings :: "int \<Rightarrow> int \<Rightarrow> int dbp" where
  "orders_GetNetHoldings userID listingID = query (\<lambda>s.
     \<Sum>ord \<leftarrow> filter (\<lambda>ord. o_UserID ord = userID \<and> o_ListingID ord = listingID) (orders s). net_of ord)"

section \<open>Actuaries\<close>

text \<open>\<open>UPDATE core_banking.actuary_info SET ... WHERE ... RETURNING ...\<close>: the first updated row. The
  limits are \<open>NUMERIC(15,2)\<close> with a \<open>CHECK (... >= 0)\<close> each.\<close>

definition actuary_check :: "Actuary \<Rightarrow> bool" where
  "actuary_check a \<longleftrightarrow> 0 \<le> a_Limit a \<and> a_Limit a < 10 ^ 13 \<and> 0 \<le> a_UsedLimit a \<and> a_UsedLimit a < 10 ^ 13"

definition update_actuary :: "(Actuary \<Rightarrow> bool) \<Rightarrow> (Actuary \<Rightarrow> Actuary) \<Rightarrow> Actuary option dbp" where
  "update_actuary P f = stmt (\<lambda>s.
     if list_all (\<lambda>a. P a \<longrightarrow> actuary_check (f a)) (actuary_info s)
     then Some (map_option f (List.find P (actuary_info s)), s\<lparr>actuary_info := upd_where P f (actuary_info s)\<rparr>)
     else None)"

record CreateActuaryInput =
  ca_EmployeeID :: int
  ca_ActuaryType :: ActuaryType
  ca_Limit :: decimal
  ca_UsedLimit :: decimal
  ca_NeedApproval :: bool

record UpdateActuaryInput =
  ua_ID :: int
  ua_ActuaryType :: ActuaryType
  ua_Limit :: decimal
  ua_UsedLimit :: decimal
  ua_NeedApproval :: bool

definition actuaries_Create :: "env \<Rightarrow> CreateActuaryInput \<Rightarrow> Actuary dbp" where
  "actuaries_Create E input = stmt (\<lambda>s.
     let a = \<lparr>a_ID = actuary_seq s, a_EmployeeID = ca_EmployeeID input, a_Type = ca_ActuaryType input,
           a_Limit = stringFixed2 E (ca_Limit input), a_UsedLimit = stringFixed2 E (ca_UsedLimit input),
           a_NeedApproval = ca_NeedApproval input\<rparr> in
     if actuary_check a \<and> \<not> list_ex (\<lambda>b. a_EmployeeID b = a_EmployeeID a) (actuary_info s)
     then Some (a, s\<lparr>actuary_info := actuary_info s @ [a], actuary_seq := actuary_seq s + 1\<rparr>) else None)"

definition actuary_by :: "(Actuary \<Rightarrow> bool) \<Rightarrow> Actuary dbp" where
  "actuary_by P = bnd (query (\<lambda>s. List.find P (actuary_info s))) (\<lambda>r.
     case r of None \<Rightarrow> fail ErrActuaryNotFound | Some a \<Rightarrow> ret a)"

definition actuaries_GetByID :: "int \<Rightarrow> Actuary dbp" where
  "actuaries_GetByID i = actuary_by (\<lambda>a. a_ID a = i)"

definition actuaries_GetByEmployeeID :: "int \<Rightarrow> Actuary dbp" where
  "actuaries_GetByEmployeeID employeeID = actuary_by (\<lambda>a. a_EmployeeID a = employeeID)"

definition actuaries_List :: "ActuaryType option \<Rightarrow> Actuary list dbp" where
  "actuaries_List t = query (\<lambda>s. sort_key a_ID (filter (\<lambda>a.
     case t of None \<Rightarrow> True | Some ty \<Rightarrow> a_Type a = ty) (actuary_info s)))"

definition actuaries_Update :: "env \<Rightarrow> UpdateActuaryInput \<Rightarrow> Actuary dbp" where
  "actuaries_Update E input =
     bnd (update_actuary (\<lambda>a. a_ID a = ua_ID input) (\<lambda>a. a\<lparr>a_Type := ua_ActuaryType input,
            a_Limit := stringFixed2 E (ua_Limit input), a_UsedLimit := stringFixed2 E (ua_UsedLimit input),
            a_NeedApproval := ua_NeedApproval input\<rparr>)) (\<lambda>r.
       case r of None \<Rightarrow> fail ErrActuaryNotFound | Some a \<Rightarrow> ret a)"

definition delete_actuary :: "(Actuary \<Rightarrow> bool) \<Rightarrow> unit dbp" where
  "delete_actuary P = stmt (\<lambda>s. Some ((), s\<lparr>actuary_info := filter (\<lambda>a. \<not> P a) (actuary_info s)\<rparr>))"

definition actuaries_Delete :: "int \<Rightarrow> unit dbp" where
  "actuaries_Delete i = delete_actuary (\<lambda>a. a_ID a = i)"

definition actuaries_DeleteByEmployeeID :: "int \<Rightarrow> unit dbp" where
  "actuaries_DeleteByEmployeeID employeeID = delete_actuary (\<lambda>a. a_EmployeeID a = employeeID)"

definition actuaries_ResetAllUsedLimits :: "unit dbp" where
  "actuaries_ResetAllUsedLimits =
     bnd (update_actuary (\<lambda>a. a_Type a = AGENT) (\<lambda>a. a\<lparr>a_UsedLimit := 0\<rparr>)) (\<lambda>_. ret ())"

definition add_used :: "decimal \<Rightarrow> Actuary \<Rightarrow> Actuary" where
  "add_used x a = a\<lparr>a_UsedLimit := a_UsedLimit a + x\<rparr>"

definition IncrementUsedLimitIfWithin :: "env \<Rightarrow> int \<Rightarrow> decimal \<Rightarrow> Actuary dbp" where
  "IncrementUsedLimitIfWithin E employeeID amount =
     (let x = stringFixed2 E amount in
      bnd (update_actuary (\<lambda>a. a_EmployeeID a = employeeID \<and> a_Type a = AGENT \<and> a_UsedLimit a + x \<le> a_Limit a)
             (add_used x)) (\<lambda>r.
        case r of
          Some a \<Rightarrow> ret a
        | None \<Rightarrow> bnd (query_or False (\<lambda>s. list_ex (\<lambda>a. a_EmployeeID a = employeeID \<and> a_Type a = AGENT)
              (actuary_info s))) (\<lambda>found.
            if \<not> found then fail ErrActuaryNotFound else fail ErrActuaryLimitExceeded)))"

definition IncrementUsedLimitAlways :: "env \<Rightarrow> int \<Rightarrow> decimal \<Rightarrow> (Actuary \<times> bool) dbp" where
  "IncrementUsedLimitAlways E employeeID amount =
     bnd (update_actuary (\<lambda>a. a_EmployeeID a = employeeID \<and> a_Type a = AGENT)
            (add_used (stringFixed2 E amount))) (\<lambda>r.
       case r of None \<Rightarrow> fail ErrActuaryNotFound | Some a \<Rightarrow> ret (a, a_UsedLimit a > a_Limit a))"

definition InsertActuaryLimitAudit :: "env \<Rightarrow> int \<Rightarrow> int \<Rightarrow> decimal \<Rightarrow> decimal \<Rightarrow> unit dbp" where
  "InsertActuaryLimitAudit E actor target oldLimit newLimit = stmt (\<lambda>s.
     if \<bar>stringFixed2 E oldLimit\<bar> < 10 ^ 13 \<and> \<bar>stringFixed2 E newLimit\<bar> < 10 ^ 13
     then Some ((), s\<lparr>actuary_limit_audit := actuary_limit_audit s @ [\<lparr>al_actor = actor, al_target = target,
       al_old_limit = stringFixed2 E oldLimit, al_new_limit = stringFixed2 E newLimit\<rparr>]\<rparr>)
     else None)"

subsection \<open>service/actuary_service.go\<close>

definition ListAgents :: "Actuary list dbp" where
  "ListAgents = actuaries_List (Some AGENT)"

definition SetAgentLimit :: "env \<Rightarrow> int \<Rightarrow> int \<Rightarrow> decimal \<Rightarrow> Actuary dbp" where
  "SetAgentLimit E actor target limit =
     (if limit < 0 then fail ErrActuaryLimitNegative
      else if limit = 0 then fail ErrActuaryLimitZero
      else bnd (actuaries_GetByEmployeeID target) (\<lambda>a.
        if limit < a_UsedLimit a then fail ErrActuaryLimitBelowUsed
        else bnd (actuaries_Update E \<lparr>ua_ID = a_ID a, ua_ActuaryType = a_Type a, ua_Limit = limit,
                    ua_UsedLimit = a_UsedLimit a, ua_NeedApproval = a_NeedApproval a\<rparr>) (\<lambda>updated.
          bnd (InsertActuaryLimitAudit E actor target (a_Limit a) limit) (\<lambda>_. ret updated))))"

definition ResetAgentUsedLimit :: "env \<Rightarrow> int \<Rightarrow> Actuary dbp" where
  "ResetAgentUsedLimit E employeeID =
     bnd (actuaries_GetByEmployeeID employeeID) (\<lambda>a.
       actuaries_Update E \<lparr>ua_ID = a_ID a, ua_ActuaryType = a_Type a, ua_Limit = a_Limit a,
         ua_UsedLimit = 0, ua_NeedApproval = a_NeedApproval a\<rparr>)"

definition SetAgentNeedApproval :: "env \<Rightarrow> int \<Rightarrow> bool \<Rightarrow> Actuary dbp" where
  "SetAgentNeedApproval E employeeID needApproval =
     bnd (actuaries_GetByEmployeeID employeeID) (\<lambda>a.
       actuaries_Update E \<lparr>ua_ID = a_ID a, ua_ActuaryType = a_Type a, ua_Limit = a_Limit a,
         ua_UsedLimit = a_UsedLimit a, ua_NeedApproval = needApproval\<rparr>)"

definition CreateActuaryForEmployee :: "env \<Rightarrow> int \<Rightarrow> ActuaryType \<Rightarrow> Actuary dbp" where
  "CreateActuaryForEmployee E employeeID t = actuaries_Create E \<lparr>ca_EmployeeID = employeeID,
     ca_ActuaryType = t, ca_Limit = 0, ca_UsedLimit = 0, ca_NeedApproval = False\<rparr>"

definition DeleteActuaryForEmployee :: "int \<Rightarrow> unit dbp" where
  "DeleteActuaryForEmployee employeeID = actuaries_DeleteByEmployeeID employeeID"

definition ResetAllAgentsUsedLimit :: "unit dbp" where
  "ResetAllAgentsUsedLimit = actuaries_ResetAllUsedLimits"

section \<open>Margin checks\<close>

text \<open>The loop of \<open>toUSD\<close> has no \<open>break\<close>: the last rate of a currency counts.\<close>

definition midRate :: "string \<Rightarrow> ExchangeRate list \<Rightarrow> float64" where
  "midRate c rates = (case rateOf c (rev rates) of None \<Rightarrow> 0 | Some r \<Rightarrow> er_Srednji r)"

definition toUSD :: "env \<Rightarrow> decimal \<Rightarrow> string \<Rightarrow> decimal" where
  "toUSD E amount currency =
     (if currency = ''USD'' then amount
      else case getRates E of None \<Rightarrow> amount
      | Some rates \<Rightarrow>
          (let midCurrency = midRate currency rates; midUSD = midRate ''USD'' rates in
           if midCurrency \<le> 0 \<or> midUSD \<le> 0 then amount
           else decDiv E (amount * newFromFloat E midCurrency) (newFromFloat E midUSD)))"

definition HasApprovedCreditForMargin :: "env \<Rightarrow> int \<Rightarrow> decimal \<Rightarrow> bool dbp" where
  "HasApprovedCreditForMargin E userID required =
     bnd (query (\<lambda>s. filter (\<lambda>k. k_vlasnik k = userID \<and> k_status k = ODOBREN) (krediti s))) (\<lambda>ks.
       ret (list_ex (\<lambda>k. toUSD E (newFromFloat E (fl64 (k_iznos k))) (k_valuta k) > required) ks))"

definition HasSufficientMargin :: "int \<Rightarrow> decimal \<Rightarrow> bool dbp" where
  "HasSufficientMargin accountID required =
     bnd (query (\<lambda>s. racun_of s accountID)) (\<lambda>row. case row of
         None \<Rightarrow> fail (Errorf ''margin check: account not found'')
       | Some r \<Rightarrow> ret (raspolozivo r > required))"

definition HasSufficientMarginTrezor :: "string \<Rightarrow> decimal \<Rightarrow> bool dbp" where
  "HasSufficientMarginTrezor currency required =
     bnd (query (first_racun (\<lambda>r. id_vlasnika r = 2 \<and> valuta_oznaka r = currency \<and> r_status r = ''AKTIVAN'')))
       (\<lambda>row. case row of
         None \<Rightarrow> fail (Errorf ''margin check: treasury account not found'')
       | Some r \<Rightarrow> if r_id r = 0 then fail (Errorf ''margin check: treasury account not found'')
                   else ret (raspolozivo r > required))"

section \<open>Frames\<close>

lemma keeps_update_order:
  "clock_free f \<Longrightarrow> (\<And>s os. f (s\<lparr>orders := os\<rparr>) = f s) \<Longrightarrow> keeps f (update_order i g)"
  unfolding update_order_def by (rule keeps_stmt) (auto split: if_splits)

lemma keeps_insert_order:
  "clock_free f \<Longrightarrow> (\<And>s os n. f (s\<lparr>orders := os, order_seq := n\<rparr>) = f s) \<Longrightarrow> keeps f (insert_order E ord)"
  unfolding insert_order_def by (rule keeps_stmt) (auto simp: Let_def split: if_splits)

lemma keeps_insertAuditLog:
  "clock_free f \<Longrightarrow> (\<And>s as. f (s\<lparr>order_audit_log := as\<rparr>) = f s) \<Longrightarrow> keeps f (insertAuditLog i old new c)"
  unfolding insertAuditLog_def by (intro keeps_intros keeps_stmt) (auto split: if_splits)

lemma keeps_update_actuary:
  "clock_free f \<Longrightarrow> (\<And>s as. f (s\<lparr>actuary_info := as\<rparr>) = f s) \<Longrightarrow> keeps f (update_actuary P g)"
  unfolding update_actuary_def by (rule keeps_stmt) (auto split: if_splits)

lemma keeps_order_reads [keeps_intros]:
  assumes "clock_free f"
  shows "keeps f (orders_GetByID i)" "keeps f (orders_ListByUserID u st)" "keeps f (orders_ListByStatus st)"
    "keeps f (orders_ListActiveByListing l)" "keeps f (orders_GetTransactionsByOrderID i)"
    "keeps f (orders_GetNetHoldings u l)" "keeps f (actuary_by P)" "keeps f (actuaries_GetByEmployeeID u)"
    "keeps f (actuaries_GetByID u)" "keeps f (actuaries_List t)"
    "keeps f (HasApprovedCreditForMargin E u x)" "keeps f (HasSufficientMargin a x)"
    "keeps f (HasSufficientMarginTrezor c x)"
  unfolding orders_GetByID_def orders_ListByUserID_def orders_ListByStatus_def orders_ListActiveByListing_def
    orders_GetTransactionsByOrderID_def orders_GetNetHoldings_def actuaries_GetByEmployeeID_def
    actuaries_GetByID_def actuaries_List_def actuary_by_def HasApprovedCreditForMargin_def
    HasSufficientMargin_def HasSufficientMarginTrezor_def
  by (intro keeps_intros assms)+

text \<open>What an operation that updates one order does to the table, whatever fails: nothing, or exactly
  the update; and when it returns, the update.\<close>

definition upd_order :: "int \<Rightarrow> (Order \<Rightarrow> Order) \<Rightarrow> Order list \<Rightarrow> Order list" where
  "upd_order i f os = upd_where (\<lambda>ord. o_ID ord = i) f os"

lemma hoare_keeps: "keeps f m \<Longrightarrow> hoare (\<lambda>s. f s = v) m (\<lambda>_ s. f s = v) (\<lambda>s. f s = v)"
  by (rule hoareI) (auto dest: keepsD)

lemma hoare_pre_false: "(\<And>s. \<not> P s) \<Longrightarrow> hoare P m Q R"
  by (simp add: hoare_def)

lemma hoare_update_order:
  "hoare (\<lambda>s. orders s = os) (update_order i f) (\<lambda>_ s. orders s = upd_order i f os) (\<lambda>s. orders s = os)"
  by (rule hoareI) (auto simp: update_order_def upd_order_def stmt_def split: if_splits)

text \<open>An update, the row count, the audit row, the final read.\<close>

lemma hoare_order_update:
  "hoare (\<lambda>s. orders s = os)
     (bnd (update_order i f) (\<lambda>n. if n = 0 then fail ErrOrderNotFound
        else bnd (insertAuditLog i old new c) (\<lambda>_. orders_GetByID i)))
     (\<lambda>_ s. orders s = upd_order i f os) (\<lambda>s. orders s = os \<or> orders s = upd_order i f os)"
proof (rule hoare_bnd)
  show "hoare (\<lambda>s. orders s = os) (update_order i f) (\<lambda>_ s. orders s = upd_order i f os)
      (\<lambda>s. orders s = os \<or> orders s = upd_order i f os)"
    by (rule hoare_weaken [OF hoare_update_order]) auto
  fix n
  have "keeps orders (if n = 0 then fail ErrOrderNotFound
      else bnd (insertAuditLog i old new c) (\<lambda>_. orders_GetByID i))"
    by (intro keeps_intros keeps_insertAuditLog) simp_all
  then show "hoare (\<lambda>s. orders s = upd_order i f os) (if n = 0 then fail ErrOrderNotFound
      else bnd (insertAuditLog i old new c) (\<lambda>_. orders_GetByID i))
      (\<lambda>_ s. orders s = upd_order i f os) (\<lambda>s. orders s = os \<or> orders s = upd_order i f os)"
    by (rule hoare_weaken [OF hoare_keeps]) auto
qed

lemma hoare_query_first:
  assumes "\<And>a. hoare (\<lambda>s. f s = v) (g a) Q R" and "clock_free f" and "\<And>s. f s = v \<Longrightarrow> R s"
  shows "hoare (\<lambda>s. f s = v) (bnd (query_or d h) g) Q R"
proof (rule hoare_bnd)
  show "hoare (\<lambda>s. f s = v) (query_or d h) (\<lambda>_ s. f s = v) R"
    by (rule hoare_weaken [OF hoare_keeps [OF keeps_query_or]]) (use assms in auto)
qed (rule assms(1))

lemma hoare_UpdateStatus:
  "hoare (\<lambda>s. orders s = os) (orders_UpdateStatus i st ap)
     (\<lambda>_ s. orders s = upd_order i (set_status st ap) os)
     (\<lambda>s. orders s = os \<or> orders s = upd_order i (set_status st ap) os)"
  unfolding orders_UpdateStatus_def
  by (rule hoare_query_first [where f = orders, OF hoare_order_update]) simp_all

lemma hoare_Cancel:
  "hoare (\<lambda>s. orders s = os) (orders_Cancel i) (\<lambda>_ s. orders s = upd_order i set_canceled os)
     (\<lambda>s. orders s = os \<or> orders s = upd_order i set_canceled os)"
  unfolding orders_Cancel_def
  by (rule hoare_query_first [where f = orders, OF hoare_order_update]) simp_all

lemma keeps_order_updates:
  assumes "clock_free f" and "\<And>s os. f (s\<lparr>orders := os\<rparr>) = f s" and "\<And>s as. f (s\<lparr>order_audit_log := as\<rparr>) = f s"
  shows "keeps f (orders_UpdateStatus i st ap)" "keeps f (orders_Cancel i)" "keeps f (orders_MarkDone i)"
    "keeps f (orders_UpdateRemainingPortions i n b)"
  unfolding orders_UpdateStatus_def orders_Cancel_def orders_MarkDone_def orders_UpdateRemainingPortions_def
  by (intro keeps_intros keeps_update_order keeps_insertAuditLog assms)+

lemma orders_Create_Inl:
  "orders_Create E req st s = (Inl e, s') \<Longrightarrow> s' = failed s \<and> e = DBError"
  by (auto simp: orders_Create_def insert_order_def stmt_def Let_def split: if_splits)

lemma orders_Create_Inr:
  assumes "orders_Create E req st s = (Inr ord, s')"
  shows "ord = (new_order req st)\<lparr>o_ID := order_seq s\<rparr>" and "order_check E s ord"
    and "s' = (bump s)\<lparr>orders := orders s @ [store_order E ord], order_seq := order_seq s + 1\<rparr>"
proof -
  have c: "order_check E (bump s) x = order_check E s x" for x by (simp add: order_check_def)
  show "ord = (new_order req st)\<lparr>o_ID := order_seq s\<rparr>" and "order_check E s ord"
    and "s' = (bump s)\<lparr>orders := orders s @ [store_order E ord], order_seq := order_seq s + 1\<rparr>"
    using assms c by (auto simp: orders_Create_def insert_order_def stmt_def Let_def split: if_splits)
qed

lemma preserves_healthy_orders [preserves_intros]:
  "preserves healthy (update_order i f)" "preserves healthy (insert_order E ord)"
  "preserves healthy (insertAuditLog i old new c)" "preserves healthy (update_actuary P g)"
  unfolding update_order_def insert_order_def insertAuditLog_def update_actuary_def
  by (intro preserves_intros preserves_healthy_stmt; auto simp: healthy_def Let_def split: if_splits)+

lemma preserves_healthy_order_ops [preserves_intros]:
  "preserves healthy (orders_GetByID i)" "preserves healthy (orders_Create E req st)"
  "preserves healthy (orders_UpdateStatus i st ap)" "preserves healthy (orders_Cancel i)"
  "preserves healthy (actuaries_GetByEmployeeID u)" "preserves healthy (IncrementUsedLimitAlways E u x)"
  unfolding orders_GetByID_def orders_Create_def orders_UpdateStatus_def orders_Cancel_def
    actuaries_GetByEmployeeID_def actuary_by_def IncrementUsedLimitAlways_def
  by (intro preserves_intros)+

text \<open>Without failures a cancellation of an existing order goes through.\<close>

lemma orders_Cancel_ok:
  assumes "healthy s" and "list_ex (\<lambda>ord. o_ID ord = i) (orders s)"
    and "list_all (\<lambda>ord. 0 \<le> o_RemainingPortions ord) (orders s)"
  shows "orders (snd (orders_Cancel i s)) = upd_order i set_canceled (orders s)"
proof -
  let ?s = "bump s"
  have nf: "no_faults s" "no_faults ?s" using assms(1) by (simp_all add: healthy_def)
  have chk: "list_all (\<lambda>ord. o_ID ord = i \<longrightarrow> 0 \<le> o_RemainingPortions (set_canceled ord)) (orders s)"
    using assms(3) by (auto simp: list_all_iff set_canceled_def)
  have n: "length (filter (\<lambda>ord. o_ID ord = i) (orders s)) \<noteq> 0"
    using assms(2) by (auto simp: list_ex_iff filter_empty_conv)
  have k: "keeps orders (bnd (insertAuditLog i old new c) (\<lambda>_. orders_GetByID i))" for old new c
    by (intro keeps_intros keeps_insertAuditLog) simp_all
  show ?thesis
    using nf chk n keeps_snd [OF k]
    by (simp add: orders_Cancel_def bnd_def [of "query_or d f" for d f] query_or_ok
        bnd_def [of "stmt g" for g] update_order_def stmt_ok upd_order_def)
qed

end
