(* ===== verification/Trading_Service.thy ===== *)
theory Trading_Service
  imports Order_Repo
begin

text \<open>
  \<open>trading/service.go\<close>: price preview, placing, approving, declining and cancelling orders.

  The service reaches the accounts only through the interface \<open>FundsManager\<close>; the record of that name
  holds the operations it calls, and \<open>fundsManager E isClient\<close> is the implementation \<open>main.go\<close> wires in,
  with the client flag of the request context. Orders, actuaries, listings and margin checks are the
  repositories of the previous theories.
\<close>

section \<open>The interface to the accounts\<close>

record FundsManager =
  fm_ReserveFunds :: "int \<Rightarrow> decimal \<Rightarrow> unit dbp"
  fm_ReleaseFunds :: "int \<Rightarrow> decimal \<Rightarrow> unit dbp"
  fm_HasSufficientFunds :: "int \<Rightarrow> decimal \<Rightarrow> bool dbp"
  fm_HasSufficientFreeBalance :: "int \<Rightarrow> decimal \<Rightarrow> bool dbp"
  fm_ConvertUSDToRSD :: "decimal \<Rightarrow> err + decimal"
  fm_ReserveForexFunds :: "int \<Rightarrow> string \<Rightarrow> decimal \<Rightarrow> unit dbp"
  fm_ReleaseForexFunds :: "int \<Rightarrow> string \<Rightarrow> decimal \<Rightarrow> unit dbp"

definition fundsManager :: "env \<Rightarrow> bool \<Rightarrow> FundsManager" where
  "fundsManager E isClient = \<lparr>fm_ReserveFunds = ReserveFunds E isClient,
     fm_ReleaseFunds = ReleaseFunds E isClient, fm_HasSufficientFunds = HasSufficientFunds E isClient,
     fm_HasSufficientFreeBalance = HasSufficientFreeBalance, fm_ConvertUSDToRSD = ConvertUSDToRSD E,
     fm_ReserveForexFunds = ReserveForexFunds E isClient, fm_ReleaseForexFunds = ReleaseForexFunds E isClient\<rparr>"

section \<open>CalculateOrderDetails\<close>

record OrderCalculationRequest =
  oc_OrderType :: OrderType
  oc_Direction :: OrderDirection
  oc_ListingID :: int
  oc_Quantity :: int
  oc_ContractSize :: int
  oc_PricePerUnit :: "decimal option"
  oc_StopPrice :: "decimal option"
  oc_Margin :: bool

record OrderCalculationResponse =
  os_PricePerUnit :: decimal
  os_ApproximatePrice :: decimal
  os_Commission :: decimal
  os_InitialMarginCost :: "decimal option"

definition calc_response :: "decimal \<Rightarrow> decimal \<times> decimal \<Rightarrow> OrderCalculationResponse" where
  "calc_response p nc = \<lparr>os_PricePerUnit = p, os_ApproximatePrice = fst nc, os_Commission = snd nc,
     os_InitialMarginCost = None\<rparr>"

text \<open>Ask for a purchase, bid for a sale.\<close>

definition live_price :: "env \<Rightarrow> OrderDirection \<Rightarrow> ListingCalculated \<Rightarrow> decimal" where
  "live_price E dir l = newFromFloat E (if dir = BUY then l_Ask (lc_Listing l) else l_Bid (lc_Listing l))"

definition calculateMarket :: "env \<Rightarrow> OrderCalculationRequest \<Rightarrow> OrderCalculationResponse dbp" where
  "calculateMarket E req = bnd (GetListingByID (oc_ListingID req)) (\<lambda>listing.
     let pricePerUnit = live_price E (oc_Direction req) listing in
     ret (calc_response pricePerUnit (calcMarketOrder E (oc_ContractSize req) pricePerUnit (oc_Quantity req))))"

definition calculateLimit :: "env \<Rightarrow> OrderCalculationRequest \<Rightarrow> OrderCalculationResponse dbp" where
  "calculateLimit E req = (case oc_PricePerUnit req of
       None \<Rightarrow> fail ErrLimitPriceRequired
     | Some p \<Rightarrow> ret (calc_response p (calcLimitOrder E (oc_ContractSize req) p (oc_Quantity req))))"

definition calculateStop :: "env \<Rightarrow> OrderCalculationRequest \<Rightarrow> OrderCalculationResponse dbp" where
  "calculateStop E req = (case oc_StopPrice req of
       None \<Rightarrow> fail ErrStopPriceRequired
     | Some p \<Rightarrow> ret (calc_response p (calcStopOrder E (oc_ContractSize req) p (oc_Quantity req))))"

definition calculateStopLimit :: "env \<Rightarrow> OrderCalculationRequest \<Rightarrow> OrderCalculationResponse dbp" where
  "calculateStopLimit E req = (case oc_StopPrice req of
       None \<Rightarrow> fail ErrStopPriceRequired
     | Some _ \<Rightarrow> (case oc_PricePerUnit req of
           None \<Rightarrow> fail ErrLimitPriceRequired
         | Some p \<Rightarrow> ret (calc_response p (calcStopLimitOrder E (oc_ContractSize req) p (oc_Quantity req)))))"

definition initialMarginCostForListing :: "env \<Rightarrow> int \<Rightarrow> decimal dbp" where
  "initialMarginCostForListing E listingID = bnd (GetListingByID listingID) (\<lambda>listing.
     ret (CalcInitialMarginCost E (newFromFloat E (lc_MaintenanceMargin listing))))"

definition CalculateOrderDetails :: "env \<Rightarrow> OrderCalculationRequest \<Rightarrow> OrderCalculationResponse dbp" where
  "CalculateOrderDetails E req =
     (if oc_Direction req \<noteq> BUY \<and> oc_Direction req \<noteq> SELL then fail ErrInvalidDirection
      else bnd (case oc_OrderType req of
            MARKET \<Rightarrow> calculateMarket E req
          | LIMIT \<Rightarrow> calculateLimit E req
          | STOP \<Rightarrow> calculateStop E req
          | STOP_LIMIT \<Rightarrow> calculateStopLimit E req
          | OtherOrderType _ \<Rightarrow> fail ErrInvalidOrderType) (\<lambda>resp.
        if oc_Margin req
        then bnd (initialMarginCostForListing E (oc_ListingID req)) (\<lambda>imc.
          ret (resp\<lparr>os_InitialMarginCost := Some imc\<rparr>))
        else ret resp))"

section \<open>Validation\<close>

definition validateOrderTypeFields :: "CreateOrderRequest \<Rightarrow> err option" where
  "validateOrderTypeFields req = (case cr_OrderType req of
       MARKET \<Rightarrow> None
     | LIMIT \<Rightarrow> if cr_PricePerUnit req = None then Some ErrLimitPriceRequired else None
     | STOP \<Rightarrow> if cr_StopPrice req = None then Some ErrStopPriceRequired else None
     | STOP_LIMIT \<Rightarrow> if cr_StopPrice req = None then Some ErrStopPriceRequired
         else if cr_PricePerUnit req = None then Some ErrLimitPriceRequired else None
     | OtherOrderType _ \<Rightarrow> Some ErrInvalidOrderType)"

definition validateSellOwnership :: "CreateOrderRequest \<Rightarrow> unit dbp" where
  "validateSellOwnership req =
     bnd (orders_GetNetHoldings (cr_UserID req) (cr_ListingID req)) (\<lambda>net.
       if net < cr_Quantity req then fail ErrInsufficientHoldings else ret ())"

definition validateForexSellBalance :: "FundsManager \<Rightarrow> CreateOrderRequest \<Rightarrow> unit dbp" where
  "validateForexSellBalance F req =
     (if \<not> cr_IsClient req then ret ()
      else bnd (fm_HasSufficientFreeBalance F (cr_AccountID req) (of_int (cr_Quantity req * cr_ContractSize req)))
        (\<lambda>ok. if \<not> ok then fail ErrInsufficientFunds else ret ()))"

text \<open>A nil price would be dereferenced here; \<open>validateOrderTypeFields\<close> ran first.\<close>

definition resolveNotional :: "env \<Rightarrow> CreateOrderRequest \<Rightarrow> decimal dbp" where
  "resolveNotional E req = (case cr_OrderType req of
       MARKET \<Rightarrow> bnd (GetListingByID (cr_ListingID req)) (\<lambda>listing.
         ret (approxPrice (cr_ContractSize req) (live_price E (cr_Direction req) listing) (cr_Quantity req)))
     | LIMIT \<Rightarrow> (case cr_PricePerUnit req of None \<Rightarrow> fail (Errorf ''nil dereference'')
         | Some p \<Rightarrow> ret (approxPrice (cr_ContractSize req) p (cr_Quantity req)))
     | STOP_LIMIT \<Rightarrow> (case cr_PricePerUnit req of None \<Rightarrow> fail (Errorf ''nil dereference'')
         | Some p \<Rightarrow> ret (approxPrice (cr_ContractSize req) p (cr_Quantity req)))
     | STOP \<Rightarrow> (case cr_StopPrice req of None \<Rightarrow> fail (Errorf ''nil dereference'')
         | Some p \<Rightarrow> ret (approxPrice (cr_ContractSize req) p (cr_Quantity req)))
     | OtherOrderType _ \<Rightarrow> fail ErrInvalidOrderType)"

definition commission_for :: "env \<Rightarrow> OrderType \<Rightarrow> decimal \<Rightarrow> decimal" where
  "commission_for E t n = (case t of MARKET \<Rightarrow> CalcMarketCommission E n | STOP \<Rightarrow> CalcMarketCommission E n
     | LIMIT \<Rightarrow> CalcLimitCommission E n | STOP_LIMIT \<Rightarrow> CalcLimitCommission E n | OtherOrderType _ \<Rightarrow> 0)"

definition resolveTotalBuyDebitUSD :: "env \<Rightarrow> CreateOrderRequest \<Rightarrow> decimal dbp" where
  "resolveTotalBuyDebitUSD E req = bnd (resolveNotional E req) (\<lambda>notional.
     ret (notional + commission_for E (cr_OrderType req) notional))"

definition validateSufficientFunds :: "env \<Rightarrow> FundsManager \<Rightarrow> CreateOrderRequest \<Rightarrow> unit dbp" where
  "validateSufficientFunds E F req =
     bnd (resolveTotalBuyDebitUSD E req) (\<lambda>totalUSD.
     bnd (fm_HasSufficientFunds F (cr_AccountID req) totalUSD) (\<lambda>ok.
       if \<not> ok then fail ErrInsufficientFunds else ret ()))"

definition validateMargin :: "env \<Rightarrow> CreateOrderRequest \<Rightarrow> unit dbp" where
  "validateMargin E req =
     bnd (initialMarginCostForListing E (cr_ListingID req)) (\<lambda>imc.
       if \<not> cr_IsClient req then
         bnd (HasSufficientMarginTrezor ''USD'' imc) (\<lambda>trezorOK.
           if \<not> trezorOK then fail ErrInsufficientMargin else ret ())
       else
         bnd (attempt (HasApprovedCreditForMargin E (cr_UserID req) imc)) (\<lambda>credit.
           if credit = Inr True then ret ()
           else bnd (HasSufficientMargin (cr_AccountID req) imc) (\<lambda>balanceOK.
             if balanceOK then ret () else fail ErrInsufficientMargin)))"

section \<open>Approval workflow\<close>

definition resolveStatus :: "env \<Rightarrow> FundsManager \<Rightarrow> CreateOrderRequest \<Rightarrow> OrderStatus dbp" where
  "resolveStatus E F req =
     (if cr_IsSupervisor req then ret APPROVED
      else bnd (attempt (actuaries_GetByEmployeeID (cr_UserID req))) (\<lambda>r. case r of
          Inl e \<Rightarrow> if e = ErrActuaryNotFound then ret APPROVED else fail e
        | Inr actuary \<Rightarrow>
            if a_Type actuary = SUPERVISOR then ret APPROVED
            else bnd (resolveNotional E req) (\<lambda>notional.
              let notionalRSD = (case fm_ConvertUSDToRSD F notional of Inl _ \<Rightarrow> notional | Inr x \<Rightarrow> x) in
              if a_NeedApproval actuary then
                bnd (ignore (IncrementUsedLimitAlways E (cr_UserID req) notionalRSD)) (\<lambda>_. ret PENDING)
              else
                bnd (attempt (IncrementUsedLimitAlways E (cr_UserID req) notionalRSD)) (\<lambda>inc. case inc of
                    Inl e \<Rightarrow> if e = ErrActuaryNotFound then ret APPROVED else fail e
                  | Inr (_, exceeded) \<Rightarrow> if exceeded then ret PENDING else ret APPROVED))))"

section \<open>Funds of an order\<close>

definition computeNotional :: "env \<Rightarrow> Order \<Rightarrow> int \<Rightarrow> decimal dbp" where
  "computeNotional E ord qty = (case o_OrderType ord of
       MARKET \<Rightarrow> bnd (GetListingByID (o_ListingID ord)) (\<lambda>listing.
         ret (approxPrice (o_ContractSize ord) (live_price E (o_Direction ord) listing) qty))
     | LIMIT \<Rightarrow> (case o_PricePerUnit ord of None \<Rightarrow> fail ErrLimitPriceRequired
         | Some p \<Rightarrow> ret (approxPrice (o_ContractSize ord) p qty))
     | STOP_LIMIT \<Rightarrow> (case o_PricePerUnit ord of None \<Rightarrow> fail ErrLimitPriceRequired
         | Some p \<Rightarrow> ret (approxPrice (o_ContractSize ord) p qty))
     | STOP \<Rightarrow> (case o_StopPrice ord of None \<Rightarrow> fail ErrStopPriceRequired
         | Some p \<Rightarrow> ret (approxPrice (o_ContractSize ord) p qty))
     | OtherOrderType _ \<Rightarrow> fail ErrInvalidOrderType)"

definition computeNotionalPlusCommission :: "env \<Rightarrow> Order \<Rightarrow> int \<Rightarrow> decimal dbp" where
  "computeNotionalPlusCommission E ord qty = bnd (computeNotional E ord qty) (\<lambda>n.
     ret (n + commission_for E (o_OrderType ord) n))"

definition reserveFundsForOrder :: "env \<Rightarrow> FundsManager \<Rightarrow> Order \<Rightarrow> unit dbp" where
  "reserveFundsForOrder E F ord =
     (if o_Direction ord \<noteq> BUY then ret ()
      else bnd (if o_IsClient ord then computeNotionalPlusCommission E ord (o_Quantity ord)
                else computeNotional E ord (o_Quantity ord)) (\<lambda>total.
        fm_ReserveFunds F (o_AccountID ord) total))"

definition getForexQuoteCurrency :: "int \<Rightarrow> string dbp" where
  "getForexQuoteCurrency listingID = bnd (GetListingByID listingID) (\<lambda>listing.
     case (do { j \<leftarrow> l_Details (lc_Listing listing); fs \<leftarrow> jmembers j; _ \<leftarrow> decStr ''base_currency'' fs;
                q \<leftarrow> decStr ''quote_currency'' fs; _ \<leftarrow> decStr ''liquidity'' fs; Some q }) of
       None \<Rightarrow> fail (Errorf ''forex details'')
     | Some q \<Rightarrow> if q = [] then fail (Errorf ''no quote_currency'') else ret q)"

definition forexRate :: "env \<Rightarrow> Order \<Rightarrow> decimal dbp" where
  "forexRate E ord = (case o_OrderType ord of
       MARKET \<Rightarrow> bnd (GetListingByID (o_ListingID ord)) (\<lambda>listing. ret (newFromFloat E (l_Ask (lc_Listing listing))))
     | STOP \<Rightarrow> bnd (GetListingByID (o_ListingID ord)) (\<lambda>listing. ret (newFromFloat E (l_Ask (lc_Listing listing))))
     | LIMIT \<Rightarrow> (case o_PricePerUnit ord of None \<Rightarrow> fail ErrLimitPriceRequired | Some p \<Rightarrow> ret p)
     | STOP_LIMIT \<Rightarrow> (case o_PricePerUnit ord of None \<Rightarrow> fail ErrLimitPriceRequired | Some p \<Rightarrow> ret p)
     | OtherOrderType _ \<Rightarrow> fail ErrInvalidOrderType)"

definition reserveForexFundsForOrder :: "env \<Rightarrow> FundsManager \<Rightarrow> Order \<Rightarrow> unit dbp" where
  "reserveForexFundsForOrder E F ord =
     bnd (getForexQuoteCurrency (o_ListingID ord)) (\<lambda>quoteCurrency.
     bnd (forexRate E ord) (\<lambda>rate.
       if rate = 0 then fail (Errorf ''forex rate is zero'')
       else fm_ReserveForexFunds F (o_AccountID ord) quoteCurrency
              (of_int (o_ContractSize ord) * of_int (o_Quantity ord) * rate)))"

definition releaseForexFundsForOrder :: "env \<Rightarrow> FundsManager \<Rightarrow> Order \<Rightarrow> unit dbp" where
  "releaseForexFundsForOrder E F ord =
     bnd (getForexQuoteCurrency (o_ListingID ord)) (\<lambda>quoteCurrency.
     bnd (forexRate E ord) (\<lambda>rate.
       if rate = 0 then ret ()
       else fm_ReleaseForexFunds F (o_AccountID ord) quoteCurrency
              (of_int (o_ContractSize ord) * of_int (o_RemainingPortions ord) * rate)))"

definition releaseFundsForOrder :: "env \<Rightarrow> FundsManager \<Rightarrow> Order \<Rightarrow> unit dbp" where
  "releaseFundsForOrder E F ord =
     (if o_Direction ord \<noteq> BUY then ret ()
      else bnd (attempt (GetListingByID (o_ListingID ord))) (\<lambda>listing.
        if (case listing of Inl _ \<Rightarrow> False | Inr l \<Rightarrow> l_Type (lc_Listing l) = LT_FOREX)
        then releaseForexFundsForOrder E F ord
        else bnd (if o_IsClient ord then computeNotionalPlusCommission E ord (o_RemainingPortions ord)
                  else computeNotional E ord (o_RemainingPortions ord)) (\<lambda>total.
          fm_ReleaseFunds F (o_AccountID ord) total)))"

section \<open>Operations\<close>

text \<open>Steps 2 and 3 of \<open>CreateOrder\<close> (validation that reads the database, then the approval workflow),
  steps 4 and 5 (persisting and reserving), and the whole.\<close>

definition CreateOrder_checks :: "env \<Rightarrow> FundsManager \<Rightarrow> CreateOrderRequest \<Rightarrow> OrderStatus dbp" where
  "CreateOrder_checks E F req =
     bnd (if cr_Direction req = SELL
          then if cr_IsForex req then validateForexSellBalance F req else validateSellOwnership req
          else ret ()) (\<lambda>_.
     bnd (if cr_Direction req = BUY \<and> \<not> cr_Margin req \<and> \<not> cr_IsForex req
          then validateSufficientFunds E F req else ret ()) (\<lambda>_.
     bnd (if cr_Margin req
          then if cr_Direction req = SELL then fail (Errorf ''margin only for purchases'')
               else validateMargin E req
          else ret ()) (\<lambda>_.
       resolveStatus E F req)))"

definition CreateOrder_place :: "env \<Rightarrow> FundsManager \<Rightarrow> CreateOrderRequest \<Rightarrow> OrderStatus \<Rightarrow> Order dbp" where
  "CreateOrder_place E F req status =
     bnd (orders_Create E req status) (\<lambda>order.
       if cr_Direction req = BUY then
         bnd (attempt (if cr_IsForex req then reserveForexFundsForOrder E F order
                       else reserveFundsForOrder E F order)) (\<lambda>res. case res of
             Inl reserveErr \<Rightarrow> bnd (ignore (orders_Cancel (o_ID order))) (\<lambda>_. fail reserveErr)
           | Inr _ \<Rightarrow> ret order)
       else ret order)"

definition CreateOrder :: "env \<Rightarrow> FundsManager \<Rightarrow> CreateOrderRequest \<Rightarrow> Order dbp" where
  "CreateOrder E F req =
     (if cr_SettlementExpired req then orders_Create E req DECLINED
      else if cr_Direction req \<noteq> BUY \<and> cr_Direction req \<noteq> SELL then fail ErrInvalidDirection
      else case validateOrderTypeFields req of
        Some e \<Rightarrow> fail e
      | None \<Rightarrow> bnd (CreateOrder_checks E F req) (CreateOrder_place E F req))"

definition ListOrders :: "OrderStatus option \<Rightarrow> Order list dbp" where
  "ListOrders statusFilter = orders_ListByStatus statusFilter"

definition ListOrdersByUser :: "int \<Rightarrow> OrderStatus option \<Rightarrow> Order list dbp" where
  "ListOrdersByUser userID statusFilter = orders_ListByUserID userID statusFilter"

definition ApproveOrder :: "int \<Rightarrow> int \<Rightarrow> Order dbp" where
  "ApproveOrder orderID supervisorID =
     bnd (orders_GetByID orderID) (\<lambda>order.
       if o_Status order \<noteq> PENDING then fail ErrInvalidOrderState
       else orders_UpdateStatus orderID APPROVED (Some (FormatInt supervisorID)))"

definition DeclineOrder :: "env \<Rightarrow> FundsManager \<Rightarrow> int \<Rightarrow> int \<Rightarrow> Order dbp" where
  "DeclineOrder E F orderID supervisorID =
     bnd (orders_GetByID orderID) (\<lambda>order.
       if o_Status order \<noteq> PENDING then fail ErrInvalidOrderState
       else bnd (orders_UpdateStatus orderID DECLINED (Some (FormatInt supervisorID))) (\<lambda>updated.
         bnd (if o_Direction order = BUY then ignore (releaseFundsForOrder E F order) else ret ()) (\<lambda>_.
           ret updated)))"

definition isSupervisor :: "int \<Rightarrow> bool dbp" where
  "isSupervisor userID = bnd (attempt (actuaries_GetByEmployeeID userID)) (\<lambda>r. case r of
       Inl e \<Rightarrow> if e = ErrActuaryNotFound then ret False else fail e
     | Inr actuary \<Rightarrow> ret (a_Type actuary = SUPERVISOR))"

definition CancelOrder :: "env \<Rightarrow> FundsManager \<Rightarrow> int \<Rightarrow> int \<Rightarrow> bool \<Rightarrow> Order dbp" where
  "CancelOrder E F orderID requestedBy callerIsSupervisor =
     bnd (orders_GetByID orderID) (\<lambda>order.
     bnd (if o_UserID order \<noteq> requestedBy \<and> \<not> callerIsSupervisor
          then bnd (isSupervisor requestedBy) (\<lambda>isSuper.
            if \<not> isSuper then fail ErrPermissionDenied else ret ())
          else ret ()) (\<lambda>_.
       if \<not> ((o_Status order = PENDING \<or> o_Status order = APPROVED) \<and> \<not> o_IsDone order)
       then fail ErrInvalidOrderState
       else bnd (orders_Cancel orderID) (\<lambda>canceled.
         bnd (if o_Direction order = BUY then ignore (releaseFundsForOrder E F order) else ret ()) (\<lambda>_.
           ret canceled))))"

section \<open>What the service relies on\<close>

text \<open>Everything the trading service reads or writes besides accounts.\<close>

definition trading :: "db \<Rightarrow> Order list \<times> int \<times> order_audit list \<times> OrderTransaction list \<times> Actuary list
    \<times> Listing list \<times> kredit list" where
  "trading s = (orders s, order_seq s, order_audit_log s, order_transactions s, actuary_info s, listings s,
     krediti s)"

lemma clock_free_trading [simp]: "clock_free trading"
  by (simp add: clock_free_def trading_def)

text \<open>The contract of \<open>FundsManager\<close> in \<open>trading/domain.go\<close>: its operations touch accounts only, its
  checks touch nothing, a failed reservation changes nothing, and the account invariant \<open>Inv\<close> survives
  every reservation and release of a non-negative amount.\<close>

locale funds_manager =
  fixes F :: FundsManager and Inv :: "db \<Rightarrow> bool"
  assumes accounts_only: "racuni s' = racuni s \<Longrightarrow> Inv s' = Inv s"
    and frames: "keeps trading (fm_ReserveFunds F i x)" "keeps trading (fm_ReleaseFunds F i x)"
      "keeps trading (fm_ReserveForexFunds F i q x)" "keeps trading (fm_ReleaseForexFunds F i q x)"
      "keeps trading (fm_HasSufficientFunds F i x)" "keeps trading (fm_HasSufficientFreeBalance F i x)"
    and checks: "keeps racuni (fm_HasSufficientFunds F i x)" "keeps racuni (fm_HasSufficientFreeBalance F i x)"
    and health: "preserves healthy (fm_ReserveFunds F i x)" "preserves healthy (fm_ReserveForexFunds F i q x)"
      "preserves healthy (fm_HasSufficientFunds F i x)" "preserves healthy (fm_HasSufficientFreeBalance F i x)"
    and atomic_reserve: "atomic racuni (fm_ReserveFunds F i x)" "atomic racuni (fm_ReserveForexFunds F i q x)"
    and Inv_ops: "0 \<le> x \<Longrightarrow> preserves Inv (fm_ReserveFunds F i x)"
      "0 \<le> x \<Longrightarrow> preserves Inv (fm_ReleaseFunds F i x)"
      "0 \<le> x \<Longrightarrow> preserves Inv (fm_ReserveForexFunds F i q x)"
      "0 \<le> x \<Longrightarrow> preserves Inv (fm_ReleaseForexFunds F i q x)"

lemma trading_fields:
  assumes "keeps trading m"
  shows "keeps orders m" "keeps order_seq m" "keeps order_audit_log m" "keeps actuary_info m" "keeps listings m"
  using assms by (simp_all add: keeps_def trading_def)

lemma fundsManager_frames:
  "keeps trading (ReserveFunds E b i x)" "keeps trading (ReleaseFunds E b i x)"
  "keeps trading (ReserveForexFunds E b i q x)" "keeps trading (ReleaseForexFunds E b i q x)"
  "keeps trading (HasSufficientFunds E b i x)" "keeps trading (HasSufficientFreeBalance i x)"
  unfolding ReserveFunds_def ReleaseFunds_def ReserveForexFunds_def ReleaseForexFunds_def
    HasSufficientFunds_def HasSufficientFreeBalance_def Let_def
  by (intro keeps_intros keeps_update_racun; simp add: trading_def)+

lemma fundsManager_checks:
  "keeps racuni (HasSufficientFunds E b i x)" "keeps racuni (HasSufficientFreeBalance i x)"
  unfolding HasSufficientFunds_def HasSufficientFreeBalance_def by (intro keeps_intros; simp)+

lemma fundsManager_health:
  "preserves healthy (ReserveFunds E b i x)" "preserves healthy (ReserveForexFunds E b i q x)"
  "preserves healthy (HasSufficientFunds E b i x)" "preserves healthy (HasSufficientFreeBalance i x)"
  unfolding ReserveFunds_def ReserveForexFunds_def HasSufficientFunds_def HasSufficientFreeBalance_def Let_def
    accountCurrency_def resolveForexDebitAccountID_def
  by (intro preserves_intros)+

lemma atomic_core_racuni: "atomic core m \<Longrightarrow> atomic racuni m"
  by (simp add: atomic_def core_def)

sublocale numerics \<subseteq> fm: funds_manager "fundsManager E b" clients_ok for b
proof unfold_locales
  show "racuni s' = racuni s \<Longrightarrow> clients_ok s' = clients_ok s" for s s' by (rule clients_ok_cong)
qed (simp_all add: fundsManager_def fundsManager_frames fundsManager_checks fundsManager_health preserves_reservations
    atomic_core_racuni [OF funds_atomic(1)] atomic_core_racuni [OF funds_atomic(6)])

section \<open>The life of an order\<close>

text \<open>The status changes the service may make; \<open>DECLINED\<close>, \<open>DONE\<close> and \<open>CANCELED\<close> are final.\<close>

definition allowed :: "OrderStatus \<Rightarrow> OrderStatus \<Rightarrow> bool" where
  "allowed a b \<longleftrightarrow> a = PENDING \<and> (b = APPROVED \<or> b = DECLINED \<or> b = CANCELED) \<or> a = APPROVED \<and> b = CANCELED"

definition closed :: "OrderStatus \<Rightarrow> bool" where
  "closed a \<longleftrightarrow> a = DECLINED \<or> a = DONE \<or> a = CANCELED"

text \<open>A row before and after: unchanged, or one allowed step in which only the status, the approver and
  the done flag differ.\<close>

definition evolves :: "Order \<Rightarrow> Order \<Rightarrow> bool" where
  "evolves a b \<longleftrightarrow> b = a \<or> allowed (o_Status a) (o_Status b) \<and> (o_Status b = CANCELED \<longrightarrow> \<not> o_IsDone a) \<and>
     b = a\<lparr>o_Status := o_Status b, o_ApprovedBy := o_ApprovedBy b, o_IsDone := o_IsDone a \<or> o_Status b = CANCELED\<rparr>"

definition orders_wf :: "db \<Rightarrow> bool" where
  "orders_wf s \<longleftrightarrow> distinct (map o_ID (orders s)) \<and> list_all (\<lambda>ord. o_ID ord < order_seq s \<and>
     0 < o_Quantity ord \<and> 0 < o_ContractSize ord \<and> 0 \<le> o_RemainingPortions ord \<and>
     o_RemainingPortions ord \<le> o_Quantity ord) (orders s)"

text \<open>A row that appeared: a new id, nothing executed yet.\<close>

definition fresh_order :: "int \<Rightarrow> Order \<Rightarrow> bool" where
  "fresh_order n ord \<longleftrightarrow> n \<le> o_ID ord \<and> o_RemainingPortions ord = o_Quantity ord"

definition table_evolves :: "db \<Rightarrow> db \<Rightarrow> bool" where
  "table_evolves s s' \<longleftrightarrow> (\<exists>os new. orders s' = os @ new \<and> list_all2 evolves (orders s) os \<and>
     list_all (fresh_order (order_seq s)) new)"

lemma evolves_refl [simp]: "evolves a a"
  by (simp add: evolves_def)

lemma table_evolves_same: "orders s' = orders s \<Longrightarrow> table_evolves s s'"
  unfolding table_evolves_def by (intro exI [of _ "orders s"] exI [of _ "[]"]) (simp add: list_all2_refl)

lemma table_evolves_append:
  "orders s' = orders s @ new \<Longrightarrow> list_all (fresh_order (order_seq s)) new \<Longrightarrow> table_evolves s s'"
  unfolding table_evolves_def by (intro exI [of _ "orders s"] exI [of _ new]) (simp add: list_all2_refl)

lemma order_of_unique:
  "distinct (map o_ID (orders s)) \<Longrightarrow> ord \<in> set (orders s) \<Longrightarrow> order_of s (o_ID ord) = Some ord"
  unfolding order_of_def by (rule find_unique)

lemma order_of_SomeD: "order_of s i = Some ord \<Longrightarrow> ord \<in> set (orders s) \<and> o_ID ord = i"
  unfolding order_of_def by (drule find_SomeD) simp

lemma table_evolves_upd:
  assumes "orders_wf s" and "order_of s i = Some ord" and "evolves ord (f ord)"
    and "orders s' = upd_order i f (orders s)"
  shows "table_evolves s s'"
proof -
  have "x = ord" if "x \<in> set (orders s)" and "o_ID x = i" for x
    using order_of_unique [of s x] assms(1,2) that by (simp add: orders_wf_def)
  then have "evolves x (if o_ID x = i then f x else x)" if "x \<in> set (orders s)" for x
    using assms(3) that by auto
  then have "list_all2 evolves (orders s) (upd_order i f (orders s))"
    by (auto simp: upd_order_def upd_where_def list_all2_conv_all_nth simp del: if_split_asm)
  with assms(4) show ?thesis unfolding table_evolves_def by (intro exI [of _ "orders s'"] exI [of _ "[]"]) simp
qed

lemma orders_wf_upd:
  assumes "orders_wf s" and "order_seq s' = order_seq s" and "orders s' = upd_order i f (orders s)"
    and "\<And>ord. f ord = ord\<lparr>o_Status := o_Status (f ord), o_ApprovedBy := o_ApprovedBy (f ord), o_IsDone := o_IsDone (f ord)\<rparr>"
  shows "orders_wf s'"
proof -
  have keep: "o_ID (f ord) = o_ID ord" "o_Quantity (f ord) = o_Quantity ord"
    "o_ContractSize (f ord) = o_ContractSize ord" "o_RemainingPortions (f ord) = o_RemainingPortions ord" for ord
    by (subst assms(4), simp)+
  have "map o_ID (orders s') = map o_ID (orders s)"
    unfolding assms(3) upd_order_def by (rule map_upd_where) (rule keep)
  with assms(1,2) show ?thesis
    unfolding orders_wf_def assms(3) upd_order_def
    by (auto simp: keep intro!: list_all_upd_where)
qed

subsection \<open>Approving, declining, cancelling\<close>

lemma orders_GetByID_Inr: "orders_GetByID i s = (Inr ord, s') \<Longrightarrow> order_of s i = Some ord \<and> s' = bump s"
  by (auto simp: orders_GetByID_def order_of_def elim!: bnd_InrE dest!: query_InrD split: option.splits)

lemma keeps_order_table_reads [keeps_intros]: "keeps orders (isSupervisor u)" "keeps order_seq (isSupervisor u)"
  unfolding isSupervisor_def by (intro keeps_intros; simp)+

lemma UpdateStatus_orders:
  assumes "orders_UpdateStatus i st ap s = (r, s')"
  shows "(orders s' = orders s \<or> orders s' = upd_order i (set_status st ap) (orders s)) \<and> order_seq s' = order_seq s"
proof -
  have "keeps order_seq (orders_UpdateStatus i st ap)" by (rule keeps_order_updates) simp_all
  then show ?thesis
    using assms hoareD [OF hoare_UpdateStatus [of "orders s" i st ap], of s] keepsD [of order_seq]
    by (cases r) auto
qed

lemma Cancel_orders:
  assumes "orders_Cancel i s = (r, s')"
  shows "(orders s' = orders s \<or> orders s' = upd_order i set_canceled (orders s)) \<and> order_seq s' = order_seq s"
proof -
  have "keeps order_seq (orders_Cancel i)" by (rule keeps_order_updates) simp_all
  then show ?thesis
    using assms hoareD [OF hoare_Cancel [of "orders s" i], of s] keepsD [of order_seq]
    by (cases r) auto
qed

definition order_result :: "db \<Rightarrow> db \<Rightarrow> bool" where
  "order_result s s' \<longleftrightarrow> table_evolves s s' \<and> orders_wf s'"

lemma order_result_same: "orders_wf s \<Longrightarrow> orders s' = orders s \<Longrightarrow> order_seq s' = order_seq s \<Longrightarrow> order_result s s'"
  by (simp add: order_result_def table_evolves_same orders_wf_def)

lemma order_result_status:
  assumes "orders_wf s" and "order_of s i = Some ord" and "o_Status ord = PENDING" and "st = APPROVED \<or> st = DECLINED"
    and "orders s' = upd_order i (set_status st ap) (orders s)" and "order_seq s' = order_seq s"
  shows "order_result s s'"
  unfolding order_result_def
proof
  show "table_evolves s s'"
    by (rule table_evolves_upd [OF assms(1,2) _ assms(5)])
      (use assms(3,4) in \<open>auto simp: evolves_def allowed_def set_status_def\<close>)
  show "orders_wf s'"
    by (rule orders_wf_upd [OF assms(1,6,5)]) (use assms(4) in \<open>auto simp: set_status_def\<close>)
qed

lemma order_result_cancel:
  assumes "orders_wf s" and "order_of s i = Some ord"
    and "(o_Status ord = PENDING \<or> o_Status ord = APPROVED) \<and> \<not> o_IsDone ord"
    and "orders s' = upd_order i set_canceled (orders s)" and "order_seq s' = order_seq s"
  shows "order_result s s'"
  unfolding order_result_def
proof
  show "table_evolves s s'"
    by (rule table_evolves_upd [OF assms(1,2) _ assms(4)])
      (use assms(3) in \<open>auto simp: evolves_def allowed_def set_canceled_def\<close>)
  show "orders_wf s'"
    by (rule orders_wf_upd [OF assms(1,5,4)]) (auto simp: set_canceled_def)
qed

lemma order_result_cong:
  "orders s1 = orders s \<Longrightarrow> order_seq s1 = order_seq s \<Longrightarrow> order_result s1 s' = order_result s s'"
  by (simp add: order_result_def table_evolves_def)

lemma order_result_bump: "order_result (bump s) s' \<longleftrightarrow> order_result s s'"
  by (simp add: order_result_def table_evolves_def)

lemma order_result_after_read:
  assumes "orders_wf s"
    and "\<And>ord. order_of s i = Some ord \<Longrightarrow> order_result (bump s) (snd (g ord (bump s)))"
  shows "order_result s (snd (bnd (orders_GetByID i) g s))"
proof (cases "orders_GetByID i s")
  case (Pair r s1)
  show ?thesis
  proof (cases r)
    case (Inl e)
    have "orders s1 = orders s" "order_seq s1 = order_seq s"
      using keepsD [OF keeps_order_reads(1) [of orders] Pair] keepsD [OF keeps_order_reads(1) [of order_seq] Pair]
      by simp_all
    with Pair Inl assms(1) show ?thesis by (simp add: bnd_run_Inl order_result_same)
  next
    case (Inr ord)
    with Pair orders_GetByID_Inr have "order_of s i = Some ord" "s1 = bump s" by blast+
    with Pair Inr assms(2) show ?thesis by (simp add: bnd_run_Inr order_result_bump)
  qed
qed

lemma orders_wf_bump [simp]: "orders_wf (bump s) = orders_wf s"
  by (simp add: orders_wf_def)

lemma order_of_bump [simp]: "order_of (bump s) i = order_of s i"
  by (simp add: order_of_def)

lemma order_result_then:
  assumes "order_result s (snd (m s))" and "\<And>a. keeps orders (g a)" and "\<And>a. keeps order_seq (g a)"
  shows "order_result s (snd (bnd m g s))"
proof (cases "m s")
  case (Pair r s1)
  have same: "order_result s (snd (g a s1))" if "order_result s s1" for a
    using that keeps_snd [OF assms(2), of a s1] keeps_snd [OF assms(3), of a s1]
    by (simp add: order_result_def table_evolves_def orders_wf_def)
  with Pair assms(1) show ?thesis by (cases r) (simp_all add: bnd_def)
qed

lemma UpdateStatus_result:
  assumes "orders_wf s" and "order_of s i = Some ord" and "o_Status ord = PENDING" and "st = APPROVED \<or> st = DECLINED"
  shows "order_result s (snd (orders_UpdateStatus i st ap s))"
  using UpdateStatus_orders [of i st ap s] assms order_result_status [OF assms] order_result_same [OF assms(1)]
  by (cases "orders_UpdateStatus i st ap s") auto

lemma Cancel_result:
  assumes "orders_wf s" and "order_of s i = Some ord"
    and "(o_Status ord = PENDING \<or> o_Status ord = APPROVED) \<and> \<not> o_IsDone ord"
  shows "order_result s (snd (orders_Cancel i s))"
  using Cancel_orders [of i s] assms order_result_cancel [OF assms] order_result_same [OF assms(1)]
  by (cases "orders_Cancel i s") auto

lemma ApproveOrder_result: "orders_wf s \<Longrightarrow> order_result s (snd (ApproveOrder i v s))"
  unfolding ApproveOrder_def
  by (rule order_result_after_read) (auto intro: order_result_same UpdateStatus_result)

lemma keeps_computes [keeps_intros]:
  assumes "clock_free f"
  shows "keeps f (computeNotional E ord q)" "keeps f (computeNotionalPlusCommission E ord q)"
    "keeps f (getForexQuoteCurrency l)" "keeps f (forexRate E ord)" "keeps f (resolveNotional E req)"
    "keeps f (resolveTotalBuyDebitUSD E req)" "keeps f (validateSellOwnership req)" "keeps f (validateMargin E req)"
    "keeps f (initialMarginCostForListing E l)"
proof -
  show c: "keeps f (computeNotional E ord q)" for q
    unfolding computeNotional_def by (cases "o_OrderType ord") (auto intro!: keeps_intros assms)
  show "keeps f (computeNotionalPlusCommission E ord q)"
    unfolding computeNotionalPlusCommission_def by (intro keeps_intros c)
  show "keeps f (getForexQuoteCurrency l)"
    unfolding getForexQuoteCurrency_def by (intro keeps_intros assms)
  show "keeps f (forexRate E ord)"
    unfolding forexRate_def by (cases "o_OrderType ord") (auto intro!: keeps_intros assms)
  show r: "keeps f (resolveNotional E req)"
    unfolding resolveNotional_def by (cases "cr_OrderType req") (auto intro!: keeps_intros assms)
  show "keeps f (resolveTotalBuyDebitUSD E req)"
    unfolding resolveTotalBuyDebitUSD_def by (intro keeps_intros r)
  show "keeps f (validateSellOwnership req)"
    unfolding validateSellOwnership_def by (intro keeps_intros assms)
  show m: "keeps f (initialMarginCostForListing E l)" for l
    unfolding initialMarginCostForListing_def by (intro keeps_intros assms)
  show "keeps f (validateMargin E req)"
    unfolding validateMargin_def by (intro keeps_intros assms m)
qed

text \<open>The validation phase touches nothing but \<open>used_limit\<close>.\<close>

definition books :: "db \<Rightarrow> racun list \<times> Order list \<times> int \<times> order_audit list \<times> Listing list" where
  "books s = (racuni s, orders s, order_seq s, order_audit_log s, listings s)"

lemma clock_free_books [simp]: "clock_free books"
  by (simp add: clock_free_def books_def)

context funds_manager
begin

lemma release_frame: "keeps trading (releaseFundsForOrder E F ord)"
  unfolding releaseFundsForOrder_def releaseForexFundsForOrder_def
  by (intro keeps_intros frames clock_free_trading)

lemma reserve_frame:
  "keeps trading (reserveFundsForOrder E F ord)" "keeps trading (reserveForexFundsForOrder E F ord)"
  unfolding reserveFundsForOrder_def reserveForexFundsForOrder_def
  by (intro keeps_intros frames clock_free_trading)+

lemma release_then_keeps:
  "keeps orders (bnd (if b then ignore (releaseFundsForOrder E F ord) else ret ()) (\<lambda>_. ret x))"
  "keeps order_seq (bnd (if b then ignore (releaseFundsForOrder E F ord) else ret ()) (\<lambda>_. ret x))"
  by (intro keeps_intros trading_fields [OF release_frame])+

lemma DeclineOrder_result: "orders_wf s \<Longrightarrow> order_result s (snd (DeclineOrder E F i v s))"
  unfolding DeclineOrder_def
proof (rule order_result_after_read)
  fix ord
  assume s: "orders_wf s" and ord: "order_of s i = Some ord"
  show "order_result (bump s) (snd ((if o_Status ord \<noteq> PENDING then fail ErrInvalidOrderState
       else bnd (orders_UpdateStatus i DECLINED (Some (FormatInt v))) (\<lambda>updated.
         bnd (if o_Direction ord = BUY then ignore (releaseFundsForOrder E F ord) else ret ()) (\<lambda>_.
           ret updated))) (bump s)))"
  proof (cases "o_Status ord = PENDING")
    case True
    have "order_result (bump s) (snd (orders_UpdateStatus i DECLINED (Some (FormatInt v)) (bump s)))"
      by (rule UpdateStatus_result) (use s ord True in auto)
    then show ?thesis
      unfolding if_not_P [OF not_not [THEN iffD2, OF True]]
      by (rule order_result_then) (rule release_then_keeps)+
  next
    case False
    with s show ?thesis by (simp add: order_result_same)
  qed
qed

lemma CancelOrder_result: "orders_wf s \<Longrightarrow> order_result s (snd (CancelOrder E F i u isSup s))"
  unfolding CancelOrder_def
proof (rule order_result_after_read)
  fix ord
  assume s: "orders_wf s" and ord: "order_of s i = Some ord"
  let ?perm = "if o_UserID ord \<noteq> u \<and> \<not> isSup then bnd (isSupervisor u)
      (\<lambda>isSuper. if \<not> isSuper then fail ErrPermissionDenied else ret ()) else ret ()"
  let ?rest = "\<lambda>_::unit. if \<not> ((o_Status ord = PENDING \<or> o_Status ord = APPROVED) \<and> \<not> o_IsDone ord)
       then fail ErrInvalidOrderState
       else bnd (orders_Cancel i) (\<lambda>canceled.
         bnd (if o_Direction ord = BUY then ignore (releaseFundsForOrder E F ord) else ret ()) (\<lambda>_. ret canceled))"
  obtain r s1 where p: "?perm (bump s) = (r, s1)" by (cases "?perm (bump s)") auto
  have "keeps (\<lambda>s. (orders s, order_seq s)) ?perm"
    unfolding isSupervisor_def by (intro keeps_intros) (simp_all add: clock_free_def)
  from keepsD [OF this p] have o: "orders s1 = orders s" "order_seq s1 = order_seq s" by simp_all
  have s1: "orders_wf s1" "order_of s1 i = Some ord" using s ord o by (simp_all add: orders_wf_def order_of_def)
  have "order_result s1 (snd (?rest () s1))"
  proof (cases "(o_Status ord = PENDING \<or> o_Status ord = APPROVED) \<and> \<not> o_IsDone ord")
    case True
    then have "order_result s1 (snd (orders_Cancel i s1))" by (intro Cancel_result [OF s1]) simp
    then show ?thesis
      unfolding if_not_P [OF not_not [THEN iffD2, OF True]]
      by (rule order_result_then) (rule release_then_keeps)+
  next
    case False
    with s1 show ?thesis by (simp only: if_True not_False_eq_True) (simp add: order_result_same)
  qed
  then have rest: "order_result (bump s) (snd (?rest u s1))" for u
    by (simp only: order_result_cong [of s1 "bump s"] o clock_fields)
  have "order_result (bump s) s1" by (rule order_result_same) (simp_all add: s o)
  with rest show "order_result (bump s) (snd (bnd ?perm ?rest (bump s)))"
    unfolding bnd_def p by (cases r) simp_all
qed

end

subsection \<open>Placing\<close>

lemma orders_wf_append:
  assumes "orders_wf s" and "orders s' = orders s @ [row]" and "order_seq s' = order_seq s + 1"
    and "o_ID row = order_seq s" and "0 < o_Quantity row" "0 < o_ContractSize row"
    and "o_RemainingPortions row = o_Quantity row"
  shows "order_result s s'"
proof -
  have "orders_wf s'" using assms by (auto simp: orders_wf_def list_all_iff)
  with assms show ?thesis by (simp add: order_result_def table_evolves_append fresh_order_def)
qed

lemma upd_order_fresh:
  assumes "orders_wf s"
  shows "upd_order (order_seq s) f (orders s @ [row]) =
    orders s @ [if o_ID row = order_seq s then f row else row]"
proof -
  have "upd_where (\<lambda>ord. o_ID ord = order_seq s) f (orders s) = orders s"
    using assms by (intro upd_where_None) (auto simp: orders_wf_def list_all_iff)
  then show ?thesis by (simp add: upd_order_def upd_where_def)
qed


context funds_manager
begin

lemma keeps_books: "keeps trading m \<Longrightarrow> keeps racuni m \<Longrightarrow> keeps books m"
  by (simp add: keeps_def books_def trading_def)

lemma keeps_books_increment: "keeps books (IncrementUsedLimitAlways E u x)"
  unfolding IncrementUsedLimitAlways_def
  by (intro keeps_intros keeps_update_actuary) (simp_all add: books_def)

lemma resolveStatus_books: "keeps books (resolveStatus E F req)"
  unfolding resolveStatus_def Let_def
  by (intro keeps_intros keeps_books_increment clock_free_books)

lemma checks_books: "keeps books (CreateOrder_checks E F req)"
  unfolding CreateOrder_checks_def validateForexSellBalance_def validateSufficientFunds_def
  by (intro keeps_intros resolveStatus_books clock_free_books keeps_books frames checks)

lemma healthy_reads [preserves_intros]:
  "preserves healthy (GetListingByID l)" "preserves healthy (computeNotional E ord q)"
  "preserves healthy (computeNotionalPlusCommission E ord q)" "preserves healthy (getForexQuoteCurrency l)"
  "preserves healthy (forexRate E ord)" "preserves healthy (resolveNotional E req)"
  "preserves healthy (initialMarginCostForListing E l)" "preserves healthy (HasApprovedCreditForMargin E u y)"
  "preserves healthy (HasSufficientMargin a y)" "preserves healthy (HasSufficientMarginTrezor c y)"
  "preserves healthy (orders_GetNetHoldings u l)"
proof -
  show g: "preserves healthy (GetListingByID l)" for l
    unfolding GetListingByID_def by (intro preserves_intros)
  show c: "preserves healthy (computeNotional E ord q)" for q
    unfolding computeNotional_def by (cases "o_OrderType ord") (auto intro!: preserves_intros g)
  show "preserves healthy (computeNotionalPlusCommission E ord q)"
    unfolding computeNotionalPlusCommission_def by (intro preserves_intros c)
  show "preserves healthy (getForexQuoteCurrency l)"
    unfolding getForexQuoteCurrency_def by (intro preserves_intros g)
  show "preserves healthy (forexRate E ord)"
    unfolding forexRate_def by (cases "o_OrderType ord") (auto intro!: preserves_intros g)
  show "preserves healthy (resolveNotional E req)"
    unfolding resolveNotional_def by (cases "cr_OrderType req") (auto intro!: preserves_intros g)
  show "preserves healthy (initialMarginCostForListing E l)"
    unfolding initialMarginCostForListing_def by (intro preserves_intros g)
qed (unfold HasApprovedCreditForMargin_def HasSufficientMargin_def HasSufficientMarginTrezor_def
    orders_GetNetHoldings_def, (intro preserves_intros)+)

lemma checks_healthy: "preserves healthy (CreateOrder_checks E F req)"
  unfolding CreateOrder_checks_def validateForexSellBalance_def validateSufficientFunds_def
    resolveTotalBuyDebitUSD_def validateSellOwnership_def validateMargin_def resolveStatus_def Let_def
  by (intro preserves_intros health)

lemma reserve_healthy:
  "preserves healthy (reserveFundsForOrder E F ord)" "preserves healthy (reserveForexFundsForOrder E F ord)"
  unfolding reserveFundsForOrder_def reserveForexFundsForOrder_def
  by (intro preserves_intros health)+

lemma reserve_atomic:
  "atomic racuni (reserveFundsForOrder E F ord)" "atomic racuni (reserveForexFundsForOrder E F ord)"
  unfolding reserveFundsForOrder_def reserveForexFundsForOrder_def
  by (intro atomic_intros keeps_intros atomic_reserve clock_free_fields)+

text \<open>How placing can end: refused before the row exists; the row exists and nothing else is left to
  do, or the reservation succeeded; or the reservation failed, accounts are as before and the row was
  cancelled unless the database failed on that too.\<close>

lemma place_cases:
  assumes run: "CreateOrder_place E F req st s = (r, s')"
    and n: "n = order_seq s" and ord: "ord = (new_order req st)\<lparr>o_ID := n\<rparr>"
  shows "(\<exists>e. r = Inl e) \<and> books s' = books s \<or>
    order_check E s ord \<and> order_seq s' = n + 1 \<and>
      (r = Inr ord \<and> orders s' = orders s @ [store_order E ord] \<or>
       (\<exists>e. r = Inl e) \<and> cr_Direction req = BUY \<and> racuni s' = racuni s \<and>
         (orders s' = orders s @ [store_order E ord] \<and> \<not> (healthy s \<and> orders_wf s) \<or>
          orders s' = upd_order n set_canceled (orders s @ [store_order E ord])))"
proof (cases "orders_Create E req st s")
  case (Pair r1 s1)
  show ?thesis
  proof (cases r1)
    case (Inl e)
    with Pair orders_Create_Inl have "s1 = failed s" by blast
    moreover from run Pair Inl have "r = Inl e" "s' = s1" by (simp_all add: CreateOrder_place_def bnd_def)
    ultimately show ?thesis by (simp add: books_def)
  next
    case (Inr ord1)
    note c = orders_Create_Inr [OF Pair [unfolded Inr]]
    have o: "ord1 = ord" "o_ID ord = n" by (simp_all add: c(1) ord n)
    let ?m = "if cr_IsForex req then reserveForexFundsForOrder E F ord else reserveFundsForOrder E F ord"
    have s1: "orders s1 = orders s @ [store_order E ord]" "order_seq s1 = n + 1" "racuni s1 = racuni s"
      by (simp_all add: c(3) o n)
    show ?thesis
    proof (cases "cr_Direction req = BUY")
      case False
      with run Pair Inr have "r = Inr ord" "s' = s1" by (simp_all add: CreateOrder_place_def bnd_def o)
      with s1 c(2) o show ?thesis by simp
    next
      case True
      obtain r2 s2 where m: "?m s1 = (r2, s2)" by (cases "?m s1") auto
      have kt: "keeps trading ?m" by (simp add: reserve_frame)
      have s2: "orders s2 = orders s1" "order_seq s2 = order_seq s1"
        using keepsD [OF kt m] by (simp_all add: trading_def)
      show ?thesis
      proof (cases r2)
        case (Inr u)
        with True run Pair \<open>r1 = Inr ord1\<close> m have "r = Inr ord" "s' = s2"
          by (simp_all add: CreateOrder_place_def bnd_def attempt_def o)
        with s1 s2 c(2) o show ?thesis by simp
      next
        case (Inl e)
        obtain r3 s3 where k: "orders_Cancel n s2 = (r3, s3)" by force
        from Inl True run Pair \<open>r1 = Inr ord1\<close> m k have rs: "r = Inl e" "s' = s3"
          by (simp_all add: CreateOrder_place_def bnd_def attempt_def ignore_def o)
        have "atomic racuni ?m" by (simp add: reserve_atomic)
        with m Inl have "racuni s2 = racuni s1" by (auto dest: atomicD)
        moreover have "keeps racuni (orders_Cancel n)" by (rule keeps_order_updates) simp_all
        ultimately have acc: "racuni s3 = racuni s" using k s1 by (auto dest: keepsD)
        have seq: "order_seq s3 = n + 1" using Cancel_orders [OF k] s1 s2 by simp
        have "orders s3 = upd_order n set_canceled (orders s @ [store_order E ord])" if "healthy s" "orders_wf s"
        proof -
          have "healthy s1" using that(1) by (simp add: c(3) healthy_def)
          moreover have "preserves healthy ?m" by (simp add: reserve_healthy)
          ultimately have "healthy s2" using m by (auto dest: preservesD)
          moreover have "list_all (\<lambda>ord. 0 \<le> o_RemainingPortions ord) (orders s2)"
            using that(2) c(2) by (auto simp: s2 s1 o orders_wf_def list_all_iff store_order_def order_check_def)
          ultimately show ?thesis
            using orders_Cancel_ok [of s2 n] k s1 s2 o by (simp add: store_order_def)
        qed
        with Cancel_orders [OF k] rs acc seq s1 s2 c(2) o True show ?thesis by auto
      qed
    qed
  qed
qed

lemma resolveStatus_Inr: "resolveStatus E F req s = (Inr st, s') \<Longrightarrow> st = PENDING \<or> st = APPROVED"
  unfolding resolveStatus_def Let_def by (auto elim!: bnd_InrE split: if_splits sum.splits)

lemma checks_Inr: "CreateOrder_checks E F req s = (Inr st, s') \<Longrightarrow> st = PENDING \<or> st = APPROVED"
  unfolding CreateOrder_checks_def by (elim bnd_InrE) (rule resolveStatus_Inr)

lemma CreateOrder_cases:
  assumes run: "CreateOrder E F req s = (r, s')"
  shows "(\<exists>e. r = Inl e) \<and> books s' = books s \<or>
    (\<exists>st ord. (st = PENDING \<or> st = APPROVED \<or> st = DECLINED) \<and> ord = (new_order req st)\<lparr>o_ID := order_seq s\<rparr> \<and>
      order_check E s ord \<and> order_seq s' = order_seq s + 1 \<and>
      (r = Inr ord \<and> orders s' = orders s @ [store_order E ord] \<or>
       (\<exists>e. r = Inl e) \<and> cr_Direction req = BUY \<and> racuni s' = racuni s \<and>
         (orders s' = orders s @ [store_order E ord] \<and> \<not> (healthy s \<and> orders_wf s) \<or>
          orders s' = upd_order (order_seq s) set_canceled (orders s @ [store_order E ord]))))"
proof -
  consider "cr_SettlementExpired req" | e where "r = Inl e" "s' = s"
    | "CreateOrder E F req s = bnd (CreateOrder_checks E F req) (CreateOrder_place E F req) s"
    using run by (auto simp: CreateOrder_def split: if_splits option.splits)
  then show ?thesis
  proof cases
    case 1
    then have c: "orders_Create E req DECLINED s = (r, s')" using run by (simp add: CreateOrder_def)
    show ?thesis
    proof (cases r)
      case (Inl e)
      with c orders_Create_Inl have "s' = failed s" by blast
      with Inl show ?thesis by (simp add: books_def)
    next
      case (Inr ord)
      with orders_Create_Inr [OF c [unfolded Inr]] show ?thesis by auto
    qed
  next
    case 2
    then show ?thesis by simp
  next
    case 3
    obtain r1 s1 where k: "CreateOrder_checks E F req s = (r1, s1)" by force
    have b: "books s1 = books s" by (rule keepsD [OF checks_books k])
    show ?thesis
    proof (cases r1)
      case (Inl e)
      with 3 run k b show ?thesis by (simp add: bnd_def)
    next
      case (Inr st)
      have pl: "CreateOrder_place E F req st s1 = (r, s')" using 3 run k Inr by (simp add: bnd_def)
      have h: "healthy s \<Longrightarrow> healthy s1" using preservesD [OF checks_healthy _ k] .
      have w: "orders_wf s1 = orders_wf s" and oc: "order_check E s1 x = order_check E s x" for x
        using b by (simp_all add: books_def orders_wf_def order_check_def)
      have sb: "order_seq s1 = order_seq s" "orders s1 = orders s" "racuni s1 = racuni s" using b by (simp_all add: books_def)
      show ?thesis
        using place_cases [OF pl refl refl] checks_Inr [OF k [unfolded Inr]] h unfolding w oc sb b by blast
    qed
  qed
qed

lemma CreateOrder_result:
  assumes wf: "orders_wf s"
  shows "order_result s (snd (CreateOrder E F req s))"
proof -
  obtain r s' where run: "CreateOrder E F req s = (r, s')" by force
  have app: "order_result s s'" if "orders s' = orders s @ [row]" "order_seq s' = order_seq s + 1"
    "row = store_order E ((new_order req st)\<lparr>o_ID := order_seq s\<rparr>) \<or>
     row = set_canceled (store_order E ((new_order req st)\<lparr>o_ID := order_seq s\<rparr>))"
    "order_check E s ((new_order req st)\<lparr>o_ID := order_seq s\<rparr>)" "st = PENDING \<or> st = APPROVED \<or> st = DECLINED"
    for row st
    by (rule orders_wf_append [OF wf that(1,2)])
      (use that(3-5) in \<open>auto simp: store_order_def set_canceled_def new_order_def order_check_def\<close>)
  show ?thesis
    using CreateOrder_cases [OF run] order_result_same [OF wf, of s']
    unfolding upd_order_fresh [OF wf] run books_def
    by (auto intro: app simp: store_order_def)
qed

end

section \<open>Properties: the order life cycle\<close>

context numerics
begin

lemma fm_ok: "funds_manager (fundsManager E b) clients_ok"
  by (rule fm.funds_manager_axioms)

end

inductive trading_step :: "env \<Rightarrow> db \<Rightarrow> db \<Rightarrow> bool" for E where
  create: "trading_step E s (snd (CreateOrder E (fundsManager E b) req s))"
| approve: "trading_step E s (snd (ApproveOrder i v s))"
| decline: "trading_step E s (snd (DeclineOrder E (fundsManager E b) i v s))"
| cancel: "trading_step E s (snd (CancelOrder E (fundsManager E b) i u isSup s))"

inductive_cases trading_stepE: "trading_step E s s'"

lemma trading_step_result: "numerics E \<Longrightarrow> orders_wf s \<Longrightarrow> trading_step E s s' \<Longrightarrow> order_result s s'"
  by (auto elim!: trading_stepE intro: funds_manager.CreateOrder_result [OF numerics.fm_ok] ApproveOrder_result
      funds_manager.DeclineOrder_result [OF numerics.fm_ok] funds_manager.CancelOrder_result [OF numerics.fm_ok])

text \<open>What an order keeps for life.\<close>

definition terms_of :: "Order \<Rightarrow> int \<times> int \<times> int \<times> int \<times> OrderType \<times> OrderDirection \<times> int \<times> int \<times> int
    \<times> decimal option \<times> decimal option" where
  "terms_of ord = (o_ID ord, o_UserID ord, o_AccountID ord, o_ListingID ord, o_OrderType ord, o_Direction ord,
     o_Quantity ord, o_RemainingPortions ord, o_ContractSize ord, o_PricePerUnit ord, o_StopPrice ord)"

definition follows :: "Order \<Rightarrow> Order \<Rightarrow> bool" where
  "follows a b \<longleftrightarrow> terms_of b = terms_of a \<and> allowed\<^sup>*\<^sup>* (o_Status a) (o_Status b) \<and> (closed (o_Status a) \<longrightarrow> b = a)"

lemma evolves_follows: "follows a b \<Longrightarrow> evolves b c \<Longrightarrow> follows a c"
proof -
  assume f: "follows a b" and e: "evolves b c"
  have t: "terms_of c = terms_of b"
    if "c = b\<lparr>o_Status := o_Status c, o_ApprovedBy := o_ApprovedBy c, o_IsDone := o_IsDone b \<or> o_Status c = CANCELED\<rparr>"
    by (subst that) (simp add: terms_of_def)
  from e consider "c = b" | "allowed (o_Status b) (o_Status c)" "terms_of c = terms_of b"
    unfolding evolves_def using t by blast
  then show ?thesis
  proof cases
    case 2
    then have "\<not> closed (o_Status b)" by (auto simp: allowed_def closed_def)
    with f have "\<not> closed (o_Status a)" by (auto simp: follows_def)
    with f 2 show ?thesis by (auto simp: follows_def intro: rtranclp.rtrancl_into_rtrancl)
  qed (use f in simp)
qed


definition sample_listing :: Listing where
  "sample_listing = \<lparr>l_ID = 3, l_Ticker = ''ACME'', l_Type = LT_STOCK, l_Price = 2, l_Ask = 2, l_Bid = 2,
     l_Volume = 100, l_ExchangeID = 1, l_Details = None\<rparr>"

definition sample_market :: db where
  "sample_market = sample_db\<lparr>listings := [sample_listing]\<rparr>"

definition sample_req :: CreateOrderRequest where
  "sample_req = \<lparr>cr_UserID = 7, cr_AccountID = 11, cr_ListingID = 3, cr_OrderType = LIMIT, cr_Direction = BUY,
     cr_Quantity = 4, cr_ContractSize = 1, cr_PricePerUnit = Some 3, cr_StopPrice = None, cr_AfterHours = False,
     cr_AllOrNone = False, cr_Margin = False, cr_IsSupervisor = False, cr_IsClient = True, cr_IsForex = False,
     cr_SettlementExpired = False, cr_ApprovedByOverride = None, cr_FundID = None\<rparr>"

lemma sample_wf: "orders_wf sample_market"
  by (simp add: orders_wf_def sample_market_def)


lemma orders_Cancel_Inr:
  assumes "orders_wf s" and "orders_Cancel i s = (Inr ord', s')" and "order_of s i = Some ord"
  shows "order_of s' i = Some (set_canceled ord) \<and> ord' = set_canceled ord"
proof -
  have "orders s' = upd_order i set_canceled (orders s)"
    using hoareD(1) [OF hoare_Cancel refl assms(2)] .
  then have "order_of s' i = map_option (\<lambda>r. if o_ID r = i then set_canceled r else r) (order_of s i)"
    unfolding order_of_def upd_order_def
    by (simp only:) (rule find_upd_where, simp add: set_canceled_def)
  then have "order_of s' i = map_option set_canceled (order_of s i)"
    using order_of_SomeD [OF assms(3)] assms(3) by simp
  moreover from assms(2) obtain s1 where "orders_GetByID i s1 = (Inr ord', s')"
    unfolding orders_Cancel_def by (elim bnd_InrE) (auto elim!: bnd_InrE split: if_splits)
  then have "order_of s1 i = Some ord'" "s' = bump s1" by (auto dest: orders_GetByID_Inr)
  ultimately show ?thesis using assms(3) by simp
qed


definition sample_sale :: Order where
  "sample_sale = sample_order\<lparr>o_Direction := SELL, o_Status := APPROVED, o_IsDone := False, o_RemainingPortions := 3\<rparr>"

definition sample_orders :: db where
  "sample_orders = sample_market\<lparr>orders := [sample_sale], order_seq := 2\<rparr>"

lemma sample_orders_ok: "orders_wf sample_orders" "order_of sample_orders 1 = Some sample_sale"
  "healthy sample_orders"
  by (simp_all add: orders_wf_def sample_orders_def sample_sale_def sample_order_def order_of_def healthy_def
      sample_market_def sample_db_def empty_db_def)

lemmas trading_eval = bnd_def query_def query_or_def stmt_def attempt_def ignore_def orders_GetByID_def
  orders_Cancel_def update_order_def insertAuditLog_def set_canceled_def order_of_def upd_where_def
  sample_orders_def sample_sale_def sample_order_def sample_market_def sample_db_def empty_db_def bump_def


end
