(* ===== verification/Order_Properties.thy ===== *)
theory Order_Properties
  imports Trading_Service
begin

text \<open>
  What the trading service guarantees beyond the life cycle: the exact effect of an approval, what a
  refused order leaves behind, that nobody sells more than they hold, that an agent's orders pass
  without a supervisor only within the limit, and that preview, check and reservation use one amount.
\<close>

section \<open>Approval\<close>

lemma upd_order_status_row:
  assumes "order_of s i = Some ord"
  shows "order_of (s\<lparr>orders := upd_order i (set_status st ap) (orders s)\<rparr>) i = Some (set_status st ap ord)"
proof -
  have "order_of (s\<lparr>orders := upd_order i (set_status st ap) (orders s)\<rparr>) i =
      map_option (\<lambda>r. if o_ID r = i then set_status st ap r else r) (order_of s i)"
    unfolding order_of_def upd_order_def by simp (rule find_upd_where, simp add: set_status_def)
  with assms order_of_SomeD [OF assms] show ?thesis by simp
qed

lemma orders_UpdateStatus_ok:
  assumes "healthy s" and "orders_wf s" and "order_of s i = Some ord"
  shows "\<exists>s'. orders_UpdateStatus i st ap s = (Inr (set_status st ap ord), s') \<and>
    orders s' = upd_order i (set_status st ap) (orders s) \<and>
    order_audit_log s' = order_audit_log s @ [\<lparr>oa_order_id = i, oa_old_status = Some (o_Status ord),
      oa_new_status = st, oa_changed_by = (case ap of None \<Rightarrow> None | Some a \<Rightarrow> ParseInt a)\<rparr>] \<and> racuni s' = racuni s"
proof -
  have nf: "no_faults s" using healthy_no_faults [OF assms(1)] .
  have ord: "ord \<in> set (orders s)" "o_ID ord = i" using order_of_SomeD [OF assms(3)] by simp_all
  have chk: "list_all (\<lambda>ord. o_ID ord = i \<longrightarrow> 0 \<le> o_RemainingPortions (set_status st ap ord)) (orders s)"
    using assms(2) by (auto simp: orders_wf_def list_all_iff set_status_def)
  have n: "length (filter (\<lambda>ord. o_ID ord = i) (orders s)) \<noteq> 0" using ord by (auto simp: filter_empty_conv)
  have ex: "list_ex (\<lambda>ord. o_ID ord = i) (upd_order i (set_status st ap) (orders s))"
    using ord unfolding list_ex_iff upd_order_def upd_where_def
    by (intro bexI [of _ "set_status st ap ord"]) (auto simp: set_status_def image_iff intro!: bexI [of _ ord])
  have get: "order_of (t\<lparr>orders := upd_order i (set_status st ap) (orders s)\<rparr>) i = Some (set_status st ap ord)"
    if "orders t = orders s" for t
    using upd_order_status_row [of t i ord] assms(3) that by (simp add: order_of_def)
  show ?thesis
    using nf chk n ex get assms(3)
    by (simp add: orders_UpdateStatus_def bnd_def query_or_ok update_order_def stmt_ok upd_order_def [symmetric]
        insertAuditLog_def ignore_def orders_GetByID_def query_ok order_of_def)
qed

text \<open>Approval has exactly its intended effect. Without database failures, \<open>ApproveOrder\<close> on a
  pending order returns it approved and signed with the supervisor's id, changes that row and no other,
  records the transition from \<open>PENDING\<close> with the supervisor as author, and moves no money; on any other
  order it is refused and nothing changes.\<close>

theorem approve_order_effect:
  assumes "healthy s" and "orders_wf s" and "order_of s i = Some ord" and "int64 v"
  shows "\<exists>r s'. ApproveOrder i v s = (r, s') \<and> racuni s' = racuni s \<and>
    (if o_Status ord = PENDING
     then r = Inr (ord\<lparr>o_Status := APPROVED, o_ApprovedBy := Some (FormatInt v)\<rparr>) \<and>
       (\<forall>j. order_of s' j = (if j = i then Some (ord\<lparr>o_Status := APPROVED, o_ApprovedBy := Some (FormatInt v)\<rparr>)
          else order_of s j)) \<and>
       order_audit_log s' = order_audit_log s @ [\<lparr>oa_order_id = i, oa_old_status = Some PENDING,
          oa_new_status = APPROVED, oa_changed_by = Some v\<rparr>]
     else r = Inl ErrInvalidOrderState \<and> books s' = books s)"
proof -
  have nf: "no_faults s" using healthy_no_faults [OF assms(1)] .
  have get: "orders_GetByID i s = (Inr ord, bump s)"
    using nf assms(3) by (simp add: orders_GetByID_def bnd_def query_ok)
  show ?thesis
  proof (cases "o_Status ord = PENDING")
    case False
    with get show ?thesis by (simp add: ApproveOrder_def bnd_run_Inr books_def)
  next
    case True
    let ?f = "set_status APPROVED (Some (FormatInt v))"
    have run: "ApproveOrder i v s = orders_UpdateStatus i APPROVED (Some (FormatInt v)) (bump s)"
      using get True by (simp add: ApproveOrder_def bnd_run_Inr)
    obtain s' where u: "orders_UpdateStatus i APPROVED (Some (FormatInt v)) (bump s) = (Inr (?f ord), s')"
      "orders s' = upd_order i ?f (orders s)" "racuni s' = racuni s"
      "order_audit_log s' = order_audit_log s @ [\<lparr>oa_order_id = i, oa_old_status = Some PENDING,
          oa_new_status = APPROVED, oa_changed_by = Some v\<rparr>]"
      using orders_UpdateStatus_ok [of "bump s" i ord APPROVED "Some (FormatInt v)"] assms True
      by (auto simp: ParseInt_FormatInt)
    have "order_of s' j = (if j = i then Some (?f ord) else order_of s j)" for j
    proof -
      have "order_of s' j = map_option (\<lambda>r. if o_ID r = i then ?f r else r) (order_of s j)"
        unfolding order_of_def u(2) upd_order_def by (rule find_upd_where) (simp add: set_status_def)
      then show ?thesis using assms(3) order_of_SomeD [of s j] by (cases "order_of s j") auto
    qed
    with u run True show ?thesis by (simp add: set_status_def)
  qed
qed

theorem approve_order_effect_witness:
  "\<exists>r s'. ApproveOrder 1 5 (sample_orders\<lparr>orders := [sample_sale\<lparr>o_Status := PENDING\<rparr>]\<rparr>) = (r, s') \<and>
     order_of s' 1 = Some (sample_sale\<lparr>o_Status := APPROVED, o_ApprovedBy := Some ''5''\<rparr>)"
proof -
  let ?s = "sample_orders\<lparr>orders := [sample_sale\<lparr>o_Status := PENDING\<rparr>]\<rparr>"
  have "healthy ?s" "orders_wf ?s" "order_of ?s 1 = Some (sample_sale\<lparr>o_Status := PENDING\<rparr>)"
    using sample_orders_ok
    by (simp_all add: healthy_def orders_wf_def sample_orders_def sample_sale_def sample_order_def order_of_def)
  moreover have "FormatInt 5 = ''5''" by code_simp
  ultimately show ?thesis
    using approve_order_effect [of ?s 1 "sample_sale\<lparr>o_Status := PENDING\<rparr>" 5] by (auto simp: int64_def)
qed

section \<open>Refused orders\<close>

text \<open>A refused order costs nothing. When \<open>CreateOrder\<close> returns an error on a database that does
  not fail, every account is as before, and the order table is either untouched or has gained one row,
  with the next id, that is already cancelled.\<close>

theorem refused_order_costs_nothing:
  assumes "numerics E" and "healthy s" and "orders_wf s"
    and "CreateOrder E (fundsManager E isClient) req s = (Inl e, s')"
  shows "racuni s' = racuni s \<and> (orders s' = orders s \<or>
    (\<exists>row. orders s' = orders s @ [row] \<and> o_ID row = order_seq s \<and> o_Status row = CANCELED \<and> o_IsDone row \<and>
       o_UserID row = cr_UserID req \<and> net_of row = 0))"
proof -
  note cases = funds_manager.CreateOrder_cases [OF numerics.fm_ok [OF assms(1)] assms(4)]
  have canc: "racuni s' = racuni s \<and> (\<exists>row. orders s' = orders s @ [row] \<and> o_ID row = order_seq s \<and>
      o_Status row = CANCELED \<and> o_IsDone row \<and> o_UserID row = cr_UserID req \<and> net_of row = 0)"
    if "racuni s' = racuni s" and "orders s' = upd_order (order_seq s) set_canceled
      (orders s @ [store_order E ((new_order req st)\<lparr>o_ID := order_seq s\<rparr>)])" for st
    using that(1) unfolding that(2) upd_order_fresh [OF assms(3)]
    by (auto simp: store_order_def set_canceled_def new_order_def net_of_def)
  from cases show ?thesis using assms(2,3) canc by (auto simp: books_def)
qed

theorem refused_order_costs_nothing_witness:
  "racuni (snd (CreateOrder sample_env (fundsManager sample_env True) (sample_req\<lparr>cr_Direction := SELL\<rparr>) sample_market))
     = racuni sample_market"
proof -
  let ?c = "CreateOrder sample_env (fundsManager sample_env True) (sample_req\<lparr>cr_Direction := SELL\<rparr>) sample_market"
  have "fst ?c = Inl ErrInsufficientHoldings"
    by (simp add: CreateOrder_def sample_req_def validateOrderTypeFields_def CreateOrder_checks_def
        validateSellOwnership_def orders_GetNetHoldings_def trading_eval)
  then have run: "?c = (Inl ErrInsufficientHoldings, snd ?c)" by (simp add: prod_eq_iff)
  have "healthy sample_market" by (simp add: healthy_def sample_market_def sample_db_def empty_db_def)
  from refused_order_costs_nothing [OF sample_numerics this sample_wf run] show ?thesis by simp
qed

section \<open>Holdings\<close>

definition net_holdings :: "int \<Rightarrow> int \<Rightarrow> Order list \<Rightarrow> int" where
  "net_holdings u l os = (\<Sum>ord \<leftarrow> filter (\<lambda>ord. o_UserID ord = u \<and> o_ListingID ord = l) os. net_of ord)"

lemma net_of_evolves:
  assumes "evolves a b" and "0 \<le> o_RemainingPortions a" "o_RemainingPortions a \<le> o_Quantity a" "0 < o_Quantity a"
  shows "net_of a \<le> net_of b \<and> o_UserID b = o_UserID a \<and> o_ListingID b = o_ListingID a"
proof (cases "b = a")
  case False
  with assms(1) obtain st ap where b: "b = a\<lparr>o_Status := st, o_ApprovedBy := ap, o_IsDone := o_IsDone a \<or> st = CANCELED\<rparr>"
    and al: "allowed (o_Status a) st" "st = CANCELED \<longrightarrow> \<not> o_IsDone a"
    unfolding evolves_def by blast
  from al show ?thesis using assms(2-4) unfolding b
    by (cases "o_Direction a = BUY"; cases "o_Direction a = SELL") (auto simp: net_of_def allowed_def)
qed simp

lemma net_holdings_mono:
  assumes "list_all2 evolves os os'"
    and "list_all (\<lambda>a. 0 \<le> o_RemainingPortions a \<and> o_RemainingPortions a \<le> o_Quantity a \<and> 0 < o_Quantity a) os"
  shows "net_holdings u l os \<le> net_holdings u l os'"
  using assms
proof (induction rule: list_all2_induct)
  case (Cons a os b os')
  then show ?case using net_of_evolves [of a b] by (auto simp: net_holdings_def)
qed (simp add: net_holdings_def)

lemma net_holdings_append: "net_holdings u l (os @ os') = net_holdings u l os + net_holdings u l os'"
  by (simp add: net_holdings_def)

lemma orders_wf_portions:
  "orders_wf s \<Longrightarrow> list_all (\<lambda>a. 0 \<le> o_RemainingPortions a \<and> o_RemainingPortions a \<le> o_Quantity a \<and> 0 < o_Quantity a) (orders s)"
  by (auto simp: orders_wf_def list_all_iff)

text \<open>An accepted sale outside the foreign exchange market is covered by what the seller holds.\<close>

lemma accepted_sale_covered:
  assumes "CreateOrder E F req s = (Inr ord, s')" and "cr_Direction req = SELL" and "\<not> cr_IsForex req"
    and "\<not> cr_SettlementExpired req"
  shows "cr_Quantity req \<le> net_holdings (cr_UserID req) (cr_ListingID req) (orders s)"
proof -
  from assms obtain st s1 where "CreateOrder_checks E F req s = (Inr st, s1)"
    by (auto simp: CreateOrder_def split: option.splits elim!: bnd_InrE)
  then have "\<exists>s2. validateSellOwnership req s = (Inr (), s2)"
    unfolding CreateOrder_checks_def using assms(2,3) by (auto elim!: bnd_InrE)
  then show ?thesis
    by (auto simp: validateSellOwnership_def orders_GetNetHoldings_def net_holdings_def elim!: bnd_InrE
        dest!: query_InrD split: if_splits)
qed

lemma expired_declined: "CreateOrder E F req s = (Inr ord, s') \<Longrightarrow> cr_SettlementExpired req \<Longrightarrow> o_Status ord = DECLINED"
  using orders_Create_Inr(1) [of E req DECLINED s ord s'] by (simp add: CreateOrder_def new_order_def)

lemma fresh_buy_net: "o_Direction row = BUY \<Longrightarrow> o_Status row \<noteq> DONE \<Longrightarrow> o_RemainingPortions row = o_Quantity row \<Longrightarrow> net_of row = 0"
  by (simp add: net_of_def)

lemma new_order_quantity: "order_check E s ((new_order req st)\<lparr>o_ID := n\<rparr>) \<Longrightarrow> 0 < cr_Quantity req"
  by (simp add: order_check_def new_order_def)

lemma store_order_ID [simp]: "o_ID (store_order E ord) = o_ID ord"
  by (simp add: store_order_def)

lemma net_of_new:
  "net_of (store_order E ((new_order req st)\<lparr>o_ID := n\<rparr>)) =
     (if cr_Direction req = BUY \<and> st = DONE then cr_Quantity req
      else if cr_Direction req = SELL \<and> (st = DONE \<or> st = PENDING \<or> st = APPROVED) then - cr_Quantity req else 0)"
  by (auto simp: net_of_def store_order_def new_order_def)

context funds_manager
begin

lemma CreateOrder_net:
  assumes wf: "orders_wf s" and spot: "cr_ListingID req = l \<longrightarrow> \<not> cr_IsForex req"
    and pos: "\<forall>u. 0 \<le> net_holdings u l (orders s)"
  shows "0 \<le> net_holdings u l (orders (snd (CreateOrder E F req s)))"
proof -
  obtain r s' where run: "CreateOrder E F req s = (r, s')" by force
  let ?row = "\<lambda>st. store_order E ((new_order req st)\<lparr>o_ID := order_seq s\<rparr>)"
  have row: "0 \<le> net_holdings u l (orders s @ [row])"
    if "o_UserID row = cr_UserID req" "o_ListingID row = cr_ListingID req"
      "cr_UserID req = u \<Longrightarrow> cr_ListingID req = l \<Longrightarrow> 0 \<le> net_holdings u l (orders s) + net_of row" for row
    using that pos by (auto simp: net_holdings_append net_holdings_def)
  from CreateOrder_cases [OF run] consider "books s' = books s"
    | st where "r = Inr ((new_order req st)\<lparr>o_ID := order_seq s\<rparr>)" "orders s' = orders s @ [?row st]" "st \<noteq> DONE" "st \<noteq> CANCELED"
      "0 < cr_Quantity req"
    | st where "cr_Direction req = BUY" "st \<noteq> DONE"
       "orders s' = orders s @ [?row st] \<or> orders s' = orders s @ [set_canceled (?row st)]"
    unfolding upd_order_fresh [OF wf]
    by (elim disjE conjE exE) (simp_all add: new_order_quantity, blast+)
  then have "0 \<le> net_holdings u l (orders s')"
  proof cases
    case 1
    with pos show ?thesis by (simp add: books_def)
  next
    case (2 st)
    have st: "st = DECLINED" if "cr_SettlementExpired req"
      using expired_declined [OF run [unfolded 2(1)] that] by (simp add: new_order_def)
    show ?thesis unfolding 2(2)
    proof (rule row)
      assume u: "cr_UserID req = u" "cr_ListingID req = l"
      consider "cr_Direction req = SELL" "\<not> cr_SettlementExpired req" | "net_of (?row st) = 0"
        using st unfolding net_of_new by (cases "cr_SettlementExpired req"; cases "cr_Direction req = SELL")
          (use \<open>st \<noteq> DONE\<close> in auto)
      then show "0 \<le> net_holdings u l (orders s) + net_of (?row st)"
      proof cases
        case 1
        then have "cr_Quantity req \<le> net_holdings u l (orders s)"
          using accepted_sale_covered [OF run [unfolded 2(1)]] spot u by simp
        moreover have "- cr_Quantity req \<le> net_of (?row st)"
          using \<open>0 < cr_Quantity req\<close> by (simp add: net_of_new)
        ultimately show ?thesis by simp
      qed (use pos in simp)
    qed (simp_all add: store_order_def new_order_def)
  next
    case (3 st)
    have "net_of (?row st) = 0" "net_of (set_canceled (?row st)) = 0"
      using 3 by (auto intro!: fresh_buy_net simp: store_order_def new_order_def set_canceled_def)
    moreover have "o_UserID (?row st) = cr_UserID req" "o_ListingID (?row st) = cr_ListingID req"
      "o_UserID (set_canceled (?row st)) = cr_UserID req" "o_ListingID (set_canceled (?row st)) = cr_ListingID req"
      by (simp_all add: store_order_def new_order_def set_canceled_def)
    ultimately have "0 \<le> net_holdings u l (orders s @ [?row st])" "0 \<le> net_holdings u l (orders s @ [set_canceled (?row st)])"
      using pos by (intro row; simp)+
    with 3(3) show ?thesis by auto
  qed
  with run show ?thesis by simp
qed

end

text \<open>The same steps as \<open>trading_step\<close>, where orders for the listing \<open>l\<close> are not foreign exchange orders.
  The handler sets the flag from the type of the listing.\<close>

inductive spot_step :: "env \<Rightarrow> int \<Rightarrow> db \<Rightarrow> db \<Rightarrow> bool" for E l where
  spot_create: "cr_ListingID req = l \<longrightarrow> \<not> cr_IsForex req \<Longrightarrow>
    spot_step E l s (snd (CreateOrder E (fundsManager E b) req s))"
| spot_approve: "spot_step E l s (snd (ApproveOrder i v s))"
| spot_decline: "spot_step E l s (snd (DeclineOrder E (fundsManager E b) i v s))"
| spot_cancel: "spot_step E l s (snd (CancelOrder E (fundsManager E b) i u isSup s))"

inductive_cases spot_stepE: "spot_step E l s s'"

lemma result_net:
  assumes "orders_wf s" and "order_result s s'" and "length (orders s') = length (orders s)"
  shows "net_holdings u l (orders s) \<le> net_holdings u l (orders s')"
proof -
  from assms(2) obtain os new where o: "orders s' = os @ new" "list_all2 evolves (orders s) os"
    by (auto simp: order_result_def table_evolves_def)
  with assms(3) list_all2_lengthD [OF o(2)] have "list_all2 evolves (orders s) (orders s')" by simp
  then show ?thesis by (rule net_holdings_mono [OF _ orders_wf_portions [OF assms(1)]])
qed

lemma keeps_length:
  "keeps (\<lambda>s. length (orders s)) (update_order j f)" "keeps (\<lambda>s. length (orders s)) (insertAuditLog i old new c)"
  unfolding update_order_def insertAuditLog_def
  by (intro keeps_intros keeps_stmt; auto simp: clock_free_def upd_where_def split: if_splits)+

lemma clock_free_length: "clock_free (\<lambda>s. length (orders s))"
  by (simp add: clock_free_def)

context funds_manager
begin

lemma release_length: "keeps (\<lambda>s. length (orders s)) (releaseFundsForOrder E F ord)"
  using trading_fields(1) [OF release_frame] by (simp add: keeps_def)

lemma length_ops:
  "keeps (\<lambda>s. length (orders s)) (ApproveOrder i v)" "keeps (\<lambda>s. length (orders s)) (DeclineOrder E F i v)"
  "keeps (\<lambda>s. length (orders s)) (CancelOrder E F i u isSup)"
  unfolding ApproveOrder_def DeclineOrder_def CancelOrder_def orders_UpdateStatus_def orders_Cancel_def isSupervisor_def
  by (intro keeps_intros keeps_length clock_free_length release_length)+

lemma ops_net:
  assumes "orders_wf s"
  shows "net_holdings w l (orders s) \<le> net_holdings w l (orders (snd (ApproveOrder i v s)))"
    "net_holdings w l (orders s) \<le> net_holdings w l (orders (snd (DeclineOrder E F i v s)))"
    "net_holdings w l (orders s) \<le> net_holdings w l (orders (snd (CancelOrder E F i u isSup s)))"
  by (rule result_net [OF assms], (rule ApproveOrder_result DeclineOrder_result CancelOrder_result, rule assms),
      rule keeps_snd [OF length_ops(1)] keeps_snd [OF length_ops(2)] keeps_snd [OF length_ops(3)])+

end



section \<open>One price\<close>

text \<open>The abstract pricing rule the preview, the balance check, the approval limit and the reservation
  implement: a market order is priced at the current ask or bid, a limit or stop-limit order at its
  limit price, a stop order at its stop price.\<close>

definition unit_price :: "env \<Rightarrow> Listing list \<Rightarrow> OrderType \<Rightarrow> OrderDirection \<Rightarrow> int \<Rightarrow> decimal option \<Rightarrow> decimal option
    \<Rightarrow> decimal option" where
  "unit_price E ls t dir l limit stop = (case t of
       MARKET \<Rightarrow> map_option (\<lambda>x. live_price E dir (calculate x)) (List.find (\<lambda>x. l_ID x = l) ls)
     | LIMIT \<Rightarrow> limit | STOP_LIMIT \<Rightarrow> (if stop = None then None else limit) | STOP \<Rightarrow> stop | OtherOrderType _ \<Rightarrow> None)"

definition req_price :: "env \<Rightarrow> db \<Rightarrow> CreateOrderRequest \<Rightarrow> decimal option" where
  "req_price E s req = unit_price E (listings s) (cr_OrderType req) (cr_Direction req) (cr_ListingID req)
     (cr_PricePerUnit req) (cr_StopPrice req)"

definition req_notional :: "env \<Rightarrow> db \<Rightarrow> CreateOrderRequest \<Rightarrow> decimal option" where
  "req_notional E s req = map_option (\<lambda>p. approxPrice (cr_ContractSize req) p (cr_Quantity req)) (req_price E s req)"

text \<open>The request as the preview sees it.\<close>

definition preview_of :: "CreateOrderRequest \<Rightarrow> OrderCalculationRequest" where
  "preview_of req = \<lparr>oc_OrderType = cr_OrderType req, oc_Direction = cr_Direction req,
     oc_ListingID = cr_ListingID req, oc_Quantity = cr_Quantity req, oc_ContractSize = cr_ContractSize req,
     oc_PricePerUnit = cr_PricePerUnit req, oc_StopPrice = cr_StopPrice req, oc_Margin = False\<rparr>"

lemma listing_run:
  "no_faults s \<Longrightarrow> List.find (\<lambda>x. l_ID x = l) (listings s) = Some x \<Longrightarrow> GetListingByID l s = (Inr (calculate x), bump (bump s))"
  by (simp add: GetListingByID_ok)

lemma resolveNotional_run:
  assumes "no_faults s" and "req_notional E s req = Some n"
  shows "resolveNotional E req s = (Inr n, if cr_OrderType req = MARKET then bump (bump s) else s)"
  using assms
  by (cases "cr_OrderType req")
    (auto simp: resolveNotional_def req_notional_def req_price_def unit_price_def bnd_def listing_run split: if_splits)

lemma computeNotional_run:
  assumes "no_faults s" and "req_notional E s req = Some n"
  shows "computeNotional E (new_order req st) (cr_Quantity req) s =
    (Inr n, if cr_OrderType req = MARKET then bump (bump s) else s)"
  using assms
  by (cases "cr_OrderType req")
    (auto simp: computeNotional_def req_notional_def req_price_def unit_price_def bnd_def listing_run new_order_def
      split: if_splits)

lemma CalculateOrderDetails_run:
  assumes "no_faults s" and "req_price E s req = Some p" and "req_notional E s req = Some n"
    and "known_direction (cr_Direction req)"
  shows "fst (CalculateOrderDetails E (preview_of req) s) =
    Inr (calc_response p (n, commission_for E (cr_OrderType req) n))"
  using assms
  by (cases "cr_OrderType req")
    (auto simp: CalculateOrderDetails_def preview_of_def calculateMarket_def calculateLimit_def calculateStop_def
      calculateStopLimit_def req_notional_def req_price_def unit_price_def bnd_def listing_run commission_for_def
      known_direction_def Let_def calcMarketOrder_def calcLimitOrder_def calcStopOrder_def calcStopLimitOrder_def
      CalcMarketCommission_def CalcLimitCommission_def split: if_splits)

text \<open>The customer is charged what was shown. For a request with a price, the preview, the balance
  check and the reservation of the placed order all work with one amount: the preview's approximate
  price plus commission is the debit \<open>validateSufficientFunds\<close> checks and the amount a client's order
  reserves; an employee's order reserves the approximate price alone. The commission is 14 percent of
  the price and at most 7 for market and stop orders, 24 percent and at most 12 for the others.\<close>

theorem preview_is_charged:
  assumes "numerics E" and "no_faults s" and "req_price E s req = Some p" and "known_direction (cr_Direction req)"
    and "n = approxPrice (cr_ContractSize req) p (cr_Quantity req)"
    and "c = (if cr_OrderType req = MARKET \<or> cr_OrderType req = STOP then min (n * 14 / 100) 7 else min (n * 24 / 100) 12)"
  shows "fst (CalculateOrderDetails E (preview_of req) s) = Inr (calc_response p (n, c)) \<and>
    fst (resolveTotalBuyDebitUSD E req s) = Inr (n + c) \<and>
    fst (computeNotionalPlusCommission E (new_order req st) (cr_Quantity req) s) = Inr (n + c) \<and>
    fst (computeNotional E (new_order req st) (cr_Quantity req) s) = Inr n"
proof -
  have n: "req_notional E s req = Some n" using assms(3,5) by (simp add: req_notional_def)
  have t: "o_OrderType (new_order req st) = cr_OrderType req" by (simp add: new_order_def)
  have "cr_OrderType req \<noteq> OtherOrderType x" for x using assms(3) by (auto simp: req_price_def unit_price_def)
  then have c: "commission_for E (cr_OrderType req) n = c"
    using numerics.marketCommissionFor_eq [OF assms(1), of n] numerics.limitCommissionFor_eq [OF assms(1), of n] assms(6)
    by (cases "cr_OrderType req") (auto simp: commission_for_def CalcMarketCommission_def CalcLimitCommission_def)
  show ?thesis
    using CalculateOrderDetails_run [OF assms(2,3) n assms(4)] resolveNotional_run [OF assms(2) n]
      computeNotional_run [OF assms(2) n, of st] c
    by (simp add: resolveTotalBuyDebitUSD_def computeNotionalPlusCommission_def bnd_def t)
qed

theorem preview_is_charged_witness:
  "fst (CalculateOrderDetails sample_env (preview_of sample_req) sample_market) = Inr (calc_response 3 (12, 288 / 100))"
  using preview_is_charged [OF sample_numerics, of sample_market sample_req 3, OF _ _ _ refl refl]
  by (simp add: sample_req_def req_price_def unit_price_def known_direction_def approxPrice_def sample_market_def
      sample_db_def empty_db_def)

section \<open>The limit of an agent\<close>

definition actuary_of :: "db \<Rightarrow> int \<Rightarrow> Actuary option" where
  "actuary_of s u = List.find (\<lambda>a. a_EmployeeID a = u) (actuary_info s)"

definition employees_unique :: "db \<Rightarrow> bool" where
  "employees_unique s \<longleftrightarrow> distinct (map a_EmployeeID (actuary_info s))"

lemma actuary_of_SomeD: "actuary_of s u = Some a \<Longrightarrow> a \<in> set (actuary_info s) \<and> a_EmployeeID a = u"
  unfolding actuary_of_def by (drule find_SomeD) simp

lemma actuaries_GetByEmployeeID_run:
  "no_faults s \<Longrightarrow> actuary_of s u = Some a \<Longrightarrow> actuaries_GetByEmployeeID u s = (Inr a, bump s)"
  by (simp add: actuaries_GetByEmployeeID_def actuary_by_def bnd_def query_ok actuary_of_def)

text \<open>An update of the one row of an employee.\<close>

lemma update_actuary_one:
  assumes "no_faults s" and "employees_unique s" and "actuary_of s u = Some a" and "\<And>x. P x \<Longrightarrow> a_EmployeeID x = u" and "P a"
    and "a_EmployeeID (f a) = u"
  shows "\<exists>s'. update_actuary P f s = (if actuary_check (f a) then Inr (Some (f a)) else Inl DBError, s') \<and>
    (\<forall>w. actuary_of s' w = (if w = u \<and> actuary_check (f a) then Some (f a) else actuary_of s w)) \<and> books s' = books s"
proof -
  have a: "a \<in> set (actuary_info s)" "a_EmployeeID a = u" using actuary_of_SomeD [OF assms(3)] by simp_all
  have one: "x = a" if "x \<in> set (actuary_info s)" "a_EmployeeID x = u" for x
    using find_unique [of a_EmployeeID "actuary_info s" x] that assms(2,3)
    by (simp add: employees_unique_def actuary_of_def)
  have only: "x = a" if "x \<in> set (actuary_info s)" "P x" for x
    by (rule one [OF that(1) assms(4) [OF that(2)]])
  have chk: "list_all (\<lambda>x. P x \<longrightarrow> actuary_check (f x)) (actuary_info s) = actuary_check (f a)"
    unfolding list_all_iff using a(1) assms(5) by (metis only)
  have fnd: "List.find P (actuary_info s) = Some a"
  proof (cases "List.find P (actuary_info s)")
    case None
    with a(1) assms(5) show ?thesis by (auto simp: find_None_iff)
  next
    case (Some x)
    with only [of x] find_SomeD [OF Some] show ?thesis by simp
  qed
  have upd: "List.find (\<lambda>x. a_EmployeeID x = w) (upd_where P f (actuary_info s)) =
      (if w = u then Some (f a) else actuary_of s w)" for w
  proof -
    have eq: "upd_where P f (actuary_info s) = upd_where (\<lambda>x. a_EmployeeID x = u) (\<lambda>_. f a) (actuary_info s)"
      unfolding upd_where_def
    proof (rule map_cong [OF refl])
      fix x
      assume x: "x \<in> set (actuary_info s)"
      show "(if P x then f x else x) = (if a_EmployeeID x = u then f a else x)"
      proof (cases "x = a")
        case False
        then have "\<not> P x" "a_EmployeeID x \<noteq> u" using one [OF x] only [OF x] by blast+
        then show ?thesis by simp
      qed (use assms(5) a(2) in simp)
    qed
    show ?thesis
      unfolding eq using find_put [of a_EmployeeID "f a" u w "actuary_info s"] assms(3,6) by (simp add: actuary_of_def)
  qed
  show ?thesis
    using assms(1) chk fnd upd
    by (simp add: update_actuary_def stmt_def books_def actuary_of_def)
qed

lemma IncrementUsedLimitAlways_run:
  assumes "no_faults s" and "employees_unique s" and "actuary_of s u = Some a" and "a_Type a = AGENT"
    and "b = add_used (stringFixed2 E x) a"
  shows "\<exists>s'. IncrementUsedLimitAlways E u x s =
      (if actuary_check b then Inr (b, a_Limit a < a_UsedLimit b) else Inl DBError, s') \<and>
    (\<forall>w. actuary_of s' w = (if w = u \<and> actuary_check b then Some b else actuary_of s w)) \<and> books s' = books s"
proof -
  have "\<exists>s'. update_actuary (\<lambda>a. a_EmployeeID a = u \<and> a_Type a = AGENT) (add_used (stringFixed2 E x)) s
      = (if actuary_check b then Inr (Some b) else Inl DBError, s') \<and>
    (\<forall>w. actuary_of s' w = (if w = u \<and> actuary_check b then Some b else actuary_of s w)) \<and> books s' = books s"
    unfolding assms(5)
    by (rule update_actuary_one [OF assms(1-3)]) (use assms(4) actuary_of_SomeD [OF assms(3)] in \<open>auto simp: add_used_def\<close>)
  then show ?thesis by (auto simp: IncrementUsedLimitAlways_def bnd_def assms(5) add_used_def)
qed

text \<open>The amount an order counts against the limit: its notional in dinars, or in dollars when no rate
  is known.\<close>

definition limit_amount :: "env \<Rightarrow> decimal \<Rightarrow> decimal" where
  "limit_amount E n = stringFixed2 E (case ConvertUSDToRSD E n of Inl _ \<Rightarrow> n | Inr x \<Rightarrow> x)"

lemma resolveStatus_agent:
  assumes "healthy s" and "employees_unique s" and "actuary_of s (cr_UserID req) = Some a" and "a_Type a = AGENT"
    and "\<not> cr_IsSupervisor req" and "req_notional E s req = Some n"
    and "b = add_used (limit_amount E n) a"
    and "resolveStatus E (fundsManager E isC) req s = (Inr st, s')"
  shows "st = (if a_NeedApproval a \<or> a_Limit a < a_UsedLimit b then PENDING else APPROVED) \<and>
    actuary_of s' (cr_UserID req) = Some (if actuary_check b then b else a)"
proof -
  let ?u = "cr_UserID req" and ?x = "case ConvertUSDToRSD E n of Inl _ \<Rightarrow> n | Inr x \<Rightarrow> x"
  let ?s = "if cr_OrderType req = MARKET then bump (bump (bump s)) else bump s"
  have nf: "no_faults s" "no_faults (bump s)" "no_faults ?s"
    using healthy_no_faults [OF assms(1)] by simp_all
  have r: "resolveNotional E req (bump s) = (Inr n, ?s)"
    using resolveNotional_run [of "bump s" E req n] nf assms(6) by (simp add: req_notional_def req_price_def)
  have s: "actuary_of ?s ?u = Some a" "employees_unique ?s" using assms(2,3) by (simp_all add: actuary_of_def employees_unique_def)
  obtain t where t: "IncrementUsedLimitAlways E ?u ?x ?s =
      (if actuary_check b then Inr (b, a_Limit a < a_UsedLimit b) else Inl DBError, t)"
    "actuary_of t ?u = Some (if actuary_check b then b else a)"
    using IncrementUsedLimitAlways_run [OF nf(3) s(2,1) assms(4), of b E ?x] s(1) assms(7) by (auto simp: limit_amount_def)
  show ?thesis
    using assms(8) t
    by (auto simp: resolveStatus_def bnd_def attempt_def ignore_def actuaries_GetByEmployeeID_run [OF nf(1) assms(3)]
        assms(4,5) r fundsManager_def Let_def split: if_splits)
qed

text \<open>Validation reads, but does not write, what the trading service keeps.\<close>

context funds_manager
begin

lemma checks_split:
  assumes "CreateOrder_checks E F req s = (Inr st, s')" and "healthy s"
  obtains s1 where "resolveStatus E F req s1 = (Inr st, s')" "healthy s1" "trading s1 = trading s"
proof -
  let ?m1 = "if cr_Direction req = SELL
      then if cr_IsForex req then validateForexSellBalance F req else validateSellOwnership req else ret ()"
  let ?m2 = "if cr_Direction req = BUY \<and> \<not> cr_Margin req \<and> \<not> cr_IsForex req
      then validateSufficientFunds E F req else ret ()"
  let ?m3 = "if cr_Margin req then if cr_Direction req = SELL then fail (Errorf ''margin only for purchases'')
      else validateMargin E req else ret ()"
  let ?pre = "bnd ?m1 (\<lambda>_. bnd ?m2 (\<lambda>_. ?m3))"
  have split: "CreateOrder_checks E F req = bnd ?pre (\<lambda>_. resolveStatus E F req)"
    by (simp only: CreateOrder_checks_def bnd_assoc)
  have k: "keeps trading ?pre"
    unfolding validateForexSellBalance_def validateSufficientFunds_def
    by (intro keeps_intros frames clock_free_trading)
  have h: "preserves healthy ?pre"
    unfolding validateForexSellBalance_def validateSufficientFunds_def resolveTotalBuyDebitUSD_def
      validateSellOwnership_def validateMargin_def
    by (intro preserves_intros health healthy_reads)
  from assms(1) obtain u s1 where "?pre s = (Inr u, s1)" "resolveStatus E F req s1 = (Inr st, s')"
    unfolding split by (rule bnd_InrE)
  with keepsD [OF k] preservesD [OF h assms(2)] that show ?thesis by blast
qed

lemma place_actuaries: "keeps actuary_info (CreateOrder_place E F req st)"
  unfolding CreateOrder_place_def orders_Create_def
  by (intro keeps_intros keeps_insert_order keeps_order_updates trading_fields(4) reserve_frame) simp_all

end

text \<open>C27. An agent trades alone only within the limit. An order of an agent placed by \<open>CreateOrder\<close> is
  approved at once exactly when the agent does not need approval and the used limit including this order
  stays within the agent's limit; otherwise it waits for a supervisor. The used limit grows by the
  order's value in dinars in both cases (unless the column cannot hold it).\<close>

theorem agent_order_status:
  assumes "numerics E" and "healthy s" and "employees_unique s" and "actuary_of s (cr_UserID req) = Some a"
    and "a_Type a = AGENT" and "\<not> cr_IsSupervisor req" and "\<not> cr_SettlementExpired req" and "req_notional E s req = Some n"
    and "b = add_used (limit_amount E n) a"
    and "CreateOrder E (fundsManager E isClient) req s = (Inr ord, s')"
  shows "o_Status ord = (if a_NeedApproval a \<or> a_Limit a < a_UsedLimit b then PENDING else APPROVED) \<and>
    actuary_of s' (cr_UserID req) = Some (if actuary_check b then b else a)"
proof -
  note fm = numerics.fm_ok [OF assms(1), of isClient]
  let ?F = "fundsManager E isClient"
  from assms(7,10) obtain st s1 where chk: "CreateOrder_checks E ?F req s = (Inr st, s1)"
    and pl: "CreateOrder_place E ?F req st s1 = (Inr ord, s')"
    by (auto simp: CreateOrder_def split: option.splits if_splits elim!: bnd_InrE)
  obtain s0 where s0: "resolveStatus E ?F req s0 = (Inr st, s1)" "healthy s0" "trading s0 = trading s"
    by (rule funds_manager.checks_split [OF fm chk assms(2)])
  have t: "actuary_info s0 = actuary_info s" "listings s0 = listings s" using s0(3) by (simp_all add: trading_def)
  have "o_Status ord = st"
    using funds_manager.place_cases [OF fm pl refl refl] by (auto simp: new_order_def)
  moreover have "actuary_info s' = actuary_info s1"
    by (rule keepsD [OF funds_manager.place_actuaries [OF fm] pl])
  moreover have "st = (if a_NeedApproval a \<or> a_Limit a < a_UsedLimit b then PENDING else APPROVED) \<and>
      actuary_of s1 (cr_UserID req) = Some (if actuary_check b then b else a)"
    by (rule resolveStatus_agent [OF s0(2) _ _ assms(5,6) _ assms(9) s0(1)])
      (use assms(3,4,8) t in \<open>simp_all add: employees_unique_def actuary_of_def req_notional_def req_price_def\<close>)
  ultimately show ?thesis by (simp add: actuary_of_def)
qed

definition sample_agent :: Actuary where
  "sample_agent = \<lparr>a_ID = 1, a_EmployeeID = 7, a_Type = AGENT, a_Limit = 1000, a_UsedLimit = 100, a_NeedApproval = False\<rparr>"

definition sample_desk :: db where
  "sample_desk = sample_orders\<lparr>orders := [sample_order], actuary_info := [sample_agent]\<rparr>"

definition sample_sell_req :: CreateOrderRequest where
  "sample_sell_req = sample_req\<lparr>cr_Direction := SELL\<rparr>"

theorem agent_order_status_witness:
  "o_Status (projr (fst (CreateOrder sample_env (fundsManager sample_env True) sample_sell_req sample_desk))) = PENDING"
proof -
  let ?c = "CreateOrder sample_env (fundsManager sample_env True) sample_sell_req sample_desk"
  have conv: "ConvertUSDToRSD sample_env 12 = Inr 1200" by (simp add: ConvertUSDToRSD_def rateOf_def)
  have "\<exists>ord. fst ?c = Inr ord"
    by (simp add: CreateOrder_def sample_sell_req_def sample_req_def validateOrderTypeFields_def CreateOrder_checks_def
        validateSellOwnership_def orders_GetNetHoldings_def net_of_def resolveStatus_def resolveNotional_def
        actuaries_GetByEmployeeID_def actuary_by_def sample_agent_def sample_desk_def approxPrice_def conv
        IncrementUsedLimitAlways_def update_actuary_def actuary_check_def add_used_def fundsManager_def
        CreateOrder_place_def orders_Create_def insert_order_def new_order_def order_check_def known_type_def
        known_direction_def fits6_def pg_round_def half_away_def sample_listing_def Let_def trading_eval)
  then obtain ord where run: "?c = (Inr ord, snd ?c)" by (auto simp: prod_eq_iff)
  have "req_notional sample_env sample_desk sample_sell_req = Some 12"
    by (simp add: req_notional_def req_price_def unit_price_def sample_sell_req_def sample_req_def approxPrice_def)
  moreover have "healthy sample_desk" "employees_unique sample_desk"
    "actuary_of sample_desk (cr_UserID sample_sell_req) = Some sample_agent"
    by (simp_all add: healthy_def sample_desk_def sample_orders_def sample_market_def sample_db_def empty_db_def
        employees_unique_def actuary_of_def sample_sell_req_def sample_req_def sample_agent_def)
  ultimately show ?thesis
    using agent_order_status [OF sample_numerics, of sample_desk sample_sell_req sample_agent 12 _ True ord "snd ?c"] run conv
    by (auto simp: sample_agent_def sample_sell_req_def sample_req_def limit_amount_def add_used_def prod_eq_iff)
qed

end
