(* ===== verification/Go_Time.thy ===== *)
theory Go_Time
  imports Prelude "HOL-Library.Monad_Syntax"
begin

text \<open>
  What the services use of Go's package \<open>time\<close>: an instant is the number of nanoseconds since
  1970-01-01 UTC, \<open>parseRFC3339\<close> is \<open>time.Parse(time.RFC3339, s)\<close> and \<open>formatRFC3339 off t\<close> is
  \<open>t.Format(time.RFC3339)\<close> in a location whose offset at \<open>t\<close> is \<open>off\<close> seconds. The parser accepts what Go's
  general layout parser accepts, which is more than the RFC: an hour of one digit, a fraction after a point
  or a comma, offsets up to 24:60.
\<close>

section \<open>Calendar\<close>

definition isLeap :: "int \<Rightarrow> bool" where
  "isLeap y \<longleftrightarrow> y mod 4 = 0 \<and> (y mod 100 \<noteq> 0 \<or> y mod 400 = 0)"

definition yearLen :: "int \<Rightarrow> int" where
  "yearLen y = (if isLeap y then 366 else 365)"

definition daysIn :: "int \<Rightarrow> int \<Rightarrow> int" where
  "daysIn m y = (if m = 2 then (if isLeap y then 29 else 28) else if m \<in> {4, 6, 9, 11} then 30 else 31)"

text \<open>Days from 0000-01-01 to the first of January of a year, and to the first of a month within its year.\<close>

definition daysBeforeYear :: "int \<Rightarrow> int" where
  "daysBeforeYear y = 365 * y + (y + 3) div 4 - (y + 99) div 100 + (y + 399) div 400"

definition daysBeforeMonth :: "int \<Rightarrow> int \<Rightarrow> int" where
  "daysBeforeMonth y m = (\<Sum>k \<leftarrow> [1..m - 1]. daysIn k y)"

definition unixDay :: "int \<Rightarrow> int \<Rightarrow> int \<Rightarrow> int" where
  "unixDay y m d = daysBeforeYear y + daysBeforeMonth y m + d - 1 - 719528"

function yearSplit :: "int \<Rightarrow> int \<Rightarrow> int \<times> int" where
  "yearSplit y r = (if r < yearLen y then (y, r) else yearSplit (y + 1) (r - yearLen y))"
  by auto
termination
  by (relation "measure (\<lambda>(y, r). nat r)") (auto simp: yearLen_def split: if_splits)

function monthSplit :: "int \<Rightarrow> int \<Rightarrow> int \<Rightarrow> int \<times> int" where
  "monthSplit y m r = (if m \<ge> 12 \<or> r < daysIn m y then (m, r) else monthSplit y (m + 1) (r - daysIn m y))"
  by auto
termination
  by (relation "measure (\<lambda>(y, m, r). nat (12 - m))") auto

declare yearSplit.simps [simp del] monthSplit.simps [simp del]

text \<open>Year, month and day of a day number; whole cycles of 400 years are skipped.\<close>

definition civil :: "int \<Rightarrow> int \<times> int \<times> int" where
  "civil n = (let z = n + 719528; (y, r) = yearSplit (400 * (z div 146097)) (z mod 146097);
       (m, d) = monthSplit y 1 r in (y, m, d + 1))"

text \<open>\<open>t.AddDate(years, months, 0)\<close> on a day: the month is brought into its range, a day that the month does not
  have runs on into the next one.\<close>

definition AddDate :: "int \<Rightarrow> int \<Rightarrow> int \<Rightarrow> int" where
  "AddDate day years months = (let (y, m, d) = civil day; k = m - 1 + months in
     unixDay (y + years + k div 12) (k mod 12 + 1) d)"

lemma div_step:
  assumes "0 < (k::int)" and j: "j = k - 1"
  shows "(y + k) div k = (y + j) div k + (if y mod k = 0 then 1 else 0)"
proof -
  have y: "y = k * (y div k) + y mod k" and r: "0 \<le> y mod k" "y mod k < k" using assms by simp_all
  have "(y + k) div k = y div k + 1" using assms by simp
  moreover have "(y + j) div k = y div k" if "y mod k = 0"
    by (rule int_div_pos_eq [of _ _ _ "k - 1"]) (use y that assms in \<open>auto simp: j\<close>)
  moreover have "(y + j) div k = y div k + 1" if "y mod k \<noteq> 0"
  proof (rule int_div_pos_eq [of _ _ _ "y mod k - 1"])
    show "y + j = k * (y div k + 1) + (y mod k - 1)" using y by (simp add: distrib_left j)
    show "0 \<le> y mod k - 1" "y mod k - 1 < k" using r that by linarith+
  qed
  ultimately show ?thesis by simp
qed

lemma div_less: "0 < (k::int) \<Longrightarrow> x < n * k \<Longrightarrow> x div k < n"
  using mult_right_mono [of n "x div k" k] minus_mod_eq_div_mult [of x k] pos_mod_sign [of k x] by linarith

lemma mod_0_trans: "(a::int) dvd b \<Longrightarrow> y mod b = 0 \<Longrightarrow> y mod a = 0"
  by (meson dvd_trans mod_eq_0_iff_dvd)

lemma leap_sum:
  fixes y a b c :: int
  assumes "p400 \<Longrightarrow> p100" and "p100 \<Longrightarrow> p4"
  shows "365 * (y + 1) + (a + (if p4 then 1 else 0)) - (b + (if p100 then 1 else 0)) + (c + (if p400 then 1 else 0)) =
    365 * y + a - b + c + (if p4 \<and> (\<not> p100 \<or> p400) then 366 else 365)"
  by (cases p4; cases p100; cases p400) (use assms in simp_all)

lemma daysBeforeYear_Suc: "daysBeforeYear (y + 1) = daysBeforeYear y + yearLen y"
proof -
  have step: "(y + 4) div 4 = (y + 3) div 4 + (if y mod 4 = 0 then 1 else 0)"
    "(y + 100) div 100 = (y + 99) div 100 + (if y mod 100 = 0 then 1 else 0)"
    "(y + 400) div 400 = (y + 399) div 400 + (if y mod 400 = 0 then 1 else 0)"
    by (rule div_step; simp)+
  have "y + 1 + 3 = y + 4" "y + 1 + 99 = y + 100" "y + 1 + 399 = y + 400" by simp_all
  then show ?thesis
    unfolding daysBeforeYear_def yearLen_def isLeap_def
    by (simp only: step) (rule leap_sum; erule mod_0_trans [rotated]; simp)
qed

lemma daysBeforeYear_cycle: "daysBeforeYear (400 * k) = 146097 * k"
proof -
  have "(400 * k + 3) div 4 = 100 * k" by (rule int_div_pos_eq [of _ _ _ 3]) simp_all
  moreover have "(400 * k + 99) div 100 = 4 * k" by (rule int_div_pos_eq [of _ _ _ 99]) simp_all
  moreover have "(400 * k + 399) div 400 = k" by (rule int_div_pos_eq [of _ _ _ 399]) simp_all
  ultimately show ?thesis by (simp add: daysBeforeYear_def)
qed

lemma yearSplit_spec:
  "yearSplit y r = (y', r') \<Longrightarrow> daysBeforeYear y' + r' = daysBeforeYear y + r \<and> r' < yearLen y' \<and> (0 \<le> r \<longrightarrow> 0 \<le> r')"
proof (induction y r rule: yearSplit.induct)
  case (1 y r)
  then show ?case
    by (cases "r < yearLen y") (auto simp: yearSplit.simps [of y r] daysBeforeYear_Suc)
qed

lemma daysBeforeMonth_Suc: "1 \<le> m \<Longrightarrow> daysBeforeMonth y (m + 1) = daysBeforeMonth y m + daysIn m y"
  using upto_rec2 [of 1 m] by (simp add: daysBeforeMonth_def)

lemma monthSplit_spec:
  "monthSplit y m r = (m', r') \<Longrightarrow> 1 \<le> m \<Longrightarrow> m \<le> 12 \<Longrightarrow> 0 \<le> r \<Longrightarrow>
   daysBeforeMonth y m' + r' = daysBeforeMonth y m + r \<and> 1 \<le> m' \<and> m' \<le> 12 \<and> 0 \<le> r' \<and> (m' < 12 \<longrightarrow> r' < daysIn m' y)"
proof (induction y m r rule: monthSplit.induct)
  case (1 y m r)
  then show ?case
    by (cases "m \<ge> 12 \<or> r < daysIn m y") (auto simp: monthSplit.simps [of y m r] daysBeforeMonth_Suc)
qed

lemma daysBeforeMonth_12: "daysBeforeMonth y 12 + 31 = yearLen y"
proof -
  have "[1..11] = [1, 2, 3, 4, 5, 6, 7, 8, 9, 10, 11 :: int]" by code_simp
  then show ?thesis by (simp add: daysBeforeMonth_def yearLen_def daysIn_def)
qed

lemma civil_spec:
  assumes "civil n = (y, m, d)"
  shows "unixDay y m d = n" and "1 \<le> m" and "m \<le> 12" and "1 \<le> d" and "d \<le> daysIn m y"
proof -
  let ?z = "n + 719528"
  obtain y0 r where ys: "yearSplit (400 * (?z div 146097)) (?z mod 146097) = (y0, r)" by fastforce
  obtain m0 q where ms: "monthSplit y0 1 r = (m0, q)" by fastforce
  have e: "y = y0" "m = m0" "d = q + 1" using assms ys ms by (auto simp: civil_def Let_def)
  from yearSplit_spec [OF ys] have yr: "daysBeforeYear y0 + r = ?z" "r < yearLen y0" "0 \<le> r"
    by (simp_all add: daysBeforeYear_cycle)
  from monthSplit_spec [OF ms] yr(3)
  have mq: "daysBeforeMonth y0 m0 + q = r" "1 \<le> m0" "m0 \<le> 12" "0 \<le> q" "m0 < 12 \<Longrightarrow> q < daysIn m0 y0"
    by (simp_all add: daysBeforeMonth_def)
  have "q < daysIn m0 y0"
  proof (cases "m0 < 12")
    case False
    with mq yr daysBeforeMonth_12 [of y0] have "m0 = 12" "q < 31" by auto
    then show ?thesis by (simp add: daysIn_def)
  qed (use mq in simp)
  with e mq yr show "unixDay y m d = n" "1 \<le> m" "m \<le> 12" "1 \<le> d" "d \<le> daysIn m y" by (auto simp: unixDay_def)
qed

section \<open>Parsing\<close>

definition lit :: "char \<Rightarrow> string \<Rightarrow> string option" where
  "lit c s = (case s of [] \<Rightarrow> None | x # xs \<Rightarrow> if x = c then Some xs else None)"

text \<open>\<open>getnum(s, fixed)\<close>: two digits, or one when the number may be short.\<close>

definition getnum :: "bool \<Rightarrow> string \<Rightarrow> (int \<times> string) option" where
  "getnum two s = (case s of [] \<Rightarrow> None | c # cs \<Rightarrow> (case digit_val c of None \<Rightarrow> None | Some a \<Rightarrow>
     (case cs of
        d # ds \<Rightarrow> (case digit_val d of Some b \<Rightarrow> Some (int (10 * a + b), ds)
          | None \<Rightarrow> if two then None else Some (int a, cs))
      | [] \<Rightarrow> if two then None else Some (int a, cs))))"

definition getyear :: "string \<Rightarrow> (int \<times> string) option" where
  "getyear s = (if length s < 4 then None
     else map_option (\<lambda>n. (int n, drop 4 s)) (parse_digits 0 (take 4 s)))"

text \<open>An optional fraction: at least one digit, nanoseconds from the first nine.\<close>

definition getfrac :: "string \<Rightarrow> int \<times> string" where
  "getfrac s = (case s of
       c # d # cs \<Rightarrow>
         if (c = CHR ''.'' \<or> c = CHR '','') \<and> digit_val d \<noteq> None then
           (let ds = takeWhile (\<lambda>x. digit_val x \<noteq> None) (d # cs); k = take 9 ds in
            (case parse_digits 0 k of None \<Rightarrow> 0 | Some n \<Rightarrow> int n * 10 ^ (9 - length k), drop (length ds) (d # cs)))
         else (0, s)
     | _ \<Rightarrow> (0, s))"

text \<open>The zone: \<open>Z\<close>, or a sign with hours and minutes; seconds east of UTC.\<close>

definition getzone :: "string \<Rightarrow> (int \<times> string) option" where
  "getzone s = (case s of [] \<Rightarrow> None | c # cs \<Rightarrow>
     if c = CHR ''Z'' then Some (0, cs)
     else do {
       (hr, r) \<leftarrow> getnum True cs;
       r \<leftarrow> lit (CHR '':'') r;
       (mm, r) \<leftarrow> getnum True r;
       if hr > 24 \<or> mm > 60 then None
       else if c = CHR ''+'' then Some ((hr * 60 + mm) * 60, r)
       else if c = CHR ''-'' then Some (- ((hr * 60 + mm) * 60), r)
       else None
     })"

definition parseRFC3339 :: "string \<Rightarrow> int option" where
  "parseRFC3339 s = do {
     (y, s) \<leftarrow> getyear s;
     s \<leftarrow> lit (CHR ''-'') s;
     (mo, s) \<leftarrow> getnum True s;
     s \<leftarrow> lit (CHR ''-'') s;
     (d, s) \<leftarrow> getnum True s;
     s \<leftarrow> lit (CHR ''T'') s;
     (h, s) \<leftarrow> getnum False s;
     s \<leftarrow> lit (CHR '':'') s;
     (mi, s) \<leftarrow> getnum True s;
     s \<leftarrow> lit (CHR '':'') s;
     (sec, s) \<leftarrow> getnum True s;
     let (ns, s) = getfrac s;
     (off, s) \<leftarrow> getzone s;
     if s = [] \<and> 1 \<le> mo \<and> mo \<le> 12 \<and> h < 24 \<and> mi < 60 \<and> sec < 60 \<and> 1 \<le> d \<and> d \<le> daysIn mo y
     then Some (10 ^ 9 * (86400 * unixDay y mo d + 3600 * h + 60 * mi + sec - off) + ns) else None
   }"

text \<open>\<open>time.Parse("2006-01-02", s)\<close>: midnight UTC of the date.\<close>

definition parseDateOnly :: "string \<Rightarrow> int option" where
  "parseDateOnly s = do {
     (y, s) \<leftarrow> getyear s;
     s \<leftarrow> lit (CHR ''-'') s;
     (mo, s) \<leftarrow> getnum True s;
     s \<leftarrow> lit (CHR ''-'') s;
     (d, s) \<leftarrow> getnum True s;
     if s = [] \<and> 1 \<le> mo \<and> mo \<le> 12 \<and> 1 \<le> d \<and> d \<le> daysIn mo y then Some (10 ^ 9 * 86400 * unixDay y mo d) else None
   }"

section \<open>Printing\<close>

fun digits :: "nat \<Rightarrow> nat \<Rightarrow> string" where
  "digits 0 n = []"
| "digits (Suc w) n = digits w (n div 10) @ [digit_char (n mod 10)]"

text \<open>\<open>appendInt(b, x, width)\<close>: zero-padded, longer when the number is.\<close>

definition appendInt :: "int \<Rightarrow> nat \<Rightarrow> string" where
  "appendInt x w = (let n = nat \<bar>x\<bar> in (if x < 0 then ''-'' else []) @ (if n < 10 ^ w then digits w n else nat_str n))"

definition formatZone :: "int \<Rightarrow> string" where
  "formatZone off = (if off = 0 then ''Z'' else let z = \<bar>off\<bar> div 60 in
     (if off \<le> - 60 then CHR ''-'' else CHR ''+'') # appendInt (z div 60) 2 @ '':'' @ appendInt (z mod 60) 2)"

definition formatRFC3339 :: "int \<Rightarrow> int \<Rightarrow> string" where
  "formatRFC3339 off t = (let secs = t div 10 ^ 9 + off; (y, m, d) = civil (secs div 86400); sod = secs mod 86400 in
     appendInt y 4 @ ''-'' @ appendInt m 2 @ ''-'' @ appendInt d 2 @ ''T'' @ appendInt (sod div 3600) 2 @ '':'' @
     appendInt (sod mod 3600 div 60) 2 @ '':'' @ appendInt (sod mod 60) 2 @ formatZone off)"

section \<open>Round trip\<close>

lemma length_digits [simp]: "length (digits w n) = w"
  by (induction w n rule: digits.induct) simp_all

lemma parse_digits_digits: "n < 10 ^ w \<Longrightarrow> parse_digits 0 (digits w n) = Some n"
  by (induction w n rule: digits.induct)
    (auto simp: parse_digits_append digit_val_digit_char less_mult_imp_div_less mult.commute)

lemma digits_2: "digits 2 n = [digit_char (n div 10 mod 10), digit_char (n mod 10)]"
  by (simp add: numeral_2_eq_2)

lemma getnum_two: "0 \<le> x \<Longrightarrow> x < 100 \<Longrightarrow> getnum b (appendInt x 2 @ r) = Some (x, r)"
proof -
  assume x: "0 \<le> x" "x < 100"
  then have n: "nat x < 100" by simp
  then have "nat x div 10 mod 10 = nat x div 10" by simp
  moreover have "nat x div 10 < 10" using n by simp
  moreover have "int (10 * (nat x div 10) + nat x mod 10) = x" using x by (simp only: mult_div_mod_eq nat_0_le)
  ultimately show ?thesis using x n
    by (simp add: getnum_def appendInt_def digits_2 digit_val_digit_char Let_def)
qed

lemma getyear_four: "0 \<le> y \<Longrightarrow> y < 10000 \<Longrightarrow> getyear (appendInt y 4 @ r) = Some (y, r)"
  by (simp add: getyear_def appendInt_def parse_digits_digits nat_less_iff)

lemma lit_Cons [simp]: "lit c (c # s) = Some s"
  by (simp add: lit_def)

lemma getfrac_zone: "getfrac (formatZone off) = (0, formatZone off)"
  by (simp add: getfrac_def formatZone_def Let_def split: list.split)

lemma getzone_format:
  assumes "off mod 60 = 0" and "\<bar>off\<bar> < 86400"
  shows "getzone (formatZone off) = Some (off, [])"
proof (cases "off = 0")
  case True
  then show ?thesis by (simp add: getzone_def formatZone_def)
next
  case False
  define z where "z = \<bar>off\<bar> div 60"
  have z: "60 * z = \<bar>off\<bar>" using assms(1) by (auto simp: z_def abs_if)
  have "0 \<le> z" "z < 24 * 60" using z assms(2) by linarith+
  then have r: "0 \<le> z div 60" "z div 60 < 24" "0 \<le> z mod 60" "z mod 60 < 60" by (simp_all add: div_less pos_imp_zdiv_nonneg_iff)
  have "(z div 60 * 60 + z mod 60) * 60 = \<bar>off\<bar>" using z by simp
  moreover have "off \<le> - 60 \<longleftrightarrow> off < 0" using z False by presburger
  moreover have "formatZone off = (if off \<le> - 60 then CHR ''-'' else CHR ''+'') # appendInt (z div 60) 2 @ CHR '':'' #
      appendInt (z mod 60) 2 @ []" using False by (simp add: formatZone_def z_def Let_def)
  ultimately show ?thesis using r
    by (cases "off < 0") (simp_all add: getzone_def getnum_two getnum_two [where r = "[]", simplified] del: append_Nil2)
qed

text \<open>Go's printer and parser agree on whole seconds of the years 0 to 9999, in every zone whose offset is a
  whole number of minutes below a day.\<close>

lemma parse_format:
  assumes "t mod 10 ^ 9 = 0" and "off mod 60 = 0" "\<bar>off\<bar> < 86400"
    and "civil ((t div 10 ^ 9 + off) div 86400) = (y, m, d)" and "0 \<le> y" "y < 10000"
  shows "parseRFC3339 (formatRFC3339 off t) = Some t"
proof -
  define secs where "secs = t div 10 ^ 9 + off"
  define day where "day = secs div 86400"
  define sod where "sod = secs mod 86400"
  have c: "civil day = (y, m, d)" using assms(4) by (simp add: day_def secs_def)
  note date = civil_spec [OF c]
  have d: "d < 100" using date(5) by (auto simp: daysIn_def split: if_splits)
  have sod: "0 \<le> sod" "sod < 86400" by (simp_all add: sod_def)
  define h mi se where "h = sod div 3600" and "mi = sod mod 3600 div 60" and "se = sod mod 60"
  have hms: "0 \<le> h" "h < 24" "0 \<le> mi" "mi < 60" "0 \<le> se" "se < 60"
    unfolding h_def mi_def se_def using sod by (simp_all add: div_less pos_imp_zdiv_nonneg_iff)
  have "3600 * h + 60 * mi + se = sod"
  proof -
    have "sod mod 3600 mod 60 = sod mod 60" by (rule mod_mod_cancel) simp
    then have "60 * mi + se = sod mod 3600"
      using mult_div_mod_eq [of 60 "sod mod 3600"] by (simp only: mi_def se_def)
    then show ?thesis using mult_div_mod_eq [of 3600 sod] by (simp only: h_def add.assoc)
  qed
  then have "86400 * unixDay y m d + 3600 * h + 60 * mi + se - off = t div 10 ^ 9"
    using date(1) mult_div_mod_eq [of 86400 secs] unfolding day_def sod_def secs_def by linarith
  then have t: "10 ^ 9 * (86400 * unixDay y m d + 3600 * h + 60 * mi + se - off) = t" using assms(1) by auto
  have "formatRFC3339 off t = appendInt y 4 @ CHR ''-'' # appendInt m 2 @ CHR ''-'' # appendInt d 2 @ CHR ''T'' # appendInt h 2 @
     CHR '':'' # appendInt mi 2 @ CHR '':'' # appendInt se 2 @ formatZone off"
    using c by (simp add: formatRFC3339_def Let_def h_def mi_def se_def sod_def day_def secs_def)
  then show ?thesis using date d hms assms t
    by (simp add: parseRFC3339_def getyear_four getnum_two getfrac_zone getzone_format)
qed

end
