(* ===== verification/Exchange_Hours.thy ===== *)
theory Exchange_Hours
  imports Core_DB Go_Time
begin

text \<open>
  Opening hours: \<open>service/berza_service.go\<close>, \<open>repository/berza_repository.go\<close> and the test mode flag of
  \<open>transport/redis_market.go\<close>.

  Local time is the Unix second plus the offset of the exchange's zone at that second; day 0 is 1 January
  1970, a Thursday. Redis is a store outside the database transaction (\<open>stmt_root\<close>), which may fail.
\<close>

section \<open>Exchanges and holidays\<close>

datatype MarketStatus = MS_OPEN | MS_PRE_MARKET | MS_AFTER_HOURS | MS_CLOSED

text \<open>\<open>time.Parse\<close> with the layouts \<open>15:04:05\<close> (a fraction may follow) and \<open>15:04\<close>: minutes since midnight.\<close>

definition parseClock :: "bool \<Rightarrow> string \<Rightarrow> int option" where
  "parseClock seconds s = do {
     (h, s) \<leftarrow> getnum False s;
     s \<leftarrow> lit (CHR '':'') s;
     (m, s) \<leftarrow> getnum True s;
     (sec, s) \<leftarrow> (if seconds then do {
         s \<leftarrow> lit (CHR '':'') s;
         (sec, s) \<leftarrow> getnum True s;
         Some (sec, snd (getfrac s)) }
       else Some (0, s));
     if s = [] \<and> h < 24 \<and> m < 60 \<and> sec < 60 then Some (60 * h + m) else None
   }"

definition parseTimeCol :: "string \<Rightarrow> int" where
  "parseTimeCol s = (case parseClock True s of Some m \<Rightarrow> m
     | None \<Rightarrow> (case parseClock False s of Some m \<Rightarrow> m | None \<Rightarrow> 0))"

definition exchange_by :: "(Exchange \<Rightarrow> bool) \<Rightarrow> Exchange dbp" where
  "exchange_by P = bnd (query (\<lambda>s. List.find P (exchanges s))) (\<lambda>r. case r of
       None \<Rightarrow> fail ErrExchangeNotFound
     | Some ex \<Rightarrow> if x_ID ex = 0 then fail ErrExchangeNotFound else ret ex)"

definition exchanges_GetByID :: "int \<Rightarrow> Exchange dbp" where
  "exchanges_GetByID i = exchange_by (\<lambda>ex. x_ID ex = i)"

definition exchanges_GetByMICCode :: "string \<Rightarrow> Exchange dbp" where
  "exchanges_GetByMICCode mic = exchange_by (\<lambda>ex. x_MICCode ex = mic)"

text \<open>\<open>date.Truncate(24 * time.Hour)\<close> rounds down to midnight UTC.\<close>

definition IsHoliday :: "env \<Rightarrow> string \<Rightarrow> (int \<Rightarrow> int) \<Rightarrow> int \<Rightarrow> bool dbp" where
  "IsHoliday E polity off date = (let dateOnly = date div 86400 * 86400 in
     query (\<lambda>s. list_ex (\<lambda>h. h = (polity, sqlDate E off dateOnly)) (exchange_holidays s)))"

section \<open>The test mode flag\<close>

definition IsTestMode :: "bool dbp" where
  "IsTestMode = stmt_root (\<lambda>s. Some (market_test_mode s, s))"

definition SetTestMode :: "bool \<Rightarrow> unit dbp" where
  "SetTestMode enabled = stmt_root (\<lambda>s. Some ((), s\<lparr>market_test_mode := enabled\<rparr>))"

section \<open>Market status\<close>

text \<open>\<open>time.Date(y, m, d, 0, 0, 0, 0, loc)\<close>: the Unix second of local midnight. Go takes the offset in
  force at the same clock reading in UTC, and looks again when that leaves the zone's period.\<close>

definition localMidnight :: "(int \<Rightarrow> int) \<Rightarrow> int \<Rightarrow> int" where
  "localMidnight off day = (let u = 86400 * day; z = off u in if z = 0 then u else u - off (u - z))"

definition weekday :: "int \<Rightarrow> int" where
  "weekday day = (day + 4) mod 7"

definition hoursStatus :: "int \<Rightarrow> int \<Rightarrow> int \<Rightarrow> MarketStatus" where
  "hoursStatus openStart closeEnd totalMin =
     (if totalMin \<ge> openStart \<and> totalMin < closeEnd then MS_OPEN
      else if totalMin \<ge> 7 * 60 \<and> totalMin < openStart then MS_PRE_MARKET
      else if totalMin \<ge> closeEnd \<and> totalMin < 20 * 60 then MS_AFTER_HOURS
      else MS_CLOSED)"

definition GetMarketStatus :: "env \<Rightarrow> Exchange \<Rightarrow> MarketStatus dbp" where
  "GetMarketStatus E ex = bnd IsTestMode (\<lambda>testMode.
     if testMode then ret MS_OPEN
     else case loadLocation E (x_Timezone ex) of
         None \<Rightarrow> fail (Errorf ''time zone'')
       | Some off \<Rightarrow> bnd (gets now_utc) (\<lambda>t.
           let now = t div 10 ^ 9; local = now + off now; day = local div 86400 in
           bnd (attempt (IsHoliday E (x_Polity ex) off (localMidnight off day))) (\<lambda>h.
             if h = Inr True then ret MS_CLOSED
             else if weekday day = 6 \<or> weekday day = 0 then ret MS_CLOSED
             else ret (hoursStatus (parseTimeCol (x_OpenTime ex)) (parseTimeCol (x_CloseTime ex))
               (local mod 86400 div 60)))))"

definition GetExchange :: "int \<Rightarrow> string \<Rightarrow> Exchange dbp" where
  "GetExchange i mic = (if mic \<noteq> [] then exchanges_GetByMICCode mic else exchanges_GetByID i)"

definition IsExchangeOpen :: "env \<Rightarrow> int \<Rightarrow> MarketStatus dbp" where
  "IsExchangeOpen E exchangeID = bnd (exchanges_GetByID exchangeID) (GetMarketStatus E)"

definition ToggleMarketTestMode :: "bool \<Rightarrow> unit dbp" where
  "ToggleMarketTestMode enabled = SetTestMode enabled"

section \<open>Frames\<close>

lemma keeps_exchange_reads [keeps_intros]:
  assumes "clock_free f"
  shows "keeps f (exchange_by P)" "keeps f (IsHoliday E p off d)" "keeps f IsTestMode"
    "keeps f (GetMarketStatus E ex)" "keeps f (IsExchangeOpen E i)"
proof -
  show x: "keeps f (exchange_by P)" and h: "keeps f (IsHoliday E p off d)" for P E p off d
    unfolding exchange_by_def IsHoliday_def Let_def by (intro keeps_intros assms)+
  show t: "keeps f IsTestMode"
    unfolding IsTestMode_def by (rule keeps_stmt_root [OF assms]) simp
  show m: "keeps f (GetMarketStatus E ex)" for ex
    unfolding GetMarketStatus_def Let_def by (intro keeps_intros t h)
  show "keeps f (IsExchangeOpen E i)"
    unfolding IsExchangeOpen_def exchanges_GetByID_def by (intro keeps_intros x m)
qed

section \<open>Holidays\<close>

lemma hoursStatus_open: "hoursStatus a b t = MS_OPEN \<longleftrightarrow> a \<le> t \<and> t < b"
  by (auto simp: hoursStatus_def)

lemma hoursStatus_night:
  "7 * 60 \<le> a \<Longrightarrow> a \<le> b \<Longrightarrow> b \<le> 20 * 60 \<Longrightarrow> hoursStatus a b t = MS_CLOSED \<longleftrightarrow> t < 7 * 60 \<or> 20 * 60 \<le> t"
  by (auto simp: hoursStatus_def)

text \<open>East of Greenwich local midnight is still the day before in UTC, so the truncation moves the date back:
  the holiday calendar is asked for the previous day, whichever of the two readings of the instant the
  driver binds.\<close>

lemma holiday_asks_day_before:
  assumes "0 < z" and "z < 86400" and "no_faults s"
    and "\<And>t. sqlDate E (\<lambda>_. z) t = (t + z) div 86400 \<or> sqlDate E (\<lambda>_. z) t = t div 86400"
  shows "IsHoliday E polity (\<lambda>_. z) (localMidnight (\<lambda>_. z) day) s =
    (Inr (list_ex (\<lambda>h. h = (polity, day - 1)) (exchange_holidays s)), bump s)"
proof -
  have m: "localMidnight (\<lambda>_. z) day = 86400 * day - z" using assms(1) by (simp add: localMidnight_def Let_def)
  have d: "(86400 * day - z) div 86400 = day - 1"
    by (rule int_div_pos_eq [of _ _ _ "86400 - z"]) (use assms(1,2) in simp_all)
  have "(86400 * (day - 1) + z) div 86400 = day - 1"
    by (rule int_div_pos_eq [of _ _ _ z]) (use assms(1,2) in simp_all)
  then have "sqlDate E (\<lambda>_. z) (86400 * (day - 1)) = day - 1"
    using assms(4) [of "86400 * (day - 1)"] by auto
  then show ?thesis
    using assms(3) d by (simp add: IsHoliday_def m query_ok mult.commute Let_def)
qed

end
