(* ===== verification/Fund_Repo.thy ===== *)
theory Fund_Repo
  imports Order_Repo
begin

text \<open>
  The writes of \<open>repository/investment_fund_repository.go\<close> that follow the fills of a fund's orders.
  Columns: \<open>liquid_assets\<close> and \<open>initial_cost_rsd\<close> are \<open>DECIMAL(15,2)\<close>, \<open>quantity\<close> is \<open>DECIMAL(20,6)\<close>.
\<close>

text \<open>\<open>INSERT ... ON CONFLICT (fund_id, listing_id) DO UPDATE\<close>: the proposed row is rounded to the columns
  first, then added to the stored one.\<close>

definition fits_security :: "fund_security \<Rightarrow> bool" where
  "fits_security r \<longleftrightarrow> \<bar>fs_quantity r\<bar> < 10 ^ 14 \<and> \<bar>fs_initial_cost_rsd r\<bar> < 10 ^ 13"

definition add_security :: "env \<Rightarrow> fund_security \<Rightarrow> fund_security \<Rightarrow> fund_security" where
  "add_security E new r = r\<lparr>fs_quantity := round6 E (fs_quantity r + fs_quantity new),
     fs_initial_cost_rsd := round2 E (fs_initial_cost_rsd r + fs_initial_cost_rsd new),
     fs_acquisition_date := fs_acquisition_date new\<rparr>"

definition AddSecurityQuantity :: "env \<Rightarrow> int \<Rightarrow> int \<Rightarrow> float64 \<Rightarrow> int \<Rightarrow> float64 \<Rightarrow> unit dbp" where
  "AddSecurityQuantity E fundID listingID deltaQty acquisitionDate deltaCostRSD = stmt (\<lambda>s.
     let new = \<lparr>fs_fund_id = fundID, fs_listing_id = listingID, fs_quantity = round6 E deltaQty,
           fs_acquisition_date = storeTime E acquisitionDate, fs_initial_cost_rsd = round2 E deltaCostRSD\<rparr>;
         same = (\<lambda>r. fs_fund_id r = fundID \<and> fs_listing_id r = listingID) in
     if \<not> fits_security new then None
     else if list_ex same (fund_securities s)
     then if list_all (\<lambda>r. same r \<longrightarrow> fits_security (add_security E new r)) (fund_securities s)
          then Some ((), s\<lparr>fund_securities := upd_where same (add_security E new) (fund_securities s)\<rparr>) else None
     else Some ((), s\<lparr>fund_securities := fund_securities s @ [new]\<rparr>))"

definition update_fund :: "int \<Rightarrow> (decimal \<Rightarrow> decimal) \<Rightarrow> env \<Rightarrow> unit dbp" where
  "update_fund i f E = stmt (\<lambda>s.
     if list_all (\<lambda>r. if_id r = i \<longrightarrow> \<bar>round2 E (f (if_liquid_assets r))\<bar> < 10 ^ 13) (investment_funds s)
     then Some ((), s\<lparr>investment_funds := upd_where (\<lambda>r. if_id r = i)
            (\<lambda>r. r\<lparr>if_liquid_assets := round2 E (f (if_liquid_assets r))\<rparr>) (investment_funds s)\<rparr>)
     else None)"

definition DeductLiquidAssets :: "env \<Rightarrow> int \<Rightarrow> float64 \<Rightarrow> unit dbp" where
  "DeductLiquidAssets E fundID amountRSD = update_fund fundID (\<lambda>x. max 0 (x - amountRSD)) E"

definition AddLiquidAssets :: "env \<Rightarrow> int \<Rightarrow> float64 \<Rightarrow> unit dbp" where
  "AddLiquidAssets E fundID amountRSD = update_fund fundID (\<lambda>x. x + amountRSD) E"

lemma keeps_fund_writes:
  assumes "clock_free f" and "\<And>s x. f (s\<lparr>fund_securities := x\<rparr>) = f s" and "\<And>s x. f (s\<lparr>investment_funds := x\<rparr>) = f s"
  shows "keeps f (AddSecurityQuantity E i l q d c)" "keeps f (DeductLiquidAssets E i a)" "keeps f (AddLiquidAssets E i a)"
proof -
  show "keeps f (AddSecurityQuantity E i l q d c)"
    unfolding AddSecurityQuantity_def Let_def
    by (rule keeps_stmt [OF assms(1)]) (auto simp: assms(2) split: if_splits)
  have "keeps f (update_fund i g E)" for g
    unfolding update_fund_def by (rule keeps_stmt [OF assms(1)]) (auto simp: assms(3) split: if_splits)
  then show "keeps f (DeductLiquidAssets E i a)" "keeps f (AddLiquidAssets E i a)"
    by (simp_all add: DeductLiquidAssets_def AddLiquidAssets_def)
qed

end
