(* ===== verification/Trading_Engine.thy ===== *)
theory Trading_Engine
  imports Trading_Service Exchange_Hours Fund_Repo
begin

text \<open>
  The order execution engine: \<open>trading/worker/engine.go\<close> with its market data adapter
  \<open>trading/worker/listing_market_adapter.go\<close>.

  The goroutine of an order is a program counter, the \<open>stage\<close>: one constructor per place where the code waits
  (tickers, the pauses between fills, closed exchanges), plus the two places where an order that was just read
  is about to be executed. \<open>advance\<close> runs a goroutine from one such place to the next; between two of them
  every other goroutine and every request may run. Times of waiting do not matter to the model, only that
  something may happen meanwhile; \<open>calcWaitSeconds\<close> is kept as the argument of \<open>Sleeping\<close>.

  Random draws are arguments: \<open>rand.Intn(n)\<close> is a number modulo \<open>n\<close>, \<open>rand.Float64()\<close> a number of \<open>[0, 1)\<close>.
  \<open>rand.Intn\<close> panics when its argument is not positive; the panic is an error value here, and
  \<open>Engine_Properties\<close> shows that it does not occur. \<open>isClient\<close> is the flag the goroutine's context carries,
  \<open>o_IsClient\<close> of the order it was started for. The record \<open>engine\<close> holds the optional collaborators; the
  notifier, which only sends e-mails, is left out.
\<close>

section \<open>Market data\<close>

record MarketSnapshot =
  ms_Ask :: float64
  ms_Bid :: float64
  ms_Volume :: int
  ms_ExchangeID :: int
  ms_SettlementDate :: "int option"
  ms_ListingType :: ListingType
  ms_ForexBaseCurrency :: string
  ms_ForexQuoteCurrency :: string
  ms_Ticker :: string

definition forexCurrencies :: "json option \<Rightarrow> string \<times> string" where
  "forexCurrencies d = (case (do { j \<leftarrow> d; fs \<leftarrow> jmembers j; b \<leftarrow> decStr ''base_currency'' fs;
       q \<leftarrow> decStr ''quote_currency'' fs; _ \<leftarrow> decStr ''liquidity'' fs; Some (b, q) }) of
     None \<Rightarrow> ([], []) | Some bq \<Rightarrow> bq)"

definition settlementDate :: "json option \<Rightarrow> int option" where
  "settlementDate d = do { j \<leftarrow> d; fs \<leftarrow> jmembers j; t \<leftarrow> decStr ''settlement_date'' fs;
     (case parseDateOnly t of Some n \<Rightarrow> Some n | None \<Rightarrow> parseRFC3339 t) }"

definition snapshot_of :: "Listing \<Rightarrow> MarketSnapshot" where
  "snapshot_of l = (let bq = (if l_Type l = LT_FOREX then forexCurrencies (l_Details l) else ([], [])) in
     \<lparr>ms_Ask = l_Ask l, ms_Bid = l_Bid l, ms_Volume = l_Volume l, ms_ExchangeID = l_ExchangeID l,
      ms_SettlementDate = (if l_Type l = LT_FUTURE \<or> l_Type l = LT_OPTION then settlementDate (l_Details l) else None),
      ms_ListingType = l_Type l, ms_ForexBaseCurrency = fst bq, ms_ForexQuoteCurrency = snd bq,
      ms_Ticker = l_Ticker l\<rparr>)"

definition listing_of :: "db \<Rightarrow> int \<Rightarrow> Listing option" where
  "listing_of s i = List.find (\<lambda>l. l_ID l = i) (listings s)"

definition GetMarketSnapshot :: "int \<Rightarrow> MarketSnapshot dbp" where
  "GetMarketSnapshot listingID = bnd (query (\<lambda>s. listing_of s listingID)) (\<lambda>r.
     case r of None \<Rightarrow> fail ErrListingNotFound | Some l \<Rightarrow> ret (snapshot_of l))"

section \<open>Pure helpers\<close>

definition isSettlementExpired :: "int \<Rightarrow> MarketSnapshot \<Rightarrow> bool" where
  "isSettlementExpired now snap = (case ms_SettlementDate snap of None \<Rightarrow> False | Some d \<Rightarrow> d < now)"

definition resolveExecutionPrice :: "env \<Rightarrow> Order \<Rightarrow> OrderType \<Rightarrow> MarketSnapshot \<Rightarrow> err + decimal" where
  "resolveExecutionPrice E order effectiveType snap =
     (let cs = of_int (o_ContractSize order) in
      case effectiveType of
        MARKET \<Rightarrow> Inr (cs * newFromFloat E (if o_Direction order = BUY then ms_Ask snap else ms_Bid snap))
      | LIMIT \<Rightarrow> (case o_PricePerUnit order of
            None \<Rightarrow> Inl ErrLimitPriceRequired
          | Some limit \<Rightarrow>
              (let askDec = newFromFloat E (ms_Ask snap); bidDec = newFromFloat E (ms_Bid snap);
                   unit = (if o_Direction order = BUY
                     then if limit < askDec then limit else askDec
                     else if limit > bidDec then limit else bidDec)
               in Inr (cs * unit)))
      | _ \<Rightarrow> Inl ErrInvalidOrderType)"

definition calcWaitSeconds :: "float64 \<Rightarrow> int \<Rightarrow> int \<Rightarrow> float64" where
  "calcWaitSeconds w volume remaining =
     (if volume \<le> 0 \<or> remaining \<le> 0 then 30
      else let turnsPerPortion = fl64 (fl64 (of_int volume) / fl64 (of_int remaining));
               maxWait0 = fl64 (1440 / turnsPerPortion);
               maxWait = (if maxWait0 < 1 then 1 else if maxWait0 > 86400 then 86400 else maxWait0)
           in fl64 (w * maxWait))"

definition calcChunkSize :: "nat \<Rightarrow> int \<Rightarrow> err + int" where
  "calcChunkSize draw remaining =
     (let maxChunk = (if remaining > 10 then 10 else remaining) in
      if maxChunk \<le> 0 then Inl (Errorf ''panic: Intn'') else Inr (int draw mod maxChunk + 1))"

definition commissionForOrderType :: "env \<Rightarrow> OrderType \<Rightarrow> decimal \<Rightarrow> decimal" where
  "commissionForOrderType E ot fullNotional = (case ot of
       MARKET \<Rightarrow> CalcMarketCommission E fullNotional | STOP \<Rightarrow> CalcMarketCommission E fullNotional
     | LIMIT \<Rightarrow> CalcLimitCommission E fullNotional | STOP_LIMIT \<Rightarrow> CalcLimitCommission E fullNotional
     | OtherOrderType _ \<Rightarrow> 0)"

definition isForexDeclineError :: "err \<Rightarrow> bool" where
  "isForexDeclineError e \<longleftrightarrow> e = ErrForexAccountNotFound \<or> e = ErrForexCurrencyMismatch \<or> e = ErrForexSameAccount \<or>
     e = ErrForexSameCurrency \<or> e = ErrInsufficientFunds"

definition still_active :: "Order \<Rightarrow> bool" where
  "still_active cur \<longleftrightarrow> o_Status cur = APPROVED \<and> \<not> o_IsDone cur"

section \<open>Activation\<close>

text \<open>One turn of a waiting loop: \<open>Some b\<close> leaves it (activated or not), \<open>None\<close> waits on.\<close>

definition stopTriggered :: "env \<Rightarrow> Order \<Rightarrow> MarketSnapshot \<Rightarrow> bool" where
  "stopTriggered E order snap = (case o_StopPrice order of None \<Rightarrow> True | Some stopPrice \<Rightarrow>
     (case o_Direction order of
        BUY \<Rightarrow> newFromFloat E (ms_Ask snap) \<ge> stopPrice
      | SELL \<Rightarrow> newFromFloat E (ms_Bid snap) \<le> stopPrice
      | OtherDirection _ \<Rightarrow> False))"

definition stop_poll :: "env \<Rightarrow> Order \<Rightarrow> bool option dbp" where
  "stop_poll E order = bnd (orders_GetByID (o_ID order)) (\<lambda>current.
     if \<not> still_active current then ret (Some False)
     else bnd (attempt (GetMarketSnapshot (o_ListingID order))) (\<lambda>r. ret (case r of
         Inl _ \<Rightarrow> None
       | Inr snap \<Rightarrow> if stopTriggered E order snap then Some True else None)))"

definition limitMet :: "env \<Rightarrow> Order \<Rightarrow> decimal \<Rightarrow> float64 \<Rightarrow> float64 \<Rightarrow> bool" where
  "limitMet E order limit ask bid = (case o_Direction order of
       BUY \<Rightarrow> newFromFloat E ask \<le> limit
     | SELL \<Rightarrow> newFromFloat E bid \<ge> limit
     | OtherDirection _ \<Rightarrow> False)"

text \<open>Woken by a price tick \<open>(ask, bid)\<close> or by the fallback ticker.\<close>

definition limit_poll :: "env \<Rightarrow> Order \<Rightarrow> (float64 \<times> float64) option \<Rightarrow> bool option dbp" where
  "limit_poll E order ptick = (case o_PricePerUnit order of None \<Rightarrow> ret (Some False) | Some limit \<Rightarrow>
     bnd (orders_GetByID (o_ID order)) (\<lambda>current.
       if \<not> still_active current then ret (Some False)
       else case ptick of
           Some (ask, bid) \<Rightarrow> ret (if limitMet E order limit ask bid then Some True else None)
         | None \<Rightarrow> bnd (attempt (GetMarketSnapshot (o_ListingID order))) (\<lambda>r. ret (case r of
               Inl _ \<Rightarrow> None
             | Inr snap \<Rightarrow> if limitMet E order limit (ms_Ask snap) (ms_Bid snap) then Some True else None))))"

section \<open>Closed exchanges\<close>

record engine =
  eng_exchange :: "(int \<Rightarrow> MarketStatus dbp) option"
  eng_fundRepo :: bool

definition exchange_poll :: "engine \<Rightarrow> int \<Rightarrow> bool dbp" where
  "exchange_poll X exchangeID = (case eng_exchange X of None \<Rightarrow> ret True | Some isOpen \<Rightarrow>
     if exchangeID \<le> 0 then ret True
     else bnd (attempt (isOpen exchangeID)) (\<lambda>r. ret (case r of
         Inl _ \<Rightarrow> False | Inr st \<Rightarrow> st = MS_OPEN \<or> st = MS_PRE_MARKET \<or> st = MS_AFTER_HOURS)))"

definition isExchangeClosed :: "engine \<Rightarrow> int \<Rightarrow> bool dbp" where
  "isExchangeClosed X exchangeID = (case eng_exchange X of None \<Rightarrow> ret False | Some isOpen \<Rightarrow>
     if exchangeID \<le> 0 then ret False
     else bnd (attempt (isOpen exchangeID)) (\<lambda>r. ret (case r of Inl _ \<Rightarrow> False | Inr st \<Rightarrow> st = MS_CLOSED)))"

section \<open>One fill\<close>

text \<open>The hooks of a fund's purchase, then the body of the transaction of one fill.\<close>

definition fund_hooks :: "env \<Rightarrow> engine \<Rightarrow> Order \<Rightarrow> int \<Rightarrow> decimal \<Rightarrow> unit dbp" where
  "fund_hooks E X current chunkSize fillRSD = (case o_FundID current of None \<Rightarrow> ret () | Some fundID \<Rightarrow>
     if eng_fundRepo X \<and> fillRSD \<noteq> 0 then
       let deltaQty = fl64 (fl64 (of_int chunkSize) * fl64 (of_int (o_ContractSize current)));
           costRSD = sqlFloat E fillRSD in
       bnd (gets now_utc) (\<lambda>now.
       bnd (AddSecurityQuantity E fundID (o_ListingID current) deltaQty now costRSD) (\<lambda>_.
         DeductLiquidAssets E fundID costRSD))
     else ret ())"

definition fill_body :: "env \<Rightarrow> engine \<Rightarrow> bool \<Rightarrow> Order \<Rightarrow> decimal \<Rightarrow> int \<Rightarrow> decimal \<Rightarrow> decimal \<Rightarrow> unit dbp" where
  "fill_body E X isClient current executedPrice chunkSize commission fillRSD =
     (let isFirstFill = (o_RemainingPortions current = o_Quantity current);
          newRemaining = o_RemainingPortions current - chunkSize;
          fillAmount = executedPrice * of_int chunkSize in
      bnd (orders_CreateTransaction E (o_ID current) chunkSize executedPrice) (\<lambda>_.
      bnd (if isFirstFill \<and> commission > 0 then ChargeCommission E isClient (o_AccountID current) commission
           else ret ()) (\<lambda>_.
      bnd (if o_Direction current = BUY
           then bnd (SettleBuyFill E isClient (o_AccountID current) fillAmount) (\<lambda>_.
             fund_hooks E X current chunkSize fillRSD)
           else CreditSellFill E isClient (o_AccountID current) fillAmount) (\<lambda>_.
      if newRemaining = 0
      then bnd (orders_MarkDone (o_ID current)) (\<lambda>_.
        if o_Direction current = SELL
        then ClampPublicSharesToHoldings isClient (o_UserID current) (o_ListingID current) else ret ())
      else bnd (orders_UpdateRemainingPortions (o_ID current) newRemaining False) (\<lambda>_. ret ())))))"

definition fillRSD_of :: "env \<Rightarrow> engine \<Rightarrow> Order \<Rightarrow> decimal \<Rightarrow> decimal" where
  "fillRSD_of E X current fillAmount =
     (if o_FundID current \<noteq> None \<and> eng_fundRepo X \<and> o_Direction current = BUY
      then (case ConvertUSDToRSD E fillAmount of Inr converted \<Rightarrow> converted | Inl _ \<Rightarrow> fillAmount) else 0)"

definition chunk_of :: "nat \<Rightarrow> Order \<Rightarrow> err + int" where
  "chunk_of draw current = (if o_AllOrNone current then Inr (o_RemainingPortions current)
     else calcChunkSize draw (o_RemainingPortions current))"

definition commission_of :: "env \<Rightarrow> Order \<Rightarrow> decimal \<Rightarrow> decimal" where
  "commission_of E current executedPrice = (if o_RemainingPortions current = o_Quantity current
     then commissionForOrderType E (o_OrderType current) (executedPrice * of_int (o_Quantity current)) else 0)"

text \<open>What follows a purchase the account cannot pay.\<close>

definition decline_unpaid :: "env \<Rightarrow> bool \<Rightarrow> Order \<Rightarrow> decimal \<Rightarrow> unit dbp" where
  "decline_unpaid E isClient current executedPrice =
     bnd (ignore (orders_UpdateStatus (o_ID current) DECLINED None)) (\<lambda>_.
       ignore (ReleaseFunds E isClient (o_AccountID current)
         (executedPrice * of_int (o_RemainingPortions current))))"

text \<open>The result of a turn of the loop: \<open>None\<close> when \<open>executeOrder\<close> returns, else the portions that remain.\<close>

definition fill :: "env \<Rightarrow> engine \<Rightarrow> bool \<Rightarrow> OrderType \<Rightarrow> nat \<Rightarrow> Order \<Rightarrow> MarketSnapshot \<Rightarrow> int option dbp" where
  "fill E X isClient effectiveType draw current snap =
     (case resolveExecutionPrice E current effectiveType snap of Inl e \<Rightarrow> fail e | Inr executedPrice \<Rightarrow>
      case chunk_of draw current of Inl e \<Rightarrow> fail e | Inr chunkSize \<Rightarrow>
        let commission = commission_of E current executedPrice;
            fillRSD = fillRSD_of E X current (executedPrice * of_int chunkSize);
            newRemaining = o_RemainingPortions current - chunkSize in
        bnd (attempt (in_tx (fill_body E X isClient current executedPrice chunkSize commission fillRSD))) (\<lambda>r. case r of
            Inl e \<Rightarrow> if o_Direction current = BUY \<and> e = ErrInsufficientFunds
              then bnd (decline_unpaid E isClient current executedPrice) (\<lambda>_. ret None)
              else fail e
          | Inr _ \<Rightarrow> ret (if newRemaining = 0 then None else Some newRemaining)))"

section \<open>Foreign exchange orders\<close>

definition forex_exec_rate :: "env \<Rightarrow> Order \<Rightarrow> MarketSnapshot \<Rightarrow> decimal" where
  "forex_exec_rate E current snap =
     (if o_Direction current = BUY
      then let rate = newFromFloat E (ms_Ask snap) in
        (case o_PricePerUnit current of Some p \<Rightarrow> if rate > p then p else rate | None \<Rightarrow> rate)
      else let rate = newFromFloat E (ms_Bid snap) in
        (case o_PricePerUnit current of Some p \<Rightarrow> if rate < p then p else rate | None \<Rightarrow> rate))"

definition forex_body :: "env \<Rightarrow> bool \<Rightarrow> Order \<Rightarrow> MarketSnapshot \<Rightarrow> decimal \<Rightarrow> unit dbp" where
  "forex_body E isClient current snap rate =
     (let nominalBase = of_int (o_ContractSize current) * of_int (o_Quantity current) in
      bnd (attempt (ForexSwap E isClient (o_UserID current) (o_AccountID current) (ms_ForexBaseCurrency snap)
          (ms_ForexQuoteCurrency snap) nominalBase rate (o_Direction current))) (\<lambda>r. case r of
        Inl swapErr \<Rightarrow>
          if isForexDeclineError swapErr
          then bnd (orders_UpdateStatus (o_ID current) DECLINED None) (\<lambda>_. ret ())
          else fail swapErr
      | Inr _ \<Rightarrow> bnd (orders_CreateTransaction E (o_ID current) (o_Quantity current) rate) (\<lambda>_.
          bnd (orders_MarkDone (o_ID current)) (\<lambda>_. ret ()))))"

definition forex_execute :: "env \<Rightarrow> bool \<Rightarrow> Order \<Rightarrow> MarketSnapshot \<Rightarrow> unit dbp" where
  "forex_execute E isClient current snap = (let rate = forex_exec_rate E current snap in
     if rate = 0 then ret () else in_tx (forex_body E isClient current snap rate))"

section \<open>The goroutine of an order\<close>

datatype stage =
    AwaitStop
  | AwaitLimit
  | Execute
  | FillTop
  | AfterHoursPause MarketSnapshot
  | AwaitOpen MarketSnapshot
  | FillReady Order MarketSnapshot
  | Sleeping float64
  | ForexAwaitOpen MarketSnapshot
  | ForexReady Order MarketSnapshot

definition effective_type :: "Order \<Rightarrow> OrderType" where
  "effective_type order = (case o_OrderType order of STOP \<Rightarrow> MARKET | STOP_LIMIT \<Rightarrow> LIMIT | t \<Rightarrow> t)"

text \<open>Entering \<open>waitForLimitActivation\<close>, and what follows a stop that triggered.\<close>

definition enter_limit :: "Order \<Rightarrow> stage option" where
  "enter_limit order = (if o_PricePerUnit order = None then None else Some AwaitLimit)"

definition after_stop :: "Order \<Rightarrow> stage option" where
  "after_stop order = (if effective_type order = LIMIT then enter_limit order else Some Execute)"

definition runOrder :: "Order \<Rightarrow> stage option" where
  "runOrder order = (case o_OrderType order of
       STOP \<Rightarrow> if o_StopPrice order = None then after_stop order else Some AwaitStop
     | STOP_LIMIT \<Rightarrow> if o_StopPrice order = None then after_stop order else Some AwaitStop
     | MARKET \<Rightarrow> Some Execute
     | LIMIT \<Rightarrow> enter_limit order
     | OtherOrderType _ \<Rightarrow> None)"

text \<open>Re-fetching the order; one that is no longer active ends the goroutine.\<close>

definition refetch :: "Order \<Rightarrow> (Order \<Rightarrow> stage option dbp) \<Rightarrow> stage option dbp" where
  "refetch order k = bnd (orders_GetByID (o_ID order)) (\<lambda>current.
     if \<not> still_active current then ret None else k current)"

definition execute_start :: "Order \<Rightarrow> stage option dbp" where
  "execute_start order = bnd (GetMarketSnapshot (o_ListingID order)) (\<lambda>initialSnap.
     if ms_ListingType initialSnap = LT_FOREX
     then refetch order (\<lambda>_. ret (Some (ForexAwaitOpen initialSnap)))
     else ret (Some FillTop))"

definition fill_top :: "engine \<Rightarrow> Order \<Rightarrow> stage option dbp" where
  "fill_top X order = refetch order (\<lambda>current.
     bnd (GetMarketSnapshot (o_ListingID current)) (\<lambda>snap.
     bnd (if o_AfterHours current then isExchangeClosed X (ms_ExchangeID snap) else ret False) (\<lambda>closed.
       ret (Some (if closed then AfterHoursPause snap else AwaitOpen snap)))))"

definition forex_ready :: "Order \<Rightarrow> stage option dbp" where
  "forex_ready order = refetch order (\<lambda>current.
     bnd (attempt (GetMarketSnapshot (o_ListingID current))) (\<lambda>r. ret (case r of
       Inl _ \<Rightarrow> None | Inr snap \<Rightarrow> Some (ForexReady current snap))))"

definition advance :: "env \<Rightarrow> engine \<Rightarrow> nat \<Rightarrow> float64 \<Rightarrow> (float64 \<times> float64) option \<Rightarrow> Order \<Rightarrow> stage \<Rightarrow> stage option dbp" where
  "advance E X draw w ptick order st = (case st of
       AwaitStop \<Rightarrow> bnd (stop_poll E order) (\<lambda>r. ret (case r of
           None \<Rightarrow> Some AwaitStop | Some activated \<Rightarrow> if activated then after_stop order else None))
     | AwaitLimit \<Rightarrow> bnd (limit_poll E order ptick) (\<lambda>r. ret (case r of
           None \<Rightarrow> Some AwaitLimit | Some activated \<Rightarrow> if activated then Some Execute else None))
     | Execute \<Rightarrow> execute_start order
     | FillTop \<Rightarrow> fill_top X order
     | AfterHoursPause snap \<Rightarrow> refetch order (\<lambda>_. refetch order (\<lambda>current. ret (Some (FillReady current snap))))
     | AwaitOpen snap \<Rightarrow> bnd (exchange_poll X (ms_ExchangeID snap)) (\<lambda>open.
         if open then refetch order (\<lambda>current. ret (Some (FillReady current snap))) else ret (Some st))
     | FillReady current snap \<Rightarrow> bnd (fill E X (o_IsClient order) (effective_type order) draw current snap) (\<lambda>r.
         ret (map_option (\<lambda>newRemaining. Sleeping (calcWaitSeconds w (ms_Volume snap) newRemaining)) r))
     | Sleeping _ \<Rightarrow> ret (Some FillTop)
     | ForexAwaitOpen snap \<Rightarrow> bnd (exchange_poll X (ms_ExchangeID snap)) (\<lambda>open.
         if open then forex_ready order else ret (Some st))
     | ForexReady current snap \<Rightarrow> bnd (forex_execute E (o_IsClient order) current snap) (\<lambda>_. ret None))"

section \<open>The polling loop\<close>

definition check_pending :: "Order \<Rightarrow> unit dbp" where
  "check_pending po = bnd (attempt (GetMarketSnapshot (o_ListingID po))) (\<lambda>r. case r of
       Inl _ \<Rightarrow> ret ()
     | Inr snap \<Rightarrow> bnd (gets now_utc) (\<lambda>now.
         if isSettlementExpired now snap then ignore (orders_UpdateStatus (o_ID po) DECLINED None) else ret ()))"

text \<open>Whether the order is to be started.\<close>

definition check_approved :: "Order \<Rightarrow> bool dbp" where
  "check_approved ord = bnd (attempt (GetMarketSnapshot (o_ListingID ord))) (\<lambda>r. case r of
       Inl _ \<Rightarrow> ret False
     | Inr snap \<Rightarrow> bnd (gets now_utc) (\<lambda>now.
         if isSettlementExpired now snap
         then bnd (ignore (orders_UpdateStatus (o_ID ord) DECLINED None)) (\<lambda>_. ret False)
         else ret True))"

datatype tick_phase = TickIdle | TickPending "Order list" | TickApproved "Order list"

text \<open>The state of the process: the database, the live goroutines (\<open>Engine.active\<close>) with their orders and
  stages, and how far the current tick has come.\<close>

record engine_state =
  es_db :: db
  es_active :: "int \<Rightarrow> (Order \<times> stage) option"
  es_tick :: tick_phase

definition spawn :: "Order \<Rightarrow> (int \<Rightarrow> (Order \<times> stage) option) \<Rightarrow> int \<Rightarrow> (Order \<times> stage) option" where
  "spawn ord act = (if act (o_ID ord) = None then act(o_ID ord := map_option (Pair ord) (runOrder ord)) else act)"

definition tick_step :: "engine_state \<Rightarrow> engine_state" where
  "tick_step c = (case es_tick c of
       TickIdle \<Rightarrow> (case orders_ListByStatus (Some PENDING) (es_db c) of (r, s) \<Rightarrow>
         c\<lparr>es_db := s, es_tick := TickPending (case r of Inl _ \<Rightarrow> [] | Inr os \<Rightarrow> os)\<rparr>)
     | TickPending (po # pos) \<Rightarrow> c\<lparr>es_db := snd (check_pending po (es_db c)), es_tick := TickPending pos\<rparr>
     | TickPending [] \<Rightarrow> (case orders_ListByStatus (Some APPROVED) (es_db c) of (r, s) \<Rightarrow>
         c\<lparr>es_db := s, es_tick := (case r of Inl _ \<Rightarrow> TickIdle | Inr os \<Rightarrow> TickApproved os)\<rparr>)
     | TickApproved (ord # os) \<Rightarrow> (case check_approved ord (es_db c) of (r, s) \<Rightarrow>
         c\<lparr>es_db := s, es_tick := TickApproved os,
           es_active := (if r = Inr True then spawn ord (es_active c) else es_active c)\<rparr>)
     | TickApproved [] \<Rightarrow> c\<lparr>es_tick := TickIdle\<rparr>)"

definition go_step :: "env \<Rightarrow> engine \<Rightarrow> nat \<Rightarrow> float64 \<Rightarrow> (float64 \<times> float64) option \<Rightarrow> int \<Rightarrow> engine_state \<Rightarrow> engine_state" where
  "go_step E X draw w ptick i c = (case es_active c i of None \<Rightarrow> c | Some (ord, st) \<Rightarrow>
     (case advance E X draw w ptick ord st (es_db c) of (r, s) \<Rightarrow>
        c\<lparr>es_db := s, es_active := (es_active c)(i := (case r of Inr (Some st') \<Rightarrow> Some (ord, st') | _ \<Rightarrow> None))\<rparr>))"

text \<open>The market moves prices and volumes, never what a listing is.\<close>

definition same_instrument :: "Listing \<Rightarrow> Listing \<Rightarrow> bool" where
  "same_instrument l l' \<longleftrightarrow> l_ID l' = l_ID l \<and> l_Type l' = l_Type l"

definition market_moves :: "Listing list \<Rightarrow> int \<Rightarrow> db \<Rightarrow> db" where
  "market_moves ls t s = s\<lparr>listings := ls, now_utc := t\<rparr>"

text \<open>A step of the whole: a request, the market, the ticker, a goroutine, a restart of the process.\<close>

inductive engine_step :: "env \<Rightarrow> engine \<Rightarrow> engine_state \<Rightarrow> engine_state \<Rightarrow> bool" for E X where
  request: "trading_step E (es_db c) s \<Longrightarrow> engine_step E X c (c\<lparr>es_db := s\<rparr>)"
| market: "list_all2 same_instrument (listings (es_db c)) ls \<Longrightarrow>
    engine_step E X c (c\<lparr>es_db := market_moves ls t (es_db c)\<rparr>)"
| ticker: "engine_step E X c (tick_step c)"
| go: "engine_step E X c (go_step E X draw w ptick i c)"
| restart: "engine_step E X c (c\<lparr>es_active := (\<lambda>_. None), es_tick := TickIdle\<rparr>)"

inductive_cases engine_stepE: "engine_step E X c c'"

end
