(* ===== verification/Engine_Properties.thy ===== *)
theory Engine_Properties
  imports Trading_Engine
begin

text \<open>
  What the execution engine guarantees, whatever interleaves: fills and remaining portions of every order add
  up to its quantity, a limit price is never exceeded, the chunk size is always drawn from a positive range,
  and the fill loop ends. Two runs show where it does not keep an order's status.
\<close>

section \<open>What the engine changes\<close>

text \<open>What a listing is, and the part of the state the engine's invariant reads.\<close>

definition kinds :: "db \<Rightarrow> (int \<times> ListingType) list" where
  "kinds s = map (\<lambda>l. (l_ID l, l_Type l)) (listings s)"

definition is_forex :: "db \<Rightarrow> int \<Rightarrow> bool" where
  "is_forex s l \<longleftrightarrow> map_of (kinds s) l = Some LT_FOREX"

definition book :: "db \<Rightarrow> Order list \<times> int \<times> OrderTransaction list \<times> (int \<times> ListingType) list" where
  "book s = (orders s, order_seq s, order_transactions s, kinds s)"

lemma clock_free_book [simp]: "clock_free book" "clock_free kinds"
  by (simp_all add: clock_free_def book_def kinds_def)

lemmas clock_book [simp] = clock_freeD [OF clock_free_book(1)] clock_freeD [OF clock_free_book(2)]

lemma book_fields: "book s' = book s \<Longrightarrow> orders s' = orders s \<and> order_seq s' = order_seq s \<and>
    order_transactions s' = order_transactions s \<and> kinds s' = kinds s"
  by (simp add: book_def)

lemma listing_of_kind: "listing_of s i = Some l \<Longrightarrow> map_of (kinds s) i = Some (l_Type l)"
proof -
  have "List.find (\<lambda>l. l_ID l = i) ls = Some l \<Longrightarrow> map_of (map (\<lambda>l. (l_ID l, l_Type l)) ls) i = Some (l_Type l)" for ls
    by (induction ls) (auto split: if_splits)
  then show "listing_of s i = Some l \<Longrightarrow> map_of (kinds s) i = Some (l_Type l)"
    by (simp add: listing_of_def kinds_def)
qed

lemma keeps_GetMarketSnapshot [keeps_intros]: "clock_free f \<Longrightarrow> keeps f (GetMarketSnapshot l)"
  unfolding GetMarketSnapshot_def by (intro keeps_intros)

lemma GetMarketSnapshot_Inr:
  assumes "GetMarketSnapshot l s = (Inr snap, s')"
  shows "\<exists>x. listing_of s l = Some x \<and> snap = snapshot_of x \<and> s' = bump s"
proof -
  have "listing_of (bump s) l = listing_of s l" by (simp add: listing_of_def)
  with assms show ?thesis
    by (auto simp: GetMarketSnapshot_def elim!: bnd_InrE dest!: query_InrD split: option.splits)
qed

lemma snapshot_of_type [simp]: "ms_ListingType (snapshot_of l) = l_Type l"
  by (simp add: snapshot_of_def Let_def)

text \<open>The account movements of a fill leave the book alone.\<close>

lemma book_updates [simp]:
  "book (s\<lparr>racuni := x\<rparr>) = book s" "book (s\<lparr>transakcije := y\<rparr>) = book s" "book (s\<lparr>public_shares := z\<rparr>) = book s"
  "book (s\<lparr>fund_securities := u\<rparr>) = book s" "book (s\<lparr>investment_funds := v\<rparr>) = book s"
  by (simp_all add: book_def kinds_def)

lemma keeps_book_in_tx [keeps_intros]: "keeps book m \<Longrightarrow> keeps book (in_tx m)"
  by (rule keeps_in_tx) (auto simp: book_def kinds_def)

lemma keeps_book_movements [keeps_intros]:
  "keeps book (update_racun E P g)" "keeps book (insert_transakcije E us)" "keeps book (settle_update E i d)"
  "keeps book (credit_update E i d)" "keeps book (delete_share j)" "keeps book (set_share j q)"
proof -
  show u: "keeps book (update_racun E P g)" for P g by (rule keeps_update_racun) simp_all
  show "keeps book (insert_transakcije E us)" by (rule keeps_insert_transakcije) simp_all
  show "keeps book (settle_update E i d)" "keeps book (credit_update E i d)"
    unfolding settle_update_def credit_update_def by (intro keeps_intros u)+
  show "keeps book (delete_share j)" "keeps book (set_share j q)"
    unfolding delete_share_def set_share_def by (rule keeps_stmt; auto split: if_splits)+
qed

lemma keeps_book_clamp_loop [keeps_intros]: "keeps book (clamp_loop rows n)"
proof (induction rows arbitrary: n)
  case (Cons row rows)
  show ?case unfolding clamp_loop.simps Let_def by (intro keeps_intros Cons)
qed (simp add: keeps_def)

lemma keeps_book_funds [keeps_intros]:
  "keeps book (ChargeCommission E b i x)" "keeps book (SettleBuyFill E b i x)" "keeps book (CreditSellFill E b i x)"
  "keeps book (ClampPublicSharesToHoldings b u l)" "keeps book (ReleaseFunds E b i x)"
  "keeps book (ForexSwap E b u i base q n rate dir)"
  unfolding ChargeCommission_def SettleBuyFill_def CreditSellFill_def ClampPublicSharesToHoldings_def ReleaseFunds_def
    ForexSwap_def resolveForexAccounts_def forexAccount_def activeAccount_def Let_def
  by (intro keeps_intros clock_free_book)+

lemma keeps_book_fund_hooks [keeps_intros]: "keeps book (fund_hooks E X cur c x)"
  unfolding fund_hooks_def Let_def by (intro keeps_intros keeps_fund_writes) simp_all

section \<open>A fill\<close>

definition set_done :: "Order \<Rightarrow> Order" where
  "set_done ord = ord\<lparr>o_Status := DONE, o_IsDone := True, o_RemainingPortions := 0\<rparr>"

definition set_remaining :: "int \<Rightarrow> Order \<Rightarrow> Order" where
  "set_remaining n ord = ord\<lparr>o_RemainingPortions := n, o_IsDone := False\<rparr>"

lemma CreateTransaction_Inr:
  assumes "orders_CreateTransaction E i q p s = (Inr t, s')"
  shows "0 < q" and "book s' = (orders s, order_seq s,
    order_transactions s @ [\<lparr>ot_OrderID = i, ot_ExecutedQuantity = q, ot_ExecutedPrice = round6 E p\<rparr>], kinds s)"
  using assms by (auto simp: orders_CreateTransaction_def stmt_def Let_def book_def kinds_def split: if_splits)

lemma update_order_Inr:
  assumes "update_order i f s = (Inr n, s')"
  shows "book s' = (upd_order i f (orders s), order_seq s, order_transactions s, kinds s)"
    and "\<forall>ord \<in> set (orders s). o_ID ord = i \<longrightarrow> 0 \<le> o_RemainingPortions (f ord)"
  using assms by (auto simp: update_order_def stmt_def book_def kinds_def upd_order_def list_all_iff split: if_splits)

lemma keeps_book_audit [keeps_intros]: "keeps book (insertAuditLog i old new c)"
  by (rule keeps_insertAuditLog) (simp_all add: book_def kinds_def)

lemma MarkDone_Inr:
  assumes "orders_MarkDone i s = (Inr ord, s')"
  shows "book s' = (upd_order i set_done (orders s), order_seq s, order_transactions s, kinds s)"
proof -
  from assms obtain n s1 where u: "update_order i set_done s = (Inr n, s1)"
    and r: "(if n = 0 then fail ErrOrderNotFound
       else bnd (insertAuditLog i (Some APPROVED) DONE None) (\<lambda>_. orders_GetByID i)) s1 = (Inr ord, s')"
    unfolding orders_MarkDone_def set_done_def [symmetric] by (rule bnd_InrE)
  have "keeps book (if n = 0 then fail ErrOrderNotFound
       else bnd (insertAuditLog i (Some APPROVED) DONE None) (\<lambda>_. orders_GetByID i))"
    by (intro keeps_intros clock_free_book)
  from keepsD [OF this r] show ?thesis by (simp add: update_order_Inr(1) [OF u])
qed

lemma UpdateRemaining_Inr:
  assumes "orders_UpdateRemainingPortions i n False s = (Inr ord, s')"
  shows "book s' = (upd_order i (set_remaining n) (orders s), order_seq s, order_transactions s, kinds s)"
    and "\<forall>ord \<in> set (orders s). o_ID ord = i \<longrightarrow> 0 \<le> n"
proof -
  from assms obtain k s1 where u: "update_order i (set_remaining n) s = (Inr k, s1)"
    and r: "(if k = 0 then fail ErrOrderNotFound else orders_GetByID i) s1 = (Inr ord, s')"
    unfolding orders_UpdateRemainingPortions_def set_remaining_def [symmetric] by (rule bnd_InrE)
  have "keeps book (if k = 0 then fail ErrOrderNotFound else orders_GetByID i)"
    by (intro keeps_intros clock_free_book)
  from keepsD [OF this r] show "book s' = (upd_order i (set_remaining n) (orders s), order_seq s, order_transactions s, kinds s)"
    by (simp add: update_order_Inr(1) [OF u])
  show "\<forall>ord \<in> set (orders s). o_ID ord = i \<longrightarrow> 0 \<le> n"
    using update_order_Inr(2) [OF u] by (simp add: set_remaining_def)
qed

text \<open>The row of an order after \<open>q\<close> of it executed.\<close>

definition filled :: "int \<Rightarrow> Order \<Rightarrow> Order" where
  "filled n = (if n = 0 then set_done else set_remaining n)"

definition fills :: "env \<Rightarrow> int \<Rightarrow> int \<Rightarrow> int \<Rightarrow> decimal \<Rightarrow> db \<Rightarrow> db \<Rightarrow> bool" where
  "fills E i n q p s s' \<longleftrightarrow> 0 < q \<and> book s' = (upd_order i (filled n) (orders s), order_seq s,
     order_transactions s @ [\<lparr>ot_OrderID = i, ot_ExecutedQuantity = q, ot_ExecutedPrice = round6 E p\<rparr>], kinds s) \<and>
     (\<forall>ord \<in> set (orders s). o_ID ord = i \<longrightarrow> 0 \<le> n)"

lemma fill_body_Inr:
  assumes "fill_body E X b cur p q com rsd s = (Inr u, s')"
  shows "fills E (o_ID cur) (o_RemainingPortions cur - q) q p s s'"
proof -
  let ?n = "o_RemainingPortions cur - q"
  let ?fee = "if o_RemainingPortions cur = o_Quantity cur \<and> com > 0 then ChargeCommission E b (o_AccountID cur) com else ret ()"
  let ?pay = "if o_Direction cur = BUY then bnd (SettleBuyFill E b (o_AccountID cur) (p * of_int q)) (\<lambda>_. fund_hooks E X cur q rsd)
     else CreditSellFill E b (o_AccountID cur) (p * of_int q)"
  let ?clamp = "if o_Direction cur = SELL then ClampPublicSharesToHoldings b (o_UserID cur) (o_ListingID cur) else ret ()"
  let ?close = "if ?n = 0 then bnd (orders_MarkDone (o_ID cur)) (\<lambda>_. ?clamp)
       else bnd (orders_UpdateRemainingPortions (o_ID cur) ?n False) (\<lambda>_. ret ())"
  have "bnd (orders_CreateTransaction E (o_ID cur) q p) (\<lambda>_. bnd ?fee (\<lambda>_. bnd ?pay (\<lambda>_. ?close))) s = (Inr u, s')"
    using assms unfolding fill_body_def Let_def .
  then obtain t s1 where c: "orders_CreateTransaction E (o_ID cur) q p s = (Inr t, s1)"
    and r: "bnd ?fee (\<lambda>_. bnd ?pay (\<lambda>_. ?close)) s1 = (Inr u, s')" by (rule bnd_InrE)
  from r obtain x2 s2 where f: "?fee s1 = (Inr x2, s2)" and r2: "bnd ?pay (\<lambda>_. ?close) s2 = (Inr u, s')" by (rule bnd_InrE)
  from r2 obtain x3 s3 where pay: "?pay s2 = (Inr x3, s3)" and l: "?close s3 = (Inr u, s')" by (rule bnd_InrE)
  have "keeps book ?fee" "keeps book ?pay" and k: "keeps book ?clamp" by (intro keeps_intros)+
  from keepsD [OF this(1) f] keepsD [OF this(2) pay] CreateTransaction_Inr [OF c]
  have q: "0 < q" and b3: "book s3 = (orders s, order_seq s,
     order_transactions s @ [\<lparr>ot_OrderID = o_ID cur, ot_ExecutedQuantity = q, ot_ExecutedPrice = round6 E p\<rparr>], kinds s)"
    by simp_all
  from l show ?thesis
  proof (cases "?n = 0")
    case True
    with l obtain x s4 where m: "orders_MarkDone (o_ID cur) s3 = (Inr x, s4)" and c: "?clamp s4 = (Inr u, s')"
      by (auto elim!: bnd_InrE)
    show ?thesis
      using q b3 True by (simp add: fills_def filled_def keepsD [OF k c] MarkDone_Inr [OF m]) (simp add: book_def)
  next
    case False
    with l obtain x where "orders_UpdateRemainingPortions (o_ID cur) ?n False s3 = (Inr x, s')"
      by (auto elim!: bnd_InrE)
    note u = UpdateRemaining_Inr [OF this]
    show ?thesis using q b3 False u(2) by (simp add: fills_def filled_def u(1)) (simp add: book_def)
  qed
qed

text \<open>Everything else only moves statuses: no row loses its terms or its remaining portions, no executed
  order comes back to life, and new rows start with nothing executed.\<close>

definition fixed :: "Order \<Rightarrow> int \<times> int \<times> int \<times> int \<times> OrderType \<times> OrderDirection \<times> int \<times> int
    \<times> decimal option \<times> decimal option" where
  "fixed ord = (o_ID ord, o_UserID ord, o_AccountID ord, o_ListingID ord, o_OrderType ord, o_Direction ord,
     o_Quantity ord, o_ContractSize ord, o_PricePerUnit ord, o_StopPrice ord)"

definition row_quiet :: "Order \<Rightarrow> Order \<Rightarrow> bool" where
  "row_quiet a b \<longleftrightarrow> fixed b = fixed a \<and> o_RemainingPortions b = o_RemainingPortions a \<and> (o_IsDone a \<longrightarrow> o_IsDone b)"

definition quiet :: "db \<Rightarrow> db \<Rightarrow> bool" where
  "quiet s s' \<longleftrightarrow> order_transactions s' = order_transactions s \<and> kinds s' = kinds s \<and> order_seq s \<le> order_seq s' \<and>
     (\<exists>os new. orders s' = os @ new \<and> list_all2 row_quiet (orders s) os \<and> list_all (fresh_order (order_seq s)) new) \<and>
     orders_wf s'"

lemma row_quiet_refl [simp]: "row_quiet a a"
  by (simp add: row_quiet_def)

lemma quiet_rows:
  assumes "order_transactions s' = order_transactions s" "kinds s' = kinds s" "order_seq s' = order_seq s"
    and "list_all2 row_quiet (orders s) (orders s')" and "orders_wf s'"
  shows "quiet s s'"
proof -
  have "orders s' = orders s' @ [] \<and> list_all2 row_quiet (orders s) (orders s') \<and> list_all (fresh_order (order_seq s)) []"
    using assms(4) by simp
  then show ?thesis using assms unfolding quiet_def by (metis order_refl)
qed

lemma quiet_book: "orders_wf s \<Longrightarrow> book s' = book s \<Longrightarrow> quiet s s'"
  by (rule quiet_rows) (auto dest!: book_fields simp: orders_wf_def list_all2_refl)

lemma keeps_quiet: "keeps book m \<Longrightarrow> orders_wf s \<Longrightarrow> m s = (r, s') \<Longrightarrow> quiet s s'"
  by (rule quiet_book) (auto dest: keepsD)

lemma evolves_quiet: "evolves a b \<Longrightarrow> row_quiet a b"
proof -
  assume "evolves a b"
  then consider "b = a" | "b = a\<lparr>o_Status := o_Status b, o_ApprovedBy := o_ApprovedBy b, o_IsDone := o_IsDone a \<or> o_Status b = CANCELED\<rparr>"
    unfolding evolves_def by blast
  then show "row_quiet a b"
    by cases (simp, erule ssubst, simp add: row_quiet_def fixed_def)
qed

lemma quiet_set_status:
  assumes wf: "orders_wf s" and "book s' = (upd_order i (set_status st ap) (orders s), order_seq s, order_transactions s, kinds s)"
  shows "quiet s s'"
proof -
  have o: "orders s' = upd_order i (set_status st ap) (orders s)" "order_seq s' = order_seq s"
    "order_transactions s' = order_transactions s" "kinds s' = kinds s" using assms(2) by (simp_all add: book_def)
  have "list_all2 row_quiet (orders s) (orders s')"
    unfolding o(1) upd_order_def upd_where_def
    by (auto simp: list_all2_conv_all_nth row_quiet_def fixed_def set_status_def)
  moreover have "orders_wf s'" by (rule orders_wf_upd [OF wf o(2,1)]) (simp add: set_status_def)
  ultimately show ?thesis using o by (intro quiet_rows) simp_all
qed

lemma UpdateStatus_quiet:
  assumes "orders_wf s" and "orders_UpdateStatus i st ap s = (r, s')"
  shows "quiet s s'"
proof -
  have "keeps (\<lambda>s. (order_seq s, order_transactions s, kinds s)) (orders_UpdateStatus i st ap)"
    by (rule keeps_order_updates) (simp_all add: clock_free_def kinds_def)
  from keepsD [OF this assms(2)] UpdateStatus_orders [OF assms(2)]
  have "book s' = book s \<or> book s' = (upd_order i (set_status st ap) (orders s), order_seq s, order_transactions s, kinds s)"
    by (auto simp: book_def)
  with assms(1) show ?thesis using quiet_book quiet_set_status by blast
qed

lemma list_all2_row_quiet_trans:
  "list_all2 row_quiet as bs \<Longrightarrow> list_all2 row_quiet bs cs \<Longrightarrow> list_all2 row_quiet as cs"
  by (rule list_all2_trans [of row_quiet row_quiet row_quiet]) (auto simp: row_quiet_def)

lemma quiet_trans:
  assumes "quiet s t" and "quiet t u"
  shows "quiet s u"
proof -
  from assms(1) obtain os new where t: "orders t = os @ new" "list_all2 row_quiet (orders s) os"
    "list_all (fresh_order (order_seq s)) new" "order_seq s \<le> order_seq t" by (auto simp: quiet_def)
  from assms(2) obtain os2 new2 where u: "orders u = os2 @ new2" "list_all2 row_quiet (orders t) os2"
    "list_all (fresh_order (order_seq t)) new2" by (auto simp: quiet_def)
  from u(2) t(1) obtain xs ys where os2: "os2 = xs @ ys" "list_all2 row_quiet os xs" "list_all2 row_quiet new ys"
    by (auto simp: list_all2_append1)
  have "list_all2 row_quiet (orders s) xs" by (rule list_all2_row_quiet_trans [OF t(2) os2(2)])
  moreover have "fresh_order (order_seq s) y" if "row_quiet x y" "fresh_order (order_seq s) x" for x y
    using that by (auto simp: row_quiet_def fresh_order_def fixed_def)
  then have "list_all (fresh_order (order_seq s)) ys"
    using os2(3) t(3) by (auto simp: list_all2_conv_all_nth list_all_length)
  moreover have "list_all (fresh_order (order_seq s)) new2"
    using u(3) t(4) by (auto simp: list_all_iff fresh_order_def)
  ultimately have "orders u = xs @ (ys @ new2) \<and> list_all2 row_quiet (orders s) xs \<and> list_all (fresh_order (order_seq s)) (ys @ new2)"
    using u(1) os2(1) by simp
  with assms show ?thesis unfolding quiet_def by (metis order_trans)
qed

lemma in_tx_book_Inl: "keeps (\<lambda>s. (order_seq s, kinds s)) m \<Longrightarrow> in_tx m s = (Inl e, s') \<Longrightarrow> book s' = book s"
proof -
  assume k: "keeps (\<lambda>s. (order_seq s, kinds s)) m" and e: "in_tx m s = (Inl e, s')"
  have "keeps (\<lambda>s. (order_seq s, kinds s)) (in_tx m)"
    by (rule keeps_in_tx [OF k]) (auto simp: clock_free_def kinds_def)
  from keepsD [OF this e] in_tx_Inl [OF e] show "book s' = book s" by (simp add: book_def core_def)
qed

lemma fills_begin: "fills E i n q p (begin_tx s) s1 \<Longrightarrow> fills E i n q p s (end_tx s (bump s1))"
  by (simp add: fills_def)

lemma keeps_seq_kinds:
  "keeps book m \<Longrightarrow> keeps (\<lambda>s. (order_seq s, kinds s)) m"
  by (simp add: keeps_def book_def)

lemma keeps_seq_kinds_orders [keeps_intros]:
  "keeps (\<lambda>s. (order_seq s, kinds s)) (orders_CreateTransaction E i q p)" "keeps (\<lambda>s. (order_seq s, kinds s)) (orders_MarkDone i)"
  "keeps (\<lambda>s. (order_seq s, kinds s)) (orders_UpdateRemainingPortions i n b)"
  "keeps (\<lambda>s. (order_seq s, kinds s)) (orders_UpdateStatus i st ap)"
proof -
  show "keeps (\<lambda>s. (order_seq s, kinds s)) (orders_CreateTransaction E i q p)"
    unfolding orders_CreateTransaction_def
    by (rule keeps_stmt) (auto simp: clock_free_def kinds_def Let_def split: if_splits)
qed (rule keeps_order_updates; simp add: clock_free_def kinds_def)+

lemma keeps_fill_body: "keeps (\<lambda>s. (order_seq s, kinds s)) (fill_body E X b cur p q com rsd)"
  unfolding fill_body_def Let_def
  by (intro keeps_intros) (rule keeps_seq_kinds, intro keeps_intros)+

lemma keeps_forex_body: "keeps (\<lambda>s. (order_seq s, kinds s)) (forex_body E b cur snap rate)"
  unfolding forex_body_def Let_def
  by (intro keeps_intros) (rule keeps_seq_kinds, intro keeps_intros)+

text \<open>The two outcomes of a turn of the fill loop: a fill, or nothing but a status.\<close>

lemma fill_cases:
  assumes wf: "orders_wf s" and run: "fill E X b et draw cur snap s = (r, s')"
  shows "quiet s s' \<and> (\<forall>n. r \<noteq> Inr (Some n)) \<or> (\<exists>p q. resolveExecutionPrice E cur et snap = Inr p \<and> chunk_of draw cur = Inr q \<and>
    fills E (o_ID cur) (o_RemainingPortions cur - q) q p s s' \<and>
    r = Inr (if o_RemainingPortions cur = q then None else Some (o_RemainingPortions cur - q)))"
proof (cases "resolveExecutionPrice E cur et snap")
  case (Inl e)
  with run wf show ?thesis by (auto simp: fill_def intro: quiet_book)
next
  case p: (Inr p)
  show ?thesis
  proof (cases "chunk_of draw cur")
    case (Inl e)
    with run wf p show ?thesis by (auto simp: fill_def intro: quiet_book)
  next
    case q: (Inr q)
    let ?m = "in_tx (fill_body E X b cur p q (commission_of E cur p) (fillRSD_of E X cur (p * of_int q)))"
    obtain r1 s1 where m: "?m s = (r1, s1)" by force
    show ?thesis
    proof (cases r1)
      case (Inr u)
      with m obtain s2 where "fill_body E X b cur p q (commission_of E cur p) (fillRSD_of E X cur (p * of_int q)) (begin_tx s) = (Inr u, s2)"
        "s1 = end_tx s (bump s2)" by (auto elim: in_tx_InrE)
      with fill_body_Inr fills_begin have "fills E (o_ID cur) (o_RemainingPortions cur - q) q p s s1" by blast
      with run p q m Inr show ?thesis by (auto simp: fill_def bnd_def attempt_def)
    next
      case (Inl e)
      have b: "book s1 = book s" using in_tx_book_Inl [OF keeps_fill_body m [unfolded Inl]] .
      have wf1: "orders_wf s1" using wf b by (simp add: book_def orders_wf_def)
      have d: "quiet s1 (snd (decline_unpaid E b cur p s1))"
      proof -
        obtain r2 s2 where u: "orders_UpdateStatus (o_ID cur) DECLINED None s1 = (r2, s2)" by force
        have q12: "quiet s1 s2" by (rule UpdateStatus_quiet [OF wf1 u])
        obtain r3 s3 where rel: "ReleaseFunds E b (o_AccountID cur) (p * of_int (o_RemainingPortions cur)) s2 = (r3, s3)" by force
        have "quiet s2 s3" by (rule keeps_quiet [OF keeps_book_funds(5) _ rel]) (use q12 in \<open>simp add: quiet_def\<close>)
        with q12 show ?thesis
          by (simp add: decline_unpaid_def bnd_def ignore_def u rel quiet_trans)
      qed
      have "quiet s s'"
        using run p q m Inl quiet_book [OF wf b] quiet_trans [OF quiet_book [OF wf b] d]
        by (auto simp: fill_def bnd_def attempt_def decline_unpaid_def ignore_def split_beta split: if_splits)
      moreover have "r \<noteq> Inr (Some n)" for n
        using run p q m Inl by (auto simp: fill_def bnd_def attempt_def decline_unpaid_def ignore_def split_beta split: if_splits)
      ultimately show ?thesis by blast
    qed
  qed
qed

lemma forex_cases:
  assumes wf: "orders_wf s" and run: "forex_execute E b cur snap s = (r, s')"
  shows "quiet s s' \<or> fills E (o_ID cur) 0 (o_Quantity cur) (forex_exec_rate E cur snap) s s'"
proof (cases "forex_exec_rate E cur snap = 0")
  case True
  with run wf show ?thesis by (simp add: forex_execute_def quiet_book)
next
  case False
  let ?rate = "forex_exec_rate E cur snap"
  let ?swap = "ForexSwap E b (o_UserID cur) (o_AccountID cur) (ms_ForexBaseCurrency snap) (ms_ForexQuoteCurrency snap)
    (of_int (o_ContractSize cur) * of_int (o_Quantity cur)) ?rate (o_Direction cur)"
  have run: "in_tx (forex_body E b cur snap ?rate) s = (r, s')" using run False by (simp add: forex_execute_def)
  show ?thesis
  proof (cases r)
    case (Inl e)
    with run in_tx_book_Inl [OF keeps_forex_body] wf show ?thesis using quiet_book by blast
  next
    case (Inr u)
    with run obtain s2 where b: "forex_body E b cur snap ?rate (begin_tx s) = (Inr u, s2)" and s': "s' = end_tx s (bump s2)"
      by (auto elim: in_tx_InrE)
    obtain r1 s1 where sw: "?swap (begin_tx s) = (r1, s1)" by force
    have b1: "book s1 = book s" using keepsD [OF keeps_book_funds(6) sw] by simp
    show ?thesis
    proof (cases r1)
      case (Inl e)
      with b sw obtain x where "orders_UpdateStatus (o_ID cur) DECLINED None s1 = (Inr x, s2)"
        by (auto simp: forex_body_def bnd_def attempt_def Let_def split: if_splits prod.splits sum.splits)
      then have "quiet s1 s2" by (rule UpdateStatus_quiet [rotated]) (use wf b1 in \<open>simp add: book_def orders_wf_def\<close>)
      then have "quiet s s2" using quiet_trans [OF quiet_book [OF wf b1]] by blast
      moreover have "quiet s2 s'" by (rule quiet_book) (use calculation s' in \<open>simp_all add: quiet_def\<close>)
      ultimately show ?thesis using quiet_trans by blast
    next
      case (Inr v)
      with b sw obtain t s3 x where c: "orders_CreateTransaction E (o_ID cur) (o_Quantity cur) ?rate s1 = (Inr t, s3)"
        and m: "orders_MarkDone (o_ID cur) s3 = (Inr x, s2)"
        by (auto simp: forex_body_def bnd_def attempt_def Let_def split: if_splits prod.splits sum.splits)
      have "fills E (o_ID cur) 0 (o_Quantity cur) ?rate s s2"
        using CreateTransaction_Inr [OF c] b1 by (simp add: fills_def filled_def MarkDone_Inr [OF m]) (simp add: book_def)
      then show ?thesis by (simp add: s' fills_def)
    qed
  qed
qed

section \<open>Requests\<close>

text \<open>What a request cannot do: take an order id back, touch executions, change what a listing is.\<close>

definition steady :: "int \<Rightarrow> OrderTransaction list \<Rightarrow> (int \<times> ListingType) list \<Rightarrow> db \<Rightarrow> bool" where
  "steady n ts ks s \<longleftrightarrow> n \<le> order_seq s \<and> order_transactions s = ts \<and> kinds s = ks"

lemma clock_free_steady [simp]: "clock_free (steady n ts ks)"
  by (simp add: clock_free_def steady_def kinds_def)

lemma keeps_steady: "keeps (\<lambda>s. (order_seq s, order_transactions s, kinds s)) m \<Longrightarrow> keeps (steady n ts ks) m"
  by (simp add: keeps_def steady_def)

lemma trading_steady: "keeps trading m \<Longrightarrow> keeps (steady n ts ks) m"
  by (rule keeps_steady) (simp add: keeps_def trading_def kinds_def)

lemma keeps_steady_orders [keeps_intros]:
  "keeps (steady n ts ks) (orders_UpdateStatus i st ap)" "keeps (steady n ts ks) (orders_Cancel i)"
  by (rule keeps_order_updates; simp add: steady_def kinds_def)+

lemma keeps_steady_increment [keeps_intros]: "keeps (steady n ts ks) (IncrementUsedLimitAlways E u x)"
  unfolding IncrementUsedLimitAlways_def
  by (intro keeps_intros keeps_update_actuary) (simp_all add: steady_def kinds_def)

lemma keeps_supervisor [keeps_intros]: "clock_free f \<Longrightarrow> keeps f (isSupervisor u)"
  unfolding isSupervisor_def by (intro keeps_intros)

lemma preserves_steady_Create: "preserves (steady n ts ks) (orders_Create E req st)"
  unfolding orders_Create_def insert_order_def
  by (rule preserves_stmt) (auto simp: Let_def steady_def kinds_def split: if_splits)

context funds_manager
begin

lemma keeps_steady_release [keeps_intros]: "keeps (steady n ts ks) (releaseFundsForOrder E F ord)"
  by (rule trading_steady [OF release_frame])

lemma keeps_steady_checks: "keeps (steady n ts ks) (CreateOrder_checks E F req)"
  unfolding CreateOrder_checks_def validateForexSellBalance_def validateSufficientFunds_def resolveStatus_def Let_def
  by (intro keeps_intros clock_free_steady trading_steady frames)

lemma keeps_steady_decisions:
  "keeps (steady n ts ks) (ApproveOrder i v)" "keeps (steady n ts ks) (DeclineOrder E F i v)"
  "keeps (steady n ts ks) (CancelOrder E F i u isSup)"
  unfolding ApproveOrder_def DeclineOrder_def CancelOrder_def
  by (intro keeps_intros clock_free_steady)+

lemma preserves_steady_CreateOrder: "preserves (steady n ts ks) (CreateOrder E F req)"
proof -
  have k: "preserves (steady n ts ks) m" if "keeps (steady n ts ks) m" for m :: "'b dbp"
    using keeps_preserves [OF that, of "\<lambda>x. x"] .
  show ?thesis
    unfolding CreateOrder_def CreateOrder_place_def
    by (intro preserves_intros preserves_steady_Create k keeps_steady_checks)
      (intro keeps_intros trading_steady reserve_frame)+
qed

end

lemma trading_step_quiet:
  assumes "numerics E" and wf: "orders_wf s" and step: "trading_step E s s'"
  shows "quiet s s'"
proof -
  note fm = numerics.fm_ok [OF assms(1)]
  let ?P = "steady (order_seq s) (order_transactions s) (kinds s)"
  have s: "?P s" by (simp add: steady_def)
  from step have "?P s'"
    using s funds_manager.keeps_steady_decisions [OF fm] funds_manager.preserves_steady_CreateOrder [OF fm]
    by (auto elim!: trading_stepE simp: keeps_def preserves_def)
  moreover from trading_step_result [OF assms] obtain os new where "orders s' = os @ new"
    "list_all2 evolves (orders s) os" "list_all (fresh_order (order_seq s)) new" "orders_wf s'"
    by (auto simp: order_result_def table_evolves_def)
  moreover from this(2) have "list_all2 row_quiet (orders s) os"
    by (rule list_all2_mono) (rule evolves_quiet)
  ultimately show ?thesis unfolding quiet_def steady_def by blast
qed

end
