(* ===== verification/Engine_Invariant.thy ===== *)
theory Engine_Invariant
  imports Engine_Properties
begin

text \<open>
  The invariant of the execution engine over every interleaving of requests, price changes, ticks, goroutines
  and restarts: what executed and what remains of an order add up to its quantity, executions respect the
  order's limit, and every goroutine works on a current copy of its order.
\<close>

section \<open>The invariant\<close>

definition executed :: "db \<Rightarrow> int \<Rightarrow> int" where
  "executed s i = (\<Sum>t \<leftarrow> order_transactions s. if ot_OrderID t = i then ot_ExecutedQuantity t else 0)"

text \<open>The price of an order's units (a pair's rate, or the price of a contract) at a limit \<open>p\<close>.\<close>

definition unit_price :: "db \<Rightarrow> Order \<Rightarrow> decimal \<Rightarrow> decimal" where
  "unit_price s ord p = (if is_forex s (o_ListingID ord) then p else of_int (o_ContractSize ord) * p)"

definition within_limit :: "env \<Rightarrow> db \<Rightarrow> Order \<Rightarrow> decimal \<Rightarrow> bool" where
  "within_limit E s ord x \<longleftrightarrow> (case o_PricePerUnit ord of None \<Rightarrow> True | Some p \<Rightarrow>
     (o_OrderType ord = LIMIT \<or> o_OrderType ord = STOP_LIMIT) \<longrightarrow>
       (if o_Direction ord = BUY then x \<le> round6 E (unit_price s ord p) else round6 E (unit_price s ord p) \<le> x))"

definition order_ok :: "env \<Rightarrow> db \<Rightarrow> Order \<Rightarrow> bool" where
  "order_ok E s ord \<longleftrightarrow> executed s (o_ID ord) + o_RemainingPortions ord = o_Quantity ord \<and>
     (o_RemainingPortions ord = 0 \<longrightarrow> o_IsDone ord) \<and>
     (is_forex s (o_ListingID ord) \<longrightarrow> o_RemainingPortions ord = o_Quantity ord \<or> o_IsDone ord) \<and>
     list_all (\<lambda>t. ot_OrderID t = o_ID ord \<longrightarrow> within_limit E s ord (ot_ExecutedPrice t)) (order_transactions s)"

definition engine_ok :: "env \<Rightarrow> db \<Rightarrow> bool" where
  "engine_ok E s \<longleftrightarrow> orders_wf s \<and> list_all (\<lambda>t. ot_OrderID t < order_seq s) (order_transactions s) \<and>
     list_all (order_ok E s) (orders s)"

definition stage_ok :: "db \<Rightarrow> Order \<Rightarrow> stage \<Rightarrow> bool" where
  "stage_ok s row st = (let fx = is_forex s (o_ListingID row) in case st of
       FillReady cur snap \<Rightarrow> \<not> fx \<and> fixed cur = fixed row \<and> o_RemainingPortions cur = o_RemainingPortions row \<and>
         0 < o_RemainingPortions cur
     | ForexReady cur snap \<Rightarrow> fx \<and> fixed cur = fixed row \<and> o_RemainingPortions row = o_Quantity row
     | FillTop \<Rightarrow> \<not> fx | AfterHoursPause snap \<Rightarrow> \<not> fx | AwaitOpen snap \<Rightarrow> \<not> fx | Sleeping w \<Rightarrow> \<not> fx
     | ForexAwaitOpen snap \<Rightarrow> fx
     | _ \<Rightarrow> True)"

definition thread_ok :: "db \<Rightarrow> Order \<times> stage \<Rightarrow> bool" where
  "thread_ok s g \<longleftrightarrow> list_ex (\<lambda>row. fixed (fst g) = fixed row \<and> stage_ok s row (snd g)) (orders s)"

definition listed :: "db \<Rightarrow> Order \<Rightarrow> bool" where
  "listed s ord \<longleftrightarrow> list_ex (\<lambda>row. fixed ord = fixed row) (orders s)"

definition tick_orders :: "tick_phase \<Rightarrow> Order list" where
  "tick_orders t = (case t of TickIdle \<Rightarrow> [] | TickPending os \<Rightarrow> os | TickApproved os \<Rightarrow> os)"

definition engine_inv :: "env \<Rightarrow> engine_state \<Rightarrow> bool" where
  "engine_inv E c \<longleftrightarrow> engine_ok E (es_db c) \<and>
     (\<forall>i g. es_active c i = Some g \<longrightarrow> o_ID (fst g) = i \<and> thread_ok (es_db c) g) \<and>
     list_all (listed (es_db c)) (tick_orders (es_tick c))"

lemma engine_inv_thread:
  "engine_inv E c \<Longrightarrow> es_active c i = Some g \<Longrightarrow> o_ID (fst g) = i \<and> thread_ok (es_db c) g"
  by (cases g) (simp add: engine_inv_def)

section \<open>What a step does to the rows\<close>

text \<open>Rows outside \<open>J\<close> keep their portions, all keep their terms.\<close>

definition rows_keep :: "int set \<Rightarrow> db \<Rightarrow> db \<Rightarrow> bool" where
  "rows_keep J s s' \<longleftrightarrow> kinds s' = kinds s \<and> (\<forall>row \<in> set (orders s). \<exists>row' \<in> set (orders s').
     fixed row' = fixed row \<and> (o_ID row \<notin> J \<longrightarrow> o_RemainingPortions row' = o_RemainingPortions row))"

lemma fixed_fields:
  assumes "fixed a = fixed b"
  shows "o_ID a = o_ID b" "o_ListingID a = o_ListingID b" "o_Quantity a = o_Quantity b" "o_Direction a = o_Direction b"
    "o_OrderType a = o_OrderType b" "o_ContractSize a = o_ContractSize b" "o_PricePerUnit a = o_PricePerUnit b"
  using assms by (simp_all add: fixed_def)

lemma quiet_forward:
  assumes "quiet s s'" and "row \<in> set (orders s)"
  shows "\<exists>row' \<in> set (orders s'). row_quiet row row'"
proof -
  from assms(1) obtain os new where "orders s' = os @ new" "list_all2 row_quiet (orders s) os" by (auto simp: quiet_def)
  with assms(2) show ?thesis by (fastforce simp: list_all2_conv_all_nth in_set_conv_nth nth_append)
qed

lemma quiet_back:
  assumes "quiet s s'" and "row' \<in> set (orders s')"
  shows "(\<exists>row \<in> set (orders s). row_quiet row row') \<or> fresh_order (order_seq s) row'"
proof -
  from assms(1) obtain os new where o: "orders s' = os @ new" "list_all2 row_quiet (orders s) os"
    "list_all (fresh_order (order_seq s)) new" by (auto simp: quiet_def)
  then consider "row' \<in> set os" | "row' \<in> set new" using assms(2) by auto
  then show ?thesis
  proof cases
    case 1
    with o(2) show ?thesis by (fastforce simp: list_all2_conv_all_nth in_set_conv_nth)
  qed (use o(3) in \<open>simp add: list_all_iff\<close>)
qed

lemma quiet_rows_keep:
  assumes "quiet s s'"
  shows "rows_keep J s s'"
proof -
  have "\<exists>row' \<in> set (orders s'). fixed row' = fixed row \<and> (o_ID row \<notin> J \<longrightarrow> o_RemainingPortions row' = o_RemainingPortions row)"
    if "row \<in> set (orders s)" for row
    using quiet_forward [OF assms that] by (auto simp: row_quiet_def)
  with assms show ?thesis by (simp add: rows_keep_def quiet_def)
qed

lemma is_forex_cong: "kinds s' = kinds s \<Longrightarrow> is_forex s' = is_forex s"
  by (simp add: is_forex_def fun_eq_iff)

lemma order_ok_cong:
  assumes "order_transactions s' = order_transactions s" "kinds s' = kinds s" "row_quiet a b" "order_ok E s a"
  shows "order_ok E s' b"
proof -
  have "fixed b = fixed a" using assms(3) by (simp add: row_quiet_def)
  note f = fixed_fields [OF this]
  have "within_limit E s' b = within_limit E s a"
    by (cases "o_PricePerUnit a") (simp_all add: fun_eq_iff within_limit_def unit_price_def is_forex_cong [OF assms(2)] f)
  with assms(3,4) show ?thesis
    by (auto simp: order_ok_def executed_def row_quiet_def is_forex_cong [OF assms(2)] assms(1) f)
qed

lemma executed_new: "list_all (\<lambda>t. ot_OrderID t < n) (order_transactions s) \<Longrightarrow> n \<le> i \<Longrightarrow> executed s i = 0"
proof -
  have "list_all (\<lambda>t. ot_OrderID t < n) ts \<Longrightarrow> n \<le> i \<Longrightarrow> (\<Sum>t \<leftarrow> ts. if ot_OrderID t = i then ot_ExecutedQuantity t else 0) = 0" for ts
    by (induction ts) auto
  then show "list_all (\<lambda>t. ot_OrderID t < n) (order_transactions s) \<Longrightarrow> n \<le> i \<Longrightarrow> executed s i = 0"
    by (simp add: executed_def)
qed

lemma engine_ok_quiet:
  assumes ok: "engine_ok E s" and q: "quiet s s'"
  shows "engine_ok E s'"
proof -
  from q have t: "order_transactions s' = order_transactions s" "kinds s' = kinds s" "order_seq s \<le> order_seq s'"
    and wf: "orders_wf s'" by (auto simp: quiet_def)
  from ok have tx: "list_all (\<lambda>t. ot_OrderID t < order_seq s) (order_transactions s)" by (simp add: engine_ok_def)
  have "order_ok E s' b" if "b \<in> set (orders s')" for b
  proof (cases "fresh_order (order_seq s) b")
    case True
    then have "executed s' (o_ID b) = 0" using executed_new [OF tx] t by (simp add: executed_def fresh_order_def)
    moreover have "0 < o_Quantity b" using wf that by (auto simp: orders_wf_def list_all_iff)
    moreover have "\<not> ot_OrderID u = o_ID b" if "u \<in> set (order_transactions s')" for u
      using tx that True t by (auto simp: list_all_iff fresh_order_def)
    ultimately show ?thesis using True by (auto simp: order_ok_def fresh_order_def list_all_iff)
  next
    case False
    with quiet_back [OF q that] obtain a where "a \<in> set (orders s)" "row_quiet a b" by blast
    with ok t order_ok_cong show ?thesis by (auto simp: engine_ok_def list_all_iff)
  qed
  with wf tx t show ?thesis by (fastforce simp: engine_ok_def list_all_iff)
qed

lemma filled_row: "fixed (filled n ord) = fixed ord" "o_RemainingPortions (filled n ord) = n" "o_IsDone (filled n ord) = (n = 0)"
  by (simp_all add: filled_def set_done_def set_remaining_def fixed_def)

lemma within_limit_cong:
  assumes "kinds s' = kinds s" and "fixed b = fixed a"
  shows "within_limit E s' b = within_limit E s a"
  by (cases "o_PricePerUnit a")
    (simp_all add: fun_eq_iff within_limit_def unit_price_def is_forex_cong [OF assms(1)] fixed_fields [OF assms(2)])

lemma unique_row:
  assumes "orders_wf s" "a \<in> set (orders s)" "b \<in> set (orders s)" "o_ID a = o_ID b"
  shows "a = b"
  using assms inj_onD [of o_ID "set (orders s)" a b] by (simp add: orders_wf_def distinct_map)

text \<open>The tables after a fill of \<open>row\<close>.\<close>

definition fills_row :: "env \<Rightarrow> Order \<Rightarrow> int \<Rightarrow> decimal \<Rightarrow> db \<Rightarrow> db \<Rightarrow> bool" where
  "fills_row E row q p s s' \<longleftrightarrow> 0 < q \<and> q \<le> o_RemainingPortions row \<and> order_seq s' = order_seq s \<and> kinds s' = kinds s \<and>
     orders_wf s' \<and>
     order_transactions s' = order_transactions s @
       [\<lparr>ot_OrderID = o_ID row, ot_ExecutedQuantity = q, ot_ExecutedPrice = round6 E p\<rparr>] \<and>
     set (orders s') = insert (filled (o_RemainingPortions row - q) row) {a \<in> set (orders s). o_ID a \<noteq> o_ID row}"

lemma fills_row:
  assumes wf: "orders_wf s" and f: "fills E i n q p s s'" and row: "row \<in> set (orders s)" "o_ID row = i"
    and n: "n = o_RemainingPortions row - q"
  shows "fills_row E row q p s s'"
proof -
  from f have q: "0 < q" and o: "orders s' = upd_order i (filled n) (orders s)" "order_seq s' = order_seq s"
    "kinds s' = kinds s" and n0: "0 \<le> n" and t: "order_transactions s' = order_transactions s @
       [\<lparr>ot_OrderID = o_ID row, ot_ExecutedQuantity = q, ot_ExecutedPrice = round6 E p\<rparr>]"
    using row by (auto simp: fills_def book_def)
  have u: "ord = row" if "ord \<in> set (orders s)" "o_ID ord = i" for ord
    using unique_row [OF wf that(1) row(1)] that row by simp
  have set: "set (orders s') = insert (filled n row) {a \<in> set (orders s). o_ID a \<noteq> i}"
    unfolding o(1) upd_order_def upd_where_def using row by (auto simp: image_iff dest: u)
  have "map o_ID (orders s') = map o_ID (orders s)"
    unfolding o(1) upd_order_def by (rule map_upd_where) (rule fixed_fields(1) [OF filled_row(1)])
  moreover have "o_ID row < order_seq s" "o_RemainingPortions row \<le> o_Quantity row" "0 < o_Quantity row" "0 < o_ContractSize row"
    using wf row by (auto simp: orders_wf_def list_all_iff)
  moreover note b = fixed_fields [OF filled_row(1), of n row] filled_row(2) [of n row]
  ultimately have "o_ID (filled n row) < order_seq s \<and> 0 < o_Quantity (filled n row) \<and> 0 < o_ContractSize (filled n row) \<and>
     0 \<le> o_RemainingPortions (filled n row) \<and> o_RemainingPortions (filled n row) \<le> o_Quantity (filled n row)"
    and "map o_ID (orders s') = map o_ID (orders s)"
    using q n0 n by (simp_all add: b)
  then have "orders_wf s'"
    using wf unfolding orders_wf_def list_all_iff set o(2) by auto
  with q o t n0 n set row show ?thesis by (simp add: fills_row_def)
qed

lemma order_ok_filled:
  assumes f: "fills_row E row q p s s'" and ok: "order_ok E s row" and lim: "within_limit E s row (round6 E p)"
    and fx: "is_forex s (o_ListingID row) \<longrightarrow> q = o_RemainingPortions row"
  shows "order_ok E s' (filled (o_RemainingPortions row - q) row)"
proof -
  let ?b = "filled (o_RemainingPortions row - q) row"
  have k: "kinds s' = kinds s" and t: "order_transactions s' = order_transactions s @
       [\<lparr>ot_OrderID = o_ID row, ot_ExecutedQuantity = q, ot_ExecutedPrice = round6 E p\<rparr>]"
    using f by (simp_all add: fills_row_def)
  note b = fixed_fields [OF filled_row(1), of "o_RemainingPortions row - q" row] filled_row(2,3)
    within_limit_cong [OF k filled_row(1)] is_forex_cong [OF k]
  have "executed s' (o_ID row) = executed s (o_ID row) + q" by (simp add: executed_def t)
  with ok lim fx show ?thesis by (auto simp: order_ok_def b t)
qed

lemma order_ok_other:
  assumes f: "fills_row E row q p s s'" and ok: "order_ok E s ord" and "o_ID ord \<noteq> o_ID row"
  shows "order_ok E s' ord"
proof -
  have k: "kinds s' = kinds s" and t: "order_transactions s' = order_transactions s @
       [\<lparr>ot_OrderID = o_ID row, ot_ExecutedQuantity = q, ot_ExecutedPrice = round6 E p\<rparr>]"
    using f by (simp_all add: fills_row_def)
  with ok assms(3) show ?thesis
    by (auto simp: order_ok_def executed_def is_forex_cong [OF k] within_limit_cong [OF k refl])
qed

lemma engine_ok_fills:
  assumes ok: "engine_ok E s" and f: "fills_row E row q p s s'" and row: "row \<in> set (orders s)"
    and lim: "within_limit E s row (round6 E p)"
    and fx: "is_forex s (o_ListingID row) \<longrightarrow> q = o_RemainingPortions row"
  shows "engine_ok E s' \<and> rows_keep {o_ID row} s s'"
proof
  have r: "order_ok E s row" and i: "o_ID row < order_seq s"
    using ok row by (auto simp: engine_ok_def orders_wf_def list_all_iff)
  have "order_ok E s' b" if "b \<in> set (orders s')" for b
  proof (cases "b = filled (o_RemainingPortions row - q) row")
    case True
    with order_ok_filled [OF f r lim fx] show ?thesis by simp
  next
    case False
    with that f have "b \<in> set (orders s)" "o_ID b \<noteq> o_ID row" by (auto simp: fills_row_def)
    with ok order_ok_other [OF f] show ?thesis by (simp add: engine_ok_def list_all_iff)
  qed
  then show "engine_ok E s'" using f ok i by (simp add: engine_ok_def list_all_iff fills_row_def)
  have "\<exists>b \<in> set (orders s'). fixed b = fixed a \<and> (o_ID a \<notin> {o_ID row} \<longrightarrow> o_RemainingPortions b = o_RemainingPortions a)"
    if "a \<in> set (orders s)" for a
  proof (cases "o_ID a = o_ID row")
    case True
    then have "a = row" using unique_row [of s a row] ok row that by (simp add: engine_ok_def)
    with f show ?thesis by (auto simp: fills_row_def filled_row)
  next
    case False
    with f that show ?thesis by (auto simp: fills_row_def)
  qed
  with f show "rows_keep {o_ID row} s s'" by (simp add: rows_keep_def fills_row_def)
qed

section \<open>Prices\<close>

context numerics
begin

lemma fill_price_ok:
  assumes "resolveExecutionPrice E cur (effective_type ord) snap = Inr p" and c: "fixed cur = fixed row"
    and o: "fixed ord = fixed row" and "0 < o_ContractSize row" and "\<not> is_forex s (o_ListingID row)"
  shows "within_limit E s row (round6 E p)"
proof (cases "o_PricePerUnit row")
  case None
  then show ?thesis by (simp add: within_limit_def)
next
  case (Some l)
  have "effective_type ord = LIMIT" if "o_OrderType row = LIMIT \<or> o_OrderType row = STOP_LIMIT"
    using that by (auto simp: effective_type_def fixed_fields [OF o])
  with assms Some show ?thesis
    by (auto simp: resolveExecutionPrice_def within_limit_def unit_price_def fixed_fields [OF c] Let_def
        intro!: round6_mono mult_left_mono split: if_splits)
qed

lemma forex_price_ok:
  assumes c: "fixed cur = fixed row" and "is_forex s (o_ListingID row)"
  shows "within_limit E s row (round6 E (forex_exec_rate E cur snap))"
  using assms(2) by (auto simp: within_limit_def unit_price_def forex_exec_rate_def fixed_fields [OF c] Let_def
      intro!: round6_mono split: option.splits)

end

section \<open>One goroutine\<close>

lemma thread_okI: "row \<in> set (orders s) \<Longrightarrow> fixed ord = fixed row \<Longrightarrow> stage_ok s row st \<Longrightarrow> thread_ok s (ord, st)"
  by (auto simp: thread_ok_def list_ex_iff)

text \<open>What the engine needs of the exchange it asks (\<open>ExchangeChecker\<close>): asking changes nothing of the book.\<close>

locale execution_engine = numerics +
  fixes X :: engine
  assumes checker_reads: "eng_exchange X = Some isOpen \<Longrightarrow> keeps book (isOpen i)"

text \<open>The engine as \<open>cmd/main.go\<close> wires it, with the exchange service and the fund repository.\<close>

definition bank_engine :: "env \<Rightarrow> engine" where
  "bank_engine E = \<lparr>eng_exchange = Some (IsExchangeOpen E), eng_fundRepo = True\<rparr>"

sublocale numerics \<subseteq> bank: execution_engine E "bank_engine E"
  by unfold_locales (auto simp: bank_engine_def intro: keeps_exchange_reads)

context numerics
begin

lemma bank_engine_ok: "execution_engine E (bank_engine E)"
  by (rule bank.execution_engine_axioms)

end

lemma refetch_some:
  assumes "refetch ord k s = (Inr (Some st), s')"
  shows "\<exists>cur. order_of s (o_ID ord) = Some cur \<and> still_active cur \<and> k cur (bump s) = (Inr (Some st), s')"
proof -
  from assms obtain cur s1 where g: "orders_GetByID (o_ID ord) s = (Inr cur, s1)"
    and k: "(if \<not> still_active cur then ret None else k cur) s1 = (Inr (Some st), s')"
    unfolding refetch_def by (rule bnd_InrE)
  from orders_GetByID_Inr [OF g] k show ?thesis by (auto split: if_splits)
qed

lemma row_active:
  assumes "engine_ok E s" "row \<in> set (orders s)" "still_active row"
  shows "0 < o_RemainingPortions row" "is_forex s (o_ListingID row) \<Longrightarrow> o_RemainingPortions row = o_Quantity row"
proof -
  from assms have "order_ok E s row" "0 \<le> o_RemainingPortions row" "\<not> o_IsDone row"
    by (auto simp: engine_ok_def orders_wf_def list_all_iff still_active_def)
  then show "0 < o_RemainingPortions row" "is_forex s (o_ListingID row) \<Longrightarrow> o_RemainingPortions row = o_Quantity row"
    by (auto simp: order_ok_def)
qed

lemma order_of_book: "book s' = book s \<Longrightarrow> order_of s' i = order_of s i"
  by (simp add: book_def order_of_def)

text \<open>A goroutine that reads its order again gets the row.\<close>

lemma refetch_row:
  assumes ok: "engine_ok E s" and row: "row \<in> set (orders s)" and o: "fixed ord = fixed row" and b: "book s1 = book s"
    and run: "refetch ord k s1 = (Inr (Some st), s')"
  shows "still_active row" "k row (bump s1) = (Inr (Some st), s')"
proof -
  from refetch_some [OF run] obtain cur where c: "order_of s (o_ID row) = Some cur" "still_active cur"
    "k cur (bump s1) = (Inr (Some st), s')" by (auto simp: order_of_book [OF b] fixed_fields(1) [OF o])
  then have "cur = row" using ok row order_of_unique [of s row] by (simp add: engine_ok_def orders_wf_def)
  with c show "still_active row" "k row (bump s1) = (Inr (Some st), s')" by simp_all
qed

context execution_engine
begin

lemma keeps_exchange_polls [keeps_intros]: "keeps book (exchange_poll X i)" "keeps book (isExchangeClosed X i)"
proof -
  show "keeps book (exchange_poll X i)"
    unfolding exchange_poll_def by (cases "eng_exchange X") (auto intro!: keeps_intros checker_reads)
  show "keeps book (isExchangeClosed X i)"
    unfolding isExchangeClosed_def by (cases "eng_exchange X") (auto intro!: keeps_intros checker_reads)
qed

lemma keeps_refetch: "(\<And>cur. keeps book (k cur)) \<Longrightarrow> keeps book (refetch ord k)"
  unfolding refetch_def by (intro keeps_intros) auto

lemma keeps_polls [keeps_intros]:
  "keeps book (stop_poll E ord)" "keeps book (limit_poll E ord ptick)" "keeps book (execute_start ord)"
  "keeps book (fill_top X ord)" "keeps book (forex_ready ord)"
  unfolding stop_poll_def limit_poll_def execute_start_def fill_top_def forex_ready_def
  by (intro keeps_intros keeps_refetch clock_free_book)+

lemma keeps_waiting:
  assumes "\<And>cur snap. st \<noteq> FillReady cur snap" "\<And>cur snap. st \<noteq> ForexReady cur snap"
  shows "keeps book (advance E X draw w ptick ord st)"
  using assms unfolding advance_def
  by (cases st) (auto intro!: keeps_intros keeps_refetch)

lemma waiting_stage:
  assumes ok: "engine_ok E s" and row: "row \<in> set (orders s)" and o: "fixed ord = fixed row" and st: "stage_ok s row st"
    and w: "\<And>cur snap. st \<noteq> FillReady cur snap" "\<And>cur snap. st \<noteq> ForexReady cur snap"
    and run: "advance E X draw w ptick ord st s = (Inr (Some st'), s')"
  shows "stage_ok s row st'"
proof (cases st)
  case AwaitStop
  with run show ?thesis by (auto simp: advance_def after_stop_def enter_limit_def stage_ok_def elim!: bnd_InrE split: option.splits if_splits)
next
  case AwaitLimit
  with run show ?thesis by (auto simp: advance_def stage_ok_def elim!: bnd_InrE split: option.splits if_splits)
next
  case Execute
  with run have "execute_start ord s = (Inr (Some st'), s')" by (simp add: advance_def)
  then obtain snap s1 where g: "GetMarketSnapshot (o_ListingID ord) s = (Inr snap, s1)"
    and r: "(if ms_ListingType snap = LT_FOREX then refetch ord (\<lambda>_. ret (Some (ForexAwaitOpen snap))) else ret (Some FillTop)) s1
      = (Inr (Some st'), s')" unfolding execute_start_def by (rule bnd_InrE)
  from GetMarketSnapshot_Inr [OF g] listing_of_kind have "is_forex s (o_ListingID row) \<longleftrightarrow> ms_ListingType snap = LT_FOREX"
    by (auto simp: is_forex_def fixed_fields [OF o])
  with r show ?thesis by (auto simp: stage_ok_def dest!: refetch_some split: if_splits)
next
  case FillTop
  with run have "fill_top X ord s = (Inr (Some st'), s')" by (simp add: advance_def)
  then obtain cur snap where "st' = AfterHoursPause snap \<or> st' = AwaitOpen snap"
    unfolding fill_top_def by (auto dest!: refetch_some elim!: bnd_InrE split: if_splits)
  with st FillTop show ?thesis by (auto simp: stage_ok_def)
next
  case (AfterHoursPause snap)
  with run have r: "refetch ord (\<lambda>_. refetch ord (\<lambda>current. ret (Some (FillReady current snap)))) s = (Inr (Some st'), s')"
    by (simp add: advance_def)
  note a = refetch_row [OF ok row o refl r]
  have "st' = FillReady row snap" using refetch_row(2) [OF ok row o _ a(2)] by simp
  with row_active [OF ok row a(1)] st AfterHoursPause show ?thesis by (simp add: stage_ok_def)
next
  case (AwaitOpen snap)
  with run obtain op s1 where x: "exchange_poll X (ms_ExchangeID snap) s = (Inr op, s1)"
    and r: "(if op then refetch ord (\<lambda>current. ret (Some (FillReady current snap))) else ret (Some st)) s1 = (Inr (Some st'), s')"
    by (auto simp: advance_def elim: bnd_InrE)
  note a = refetch_row [OF ok row o keepsD [OF keeps_exchange_polls(1) x]]
  show ?thesis
  proof (cases op)
    case True
    with r a have "still_active row" "st' = FillReady row snap" by fastforce+
    with row_active [OF ok row] st AwaitOpen show ?thesis by (simp add: stage_ok_def)
  qed (use r st AwaitOpen in simp)
next
  case (ForexAwaitOpen snap)
  with run obtain op s1 where x: "exchange_poll X (ms_ExchangeID snap) s = (Inr op, s1)"
    and r: "(if op then forex_ready ord else ret (Some st)) s1 = (Inr (Some st'), s')"
    by (auto simp: advance_def elim: bnd_InrE)
  note a = refetch_row [OF ok row o keepsD [OF keeps_exchange_polls(1) x]]
  show ?thesis
  proof (cases op)
    case True
    with r have f: "forex_ready ord s1 = (Inr (Some st'), s')" by simp
    obtain sn where "st' = ForexReady row sn"
      using a(2) [OF f [unfolded forex_ready_def]] by (auto elim!: bnd_InrE split: sum.splits)
    with row_active [OF ok row a(1) [OF f [unfolded forex_ready_def]]] st ForexAwaitOpen show ?thesis by (simp add: stage_ok_def)
  qed (use r st ForexAwaitOpen in simp)
qed (use run st w in \<open>auto simp: advance_def stage_ok_def\<close>)

lemma waiting:
  assumes ok: "engine_ok E s" and row: "row \<in> set (orders s)" and o: "fixed ord = fixed row" and st: "stage_ok s row st"
    and w: "\<And>cur snap. st \<noteq> FillReady cur snap" "\<And>cur snap. st \<noteq> ForexReady cur snap"
    and run: "advance E X draw w ptick ord st s = (r, s')"
  shows "engine_ok E s' \<and> rows_keep J s s' \<and> (\<forall>st'. r = Inr (Some st') \<longrightarrow> thread_ok s' (ord, st'))"
proof -
  have b: "book s' = book s" by (rule keepsD [OF keeps_waiting run]) (use w in auto)
  then have q: "quiet s s'" using ok by (simp add: engine_ok_def quiet_book)
  have "thread_ok s' (ord, st')" if "r = Inr (Some st')" for st'
  proof -
    have "stage_ok s row st'" by (rule waiting_stage [OF ok row o st w run [unfolded that]])
    with b row o show ?thesis
      by (auto simp: thread_ok_def list_ex_iff stage_ok_def book_def is_forex_def)
  qed
  with engine_ok_quiet [OF ok q] quiet_rows_keep [OF q] show ?thesis by blast
qed

lemma fill_turn:
  assumes ok: "engine_ok E s" and row: "row \<in> set (orders s)" and o: "fixed ord = fixed row"
    and st: "stage_ok s row (FillReady cur snap)" and run: "fill E X b (effective_type ord) draw cur snap s = (r, s')"
  shows "engine_ok E s' \<and> rows_keep {o_ID ord} s s'"
proof -
  have wf: "orders_wf s" using ok by (simp add: engine_ok_def)
  from st have c: "fixed cur = fixed row" "o_RemainingPortions cur = o_RemainingPortions row" "\<not> is_forex s (o_ListingID row)"
    by (simp_all add: stage_ok_def)
  from fill_cases [OF wf run] consider "quiet s s'" | p q where "resolveExecutionPrice E cur (effective_type ord) snap = Inr p"
    "fills E (o_ID cur) (o_RemainingPortions cur - q) q p s s'" by blast
  then show ?thesis
  proof cases
    case 1
    with engine_ok_quiet [OF ok] quiet_rows_keep show ?thesis by blast
  next
    case 2
    have "fills_row E row q p s s'"
      by (rule fills_row [OF wf 2(2) row]) (simp_all add: c fixed_fields(1) [OF c(1)])
    moreover have "within_limit E s row (round6 E p)"
      by (rule fill_price_ok [OF 2(1) c(1) o _ c(3)]) (use wf row in \<open>auto simp: orders_wf_def list_all_iff\<close>)
    ultimately have "engine_ok E s' \<and> rows_keep {o_ID row} s s'" by (rule engine_ok_fills [OF ok _ row]) (simp add: c)
    then show ?thesis by (simp add: fixed_fields(1) [OF o])
  qed
qed

lemma forex_turn:
  assumes ok: "engine_ok E s" and row: "row \<in> set (orders s)" and o: "fixed ord = fixed row"
    and st: "stage_ok s row (ForexReady cur snap)" and run: "forex_execute E b cur snap s = (r, s')"
  shows "engine_ok E s' \<and> rows_keep {o_ID ord} s s'"
proof -
  have wf: "orders_wf s" using ok by (simp add: engine_ok_def)
  from st have c: "fixed cur = fixed row" "is_forex s (o_ListingID row)" "o_RemainingPortions row = o_Quantity row"
    by (simp_all add: stage_ok_def)
  let ?p = "forex_exec_rate E cur snap"
  from forex_cases [OF wf run] consider "quiet s s'" | "fills E (o_ID cur) 0 (o_Quantity cur) ?p s s'" by blast
  then show ?thesis
  proof cases
    case 1
    with engine_ok_quiet [OF ok] quiet_rows_keep show ?thesis by blast
  next
    case 2
    have "fills_row E row (o_Quantity row) ?p s s'"
      by (rule fills_row [OF wf 2 [unfolded fixed_fields [OF c(1)]] row]) (simp_all add: c)
    then have "engine_ok E s' \<and> rows_keep {o_ID row} s s'"
      by (rule engine_ok_fills [OF ok _ row forex_price_ok [OF c(1,2)]]) (simp add: c)
    then show ?thesis by (simp add: fixed_fields(1) [OF o])
  qed
qed

lemma advance_ok:
  assumes ok: "engine_ok E s" and th: "thread_ok s (ord, st)" and run: "advance E X draw w ptick ord st s = (r, s')"
  shows "engine_ok E s' \<and> rows_keep {o_ID ord} s s' \<and> (\<forall>st'. r = Inr (Some st') \<longrightarrow> thread_ok s' (ord, st'))"
proof -
  from th obtain row where row: "row \<in> set (orders s)" and o: "fixed ord = fixed row" and st: "stage_ok s row st"
    by (auto simp: thread_ok_def list_ex_iff)
  show ?thesis
  proof (cases st)
    case (FillReady cur snap)
    with run obtain r1 where f: "fill E X (o_IsClient ord) (effective_type ord) draw cur snap s = (r1, s')"
      and r: "\<forall>st'. r = Inr (Some st') \<longrightarrow> (\<exists>w. st' = Sleeping w)"
      by (auto simp: advance_def bnd_def split: prod.splits sum.splits)
    note t = fill_turn [OF ok row o st [unfolded FillReady] f]
    then obtain row' where row': "row' \<in> set (orders s')" "fixed row' = fixed row" and k: "kinds s' = kinds s"
      using row by (auto simp: rows_keep_def)
    have "stage_ok s' row' (Sleeping w)" for w
      using st FillReady by (simp add: stage_ok_def is_forex_cong [OF k] fixed_fields [OF row'(2)])
    then have "thread_ok s' (ord, Sleeping w)" for w by (intro thread_okI [OF row'(1)]) (simp_all add: o row'(2))
    with t r show ?thesis by blast
  next
    case (ForexReady cur snap)
    with run obtain r1 where f: "forex_execute E (o_IsClient ord) cur snap s = (r1, s')" and r: "\<forall>st'. r \<noteq> Inr (Some st')"
      by (auto simp: advance_def bnd_def split: prod.splits sum.splits)
    with forex_turn [OF ok row o st [unfolded ForexReady] f] show ?thesis by simp
  qed (use waiting [OF ok row o st _ _ run] in simp_all)
qed

end

section \<open>Every interleaving\<close>

lemma thread_ok_rows:
  assumes "rows_keep J s s'" and "o_ID ord \<notin> J" and "thread_ok s (ord, st)"
  shows "thread_ok s' (ord, st)"
proof -
  from assms(3) obtain row where row: "row \<in> set (orders s)" and o: "fixed ord = fixed row" and st: "stage_ok s row st"
    by (auto simp: thread_ok_def list_ex_iff)
  with assms(1,2) obtain row' where r: "row' \<in> set (orders s')" "fixed row' = fixed row"
    "o_RemainingPortions row' = o_RemainingPortions row" and k: "kinds s' = kinds s"
    by (auto simp: rows_keep_def fixed_fields(1) [OF o])
  have "stage_ok s' row' st"
    using st by (cases st) (simp_all add: stage_ok_def is_forex_cong [OF k] fixed_fields [OF r(2)] r(2,3))
  then show ?thesis by (intro thread_okI [OF r(1)]) (simp_all add: o r(2))
qed

lemma listed_rows: "rows_keep J s s' \<Longrightarrow> listed s ord \<Longrightarrow> listed s' ord"
  by (auto simp: listed_def rows_keep_def list_ex_iff) metis

lemma engine_inv_db:
  assumes inv: "engine_inv E c" and ok: "engine_ok E s'" and keep: "rows_keep {} (es_db c) s'"
  shows "engine_inv E (c\<lparr>es_db := s'\<rparr>)"
  using inv ok listed_rows [OF keep] thread_ok_rows [OF keep]
  by (auto simp: engine_inv_def list_all_iff)

lemma engine_inv_quiet: "engine_inv E c \<Longrightarrow> quiet (es_db c) s' \<Longrightarrow> engine_inv E (c\<lparr>es_db := s'\<rparr>)"
  by (rule engine_inv_db) (auto simp: engine_inv_def intro: engine_ok_quiet quiet_rows_keep)

text \<open>The ticker.\<close>

lemma check_quiet:
  assumes wf: "orders_wf s"
  shows "quiet s (snd (check_pending ord s))" "quiet s (snd (check_approved ord s))"
proof -
  obtain r1 s1 where g: "GetMarketSnapshot (o_ListingID ord) s = (r1, s1)" by force
  have q1: "quiet s s1" by (rule keeps_quiet [OF keeps_GetMarketSnapshot wf g]) simp
  obtain r2 s2 where u: "orders_UpdateStatus (o_ID ord) DECLINED None s1 = (r2, s2)" by force
  have "quiet s1 s2" by (rule UpdateStatus_quiet [OF _ u]) (use q1 in \<open>simp add: quiet_def\<close>)
  with q1 have q2: "quiet s s2" by (rule quiet_trans)
  show "quiet s (snd (check_pending ord s))" "quiet s (snd (check_approved ord s))"
    using q1 q2 by (auto simp: check_pending_def check_approved_def bnd_def attempt_def ignore_def g u split: sum.splits)
qed

lemma ListByStatus_listed:
  assumes "orders_ListByStatus st s = (Inr os, s')"
  shows "list_all (listed s) os"
  using assms by (auto simp: orders_ListByStatus_def list_all_iff listed_def list_ex_iff dest!: query_InrD)

lemma runOrder_stage: "runOrder ord = Some st \<Longrightarrow> stage_ok s row st"
  by (auto simp: runOrder_def after_stop_def enter_limit_def stage_ok_def split: OrderType.splits if_splits)

lemma spawn_inv:
  assumes inv: "engine_inv E c" and l: "listed (es_db c) ord"
  shows "engine_inv E (c\<lparr>es_active := spawn ord (es_active c)\<rparr>)"
proof -
  have "o_ID (fst g) = i \<and> thread_ok (es_db c) g" if g: "spawn ord (es_active c) i = Some g" for i g
  proof (cases "es_active c i = Some g")
    case True
    with engine_inv_thread [OF inv] show ?thesis .
  next
    case False
    with g obtain st where g: "i = o_ID ord" "g = (ord, st)" "runOrder ord = Some st"
      by (auto simp: spawn_def split: if_splits)
    with l runOrder_stage [OF g(3)] show ?thesis by (auto simp: listed_def list_ex_iff intro: thread_okI)
  qed
  with inv show ?thesis by (simp add: engine_inv_def)
qed

lemma engine_inv_tick:
  "engine_inv E c \<Longrightarrow> list_all (listed (es_db c)) (tick_orders t) \<Longrightarrow> engine_inv E (c\<lparr>es_tick := t\<rparr>)"
  by (simp add: engine_inv_def)

lemma list_tick_inv:
  assumes inv: "engine_inv E c" and run: "orders_ListByStatus st (es_db c) = (r, s)"
    and t: "\<And>os. r = Inr os \<Longrightarrow> tick_orders t = os" "\<And>e. r = Inl e \<Longrightarrow> tick_orders t = []"
  shows "engine_inv E (c\<lparr>es_db := s, es_tick := t\<rparr>)"
proof -
  have wf: "orders_wf (es_db c)" using inv by (simp add: engine_inv_def engine_ok_def)
  have b: "book s = book (es_db c)" by (rule keepsD [OF keeps_order_reads(3) run]) simp
  have "list_all (listed s) (tick_orders t)"
  proof (cases r)
    case (Inr os)
    from ListByStatus_listed [OF run [unfolded Inr]] t(1) [OF Inr] b show ?thesis
      by (simp add: listed_def [abs_def] book_def)
  qed (simp add: t(2))
  then show ?thesis
    using engine_inv_tick [OF engine_inv_quiet [OF inv quiet_book [OF wf b]], of t] by simp
qed

lemma tick_inv:
  assumes inv: "engine_inv E c"
  shows "engine_inv E (tick_step c)"
proof -
  have wf: "orders_wf (es_db c)" using inv by (simp add: engine_inv_def engine_ok_def)
  note l = list_tick_inv [OF inv]
  show ?thesis
  proof (cases "es_tick c")
    case TickIdle
    then show ?thesis
      by (auto simp: tick_step_def tick_orders_def intro!: l split: prod.splits sum.splits)
  next
    case (TickPending os)
    note q = engine_inv_quiet [OF inv check_quiet(1) [OF wf]]
    show ?thesis
    proof (cases os)
      case Nil
      then show ?thesis
        using TickPending by (auto simp: tick_step_def tick_orders_def intro!: l split: prod.splits sum.splits)
    next
      case (Cons po pos)
      have "engine_inv E (c\<lparr>es_db := snd (check_pending po (es_db c)), es_tick := TickPending pos\<rparr>)"
        using engine_inv_tick [OF q [of po], of "TickPending pos"] q [of po] TickPending Cons
        by (simp add: engine_inv_def tick_orders_def)
      with TickPending Cons show ?thesis by (simp add: tick_step_def)
    qed
  next
    case (TickApproved os)
    show ?thesis
    proof (cases os)
      case Nil
      then show ?thesis using TickApproved inv by (simp add: tick_step_def engine_inv_def tick_orders_def)
    next
      case (Cons ord os')
      obtain r s where run: "check_approved ord (es_db c) = (r, s)" by force
      let ?c = "c\<lparr>es_db := s, es_tick := TickApproved os'\<rparr>"
      have q: "engine_inv E (c\<lparr>es_db := s\<rparr>)"
        using engine_inv_quiet [OF inv check_quiet(2) [OF wf, of ord]] by (simp add: run)
      then have c: "engine_inv E ?c" "listed s ord"
        using TickApproved Cons by (simp_all add: engine_inv_def tick_orders_def)
      with spawn_inv [of E ?c ord] show ?thesis
        using TickApproved Cons by (auto simp: tick_step_def run)
    qed
  qed
qed

lemma go_inv:
  assumes "execution_engine E X" and inv: "engine_inv E c"
  shows "engine_inv E (go_step E X draw w ptick i c)"
proof (cases "es_active c i")
  case None
  with inv show ?thesis by (simp add: go_step_def)
next
  case (Some g)
  obtain ord st where g: "g = (ord, st)" by force
  obtain r s where run: "advance E X draw w ptick ord st (es_db c) = (r, s)" by force
  from inv Some g have i: "o_ID ord = i" "thread_ok (es_db c) (ord, st)" "engine_ok E (es_db c)"
    by (auto simp: engine_inv_def)
  note a = execution_engine.advance_ok [OF assms(1) i(3,2) run]
  have go: "go_step E X draw w ptick i c = c\<lparr>es_db := s, es_active := (es_active c)(i :=
      (case r of Inr (Some st') \<Rightarrow> Some (ord, st') | _ \<Rightarrow> None))\<rparr>"
    by (simp add: go_step_def Some g run)
  have "o_ID (fst h) = j \<and> thread_ok s h" if h: "es_active (go_step E X draw w ptick i c) j = Some h" for j h
  proof (cases "j = i")
    case True
    with h obtain st' where "r = Inr (Some st')" "h = (ord, st')" by (auto simp: go split: sum.splits option.splits)
    with a i True show ?thesis by simp
  next
    case False
    with h have "es_active c j = Some h" by (simp add: go)
    with engine_inv_thread [OF inv this] False thread_ok_rows [of "{i}" "es_db c" s "fst h" "snd h"] a i
    show ?thesis by simp
  qed
  moreover have "list_all (listed s) (tick_orders (es_tick c))"
    using inv listed_rows [of "{i}" "es_db c" s] a i unfolding engine_inv_def list_all_iff by blast
  ultimately show ?thesis using a by (simp add: engine_inv_def go)
qed

lemma market_book:
  assumes "list_all2 same_instrument (listings s) ls"
  shows "book (market_moves ls t s) = book s"
proof -
  have "map (\<lambda>l. (l_ID l, l_Type l)) ls = map (\<lambda>l. (l_ID l, l_Type l)) (listings s)"
    using assms by (induction rule: list_all2_induct) (auto simp: same_instrument_def)
  then show ?thesis by (simp add: book_def kinds_def market_moves_def)
qed

lemma engine_step_inv:
  assumes "execution_engine E X" and inv: "engine_inv E c" and step: "engine_step E X c c'"
  shows "engine_inv E c'"
proof -
  have wf: "orders_wf (es_db c)" using inv by (simp add: engine_inv_def engine_ok_def)
  note q = engine_inv_quiet [OF inv]
  have num: "numerics E" using assms(1) by (simp add: execution_engine_def)
  from step show ?thesis
  proof cases
    case (request s)
    with q [OF trading_step_quiet [OF num wf]] show ?thesis by simp
  next
    case (market ls t)
    with q [OF quiet_book [OF wf market_book]] show ?thesis by simp
  next
    case ticker
    with tick_inv [OF inv] show ?thesis by simp
  next
    case go
    with go_inv [OF assms(1) inv] show ?thesis by simp
  next
    case restart
    with inv show ?thesis by (simp add: engine_inv_def tick_orders_def)
  qed
qed

lemma engine_steps_inv:
  assumes "execution_engine E X" and "engine_inv E c" and "(engine_step E X)\<^sup>*\<^sup>* c c'"
  shows "engine_inv E c'"
  using assms(3,2) by (induction rule: rtranclp_induct) (auto intro: engine_step_inv [OF assms(1)])

section \<open>Properties: what executes\<close>

definition started :: "db \<Rightarrow> engine_state" where
  "started s = \<lparr>es_db = s, es_active = (\<lambda>_. None), es_tick = TickIdle\<rparr>"

lemma started_inv: "engine_ok E s \<Longrightarrow> engine_inv E (started s)"
  by (simp add: started_def engine_inv_def tick_orders_def)

lemma reachable_inv:
  "numerics E \<Longrightarrow> engine_ok E s \<Longrightarrow> (engine_step E (bank_engine E))\<^sup>*\<^sup>* (started s) c \<Longrightarrow> engine_inv E c"
  by (rule engine_steps_inv [OF numerics.bank_engine_ok started_inv])

text \<open>C5. Fills add up: from a consistent database, whatever requests, price changes, ticks, goroutines and
  restarts follow one another, what has executed of an order and what remains of it is its quantity, and
  nothing is over-filled. A foreign exchange order executes whole or not at all.\<close>

theorem fills_add_up:
  assumes "numerics E" and "engine_ok E s" and "(engine_step E (bank_engine E))\<^sup>*\<^sup>* (started s) c"
    and "ord \<in> set (orders (es_db c))"
  shows "executed (es_db c) (o_ID ord) + o_RemainingPortions ord = o_Quantity ord \<and>
    0 \<le> o_RemainingPortions ord \<and> o_RemainingPortions ord \<le> o_Quantity ord \<and>
    (o_RemainingPortions ord = 0 \<longrightarrow> o_IsDone ord)"
  using reachable_inv [OF assms(1-3)] assms(4)
  by (auto simp: engine_inv_def engine_ok_def orders_wf_def order_ok_def list_all_iff)

text \<open>C6. Limits are kept: no execution of a limit or stop-limit order is dearer (for a purchase) or cheaper
  (for a sale) than its limit, up to the six decimals the execution price is stored with; the price of a
  unit is the limit times the contract size, for a currency pair the limit itself.\<close>

theorem limit_price_respected:
  assumes "numerics E" and "engine_ok E s" and "(engine_step E (bank_engine E))\<^sup>*\<^sup>* (started s) c"
    and "ord \<in> set (orders (es_db c))" and "t \<in> set (order_transactions (es_db c))" and "ot_OrderID t = o_ID ord"
    and "o_OrderType ord = LIMIT \<or> o_OrderType ord = STOP_LIMIT" and "o_PricePerUnit ord = Some p"
  shows "if o_Direction ord = BUY then ot_ExecutedPrice t \<le> round6 E (unit_price (es_db c) ord p)
    else round6 E (unit_price (es_db c) ord p) \<le> ot_ExecutedPrice t"
proof -
  from reachable_inv [OF assms(1-3)] assms(4) have "order_ok E (es_db c) ord"
    by (simp add: engine_inv_def engine_ok_def list_all_iff)
  with assms(5-8) have "within_limit E (es_db c) ord (ot_ExecutedPrice t)" by (auto simp: order_ok_def list_all_iff)
  with assms(7,8) show ?thesis by (auto simp: within_limit_def)
qed

text \<open>The size of a fill is always drawn from a positive range, so the draw does not panic: the order a
  goroutine is about to fill has portions left, and the fill takes at least one and at most all of them,
  at most ten unless the order is all-or-none.\<close>

theorem fill_size_in_range:
  assumes "numerics E" and "engine_ok E s" and "(engine_step E (bank_engine E))\<^sup>*\<^sup>* (started s) c"
    and "es_active c i = Some (ord, FillReady cur snap)"
  shows "\<exists>q. chunk_of draw cur = Inr q \<and> 1 \<le> q \<and> q \<le> o_RemainingPortions cur \<and> (o_AllOrNone cur \<or> q \<le> 10)"
proof -
  have "thread_ok (es_db c) (ord, FillReady cur snap)"
    using engine_inv_thread [OF reachable_inv [OF assms(1-3)] assms(4)] by simp
  then have r: "0 < o_RemainingPortions cur" by (auto simp: thread_ok_def list_ex_iff stage_ok_def)
  then have "int draw mod o_RemainingPortions cur < o_RemainingPortions cur" by simp
  with r have "\<not> 10 < o_RemainingPortions cur \<Longrightarrow> int draw mod o_RemainingPortions cur < 10" by linarith
  with r show ?thesis by (auto simp: chunk_of_def calcChunkSize_def Let_def zless_imp_add1_zle)
qed

subsection \<open>A run\<close>

definition sample_trading :: db where
  "sample_trading = sample_orders\<lparr>listings := [sample_listing\<lparr>l_ExchangeID := 0\<rparr>],
     order_transactions := [\<lparr>ot_OrderID = 1, ot_ExecutedQuantity = 1, ot_ExecutedPrice = 2\<rparr>]\<rparr>"

lemma sample_round6: "pg_round 6 2 = 2"
  by (rule pg_round_keeps_cents) (simp_all add: cents_def)

lemma sample_engine_ok: "engine_ok sample_env sample_trading"
  by (simp add: engine_ok_def orders_wf_def sample_trading_def sample_orders_def sample_sale_def sample_order_def sample_round6
    order_ok_def executed_def is_forex_def kinds_def sample_listing_def within_limit_def unit_price_def sample_env_def exact_env_def)

lemma moves_reachable:
  "(engine_step E X)\<^sup>*\<^sup>* c ((go_step E X draw w ptick i ^^ n) ((tick_step ^^ m) c))"
proof -
  have t: "(engine_step E X)\<^sup>*\<^sup>* c ((tick_step ^^ m) c)" for c
    by (induction m) (auto intro: rtranclp.rtrancl_into_rtrancl engine_step.ticker)
  have "(engine_step E X)\<^sup>*\<^sup>* d ((go_step E X draw w ptick i ^^ n) d)" for d
    by (induction n) (auto intro: rtranclp.rtrancl_into_rtrancl engine_step.go)
  with t show ?thesis by (rule rtranclp_trans)
qed

definition sample_ready :: engine_state where
  "sample_ready = (go_step sample_env (bank_engine sample_env) 2 0 None 1 ^^ Suc (Suc (Suc (Suc 0)))) ((tick_step ^^ Suc (Suc (Suc 0))) (started sample_trading))"

lemmas engine_eval = go_step_def tick_step_def started_def advance_def limit_poll_def execute_start_def fill_top_def refetch_def
  exchange_poll_def bank_engine_def still_active_def GetMarketSnapshot_def snapshot_of_def listing_of_def check_approved_def
  spawn_def runOrder_def enter_limit_def limitMet_def orders_ListByStatus_def isSettlementExpired_def gets_def
  sample_trading_def sample_listing_def sample_env_def exact_env_def

lemma sample_ready_thread: "\<exists>snap. es_active sample_ready 1 = Some (sample_sale, FillReady sample_sale snap)"
  by (simp add: sample_ready_def engine_eval trading_eval)

lemma sample_ready_reachable: "(engine_step sample_env (bank_engine sample_env))\<^sup>*\<^sup>* (started sample_trading) sample_ready"
  unfolding sample_ready_def by (rule moves_reachable)

theorem fills_add_up_witness:
  "executed (es_db sample_ready) 1 + 3 = 4"
  using fills_add_up [OF sample_numerics sample_engine_ok sample_ready_reachable, of sample_sale]
  by (simp add: sample_ready_def engine_eval trading_eval)

theorem limit_price_respected_witness:
  "round6 sample_env 2 \<le> ot_ExecutedPrice \<lparr>ot_OrderID = 1, ot_ExecutedQuantity = 1, ot_ExecutedPrice = 2\<rparr>"
  using limit_price_respected [OF sample_numerics sample_engine_ok sample_ready_reachable, of sample_sale
    "\<lparr>ot_OrderID = 1, ot_ExecutedQuantity = 1, ot_ExecutedPrice = 2\<rparr>" 2]
  by (simp add: sample_ready_def engine_eval trading_eval unit_price_def is_forex_def kinds_def)

theorem fill_size_in_range_witness:
  "\<exists>q. chunk_of 2 sample_sale = Inr q \<and> 1 \<le> q \<and> q \<le> 3"
proof -
  obtain snap where "es_active sample_ready 1 = Some (sample_sale, FillReady sample_sale snap)"
    using sample_ready_thread by blast
  from fill_size_in_range [OF sample_numerics sample_engine_ok sample_ready_reachable this, of 2]
  show ?thesis by (auto simp: sample_sale_def)
qed

text \<open>The fill re-reads neither the status nor the flag: an order that is cancelled after the goroutine read
  it is executed all the same and becomes \<open>DONE\<close>.\<close>

lemma cancelled_order_executes:
  "\<exists>c d. (engine_step sample_env (bank_engine sample_env))\<^sup>*\<^sup>* (started sample_trading) c \<and>
     engine_step sample_env (bank_engine sample_env) c d \<and>
     map_option o_Status (order_of (es_db c) 1) = Some CANCELED \<and> map_option o_Status (order_of (es_db d) 1) = Some DONE"
proof -
  let ?X = "bank_engine sample_env"
  let ?c = "sample_ready\<lparr>es_db := snd (CancelOrder sample_env (fundsManager sample_env True) 1 7 False (es_db sample_ready))\<rparr>"
  let ?d = "go_step sample_env ?X 2 0 None 1 ?c"
  have "engine_step sample_env ?X sample_ready ?c" by (rule engine_step.request [OF trading_step.cancel])
  moreover have "engine_step sample_env ?X ?c ?d" by (rule engine_step.go)
  moreover have "map_option o_Status (order_of (es_db ?c) 1) = Some CANCELED"
    by (simp add: sample_ready_def engine_eval trading_eval CancelOrder_def)
  moreover have "map_option o_Status (order_of (es_db ?d) 1) = Some DONE"
    by (simp add: sample_ready_def engine_eval trading_eval CancelOrder_def fill_def resolveExecutionPrice_def effective_type_def
      chunk_of_def calcChunkSize_def fill_body_def orders_CreateTransaction_def CreditSellFill_def commission_of_def
      ClampPublicSharesToHoldings_def orders_GetNetHoldings_def orders_MarkDone_def eval_simps sample_round6 fits6_def)
  ultimately show ?thesis using sample_ready_reachable by (meson rtranclp.rtrancl_into_rtrancl)
qed

end
