(* ===== verification/Engine_Termination.thy ===== *)
theory Engine_Termination
  imports Engine_Invariant
begin

text \<open>
  The loop of \<open>executeOrder\<close> ends. A goroutine that runs undisturbed while the exchange is open returns after at
  most four turns per remaining portion, whatever the draws, the prices and the failures of the database.
\<close>

section \<open>A goroutine on its own\<close>

text \<open>At most \<open>n\<close> steps of the goroutine, with the draws \<open>f\<close>; \<open>None\<close> when it returned.\<close>

fun drive :: "env \<Rightarrow> engine \<Rightarrow> (nat \<Rightarrow> nat) \<Rightarrow> nat \<Rightarrow> Order \<Rightarrow> stage \<Rightarrow> db \<Rightarrow> stage option \<times> db" where
  "drive E X f 0 ord st s = (Some st, s)"
| "drive E X f (Suc n) ord st s = (case advance E X (f n) 0 None ord st s of
     (Inr (Some st'), s') \<Rightarrow> drive E X f n ord st' s'
   | (_, s') \<Rightarrow> (None, s'))"

definition always_open :: "engine \<Rightarrow> bool" where
  "always_open X \<longleftrightarrow> (\<forall>i s. fst (exchange_poll X i s) = Inr True)"

definition remaining_of :: "db \<Rightarrow> int \<Rightarrow> nat" where
  "remaining_of s i = (case order_of s i of None \<Rightarrow> 0 | Some row \<Rightarrow> nat (o_RemainingPortions row))"

definition activated :: "stage \<Rightarrow> bool" where
  "activated st \<longleftrightarrow> st \<noteq> AwaitStop \<and> st \<noteq> AwaitLimit"

text \<open>How many steps a stage is from the end, at least one portion being filled per round.\<close>

definition rank :: "db \<Rightarrow> int \<Rightarrow> stage \<Rightarrow> nat" where
  "rank s i st = (let r = remaining_of s i in case st of
       Execute \<Rightarrow> 4 * r + 3 | Sleeping w \<Rightarrow> 4 * r + 2 | FillTop \<Rightarrow> 4 * r + 1
     | AfterHoursPause snap \<Rightarrow> 4 * r | AwaitOpen snap \<Rightarrow> 4 * r | FillReady cur snap \<Rightarrow> 4 * r - 1
     | ForexAwaitOpen snap \<Rightarrow> 1 | _ \<Rightarrow> 0)"

lemma remaining_of_book:
  assumes "book s' = book s"
  shows "remaining_of s' i = remaining_of s i"
  by (simp add: remaining_of_def order_of_book [OF assms])

lemma remaining_of_row:
  "engine_ok E s \<Longrightarrow> row \<in> set (orders s) \<Longrightarrow> remaining_of s (o_ID row) = nat (o_RemainingPortions row)"
  by (simp add: remaining_of_def order_of_unique engine_ok_def orders_wf_def)

context execution_engine
begin

lemma waiting_rank:
  assumes ok: "engine_ok E s" and row: "row \<in> set (orders s)" and o: "fixed ord = fixed row"
    and act: "activated st" and op: "always_open X"
    and w: "\<And>cur snap. st \<noteq> FillReady cur snap" "\<And>cur snap. st \<noteq> ForexReady cur snap"
    and run: "advance E X draw w ptick ord st s = (Inr (Some st'), s')"
  shows "activated st' \<and> rank s' (o_ID ord) st' < rank s (o_ID ord) st"
proof -
  have "book s' = book s" by (rule keepsD [OF keeps_waiting run]) (use w in auto)
  note r = remaining_of_book [OF this] fixed_fields(1) [OF o] remaining_of_row [OF ok row]
  have pos: "0 < o_RemainingPortions row" if "still_active row" using row_active [OF ok row that] by simp
  show ?thesis
  proof (cases st)
    case Execute
    with run show ?thesis
      by (auto simp: advance_def execute_start_def activated_def rank_def r dest!: refetch_some elim!: bnd_InrE split: if_splits)
  next
    case FillTop
    with run show ?thesis
      by (auto simp: advance_def fill_top_def activated_def rank_def r dest!: refetch_some elim!: bnd_InrE split: if_splits)
  next
    case (AfterHoursPause snap)
    with run have f: "refetch ord (\<lambda>_. refetch ord (\<lambda>current. ret (Some (FillReady current snap)))) s = (Inr (Some st'), s')"
      by (simp add: advance_def)
    from refetch_row [OF ok row o refl f] pos AfterHoursPause show ?thesis
      by (auto simp: activated_def rank_def r dest!: refetch_some)
  next
    case (AwaitOpen snap)
    obtain s1 where x: "exchange_poll X (ms_ExchangeID snap) s = (Inr True, s1)" using op by (metis always_open_def eq_fst_iff)
    have f: "refetch ord (\<lambda>current. ret (Some (FillReady current snap))) s1 = (Inr (Some st'), s')"
      using run AwaitOpen by (simp add: advance_def bnd_def x)
    from refetch_row [OF ok row o keepsD [OF keeps_exchange_polls(1) x] f] pos AwaitOpen show ?thesis
      by (auto simp: activated_def rank_def r)
  next
    case (ForexAwaitOpen snap)
    obtain s1 where x: "exchange_poll X (ms_ExchangeID snap) s = (Inr True, s1)" using op by (metis always_open_def eq_fst_iff)
    have "forex_ready ord s1 = (Inr (Some st'), s')" using run ForexAwaitOpen by (simp add: advance_def bnd_def x)
    with ForexAwaitOpen show ?thesis
      by (auto simp: forex_ready_def activated_def rank_def dest!: refetch_some elim!: bnd_InrE split: sum.splits)
  next
    case (Sleeping x)
    with run show ?thesis by (auto simp: advance_def activated_def rank_def)
  qed (use act w in \<open>simp_all add: activated_def\<close>)
qed

lemma fill_rank:
  assumes ok: "engine_ok E s" and row: "row \<in> set (orders s)" and o: "fixed ord = fixed row"
    and st: "stage_ok s row (FillReady cur snap)"
    and run: "advance E X draw w ptick ord (FillReady cur snap) s = (Inr (Some st'), s')"
  shows "activated st' \<and> rank s' (o_ID ord) st' < rank s (o_ID ord) (FillReady cur snap)"
proof -
  have wf: "orders_wf s" using ok by (simp add: engine_ok_def)
  from run obtain n where f: "fill E X (o_IsClient ord) (effective_type ord) draw cur snap s = (Inr (Some n), s')"
    and st': "\<exists>w. st' = Sleeping w"
    by (auto simp: advance_def elim!: bnd_InrE)
  from st have c: "fixed cur = fixed row" "o_RemainingPortions cur = o_RemainingPortions row" "0 < o_RemainingPortions row"
    by (simp_all add: stage_ok_def)
  from fill_cases [OF wf f] obtain p q where "fills E (o_ID cur) (o_RemainingPortions cur - q) q p s s'" by blast
  then have fr: "fills_row E row q p s s'" by (rule fills_row [OF wf _ row]) (simp_all add: c fixed_fields(1) [OF c(1)])
  let ?b = "filled (o_RemainingPortions row - q) row"
  have "?b \<in> set (orders s')" "distinct (map o_ID (orders s'))" and q: "0 < q" "q \<le> o_RemainingPortions row"
    using fr by (auto simp: fills_row_def orders_wf_def)
  then have "order_of s' (o_ID ?b) = Some ?b" by (intro order_of_unique)
  then have "remaining_of s' (o_ID row) = nat (o_RemainingPortions row - q)"
    by (simp add: remaining_of_def filled_row(2) fixed_fields(1) [OF filled_row(1)])
  with remaining_of_row [OF ok row] c q st' show ?thesis
    by (auto simp: activated_def rank_def fixed_fields(1) [OF o])
qed

lemma advance_rank:
  assumes ok: "engine_ok E s" and th: "thread_ok s (ord, st)" and act: "activated st" and op: "always_open X"
    and run: "advance E X draw w ptick ord st s = (Inr (Some st'), s')"
  shows "activated st' \<and> rank s' (o_ID ord) st' < rank s (o_ID ord) st"
proof -
  from th obtain row where row: "row \<in> set (orders s)" and o: "fixed ord = fixed row" and st: "stage_ok s row st"
    by (auto simp: thread_ok_def list_ex_iff)
  note wait = waiting_rank [OF ok row o act op _ _ run]
  show ?thesis
  proof (cases st)
    case (FillReady cur snap)
    with fill_rank [OF ok row o] st run show ?thesis by simp
  next
    case (ForexReady cur snap)
    with run show ?thesis by (auto simp: advance_def elim!: bnd_InrE)
  qed (use wait in auto)
qed

lemma drive_ends:
  assumes "engine_ok E s" and "thread_ok s (ord, st)" and "activated st" and op: "always_open X"
    and "rank s (o_ID ord) st < n"
  shows "fst (drive E X f n ord st s) = None"
  using assms(1-3,5)
proof (induction n arbitrary: st s)
  case (Suc n)
  obtain r s' where run: "advance E X (f n) 0 None ord st s = (r, s')" by force
  note a = advance_ok [OF Suc.prems(1,2) run]
  show ?case
  proof (cases "\<exists>st'. r = Inr (Some st')")
    case True
    then obtain st' where r: "r = Inr (Some st')" by blast
    from advance_rank [OF Suc.prems(1-3) op run [unfolded r]] Suc.prems(4)
    have "activated st'" "rank s' (o_ID ord) st' < n" by auto
    with Suc.IH [of s' st'] a r show ?thesis by (simp add: run)
  next
    case False
    then show ?thesis by (auto simp: run split: sum.splits option.splits)
  qed
qed simp

end


text \<open>An engine built without an exchange checker.\<close>

definition plain_engine :: engine where
  "plain_engine = \<lparr>eng_exchange = None, eng_fundRepo = False\<rparr>"

interpretation plain: execution_engine sample_env plain_engine
  by (rule execution_engine.intro [OF sample_numerics]) (unfold_locales, simp add: plain_engine_def)


section \<open>Reservations\<close>

text \<open>A fill takes back as much of the reservation as it costs, and nothing releases the rest when the order
  is done: of the 12 reserved for four units at the limit 3, 4 stay reserved after a fill at 2.\<close>

lemma price_improvement_stays_reserved:
  "map_option rezervisana_sredstva (racun_of (snd (SettleBuyFill sample_env True 11 (2 * 4)
     (snd (ReserveFunds sample_env True 11 (3 * 4) sample_db)))) 11) = Some 4"
  by (simp add: ReserveFunds_def SettleBuyFill_def eval_simps)

end
