(* ===== verification/Interbank_Repo.thy ===== *)
theory Interbank_Repo
  imports Order_Repo
begin

text \<open>
  \<open>repository/interbank_repository.go\<close>: the message log, the state of inter-bank transactions, their
  reservations, the negotiations and the option contracts. The repository holds the root database
  handle, so its statements are \<open>stmt_root\<close>: a transaction of the caller neither undoes them nor makes
  them fail. Column widths, \<open>CHECK\<close> constraints, unique indexes and the foreign key of the reservations
  are conditions of the inserts.
\<close>

section \<open>The bank's configuration\<close>

text \<open>What the inter-bank services are constructed with: our routing number and the peer's, the prefix
  of our account numbers, the retry policy, and three things outside the repository: the decimal codec of
  JSON, the random keys (\<open>newKey n\<close> is the \<open>n\<close>-th key drawn) and the peer bank behind the HTTP client
  (\<open>peer n m\<close> is its answer to our \<open>n\<close>-th message: a status code with the JSON tree of the body, or no
  answer).\<close>

record bank =
  ourRoutingNumber :: int
  peerRoutingNumber :: int
  accountPrefix :: string
  codec :: dcodec
  newKey :: "nat \<Rightarrow> string"
  peer :: "nat \<Rightarrow> InterbankMessage \<Rightarrow> (int \<times> json option) option"
  maxRetry :: int
  backoffDuration :: int

definition root_query :: "(db \<Rightarrow> 'a) \<Rightarrow> 'a dbp" where
  "root_query f = stmt_root (\<lambda>s. Some (f s, s))"

definition varchar :: "nat \<Rightarrow> string option \<Rightarrow> bool" where
  "varchar n x = (case x of None \<Rightarrow> True | Some t \<Rightarrow> length t \<le> n)"

definition numeric20_6 :: "env \<Rightarrow> decimal \<Rightarrow> bool" where
  "numeric20_6 E x \<longleftrightarrow> \<bar>round6 E x\<bar> < 10 ^ 14"

section \<open>Message log\<close>

definition message_of :: "MsgDirection \<Rightarrow> int \<Rightarrow> string \<Rightarrow> db \<Rightarrow> InterbankMessageLog option" where
  "message_of d routing key s = List.find (\<lambda>m. ml_Direction m = d \<and> ml_IdemRouting m = routing \<and> ml_IdemKey m = key)
     (ib_messages s)"

definition GetIncomingByIdempotence :: "int \<Rightarrow> string \<Rightarrow> InterbankMessageLog option dbp" where
  "GetIncomingByIdempotence routing key = root_query (message_of INCOMING routing key)"

definition GetOutgoingByIdempotence :: "int \<Rightarrow> string \<Rightarrow> InterbankMessageLog option dbp" where
  "GetOutgoingByIdempotence routing key = root_query (message_of OUTGOING routing key)"

definition known_message :: "MessageType \<Rightarrow> bool" where
  "known_message t \<longleftrightarrow> t = NEW_TX \<or> t = COMMIT_TX \<or> t = ROLLBACK_TX"

definition CreateMessage :: "InterbankMessageLog \<Rightarrow> InterbankMessageLog dbp" where
  "CreateMessage m = stmt_root (\<lambda>s. let row = m\<lparr>ml_ID := ib_msg_seq s\<rparr> in
     if known_message (ml_MessageType m) \<and> length (ml_IdemKey m) \<le> 64 \<and>
        message_of (ml_Direction m) (ml_IdemRouting m) (ml_IdemKey m) s = None
     then Some (row, s\<lparr>ib_messages := ib_messages s @ [row], ib_msg_seq := ib_msg_seq s + 1\<rparr>) else None)"

text \<open>\<open>Save\<close> writes every column of the row with the id.\<close>

definition UpdateMessage :: "InterbankMessageLog \<Rightarrow> unit dbp" where
  "UpdateMessage m = stmt_root (\<lambda>s.
     Some ((), s\<lparr>ib_messages := upd_where (\<lambda>x. ml_ID x = ml_ID m) (\<lambda>_. m) (ib_messages s)\<rparr>))"

definition ListPendingOutgoing :: "nat \<Rightarrow> InterbankMessageLog list dbp" where
  "ListPendingOutgoing limit = root_query (\<lambda>s. take limit (filter (\<lambda>m. ml_Direction m = OUTGOING \<and>
     (ml_Status m = MsgPending \<or> ml_Status m = MsgAccepted \<or> ml_Status m = MsgFailed) \<and>
     (case ml_NextRetryAt m of None \<Rightarrow> True | Some t \<Rightarrow> t \<le> now_utc s)) (ib_messages s)))"

section \<open>Transactions and reservations\<close>

definition tx_of :: "int \<Rightarrow> string \<Rightarrow> db \<Rightarrow> InterbankTransaction option" where
  "tx_of routing fid s = List.find (\<lambda>t. it_Routing t = routing \<and> it_ForeignID t = fid) (ib_transactions s)"

definition CreateTransaction :: "InterbankTransaction \<Rightarrow> InterbankTransaction dbp" where
  "CreateTransaction t = stmt_root (\<lambda>s. let row = t\<lparr>it_ID := ib_tx_seq s\<rparr> in
     if length (it_ForeignID t) \<le> 64 \<and> length (it_Step t) \<le> 40 \<and> tx_of (it_Routing t) (it_ForeignID t) s = None
     then Some (row, s\<lparr>ib_transactions := ib_transactions s @ [row], ib_tx_seq := ib_tx_seq s + 1\<rparr>) else None)"

definition GetTransactionByForeignID :: "int \<Rightarrow> string \<Rightarrow> InterbankTransaction option dbp" where
  "GetTransactionByForeignID routing fid = root_query (tx_of routing fid)"

definition UpdateTransactionStatus :: "int \<Rightarrow> TxStatus \<Rightarrow> string \<Rightarrow> unit dbp" where
  "UpdateTransactionStatus i status step = stmt_root (\<lambda>s.
     Some ((), s\<lparr>ib_transactions := upd_where (\<lambda>t. it_ID t = i) (\<lambda>t. t\<lparr>it_Status := status, it_Step := step\<rparr>)
       (ib_transactions s)\<rparr>))"

definition known_kind :: "AccountKind \<Rightarrow> bool" where
  "known_kind k \<longleftrightarrow> k = PERSON \<or> k = ACCOUNT \<or> k = OPTION_ACC"

definition known_asset :: "AssetType \<Rightarrow> bool" where
  "known_asset a \<longleftrightarrow> a = MONAS \<or> a = STOCK \<or> a = OPTION"

definition CreateReservation :: "env \<Rightarrow> InterbankReservation \<Rightarrow> unit dbp" where
  "CreateReservation E x = stmt_root (\<lambda>s.
     if known_kind (rv_AccountKind x) \<and> known_asset (rv_AssetType x) \<and> varchar 32 (rv_AccountNum x) \<and>
        varchar 64 (rv_ForeignID x) \<and> varchar 10 (rv_AssetCurrency x) \<and> varchar 20 (rv_AssetTicker x) \<and>
        varchar 64 (rv_NegotiationID x) \<and> numeric20_6 E (rv_Amount x) \<and>
        list_ex (\<lambda>t. it_ID t = rv_TxID x) (ib_transactions s)
     then Some ((), s\<lparr>ib_reservations := ib_reservations s @ [x\<lparr>rv_Amount := round6 E (rv_Amount x)\<rparr>]\<rparr>)
     else None)"

definition reservations_of :: "int \<Rightarrow> db \<Rightarrow> InterbankReservation list" where
  "reservations_of txID s = sort_key rv_PostingIndex (filter (\<lambda>r. rv_TxID r = txID) (ib_reservations s))"

definition ListReservationsByTx :: "int \<Rightarrow> InterbankReservation list dbp" where
  "ListReservationsByTx txID = root_query (reservations_of txID)"

section \<open>Negotiations and option contracts\<close>

definition negotiation_of :: "int \<Rightarrow> string \<Rightarrow> db \<Rightarrow> InterbankNegotiation option" where
  "negotiation_of routing fid s = List.find (\<lambda>n. ng_Routing n = routing \<and> ng_ForeignID n = fid) (ib_negotiations s)"

text \<open>The columns both tables share.\<close>

definition terms_fit :: "env \<Rightarrow> string \<Rightarrow> string \<Rightarrow> string \<Rightarrow> decimal \<Rightarrow> string \<Rightarrow> decimal \<Rightarrow> int \<Rightarrow> string \<Rightarrow> string \<Rightarrow> bool" where
  "terms_fit E fid ticker pc pa mc ma amount buyer seller \<longleftrightarrow> length fid \<le> 64 \<and> length ticker \<le> 20 \<and>
     length pc \<le> 10 \<and> numeric20_6 E pa \<and> length mc \<le> 10 \<and> numeric20_6 E ma \<and> amount > 0 \<and>
     length buyer \<le> 64 \<and> length seller \<le> 64"

definition negotiation_fits :: "env \<Rightarrow> InterbankNegotiation \<Rightarrow> bool" where
  "negotiation_fits E n \<longleftrightarrow> terms_fit E (ng_ForeignID n) (ng_StockTicker n) (ng_PriceCurrency n) (ng_PriceAmount n)
     (ng_PremiumCurrency n) (ng_PremiumAmount n) (ng_Amount n) (ng_BuyerID n) (ng_SellerID n) \<and>
     length (ng_LastModifiedID n) \<le> 64"

definition store_negotiation :: "env \<Rightarrow> int \<Rightarrow> InterbankNegotiation \<Rightarrow> InterbankNegotiation" where
  "store_negotiation E now n = n\<lparr>ng_PriceAmount := round6 E (ng_PriceAmount n),
     ng_PremiumAmount := round6 E (ng_PremiumAmount n), ng_SettlementDate := storeTime E (ng_SettlementDate n),
     ng_UpdatedAt := now\<rparr>"

definition repo_CreateNegotiation :: "env \<Rightarrow> InterbankNegotiation \<Rightarrow> unit dbp" where
  "repo_CreateNegotiation E n = stmt_root (\<lambda>s.
     if negotiation_fits E n \<and> negotiation_of (ng_Routing n) (ng_ForeignID n) s = None
     then Some ((), s\<lparr>ib_negotiations := ib_negotiations s @ [store_negotiation E (now_utc s) n]\<rparr>) else None)"

definition GetNegotiationByID :: "int \<Rightarrow> string \<Rightarrow> InterbankNegotiation option dbp" where
  "GetNegotiationByID routing fid = root_query (negotiation_of routing fid)"

text \<open>The row is identified by its key here; the code keeps its numeric id, which stands for the same row
  because the key has a unique index and no update changes it.\<close>

definition UpdateNegotiation :: "env \<Rightarrow> InterbankNegotiation \<Rightarrow> unit dbp" where
  "UpdateNegotiation E n = stmt_root (\<lambda>s.
     if negotiation_fits E n
     then Some ((), s\<lparr>ib_negotiations := upd_where (\<lambda>x. ng_Routing x = ng_Routing n \<and> ng_ForeignID x = ng_ForeignID n)
            (\<lambda>_. store_negotiation E (now_utc s) n) (ib_negotiations s)\<rparr>)
     else None)"

definition repo_ListNegotiations :: "int \<Rightarrow> string option \<Rightarrow> InterbankNegotiation list dbp" where
  "repo_ListNegotiations our client = root_query (\<lambda>s. sort_key (\<lambda>n. - ng_UpdatedAt n) (filter (\<lambda>n.
     (ng_BuyerRouting n = our \<or> ng_SellerRouting n = our) \<and>
     (case client of None \<Rightarrow> True | Some u \<Rightarrow> ng_BuyerRouting n = our \<and> ng_BuyerID n = u \<or>
        ng_SellerRouting n = our \<and> ng_SellerID n = u)) (ib_negotiations s)))"

definition contract_of :: "int \<Rightarrow> string \<Rightarrow> db \<Rightarrow> InterbankOptionContract option" where
  "contract_of routing fid s = List.find (\<lambda>c. ic_Routing c = routing \<and> ic_ForeignID c = fid) (ib_contracts s)"

definition CreateOptionContract :: "env \<Rightarrow> InterbankOptionContract \<Rightarrow> unit dbp" where
  "CreateOptionContract E c = stmt_root (\<lambda>s.
     if terms_fit E (ic_ForeignID c) (ic_StockTicker c) (ic_PriceCurrency c) (ic_PriceAmount c) (ic_PremiumCurrency c)
          (ic_PremiumAmount c) (ic_Amount c) (ic_BuyerID c) (ic_SellerID c) \<and>
        contract_of (ic_Routing c) (ic_ForeignID c) s = None
     then Some ((), s\<lparr>ib_contracts := ib_contracts s @ [c\<lparr>ic_PriceAmount := round6 E (ic_PriceAmount c),
            ic_PremiumAmount := round6 E (ic_PremiumAmount c), ic_SettlementDate := storeTime E (ic_SettlementDate c)\<rparr>]\<rparr>)
     else None)"

definition GetOptionContract :: "int \<Rightarrow> string \<Rightarrow> InterbankOptionContract option dbp" where
  "GetOptionContract routing fid = root_query (contract_of routing fid)"

definition UpdateOptionContractStatus :: "int \<Rightarrow> string \<Rightarrow> ContractStatus \<Rightarrow> unit dbp" where
  "UpdateOptionContractStatus routing fid st = stmt_root (\<lambda>s.
     Some ((), s\<lparr>ib_contracts := upd_where (\<lambda>c. ic_Routing c = routing \<and> ic_ForeignID c = fid)
       (\<lambda>c. c\<lparr>ic_Status := st\<rparr>) (ib_contracts s)\<rparr>))"

definition ListContractsForUser :: "int \<Rightarrow> string \<Rightarrow> InterbankOptionContract list dbp" where
  "ListContractsForUser routing u = root_query (\<lambda>s. rev (filter (\<lambda>c. ic_BuyerRouting c = routing \<and> ic_BuyerID c = u \<or>
     ic_SellerRouting c = routing \<and> ic_SellerID c = u) (ib_contracts s)))"

definition ListExpiredActiveContracts :: "int \<Rightarrow> InterbankOptionContract list dbp" where
  "ListExpiredActiveContracts before = root_query (\<lambda>s. filter (\<lambda>c. ic_Status c = CsActive \<and> ic_SettlementDate c < before)
     (ib_contracts s))"

text \<open>\<open>int64ToString\<close>: the digits are collected from the right; negating the smallest \<open>int64\<close> gives it
  back, and the digit loop does not run for it.\<close>

definition int64ToString :: "int \<Rightarrow> string" where
  "int64ToString n = (if n = 0 then ''0''
     else let m = (if n < 0 then wrap64 (- n) else n) in
       (if n < 0 then ''-'' else []) @ (if m > 0 then nat_str (nat m) else []))"

text \<open>\<open>int64ToString\<close> agrees with \<open>strconv.FormatInt\<close> on every \<open>int64\<close> except the smallest, which it
  prints as a bare minus sign.\<close>

theorem int64ToString_correct:
  assumes "int64 n"
  shows "int64ToString n = (if n = - (2 ^ 63) then ''-'' else FormatInt n)"
proof -
  have "wrap64 (2 ^ 63) = - (2 ^ 63)" by (simp add: wrap64_def)
  moreover have "wrap64 (- n) = - n" if "n \<noteq> - (2 ^ 63)"
    by (rule wrap64_id) (use assms that in \<open>simp add: int64_def\<close>)
  moreover have "nat_str 0 = ''0''" by code_simp
  ultimately show ?thesis by (auto simp: int64ToString_def FormatInt_def Let_def)
qed

theorem int64ToString_correct_witness: "int64ToString (- 12) = FormatInt (- 12)"
  using int64ToString_correct [of "- 12"] by (simp add: int64_def)

section \<open>Rules for the root handle\<close>

lemma keeps_Pair [simp, keeps_intros]: "keeps f (Pair r)"
  by (simp add: keeps_def)

lemma keeps_case_kind [keeps_intros]:
  "keeps f a \<Longrightarrow> keeps f b \<Longrightarrow> keeps f c \<Longrightarrow> (\<And>k. keeps f (d k)) \<Longrightarrow>
   keeps f (case x of PERSON \<Rightarrow> a | ACCOUNT \<Rightarrow> b | OPTION_ACC \<Rightarrow> c | OtherKind k \<Rightarrow> d k)"
  by (cases x) simp_all

lemma keeps_case_asset [keeps_intros]:
  "keeps f a \<Longrightarrow> keeps f b \<Longrightarrow> keeps f c \<Longrightarrow> (\<And>k. keeps f (d k)) \<Longrightarrow>
   keeps f (case x of MONAS \<Rightarrow> a | STOCK \<Rightarrow> b | OPTION \<Rightarrow> c | OtherAsset k \<Rightarrow> d k)"
  by (cases x) simp_all

lemma keeps_case_bool [keeps_intros]: "keeps f a \<Longrightarrow> keeps f b \<Longrightarrow> keeps f (case x of True \<Rightarrow> a | False \<Rightarrow> b)"
  by (cases x) simp_all

lemma keeps_root_query [keeps_intros]: "clock_free f \<Longrightarrow> keeps f (root_query g)"
  unfolding root_query_def by (rule keeps_stmt_root) auto

lemma root_query_InrD: "root_query f s = (Inr a, s') \<Longrightarrow> s' = bump s \<and> a = f (bump s)"
  by (auto simp: root_query_def stmt_root_def split: if_splits)

lemma root_query_ok: "no_faults s \<Longrightarrow> root_query f s = (Inr (f (bump s)), bump s)"
  by (simp add: root_query_def stmt_root_def)

lemma keeps_repo_reads [keeps_intros]:
  assumes "clock_free f"
  shows "keeps f (GetIncomingByIdempotence i k)" "keeps f (GetOutgoingByIdempotence i k)" "keeps f (ListPendingOutgoing n)"
    "keeps f (GetTransactionByForeignID i k)" "keeps f (ListReservationsByTx t)" "keeps f (GetNegotiationByID i k)"
    "keeps f (repo_ListNegotiations i c)" "keeps f (GetOptionContract i k)" "keeps f (ListContractsForUser i k)"
    "keeps f (ListExpiredActiveContracts t)"
  unfolding GetIncomingByIdempotence_def GetOutgoingByIdempotence_def ListPendingOutgoing_def GetTransactionByForeignID_def
    ListReservationsByTx_def GetNegotiationByID_def repo_ListNegotiations_def GetOptionContract_def ListContractsForUser_def
    ListExpiredActiveContracts_def
  by (intro keeps_root_query assms)+

text \<open>The tables of the inter-bank module; the root handle writes nothing else.\<close>

lemma keeps_repo_writes:
  assumes "clock_free f"
  shows "(\<And>s a b. f (s\<lparr>ib_messages := a, ib_msg_seq := b\<rparr>) = f s) \<Longrightarrow> keeps f (CreateMessage m)"
    "(\<And>s a. f (s\<lparr>ib_messages := a\<rparr>) = f s) \<Longrightarrow> keeps f (UpdateMessage m)"
    "(\<And>s a b. f (s\<lparr>ib_transactions := a, ib_tx_seq := b\<rparr>) = f s) \<Longrightarrow> keeps f (CreateTransaction t)"
    "(\<And>s a. f (s\<lparr>ib_transactions := a\<rparr>) = f s) \<Longrightarrow> keeps f (UpdateTransactionStatus i st step)"
    "(\<And>s a. f (s\<lparr>ib_reservations := a\<rparr>) = f s) \<Longrightarrow> keeps f (CreateReservation E x)"
    "(\<And>s a. f (s\<lparr>ib_negotiations := a\<rparr>) = f s) \<Longrightarrow> keeps f (repo_CreateNegotiation E n)"
    "(\<And>s a. f (s\<lparr>ib_negotiations := a\<rparr>) = f s) \<Longrightarrow> keeps f (UpdateNegotiation E n)"
    "(\<And>s a. f (s\<lparr>ib_contracts := a\<rparr>) = f s) \<Longrightarrow> keeps f (CreateOptionContract E c)"
    "(\<And>s a. f (s\<lparr>ib_contracts := a\<rparr>) = f s) \<Longrightarrow> keeps f (UpdateOptionContractStatus i k cs)"
  unfolding CreateMessage_def UpdateMessage_def CreateTransaction_def UpdateTransactionStatus_def CreateReservation_def
    repo_CreateNegotiation_def UpdateNegotiation_def CreateOptionContract_def UpdateOptionContractStatus_def
  by (rule keeps_stmt_root [OF assms], auto simp: Let_def split: if_splits)+

end
