(* ===== verification/Interbank_Executor.thy ===== *)
theory Interbank_Executor
  imports Interbank_Repo
begin

text \<open>
  \<open>service/local_transaction_executor.go\<close>: the bank's own part of an inter-bank transaction. \<open>Prepare\<close>
  validates the local postings and reserves what they need, \<open>Commit\<close> books the reservations, \<open>Rollback\<close>
  gives them back. Statements through \<open>dbTx\<close> are \<open>stmt\<close> inside \<open>in_tx\<close>; the reservation rows, the
  option contracts and the transaction status go through the repository, that is through the root handle.
\<close>

section \<open>Balance of a transaction\<close>

definition assetKey :: "Asset \<Rightarrow> string" where
  "assetKey a = (case as_type a of
       MONAS \<Rightarrow> (case as_monAs a of Some c \<Rightarrow> ''MONAS:'' @ c | None \<Rightarrow> ''MONAS:?'')
     | STOCK \<Rightarrow> (case as_stock a of Some t \<Rightarrow> ''STOCK:'' @ t | None \<Rightarrow> ''STOCK:?'')
     | OPTION \<Rightarrow> (case as_option a of
           Some d \<Rightarrow> ''OPTION:'' @ FormatInt (fb_routingNumber (od_negotiationId d)) @ '':'' @ fb_id (od_negotiationId d)
         | None \<Rightarrow> ''OPTION:?'')
     | OtherAsset t \<Rightarrow> t @ '':?'')"

text \<open>\<open>sums[key] = sums[key].Add(p.Amount)\<close> on the map of sums.\<close>

fun add_sum :: "string \<Rightarrow> decimal \<Rightarrow> (string \<times> decimal) list \<Rightarrow> (string \<times> decimal) list" where
  "add_sum k a [] = [(k, a)]"
| "add_sum k a ((k', v) # m) = (if k' = k then (k', v + a) # m else (k', v) # add_sum k a m)"

definition posting_sums :: "Posting list \<Rightarrow> (string \<times> decimal) list" where
  "posting_sums ps = fold (\<lambda>p. add_sum (assetKey (p_asset p)) (p_amount p)) ps []"

definition isBalanced :: "Posting list \<Rightarrow> bool" where
  "isBalanced ps = list_all (\<lambda>(k, v). v = 0) (posting_sums ps)"

section \<open>Helpers\<close>

definition isLocalPosting :: "bank \<Rightarrow> Posting \<Rightarrow> err + bool" where
  "isLocalPosting B p = (case ta_type (p_account p) of
       ACCOUNT \<Rightarrow> (case ta_num (p_account p) of
           None \<Rightarrow> Inl (Errorf ''ACCOUNT posting without num'')
         | Some num \<Rightarrow> Inr (take (length (accountPrefix B)) num = accountPrefix B))
     | OtherKind k \<Rightarrow> Inl (Errorf ''unknown AccountKind'')
     | _ \<Rightarrow> (case ta_id (p_account p) of
           None \<Rightarrow> Inl (Errorf ''posting without id'')
         | Some i \<Rightarrow> Inr (fb_routingNumber i = ourRoutingNumber B)))"

text \<open>\<open>n, _ := strconv.ParseInt(s, 10, 64)\<close>: 0 for text that is no number, the nearest \<open>int64\<close> for one
  out of range.\<close>

definition parseIntOr0 :: "string \<Rightarrow> int" where
  "parseIntOr0 s = (case signed_nat s of None \<Rightarrow> 0 | Some n \<Rightarrow> max (- (2 ^ 63)) (min (2 ^ 63 - 1) n))"

text \<open>\<open>ORDER BY (oznaka = c) DESC, (oznaka = 'RSD') DESC, id LIMIT 1\<close>\<close>

definition pick_racun :: "(racun \<Rightarrow> bool) \<Rightarrow> string \<Rightarrow> db \<Rightarrow> racun option" where
  "pick_racun P c s = (case first_racun (\<lambda>r. P r \<and> valuta_oznaka r = c) s of
       Some r \<Rightarrow> Some r
     | None \<Rightarrow> (case first_racun (\<lambda>r. P r \<and> valuta_oznaka r = ''RSD'') s of
           Some r \<Rightarrow> Some r
         | None \<Rightarrow> first_racun P s))"

definition isActuary :: "int \<Rightarrow> bool dbp" where
  "isActuary uid = query_or False (\<lambda>s. list_ex (\<lambda>a. a_EmployeeID a = uid) (actuary_info s))"

definition named :: "racun option \<Rightarrow> racun option" where
  "named a = (case a of None \<Rightarrow> None | Some r \<Rightarrow> if broj_racuna r = [] then None else Some r)"

definition resolvePersonAccount :: "string \<Rightarrow> string \<Rightarrow> racun option dbp" where
  "resolvePersonAccount personID currency = (case ParseInt personID of
       None \<Rightarrow> ret None
     | Some uid \<Rightarrow>
         bnd (query_or None (pick_racun (\<lambda>r. id_vlasnika r = uid \<and> r_status r = ''AKTIVAN'') currency)) (\<lambda>acc.
           case named acc of
             Some r \<Rightarrow> ret (Some r)
           | None \<Rightarrow> bnd (isActuary uid) (\<lambda>b.
               if b then bnd (query_or None (pick_racun (\<lambda>r. vrsta_racuna r = ''POSLOVNI'' \<and> r_status r = ''AKTIVAN'')
                      currency)) (\<lambda>acc. ret (named acc))
               else ret None)))"

text \<open>The last rate of a currency counts (\<open>byCode[r.Oznaka] = r\<close>).\<close>

definition rateFor :: "string \<Rightarrow> ExchangeRate list \<Rightarrow> ExchangeRate option" where
  "rateFor c rates = (case rateOf c (rev rates) of
       None \<Rightarrow> None
     | Some r \<Rightarrow> if er_Kupovni r \<le> 0 \<or> er_Prodajni r \<le> 0 then None else Some r)"

definition convertForSettlement :: "env \<Rightarrow> decimal \<Rightarrow> string \<Rightarrow> string \<Rightarrow> err + decimal" where
  "convertForSettlement E amount fromCur toCur =
     (if fromCur = toCur then Inr amount
      else case getRates E of None \<Rightarrow> Inl (Errorf ''no rates'')
      | Some rates \<Rightarrow>
          (let isCredit = amount > 0; mag = \<bar>amount\<bar> in
           case (if fromCur = ''RSD'' then Some mag
                 else map_option (\<lambda>r. mag * newFromFloat E (if isCredit then er_Kupovni r else er_Prodajni r))
                        (rateFor fromCur rates)) of
             None \<Rightarrow> Inl (Errorf ''no rate'')
           | Some rsd \<Rightarrow>
               (case (if toCur = ''RSD'' then Some rsd
                      else map_option (\<lambda>r. decDiv E rsd (newFromFloat E (if isCredit then er_Prodajni r else er_Kupovni r)))
                             (rateFor toCur rates)) of
                  None \<Rightarrow> Inl (Errorf ''no rate'')
                | Some out \<Rightarrow> Inr (if isCredit then out else - out))))"

definition listing_id :: "string \<Rightarrow> db \<Rightarrow> int" where
  "listing_id ticker s = (case List.find (\<lambda>l. l_Ticker l = ticker) (listings s) of None \<Rightarrow> 0 | Some l \<Rightarrow> l_ID l)"

definition insert_share :: "int \<Rightarrow> int \<Rightarrow> int \<Rightarrow> unit dbp" where
  "insert_share listingID userID q = stmt (\<lambda>s.
     if q > 0 \<and> int32 q \<and> list_ex (\<lambda>l. l_ID l = listingID) (listings s)
     then Some ((), s\<lparr>public_shares := public_shares s @ [\<lparr>ps_id = public_shares_seq s, ps_listing_id = listingID,
            ps_user_id = userID, ps_quantity = q\<rparr>], public_shares_seq := public_shares_seq s + 1\<rparr>)
     else None)"

definition shares_of :: "int \<Rightarrow> string \<Rightarrow> db \<Rightarrow> public_share list" where
  "shares_of userID ticker s = filter (\<lambda>p. ps_user_id p = userID \<and>
     list_ex (\<lambda>l. l_ID l = ps_listing_id p \<and> l_Ticker l = ticker) (listings s)) (public_shares s)"

fun take_shares :: "public_share list \<Rightarrow> int \<Rightarrow> int dbp" where
  "take_shares [] remaining = ret remaining"
| "take_shares (row # rows) remaining =
     (if remaining \<le> 0 then ret remaining
      else let take = (if ps_quantity row > remaining then remaining else ps_quantity row);
               newQty = ps_quantity row - take in
        bnd (if newQty = 0 then delete_share (ps_id row) else set_share (ps_id row) newQty)
          (\<lambda>_. take_shares rows (remaining - take)))"

definition decrementPublicShares :: "int \<Rightarrow> string \<Rightarrow> int \<Rightarrow> unit dbp" where
  "decrementPublicShares userID ticker amount =
     bnd (query (shares_of userID ticker)) (\<lambda>rows.
     bnd (take_shares rows amount) (\<lambda>remaining.
       if remaining > 0 then fail (Errorf ''not enough public shares'') else ret ()))"

definition writeTxRow :: "env \<Rightarrow> string \<Rightarrow> decimal \<Rightarrow> unit dbp" where
  "writeTxRow E brojRacuna amount =
     bnd (query (\<lambda>s. List.find (\<lambda>r. broj_racuna r = brojRacuna) (racuni s))) (\<lambda>r.
       case r of
         None \<Rightarrow> fail (Errorf ''account does not exist'')
       | Some x \<Rightarrow> if r_id x = 0 then fail (Errorf ''account does not exist'')
           else insert_transakcije E [\<lparr>t_racun_id = r_id x, tip_transakcije = ''INTERBANK'', t_iznos = amount\<rparr>])"

section \<open>Validation\<close>

definition nil_dereference :: err where
  "nil_dereference = Errorf ''nil dereference''"

definition validatePosting :: "env \<Rightarrow> bank \<Rightarrow> Posting \<Rightarrow> NoVoteReasonCode option dbp" where
  "validatePosting E B p = (let asset = p_asset p; amount = p_amount p in
     case ta_type (p_account p) of
       ACCOUNT \<Rightarrow> (case ta_num (p_account p) of None \<Rightarrow> fail nil_dereference | Some num \<Rightarrow>
         bnd (query_or None (\<lambda>s. List.find (\<lambda>r. broj_racuna r = num) (racuni s))) (\<lambda>rac.
           case rac of
             None \<Rightarrow> ret (Some NO_SUCH_ACCOUNT)
           | Some r \<Rightarrow> ret (if r_id r = 0 \<or> r_status r \<noteq> ''AKTIVAN'' then Some NO_SUCH_ACCOUNT
               else if as_type asset \<noteq> MONAS \<or> as_monAs asset = None then Some UNACCEPTABLE_ASSET
               else if as_monAs asset \<noteq> Some (valuta_oznaka r) then Some UNACCEPTABLE_ASSET
               else if amount < 0 \<and> raspolozivo r < \<bar>amount\<bar> then Some INSUFFICIENT_ASSET
               else None)))
     | PERSON \<Rightarrow> (case ta_id (p_account p) of None \<Rightarrow> fail nil_dereference | Some person \<Rightarrow>
         (case as_type asset of
            MONAS \<Rightarrow> (case as_monAs asset of None \<Rightarrow> ret (Some NO_SUCH_ASSET) | Some currency \<Rightarrow>
              bnd (resolvePersonAccount (fb_id person) currency) (\<lambda>acc. case acc of
                  None \<Rightarrow> ret (Some NO_SUCH_ACCOUNT)
                | Some r \<Rightarrow> ret (if amount < 0
                    then (case convertForSettlement E amount currency (valuta_oznaka r) of
                        Inl _ \<Rightarrow> Some UNACCEPTABLE_ASSET
                      | Inr converted \<Rightarrow> if raspolozivo r < \<bar>converted\<bar> then Some INSUFFICIENT_ASSET else None)
                    else None)))
          | STOCK \<Rightarrow> (if as_stock asset = None \<or> as_stock asset = Some [] then ret (Some NO_SUCH_ASSET)
              else if amount < 0 then
                (case ParseInt (fb_id person) of
                   None \<Rightarrow> ret (Some NO_SUCH_ACCOUNT)
                 | Some userID \<Rightarrow> bnd (query_or 0 (\<lambda>s. \<Sum>x \<leftarrow> shares_of userID (the (as_stock asset)) s. ps_quantity x)) (\<lambda>qty.
                     ret (if qty < IntPart \<bar>amount\<bar> then Some INSUFFICIENT_ASSET else None)))
              else ret None)
          | _ \<Rightarrow> ret None))
     | OPTION_ACC \<Rightarrow> (case ta_id (p_account p) of None \<Rightarrow> ret (Some OPTION_NEGOTIATION_NOT_FOUND) | Some i \<Rightarrow>
         if as_type asset = OPTION then ret (if amount = 0 then Some OPTION_AMOUNT_INCORRECT else None)
         else bnd (attempt (GetOptionContract (fb_routingNumber i) (fb_id i))) (\<lambda>c.
           bnd (gets now_utc) (\<lambda>now. case c of
               Inr (Some k) \<Rightarrow> ret (if ic_Status k \<noteq> CsActive then Some OPTION_USED_OR_EXPIRED
                 else if \<not> ic_SettlementDate k > now then Some OPTION_USED_OR_EXPIRED
                 else if amount = 0 then Some OPTION_AMOUNT_INCORRECT else None)
             | _ \<Rightarrow> ret (Some OPTION_NEGOTIATION_NOT_FOUND))))
     | OtherKind _ \<Rightarrow> ret None)"

section \<open>Reservation\<close>

definition reservation_row :: "int \<Rightarrow> nat \<Rightarrow> Posting \<Rightarrow> InterbankReservation" where
  "reservation_row ibTxID idx p = (let asset = p_asset p; acc = p_account p; byID = ta_type acc = PERSON \<or> ta_type acc = OPTION_ACC in
     \<lparr>rv_TxID = ibTxID, rv_PostingIndex = idx, rv_AccountKind = ta_type acc,
      rv_AccountNum = (if ta_type acc = ACCOUNT then ta_num acc else None),
      rv_ForeignRouting = (if byID then map_option fb_routingNumber (ta_id acc) else None),
      rv_ForeignID = (if byID then map_option fb_id (ta_id acc) else None),
      rv_AssetType = as_type asset,
      rv_AssetCurrency = (if as_type asset = MONAS then as_monAs asset else None),
      rv_AssetTicker = (if as_type asset = STOCK then as_stock asset
        else if as_type asset = OPTION then map_option od_ticker (as_option asset) else None),
      rv_NegotiationRouting = (if as_type asset = OPTION
        then map_option (\<lambda>d. fb_routingNumber (od_negotiationId d)) (as_option asset) else None),
      rv_NegotiationID = (if as_type asset = OPTION
        then map_option (\<lambda>d. fb_id (od_negotiationId d)) (as_option asset) else None),
      rv_Amount = p_amount p, rv_Reserved = False\<rparr>)"

definition reserve_update :: "env \<Rightarrow> string \<Rightarrow> decimal \<Rightarrow> unit dbp" where
  "reserve_update E num d = bnd (update_racun E (\<lambda>r. broj_racuna r = num) (add_reserved d)) (\<lambda>_. ret ())"

text \<open>The branches of \<open>reservePosting\<close> that hold something back: money of an account, money on the account a
  person is settled on, published shares.\<close>

definition reserve_money :: "env \<Rightarrow> string \<Rightarrow> InterbankReservation \<Rightarrow> unit dbp" where
  "reserve_money E num res =
     (if rv_Amount res < 0
      then bnd (reserve_update E num \<bar>rv_Amount res\<bar>) (\<lambda>_. CreateReservation E (res\<lparr>rv_Reserved := True\<rparr>))
      else CreateReservation E res)"

definition reserve_person_money :: "env \<Rightarrow> string \<Rightarrow> string \<Rightarrow> InterbankReservation \<Rightarrow> unit dbp" where
  "reserve_person_money E personID currency res =
     bnd (resolvePersonAccount personID currency) (\<lambda>acc. case acc of
         None \<Rightarrow> fail (Errorf ''no active account'')
       | Some r \<Rightarrow> (case convertForSettlement E (rv_Amount res) currency (valuta_oznaka r) of
             Inl e \<Rightarrow> fail e
           | Inr converted \<Rightarrow>
               reserve_money E (broj_racuna r) (res\<lparr>rv_AccountNum := Some (broj_racuna r), rv_Amount := converted\<rparr>)))"

definition reserve_shares :: "env \<Rightarrow> string \<Rightarrow> string \<Rightarrow> InterbankReservation \<Rightarrow> unit dbp" where
  "reserve_shares E personID ticker res =
     bnd (decrementPublicShares (parseIntOr0 personID) ticker (IntPart \<bar>rv_Amount res\<bar>)) (\<lambda>_.
       CreateReservation E (res\<lparr>rv_Reserved := True\<rparr>))"

definition reservePosting :: "env \<Rightarrow> int \<Rightarrow> nat \<Rightarrow> Posting \<Rightarrow> unit dbp" where
  "reservePosting E ibTxID idx p = (let res = reservation_row ibTxID idx p; asset = p_asset p; amount = p_amount p in
     case ta_type (p_account p) of
       ACCOUNT \<Rightarrow>
         if as_type asset = MONAS \<and> amount < 0 then
           (case ta_num (p_account p) of None \<Rightarrow> fail nil_dereference | Some num \<Rightarrow> reserve_money E num res)
         else CreateReservation E res
     | PERSON \<Rightarrow> (case ta_id (p_account p) of None \<Rightarrow> fail nil_dereference | Some person \<Rightarrow>
         if as_type asset = STOCK \<and> amount < 0 then
           (case as_stock asset of None \<Rightarrow> fail nil_dereference | Some ticker \<Rightarrow> reserve_shares E (fb_id person) ticker res)
         else if as_type asset = MONAS then
           (case as_monAs asset of None \<Rightarrow> fail nil_dereference | Some currency \<Rightarrow>
             reserve_person_money E (fb_id person) currency res)
         else CreateReservation E res)
     | OPTION_ACC \<Rightarrow> (case ta_id (p_account p) of None \<Rightarrow> fail nil_dereference | Some _ \<Rightarrow> CreateReservation E res)
     | OtherKind _ \<Rightarrow> CreateReservation E res)"

section \<open>Prepare\<close>

definition no_reason :: "NoVoteReasonCode \<Rightarrow> NoVoteReason" where
  "no_reason c = \<lparr>nv_reason = c, nv_posting = None\<rparr>"

definition vote_no :: "NoVoteReason list \<Rightarrow> TransactionVote" where
  "vote_no rs = \<lparr>tv_vote = NO, tv_reasons = rs\<rparr>"

fun validate_postings :: "env \<Rightarrow> bank \<Rightarrow> Posting list \<Rightarrow> NoVoteReason list dbp" where
  "validate_postings E B [] = ret []"
| "validate_postings E B (p # ps) = (case isLocalPosting B p of
       Inl e \<Rightarrow> fail e
     | Inr False \<Rightarrow> validate_postings E B ps
     | Inr True \<Rightarrow> bnd (validatePosting E B p) (\<lambda>reason.
         bnd (validate_postings E B ps) (\<lambda>rs.
           ret (case reason of None \<Rightarrow> rs | Some c \<Rightarrow> \<lparr>nv_reason = c, nv_posting = Some p\<rparr> # rs))))"

fun reserve_postings :: "env \<Rightarrow> bank \<Rightarrow> int \<Rightarrow> nat \<Rightarrow> Posting list \<Rightarrow> unit dbp" where
  "reserve_postings E B ibTxID i [] = ret ()"
| "reserve_postings E B ibTxID i (p # ps) =
     (if isLocalPosting B p = Inr True
      then bnd (reservePosting E ibTxID i p) (\<lambda>_. reserve_postings E B ibTxID (Suc i) ps)
      else reserve_postings E B ibTxID (Suc i) ps)"

definition Prepare :: "env \<Rightarrow> bank \<Rightarrow> int \<Rightarrow> Transaction \<Rightarrow> TransactionVote dbp" where
  "Prepare E B ibTxID tx =
     (if \<not> isBalanced (tx_postings tx) then ret (vote_no [no_reason UNBALANCED_TX])
      else bnd (validate_postings E B (tx_postings tx)) (\<lambda>noReasons.
        if noReasons \<noteq> [] then ret (vote_no noReasons)
        else bnd (attempt (in_tx (reserve_postings E B ibTxID 0 (tx_postings tx)))) (\<lambda>r. case r of
            Inl _ \<Rightarrow> ret (vote_no [no_reason INSUFFICIENT_ASSET])
          | Inr _ \<Rightarrow> ret \<lparr>tv_vote = YES, tv_reasons = []\<rparr>)))"

section \<open>Commit\<close>

definition ib_debit :: "decimal \<Rightarrow> racun \<Rightarrow> racun" where
  "ib_debit d r = r\<lparr>rezervisana_sredstva := rezervisana_sredstva r - d, stanje_racuna := stanje_racuna r - d\<rparr>"

definition commit_money :: "env \<Rightarrow> InterbankReservation \<Rightarrow> unit dbp" where
  "commit_money E r = (case rv_AccountNum r of
       Some num \<Rightarrow>
         if (rv_AccountKind r = ACCOUNT \<or> rv_AccountKind r = PERSON) \<and> rv_AssetType r = MONAS then
           if rv_Amount r < 0 then
             bnd (update_racun E (\<lambda>x. broj_racuna x = num) (ib_debit \<bar>rv_Amount r\<bar>)) (\<lambda>_.
               writeTxRow E num (- \<bar>rv_Amount r\<bar>))
           else if rv_Amount r > 0 then
             bnd (update_racun E (\<lambda>x. broj_racuna x = num) (add_balance (rv_Amount r))) (\<lambda>_.
               writeTxRow E num (rv_Amount r))
           else ret ()
         else ret ()
     | None \<Rightarrow> ret ())"

definition delivered_order :: "int \<Rightarrow> int \<Rightarrow> int \<Rightarrow> int \<Rightarrow> Order" where
  "delivered_order userID accountID listingID q = \<lparr>o_ID = 0, o_UserID = userID, o_AccountID = accountID,
     o_ListingID = listingID, o_OrderType = MARKET, o_Direction = BUY, o_Quantity = q, o_ContractSize = 1,
     o_PricePerUnit = None, o_StopPrice = None, o_Status = DONE, o_ApprovedBy = None, o_IsDone = True,
     o_RemainingPortions = 0, o_AfterHours = False, o_AllOrNone = False, o_Margin = False, o_IsClient = False,
     o_FundID = None\<rparr>"

definition row_id :: "racun option \<Rightarrow> int" where
  "row_id r = (case r of None \<Rightarrow> 0 | Some x \<Rightarrow> r_id x)"

definition bank_usd_racun :: "db \<Rightarrow> racun option" where
  "bank_usd_racun s = (let P = (\<lambda>r. vrsta_racuna r = ''POSLOVNI'' \<and> r_status r = ''AKTIVAN'') in
     case first_racun (\<lambda>r. P r \<and> valuta_oznaka r = ''USD'') s of Some r \<Rightarrow> Some r | None \<Rightarrow> first_racun P s)"

definition commit_shares :: "env \<Rightarrow> InterbankReservation \<Rightarrow> unit dbp" where
  "commit_shares E r =
     (if rv_AccountKind r = PERSON \<and> rv_AssetType r = STOCK \<and> rv_Amount r > 0 then
        (case (rv_ForeignID r, rv_AssetTicker r) of
           (Some fid, Some ticker) \<Rightarrow>
             (let userID = parseIntOr0 fid in
              bnd (query_or 0 (listing_id ticker)) (\<lambda>listingID.
              bnd (query_or None (first_racun (\<lambda>x. id_vlasnika x = userID \<and> r_status x = ''AKTIVAN''))) (\<lambda>own.
              bnd (if row_id own = 0
                   then bnd (isActuary userID) (\<lambda>b.
                     if b then bnd (query_or None bank_usd_racun) (\<lambda>x. ret (row_id x)) else ret 0)
                   else ret (row_id own)) (\<lambda>accountID.
                if listingID > 0 \<and> accountID > 0
                then if int32 (IntPart (rv_Amount r))
                     then bnd (insert_order E (delivered_order userID accountID listingID (IntPart (rv_Amount r)))) (\<lambda>_. ret ())
                     else stmt (\<lambda>_. None)
                else ret ()))))
         | _ \<Rightarrow> fail nil_dereference)
      else ret ())"

definition commit_strike :: "env \<Rightarrow> bank \<Rightarrow> InterbankReservation \<Rightarrow> unit dbp" where
  "commit_strike E B r =
     (if rv_AccountKind r = OPTION_ACC \<and> rv_AssetType r = MONAS \<and> rv_Amount r > 0 then
        (case (rv_ForeignRouting r, rv_ForeignID r) of
           (Some routing, Some fid) \<Rightarrow>
             bnd (GetOptionContract routing fid) (\<lambda>c. case c of
                 None \<Rightarrow> ret ()
               | Some k \<Rightarrow>
                   if ic_SellerRouting k = ourRoutingNumber B then
                     (let cur = (case rv_AssetCurrency r of None \<Rightarrow> [] | Some x \<Rightarrow> x) in
                      bnd (resolvePersonAccount (ic_SellerID k) cur) (\<lambda>acc. case acc of
                          None \<Rightarrow> ret ()
                        | Some sellerAcc \<Rightarrow>
                            (let credited = (case convertForSettlement E (rv_Amount r) cur (valuta_oznaka sellerAcc) of
                                 Inl _ \<Rightarrow> rv_Amount r | Inr x \<Rightarrow> x) in
                             bnd (update_racun E (\<lambda>x. broj_racuna x = broj_racuna sellerAcc) (add_balance credited)) (\<lambda>_.
                               writeTxRow E (broj_racuna sellerAcc) credited))))
                   else ret ())
         | _ \<Rightarrow> ret ())
      else ret ())"

definition commit_option :: "InterbankReservation \<Rightarrow> unit dbp" where
  "commit_option r =
     (if rv_AccountKind r = OPTION_ACC \<and> rv_AssetType r \<noteq> OPTION then
        (case (rv_ForeignRouting r, rv_ForeignID r) of
           (Some routing, Some fid) \<Rightarrow> UpdateOptionContractStatus routing fid CsExercised
         | _ \<Rightarrow> fail nil_dereference)
      else ret ())"

definition Commit :: "env \<Rightarrow> bank \<Rightarrow> int \<Rightarrow> unit dbp" where
  "Commit E B ibTxID =
     bnd (ListReservationsByTx ibTxID) (\<lambda>resvs.
       in_tx (bnd (foreach resvs (\<lambda>r.
           bnd (commit_money E r) (\<lambda>_. bnd (commit_shares E r) (\<lambda>_.
           bnd (commit_strike E B r) (\<lambda>_. commit_option r)))))
         (\<lambda>_. UpdateTransactionStatus ibTxID TxCommitted ''COMMITTED'')))"

section \<open>Rollback\<close>

definition ib_release :: "decimal \<Rightarrow> racun \<Rightarrow> racun" where
  "ib_release d r = r\<lparr>rezervisana_sredstva := rezervisana_sredstva r - d\<rparr>"

definition rollback_money :: "env \<Rightarrow> InterbankReservation \<Rightarrow> unit dbp" where
  "rollback_money E r = (case rv_AccountNum r of
       Some num \<Rightarrow>
         if (rv_AccountKind r = ACCOUNT \<or> rv_AccountKind r = PERSON) \<and> rv_AssetType r = MONAS \<and> rv_Amount r < 0
         then bnd (update_racun E (\<lambda>x. broj_racuna x = num) (ib_release \<bar>rv_Amount r\<bar>)) (\<lambda>_. ret ())
         else ret ()
     | None \<Rightarrow> ret ())"

definition rollback_shares :: "InterbankReservation \<Rightarrow> unit dbp" where
  "rollback_shares r =
     (if rv_AccountKind r = PERSON \<and> rv_AssetType r = STOCK \<and> rv_Amount r < 0 then
        (case (rv_ForeignID r, rv_AssetTicker r) of
           (Some fid, Some ticker) \<Rightarrow>
             bnd (query_or 0 (listing_id ticker)) (\<lambda>listingID.
               if listingID > 0 then insert_share listingID (parseIntOr0 fid) (IntPart \<bar>rv_Amount r\<bar>) else ret ())
         | _ \<Rightarrow> fail nil_dereference)
      else ret ())"

definition Rollback :: "env \<Rightarrow> int \<Rightarrow> unit dbp" where
  "Rollback E ibTxID =
     bnd (ListReservationsByTx ibTxID) (\<lambda>resvs.
       in_tx (bnd (foreach resvs (\<lambda>r. if \<not> rv_Reserved r then ret ()
           else bnd (rollback_money E r) (\<lambda>_. rollback_shares r)))
         (\<lambda>_. UpdateTransactionStatus ibTxID TxRolledBack ''ROLLED_BACK'')))"

section \<open>Escrow of shares\<close>

definition BlockShares :: "int \<Rightarrow> string \<Rightarrow> int \<Rightarrow> unit dbp" where
  "BlockShares userID ticker amount = in_tx (decrementPublicShares userID ticker amount)"

definition ReleaseShares :: "int \<Rightarrow> string \<Rightarrow> int \<Rightarrow> unit dbp" where
  "ReleaseShares userID ticker amount =
     bnd (query (listing_id ticker)) (\<lambda>listingID.
       if listingID = 0 then fail (Errorf ''listing does not exist'')
       else insert_share listingID userID amount)"

end
