(* ===== verification/Interbank_Settlement.thy ===== *)
theory Interbank_Settlement
  imports Interbank_Executor
begin

text \<open>
  What the local executor guarantees. The abstract view of the accounts is a ledger: an operation
  \<open>moves D B\<close> when every account with number \<open>n\<close> gains \<open>D n\<close> of reserved funds and \<open>B n\<close> of balance, and
  nothing else of any account changes. \<open>Prepare\<close>, \<open>Commit\<close> and \<open>Rollback\<close> are shown to be such movements,
  computed from the reservation rows.
\<close>

section \<open>Balance of a transaction\<close>

definition sum_of :: "string \<Rightarrow> (string \<times> decimal) list \<Rightarrow> decimal" where
  "sum_of k m = (case map_of m k of None \<Rightarrow> 0 | Some v \<Rightarrow> v)"

lemma sum_of_Nil [simp]: "sum_of k [] = 0"
  by (simp add: sum_of_def)

lemma sum_of_add: "sum_of k' (add_sum k a m) = sum_of k' m + (if k' = k then a else 0)"
  by (induction k a m rule: add_sum.induct) (auto simp: sum_of_def)

lemma add_sum_keys: "set (map fst (add_sum k a m)) = insert k (set (map fst m))"
  by (induction k a m rule: add_sum.induct) auto

lemma add_sum_distinct: "distinct (map fst m) \<Longrightarrow> distinct (map fst (add_sum k a m))"
  by (induction k a m rule: add_sum.induct) (use add_sum_keys in auto)

lemma posting_sums_distinct: "distinct (map fst m) \<Longrightarrow>
   distinct (map fst (fold (\<lambda>p. add_sum (assetKey (p_asset p)) (p_amount p)) ps m))"
  by (induction ps arbitrary: m) (simp_all add: add_sum_distinct)

lemma posting_sums_sum: "sum_of k (fold (\<lambda>p. add_sum (assetKey (p_asset p)) (p_amount p)) ps m) =
   sum_of k m + (\<Sum>p \<leftarrow> filter (\<lambda>p. assetKey (p_asset p) = k) ps. p_amount p)"
  by (induction ps arbitrary: m) (auto simp: sum_of_add)

lemma all_sums_zero:
  assumes "distinct (map fst m)"
  shows "list_all (\<lambda>(k, v). v = 0) m \<longleftrightarrow> (\<forall>k. sum_of k m = 0)"
proof
  assume "list_all (\<lambda>(k, v). v = 0) m"
  then show "\<forall>k. sum_of k m = 0"
    by (auto simp: sum_of_def list_all_iff dest: map_of_SomeD split: option.splits)
next
  assume z: "\<forall>k. sum_of k m = 0"
  have "v = 0" if "(k, v) \<in> set m" for k v
    using that z [rule_format, of k] map_of_is_SomeI [OF assms that] by (simp add: sum_of_def)
  then show "list_all (\<lambda>(k, v). v = 0) m" by (auto simp: list_all_iff)
qed


section \<open>A vote against\<close>

lemma keeps_resolvePersonAccount [keeps_intros]: "clock_free f \<Longrightarrow> keeps f (resolvePersonAccount i c)"
  unfolding resolvePersonAccount_def isActuary_def by (intro keeps_intros)

lemma keeps_validatePosting: "clock_free f \<Longrightarrow> keeps f (validatePosting E B p)"
  unfolding validatePosting_def Let_def
  by (intro keeps_intros)

lemma keeps_validate_postings: "clock_free f \<Longrightarrow> keeps f (validate_postings E B ps)"
proof (induction ps)
  case (Cons p ps)
  then have "keeps f (validate_postings E B ps)" .
  then show ?case
    unfolding validate_postings.simps by (intro keeps_intros keeps_validatePosting Cons.prems)
qed (simp add: keeps_ret)

lemma Prepare_refused:
  assumes "Prepare E B i tx s = (r, s')" and "\<forall>v. r = Inr v \<longrightarrow> tv_vote v \<noteq> YES"
  shows "core s' = core s"
proof (cases "isBalanced (tx_postings tx)")
  case False
  with assms(1) show ?thesis by (simp add: Prepare_def)
next
  case True
  obtain r1 s1 where v: "validate_postings E B (tx_postings tx) s = (r1, s1)" by force
  have c: "core s1 = core s" using keepsD [OF keeps_validate_postings v, of core] by simp
  obtain r2 s2 where t: "in_tx (reserve_postings E B i 0 (tx_postings tx)) s1 = (r2, s2)" by force
  show ?thesis
  proof (cases r1)
    case (Inl e)
    with True v c assms(1) show ?thesis by (simp add: Prepare_def bnd_def)
  next
    case (Inr rs)
    show ?thesis
    proof (cases "rs = [] \<and> (\<exists>u. r2 = Inr u)")
      case True
      with \<open>isBalanced (tx_postings tx)\<close> v t Inr assms show ?thesis by (auto simp: Prepare_def bnd_def attempt_def)
    next
      case False
      then have "s' = s1 \<or> s' = s2 \<and> (\<exists>e. r2 = Inl e)"
        using \<open>isBalanced (tx_postings tx)\<close> v t Inr assms(1)
        by (auto simp: Prepare_def bnd_def attempt_def split: if_splits sum.splits)
      with c t in_tx_Inl show ?thesis by fastforce
    qed
  qed
qed

text \<open>A vote against costs nothing: unless \<open>Prepare\<close> votes YES, whatever statement failed on the way,
  no account, booking, order or published share has changed.\<close>

theorem no_vote_changes_nothing:
  assumes "Prepare E B i tx s = (r, s')" and "\<forall>v. r = Inr v \<longrightarrow> tv_vote v \<noteq> YES"
  shows "core s' = core s"
  by (rule Prepare_refused [OF assms])

section \<open>The ledger\<close>

definition shift :: "decimal \<Rightarrow> decimal \<Rightarrow> racun \<Rightarrow> racun" where
  "shift d b r = r\<lparr>rezervisana_sredstva := rezervisana_sredstva r + d, stanje_racuna := stanje_racuna r + b\<rparr>"

definition moves :: "(string \<Rightarrow> decimal) \<Rightarrow> (string \<Rightarrow> decimal) \<Rightarrow> db \<Rightarrow> db \<Rightarrow> bool" where
  "moves D B s s' \<longleftrightarrow> racuni s' = map (\<lambda>r. shift (D (broj_racuna r)) (B (broj_racuna r)) r) (racuni s)"

definition whole_books :: "db \<Rightarrow> bool" where
  "whole_books s \<longleftrightarrow> list_all (\<lambda>r. cents (stanje_racuna r) \<and> cents (rezervisana_sredstva r)) (racuni s)"

lemma shift_zero [simp]: "shift 0 0 r = r"
  by (simp add: shift_def)

lemma shift_shift [simp]: "shift d' b' (shift d b r) = shift (d + d') (b + b') r"
  by (simp add: shift_def add.assoc)

lemma broj_shift [simp]: "broj_racuna (shift d b r) = broj_racuna r"
  by (simp add: shift_def)

lemma moves_same: "racuni s' = racuni s \<Longrightarrow> moves (\<lambda>_. 0) (\<lambda>_. 0) s s'"
  by (simp add: moves_def)

lemma moves_keeps: "keeps racuni m \<Longrightarrow> m s = (r, s') \<Longrightarrow> moves (\<lambda>_. 0) (\<lambda>_. 0) s s'"
  by (rule moves_same) (rule keepsD)

lemma moves_trans: "moves D B s t \<Longrightarrow> moves D' B' t u \<Longrightarrow> moves (\<lambda>n. D n + D' n) (\<lambda>n. B n + B' n) s u"
  by (simp add: moves_def)

lemma moves_cong: "racuni s = racuni t \<Longrightarrow> moves D B s u = moves D B t u" "racuni u = racuni v \<Longrightarrow> moves D B s u = moves D B s v"
  by (simp_all add: moves_def)

lemma moves_whole:
  "moves D B s s' \<Longrightarrow> whole_books s \<Longrightarrow> (\<And>n. cents (D n) \<and> cents (B n)) \<Longrightarrow> whole_books s'"
  by (auto simp: moves_def whole_books_def list_all_iff shift_def)

lemma whole_books_cong: "racuni s' = racuni s \<Longrightarrow> whole_books s' = whole_books s"
  by (simp add: whole_books_def)

context numerics
begin

text \<open>An update of one account number by whole cents is a movement.\<close>

lemma update_moves:
  assumes run: "update_racun E (\<lambda>x. broj_racuna x = num) f s = (Inr k, s')" and w: "whole_books s"
    and f: "\<And>r. f r = shift d b r" and c: "cents d" "cents b"
  shows "moves (\<lambda>n. if n = num then d else 0) (\<lambda>n. if n = num then b else 0) s s'"
proof -
  have "racuni s' = upd_where (\<lambda>x. broj_racuna x = num) (\<lambda>r. store_racun E (f r)) (racuni s)"
    using update_racun_InrD [OF run] by simp
  moreover have "store_racun E (shift d b r) = shift d b r" if "r \<in> set (racuni s)" for r
    using that w c by (simp add: whole_books_def list_all_iff store_racun_def shift_def round2_id)
  ultimately show ?thesis by (auto simp: moves_def upd_where_def f)
qed

end

section \<open>What a reservation row stands for\<close>

text \<open>The money a row holds back on account \<open>n\<close>, and the money it books there.\<close>

definition money_row :: "InterbankReservation \<Rightarrow> bool" where
  "money_row x \<longleftrightarrow> (rv_AccountKind x = ACCOUNT \<or> rv_AccountKind x = PERSON) \<and> rv_AssetType x = MONAS"

definition held1 :: "string \<Rightarrow> InterbankReservation \<Rightarrow> decimal" where
  "held1 n x = (if money_row x \<and> rv_AccountNum x = Some n \<and> rv_Amount x < 0 then - rv_Amount x else 0)"

definition booked1 :: "string \<Rightarrow> InterbankReservation \<Rightarrow> decimal" where
  "booked1 n x = (if money_row x \<and> rv_AccountNum x = Some n then rv_Amount x else 0)"

definition held :: "string \<Rightarrow> InterbankReservation list \<Rightarrow> decimal" where
  "held n xs = (\<Sum>x \<leftarrow> xs. held1 n x)"

definition booked :: "string \<Rightarrow> InterbankReservation list \<Rightarrow> decimal" where
  "booked n xs = (\<Sum>x \<leftarrow> xs. booked1 n x)"

lemma held_simps [simp]: "held n [] = 0" "held n (x # xs) = held1 n x + held n xs"
  "booked n [] = 0" "booked n (x # xs) = booked1 n x + booked n xs"
  by (simp_all add: held_def booked_def)

text \<open>A row as \<open>reservePosting\<close> writes it: whole cents, and marked reserved when it holds money back.\<close>

definition row_ok :: "InterbankReservation \<Rightarrow> bool" where
  "row_ok x \<longleftrightarrow> (money_row x \<longrightarrow> cents (rv_Amount x) \<and> (rv_Amount x < 0 \<longrightarrow> rv_Reserved x))"

lemma row_ok_cents: "row_ok x \<Longrightarrow> cents (held1 n x) \<and> cents (booked1 n x)"
  by (auto simp: row_ok_def held1_def booked1_def)

lemma rows_ok_cents: "list_all row_ok xs \<Longrightarrow> cents (held n xs) \<and> cents (booked n xs)"
  by (induction xs) (simp_all add: row_ok_cents)

text \<open>Amounts in whole cents, before and after the conversion into the currency of whichever account
  a person's posting is settled on.\<close>

definition whole_posting :: "env \<Rightarrow> Posting \<Rightarrow> bool" where
  "whole_posting E p \<longleftrightarrow> (as_type (p_asset p) = MONAS \<longrightarrow> cents (p_amount p) \<and>
     (\<forall>c cur y. ta_type (p_account p) = PERSON \<longrightarrow> as_monAs (p_asset p) = Some c \<longrightarrow> convertForSettlement E (p_amount p) c cur = Inr y \<longrightarrow> cents y))"

lemma CreateReservation_InrD:
  assumes "CreateReservation E x s = (Inr u, s')"
  shows "ib_reservations s' = ib_reservations s @ [x\<lparr>rv_Amount := round6 E (rv_Amount x)\<rparr>]" "racuni s' = racuni s"
  using assms by (auto simp: CreateReservation_def stmt_root_def split: if_splits)

lemma reserve_update_frame: "keeps ib_reservations (reserve_update E num d)"
  unfolding reserve_update_def by (intro keeps_intros keeps_update_racun) simp_all

lemma decrement_frame: "keeps ib_reservations (decrementPublicShares u t a)" "keeps racuni (decrementPublicShares u t a)"
proof -
  have t: "keeps f (take_shares rows k)"
    if "clock_free f" and "\<And>s ps. f (s\<lparr>public_shares := ps\<rparr>) = f s" for f :: "db \<Rightarrow> 'x" and rows k
    using that by (induction rows k rule: take_shares.induct)
      (auto simp: Let_def delete_share_def set_share_def intro!: keeps_intros keeps_stmt split: if_splits)
  show "keeps ib_reservations (decrementPublicShares u t a)" "keeps racuni (decrementPublicShares u t a)"
    unfolding decrementPublicShares_def by (intro keeps_intros t; simp)+
qed

text \<open>A reservation \<open>x\<close> recorded on the way from \<open>s\<close> to \<open>s'\<close>.\<close>

definition of_posting :: "Posting \<Rightarrow> InterbankReservation \<Rightarrow> bool" where
  "of_posting p x \<longleftrightarrow> rv_AccountKind x = ta_type (p_account p) \<and> rv_AssetType x = as_type (p_asset p) \<and>
     (ta_type (p_account p) = ACCOUNT \<and> as_type (p_asset p) = MONAS \<longrightarrow>
        rv_AccountNum x = ta_num (p_account p) \<and> rv_Amount x = p_amount p)"

definition recorded :: "int \<Rightarrow> nat \<Rightarrow> Posting \<Rightarrow> InterbankReservation \<Rightarrow> db \<Rightarrow> db \<Rightarrow> bool" where
  "recorded i k p x s s' \<longleftrightarrow> ib_reservations s' = ib_reservations s @ [x] \<and> rv_TxID x = i \<and> rv_PostingIndex x = k \<and>
     of_posting p x \<and> row_ok x \<and> moves (\<lambda>n. held1 n x) (\<lambda>_. 0) s s'"

lemma row_updates [simp]:
  "money_row (x\<lparr>rv_Amount := a\<rparr>) = money_row x" "money_row (x\<lparr>rv_Reserved := b\<rparr>) = money_row x"
  "money_row (x\<lparr>rv_AccountNum := n\<rparr>) = money_row x"
  by (simp_all add: money_row_def)

lemma reservation_row_fields [simp]:
  "rv_TxID (reservation_row i k p) = i" "rv_PostingIndex (reservation_row i k p) = k"
  "rv_Amount (reservation_row i k p) = p_amount p" "rv_AccountKind (reservation_row i k p) = ta_type (p_account p)"
  "rv_AssetType (reservation_row i k p) = as_type (p_asset p)"
  "ta_type (p_account p) = ACCOUNT \<Longrightarrow> rv_AccountNum (reservation_row i k p) = ta_num (p_account p)"
  "money_row (reservation_row i k p) =
     ((ta_type (p_account p) = ACCOUNT \<or> ta_type (p_account p) = PERSON) \<and> as_type (p_asset p) = MONAS)"
  by (simp_all add: reservation_row_def Let_def money_row_def)

lemma of_posting_row [simp]: "of_posting p (reservation_row i k p)"
  by (simp add: of_posting_def)

lemma of_posting_updates [simp]:
  "of_posting p (x\<lparr>rv_Reserved := b\<rparr>) = of_posting p x"
  "\<not> money_row x \<or> a = rv_Amount x \<Longrightarrow> of_posting p x \<Longrightarrow> of_posting p (x\<lparr>rv_Amount := a\<rparr>)"
  "rv_AccountKind x = PERSON \<Longrightarrow> of_posting p x \<Longrightarrow> of_posting p (x\<lparr>rv_AccountNum := n, rv_Amount := a\<rparr>)"
  by (auto simp: of_posting_def money_row_def)

lemma recorded_plain:
  assumes "CreateReservation E x s = (Inr u, s')" and "rv_TxID x = i" "rv_PostingIndex x = k" "of_posting p x"
    and "money_row x \<Longrightarrow> cents (rv_Amount x) \<and> 0 \<le> rv_Amount x \<and> round6 E (rv_Amount x) = rv_Amount x"
  shows "\<exists>x. recorded i k p x s s'"
proof -
  note c = CreateReservation_InrD [OF assms(1)]
  have "held1 n (x\<lparr>rv_Amount := round6 E (rv_Amount x)\<rparr>) = 0" for n using assms(5) by (auto simp: held1_def)
  moreover have "row_ok (x\<lparr>rv_Amount := round6 E (rv_Amount x)\<rparr>)" using assms(5) by (auto simp: row_ok_def)
  ultimately have "recorded i k p (x\<lparr>rv_Amount := round6 E (rv_Amount x)\<rparr>) s s'"
    using c assms(2-5) by (auto simp: recorded_def moves_same)
  then show ?thesis ..
qed

lemma recorded_cong:
  "racuni s1 = racuni s \<Longrightarrow> ib_reservations s1 = ib_reservations s \<Longrightarrow> recorded i k p x s1 s' = recorded i k p x s s'"
  by (simp add: recorded_def moves_def)

lemma reserve_shares_records:
  assumes run: "reserve_shares E pid ticker x s = (Inr u, s')" and x: "\<not> money_row x" "rv_TxID x = i" "rv_PostingIndex x = k" "of_posting p x"
  shows "\<exists>x. recorded i k p x s s'"
proof -
  from run obtain v s1 where d: "decrementPublicShares (parseIntOr0 pid) ticker (IntPart \<bar>rv_Amount x\<bar>) s = (Inr v, s1)"
    and c: "CreateReservation E (x\<lparr>rv_Reserved := True\<rparr>) s1 = (Inr u, s')"
    unfolding reserve_shares_def by (rule bnd_InrE)
  from recorded_plain [OF c] x have "\<exists>x. recorded i k p x s1 s'" by simp
  then show ?thesis
    by (simp only: recorded_cong [OF keepsD [OF decrement_frame(2) d] keepsD [OF decrement_frame(1) d]])
qed

context numerics
begin

lemma reserve_money_records:
  assumes run: "reserve_money E num x s = (Inr u, s')" and w: "whole_books s" and c: "cents (rv_Amount x)"
    and x: "money_row x" "rv_AccountNum x = Some num" "rv_TxID x = i" "rv_PostingIndex x = k" "of_posting p x"
  shows "\<exists>x. recorded i k p x s s'"
proof (cases "rv_Amount x < 0")
  case False
  with run have "CreateReservation E x s = (Inr u, s')" by (simp add: reserve_money_def)
  from recorded_plain [OF this x(3-5)] False c show ?thesis by (simp add: round6_cents)
next
  case True
  with run obtain u1 s1 where r: "reserve_update E num \<bar>rv_Amount x\<bar> s = (Inr u1, s1)"
    and cr: "CreateReservation E (x\<lparr>rv_Reserved := True\<rparr>) s1 = (Inr u, s')"
    unfolding reserve_money_def by (simp only: if_True) (rule bnd_InrE)
  note c' = CreateReservation_InrD [OF cr]
  from r obtain m where "update_racun E (\<lambda>x. broj_racuna x = num) (add_reserved \<bar>rv_Amount x\<bar>) s = (Inr m, s1)"
    unfolding reserve_update_def by (auto elim: bnd_InrE)
  from update_moves [OF this w, where d = "\<bar>rv_Amount x\<bar>" and b = 0] c
  have m: "moves (\<lambda>n. if n = num then \<bar>rv_Amount x\<bar> else 0) (\<lambda>_. 0) s s1"
    by (simp add: add_reserved_def shift_def)
  have "(\<lambda>n. held1 n (x\<lparr>rv_Reserved := True\<rparr>)) = (\<lambda>n. if n = num then \<bar>rv_Amount x\<bar> else 0)"
    using x True by (auto simp: held1_def fun_eq_iff)
  with m moves_cong(2) [OF c'(2)] have "moves (\<lambda>n. held1 n (x\<lparr>rv_Reserved := True\<rparr>)) (\<lambda>_. 0) s s'" by simp
  moreover have "ib_reservations s' = ib_reservations s @ [x\<lparr>rv_Reserved := True\<rparr>]"
    using c'(1) keepsD [OF reserve_update_frame r] round6_cents [OF c] by simp
  ultimately have "recorded i k p (x\<lparr>rv_Reserved := True\<rparr>) s s'" using x c by (simp add: recorded_def row_ok_def)
  then show ?thesis ..
qed

lemma reserve_person_money_records:
  assumes run: "reserve_person_money E pid cur x s = (Inr u, s')" and w: "whole_books s"
    and c: "\<And>c y. convertForSettlement E (rv_Amount x) cur c = Inr y \<Longrightarrow> cents y"
    and x: "money_row x" "rv_AccountKind x = PERSON" "rv_TxID x = i" "rv_PostingIndex x = k" "of_posting p x"
  shows "\<exists>x. recorded i k p x s s'"
proof -
  from run obtain r s1 y where ra: "resolvePersonAccount pid cur s = (Inr (Some r), s1)"
    and y: "convertForSettlement E (rv_Amount x) cur (valuta_oznaka r) = Inr y"
    and m: "reserve_money E (broj_racuna r) (x\<lparr>rv_AccountNum := Some (broj_racuna r), rv_Amount := y\<rparr>) s1 = (Inr u, s')"
    unfolding reserve_person_money_def by (auto elim!: bnd_InrE split: option.splits sum.splits)
  have eq: "racuni s1 = racuni s" "ib_reservations s1 = ib_reservations s"
    using keepsD [OF keeps_resolvePersonAccount ra, of ib_reservations] keepsD [OF keeps_resolvePersonAccount ra, of racuni]
    by simp_all
  have "\<exists>x. recorded i k p x s1 s'"
    by (rule reserve_money_records [OF m]) (use w whole_books_cong [OF eq(1)] c [OF y] x in simp_all)
  then show ?thesis by (simp only: recorded_cong [OF eq])
qed

lemma reservePosting_records:
  assumes run: "reservePosting E i k p s = (Inr u, s')" and w: "whole_books s" and p: "whole_posting E p"
  shows "\<exists>x. recorded i k p x s s'"
proof -
  let ?x = "reservation_row i k p"
  from run consider
      (account) num where "ta_type (p_account p) = ACCOUNT" "as_type (p_asset p) = MONAS" "ta_num (p_account p) = Some num"
        "reserve_money E num ?x s = (Inr u, s')"
    | (money) pid cur where "ta_type (p_account p) = PERSON" "as_type (p_asset p) = MONAS" "as_monAs (p_asset p) = Some cur"
        "reserve_person_money E pid cur ?x s = (Inr u, s')"
    | (shares) pid ticker where "as_type (p_asset p) = STOCK" "reserve_shares E pid ticker ?x s = (Inr u, s')"
    | (plain) "CreateReservation E ?x s = (Inr u, s')" "money_row ?x \<longrightarrow> 0 \<le> p_amount p"
    unfolding reservePosting_def
    by (auto simp: Let_def not_less split: AccountKind.splits option.splits if_splits)
  then show ?thesis
  proof cases
    case account
    with reserve_money_records [OF account(4) w] p show ?thesis by (simp add: whole_posting_def)
  next
    case money
    with p show ?thesis by (intro reserve_person_money_records [OF money(4) w]) (auto simp: whole_posting_def)
  next
    case shares
    with reserve_shares_records [OF shares(2)] show ?thesis by simp
  next
    case plain
    with p recorded_plain [OF plain(1)] show ?thesis by (simp add: whole_posting_def round6_cents)
  qed
qed

end

section \<open>Prepare\<close>

definition local_postings :: "bank \<Rightarrow> Transaction \<Rightarrow> Posting list" where
  "local_postings B tx = filter (\<lambda>p. isLocalPosting B p = Inr True) (tx_postings tx)"

definition recorded_all :: "int \<Rightarrow> nat \<Rightarrow> Posting list \<Rightarrow> InterbankReservation list \<Rightarrow> db \<Rightarrow> db \<Rightarrow> bool" where
  "recorded_all i k ps xs s s' \<longleftrightarrow> ib_reservations s' = ib_reservations s @ xs \<and>
     list_all (\<lambda>x. rv_TxID x = i \<and> k \<le> rv_PostingIndex x) xs \<and> sorted (map rv_PostingIndex xs) \<and>
     list_all2 of_posting ps xs \<and> list_all row_ok xs \<and> moves (\<lambda>n. held n xs) (\<lambda>_. 0) s s'"

lemma recorded_all_Cons:
  assumes "recorded i k p x s s1" and "recorded_all i (Suc k) ps xs s1 s'"
  shows "recorded_all i k (p # ps) (x # xs) s s'"
proof -
  have "k \<le> rv_PostingIndex y" if "y \<in> set xs" for y
    using assms(2) that by (force simp: recorded_all_def list_all_iff)
  moreover have "moves (\<lambda>n. held1 n x + held n xs) (\<lambda>_. 0 + 0) s s'"
    by (rule moves_trans [of _ _ s s1]) (use assms in \<open>simp_all add: recorded_def recorded_all_def\<close>)
  ultimately show ?thesis using assms by (auto simp: recorded_def recorded_all_def list_all_iff)
qed

lemma recorded_all_weaken: "recorded_all i (Suc k) ps xs s s' \<Longrightarrow> recorded_all i k ps xs s s'"
  by (force simp: recorded_all_def list_all_iff)

lemma recorded_whole: "recorded i k p x s s' \<Longrightarrow> whole_books s \<Longrightarrow> whole_books s'"
  by (rule moves_whole [where D = "\<lambda>n. held1 n x" and B = "\<lambda>_. 0"]) (auto simp: recorded_def row_ok_cents)

definition fresh_tx :: "int \<Rightarrow> db \<Rightarrow> bool" where
  "fresh_tx i s \<longleftrightarrow> list_all (\<lambda>x. rv_TxID x \<noteq> i) (ib_reservations s)"

lemma recorded_all_reservations:
  assumes "recorded_all i k ps xs s s'" and "fresh_tx i s"
  shows "reservations_of i s' = xs"
proof -
  have "filter (\<lambda>r. rv_TxID r = i) (ib_reservations s) = []"
    using assms(2) by (auto simp: fresh_tx_def list_all_iff filter_empty_conv)
  moreover have "filter (\<lambda>r. rv_TxID r = i) xs = xs" using assms(1) by (simp add: recorded_all_def list_all_iff)
  ultimately show ?thesis using assms(1) by (simp add: reservations_of_def recorded_all_def sort_key_id_if_sorted)
qed

context numerics
begin

lemma reserve_postings_records:
  assumes "reserve_postings E B i k ps s = (Inr u, s')" and "whole_books s" and "list_all (whole_posting E) ps"
  shows "\<exists>xs. recorded_all i k (filter (\<lambda>p. isLocalPosting B p = Inr True) ps) xs s s'"
  using assms
proof (induction ps arbitrary: k s)
  case Nil
  then have "recorded_all i k [] [] s s'" by (simp add: recorded_all_def moves_same)
  then show ?case by auto
next
  case (Cons p ps)
  show ?case
  proof (cases "isLocalPosting B p = Inr True")
    case False
    with Cons.prems have "reserve_postings E B i (Suc k) ps s = (Inr u, s')" by simp
    from Cons.IH [OF this Cons.prems(2)] Cons.prems(3) False show ?thesis
      by (auto intro: recorded_all_weaken)
  next
    case True
    with Cons.prems(1) obtain v s1 where r: "reservePosting E i k p s = (Inr v, s1)"
      and k: "reserve_postings E B i (Suc k) ps s1 = (Inr u, s')" by (auto elim!: bnd_InrE)
    from reservePosting_records [OF r Cons.prems(2)] Cons.prems(3) obtain x where x: "recorded i k p x s s1" by auto
    from Cons.IH [OF k recorded_whole [OF x Cons.prems(2)]] Cons.prems(3) obtain xs
      where "recorded_all i (Suc k) (filter (\<lambda>p. isLocalPosting B p = Inr True) ps) xs s1 s'" by auto
    from recorded_all_Cons [OF x this] True show ?thesis by auto
  qed
qed

text \<open>A YES vote of \<open>Prepare\<close>: one reservation row per local posting, and the accounts hold back exactly
  what the rows say.\<close>

lemma Prepare_records:
  assumes run: "Prepare E B i tx s = (Inr v, s')" and yes: "tv_vote v = YES"
    and w: "whole_books s" and p: "list_all (whole_posting E) (tx_postings tx)"
  shows "\<exists>xs. recorded_all i 0 (local_postings B tx) xs s s'"
proof -
  have b: "isBalanced (tx_postings tx)" using run yes by (cases "isBalanced (tx_postings tx)") (auto simp: Prepare_def vote_no_def)
  with run yes obtain rs s1 u where v: "validate_postings E B (tx_postings tx) s = (Inr rs, s1)"
    and "in_tx (reserve_postings E B i 0 (tx_postings tx)) s1 = (Inr u, s')"
    by (auto simp: Prepare_def vote_no_def bnd_def attempt_def split: if_splits prod.splits sum.splits)
  from this(2) obtain s2 where r: "reserve_postings E B i 0 (tx_postings tx) (begin_tx s1) = (Inr u, s2)"
    and s': "s' = end_tx s1 (bump s2)" by (rule in_tx_InrE)
  have eq: "racuni (begin_tx s1) = racuni s" "ib_reservations (begin_tx s1) = ib_reservations s"
    using keepsD [OF keeps_validate_postings v, of racuni] keepsD [OF keeps_validate_postings v, of ib_reservations]
    by simp_all
  from reserve_postings_records [OF r _ p] w whole_books_cong [OF eq(1)]
  obtain xs where "recorded_all i 0 (local_postings B tx) xs (begin_tx s1) s2" by (auto simp: local_postings_def)
  with eq s' show ?thesis by (auto simp: recorded_all_def moves_def)
qed

end

section \<open>Commit and rollback\<close>

lemma foreach_moves:
  assumes "foreach xs body s = (Inr u, s')" and "whole_books s"
    and "\<And>x s u s'. x \<in> set xs \<Longrightarrow> whole_books s \<Longrightarrow> body x s = (Inr u, s') \<Longrightarrow> moves (D x) (B x) s s'"
    and "\<And>x n. x \<in> set xs \<Longrightarrow> cents (D x n) \<and> cents (B x n)"
  shows "moves (\<lambda>n. \<Sum>x \<leftarrow> xs. D x n) (\<lambda>n. \<Sum>x \<leftarrow> xs. B x n) s s'"
  using assms
proof (induction xs arbitrary: s)
  case Nil
  then show ?case by (simp add: moves_same)
next
  case (Cons x xs)
  from Cons.prems(1) obtain v s1 where x: "body x s = (Inr v, s1)" and k: "foreach xs body s1 = (Inr u, s')"
    by (auto elim!: bnd_InrE)
  have m: "moves (D x) (B x) s s1" by (rule Cons.prems(3) [OF _ Cons.prems(2) x]) simp
  have "whole_books s1" by (rule moves_whole [OF m Cons.prems(2)]) (use Cons.prems(4) in simp)
  from Cons.IH [OF k this] Cons.prems(3,4) have "moves (\<lambda>n. \<Sum>x \<leftarrow> xs. D x n) (\<lambda>n. \<Sum>x \<leftarrow> xs. B x n) s1 s'" by simp
  from moves_trans [OF m this] show ?case by simp
qed

lemma held_sum: "(\<Sum>x \<leftarrow> xs. - held1 n x) = - held n xs" "(\<Sum>x \<leftarrow> xs. booked1 n x) = booked n xs"
  by (induction xs) simp_all

lemma keeps_racuni_books [keeps_intros]:
  "keeps racuni (writeTxRow E n a)" "keeps racuni (commit_shares E r)" "keeps racuni (commit_option r)"
  "keeps racuni (rollback_shares r)" "keeps racuni (UpdateTransactionStatus i st step)"
proof -
  show "keeps racuni (writeTxRow E n a)"
    unfolding writeTxRow_def by (intro keeps_intros keeps_insert_transakcije) simp_all
  show "keeps racuni (commit_shares E r)"
    unfolding commit_shares_def isActuary_def Let_def insert_order_def
    by (intro keeps_intros keeps_stmt) (auto simp: Let_def split: if_splits)
  show "keeps racuni (commit_option r)"
    unfolding commit_option_def by (intro keeps_intros keeps_repo_writes) simp_all
  show "keeps racuni (rollback_shares r)"
    unfolding rollback_shares_def insert_share_def by (intro keeps_intros keeps_stmt) (auto split: if_splits)
  show "keeps racuni (UpdateTransactionStatus i st step)" by (rule keeps_repo_writes) simp_all
qed

text \<open>Rows whose commit does not also pay a strike price to a local seller.\<close>

definition no_strike :: "InterbankReservation \<Rightarrow> bool" where
  "no_strike x \<longleftrightarrow> \<not> (rv_AccountKind x = OPTION_ACC \<and> rv_AssetType x = MONAS \<and> rv_Amount x > 0)"

context numerics
begin

lemma commit_money_moves:
  assumes run: "commit_money E x s = (Inr u, s')" and w: "whole_books s" and x: "row_ok x"
  shows "moves (\<lambda>n. - held1 n x) (\<lambda>n. booked1 n x) s s'"
proof (cases "\<exists>num. rv_AccountNum x = Some num \<and> money_row x \<and> rv_Amount x \<noteq> 0")
  case False
  then have "held1 n x = 0" "booked1 n x = 0" for n by (auto simp: held1_def booked1_def)
  moreover have "s' = s" using run False
    by (auto simp: commit_money_def money_row_def split: option.splits if_splits)
  ultimately show ?thesis by (simp add: moves_same)
next
  case True
  then obtain num where num: "rv_AccountNum x = Some num" and m: "money_row x" and nz: "rv_Amount x \<noteq> 0" by blast
  define f where "f = (if rv_Amount x < 0 then ib_debit \<bar>rv_Amount x\<bar> else add_balance (rv_Amount x))"
  have "bnd (update_racun E (\<lambda>x. broj_racuna x = num) f) (\<lambda>_. writeTxRow E num (rv_Amount x)) s = (Inr u, s')"
    using run num m nz by (auto simp: commit_money_def money_row_def f_def split: if_splits)
  then obtain k s1 where up: "update_racun E (\<lambda>x. broj_racuna x = num) f s = (Inr k, s1)"
    and wr: "writeTxRow E num (rv_Amount x) s1 = (Inr u, s')" by (rule bnd_InrE)
  have "moves (\<lambda>n. if n = num then min 0 (rv_Amount x) else 0) (\<lambda>n. if n = num then rv_Amount x else 0) s s1"
    by (rule update_moves [OF up w]) (use x m nz in \<open>auto simp: f_def ib_debit_def add_balance_def shift_def row_ok_def min_def\<close>)
  moreover have "racuni s' = racuni s1" using keepsD [OF keeps_racuni_books(1) wr] .
  moreover have "(\<lambda>n. - held1 n x) = (\<lambda>n. if n = num then min 0 (rv_Amount x) else 0)"
    "(\<lambda>n. booked1 n x) = (\<lambda>n. if n = num then rv_Amount x else 0)"
    using m num by (auto simp: held1_def booked1_def fun_eq_iff min_def)
  ultimately show ?thesis by (simp add: moves_def)
qed

lemma rollback_money_moves:
  assumes run: "rollback_money E x s = (Inr u, s')" and w: "whole_books s" and x: "row_ok x"
  shows "moves (\<lambda>n. - held1 n x) (\<lambda>_. 0) s s'"
proof (cases "\<exists>num. rv_AccountNum x = Some num \<and> money_row x \<and> rv_Amount x < 0")
  case False
  then have "held1 n x = 0" for n by (auto simp: held1_def)
  moreover have "s' = s" using run False
    by (auto simp: rollback_money_def money_row_def split: option.splits if_splits)
  ultimately show ?thesis by (simp add: moves_same)
next
  case True
  then obtain num where num: "rv_AccountNum x = Some num" and m: "money_row x" and nz: "rv_Amount x < 0" by blast
  from run num m nz obtain k where up: "update_racun E (\<lambda>x. broj_racuna x = num) (ib_release \<bar>rv_Amount x\<bar>) s = (Inr k, s')"
    by (auto simp: rollback_money_def money_row_def elim!: bnd_InrE split: if_splits)
  have "moves (\<lambda>n. if n = num then rv_Amount x else 0) (\<lambda>n. if n = num then 0 else 0) s s'"
    by (rule update_moves [OF up w]) (use x m nz in \<open>auto simp: ib_release_def shift_def row_ok_def\<close>)
  moreover have "(\<lambda>n. - held1 n x) = (\<lambda>n. if n = num then rv_Amount x else 0)"
    using m num nz by (auto simp: held1_def fun_eq_iff)
  ultimately show ?thesis by simp
qed

text \<open>The shape \<open>Commit\<close> and \<open>Rollback\<close> share: one movement per reservation row, in one transaction.\<close>

lemma settle_loop:
  assumes run: "bnd (ListReservationsByTx i) (\<lambda>resvs. in_tx (bnd (foreach resvs body)
      (\<lambda>_. UpdateTransactionStatus i st step))) s = (Inr u, s')"
    and w: "whole_books s" and x: "list_all row_ok (reservations_of i s)"
    and body: "\<And>x s u s'. x \<in> set (reservations_of i t) \<Longrightarrow> row_ok x \<Longrightarrow> whole_books s \<Longrightarrow> body x s = (Inr u, s') \<Longrightarrow>
      moves (\<lambda>n. - held1 n x) (B x) s s'"
    and B: "\<And>x n. row_ok x \<Longrightarrow> cents (B x n)" and t: "t = s"
  shows "moves (\<lambda>n. - held n (reservations_of i s)) (\<lambda>n. \<Sum>x \<leftarrow> reservations_of i s. B x n) s s'"
proof -
  from run obtain s1 xs where l: "ListReservationsByTx i s = (Inr xs, s1)"
    and tr: "in_tx (bnd (foreach xs body) (\<lambda>_. UpdateTransactionStatus i st step)) s1 = (Inr u, s')" by (rule bnd_InrE)
  have s1: "s1 = bump s" "xs = reservations_of i s"
    using root_query_InrD [OF l [unfolded ListReservationsByTx_def]] by (simp_all add: reservations_of_def)
  from tr obtain s2 where b: "bnd (foreach xs body) (\<lambda>_. UpdateTransactionStatus i st step) (begin_tx s1) = (Inr u, s2)"
    and s': "s' = end_tx s1 (bump s2)" by (rule in_tx_InrE)
  from b obtain v s3 where f: "foreach xs body (begin_tx s1) = (Inr v, s3)"
    and up: "UpdateTransactionStatus i st step s3 = (Inr u, s2)" by (rule bnd_InrE)
  have "moves (\<lambda>n. \<Sum>x \<leftarrow> xs. - held1 n x) (\<lambda>n. \<Sum>x \<leftarrow> xs. B x n) (begin_tx s1) s3"
  proof (rule foreach_moves [OF f])
    show "whole_books (begin_tx s1)" using w s1 by (simp add: whole_books_def)
    show "cents (- held1 n y) \<and> cents (B y n)" if "y \<in> set xs" for y n
      using that x s1 B row_ok_cents by (auto simp: list_all_iff)
    show "moves (\<lambda>n. - held1 n y) (B y) a b" if "y \<in> set xs" "whole_books a" "body y a = (Inr c, b)" for y a b c
      by (rule body [OF _ _ that(2,3)]) (use that(1) x s1 t in \<open>auto simp: list_all_iff\<close>)
  qed
  moreover have "racuni s2 = racuni s3" using keepsD [OF keeps_racuni_books(5) up] .
  ultimately show ?thesis using s1 s' by (simp add: moves_def held_sum)
qed

text \<open>\<open>Commit\<close> on rows without strike prices releases what they hold and books what they say;
  \<open>Rollback\<close> only releases.\<close>

lemma Commit_moves:
  assumes run: "Commit E B i s = (Inr u, s')" and w: "whole_books s" and x: "list_all row_ok (reservations_of i s)"
    and strike: "list_all no_strike (reservations_of i s)"
  shows "moves (\<lambda>n. - held n (reservations_of i s)) (\<lambda>n. booked n (reservations_of i s)) s s'"
proof -
  have "moves (\<lambda>n. - held n (reservations_of i s)) (\<lambda>n. \<Sum>x \<leftarrow> reservations_of i s. booked1 n x) s s'"
  proof (rule settle_loop [OF run [unfolded Commit_def] w x _ _ refl])
    fix r a u b
    assume r: "r \<in> set (reservations_of i s)" "row_ok r" "whole_books a" and run: "bnd (commit_money E r) (\<lambda>_.
      bnd (commit_shares E r) (\<lambda>_. bnd (commit_strike E B r) (\<lambda>_. commit_option r))) a = (Inr u, b)"
    have strike_skip: "commit_strike E B r = ret ()"
      using r strike by (auto simp: list_all_iff no_strike_def commit_strike_def)
    from run obtain v t where m: "commit_money E r a = (Inr v, t)"
      and k: "bnd (commit_shares E r) (\<lambda>_. bnd (commit_strike E B r) (\<lambda>_. commit_option r)) t = (Inr u, b)"
      by (rule bnd_InrE)
    have "keeps racuni (bnd (commit_shares E r) (\<lambda>_. bnd (commit_strike E B r) (\<lambda>_. commit_option r)))"
      unfolding strike_skip by (intro keeps_intros)
    from keepsD [OF this k] commit_money_moves [OF m r(3,2)] moves_cong(2)
    show "moves (\<lambda>n. - held1 n r) (\<lambda>n. booked1 n r) a b" by blast
  qed (simp add: row_ok_cents)
  then show ?thesis by (simp add: held_sum)
qed

lemma Rollback_moves:
  assumes run: "Rollback E i s = (Inr u, s')" and w: "whole_books s" and x: "list_all row_ok (reservations_of i s)"
  shows "moves (\<lambda>n. - held n (reservations_of i s)) (\<lambda>_. 0) s s'"
proof -
  have "moves (\<lambda>n. - held n (reservations_of i s)) (\<lambda>n. \<Sum>x \<leftarrow> reservations_of i s. 0) s s'"
  proof (rule settle_loop [OF run [unfolded Rollback_def] w x _ _ refl])
    fix r a u b
    assume r: "row_ok r" "whole_books a" and run: "(if \<not> rv_Reserved r then ret ()
      else bnd (rollback_money E r) (\<lambda>_. rollback_shares r)) a = (Inr u, b)"
    show "moves (\<lambda>n. - held1 n r) (\<lambda>_. 0) a b"
    proof (cases "rv_Reserved r")
      case False
      with r(1) have "held1 n r = 0" for n by (auto simp: held1_def row_ok_def)
      with False run show ?thesis by (simp add: moves_same)
    next
      case True
      with run obtain v t where m: "rollback_money E r a = (Inr v, t)" and k: "rollback_shares r t = (Inr u, b)"
        by (auto elim!: bnd_InrE)
      from keepsD [OF keeps_racuni_books(4) k] rollback_money_moves [OF m r(2,1)] moves_cong(2)
      show ?thesis by blast
    qed
  qed simp
  then show ?thesis by simp
qed

end

section \<open>Properties: the two phases\<close>


text \<open>The debits and the bookings of the local postings on an account.\<close>

definition debits :: "bank \<Rightarrow> Transaction \<Rightarrow> string \<Rightarrow> decimal" where
  "debits B tx n = (\<Sum>p \<leftarrow> local_postings B tx. if ta_num (p_account p) = Some n \<and> p_amount p < 0 then - p_amount p else 0)"

definition bookings :: "bank \<Rightarrow> Transaction \<Rightarrow> string \<Rightarrow> decimal" where
  "bookings B tx n = (\<Sum>p \<leftarrow> local_postings B tx. if ta_num (p_account p) = Some n then p_amount p else 0)"

definition payment :: "bank \<Rightarrow> Transaction \<Rightarrow> bool" where
  "payment B tx \<longleftrightarrow> list_all (\<lambda>p. ta_type (p_account p) = ACCOUNT \<and> as_type (p_asset p) = MONAS) (local_postings B tx)"

lemma payment_rows:
  assumes "list_all2 of_posting ps xs" and "list_all (\<lambda>p. ta_type (p_account p) = ACCOUNT \<and> as_type (p_asset p) = MONAS) ps"
  shows "held n xs = (\<Sum>p \<leftarrow> ps. if ta_num (p_account p) = Some n \<and> p_amount p < 0 then - p_amount p else 0)"
    and "booked n xs = (\<Sum>p \<leftarrow> ps. if ta_num (p_account p) = Some n then p_amount p else 0)"
    and "list_all no_strike xs"
  using assms
  by (induction rule: list_all2_induct) (auto simp: of_posting_def held1_def booked1_def money_row_def no_strike_def)

text \<open>C32. A committed payment books exactly its postings: \<open>Prepare\<close> reserves on every account the sum of
  the debits of the local postings and changes no balance, \<open>Commit\<close> releases the same sum and adds to every
  balance the sum of its postings, and no other account changes.\<close>

theorem payment_commit_exact:
  assumes "numerics E" and "whole_books s" and "list_all (whole_posting E) (tx_postings tx)" and "fresh_tx i s"
    and "payment B tx" and "Prepare E B i tx s = (Inr v, s1)" and "tv_vote v = YES"
    and "reservations_of i s2 = reservations_of i s1" and "whole_books s2" and "Commit E B i s2 = (Inr u, s3)"
  shows "moves (debits B tx) (\<lambda>_. 0) s s1 \<and> moves (\<lambda>n. - debits B tx n) (bookings B tx) s2 s3"
proof -
  from numerics.Prepare_records [OF assms(1,6,7,2,3)] obtain xs
    where x: "recorded_all i 0 (local_postings B tx) xs s s1" ..
  with recorded_all_reservations [OF x assms(4)] assms(8) have xs: "reservations_of i s2 = xs" by simp
  have "list_all2 of_posting (local_postings B tx) xs" using x by (simp add: recorded_all_def)
  note rows = payment_rows [OF this assms(5) [unfolded payment_def]]
  have "(\<lambda>n. held n xs) = debits B tx" "(\<lambda>n. booked n xs) = bookings B tx"
    using rows(1,2) by (simp_all add: debits_def bookings_def fun_eq_iff)
  with x numerics.Commit_moves [OF assms(1,10,9)] xs rows(3) show ?thesis by (auto simp: recorded_all_def fun_eq_iff)
qed

definition sample_bank :: bank where
  "sample_bank = \<lparr>ourRoutingNumber = 333, peerRoutingNumber = 111, accountPrefix = ''A'', codec = text_codec,
     newKey = (\<lambda>n. CHR ''k'' # replicate n (CHR ''0'')), peer = (\<lambda>_ _. None), maxRetry = 5, backoffDuration = 30\<rparr>"

definition sample_ib :: db where
  "sample_ib = sample_db\<lparr>ib_transactions := [\<lparr>it_ID = 1, it_Routing = 333, it_ForeignID = ''t1'', it_Role = PARTICIPANT,
     it_Status = TxNew, it_Step = ''PREPARING'', it_Payload = JNull, it_InitiatorUserID = None, it_InitiatorAccountID = None\<rparr>],
     ib_tx_seq := 2\<rparr>"

lemma sample_ib_fields [simp]:
  "racuni sample_ib = racuni sample_db" "ib_reservations sample_ib = []" "no_faults sample_ib"
  by (simp_all add: sample_ib_def sample_db_def empty_db_def)

lemmas executor_eval = Prepare_def Commit_def Rollback_def bnd_def attempt_def in_tx_def query_or_def query_def stmt_def
  root_query_def stmt_root_def validatePosting_def reservePosting_def reserve_money_def reserve_update_def
  reservation_row_def CreateReservation_def update_racun_def isLocalPosting_def ListReservationsByTx_def
  reservations_of_def commit_money_def commit_shares_def commit_strike_def commit_option_def rollback_money_def
  rollback_shares_def writeTxRow_def insert_transakcije_def UpdateTransactionStatus_def
  isBalanced_def posting_sums_def assetKey_def raspolozivo_def fits_racun_def upd_where_def ib_debit_def ib_release_def
  add_reserved_def add_balance_def varchar_def numeric20_6_def known_kind_def known_asset_def Let_def
  sample_tx_def sample_posting_def sample_account_def sample_money_def sample_bank_def

lemma pg_round_halves [simp]: "pg_round 2 (5 / 2) = 5 / 2" "pg_round 6 (5 / 2) = 5 / 2"
  "pg_round 2 (- (5 / 2)) = - (5 / 2)" "pg_round 6 (- (5 / 2)) = - (5 / 2)"  "pg_round 2 (1995 / 2) = 1995 / 2"
  by (code_simp)+

definition sample_prepared :: db where
  "sample_prepared = sample_ib\<lparr>racuni := [(sample_racun 10 ''A10'' 7 ''EUR'' 1000)\<lparr>rezervisana_sredstva := 5 / 2\<rparr>,
       sample_racun 11 ''A11'' 7 ''USD'' 500, sample_racun 20 ''B20'' 2 ''EUR'' 5000, sample_racun 21 ''B21'' 2 ''USD'' 5000],
     ib_reservations := [(reservation_row 1 0 (sample_posting ''A10'' (- 5 / 2) ''EUR''))\<lparr>rv_Reserved := True\<rparr>],
     tick := 5\<rparr>"

lemmas sample_state = sample_prepared_def sample_ib_def sample_db_def empty_db_def bump_def begin_tx_def end_tx_def
  store_racun_def

lemma sample_prepare:
  "Prepare sample_env sample_bank 1 sample_tx sample_ib = (Inr \<lparr>tv_vote = YES, tv_reasons = []\<rparr>, sample_prepared)"
  by (simp add: executor_eval sample_state)

lemma sample_commit: "\<exists>s. Commit sample_env sample_bank 1 sample_prepared = (Inr (), s)"
  by (simp add: executor_eval sample_state)

lemma sample_rollback: "\<exists>s. Rollback sample_env 1 sample_prepared = (Inr (), s)"
  by (simp add: executor_eval sample_state)

lemma sample_whole: "whole_books sample_ib" "whole_books sample_prepared" "fresh_tx 1 sample_ib"
  "list_all (whole_posting sample_env) (tx_postings sample_tx)" "payment sample_bank sample_tx"
  by (simp_all add: whole_books_def sample_prepared_def cents_def fresh_tx_def whole_posting_def payment_def local_postings_def
      isLocalPosting_def sample_tx_def sample_posting_def sample_account_def sample_money_def sample_bank_def)


theorem payment_commit_exact_witness:
  "\<exists>s3. Commit sample_env sample_bank 1 sample_prepared = (Inr (), s3) \<and>
     moves (debits sample_bank sample_tx) (\<lambda>_. 0) sample_ib sample_prepared \<and>
     moves (\<lambda>n. - debits sample_bank sample_tx n) (bookings sample_bank sample_tx) sample_prepared s3"
proof -
  from sample_commit obtain s3 where "Commit sample_env sample_bank 1 sample_prepared = (Inr (), s3)" ..
  with payment_commit_exact [OF sample_numerics sample_whole(1,4,3,5) sample_prepare _ refl sample_whole(2) this]
  show ?thesis by auto
qed

definition sample_bad_tx :: Transaction where
  "sample_bad_tx = sample_tx\<lparr>tx_postings := [sample_posting ''A99'' (- 5 / 2) ''EUR'', sample_posting ''F77'' (5 / 2) ''EUR'']\<rparr>"

lemma sample_refusal: "Prepare sample_env sample_bank 1 sample_bad_tx sample_ib =
   (Inr (vote_no [\<lparr>nv_reason = NO_SUCH_ACCOUNT, nv_posting = Some (sample_posting ''A99'' (- 5 / 2) ''EUR'')\<rparr>]), bump sample_ib)"
  by (simp add: executor_eval sample_bad_tx_def)

theorem no_vote_changes_nothing_witness:
  "core (snd (Prepare sample_env sample_bank 1 sample_bad_tx sample_ib)) = core sample_ib"
  by (rule no_vote_changes_nothing [of sample_env sample_bank 1 sample_bad_tx sample_ib, OF prod.collapse [symmetric]])
    (simp add: sample_refusal vote_no_def)

end
