(* ===== verification/Interbank_Coordinator.thy ===== *)
theory Interbank_Coordinator
  imports Interbank_Settlement
begin

text \<open>
  \<open>service/interbank_message_service.go\<close> and \<open>service/transaction_coordinator.go\<close>: the message log with its
  retries, and the two-phase protocol between the banks on both sides. Sending a message appends it to
  \<open>sent\<close> and consumes one answer of the peer; drawing a key consumes one of \<open>newKey\<close>. A Go function that
  returns a value together with an error is a program that returns both.
\<close>

section \<open>Message service\<close>

definition NewLocalKey :: "bank \<Rightarrow> string dbp" where
  "NewLocalKey B = bnd (gets key_seq) (\<lambda>n. bnd (modify (\<lambda>s. s\<lparr>key_seq := Suc n\<rparr>)) (\<lambda>_. ret (newKey B n)))"

definition outgoing_row :: "MessageType \<Rightarrow> int \<Rightarrow> IdempotenceKey \<Rightarrow> json \<Rightarrow> InterbankMessageLog" where
  "outgoing_row t target key payload = \<lparr>ml_ID = 0, ml_Direction = OUTGOING, ml_MessageType = t,
     ml_IdemRouting = ik_routingNumber key, ml_IdemKey = ik_locallyGeneratedKey key, ml_TargetRouting = Some target,
     ml_Payload = payload, ml_ResponsePayload = None, ml_ResponseStatusCode = None, ml_Status = MsgPending,
     ml_RetryCount = 0, ml_NextRetryAt = None\<rparr>"

definition EnqueueOutgoing :: "MessageType \<Rightarrow> int \<Rightarrow> IdempotenceKey \<Rightarrow> json option \<Rightarrow> InterbankMessageLog dbp" where
  "EnqueueOutgoing t target key body = (case body of
       None \<Rightarrow> fail (Errorf ''marshal payload'')
     | Some payload \<Rightarrow>
         bnd (GetOutgoingByIdempotence (ik_routingNumber key) (ik_locallyGeneratedKey key)) (\<lambda>existing. case existing of
             Some m \<Rightarrow> ret m
           | None \<Rightarrow> CreateMessage (outgoing_row t target key payload)))"

text \<open>\<open>client.SendMessage\<close>: the message leaves the bank, and the peer's answer comes back or not.\<close>

definition client_SendMessage :: "bank \<Rightarrow> InterbankMessage \<Rightarrow> (int \<times> json option) option dbp" where
  "client_SendMessage B m = bnd (gets (\<lambda>s. length (sent s))) (\<lambda>n.
     bnd (modify (\<lambda>s. s\<lparr>sent := sent s @ [m]\<rparr>)) (\<lambda>_. ret (peer B n m)))"

definition envelope :: "InterbankMessageLog \<Rightarrow> InterbankMessage" where
  "envelope m = \<lparr>im_key = \<lparr>ik_routingNumber = ml_IdemRouting m, ik_locallyGeneratedKey = ml_IdemKey m\<rparr>,
     im_type = ml_MessageType m, im_message = ml_Payload m\<rparr>"

text \<open>\<open>backoffDuration * time.Duration(1 << min(RetryCount - 1, 6))\<close>, with the wrap-around of \<open>int64\<close>; the
  count is at least one here.\<close>

definition retry_delay :: "bank \<Rightarrow> int \<Rightarrow> int" where
  "retry_delay B retryCount = wrap64 (backoffDuration B * 2 ^ nat (min (retryCount - 1) 6))"

definition failed_message :: "bank \<Rightarrow> int \<Rightarrow> InterbankMessageLog \<Rightarrow> InterbankMessageLog" where
  "failed_message B now m = (let n = ml_RetryCount m + 1 in
     m\<lparr>ml_Status := MsgFailed, ml_RetryCount := n, ml_NextRetryAt := Some (now + retry_delay B n)\<rparr>)"

definition answered_message :: "bank \<Rightarrow> int \<Rightarrow> int \<Rightarrow> json option \<Rightarrow> InterbankMessageLog \<Rightarrow> InterbankMessageLog" where
  "answered_message B now code body m = (let m1 = m\<lparr>ml_ResponseStatusCode := Some code, ml_ResponsePayload := Some body\<rparr> in
     if code = 200 \<or> code = 204 then m1\<lparr>ml_Status := MsgSent, ml_NextRetryAt := None\<rparr>
     else if code = 202 then m1\<lparr>ml_Status := MsgAccepted, ml_RetryCount := ml_RetryCount m1 + 1,
            ml_NextRetryAt := Some (now + backoffDuration B)\<rparr>
     else failed_message B now m1)"

definition SendMessage :: "bank \<Rightarrow> InterbankMessageLog \<Rightarrow> (InterbankMessageLog \<times> err option) dbp" where
  "SendMessage B m =
     (if ml_Status m = MsgSent \<or> ml_Status m = MsgProcessed then ret (m, None)
      else bnd (client_SendMessage B (envelope m)) (\<lambda>answer. bnd (gets now_utc) (\<lambda>now.
        case answer of
          None \<Rightarrow> (let m' = failed_message B now m in
             bnd (ignore (UpdateMessage m')) (\<lambda>_. ret (m', Some (Errorf ''HTTP call''))))
        | Some (code, body) \<Rightarrow> (let m' = answered_message B now code body m in
             bnd (attempt (UpdateMessage m')) (\<lambda>r. case r of
                 Inl _ \<Rightarrow> ret (m', Some (Errorf ''update message log''))
               | Inr _ \<Rightarrow> ret (m', None))))))"

definition LookupIncomingResponse :: "IdempotenceKey \<Rightarrow> InterbankMessageLog option dbp" where
  "LookupIncomingResponse key = GetIncomingByIdempotence (ik_routingNumber key) (ik_locallyGeneratedKey key)"

definition incoming_row :: "InterbankMessage \<Rightarrow> InterbankMessageLog" where
  "incoming_row msg = \<lparr>ml_ID = 0, ml_Direction = INCOMING, ml_MessageType = im_type msg,
     ml_IdemRouting = ik_routingNumber (im_key msg),
     ml_IdemKey = ik_locallyGeneratedKey (im_key msg), ml_TargetRouting = None,
     ml_Payload = im_message msg, ml_ResponsePayload = None, ml_ResponseStatusCode = None, ml_Status = MsgPending,
     ml_RetryCount = 0, ml_NextRetryAt = None\<rparr>"

definition RecordIncoming :: "InterbankMessage \<Rightarrow> InterbankMessageLog dbp" where
  "RecordIncoming msg = CreateMessage (incoming_row msg)"

text \<open>The response is absent (\<open>None\<close>), or a value whose JSON form may fail to exist.\<close>

definition FinishIncoming :: "InterbankMessageLog \<Rightarrow> int \<Rightarrow> json option option \<Rightarrow> unit dbp" where
  "FinishIncoming row code response = (case response of
       Some None \<Rightarrow> fail (Errorf ''marshal response'')
     | _ \<Rightarrow> UpdateMessage (row\<lparr>ml_Status := MsgProcessed, ml_ResponseStatusCode := Some code,
         ml_ResponsePayload := (if response = None then ml_ResponsePayload row else response)\<rparr>))"

definition processRetryBatch :: "bank \<Rightarrow> unit dbp" where
  "processRetryBatch B = bnd (attempt (ListPendingOutgoing 50)) (\<lambda>r. case r of
       Inl _ \<Rightarrow> ret ()
     | Inr rows \<Rightarrow> foreach rows (\<lambda>m.
         if ml_RetryCount m \<ge> maxRetry B \<and> ml_Status m = MsgFailed then ret ()
         else ignore (SendMessage B m)))"

section \<open>Coordinator\<close>

definition IsLocalAccount :: "bank \<Rightarrow> string \<Rightarrow> bool" where
  "IsLocalAccount B brojRacuna \<longleftrightarrow> brojRacuna \<noteq> [] \<and> take (length (accountPrefix B)) brojRacuna = accountPrefix B"

record InterbankPaymentInput =
  pi_SenderUserID :: int
  pi_SenderAccountID :: int
  pi_RecipientAccountNo :: string
  pi_Amount :: decimal
  pi_Currency :: string
  pi_Message :: string
  pi_CallNumber :: string
  pi_PaymentCode :: string
  pi_PaymentPurpose :: string

definition money_posting :: "string \<Rightarrow> decimal \<Rightarrow> string \<Rightarrow> Posting" where
  "money_posting num amount c = \<lparr>p_account = \<lparr>ta_type = ACCOUNT, ta_id = None, ta_num = Some num\<rparr>, p_amount = amount,
     p_asset = \<lparr>as_type = MONAS, as_monAs = Some c, as_stock = None, as_option = None\<rparr>\<rparr>"

definition payment_transaction :: "bank \<Rightarrow> InterbankPaymentInput \<Rightarrow> string \<Rightarrow> string \<Rightarrow> Transaction" where
  "payment_transaction B inp senderNum key =
     \<lparr>tx_postings = [money_posting senderNum (- pi_Amount inp) (pi_Currency inp),
        money_posting (pi_RecipientAccountNo inp) (pi_Amount inp) (pi_Currency inp)],
      tx_transactionId = \<lparr>fb_routingNumber = ourRoutingNumber B, fb_id = key\<rparr>, tx_message = pi_Message inp,
      tx_callNumber = (if pi_CallNumber inp = [] then None else Some (pi_CallNumber inp)),
      tx_paymentCode = pi_PaymentCode inp, tx_paymentPurpose = pi_PaymentPurpose inp\<rparr>"

definition ptrInt64 :: "int \<Rightarrow> int option" where
  "ptrInt64 v = (if v = 0 then None else Some v)"

definition saga_row :: "Transaction \<Rightarrow> TxRole \<Rightarrow> string \<Rightarrow> json \<Rightarrow> int option \<Rightarrow> int option \<Rightarrow> InterbankTransaction" where
  "saga_row tx role step payload user account = \<lparr>it_ID = 0, it_Routing = fb_routingNumber (tx_transactionId tx),
     it_ForeignID = fb_id (tx_transactionId tx), it_Role = role, it_Status = TxNew, it_Step = step,
     it_Payload = payload, it_InitiatorUserID = user, it_InitiatorAccountID = account\<rparr>"

text \<open>The exchange of \<open>NEW_TX\<close> and what came of it.\<close>

datatype ballot = EnqueueFailed err | SendFailed err | NotFinished | BadVote | Ballot TransactionVote

definition request_vote :: "bank \<Rightarrow> Transaction \<Rightarrow> ballot dbp" where
  "request_vote B tx = bnd (NewLocalKey B) (\<lambda>k.
     bnd (attempt (EnqueueOutgoing NEW_TX (peerRoutingNumber B)
        \<lparr>ik_routingNumber = ourRoutingNumber B, ik_locallyGeneratedKey = k\<rparr> (MarshalTransaction (codec B) tx))) (\<lambda>r. case r of
       Inl e \<Rightarrow> ret (EnqueueFailed e)
     | Inr row \<Rightarrow> bnd (SendMessage B row) (\<lambda>(row', e). case e of
           Some e \<Rightarrow> ret (SendFailed e)
         | None \<Rightarrow> ret (if ml_Status row' \<noteq> MsgSent then NotFinished
             else case ml_ResponsePayload row' of
                 None \<Rightarrow> NotFinished
               | Some None \<Rightarrow> BadVote
               | Some (Some j) \<Rightarrow> (case decVote (codec B) j of None \<Rightarrow> BadVote | Some v \<Rightarrow> Ballot v)))))"

text \<open>A message whose outcome the caller drops.\<close>

definition announce :: "bank \<Rightarrow> MessageType \<Rightarrow> ForeignBankId \<Rightarrow> unit dbp" where
  "announce B t txID = bnd (NewLocalKey B) (\<lambda>k.
     bnd (attempt (EnqueueOutgoing t (peerRoutingNumber B)
        \<lparr>ik_routingNumber = ourRoutingNumber B, ik_locallyGeneratedKey = k\<rparr> (Some (encTxRef txID)))) (\<lambda>r. case r of
       Inl _ \<Rightarrow> ret ()
     | Inr row \<Rightarrow> ignore (SendMessage B row)))"

definition setStatus :: "InterbankTransaction \<Rightarrow> TxStatus \<Rightarrow> string \<Rightarrow> InterbankTransaction dbp" where
  "setStatus t st step = bnd (ignore (UpdateTransactionStatus (it_ID t) st step)) (\<lambda>_. ret (t\<lparr>it_Status := st\<rparr>))"

text \<open>What a payment does with the outcome of the exchange, and everything after its saga record exists.\<close>

definition undo_payment :: "env \<Rightarrow> InterbankTransaction \<Rightarrow> TxStatus \<Rightarrow> string \<Rightarrow> err \<Rightarrow> (InterbankTransaction \<times> err option) dbp" where
  "undo_payment E ibTx st step e = bnd (ignore (Rollback E (it_ID ibTx))) (\<lambda>_.
     bnd (setStatus ibTx st step) (\<lambda>t. ret (t, Some e)))"

definition conclude_payment ::
  "env \<Rightarrow> bank \<Rightarrow> Transaction \<Rightarrow> InterbankTransaction \<Rightarrow> ballot \<Rightarrow> (InterbankTransaction \<times> err option) dbp" where
  "conclude_payment E B tx ibTx b = (case b of
       EnqueueFailed e \<Rightarrow> undo_payment E ibTx TxFailed ''ENQUEUE_NEW_TX'' e
     | SendFailed e \<Rightarrow> undo_payment E ibTx TxFailed ''SEND_NEW_TX'' e
     | NotFinished \<Rightarrow> bnd (setStatus ibTx TxFailed ''AWAITING_REMOTE_VOTE'')
         (\<lambda>t. ret (t, Some (Errorf ''remote bank not finished'')))
     | BadVote \<Rightarrow> undo_payment E ibTx TxFailed ''PARSE_REMOTE_VOTE'' (Errorf ''parse vote'')
     | Ballot v \<Rightarrow>
         if tv_vote v = NO then undo_payment E ibTx TxRolledBack ''REMOTE_VOTE_NO'' (Errorf ''remote vote NO'')
         else bnd (attempt (Commit E B (it_ID ibTx))) (\<lambda>c. case c of
             Inl e \<Rightarrow> bnd (setStatus ibTx TxFailed ''LOCAL_COMMIT'') (\<lambda>t. ret (t, Some e))
           | Inr _ \<Rightarrow> bnd (announce B COMMIT_TX (tx_transactionId tx)) (\<lambda>_.
               bnd (setStatus ibTx TxCommitted ''COMMITTED'') (\<lambda>t. ret (t, None)))))"

definition run_payment :: "env \<Rightarrow> bank \<Rightarrow> Transaction \<Rightarrow> InterbankTransaction \<Rightarrow> (InterbankTransaction \<times> err option) dbp" where
  "run_payment E B tx ibTx =
     bnd (attempt (Prepare E B (it_ID ibTx) tx)) (\<lambda>r. case r of
         Inl e \<Rightarrow> bnd (setStatus ibTx TxFailed ''LOCAL_PREPARE_ERROR'') (\<lambda>t. ret (t, Some e))
       | Inr vote \<Rightarrow>
           if tv_vote vote = NO
           then bnd (setStatus ibTx TxFailed ''LOCAL_PREPARE_NO'') (\<lambda>t. ret (t, Some (Errorf ''local vote NO'')))
           else bnd (setStatus ibTx TxPrepared ''LOCAL_PREPARED'') (\<lambda>ibTx.
             bnd (request_vote B tx) (conclude_payment E B tx ibTx)))"

definition InitiateInterbankPayment ::
  "env \<Rightarrow> bank \<Rightarrow> InterbankPaymentInput \<Rightarrow> (InterbankTransaction \<times> err option) dbp" where
  "InitiateInterbankPayment E B inp =
     (if pi_SenderAccountID inp \<le> 0 then fail (Errorf ''sender account required'')
      else if pi_RecipientAccountNo inp = [] then fail (Errorf ''recipient account required'')
      else if pi_Amount inp \<le> 0 then fail (Errorf ''amount must be positive'')
      else if pi_Currency inp = [] then fail (Errorf ''currency required'')
      else bnd (query_or None (\<lambda>s. List.find (\<lambda>r. r_id r = pi_SenderAccountID inp \<and> id_vlasnika r = pi_SenderUserID inp)
          (racuni s))) (\<lambda>acc. case named acc of
        None \<Rightarrow> fail (Errorf ''sender account not found'')
      | Some r \<Rightarrow>
          if valuta_oznaka r \<noteq> pi_Currency inp then fail (Errorf ''currency mismatch'')
          else bnd (NewLocalKey B) (\<lambda>k.
            let tx = payment_transaction B inp (broj_racuna r) k in
            case MarshalTransaction (codec B) tx of
              None \<Rightarrow> fail (Errorf ''marshal transaction'')
            | Some payload \<Rightarrow>
                bnd (CreateTransaction (saga_row tx COORDINATOR ''PREPARING_LOCAL'' payload
                   (ptrInt64 (pi_SenderUserID inp)) (ptrInt64 (pi_SenderAccountID inp))))
                  (run_payment E B tx))))"

definition transactionHasRemote :: "bank \<Rightarrow> Transaction \<Rightarrow> bool" where
  "transactionHasRemote B tx = list_ex (\<lambda>p. case ta_type (p_account p) of
       ACCOUNT \<Rightarrow> (case ta_num (p_account p) of
           None \<Rightarrow> False | Some num \<Rightarrow> take (length (accountPrefix B)) num \<noteq> accountPrefix B)
     | OtherKind _ \<Rightarrow> False
     | _ \<Rightarrow> (case ta_id (p_account p) of None \<Rightarrow> False | Some i \<Rightarrow> fb_routingNumber i \<noteq> ourRoutingNumber B))
     (tx_postings tx)"

text \<open>Unlike a payment, the generic transaction keeps its in-memory status until the end and tells the peer
  about a rollback.\<close>

definition mark :: "InterbankTransaction \<Rightarrow> TxStatus \<Rightarrow> string \<Rightarrow> unit dbp" where
  "mark t st step = ignore (UpdateTransactionStatus (it_ID t) st step)"

definition undo_transaction :: "env \<Rightarrow> InterbankTransaction \<Rightarrow> string \<Rightarrow> err \<Rightarrow> (InterbankTransaction \<times> err option) dbp" where
  "undo_transaction E ibTx step e = bnd (ignore (Rollback E (it_ID ibTx))) (\<lambda>_.
     bnd (mark ibTx TxFailed step) (\<lambda>_. ret (ibTx, Some e)))"

definition conclude_transaction ::
  "env \<Rightarrow> bank \<Rightarrow> Transaction \<Rightarrow> InterbankTransaction \<Rightarrow> ballot \<Rightarrow> (InterbankTransaction \<times> err option) dbp" where
  "conclude_transaction E B tx ibTx b = (case b of
       EnqueueFailed e \<Rightarrow> undo_transaction E ibTx ''ENQUEUE_NEW_TX'' e
     | SendFailed e \<Rightarrow> undo_transaction E ibTx ''SEND_NEW_TX'' e
     | NotFinished \<Rightarrow> bnd (mark ibTx TxFailed ''AWAITING_REMOTE_VOTE'')
         (\<lambda>_. ret (ibTx, Some (Errorf ''remote bank not finished'')))
     | BadVote \<Rightarrow> undo_transaction E ibTx ''PARSE_REMOTE_VOTE'' (Errorf ''parse vote'')
     | Ballot v \<Rightarrow>
         if tv_vote v = NO
         then bnd (ignore (Rollback E (it_ID ibTx))) (\<lambda>_. bnd (announce B ROLLBACK_TX (tx_transactionId tx)) (\<lambda>_.
           bnd (mark ibTx TxRolledBack ''REMOTE_VOTE_NO'') (\<lambda>_. ret (ibTx, Some (Errorf ''remote vote NO'')))))
         else bnd (attempt (Commit E B (it_ID ibTx))) (\<lambda>c. case c of
             Inl e \<Rightarrow> bnd (mark ibTx TxFailed ''LOCAL_COMMIT'') (\<lambda>_. ret (ibTx, Some e))
           | Inr _ \<Rightarrow> bnd (announce B COMMIT_TX (tx_transactionId tx)) (\<lambda>_.
               bnd (mark ibTx TxCommitted ''COMMITTED'') (\<lambda>_. ret (ibTx\<lparr>it_Status := TxCommitted\<rparr>, None)))))"

definition run_transaction :: "env \<Rightarrow> bank \<Rightarrow> Transaction \<Rightarrow> InterbankTransaction \<Rightarrow> (InterbankTransaction \<times> err option) dbp" where
  "run_transaction E B tx ibTx =
     bnd (attempt (Prepare E B (it_ID ibTx) tx)) (\<lambda>r. case r of
         Inl e \<Rightarrow> bnd (mark ibTx TxFailed ''LOCAL_PREPARE_ERROR'') (\<lambda>_. ret (ibTx, Some e))
       | Inr vote \<Rightarrow>
           if tv_vote vote = NO
           then bnd (mark ibTx TxFailed ''LOCAL_PREPARE_NO'') (\<lambda>_. ret (ibTx, Some (Errorf ''local vote NO'')))
           else bnd (mark ibTx TxPrepared ''LOCAL_PREPARED'') (\<lambda>_.
             if \<not> transactionHasRemote B tx
             then bnd (attempt (Commit E B (it_ID ibTx))) (\<lambda>c. case c of
                 Inl e \<Rightarrow> bnd (mark ibTx TxFailed ''LOCAL_COMMIT'') (\<lambda>_. ret (ibTx, Some e))
               | Inr _ \<Rightarrow> ret (ibTx\<lparr>it_Status := TxCommitted\<rparr>, None))
             else bnd (request_vote B tx) (conclude_transaction E B tx ibTx)))"

definition InitiateInterbankTransaction ::
  "env \<Rightarrow> bank \<Rightarrow> Transaction \<Rightarrow> int option \<Rightarrow> (InterbankTransaction \<times> err option) dbp" where
  "InitiateInterbankTransaction E B tx initiatorUserID = (case MarshalTransaction (codec B) tx of
       None \<Rightarrow> fail (Errorf ''marshal transaction'')
     | Some payload \<Rightarrow>
         bnd (CreateTransaction (saga_row tx COORDINATOR ''PREPARING_LOCAL'' payload initiatorUserID None))
           (run_transaction E B tx))"

section \<open>Incoming messages\<close>

text \<open>What \<open>HandleIncomingMessage\<close> returns: the HTTP status, the body that reaches the wire (none for a nil
  response and for a value that has no JSON form), and the error.\<close>

type_synonym reply = "int \<times> json option \<times> err option"

definition previous_reply :: "InterbankMessageLog \<Rightarrow> reply" where
  "previous_reply m = (case ml_ResponseStatusCode m of None \<Rightarrow> 200 | Some c \<Rightarrow> c,
     case ml_ResponsePayload m of None \<Rightarrow> None | Some b \<Rightarrow> b, None)"

definition respond :: "InterbankMessageLog \<Rightarrow> int \<Rightarrow> json option option \<Rightarrow> reply dbp" where
  "respond row code response = bnd (ignore (FinishIncoming row code response))
     (\<lambda>_. ret (code, case response of None \<Rightarrow> None | Some b \<Rightarrow> b, None))"

definition refuse :: "int \<Rightarrow> err \<Rightarrow> reply dbp" where
  "refuse code e = ret (code, None, Some e)"

definition handle_new_tx :: "env \<Rightarrow> bank \<Rightarrow> json \<Rightarrow> InterbankMessageLog \<Rightarrow> reply dbp" where
  "handle_new_tx E B payload row = (case UnmarshalTransaction (codec B) payload of
       None \<Rightarrow> refuse 400 (Errorf ''invalid NEW_TX'')
     | Some tx \<Rightarrow>
         bnd (attempt (GetTransactionByForeignID (fb_routingNumber (tx_transactionId tx)) (fb_id (tx_transactionId tx)))) (\<lambda>ex.
         bnd (case ex of
             Inr (Some t) \<Rightarrow> ret (Inr t)
           | _ \<Rightarrow> attempt (CreateTransaction (saga_row tx PARTICIPANT ''PARTICIPANT_PREPARING'' payload None None))) (\<lambda>r. case r of
           Inl e \<Rightarrow> refuse 500 e
         | Inr ibTx \<Rightarrow> bnd (attempt (Prepare E B (it_ID ibTx) tx)) (\<lambda>v. case v of
               Inl e \<Rightarrow> bnd (mark ibTx TxFailed ''PREPARE_ERROR'') (\<lambda>_. refuse 500 e)
             | Inr vote \<Rightarrow>
                 bnd (if tv_vote vote = YES then mark ibTx TxPrepared ''PREPARED'' else mark ibTx TxFailed ''VOTE_NO'') (\<lambda>_.
                   respond row 200 (Some (encVote (codec B) vote)))))))"

definition handle_commit :: "env \<Rightarrow> bank \<Rightarrow> json \<Rightarrow> InterbankMessageLog \<Rightarrow> reply dbp" where
  "handle_commit E B payload row = (case decTxRef payload of
       None \<Rightarrow> refuse 400 (Errorf ''invalid COMMIT_TX'')
     | Some i \<Rightarrow> bnd (attempt (GetTransactionByForeignID (fb_routingNumber i) (fb_id i))) (\<lambda>t. case t of
           Inl e \<Rightarrow> refuse 500 e
         | Inr None \<Rightarrow> refuse 404 (Errorf ''transaction not found'')
         | Inr (Some ibTx) \<Rightarrow>
             if it_Status ibTx = TxCommitted then respond row 204 None
             else bnd (attempt (Commit E B (it_ID ibTx))) (\<lambda>c. case c of
                 Inl e \<Rightarrow> bnd (mark ibTx TxFailed ''COMMIT_ERROR'') (\<lambda>_. refuse 500 e)
               | Inr _ \<Rightarrow> respond row 204 None)))"

definition handle_rollback :: "env \<Rightarrow> bank \<Rightarrow> json \<Rightarrow> InterbankMessageLog \<Rightarrow> reply dbp" where
  "handle_rollback E B payload row = (case decTxRef payload of
       None \<Rightarrow> refuse 400 (Errorf ''invalid ROLLBACK_TX'')
     | Some i \<Rightarrow> bnd (attempt (GetTransactionByForeignID (fb_routingNumber i) (fb_id i))) (\<lambda>t. case t of
           Inl e \<Rightarrow> refuse 500 e
         | Inr None \<Rightarrow> respond row 204 None
         | Inr (Some ibTx) \<Rightarrow>
             if it_Status ibTx = TxRolledBack then respond row 204 None
             else bnd (attempt (Rollback E (it_ID ibTx))) (\<lambda>c. case c of
                 Inl e \<Rightarrow> bnd (mark ibTx TxFailed ''ROLLBACK_ERROR'') (\<lambda>_. refuse 500 e)
               | Inr _ \<Rightarrow> respond row 204 None)))"

definition dispatch :: "env \<Rightarrow> bank \<Rightarrow> InterbankMessage \<Rightarrow> InterbankMessageLog \<Rightarrow> reply dbp" where
  "dispatch E B msg row = (case im_type msg of
       NEW_TX \<Rightarrow> handle_new_tx E B (im_message msg) row
     | COMMIT_TX \<Rightarrow> handle_commit E B (im_message msg) row
     | ROLLBACK_TX \<Rightarrow> handle_rollback E B (im_message msg) row
     | OtherMessage _ \<Rightarrow> refuse 400 (Errorf ''unknown messageType''))"

definition HandleIncomingMessage :: "env \<Rightarrow> bank \<Rightarrow> InterbankMessage \<Rightarrow> reply dbp" where
  "HandleIncomingMessage E B msg = (let key = ik_locallyGeneratedKey (im_key msg) in
     if key = [] \<or> length key > 64 then refuse 400 (Errorf ''idempotenceKey'')
     else bnd (attempt (LookupIncomingResponse (im_key msg))) (\<lambda>prev. case prev of
         Inl e \<Rightarrow> refuse 500 e
       | Inr (Some m) \<Rightarrow> ret (previous_reply m)
       | Inr None \<Rightarrow> bnd (attempt (RecordIncoming msg)) (\<lambda>r. case r of
             Inl e \<Rightarrow> refuse 500 e
           | Inr row \<Rightarrow> dispatch E B msg row)))"

end
