(* ===== verification/Interbank_Protocol.thy ===== *)
theory Interbank_Protocol
  imports Interbank_Coordinator
begin

text \<open>
  What the message log and the two-phase protocol guarantee: redelivery, the outcome of a payment we
  coordinate, the order of messages, retries.
\<close>

section \<open>Frames\<close>

text \<open>A component of the state that neither the message log, nor the keys, nor the saga records are part of.\<close>

definition outside :: "(db \<Rightarrow> 'b) \<Rightarrow> bool" where
  "outside f \<longleftrightarrow> clock_free f \<and> (\<forall>s a b c d e g. f (s\<lparr>ib_messages := a, ib_msg_seq := b, sent := c, key_seq := d,
     ib_transactions := e, ib_tx_seq := g\<rparr>) = f s)"

lemma outside_fields [simp]: "outside racuni" "outside core" "outside ib_reservations" "outside ib_contracts"
  "outside faults" "outside whole_books" "outside public_shares"
  by (simp_all add: outside_def core_def clock_free_def whole_books_def)

lemma outsideD:
  assumes "outside f"
  shows "clock_free f" "f (s\<lparr>ib_messages := a\<rparr>) = f s" "f (s\<lparr>ib_messages := a, ib_msg_seq := b\<rparr>) = f s" "f (s\<lparr>sent := c\<rparr>) = f s"
    "f (s\<lparr>key_seq := d\<rparr>) = f s" "f (s\<lparr>ib_transactions := e\<rparr>) = f s" "f (s\<lparr>ib_transactions := e, ib_tx_seq := g\<rparr>) = f s"
proof -
  have k: "f (s\<lparr>ib_messages := a, ib_msg_seq := b, sent := c, key_seq := d, ib_transactions := e, ib_tx_seq := g\<rparr>) = f s"
    for a b c d e g using assms by (simp add: outside_def)
  let ?m = "ib_messages s" and ?q = "ib_msg_seq s" and ?c = "sent s" and ?k = "key_seq s" and ?t = "ib_transactions s"
    and ?i = "ib_tx_seq s"
  show "clock_free f" using assms by (simp add: outside_def)
  show "f (s\<lparr>ib_messages := a\<rparr>) = f s" using k [where a = a and b = ?q and c = ?c and d = ?k and e = ?t and g = ?i] by simp
  show "f (s\<lparr>ib_messages := a, ib_msg_seq := b\<rparr>) = f s" using k [where a = a and b = b and c = ?c and d = ?k and e = ?t and g = ?i] by simp
  show "f (s\<lparr>sent := c\<rparr>) = f s" using k [where a = ?m and b = ?q and c = c and d = ?k and e = ?t and g = ?i] by simp
  show "f (s\<lparr>key_seq := d\<rparr>) = f s" using k [where a = ?m and b = ?q and c = ?c and d = d and e = ?t and g = ?i] by simp
  show "f (s\<lparr>ib_transactions := e\<rparr>) = f s" using k [where a = ?m and b = ?q and c = ?c and d = ?k and e = e and g = ?i] by simp
  show "f (s\<lparr>ib_transactions := e, ib_tx_seq := g\<rparr>) = f s" using k [where a = ?m and b = ?q and c = ?c and d = ?k and e = e and g = g] by simp
qed

lemma keeps_modify [keeps_intros]: "(\<And>s. f (g s) = f s) \<Longrightarrow> keeps f (modify g)"
  by (simp add: keeps_def)

lemma keeps_outside:
  assumes "outside f"
  shows "keeps f (NewLocalKey B)" "keeps f (EnqueueOutgoing t i k b)" "keeps f (SendMessage B m)" "keeps f (mark x st step)"
    "keeps f (setStatus x st step)" "keeps f (request_vote B tx)" "keeps f (announce B t txi)" "keeps f (CreateTransaction x)"
proof -
  note o = outsideD [OF assms]
  show k: "keeps f (NewLocalKey B)"
    unfolding NewLocalKey_def by (intro keeps_intros o)
  show e: "keeps f (EnqueueOutgoing t i k b)" for t i k b
    unfolding EnqueueOutgoing_def by (intro keeps_intros keeps_repo_writes o)
  show s: "keeps f (SendMessage B m)" for m
    unfolding SendMessage_def client_SendMessage_def by (intro keeps_intros keeps_repo_writes o)
  show "keeps f (mark x st step)" unfolding mark_def by (intro keeps_intros keeps_repo_writes o)
  show "keeps f (setStatus x st step)" unfolding setStatus_def by (intro keeps_intros keeps_repo_writes o)
  show "keeps f (request_vote B tx)" unfolding request_vote_def by (intro keeps_intros k e s)
  show "keeps f (announce B t txi)" unfolding announce_def by (intro keeps_intros k e s)
  show "keeps f (CreateTransaction x)" by (intro keeps_repo_writes o)
qed

section \<open>The outcome of a payment\<close>

definition books :: "db \<Rightarrow> racun list \<times> InterbankReservation list" where
  "books s = (racuni s, ib_reservations s)"

lemma outside_books [simp]: "outside books"
  by (simp add: outside_def books_def clock_free_def)

lemma booksD: "books s' = books s \<Longrightarrow> racuni s' = racuni s \<and> reservations_of i s' = reservations_of i s"
  by (simp add: books_def reservations_of_def)

lemma settle_atomic: "Rollback E i s = (Inl e, s') \<Longrightarrow> racuni s' = racuni s"
  "Commit E B i s = (Inl e, s') \<Longrightarrow> racuni s' = racuni s"
proof -
  have core_racuni: "core a = core b \<Longrightarrow> racuni a = racuni b" for a b by (simp add: core_def)
  have k: "keeps core (ListReservationsByTx i)" by (intro keeps_intros) simp
  have "atomic core (Rollback E i)" "atomic core (Commit E B i)"
    unfolding Rollback_def Commit_def by (intro atomic_intros k)+
  then show "Rollback E i s = (Inl e, s') \<Longrightarrow> racuni s' = racuni s" "Commit E B i s = (Inl e, s') \<Longrightarrow> racuni s' = racuni s"
    by (auto intro: core_racuni dest: atomicD)
qed

text \<open>A reservation prepared on the way from \<open>s\<close> to a state whose books are \<open>books s1\<close>.\<close>

definition prepared :: "bank \<Rightarrow> Transaction \<Rightarrow> int \<Rightarrow> db \<Rightarrow> db \<Rightarrow> bool" where
  "prepared B tx i s s1 \<longleftrightarrow> whole_books s1 \<and> (\<exists>xs. recorded_all i 0 (local_postings B tx) xs s s1 \<and> reservations_of i s1 = xs)"

lemma prepared_cong: "books s2 = books s1 \<Longrightarrow> prepared B tx i s s2 = prepared B tx i s s1"
  by (simp add: prepared_def books_def recorded_all_def moves_def reservations_of_def whole_books_def)

lemma prepared_debits:
  assumes "prepared B tx i s s1" and "payment B tx"
  shows "moves (debits B tx) (\<lambda>_. 0) s s1"
proof -
  from assms(1) obtain xs where x: "recorded_all i 0 (local_postings B tx) xs s s1" by (auto simp: prepared_def)
  then have "list_all2 of_posting (local_postings B tx) xs" by (simp add: recorded_all_def)
  from payment_rows(1) [OF this assms(2) [unfolded payment_def]] have "(\<lambda>n. held n xs) = debits B tx"
    by (simp add: debits_def fun_eq_iff)
  with x show ?thesis by (simp add: recorded_all_def)
qed

context numerics
begin

lemma prepared_rollback:
  assumes "prepared B tx i s s1" and "Rollback E i s1 = (Inr u, s2)"
  shows "racuni s2 = racuni s"
proof -
  from assms(1) obtain xs where x: "recorded_all i 0 (local_postings B tx) xs s s1" and xs: "reservations_of i s1 = xs"
    and w: "whole_books s1" by (auto simp: prepared_def)
  from x have m: "moves (\<lambda>n. held n xs) (\<lambda>_. 0) s s1" and ok: "list_all row_ok xs" by (simp_all add: recorded_all_def)
  have "moves (\<lambda>n. - held n xs) (\<lambda>_. 0) s1 s2" using Rollback_moves [OF assms(2) w] xs ok by simp
  from moves_trans [OF m this] show ?thesis by (simp add: moves_def)
qed

lemma prepared_commit:
  assumes "prepared B tx i s s1" and "payment B tx" and "Commit E B i s1 = (Inr u, s2)"
  shows "moves (\<lambda>_. 0) (bookings B tx) s s2"
proof -
  from assms(1) obtain xs where x: "recorded_all i 0 (local_postings B tx) xs s s1" and xs: "reservations_of i s1 = xs"
    and w: "whole_books s1" by (auto simp: prepared_def)
  from x have m: "moves (\<lambda>n. held n xs) (\<lambda>_. 0) s s1" and ok: "list_all row_ok xs"
    and p: "list_all2 of_posting (local_postings B tx) xs" by (simp_all add: recorded_all_def)
  note rows = payment_rows [OF p assms(2) [unfolded payment_def]]
  have "moves (\<lambda>n. - held n xs) (\<lambda>n. booked n xs) s1 s2" using Commit_moves [OF assms(3) w] xs ok rows(3) by simp
  moreover have "(\<lambda>n. booked n xs) = bookings B tx" using rows(2) by (simp add: bookings_def fun_eq_iff)
  ultimately show ?thesis using moves_trans [OF m] by fastforce
qed

lemma Prepare_prepared:
  assumes run: "Prepare E B i tx s = (Inr v, s1)" and v: "tv_vote v = YES" and "whole_books s"
    and "list_all (whole_posting E) (tx_postings tx)" and "fresh_tx i s"
  shows "prepared B tx i s s1"
proof -
  from Prepare_records [OF run v assms(3,4)] obtain xs where x: "recorded_all i 0 (local_postings B tx) xs s s1" ..
  have "whole_books s1"
    by (rule moves_whole [OF _ assms(3)]) (use x rows_ok_cents in \<open>auto simp: recorded_all_def\<close>)
  with x recorded_all_reservations [OF x assms(5)] show ?thesis by (auto simp: prepared_def)
qed

end

text \<open>Nothing booked: the accounts are as they were, or still hold the reservation.\<close>

definition unbooked :: "bank \<Rightarrow> Transaction \<Rightarrow> db \<Rightarrow> db \<Rightarrow> bool" where
  "unbooked B tx s s' \<longleftrightarrow> racuni s' = racuni s \<or> moves (debits B tx) (\<lambda>_. 0) s s'"

definition outcome :: "bank \<Rightarrow> Transaction \<Rightarrow> db \<Rightarrow> InterbankTransaction \<times> err option \<Rightarrow> db \<Rightarrow> bool" where
  "outcome B tx s r s' \<longleftrightarrow> (case snd r of
       None \<Rightarrow> it_Status (fst r) = TxCommitted \<and> moves (\<lambda>_. 0) (bookings B tx) s s'
     | Some _ \<Rightarrow> unbooked B tx s s')"

lemma outcome_cong: "racuni t = racuni s' \<Longrightarrow> unbooked B tx s t = unbooked B tx s s'"
  "racuni t = racuni s' \<Longrightarrow> moves D M s t = moves D M s s'"
  by (simp_all add: unbooked_def moves_def)

lemma never_fails_bnd:
  assumes "never_fails m" and "\<And>a. never_fails (g a)"
  shows "never_fails (bnd m g)"
  unfolding never_fails_def
proof
  fix s
  from assms(1) obtain a s1 where "m s = (Inr a, s1)" unfolding never_fails_def by blast
  moreover from assms(2) obtain b s2 where "g a s1 = (Inr b, s2)" unfolding never_fails_def by blast
  ultimately show "\<exists>a s'. bnd m g s = (Inr a, s')" by (simp add: bnd_def)
qed

lemma never_fails_state: "never_fails (gets f)" "never_fails (modify h)"
  by (simp_all add: never_fails_def)

lemma never_fails_announce: "never_fails (announce B t i)"
  unfolding announce_def NewLocalKey_def
  by (intro never_fails_bnd never_fails_state never_fails_basic) (simp split: sum.splits)

lemma never_fails_setStatus: "never_fails (setStatus x st step)"
  unfolding setStatus_def by (intro never_fails_bnd never_fails_basic)

lemma hoare_never_fails:
  assumes "never_fails m" and "hoare P m Q R"
  shows "hoare P m Q R'"
  by (rule hoareI) (use hoareD(1) [OF assms(2)] never_failsD [OF assms(1)] in blast)+

text \<open>Steps that do not touch the accounts carry a fact about them along.\<close>

lemma hoare_frame:
  assumes "keeps racuni m" and "\<And>a. hoare P (g a) Q P" and "\<And>t t'. racuni t' = racuni t \<Longrightarrow> P t' = P t"
  shows "hoare P (bnd m g) Q P"
  by (rule hoare_bnd [OF hoare_of_keeps [OF assms(1)] assms(2)]) (use assms(3) in blast)

lemmas keeps_racuni_outside = keeps_outside [OF outside_fields(1)]

lemma setStatus_run: "setStatus x st step t = (Inr y, t') \<Longrightarrow> it_Status y = st \<and> it_ID y = it_ID x"
  by (auto simp: setStatus_def bnd_def ignore_def split: prod.splits)

lemma hoare_status:
  assumes "\<And>t t'. racuni t' = racuni t \<Longrightarrow> P t' = P t" and "\<And>y t. it_Status y = st \<Longrightarrow> P t \<Longrightarrow> Q (y, e) t"
  shows "hoare P (bnd (setStatus x st step) (\<lambda>y. ret (y, e))) Q P"
proof (rule hoare_bnd [where Q' = "\<lambda>y t. it_Status y = st \<and> P t"])
  show "hoare P (setStatus x st step) (\<lambda>y t. it_Status y = st \<and> P t) P"
    by (rule hoareI) (use keepsD [OF keeps_racuni_outside(5)] assms(1) setStatus_run in \<open>metis+\<close>)
qed (auto intro: hoare_ret assms(2))

context numerics
begin

lemma undo_outcome:
  assumes "it_ID x = i" and "payment B tx"
  shows "hoare (prepared B tx i s) (undo_payment E x st step e) (outcome B tx s) (unbooked B tx s)"
  unfolding undo_payment_def assms(1)
proof (rule hoare_bnd [where Q' = "\<lambda>_. unbooked B tx s"])
  show "hoare (prepared B tx i s) (ignore (Rollback E i)) (\<lambda>_. unbooked B tx s) (unbooked B tx s)"
  proof (intro hoare_ignore hoareI)
    show "unbooked B tx s t'" if "prepared B tx i s t" "Rollback E i t = (Inr u, t')" for t u t'
      using prepared_rollback [OF that] by (simp add: unbooked_def)
    show "unbooked B tx s t'" if "prepared B tx i s t" "Rollback E i t = (Inl err, t')" for t err t'
      using prepared_debits [OF that(1) assms(2)] outcome_cong(2) [OF settle_atomic(1) [OF that(2)]]
      by (simp add: unbooked_def)
  qed
qed (rule hoare_status, erule outcome_cong(1), simp add: outcome_def)

lemma conclude_outcome:
  assumes "it_ID x = i" and "payment B tx"
  shows "hoare (prepared B tx i s) (conclude_payment E B tx x b) (outcome B tx s) (unbooked B tx s)"
proof -
  have open_hoare: "hoare (unbooked B tx s) m Q (unbooked B tx s) \<Longrightarrow> hoare (prepared B tx i s) m Q (unbooked B tx s)" for m Q
    by (erule hoare_weaken) (use prepared_debits [OF _ assms(2)] in \<open>auto simp: unbooked_def\<close>)
  let ?done = "moves (\<lambda>_. 0) (bookings B tx) s"
  have c: "hoare (prepared B tx i s) (attempt (Commit E B i)) (\<lambda>r s'. case r of Inl _ \<Rightarrow> unbooked B tx s s' | Inr _ \<Rightarrow> ?done s')
      (unbooked B tx s)"
  proof (intro hoare_attempt hoareI)
    show "?done t'" if "prepared B tx i s t" "Commit E B i t = (Inr u, t')" for t u t'
      by (rule prepared_commit [OF that(1) assms(2) that(2)])
    show "unbooked B tx s t'" if "prepared B tx i s t" "Commit E B i t = (Inl err, t')" for t err t'
      using prepared_debits [OF that(1) assms(2)] outcome_cong(2) [OF settle_atomic(2) [OF that(2)]]
      by (simp add: unbooked_def)
  qed
  have undo: "hoare (prepared B tx i s) (undo_payment E x st step e) (outcome B tx s) (unbooked B tx s)" for st step e
    by (rule undo_outcome [OF assms])
  have stop: "hoare (unbooked B tx s) (bnd (setStatus x st step) (\<lambda>t. ret (t, Some e))) (outcome B tx s) (unbooked B tx s)"
    for st step e by (rule hoare_status, erule outcome_cong(1), simp add: outcome_def)
  have "hoare ?done (bnd (announce B COMMIT_TX (tx_transactionId tx)) (\<lambda>_.
      bnd (setStatus x TxCommitted ''COMMITTED'') (\<lambda>t. ret (t, None)))) (outcome B tx s) ?done"
    by (intro hoare_frame [OF keeps_racuni_outside(7)] hoare_status) (auto simp: outcome_def dest: outcome_cong(2))
  then have fin: "hoare ?done (bnd (announce B COMMIT_TX (tx_transactionId tx)) (\<lambda>_.
      bnd (setStatus x TxCommitted ''COMMITTED'') (\<lambda>t. ret (t, None)))) (outcome B tx s) (unbooked B tx s)"
    by (rule hoare_never_fails [rotated])
      (intro never_fails_bnd never_fails_announce never_fails_setStatus never_fails_basic)
  show ?thesis
  proof (cases b)
    case (Ballot v)
    have "hoare (prepared B tx i s) (bnd (attempt (Commit E B i)) (\<lambda>c. case c of
             Inl e \<Rightarrow> bnd (setStatus x TxFailed ''LOCAL_COMMIT'') (\<lambda>t. ret (t, Some e))
           | Inr _ \<Rightarrow> bnd (announce B COMMIT_TX (tx_transactionId tx)) (\<lambda>_.
               bnd (setStatus x TxCommitted ''COMMITTED'') (\<lambda>t. ret (t, None))))) (outcome B tx s) (unbooked B tx s)"
      by (rule hoare_bnd [OF c]) (auto split: sum.split intro: stop fin)
    then show ?thesis using Ballot undo assms(1) by (simp add: conclude_payment_def)
  qed (use undo open_hoare [OF stop] in \<open>auto simp: conclude_payment_def\<close>)
qed

lemma Prepare_votes: "Prepare E B i tx t = (Inr v, t') \<Longrightarrow> tv_vote v = YES \<or> tv_vote v = NO"
  by (auto simp: Prepare_def vote_no_def bnd_def attempt_def split: if_splits prod.splits sum.splits)

lemma prepared_steps:
  assumes "payment B tx" and "keeps books m" and "\<And>a t t'. m t = (Inr a, t') \<Longrightarrow> F a"
  shows "hoare (prepared B tx i s) m (\<lambda>a t. F a \<and> prepared B tx i s t) (unbooked B tx s)"
proof (rule hoareI)
  show "F a \<and> prepared B tx i s t'" if "prepared B tx i s t" "m t = (Inr a, t')" for t a t'
    using that assms(3) prepared_cong [OF keepsD [OF assms(2) that(2)]] by blast
  show "unbooked B tx s t'" if "prepared B tx i s t" "m t = (Inl e, t')" for t e t'
  proof -
    have "prepared B tx i s t'" using that(1) prepared_cong [OF keepsD [OF assms(2) that(2)]] by blast
    from prepared_debits [OF this assms(1)] show ?thesis by (simp add: unbooked_def)
  qed
qed

lemma vote_phase_outcome:
  assumes "payment B tx"
  shows "hoare (prepared B tx (it_ID x) s) (bnd (setStatus x TxPrepared ''LOCAL_PREPARED'') (\<lambda>ibTx.
      bnd (request_vote B tx) (conclude_payment E B tx ibTx))) (outcome B tx s) (unbooked B tx s)"
proof (rule hoare_bnd)
  show "hoare (prepared B tx (it_ID x) s) (setStatus x TxPrepared ''LOCAL_PREPARED'')
      (\<lambda>y t. it_ID y = it_ID x \<and> prepared B tx (it_ID x) s t) (unbooked B tx s)"
    by (rule prepared_steps [OF assms keeps_outside(5) [OF outside_books]]) (use setStatus_run in blast)
  fix y
  have rest: "hoare (prepared B tx (it_ID x) s) (bnd (request_vote B tx) (conclude_payment E B tx y))
      (outcome B tx s) (unbooked B tx s)" if "it_ID y = it_ID x"
  proof (rule hoare_bnd)
    show "hoare (prepared B tx (it_ID x) s) (request_vote B tx) (\<lambda>_ t. True \<and> prepared B tx (it_ID x) s t) (unbooked B tx s)"
      by (rule prepared_steps [OF assms keeps_outside(6) [OF outside_books]]) simp
  qed (simp add: conclude_outcome [OF that assms])
  show "hoare (\<lambda>t. it_ID y = it_ID x \<and> prepared B tx (it_ID x) s t) (bnd (request_vote B tx) (conclude_payment E B tx y))
      (outcome B tx s) (unbooked B tx s)"
    by (cases "it_ID y = it_ID x") (simp_all add: rest hoare_pre_false)
qed

lemma prepare_phase_outcome:
  assumes "whole_books s" and "list_all (whole_posting E) (tx_postings tx)" and "fresh_tx i s"
  shows "hoare (\<lambda>t. books t = books s) (Prepare E B i tx)
      (\<lambda>v t. if tv_vote v = NO then unbooked B tx s t else prepared B tx i s t) (unbooked B tx s)"
proof (rule hoareI)
  fix t v t'
  assume t: "books t = books s" and run: "Prepare E B i tx t = (Inr v, t')"
  show "if tv_vote v = NO then unbooked B tx s t' else prepared B tx i s t'"
  proof (cases "tv_vote v = NO")
    case True
    then have "core t' = core t" by (intro Prepare_refused [OF run]) simp
    with True t show ?thesis by (simp add: unbooked_def core_def books_def)
  next
    case False
    with Prepare_votes [OF run] have "tv_vote v = YES" by blast
    from Prepare_prepared [OF run this] t assms have "prepared B tx i t t'"
      by (simp add: books_def whole_books_def fresh_tx_def)
    with False t show ?thesis by (simp add: prepared_def books_def recorded_all_def moves_def)
  qed
next
  fix t e t'
  assume t: "books t = books s" and run: "Prepare E B i tx t = (Inl e, t')"
  have "core t' = core t" by (rule Prepare_refused [OF run]) simp
  with t show "unbooked B tx s t'" by (simp add: unbooked_def core_def books_def)
qed

lemma run_payment_outcome:
  assumes "payment B tx" and "whole_books s" and "list_all (whole_posting E) (tx_postings tx)" and "fresh_tx (it_ID x) s"
  shows "hoare (\<lambda>t. books t = books s) (run_payment E B tx x) (outcome B tx s) (unbooked B tx s)"
proof -
  have stop: "hoare (unbooked B tx s) (bnd (setStatus x st step) (\<lambda>t. ret (t, Some e))) (outcome B tx s) (unbooked B tx s)"
    for st step e by (rule hoare_status, erule outcome_cong(1), simp add: outcome_def)
  show ?thesis
    unfolding run_payment_def
    by (rule hoare_bnd [OF hoare_attempt [OF prepare_phase_outcome [OF assms(2-4)]]])
      (use stop vote_phase_outcome [OF assms(1)] in \<open>auto split: sum.split\<close>)
qed

end

text \<open>The two postings of a payment as movements: what is held on the sender's account, and what is booked.\<close>

definition payment_hold :: "bank \<Rightarrow> InterbankPaymentInput \<Rightarrow> string \<Rightarrow> string \<Rightarrow> decimal" where
  "payment_hold B inp num n = (if IsLocalAccount B num \<and> n = num then pi_Amount inp else 0)"

definition payment_effect :: "bank \<Rightarrow> InterbankPaymentInput \<Rightarrow> string \<Rightarrow> string \<Rightarrow> decimal" where
  "payment_effect B inp num n = (if IsLocalAccount B num \<and> n = num then - pi_Amount inp else 0) +
     (if IsLocalAccount B (pi_RecipientAccountNo inp) \<and> n = pi_RecipientAccountNo inp then pi_Amount inp else 0)"

lemma payment_transaction_moves:
  assumes "num \<noteq> []" and "pi_RecipientAccountNo inp \<noteq> []" and "0 < pi_Amount inp"
  shows "debits B (payment_transaction B inp num k) = payment_hold B inp num"
    and "bookings B (payment_transaction B inp num k) = payment_effect B inp num"
    and "payment B (payment_transaction B inp num k)"
    and "cents (pi_Amount inp) \<Longrightarrow> list_all (whole_posting E) (tx_postings (payment_transaction B inp num k))"
  using assms
  by (auto simp: fun_eq_iff debits_def bookings_def payment_def payment_hold_def payment_effect_def local_postings_def
      payment_transaction_def money_posting_def isLocalPosting_def IsLocalAccount_def whole_posting_def)

text \<open>Every reservation belongs to a transaction that was numbered before.\<close>

definition numbered :: "db \<Rightarrow> bool" where
  "numbered s \<longleftrightarrow> list_all (\<lambda>x. rv_TxID x < ib_tx_seq s) (ib_reservations s)"

lemma CreateTransaction_InrD:
  "CreateTransaction t s = (Inr x, s') \<Longrightarrow> it_ID x = ib_tx_seq s \<and> books s' = books s"
  by (auto simp: CreateTransaction_def stmt_root_def Let_def books_def bump_def split: if_splits)

definition sender :: "InterbankPaymentInput \<Rightarrow> db \<Rightarrow> racun \<Rightarrow> bool" where
  "sender inp s x \<longleftrightarrow> x \<in> set (racuni s) \<and> r_id x = pi_SenderAccountID inp \<and> id_vlasnika x = pi_SenderUserID inp \<and>
     valuta_oznaka x = pi_Currency inp \<and> broj_racuna x \<noteq> []"

definition payment_open :: "bank \<Rightarrow> InterbankPaymentInput \<Rightarrow> db \<Rightarrow> db \<Rightarrow> bool" where
  "payment_open B inp s s' \<longleftrightarrow> racuni s' = racuni s \<or>
     (\<exists>x. sender inp s x \<and> moves (payment_hold B inp (broj_racuna x)) (\<lambda>_. 0) s s')"

definition payment_done :: "bank \<Rightarrow> InterbankPaymentInput \<Rightarrow> db \<Rightarrow> InterbankTransaction \<times> err option \<Rightarrow> db \<Rightarrow> bool" where
  "payment_done B inp s r s' \<longleftrightarrow> (case snd r of
       None \<Rightarrow> it_Status (fst r) = TxCommitted \<and>
         (\<exists>x. sender inp s x \<and> moves (\<lambda>_. 0) (payment_effect B inp (broj_racuna x)) s s')
     | Some _ \<Rightarrow> payment_open B inp s s')"

definition started :: "db \<Rightarrow> db \<Rightarrow> bool" where
  "started s t \<longleftrightarrow> books t = books s \<and> ib_tx_seq t = ib_tx_seq s"

lemma started_open: "started s t \<Longrightarrow> payment_open B inp s t"
  by (simp add: started_def books_def payment_open_def)

lemma hoare_Create:
  assumes "numbered s"
  shows "hoare (started s) (CreateTransaction y) (\<lambda>x t. fresh_tx (it_ID x) s \<and> books t = books s) (payment_open B inp s)"
proof (rule hoareI)
  show "fresh_tx (it_ID x) s \<and> books t' = books s" if "started s t" "CreateTransaction y t = (Inr x, t')" for t x t'
    using CreateTransaction_InrD [OF that(2)] that(1) assms by (auto simp: started_def fresh_tx_def numbered_def list_all_iff)
  show "payment_open B inp s t'" if "started s t" "CreateTransaction y t = (Inl e, t')" for t e t'
    using keepsD [OF keeps_outside(8) that(2), of racuni] that(1) by (simp add: started_def books_def payment_open_def)
qed

lemma hoare_if: "(b \<Longrightarrow> hoare P m Q R) \<Longrightarrow> (\<not> b \<Longrightarrow> hoare P n Q R) \<Longrightarrow> hoare P (if b then m else n) Q R"
  by simp

lemma hoare_key: "hoare (started s) (NewLocalKey B) (\<lambda>_. started s) R"
  by (rule hoareI) (auto simp: NewLocalKey_def bnd_def started_def books_def)

context numerics
begin

lemma run_payment_done:
  assumes "sender inp s x" and "whole_books s" and "cents (pi_Amount inp)" and "0 < pi_Amount inp"
    and "pi_RecipientAccountNo inp \<noteq> []"
  shows "hoare (\<lambda>t. fresh_tx (it_ID y) s \<and> books t = books s)
    (run_payment E B (payment_transaction B inp (broj_racuna x) k) y) (payment_done B inp s) (payment_open B inp s)"
proof (cases "fresh_tx (it_ID y) s")
  case True
  have "broj_racuna x \<noteq> []" using assms(1) by (simp add: sender_def)
  note mv = payment_transaction_moves [OF this assms(5,4)]
  from run_payment_outcome [OF mv(3) assms(2) mv(4) [OF assms(3)] True]
  show ?thesis
    by (rule hoare_weaken)
      (use assms(1) in \<open>auto simp: mv outcome_def unbooked_def payment_done_def payment_open_def split: option.splits\<close>)
qed (simp add: hoare_pre_false)

lemma InitiateInterbankPayment_done:
  assumes "whole_books s" and "cents (pi_Amount inp)" and "numbered s"
  shows "hoare (started s) (InitiateInterbankPayment E B inp) (payment_done B inp s) (payment_open B inp s)"
proof -
  have stop: "hoare (started s) (fail e) (payment_done B inp s) (payment_open B inp s)" for e
    by (simp add: hoare_def started_open)
  let ?look = "\<lambda>s. List.find (\<lambda>r. r_id r = pi_SenderAccountID inp \<and> id_vlasnika r = pi_SenderUserID inp) (racuni s)"
  have look: "hoare (started s) (query_or None ?look) (\<lambda>acc t. (acc = None \<or> acc = ?look s) \<and> started s t) (payment_open B inp s)"
    by (rule hoareI) (auto dest!: query_or_InrD simp: started_def books_def never_failsD)
  have pay: "hoare (started s) (bnd (NewLocalKey B) (\<lambda>k.
        let tx = payment_transaction B inp (broj_racuna x) k in
        case MarshalTransaction (codec B) tx of
          None \<Rightarrow> fail (Errorf ''marshal transaction'')
        | Some payload \<Rightarrow>
            bnd (CreateTransaction (saga_row tx COORDINATOR ''PREPARING_LOCAL'' payload
               (ptrInt64 (pi_SenderUserID inp)) (ptrInt64 (pi_SenderAccountID inp)))) (run_payment E B tx)))
      (payment_done B inp s) (payment_open B inp s)"
    if "sender inp s x" "0 < pi_Amount inp" "pi_RecipientAccountNo inp \<noteq> []" for x
    using stop run_payment_done [OF that(1) assms(1,2) that(2,3)]
    by (auto intro!: hoare_bnd [OF hoare_key] hoare_bnd [OF hoare_Create [OF assms(3)]] simp: Let_def split: option.split)
  have snd: "sender inp s x" if "acc = None \<or> acc = ?look s" "named acc = Some x" "valuta_oznaka x = pi_Currency inp" for acc x
  proof -
    from that(2) have "acc = Some x" "broj_racuna x \<noteq> []" by (auto simp: named_def split: option.splits if_splits)
    with that(1) have "?look s = Some x" by auto
    with that(3) \<open>broj_racuna x \<noteq> []\<close> show ?thesis by (auto simp: sender_def find_Some_iff)
  qed
  have weak: "hoare (started s) m (payment_done B inp s) (payment_open B inp s) \<Longrightarrow>
      hoare (\<lambda>t. b \<and> started s t) m (payment_done B inp s) (payment_open B inp s)" for b m
    by (erule hoare_weaken) auto
  show ?thesis
    unfolding InitiateInterbankPayment_def
  proof (intro hoare_if stop hoare_bnd [OF look], goal_cases)
    case (1 acc)
    show ?case
    proof (cases "acc = None \<or> acc = ?look s")
      case True
      show ?thesis
      proof (cases "\<exists>x. named acc = Some x \<and> valuta_oznaka x = pi_Currency inp")
        case False
        then show ?thesis by (auto intro!: weak stop split: option.split)
      next
        case ok: True
        then obtain x where x: "named acc = Some x" "valuta_oznaka x = pi_Currency inp" by blast
        from 1 have "0 < pi_Amount inp" "pi_RecipientAccountNo inp \<noteq> []" by auto
        from weak [OF pay [OF snd [OF True x] this]] x show ?thesis by simp
      qed
    qed (simp add: hoare_pre_false)
  qed
qed

end

text \<open>C29. A payment to another bank is booked exactly when it is reported as committed, whatever statement or
  message fails on the way: on success the sender's account, which belongs to the requesting user and has the
  payment's currency, is debited by exactly the amount and nothing stays reserved; with any error no balance
  has changed, and at most the amount is still reserved on that account.\<close>

theorem payment_outcome:
  assumes "numerics E" and "whole_books s" and "cents (pi_Amount inp)" and "numbered s"
    and "InitiateInterbankPayment E B inp s = (r, s')"
  shows "case r of
      Inr (t, None) \<Rightarrow> it_Status t = TxCommitted \<and>
        (\<exists>x. sender inp s x \<and> moves (\<lambda>_. 0) (payment_effect B inp (broj_racuna x)) s s')
    | _ \<Rightarrow> racuni s' = racuni s \<or>
        (\<exists>x. sender inp s x \<and> moves (payment_hold B inp (broj_racuna x)) (\<lambda>_. 0) s s')"
proof -
  have "started s s" by (simp add: started_def)
  note h = hoareD [OF numerics.InitiateInterbankPayment_done [OF assms(1-4)] this]
  show ?thesis
  proof (cases r)
    case (Inl e)
    with h(2) assms(5) show ?thesis by (simp add: payment_open_def)
  next
    case (Inr x)
    with h(1) assms(5) have "payment_done B inp s x s'" by simp
    with Inr show ?thesis by (cases x) (simp add: payment_done_def payment_open_def split: option.splits)
  qed
qed

definition sample_inp :: InterbankPaymentInput where
  "sample_inp = \<lparr>pi_SenderUserID = 7, pi_SenderAccountID = 10, pi_RecipientAccountNo = ''F77'', pi_Amount = 5 / 2,
     pi_Currency = ''EUR'', pi_Message = [], pi_CallNumber = [], pi_PaymentCode = ''289'', pi_PaymentPurpose = ''rent''\<rparr>"

definition yes_vote :: json where
  "yes_vote = JObj [(''vote'', JStr ''YES'')]"

definition yes_bank :: bank where
  "yes_bank = sample_bank\<lparr>peer := (\<lambda>_ _. Some (200, Some yes_vote))\<rparr>"

lemma yes_bank_fields [simp]:
  "ourRoutingNumber yes_bank = 333" "peerRoutingNumber yes_bank = 111" "accountPrefix yes_bank = ''A''"
  "codec yes_bank = text_codec" "peer yes_bank n m = Some (200, Some yes_vote)" "newKey yes_bank n = CHR ''k'' # replicate n (CHR ''0'')"
  by (simp_all add: yes_bank_def sample_bank_def)

lemma yes_vote_dec: "decVote C yes_vote = Some \<lparr>tv_vote = YES, tv_reasons = []\<rparr>"
  by (simp add: decVote_def yes_vote_def decStr_def decArr_def jfield_def voteOf_def)

lemmas coordinator_eval = InitiateInterbankPayment_def run_payment_def conclude_payment_def request_vote_def announce_def
  NewLocalKey_def EnqueueOutgoing_def SendMessage_def client_SendMessage_def setStatus_def ignore_def
  GetOutgoingByIdempotence_def CreateMessage_def UpdateMessage_def CreateTransaction_def message_of_def tx_of_def
  saga_row_def outgoing_row_def answered_message_def known_message_def named_def ptrInt64_def money_posting_def

lemma sample_payment: "\<exists>t s. InitiateInterbankPayment sample_env yes_bank sample_inp sample_ib = (Inr (t, None), s)"
  by (simp add: coordinator_eval executor_eval sample_state sample_inp_def payment_transaction_def yes_vote_dec
      MarshalTransaction_def encPosting_def MarshalAsset_def)

theorem payment_outcome_witness:
  "\<exists>t s x. InitiateInterbankPayment sample_env yes_bank sample_inp sample_ib = (Inr (t, None), s) \<and>
     it_Status t = TxCommitted \<and> sender sample_inp sample_ib x \<and>
     moves (\<lambda>_. 0) (payment_effect yes_bank sample_inp (broj_racuna x)) sample_ib s"
proof -
  from sample_payment obtain t s where run: "InitiateInterbankPayment sample_env yes_bank sample_inp sample_ib = (Inr (t, None), s)"
    by blast
  have "cents (pi_Amount sample_inp)" "numbered sample_ib" by (simp_all add: sample_inp_def cents_def numbered_def)
  from payment_outcome [OF sample_numerics sample_whole(1) this run] run show ?thesis by auto
qed

end
