(* ===== verification/Interbank_Idempotence.thy ===== *)
theory Interbank_Idempotence
  imports Interbank_Protocol
begin

text \<open>
  Redelivery of messages (\<open>HandleIncomingMessage\<close>) and the retry of our own (\<open>SendMessage\<close>,
  \<open>processRetryBatch\<close>).
\<close>

section \<open>The executor leaves the message log alone\<close>

text \<open>A component of the state that the executor does not write.\<close>

definition unsettled :: "(db \<Rightarrow> 'b) \<Rightarrow> bool" where
  "unsettled f \<longleftrightarrow> clock_free f \<and> (\<forall>s x. f (s\<lparr>racuni := x\<rparr>) = f s) \<and> (\<forall>s x. f (s\<lparr>transakcije := x\<rparr>) = f s) \<and>
     (\<forall>s x y. f (s\<lparr>orders := x, order_seq := y\<rparr>) = f s) \<and> (\<forall>s x. f (s\<lparr>public_shares := x\<rparr>) = f s) \<and>
     (\<forall>s x y. f (s\<lparr>public_shares := x, public_shares_seq := y\<rparr>) = f s) \<and>
     (\<forall>s x. f (s\<lparr>ib_reservations := x\<rparr>) = f s) \<and> (\<forall>s x. f (s\<lparr>ib_contracts := x\<rparr>) = f s) \<and>
     (\<forall>s s'. f (rollback_core s s') = f s')"

lemma unsettledD:
  assumes "unsettled f"
  shows "clock_free f" "f (s\<lparr>racuni := a\<rparr>) = f s" "f (s\<lparr>transakcije := b\<rparr>) = f s" "f (s\<lparr>orders := c, order_seq := d\<rparr>) = f s"
    "f (s\<lparr>public_shares := e\<rparr>) = f s" "f (s\<lparr>public_shares := e, public_shares_seq := g\<rparr>) = f s"
    "f (s\<lparr>ib_reservations := h\<rparr>) = f s" "f (s\<lparr>ib_contracts := i\<rparr>) = f s"
    "f (rollback_core s s') = f s'"
  using assms by (simp_all add: unsettled_def)

lemma unsettled_fields [simp]: "unsettled ib_messages" "unsettled ib_msg_seq" "unsettled sent" "unsettled key_seq"
  "unsettled faults" "unsettled now_utc" "unsettled listings" "unsettled ib_negotiations" "unsettled ib_transactions"
  by (simp_all add: unsettled_def rollback_core_def)

lemma keeps_unsettled_tx: "unsettled f \<Longrightarrow> keeps f m \<Longrightarrow> keeps f (in_tx m)"
  by (rule keeps_in_tx) (simp_all add: unsettledD)

lemma keeps_unsettled:
  assumes f: "unsettled f"
  shows "keeps f (decrementPublicShares u t a)" "keeps f (insert_share l u q)" "keeps f (writeTxRow E n x)"
    "keeps f (commit_money E r)" "keeps f (commit_shares E r)" "keeps f (commit_strike E B r)" "keeps f (commit_option r)"
    "keeps f (rollback_money E r)" "keeps f (rollback_shares r)" "keeps f (reservePosting E i k p)"
proof -
  note o = unsettledD [OF f]
  have t: "keeps f (take_shares rows k)" for rows k
    by (induction rows k rule: take_shares.induct)
      (auto simp: Let_def delete_share_def set_share_def o intro!: keeps_intros keeps_stmt split: if_splits)
  show d: "keeps f (decrementPublicShares u t a)" for u t a
    unfolding decrementPublicShares_def by (intro keeps_intros t o)
  show i: "keeps f (insert_share l u q)" for l u q
    unfolding insert_share_def by (rule keeps_stmt) (auto simp: o split: if_splits)
  show w: "keeps f (writeTxRow E n x)" for n x
    unfolding writeTxRow_def by (intro keeps_intros keeps_insert_transakcije o)
  show "keeps f (commit_money E r)"
    unfolding commit_money_def by (intro keeps_intros keeps_update_racun w o)
  have ins: "keeps f (insert_order E ord)" for ord
    unfolding insert_order_def by (rule keeps_stmt) (auto simp: o Let_def split: if_splits)
  show "keeps f (commit_shares E r)"
    unfolding commit_shares_def isActuary_def Let_def by (intro keeps_intros keeps_stmt ins o) auto
  show "keeps f (commit_strike E B r)"
    unfolding commit_strike_def Let_def by (intro keeps_intros keeps_update_racun w o)
  show "keeps f (commit_option r)"
    unfolding commit_option_def by (intro keeps_intros keeps_repo_writes o)
  show "keeps f (rollback_money E r)"
    unfolding rollback_money_def by (intro keeps_intros keeps_update_racun o)
  show "keeps f (rollback_shares r)"
    unfolding rollback_shares_def by (intro keeps_intros i o)
  show "keeps f (reservePosting E i k p)"
    unfolding reservePosting_def reserve_money_def reserve_person_money_def reserve_shares_def reserve_update_def Let_def
    by (intro keeps_intros keeps_repo_writes keeps_update_racun d o)
qed

lemma keeps_executor:
  assumes f: "unsettled f" and st: "\<And>s x. f (s\<lparr>ib_transactions := x\<rparr>) = f s"
  shows "keeps f (Prepare E B i tx)" "keeps f (Commit E B i)" "keeps f (Rollback E i)"
proof -
  note o = unsettledD [OF f] and k = keeps_unsettled [OF f]
  have r: "keeps f (reserve_postings E B i n ps)" for n ps
    by (induction ps arbitrary: n) (simp_all add: keeps_ret keeps_bnd k)
  show "keeps f (Prepare E B i tx)"
    unfolding Prepare_def by (intro keeps_intros keeps_unsettled_tx [OF f] keeps_validate_postings r o)
  show "keeps f (Commit E B i)"
    unfolding Commit_def by (intro keeps_intros keeps_unsettled_tx [OF f] keeps_repo_writes k o st)
  show "keeps f (Rollback E i)"
    unfolding Rollback_def by (intro keeps_intros keeps_unsettled_tx [OF f] keeps_repo_writes k o st)
qed

section \<open>Redelivery\<close>

definition log_entry :: "InterbankMessage \<Rightarrow> db \<Rightarrow> InterbankMessageLog option" where
  "log_entry msg = message_of INCOMING (ik_routingNumber (im_key msg)) (ik_locallyGeneratedKey (im_key msg))"

text \<open>An answer without an error comes from \<open>respond\<close>, which the branch reaches with the log as it found it; a
  refusal leaves the log as it found it.\<close>

definition via_respond :: "InterbankMessageLog \<Rightarrow> reply dbp \<Rightarrow> bool" where
  "via_respond row m \<longleftrightarrow> (\<forall>s code body e s'. m s = (Inr (code, body, e), s') \<longrightarrow>
     (if e = None then \<exists>response s1. ib_messages s1 = ib_messages s \<and> respond row code response s1 = (Inr (code, body, None), s')
      else ib_messages s' = ib_messages s))"

lemma via_respond_refuse: "via_respond row (refuse code e)"
  by (simp add: via_respond_def refuse_def)

lemma via_respond_respond: "via_respond row (respond row code response)"
  unfolding via_respond_def
proof (intro allI impI)
  fix s code' body e s'
  assume run: "respond row code response s = (Inr (code', body, e), s')"
  then have "code' = code" "e = None" by (auto simp: respond_def bnd_def ignore_def split: prod.splits)
  with run show "if e = None
      then \<exists>response s1. ib_messages s1 = ib_messages s \<and> respond row code' response s1 = (Inr (code', body, None), s')
      else ib_messages s' = ib_messages s" by auto
qed

lemma via_respond_bnd:
  assumes "keeps ib_messages m" and "\<And>a. via_respond row (g a)"
  shows "via_respond row (bnd m g)"
  unfolding via_respond_def
proof (intro allI impI)
  fix s code body e s'
  assume "bnd m g s = (Inr (code, body, e), s')"
  then obtain a s1 where "m s = (Inr a, s1)" and g: "g a s1 = (Inr (code, body, e), s')" by (rule bnd_InrE)
  then have "ib_messages s1 = ib_messages s" using keepsD [OF assms(1)] by blast
  with assms(2) [of a] g show "if e = None
      then \<exists>response s1. ib_messages s1 = ib_messages s \<and> respond row code response s1 = (Inr (code, body, None), s')
      else ib_messages s' = ib_messages s"
    unfolding via_respond_def by metis
qed

lemma via_respond_cases:
  "via_respond row m \<Longrightarrow> via_respond row n \<Longrightarrow> via_respond row (if b then m else n)"
  "(\<And>a. via_respond row (g a)) \<Longrightarrow> (\<And>b. via_respond row (h b)) \<Longrightarrow> via_respond row (case x of Inl a \<Rightarrow> g a | Inr b \<Rightarrow> h b)"
  "via_respond row m \<Longrightarrow> (\<And>b. via_respond row (k b)) \<Longrightarrow> via_respond row (case y of None \<Rightarrow> m | Some b \<Rightarrow> k b)"
  by (simp_all split: sum.split option.split)

lemmas via_respond_intros = via_respond_refuse via_respond_respond via_respond_bnd via_respond_cases

lemma dispatch_via_respond: "via_respond row (dispatch E B msg row)"
proof -
  have mark: "keeps ib_messages (mark t st step)" for t st step
    unfolding mark_def by (intro keeps_intros keeps_repo_writes) simp_all
  have create: "keeps ib_messages (CreateTransaction t)" for t by (rule keeps_repo_writes) simp_all
  have cf: "clock_free ib_messages" by simp
  have ex: "keeps ib_messages (Prepare E B i tx)" "keeps ib_messages (Commit E B i)" "keeps ib_messages (Rollback E i)" for i tx
    by (rule keeps_executor; simp)+
  have "via_respond row (handle_new_tx E B j row)" for j
    unfolding handle_new_tx_def by (intro via_respond_intros keeps_intros ex mark create cf)
  moreover have "via_respond row (handle_commit E B j row)" for j
    unfolding handle_commit_def by (intro via_respond_intros keeps_intros ex mark cf)
  moreover have "via_respond row (handle_rollback E B j row)" for j
    unfolding handle_rollback_def by (intro via_respond_intros keeps_intros ex mark cf)
  ultimately show ?thesis unfolding dispatch_def by (simp add: via_respond_refuse split: MessageType.split)
qed

lemma find_replaced:
  "\<forall>x \<in> set xs. \<not> P x \<Longrightarrow> Q row \<Longrightarrow> P m \<Longrightarrow> List.find P (upd_where Q (\<lambda>_. m) (xs @ [row])) = Some m"
  by (induction xs) (auto simp: upd_where_def)

text \<open>What \<open>respond\<close> leaves in the log when the answer was recorded as processed is the answer itself.\<close>

lemma respond_recorded:
  assumes run: "respond row code response s = (Inr (code, body, None), s')"
    and s: "ib_messages s = xs @ [row]" "\<forall>x \<in> set xs. \<not> P x" "P row"
    and P: "\<And>m st c b. P (row\<lparr>ml_Status := st, ml_ResponseStatusCode := c, ml_ResponsePayload := b\<rparr>) = P row"
    and row: "ml_Status row = MsgPending" "ml_ResponsePayload row = None"
    and m: "List.find P (ib_messages s') = Some m" "ml_Status m = MsgProcessed"
  shows "previous_reply m = (code, body, None)"
proof -
  let ?m = "row\<lparr>ml_Status := MsgProcessed, ml_ResponseStatusCode := Some code, ml_ResponsePayload := response\<rparr>"
  have old: "List.find P (xs @ [row]) = Some row" using s(2,3) by (induction xs) auto
  have body: "body = (case response of None \<Rightarrow> None | Some b \<Rightarrow> b)"
    using run by (auto simp: respond_def bnd_def ignore_def split: prod.splits)
  have f: "response \<noteq> Some None \<and> ib_messages s' = upd_where (\<lambda>x. ml_ID x = ml_ID row) (\<lambda>_. ?m) (ib_messages s) \<or>
      ib_messages s' = ib_messages s"
    using run row(2) by (auto simp: respond_def bnd_def ignore_def FinishIncoming_def UpdateMessage_def stmt_root_def
        split: prod.splits option.splits if_splits)
  have "ib_messages s' \<noteq> ib_messages s" using m old s(1) row(1) by auto
  with f have up: "ib_messages s' = upd_where (\<lambda>x. ml_ID x = ml_ID row) (\<lambda>_. ?m) (xs @ [row])" using s(1) by auto
  have "List.find P (ib_messages s') = Some ?m"
    unfolding up by (rule find_replaced) (use s P in simp_all)
  with m(1) have "m = ?m" by simp
  with body show ?thesis by (simp add: previous_reply_def)
qed

text \<open>A first delivery records the message and dispatches it; a later one answers from the log.\<close>

lemma first_delivery:
  assumes "log_entry msg s = None" and "HandleIncomingMessage E B msg s = (Inr r, s1)" and "log_entry msg s1 = Some m"
  defines "row \<equiv> (incoming_row msg)\<lparr>ml_ID := ib_msg_seq s\<rparr>"
  obtains t where "ib_messages t = ib_messages s @ [row]" "dispatch E B msg row t = (Inr r, s1)"
proof -
  define t where "t = (bump (bump s))\<lparr>ib_messages := ib_messages s @ [row], ib_msg_seq := ib_msg_seq s + 1\<rparr>"
  have "ib_messages t = ib_messages s @ [row] \<and> dispatch E B msg row t = (Inr r, s1)"
    using assms
    by (auto simp: HandleIncomingMessage_def bnd_def attempt_def LookupIncomingResponse_def GetIncomingByIdempotence_def
        RecordIncoming_def CreateMessage_def root_query_def stmt_root_def log_entry_def refuse_def message_of_def Let_def
        t_def split: if_splits)
  with that show thesis by blast
qed

lemma later_delivery:
  assumes "log_entry msg s = Some m" and "ik_locallyGeneratedKey (im_key msg) \<noteq> []"
    and "length (ik_locallyGeneratedKey (im_key msg)) \<le> 64" and "\<not> faults s (tick s)"
  shows "HandleIncomingMessage E B msg s = (Inr (previous_reply m), bump s)"
  using assms
  by (simp add: HandleIncomingMessage_def bnd_def attempt_def LookupIncomingResponse_def GetIncomingByIdempotence_def
      root_query_def stmt_root_def log_entry_def message_of_def)

text \<open>C30. A message that was answered gets the same answer again: when \<open>HandleIncomingMessage\<close> answered
  without an error and the log shows the message as processed, every later delivery of the same idempotence
  key that can read the log returns the same status and body, and changes nothing.\<close>

theorem redelivery_same_answer:
  assumes "HandleIncomingMessage E B msg s = (Inr (code, body, None), s1)"
    and "log_entry msg s1 = Some m" and "ml_Status m = MsgProcessed"
    and "log_entry msg s2 = Some m" and "\<not> faults s2 (tick s2)"
  shows "HandleIncomingMessage E B msg s2 = (Inr (code, body, None), bump s2)"
proof -
  let ?key = "ik_locallyGeneratedKey (im_key msg)"
  have len: "?key \<noteq> []" "length ?key \<le> 64"
    using assms(1) by (auto simp: HandleIncomingMessage_def refuse_def Let_def split: if_splits)
  have "previous_reply m = (code, body, None)"
  proof (cases "log_entry msg s")
    case (Some m')
    with assms(1) len have "previous_reply m' = (code, body, None)" "s1 = bump s"
      by (auto simp: HandleIncomingMessage_def bnd_def attempt_def LookupIncomingResponse_def GetIncomingByIdempotence_def
          root_query_def stmt_root_def log_entry_def refuse_def message_of_def split: if_splits)
    with Some assms(2) show ?thesis by (simp add: log_entry_def message_of_def)
  next
    case None
    define row where "row = (incoming_row msg)\<lparr>ml_ID := ib_msg_seq s\<rparr>"
    from first_delivery [OF None assms(1,2), folded row_def] obtain t where t: "ib_messages t = ib_messages s @ [row]"
      "dispatch E B msg row t = (Inr (code, body, None), s1)" .
    from dispatch_via_respond t(2) obtain response u where u: "ib_messages u = ib_messages t"
      "respond row code response u = (Inr (code, body, None), s1)" unfolding via_respond_def by (metis (full_types))
    let ?P = "\<lambda>x. ml_Direction x = INCOMING \<and> ml_IdemRouting x = ik_routingNumber (im_key msg) \<and> ml_IdemKey x = ?key"
    show ?thesis
      by (rule respond_recorded [OF u(2), where P = ?P])
        (use u(1) t(1) None assms(2,3) in
          \<open>auto simp: row_def incoming_row_def log_entry_def message_of_def find_None_iff\<close>)
  qed
  with later_delivery [OF assms(4) len assms(5)] show ?thesis by simp
qed

definition sample_rollback_msg :: InterbankMessage where
  "sample_rollback_msg = \<lparr>im_key = \<lparr>ik_routingNumber = 111, ik_locallyGeneratedKey = ''m1''\<rparr>, im_type = ROLLBACK_TX,
     im_message = encTxRef \<lparr>fb_routingNumber = 111, fb_id = ''t9''\<rparr>\<rparr>"

lemma decTxRef_enc: "int64 (fb_routingNumber i) \<Longrightarrow> decTxRef (encTxRef i) = Some i"
  by (cases i) (simp add: decTxRef_def encTxRef_def decStruct_def jfield_def encForeignBankId_def decForeignBankId_def
      decInt_def decStr_def)

lemmas incoming_eval = HandleIncomingMessage_def LookupIncomingResponse_def GetIncomingByIdempotence_def RecordIncoming_def
  CreateMessage_def UpdateMessage_def dispatch_def handle_rollback_def handle_commit_def handle_new_tx_def respond_def refuse_def
  FinishIncoming_def GetTransactionByForeignID_def incoming_row_def message_of_def tx_of_def known_message_def bnd_def attempt_def
  ignore_def root_query_def stmt_root_def Let_def upd_where_def

lemma sample_redelivery:
  "\<exists>s1 m. HandleIncomingMessage sample_env sample_bank sample_rollback_msg sample_ib = (Inr (204, None, None), s1) \<and>
     log_entry sample_rollback_msg s1 = Some m \<and> ml_Status m = MsgProcessed \<and> \<not> faults s1 (tick s1)"
  by (simp add: incoming_eval sample_rollback_msg_def decTxRef_enc int64_def log_entry_def sample_ib_def sample_db_def
      empty_db_def bump_def)

theorem redelivery_same_answer_witness:
  "\<exists>s1. HandleIncomingMessage sample_env sample_bank sample_rollback_msg sample_ib = (Inr (204, None, None), s1) \<and>
     HandleIncomingMessage sample_env sample_bank sample_rollback_msg s1 = (Inr (204, None, None), bump s1)"
proof -
  from sample_redelivery obtain s1 m where
    s1: "HandleIncomingMessage sample_env sample_bank sample_rollback_msg sample_ib = (Inr (204, None, None), s1)"
      "log_entry sample_rollback_msg s1 = Some m" "ml_Status m = MsgProcessed" "\<not> faults s1 (tick s1)" by blast
  from redelivery_same_answer [OF s1(1-3,2,4)] s1(1) show ?thesis by blast
qed

text \<open>A message that could not be processed is confirmed when it is sent again: after any delivery that
  was refused once its arrival was recorded, the next delivery of the same key is answered \<open>200\<close> with an
  empty body, without an error, and nothing is processed.\<close>

theorem refused_message_confirmed_later:
  assumes "log_entry msg s = None" and "HandleIncomingMessage E B msg s = (Inr (code, body, Some e), s1)"
    and "log_entry msg s1 = Some m" and "\<not> faults s1 (tick s1)"
  shows "HandleIncomingMessage E B msg s1 = (Inr (200, None, None), bump s1)"
proof -
  define row where "row = (incoming_row msg)\<lparr>ml_ID := ib_msg_seq s\<rparr>"
  let ?key = "ik_locallyGeneratedKey (im_key msg)"
  from first_delivery [OF assms(1-3), folded row_def] obtain t where t: "ib_messages t = ib_messages s @ [row]"
    "dispatch E B msg row t = (Inr (code, body, Some e), s1)" .
  from dispatch_via_respond t(2) have "ib_messages s1 = ib_messages t" unfolding via_respond_def by fastforce
  with t(1) have l: "ib_messages s1 = ib_messages s @ [row]" by simp
  have "List.find P (xs @ [row]) = Some row" if "List.find P xs = None" "P row" for P and xs :: "InterbankMessageLog list"
    using that by (induction xs) (auto split: if_splits)
  with assms(1,3) l have m: "m = row" by (simp add: log_entry_def message_of_def row_def incoming_row_def)
  have len: "?key \<noteq> []" "length ?key \<le> 64"
    using assms(2,3) assms(1)
    by (auto simp: HandleIncomingMessage_def refuse_def Let_def log_entry_def split: if_splits)
  from later_delivery [OF assms(3) len assms(4)] show ?thesis
    by (simp add: m row_def incoming_row_def previous_reply_def)
qed

definition sample_garbage :: InterbankMessage where
  "sample_garbage = \<lparr>im_key = \<lparr>ik_routingNumber = 111, ik_locallyGeneratedKey = ''m2''\<rparr>, im_type = NEW_TX, im_message = JStr ''x''\<rparr>"

theorem refused_message_confirmed_later_witness:
  "\<exists>e s1. HandleIncomingMessage sample_env sample_bank sample_garbage sample_ib = (Inr (400, None, Some e), s1) \<and>
     HandleIncomingMessage sample_env sample_bank sample_garbage s1 = (Inr (200, None, None), bump s1)"
proof -
  have "\<exists>e s1 m. HandleIncomingMessage sample_env sample_bank sample_garbage sample_ib = (Inr (400, None, Some e), s1) \<and>
      log_entry sample_garbage s1 = Some m \<and> \<not> faults s1 (tick s1)"
    by (simp add: incoming_eval sample_garbage_def UnmarshalTransaction_def log_entry_def sample_ib_def sample_db_def
        empty_db_def bump_def)
  then obtain e s1 m where s1: "HandleIncomingMessage sample_env sample_bank sample_garbage sample_ib = (Inr (400, None, Some e), s1)"
    "log_entry sample_garbage s1 = Some m" "\<not> faults s1 (tick s1)" by blast
  have "log_entry sample_garbage sample_ib = None"
    by (simp add: log_entry_def message_of_def sample_ib_def sample_db_def empty_db_def)
  from refused_message_confirmed_later [OF this s1] s1(1) show ?thesis by blast
qed

section \<open>Commit once\<close>

lemma respond_frame: "outside f \<Longrightarrow> keeps f (respond row code response)"
  unfolding respond_def FinishIncoming_def
  by (intro keeps_intros keeps_case_option keeps_repo_writes) (simp_all add: outsideD)

lemma RecordIncoming_frame:
  "keeps core (RecordIncoming msg)" "keeps ib_transactions (RecordIncoming msg)"
  unfolding RecordIncoming_def by (rule keeps_repo_writes; simp add: core_def)+

lemma Commit_marks:
  assumes "Commit E B i s = (Inr u, s')" and "tx_of r k s = Some t" and "it_ID t = i"
  shows "\<exists>t'. tx_of r k s' = Some t' \<and> it_Status t' = TxCommitted"
proof -
  let ?body = "\<lambda>r. bnd (commit_money E r) (\<lambda>_. bnd (commit_shares E r) (\<lambda>_. bnd (commit_strike E B r) (\<lambda>_. commit_option r)))"
  from assms(1) obtain xs s1 where l: "ListReservationsByTx i s = (Inr xs, s1)" and
    tr: "in_tx (bnd (foreach xs ?body) (\<lambda>_. UpdateTransactionStatus i TxCommitted ''COMMITTED'')) s1 = (Inr u, s')"
    unfolding Commit_def by (rule bnd_InrE)
  from tr obtain s2 where b: "bnd (foreach xs ?body) (\<lambda>_. UpdateTransactionStatus i TxCommitted ''COMMITTED'') (begin_tx s1) = (Inr u, s2)"
    and s': "s' = end_tx s1 (bump s2)" by (rule in_tx_InrE)
  from b obtain v s3 where f: "foreach xs ?body (begin_tx s1) = (Inr v, s3)"
    and up: "UpdateTransactionStatus i TxCommitted ''COMMITTED'' s3 = (Inr u, s2)" by (rule bnd_InrE)
  have cf: "clock_free ib_transactions" by simp
  note k = keeps_unsettled [OF unsettled_fields(9)]
  have "keeps ib_transactions (foreach xs ?body)" by (intro keeps_intros k)
  from keepsD [OF this f] keepsD [OF keeps_repo_reads(5) [OF cf] l] have "ib_transactions s3 = ib_transactions s" by simp
  with up s' have "ib_transactions s' = upd_where (\<lambda>t. it_ID t = i) (\<lambda>t. t\<lparr>it_Status := TxCommitted, it_Step := ''COMMITTED''\<rparr>)
      (ib_transactions s)" by (auto simp: UpdateTransactionStatus_def stmt_root_def split: if_splits)
  moreover have "List.find P (upd_where Q g ts) = map_option (\<lambda>t. if Q t then g t else t) (List.find P ts)"
    if "\<And>t. P (g t) = P t" for P Q and g :: "InterbankTransaction \<Rightarrow> InterbankTransaction" and ts
    using that by (induction ts) (auto simp: upd_where_def)
  ultimately show ?thesis using assms(2,3) by (simp add: tx_of_def)
qed

lemma respond_transactions: "keeps ib_transactions (respond row code response)"
  unfolding respond_def FinishIncoming_def by (intro keeps_intros keeps_case_option keeps_repo_writes) simp_all

lemma lookup_tx: "attempt (GetTransactionByForeignID r k) s = (Inr x, s') \<Longrightarrow> s' = bump s \<and> (x = Inl DBError \<or> x = Inr (tx_of r k s))"
  by (auto simp: attempt_def GetTransactionByForeignID_def root_query_def stmt_root_def tx_of_def split: if_splits prod.splits)

lemma handle_commit_marks:
  assumes run: "handle_commit E B j row s = (Inr (code, b, None), s')" and j: "decTxRef j = Some i"
  shows "\<exists>t. tx_of (fb_routingNumber i) (fb_id i) s' = Some t \<and> it_Status t = TxCommitted"
proof -
  let ?of = "tx_of (fb_routingNumber i) (fb_id i)"
  from run j obtain x s1 where x: "attempt (GetTransactionByForeignID (fb_routingNumber i) (fb_id i)) s = (Inr x, s1)"
    and k: "(case x of Inl e \<Rightarrow> refuse 500 e | Inr None \<Rightarrow> refuse 404 (Errorf ''transaction not found'')
      | Inr (Some t) \<Rightarrow> if it_Status t = TxCommitted then respond row 204 None
          else bnd (attempt (Commit E B (it_ID t))) (\<lambda>c. case c of
              Inl e \<Rightarrow> bnd (mark t TxFailed ''COMMIT_ERROR'') (\<lambda>_. refuse 500 e)
            | Inr _ \<Rightarrow> respond row 204 None)) s1 = (Inr (code, b, None), s')"
    unfolding handle_commit_def by (auto elim!: bnd_InrE)
  from lookup_tx [OF x] k obtain t where t: "?of s1 = Some t" "x = Inr (Some t)"
    by (auto simp: refuse_def tx_of_def split: sum.splits option.splits)
  have keep: "?of s' = ?of s2" if "respond row 204 None s2 = (r, s')" for r s2
    using keepsD [OF respond_transactions that] by (simp add: tx_of_def)
  show ?thesis
  proof (cases "it_Status t = TxCommitted")
    case True
    with k t keep [of s1] show ?thesis by auto
  next
    case False
    with k t obtain u s2 where "Commit E B (it_ID t) s1 = (Inr u, s2)" and r: "respond row 204 None s2 = (Inr (code, b, None), s')"
      by (auto simp: bnd_def attempt_def refuse_def split: prod.splits sum.splits)
    from Commit_marks [OF this(1) t(1) refl] keep [OF r] show ?thesis by simp
  qed
qed

lemma handle_commit_idle:
  assumes run: "handle_commit E B j row s = (r, s')" and j: "decTxRef j = Some i"
    and t: "tx_of (fb_routingNumber i) (fb_id i) s = Some t" "it_Status t = TxCommitted"
  shows "core s' = core s"
  using run j t lookup_tx [of "fb_routingNumber i" "fb_id i" s] keepsD [OF respond_frame [OF outside_fields(2)]]
  by (auto simp: handle_commit_def refuse_def bnd_def [of "attempt _"] attempt_def split: prod.splits sum.splits if_splits)

lemma delivery_cases:
  assumes "HandleIncomingMessage E B msg s = (r, s')"
  obtains (answered) "core s' = core s"
    | (dispatched) row t where "dispatch E B msg row t = (r, s')" "core t = core s" "ib_transactions t = ib_transactions s"
proof -
  have k: "keeps core (attempt (LookupIncomingResponse key))" "keeps ib_transactions (attempt (LookupIncomingResponse key))" for key
    unfolding LookupIncomingResponse_def by (intro keeps_intros; simp)+
  obtain x s1 where l: "attempt (LookupIncomingResponse (im_key msg)) s = (Inr x, s1)" by (cases "LookupIncomingResponse (im_key msg) s") (simp add: attempt_def)
  obtain y s2 where c: "attempt (RecordIncoming msg) s1 = (Inr y, s2)" by (cases "RecordIncoming msg s1") (simp add: attempt_def)
  have s1: "core s1 = core s" "ib_transactions s1 = ib_transactions s" using keepsD [OF k(1) l] keepsD [OF k(2) l] by auto
  have s2: "core s2 = core s1" "ib_transactions s2 = ib_transactions s1"
    using keepsD [OF keeps_attempt [OF RecordIncoming_frame(1)] c] keepsD [OF keeps_attempt [OF RecordIncoming_frame(2)] c] by auto
  from assms l c s1 s2 have "core s' = core s \<or> (\<exists>row. dispatch E B msg row s2 = (r, s'))"
    by (auto simp: HandleIncomingMessage_def Let_def refuse_def bnd_def split: if_splits sum.splits option.splits)
  with answered dispatched s1 s2 show thesis by auto
qed

text \<open>C31. A transaction is committed once: after a \<open>COMMIT_TX\<close> was carried out, no further \<open>COMMIT_TX\<close> for the
  same transaction changes an account, a booking, an order or a published share, under whatever key it comes
  and whatever else happened, as long as the transaction's record stays.\<close>

theorem commit_once:
  assumes "im_type msg = COMMIT_TX" and "decTxRef (im_message msg) = Some i" and "log_entry msg s = None"
    and "HandleIncomingMessage E B msg s = (Inr (code, b, None), s1)" and "log_entry msg s1 \<noteq> None"
    and "im_type msg' = COMMIT_TX" and "decTxRef (im_message msg') = Some i"
    and "tx_of (fb_routingNumber i) (fb_id i) s2 = tx_of (fb_routingNumber i) (fb_id i) s1"
    and "HandleIncomingMessage E B msg' s2 = (r, s3)"
  shows "core s3 = core s2"
proof -
  from assms(5) obtain m where "log_entry msg s1 = Some m" by blast
  from first_delivery [OF assms(3,4) this] obtain row u where "dispatch E B msg row u = (Inr (code, b, None), s1)" by metis
  then have "handle_commit E B (im_message msg) row u = (Inr (code, b, None), s1)" by (simp add: dispatch_def assms(1))
  from handle_commit_marks [OF this assms(2)] assms(8) obtain t where
    t: "tx_of (fb_routingNumber i) (fb_id i) s2 = Some t" "it_Status t = TxCommitted" by auto
  from assms(9) show ?thesis
  proof (cases rule: delivery_cases)
    case (dispatched row' u')
    then have "handle_commit E B (im_message msg') row' u' = (r, s3)" by (simp add: dispatch_def assms(6))
    from handle_commit_idle [OF this assms(7) _ t(2)] t(1) dispatched show ?thesis by (simp add: tx_of_def)
  qed
qed

definition sample_commit_msg :: "string \<Rightarrow> InterbankMessage" where
  "sample_commit_msg k = \<lparr>im_key = \<lparr>ik_routingNumber = 111, ik_locallyGeneratedKey = k\<rparr>, im_type = COMMIT_TX,
     im_message = encTxRef \<lparr>fb_routingNumber = 333, fb_id = ''t1''\<rparr>\<rparr>"

lemma sample_commit_delivery:
  "\<exists>s1. HandleIncomingMessage sample_env sample_bank (sample_commit_msg ''m1'') sample_prepared = (Inr (204, None, None), s1) \<and>
     log_entry (sample_commit_msg ''m1'') s1 \<noteq> None"
  by (simp add: incoming_eval sample_commit_msg_def decTxRef_enc int64_def log_entry_def executor_eval sample_state)

theorem commit_once_witness:
  "\<exists>s1. HandleIncomingMessage sample_env sample_bank (sample_commit_msg ''m1'') sample_prepared = (Inr (204, None, None), s1) \<and>
     core (snd (HandleIncomingMessage sample_env sample_bank (sample_commit_msg ''m2'') s1)) = core s1"
proof -
  from sample_commit_delivery obtain s1 where
    s1: "HandleIncomingMessage sample_env sample_bank (sample_commit_msg ''m1'') sample_prepared = (Inr (204, None, None), s1)"
      "log_entry (sample_commit_msg ''m1'') s1 \<noteq> None" by blast
  have msg: "im_type (sample_commit_msg k) = COMMIT_TX"
    "decTxRef (im_message (sample_commit_msg k)) = Some \<lparr>fb_routingNumber = 333, fb_id = ''t1''\<rparr>" for k
    by (simp_all add: sample_commit_msg_def decTxRef_enc int64_def)
  have "log_entry (sample_commit_msg ''m1'') sample_prepared = None"
    by (simp add: log_entry_def message_of_def sample_state)
  from commit_once [OF msg this s1 msg refl prod.collapse [symmetric]] s1(1) show ?thesis by blast
qed

end
