(* ===== verification/Interbank_Retry.thy ===== *)
theory Interbank_Retry
  imports Interbank_Idempotence
begin

text \<open>
  Retries of outgoing messages: the back-off schedule and the batch of \<open>processRetryBatch\<close>.
\<close>

text \<open>The back-off never overflows and stays in its range: for a configured back-off of at most \<open>2^56\<close>
  nanoseconds (over two years), every retry waits at least the back-off and at most 64 times it, and never
  shorter than the retry before.\<close>

theorem retry_delay_bounds:
  assumes "0 \<le> backoffDuration B" and "backoffDuration B \<le> 2 ^ 56" and "1 \<le> n"
  shows "backoffDuration B \<le> retry_delay B n \<and> retry_delay B n \<le> 64 * backoffDuration B \<and>
    retry_delay B n \<le> retry_delay B (n + 1)"
proof -
  let ?b = "backoffDuration B" and ?e = "\<lambda>n::int. nat (min (n - 1) 6)"
  have e: "(2::int) ^ ?e k \<le> 64" "1 \<le> (2::int) ^ ?e k" for k
    using power_increasing [of "?e k" 6 "2::int"] by simp_all
  have "?b * 2 ^ ?e k \<le> ?b * 64" "?b * 1 \<le> ?b * 2 ^ ?e k" for k
    using assms(1) e by (intro mult_left_mono; simp)+
  then have r: "?b * 2 ^ ?e k \<le> ?b * 64" "?b \<le> ?b * 2 ^ ?e k" for k by simp_all
  have "int64 (?b * 2 ^ ?e k)" for k
  proof -
    have "?b * 64 \<le> 2 ^ 56 * 64" using assms(2) by (intro mult_right_mono) simp_all
    also have "\<dots> = 2 ^ 62" by simp
    finally have "?b * 2 ^ ?e k \<le> 2 ^ 62" using r(1) [of k] by linarith
    with r(2) [of k] assms(1) show ?thesis by (simp add: int64_def)
  qed
  then have d: "retry_delay B k = ?b * 2 ^ ?e k" for k by (simp add: retry_delay_def wrap64_id)
  have "(2::int) ^ ?e n \<le> 2 ^ ?e (n + 1)" by (rule power_increasing) (use assms(3) in auto)
  then have "?b * 2 ^ ?e n \<le> ?b * 2 ^ ?e (n + 1)" using assms(1) by (rule mult_left_mono)
  with d r(1,2) [of n] show ?thesis by (simp add: mult.commute)
qed

theorem retry_delay_bounds_witness: "30 \<le> retry_delay sample_bank 9 \<and> retry_delay sample_bank 9 \<le> 1920"
  using retry_delay_bounds [of sample_bank 9] by (simp add: sample_bank_def)

section \<open>A batch\<close>

definition due :: "db \<Rightarrow> InterbankMessageLog list" where
  "due s = take 50 (filter (\<lambda>m. ml_Direction m = OUTGOING \<and>
     (ml_Status m = MsgPending \<or> ml_Status m = MsgAccepted \<or> ml_Status m = MsgFailed) \<and>
     (case ml_NextRetryAt m of None \<Rightarrow> True | Some t \<Rightarrow> t \<le> now_utc s)) (ib_messages s))"

definition worth_sending :: "bank \<Rightarrow> InterbankMessageLog \<Rightarrow> bool" where
  "worth_sending B m \<longleftrightarrow> \<not> (ml_RetryCount m \<ge> maxRetry B \<and> ml_Status m = MsgFailed)"

definition confirming :: "bank \<Rightarrow> bool" where
  "confirming B \<longleftrightarrow> (\<forall>n m. \<exists>code body. peer B n m = Some (code, body) \<and> (code = 200 \<or> code = 204))"

lemma due_open: "m \<in> set (due s) \<Longrightarrow> m \<in> set (ib_messages s) \<and> ml_Status m \<noteq> MsgSent \<and> ml_Status m \<noteq> MsgProcessed"
  by (auto simp: due_def dest!: in_set_takeD)

lemma due_ids: "distinct (map ml_ID (ib_messages s)) \<Longrightarrow> distinct (map ml_ID (due s))"
  unfolding due_def by (simp add: take_map [symmetric] distinct_map_filter)

lemma SendMessage_confirmed:
  assumes "no_faults s" and "confirming B" and "ml_Status m \<noteq> MsgSent" "ml_Status m \<noteq> MsgProcessed"
  shows "\<exists>m' s'. SendMessage B m s = (Inr (m', None), s') \<and> no_faults s' \<and> sent s' = sent s @ [envelope m] \<and>
     ib_messages s' = upd_where (\<lambda>x. ml_ID x = ml_ID m) (\<lambda>_. m') (ib_messages s) \<and>
     ml_ID m' = ml_ID m \<and> ml_Status m' = MsgSent \<and> envelope m' = envelope m"
proof -
  from assms(2) obtain code body where "peer B (length (sent s)) (envelope m) = Some (code, body)" "code = 200 \<or> code = 204"
    unfolding confirming_def by blast
  with assms show ?thesis
    by (auto simp: SendMessage_def client_SendMessage_def UpdateMessage_def stmt_root_def answered_message_def bnd_def
        attempt_def Let_def envelope_def bump_def)
qed

text \<open>What a batch over \<open>rows\<close> makes of the log: the rows it sends become \<open>SENT\<close>, the others stay.\<close>

definition delivered :: "InterbankMessageLog list \<Rightarrow> InterbankMessageLog list \<Rightarrow> InterbankMessageLog list \<Rightarrow> bool" where
  "delivered rows xs ys \<longleftrightarrow> list_all2 (\<lambda>x y. ml_ID y = ml_ID x \<and>
     (if ml_ID x \<in> ml_ID ` set rows then ml_Status y = MsgSent \<and> (\<exists>m \<in> set rows. ml_ID m = ml_ID x \<and> envelope y = envelope m)
      else y = x)) xs ys"

lemma delivered_Nil: "delivered [] xs xs"
  by (simp add: delivered_def list.rel_refl)

lemma delivered_Cons:
  assumes "ml_ID m' = ml_ID m" "ml_Status m' = MsgSent" "envelope m' = envelope m" and "ml_ID m \<notin> ml_ID ` set rows"
    and "delivered rows (upd_where (\<lambda>x. ml_ID x = ml_ID m) (\<lambda>_. m') xs) ys"
  shows "delivered (m # rows) xs ys"
  using assms(5) unfolding delivered_def
proof (induction xs arbitrary: ys)
  case (Cons x xs)
  then obtain y zs where "ys = y # zs" by (auto simp: upd_where_def list_all2_Cons1)
  with Cons assms(1-4) show ?case by (auto simp: upd_where_def split: if_splits)
qed (simp add: upd_where_def)

lemma batch_run:
  assumes "confirming B"
  shows "no_faults s \<Longrightarrow> distinct (map ml_ID rows) \<Longrightarrow> \<forall>m \<in> set rows. ml_Status m \<noteq> MsgSent \<and> ml_Status m \<noteq> MsgProcessed \<Longrightarrow>
    \<exists>s'. foreach rows (\<lambda>m. if ml_RetryCount m \<ge> maxRetry B \<and> ml_Status m = MsgFailed then ret ()
        else ignore (SendMessage B m)) s = (Inr (), s') \<and> no_faults s' \<and>
      sent s' = sent s @ map envelope (filter (worth_sending B) rows) \<and>
      delivered (filter (worth_sending B) rows) (ib_messages s) (ib_messages s')"
proof (induction rows arbitrary: s)
  case Nil
  then show ?case by (simp add: delivered_Nil)
next
  case (Cons m rows)
  show ?case
  proof (cases "worth_sending B m")
    case False
    then have "ml_RetryCount m \<ge> maxRetry B \<and> ml_Status m = MsgFailed" by (simp add: worth_sending_def)
    with Cons False show ?thesis by (simp add: bnd_def)
  next
    case True
    have "ml_Status m \<noteq> MsgSent" "ml_Status m \<noteq> MsgProcessed" using Cons.prems(3) by auto
    from SendMessage_confirmed [OF Cons.prems(1) assms this] obtain m' s1
      where s1: "SendMessage B m s = (Inr (m', None), s1)" "no_faults s1" "sent s1 = sent s @ [envelope m]"
        "ib_messages s1 = upd_where (\<lambda>x. ml_ID x = ml_ID m) (\<lambda>_. m') (ib_messages s)"
        "ml_ID m' = ml_ID m" "ml_Status m' = MsgSent" "envelope m' = envelope m" by auto
    from Cons.IH [OF s1(2)] Cons.prems(2,3) obtain s' where
      s': "foreach rows (\<lambda>m. if ml_RetryCount m \<ge> maxRetry B \<and> ml_Status m = MsgFailed then ret ()
          else ignore (SendMessage B m)) s1 = (Inr (), s')" "no_faults s'"
        "sent s' = sent s1 @ map envelope (filter (worth_sending B) rows)"
        "delivered (filter (worth_sending B) rows) (ib_messages s1) (ib_messages s')" by auto
    have "delivered (m # filter (worth_sending B) rows) (ib_messages s) (ib_messages s')"
      by (rule delivered_Cons [OF s1(5-7)]) (use Cons.prems(2) s'(4) s1(4) in auto)
    moreover have "\<not> (ml_RetryCount m \<ge> maxRetry B \<and> ml_Status m = MsgFailed)" using True by (simp add: worth_sending_def)
    ultimately show ?thesis using True s1 s' by (auto simp: bnd_def ignore_def)
  qed
qed


definition sample_log :: db where
  "sample_log = sample_ib\<lparr>ib_messages := [(outgoing_row COMMIT_TX 111 \<lparr>ik_routingNumber = 333, ik_locallyGeneratedKey = ''k''\<rparr> JNull)\<lparr>ml_ID := 1\<rparr>],
     ib_msg_seq := 2\<rparr>"


end
