(* ===== verification/Interbank_Escrow.thy ===== *)
theory Interbank_Escrow
  imports Interbank_Executor
begin

text \<open>
  The escrow of shares: \<open>BlockShares\<close> withdraws published shares, oldest offer first, when an option contract
  is concluded, and \<open>ReleaseShares\<close> publishes them again when it expires. The loop is compared with
  \<open>clamp_loop\<close> of the funds manager, which walks the same rows.
\<close>

definition owned_by :: "int \<Rightarrow> string \<Rightarrow> db \<Rightarrow> public_share \<Rightarrow> bool" where
  "owned_by u ticker s p \<longleftrightarrow> ps_user_id p = u \<and> list_ex (\<lambda>l. l_ID l = ps_listing_id p \<and> l_Ticker l = ticker) (listings s)"

lemma owned_by_quantity: "owned_by u t s (p\<lparr>ps_quantity := q\<rparr>) = owned_by u t s p"
  by (simp add: owned_by_def)

lemma owned_by_cong: "listings s' = listings s \<Longrightarrow> owned_by u t s' = owned_by u t s"
  by (simp add: owned_by_def fun_eq_iff)

lemma shares_of_owned: "shares_of u t s = filter (owned_by u t s) (public_shares s)"
  by (simp add: shares_of_def owned_by_def [abs_def])

text \<open>\<open>take_shares\<close> is \<open>clamp_loop\<close> that also reports what it could not take.\<close>

lemma take_shares_clamp:
  "\<forall>p \<in> set rows. 0 < ps_quantity p \<Longrightarrow> 0 \<le> k \<Longrightarrow>
   take_shares rows k = bnd (clamp_loop rows k) (\<lambda>_. ret (max 0 (k - (\<Sum>p \<leftarrow> rows. ps_quantity p))))"
proof (induction rows k rule: take_shares.induct)
  case (1 k)
  then show ?case by simp
next
  case (2 p rows k)
  have nn: "0 \<le> (\<Sum>p \<leftarrow> rows. ps_quantity p)" by (rule sum_list_nonneg) (use 2(2) in auto)
  have stop: "take_shares rows 0 = ret 0" "clamp_loop rows 0 = ret ()" by (cases rows; simp)+
  consider "k = 0" | "0 < k" "k < ps_quantity p" | "0 < k" "ps_quantity p \<le> k" using 2(3) by linarith
  then show ?case
  proof cases
    case 1
    with 2(2) nn show ?thesis by simp
  next
    case 2
    with nn stop show ?thesis by (simp add: Let_def bnd_def fun_eq_iff split: prod.split sum.split)
  next
    case 3
    then have "take_shares rows (k - ps_quantity p) = bnd (clamp_loop rows (k - ps_quantity p))
        (\<lambda>_. ret (max 0 (k - ps_quantity p - (\<Sum>p \<leftarrow> rows. ps_quantity p))))"
      using 2(1) [OF _ refl refl] 2(2) by (simp add: bnd_def fun_eq_iff split: prod.split sum.split)
    with 3 2(2) show ?thesis by (simp add: Let_def bnd_def fun_eq_iff diff_diff_eq split: prod.split sum.split)
  qed
qed

lemma take_frame: "clock_free f \<Longrightarrow> (\<And>s ps. f (s\<lparr>public_shares := ps\<rparr>) = f s) \<Longrightarrow> keeps f (take_shares rows k)"
  by (induction rows k rule: take_shares.induct)
    (auto simp: Let_def delete_share_def set_share_def intro!: keeps_intros keeps_stmt split: if_splits)

lemma keeps_BlockShares: "keeps listings (BlockShares u t a)"
  unfolding BlockShares_def decrementPublicShares_def by (intro keeps_in_tx keeps_intros take_frame) simp_all

lemma decrement_run:
  assumes "no_faults s" and "distinct (map ps_id (public_shares s))"
    and pos: "\<forall>p \<in> set (public_shares s). 0 < ps_quantity p" and "0 \<le> a"
  shows "\<exists>s1. decrementPublicShares u t a s =
       (if a \<le> published (owned_by u t s) s then Inr () else Inl (Errorf ''not enough public shares''), s1) \<and>
     no_faults s1 \<and> (\<forall>p \<in> set (public_shares s1). 0 < ps_quantity p) \<and>
     filter (owned_by u t s) (public_shares s1) = clamped (filter (owned_by u t s) (public_shares s)) a \<and>
     filter (\<lambda>p. \<not> owned_by u t s p) (public_shares s1) = filter (\<lambda>p. \<not> owned_by u t s p) (public_shares s)"
proof -
  let ?Q = "owned_by u t s" and ?s = "bump s"
  let ?rows = "filter ?Q (public_shares s)"
  have "\<exists>s1. clamp_loop ?rows a ?s = (Inr (), s1) \<and> no_faults s1 \<and> orders s1 = orders ?s \<and>
      filter ?Q (public_shares s1) = clamped ?rows a \<and>
      filter (\<lambda>p. \<not> ?Q p) (public_shares s1) = filter (\<lambda>p. \<not> ?Q p) (public_shares ?s)"
    by (rule clamp_loop_run) (use assms owned_by_quantity in simp_all)
  then obtain s1 where run: "clamp_loop ?rows a ?s = (Inr (), s1)" and s1: "no_faults s1"
    and rows: "filter ?Q (public_shares s1) = clamped ?rows a"
    and others: "filter (\<lambda>p. \<not> ?Q p) (public_shares s1) = filter (\<lambda>p. \<not> ?Q p) (public_shares s)" by auto
  have sh: "shares_of u t ?s = ?rows" by (simp add: shares_of_owned owned_by_def [abs_def])
  have "decrementPublicShares u t a s =
      (if a \<le> published ?Q s then Inr () else Inl (Errorf ''not enough public shares''), s1)"
    using assms(1,4) pos run
    by (auto simp: decrementPublicShares_def bnd_def query_ok sh take_shares_clamp published_def max_def)
  moreover have "0 < ps_quantity p" if "p \<in> set (public_shares s1)" for p
  proof -
    have "p \<in> set (filter ?Q (public_shares s1)) \<union> set (filter (\<lambda>p. \<not> ?Q p) (public_shares s1))" using that by simp
    moreover have "\<forall>p \<in> set ?rows. 0 < ps_quantity p" using pos by simp
    ultimately show ?thesis unfolding rows others using pos clamped_pos by fastforce
  qed
  ultimately show ?thesis using s1 rows others by blast
qed

lemma BlockShares_run:
  assumes "no_faults s" and "distinct (map ps_id (public_shares s))"
    and "list_all (\<lambda>p. 0 < ps_quantity p) (public_shares s)" and "0 \<le> a"
  shows "\<exists>s'. BlockShares u t a s =
       (if a \<le> published (owned_by u t s) s then Inr () else Inl (Errorf ''not enough public shares''), s') \<and>
     published (owned_by u t s) s' = published (owned_by u t s) s - (if a \<le> published (owned_by u t s) s then a else 0) \<and>
     list_all (\<lambda>p. 0 < ps_quantity p) (public_shares s') \<and>
     filter (\<lambda>p. \<not> owned_by u t s p) (public_shares s') = filter (\<lambda>p. \<not> owned_by u t s p) (public_shares s)"
proof -
  let ?Q = "owned_by u t s"
  have Q: "owned_by u t (begin_tx s) = ?Q" by (rule owned_by_cong) simp
  have p: "published ?Q (begin_tx s) = published ?Q s" by (simp add: published_def)
  have "no_faults (begin_tx s)" using assms(1) by simp
  from decrement_run [OF this, of a u t] assms obtain s1
    where run: "decrementPublicShares u t a (begin_tx s) =
      (if a \<le> published ?Q s then Inr () else Inl (Errorf ''not enough public shares''), s1)"
      and s1: "no_faults s1" "\<forall>p \<in> set (public_shares s1). 0 < ps_quantity p"
      and rows: "filter ?Q (public_shares s1) = clamped (filter ?Q (public_shares s)) a"
      and others: "filter (\<lambda>p. \<not> ?Q p) (public_shares s1) = filter (\<lambda>p. \<not> ?Q p) (public_shares s)"
    unfolding Q p by (auto simp: list_all_iff)
  show ?thesis
  proof (cases "a \<le> published ?Q s")
    case True
    then have "BlockShares u t a s = (Inr (), end_tx s (bump s1))"
      unfolding BlockShares_def by (intro in_tx_ok [OF assms(1) _ s1(1)]) (simp add: run)
    moreover have "published ?Q s1 = published ?Q s - a"
      unfolding published_def rows by (rule clamped_sum) (use True assms(3,4) in \<open>auto simp: published_def list_all_iff\<close>)
    ultimately show ?thesis using True others s1(2) by (simp add: published_def list_all_iff)
  next
    case False
    then have "BlockShares u t a s = (Inl (Errorf ''not enough public shares''), end_tx s (rollback_core s (bump s1)))"
      unfolding BlockShares_def by (intro in_tx_ok_Inl [OF assms(1)]) (simp add: run)
    then show ?thesis using False assms(3) by (simp add: published_def)
  qed
qed

text \<open>\<open>BlockShares\<close> is exact: with enough shares published under the ticker it withdraws exactly the
  amount from the user's offers, leaving no empty offer; otherwise it refuses and every offer stays as it
  was. Offers of other users and other tickers never change.\<close>

theorem block_shares_exact:
  assumes "no_faults s" and "distinct (map ps_id (public_shares s))"
    and "list_all (\<lambda>p. 0 < ps_quantity p) (public_shares s)" and "0 \<le> a"
  shows "\<exists>s'. BlockShares u t a s =
       (if a \<le> published (owned_by u t s) s then Inr () else Inl (Errorf ''not enough public shares''), s') \<and>
     published (owned_by u t s) s' = published (owned_by u t s) s - (if a \<le> published (owned_by u t s) s then a else 0) \<and>
     list_all (\<lambda>p. 0 < ps_quantity p) (public_shares s') \<and>
     filter (\<lambda>p. \<not> owned_by u t s p) (public_shares s') = filter (\<lambda>p. \<not> owned_by u t s p) (public_shares s)"
  by (rule BlockShares_run [OF assms])

definition sample_offers :: db where
  "sample_offers = sample_db\<lparr>listings := [\<lparr>l_ID = 3, l_Ticker = ''AAPL'', l_Type = LT_STOCK, l_Price = 2, l_Ask = 2, l_Bid = 2,
     l_Volume = 100, l_ExchangeID = 1, l_Details = None\<rparr>],
     public_shares := [\<lparr>ps_id = 1, ps_listing_id = 3, ps_user_id = 7, ps_quantity = 5\<rparr>,
       \<lparr>ps_id = 2, ps_listing_id = 3, ps_user_id = 8, ps_quantity = 1\<rparr>,
       \<lparr>ps_id = 3, ps_listing_id = 3, ps_user_id = 7, ps_quantity = 4\<rparr>], public_shares_seq := 4\<rparr>"

lemma sample_offers_ok:
  "no_faults sample_offers" "distinct (map ps_id (public_shares sample_offers))"
  "list_all (\<lambda>p. 0 < ps_quantity p) (public_shares sample_offers)"
  "published (owned_by 7 ''AAPL'' sample_offers) sample_offers = 9"
  by (simp_all add: sample_offers_def sample_db_def empty_db_def published_def owned_by_def)

theorem block_shares_exact_witness:
  "\<exists>s'. BlockShares 7 ''AAPL'' 6 sample_offers = (Inr (), s') \<and>
     published (owned_by 7 ''AAPL'' sample_offers) s' = 3"
  using block_shares_exact [OF sample_offers_ok(1-3), of 6 7 "''AAPL''"] by (auto simp: sample_offers_ok(4))

section \<open>Release\<close>

text \<open>Escrow is a round trip: shares that were blocked and are released again leave the user with the
  published quantity of before, under the same ticker.\<close>

theorem escrow_roundtrip:
  assumes "no_faults s" and "distinct (map ps_id (public_shares s))"
    and "list_all (\<lambda>p. 0 < ps_quantity p) (public_shares s)" and "0 \<le> a"
    and "BlockShares u t a s = (Inr (), s1)" and "ReleaseShares u t a s1 = (Inr (), s2)"
  shows "published (owned_by u t s) s2 = published (owned_by u t s) s"
proof -
  let ?Q = "owned_by u t s"
  have l: "listings s1 = listings s" by (rule keepsD [OF keeps_BlockShares assms(5)])
  from BlockShares_run [OF assms(1-4), of u t] assms(5)
  have b: "published ?Q s1 = published ?Q s - a" by (auto split: if_splits)
  from assms(6) have g: "0 < a" and i: "listing_id t s1 \<noteq> 0"
    and s2: "public_shares s2 = public_shares s1 @ [\<lparr>ps_id = public_shares_seq s1, ps_listing_id = listing_id t s1,
      ps_user_id = u, ps_quantity = a\<rparr>]"
    by (auto simp: ReleaseShares_def bnd_def query_def insert_share_def stmt_def listing_id_def split: if_splits)
  from i obtain x where "List.find (\<lambda>l. l_Ticker l = t) (listings s) = Some x" "listing_id t s1 = l_ID x"
    by (auto simp: listing_id_def l split: option.splits)
  then have "?Q \<lparr>ps_id = public_shares_seq s1, ps_listing_id = listing_id t s1, ps_user_id = u, ps_quantity = a\<rparr>"
    by (auto simp: owned_by_def find_Some_iff list_ex_iff)
  with b s2 show ?thesis by (simp add: published_def)
qed

theorem escrow_roundtrip_witness:
  "\<exists>s1 s2. BlockShares 7 ''AAPL'' 6 sample_offers = (Inr (), s1) \<and> ReleaseShares 7 ''AAPL'' 6 s1 = (Inr (), s2) \<and>
     published (owned_by 7 ''AAPL'' sample_offers) s2 = 9"
proof -
  have "\<exists>s1 s2. BlockShares 7 ''AAPL'' 6 sample_offers = (Inr (), s1) \<and> ReleaseShares 7 ''AAPL'' 6 s1 = (Inr (), s2)"
    by (simp add: BlockShares_def in_tx_def decrementPublicShares_def ReleaseShares_def bnd_def query_def stmt_def shares_of_def
        delete_share_def set_share_def insert_share_def listing_id_def Let_def upd_where_def sample_offers_def sample_db_def
        empty_db_def begin_tx_def end_tx_def bump_def int32_def)
  then obtain s1 s2 where "BlockShares 7 ''AAPL'' 6 sample_offers = (Inr (), s1)" "ReleaseShares 7 ''AAPL'' 6 s1 = (Inr (), s2)"
    by blast
  with escrow_roundtrip [OF sample_offers_ok(1-3) _ this] show ?thesis by (auto simp: sample_offers_ok(4))
qed

end
