(* ===== verification/Interbank_OTC.thy ===== *)
theory Interbank_OTC
  imports Interbank_Protocol Interbank_Escrow Go_Time
begin

text \<open>
  Options between the banks: \<open>service/interbank_otc_service.go\<close> (the negotiation of an offer, turn by turn),
  \<open>service/interbank_option_contract_service.go\<close> (accepting an offer, which escrows the seller's shares and
  collects the premium by a two-phase transaction, and exercising the contract) and
  \<open>worker/interbank_option_expiry_worker.go\<close> (closing contracts past their settlement date). Error texts
  are not modelled, so \<open>friendlyOTCError\<close>, which only rewords them, does not appear.
\<close>

section \<open>Negotiation\<close>

record OtcOffer =
  of_Stock :: string
  of_SettlementDate :: string
  of_PricePerUnit :: MonetaryValue
  of_Premium :: MonetaryValue
  of_BuyerID :: ForeignBankId
  of_SellerID :: ForeignBankId
  of_Amount :: int
  of_LastModifiedBy :: ForeignBankId

record OtcNegotiation = OtcOffer +
  on_IsOngoing :: bool

definition new_negotiation :: "ForeignBankId \<Rightarrow> OtcOffer \<Rightarrow> int \<Rightarrow> InterbankNegotiation" where
  "new_negotiation i offer settlement = \<lparr>ng_Routing = fb_routingNumber i, ng_ForeignID = fb_id i,
     ng_StockTicker = of_Stock offer, ng_SettlementDate = settlement,
     ng_PriceCurrency = mv_currency (of_PricePerUnit offer), ng_PriceAmount = mv_amount (of_PricePerUnit offer),
     ng_PremiumCurrency = mv_currency (of_Premium offer), ng_PremiumAmount = mv_amount (of_Premium offer),
     ng_Amount = of_Amount offer, ng_BuyerRouting = fb_routingNumber (of_BuyerID offer), ng_BuyerID = fb_id (of_BuyerID offer),
     ng_SellerRouting = fb_routingNumber (of_SellerID offer), ng_SellerID = fb_id (of_SellerID offer),
     ng_LastModifiedRouting = fb_routingNumber (of_LastModifiedBy offer), ng_LastModifiedID = fb_id (of_LastModifiedBy offer),
     ng_IsOngoing = True, ng_Status = NsOpen, ng_UpdatedAt = 0\<rparr>"

definition counter_offer :: "OtcOffer \<Rightarrow> int \<Rightarrow> InterbankNegotiation \<Rightarrow> InterbankNegotiation" where
  "counter_offer offer settlement n = n\<lparr>ng_StockTicker := of_Stock offer, ng_SettlementDate := settlement,
     ng_PriceCurrency := mv_currency (of_PricePerUnit offer), ng_PriceAmount := mv_amount (of_PricePerUnit offer),
     ng_PremiumCurrency := mv_currency (of_Premium offer), ng_PremiumAmount := mv_amount (of_Premium offer),
     ng_Amount := of_Amount offer, ng_LastModifiedRouting := fb_routingNumber (of_LastModifiedBy offer),
     ng_LastModifiedID := fb_id (of_LastModifiedBy offer)\<rparr>"

definition CreateNegotiation :: "env \<Rightarrow> bank \<Rightarrow> OtcOffer \<Rightarrow> ForeignBankId dbp" where
  "CreateNegotiation E B offer =
     (if fb_routingNumber (of_SellerID offer) \<noteq> ourRoutingNumber B then fail (Errorf ''seller is not at this bank'')
      else if of_Amount offer \<le> 0 then fail (Errorf ''amount must be positive'')
      else if of_Stock offer = [] then fail (Errorf ''ticker required'')
      else if of_SettlementDate offer = [] then fail (Errorf ''settlementDate required'')
      else case parseRFC3339 (of_SettlementDate offer) of
        None \<Rightarrow> fail (Errorf ''invalid settlementDate'')
      | Some settlement \<Rightarrow> bnd (NewLocalKey B) (\<lambda>k.
          let i = \<lparr>fb_routingNumber = ourRoutingNumber B, fb_id = k\<rparr> in
          bnd (repo_CreateNegotiation E (new_negotiation i offer settlement)) (\<lambda>_. ret i)))"

definition CounterNegotiation :: "env \<Rightarrow> int \<Rightarrow> string \<Rightarrow> OtcOffer \<Rightarrow> unit dbp" where
  "CounterNegotiation E routing i offer = bnd (GetNegotiationByID routing i) (\<lambda>r. case r of
       None \<Rightarrow> fail ErrInterbankNotFound
     | Some n \<Rightarrow>
         if \<not> ng_IsOngoing n \<or> ng_Status n \<noteq> NsOpen then fail ErrInterbankConflict
         else if ng_LastModifiedRouting n = fb_routingNumber (of_LastModifiedBy offer) \<and>
                 ng_LastModifiedID n = fb_id (of_LastModifiedBy offer) then fail ErrInterbankConflict
         else case parseRFC3339 (of_SettlementDate offer) of
           None \<Rightarrow> fail (Errorf ''invalid settlementDate'')
         | Some settlement \<Rightarrow> UpdateNegotiation E (counter_offer offer settlement n))"

text \<open>A time read from the database is in the server's location: \<open>loc t\<close> is its offset at \<open>t\<close>.\<close>

definition negotiation_view :: "(int \<Rightarrow> int) \<Rightarrow> InterbankNegotiation \<Rightarrow> OtcNegotiation" where
  "negotiation_view loc n = \<lparr>of_Stock = ng_StockTicker n,
     of_SettlementDate = formatRFC3339 (loc (ng_SettlementDate n)) (ng_SettlementDate n),
     of_PricePerUnit = \<lparr>mv_currency = ng_PriceCurrency n, mv_amount = ng_PriceAmount n\<rparr>,
     of_Premium = \<lparr>mv_currency = ng_PremiumCurrency n, mv_amount = ng_PremiumAmount n\<rparr>,
     of_BuyerID = \<lparr>fb_routingNumber = ng_BuyerRouting n, fb_id = ng_BuyerID n\<rparr>,
     of_SellerID = \<lparr>fb_routingNumber = ng_SellerRouting n, fb_id = ng_SellerID n\<rparr>,
     of_Amount = ng_Amount n,
     of_LastModifiedBy = \<lparr>fb_routingNumber = ng_LastModifiedRouting n, fb_id = ng_LastModifiedID n\<rparr>,
     on_IsOngoing = ng_IsOngoing n\<rparr>"

definition GetNegotiation :: "(int \<Rightarrow> int) \<Rightarrow> int \<Rightarrow> string \<Rightarrow> OtcNegotiation dbp" where
  "GetNegotiation loc routing i = bnd (GetNegotiationByID routing i) (\<lambda>r. case r of
       None \<Rightarrow> fail ErrInterbankNotFound
     | Some n \<Rightarrow> ret (negotiation_view loc n))"

definition ListNegotiations :: "bank \<Rightarrow> string option \<Rightarrow> InterbankNegotiation list dbp" where
  "ListNegotiations B clientUserID = repo_ListNegotiations (ourRoutingNumber B) clientUserID"

definition CancelNegotiation :: "env \<Rightarrow> int \<Rightarrow> string \<Rightarrow> unit dbp" where
  "CancelNegotiation E routing i = bnd (GetNegotiationByID routing i) (\<lambda>r. case r of
       None \<Rightarrow> fail ErrInterbankNotFound
     | Some n \<Rightarrow> UpdateNegotiation E (n\<lparr>ng_IsOngoing := False, ng_Status := NsCancelled\<rparr>))"

definition RecordRemoteNegotiation :: "env \<Rightarrow> ForeignBankId \<Rightarrow> OtcOffer \<Rightarrow> unit dbp" where
  "RecordRemoteNegotiation E negID offer = (case parseRFC3339 (of_SettlementDate offer) of
       None \<Rightarrow> fail (Errorf ''invalid settlementDate'')
     | Some settlement \<Rightarrow> bnd (GetNegotiationByID (fb_routingNumber negID) (fb_id negID)) (\<lambda>r. case r of
           Some n \<Rightarrow> UpdateNegotiation E ((counter_offer offer settlement n)\<lparr>ng_IsOngoing := True, ng_Status := NsOpen\<rparr>)
         | None \<Rightarrow> repo_CreateNegotiation E (new_negotiation negID offer settlement)))"

section \<open>Accepting an offer\<close>

definition contractFromNegotiation :: "InterbankNegotiation \<Rightarrow> InterbankOptionContract" where
  "contractFromNegotiation n = \<lparr>ic_Routing = ng_Routing n, ic_ForeignID = ng_ForeignID n, ic_StockTicker = ng_StockTicker n,
     ic_PriceCurrency = ng_PriceCurrency n, ic_PriceAmount = ng_PriceAmount n, ic_PremiumCurrency = ng_PremiumCurrency n,
     ic_PremiumAmount = ng_PremiumAmount n, ic_SettlementDate = ng_SettlementDate n, ic_Amount = ng_Amount n,
     ic_BuyerRouting = ng_BuyerRouting n, ic_BuyerID = ng_BuyerID n, ic_SellerRouting = ng_SellerRouting n,
     ic_SellerID = ng_SellerID n, ic_Status = CsActive\<rparr>"

definition monas :: "string \<Rightarrow> Asset" where
  "monas c = \<lparr>as_type = MONAS, as_monAs = Some c, as_stock = None, as_option = None\<rparr>"

definition stock_asset :: "string \<Rightarrow> Asset" where
  "stock_asset t = \<lparr>as_type = STOCK, as_monAs = None, as_stock = Some t, as_option = None\<rparr>"

definition id_posting :: "AccountKind \<Rightarrow> ForeignBankId \<Rightarrow> decimal \<Rightarrow> Asset \<Rightarrow> Posting" where
  "id_posting k i amount asset = \<lparr>p_account = \<lparr>ta_type = k, ta_id = Some i, ta_num = None\<rparr>, p_amount = amount, p_asset = asset\<rparr>"

definition accept_postings :: "bank \<Rightarrow> InterbankNegotiation \<Rightarrow> Posting list" where
  "accept_postings B n = (let buyer = \<lparr>fb_routingNumber = ng_BuyerRouting n, fb_id = ng_BuyerID n\<rparr>;
       seller = \<lparr>fb_routingNumber = ng_SellerRouting n, fb_id = ng_SellerID n\<rparr>;
       optID = \<lparr>fb_routingNumber = ourRoutingNumber B, fb_id = ng_ForeignID n\<rparr>;
       option = \<lparr>as_type = OPTION, as_monAs = None, as_stock = None, as_option = Some \<lparr>od_negotiationId = optID,
         od_ticker = ng_StockTicker n,
         od_pricePerUnit = \<lparr>mv_currency = ng_PriceCurrency n, mv_amount = ng_PriceAmount n\<rparr>,
         od_settlementDate = formatRFC3339 0 (ng_SettlementDate n), od_amount = of_int (ng_Amount n)\<rparr>\<rparr> in
     [id_posting PERSON buyer (- ng_PremiumAmount n) (monas (ng_PremiumCurrency n)),
      id_posting PERSON seller (ng_PremiumAmount n) (monas (ng_PremiumCurrency n)),
      id_posting OPTION_ACC optID (- 1) option,
      id_posting PERSON buyer 1 option])"

definition buildAcceptTransaction :: "bank \<Rightarrow> InterbankNegotiation \<Rightarrow> Transaction dbp" where
  "buildAcceptTransaction B n = bnd (NewLocalKey B) (\<lambda>k. ret
     \<lparr>tx_postings = accept_postings B n, tx_transactionId = \<lparr>fb_routingNumber = ourRoutingNumber B, fb_id = k\<rparr>,
      tx_message = ''OTC accept '' @ ng_ForeignID n, tx_callNumber = None, tx_paymentCode = ''289'',
      tx_paymentPurpose = ''OTC_PREMIUM''\<rparr>)"

definition close_accepted :: "env \<Rightarrow> InterbankNegotiation \<Rightarrow> unit dbp" where
  "close_accepted E n = UpdateNegotiation E (n\<lparr>ng_IsOngoing := False, ng_Status := NsAccepted\<rparr>)"

definition finalizeAccept :: "env \<Rightarrow> InterbankNegotiation \<Rightarrow> unit dbp" where
  "finalizeAccept E n = bnd (CreateOptionContract E (contractFromNegotiation n)) (\<lambda>_. close_accepted E n)"

text \<open>The premium: whether it was collected (\<open>err == nil && ibTx.Status == COMMITTED\<close>).\<close>

definition collect_premium :: "env \<Rightarrow> bank \<Rightarrow> InterbankNegotiation \<Rightarrow> int \<Rightarrow> bool dbp" where
  "collect_premium E B n seller = bnd (buildAcceptTransaction B n) (\<lambda>tx.
     bnd (attempt (InitiateInterbankTransaction E B tx (Some seller))) (\<lambda>r. ret (case r of
         Inl _ \<Rightarrow> False
       | Inr (ibTx, e) \<Rightarrow> e = None \<and> it_Status ibTx = TxCommitted)))"

text \<open>The seller's bank: escrow first, then the premium, then the contract.\<close>

definition accept_as_seller :: "env \<Rightarrow> bank \<Rightarrow> InterbankNegotiation \<Rightarrow> unit dbp" where
  "accept_as_seller E B n = (case ParseInt (ng_SellerID n) of
       None \<Rightarrow> fail (Errorf ''invalid sellerId'')
     | Some seller \<Rightarrow> bnd (BlockShares seller (ng_StockTicker n) (ng_Amount n)) (\<lambda>_.
         bnd (collect_premium E B n seller) (\<lambda>committed.
           if \<not> committed
           then bnd (ReleaseShares seller (ng_StockTicker n) (ng_Amount n)) (\<lambda>_. fail (Errorf ''premium not collected''))
           else bnd (CreateOptionContract E (contractFromNegotiation n)) (\<lambda>_. close_accepted E n))))"

definition AcceptNegotiation :: "env \<Rightarrow> bank \<Rightarrow> int \<Rightarrow> string \<Rightarrow> unit dbp" where
  "AcceptNegotiation E B routing i = bnd (GetNegotiationByID routing i) (\<lambda>r. case r of
       None \<Rightarrow> fail ErrInterbankNotFound
     | Some n \<Rightarrow>
         if ng_Status n = NsAccepted then ret ()
         else if \<not> ng_IsOngoing n then fail ErrInterbankConflict
         else if ng_SellerRouting n \<noteq> ourRoutingNumber B then finalizeAccept E n
         else accept_as_seller E B n)"

section \<open>Contracts\<close>

definition ListContracts :: "bank \<Rightarrow> int \<Rightarrow> InterbankOptionContract list dbp" where
  "ListContracts B userID = ListContractsForUser (ourRoutingNumber B) (FormatInt userID)"

definition GetContract :: "int \<Rightarrow> string \<Rightarrow> InterbankOptionContract dbp" where
  "GetContract routing i = bnd (GetOptionContract routing i) (\<lambda>c. case c of
     None \<Rightarrow> fail ErrInterbankNotFound | Some c \<Rightarrow> ret c)"

definition exercise_postings :: "InterbankOptionContract \<Rightarrow> Posting list" where
  "exercise_postings c = (let optAccount = \<lparr>fb_routingNumber = ic_Routing c, fb_id = ic_ForeignID c\<rparr>;
       buyer = \<lparr>fb_routingNumber = ic_BuyerRouting c, fb_id = ic_BuyerID c\<rparr>;
       totalCash = ic_PriceAmount c * of_int (ic_Amount c); amountStock = of_int (ic_Amount c) in
     [id_posting OPTION_ACC optAccount totalCash (monas (ic_PriceCurrency c)),
      id_posting PERSON buyer (- totalCash) (monas (ic_PriceCurrency c)),
      id_posting OPTION_ACC optAccount (- amountStock) (stock_asset (ic_StockTicker c)),
      id_posting PERSON buyer amountStock (stock_asset (ic_StockTicker c))])"

definition exercise_transaction :: "bank \<Rightarrow> InterbankOptionContract \<Rightarrow> string \<Rightarrow> Transaction" where
  "exercise_transaction B c k = \<lparr>tx_postings = exercise_postings c,
     tx_transactionId = \<lparr>fb_routingNumber = ourRoutingNumber B, fb_id = k\<rparr>,
     tx_message = ''Exercise OTC option '' @ ic_ForeignID c, tx_callNumber = None, tx_paymentCode = ''289'',
     tx_paymentPurpose = ''OTC_EXERCISE''\<rparr>"

definition ExerciseContract :: "env \<Rightarrow> bank \<Rightarrow> int \<Rightarrow> int \<Rightarrow> string \<Rightarrow> (InterbankTransaction \<times> err option) dbp" where
  "ExerciseContract E B caller routing i = bnd (GetOptionContract routing i) (\<lambda>r. case r of
       None \<Rightarrow> fail ErrInterbankNotFound
     | Some c \<Rightarrow>
         if ic_BuyerRouting c \<noteq> ourRoutingNumber B then fail (Errorf ''buyer is not at this bank'')
         else if ic_BuyerID c \<noteq> FormatInt caller then fail (Errorf ''only the buyer may exercise'')
         else if ic_Status c \<noteq> CsActive then fail (Errorf ''option is not ACTIVE'')
         else bnd (gets now_utc) (\<lambda>now.
           if \<not> ic_SettlementDate c > now then fail (Errorf ''settlementDate has passed'')
           else bnd (NewLocalKey B) (\<lambda>k.
             bnd (InitiateInterbankTransaction E B (exercise_transaction B c k) (Some caller)) (\<lambda>(ibTx, e).
               if e \<noteq> None then ret (ibTx, e)
               else if it_Status ibTx = TxCommitted
               then bnd (attempt (UpdateOptionContractStatus routing i CsExercised)) (\<lambda>u.
                 ret (ibTx, case u of Inl _ \<Rightarrow> Some (Errorf ''status not recorded'') | Inr _ \<Rightarrow> None))
               else ret (ibTx, None)))))"

section \<open>Expiry\<close>

definition expire_contract :: "bank \<Rightarrow> InterbankOptionContract \<Rightarrow> unit dbp" where
  "expire_contract B c =
     bnd (if ic_SellerRouting c = ourRoutingNumber B then
            (case ParseInt (ic_SellerID c) of
               None \<Rightarrow> ret (Inr ())
             | Some uid \<Rightarrow> attempt (ReleaseShares uid (ic_StockTicker c) (ic_Amount c)))
          else ret (Inr ())) (\<lambda>released. case released of
       Inl _ \<Rightarrow> ret ()
     | Inr _ \<Rightarrow> ignore (UpdateOptionContractStatus (ic_Routing c) (ic_ForeignID c) CsExpired))"

definition ExpireDue :: "bank \<Rightarrow> int \<Rightarrow> nat dbp" where
  "ExpireDue B now = bnd (ListExpiredActiveContracts now) (\<lambda>contracts.
     bnd (foreach contracts (expire_contract B)) (\<lambda>_. ret (length contracts)))"

section \<open>A sample\<close>

definition sample_offer :: "ForeignBankId \<Rightarrow> OtcOffer" where
  "sample_offer who = \<lparr>of_Stock = ''AAPL'', of_SettlementDate = ''2030-01-01T00:00:00Z'',
     of_PricePerUnit = \<lparr>mv_currency = ''EUR'', mv_amount = 2\<rparr>, of_Premium = \<lparr>mv_currency = ''EUR'', mv_amount = 5 / 2\<rparr>,
     of_BuyerID = \<lparr>fb_routingNumber = 111, fb_id = ''5''\<rparr>, of_SellerID = \<lparr>fb_routingNumber = 333, fb_id = ''7''\<rparr>,
     of_Amount = 6, of_LastModifiedBy = who\<rparr>"

definition sample_buyer :: ForeignBankId where
  "sample_buyer = \<lparr>fb_routingNumber = 111, fb_id = ''5''\<rparr>"

definition sample_seller :: ForeignBankId where
  "sample_seller = \<lparr>fb_routingNumber = 333, fb_id = ''7''\<rparr>"

lemma sample_date: "parseRFC3339 ''2030-01-01T00:00:00Z'' = Some 1893456000000000000"
  "formatRFC3339 0 1893456000000000000 = ''2030-01-01T00:00:00Z''"
  by code_simp+

lemma sample_round [simp]: "pg_round 6 2 = 2"
  by code_simp

definition sample_negotiation :: InterbankNegotiation where
  "sample_negotiation = new_negotiation \<lparr>fb_routingNumber = 333, fb_id = ''n1''\<rparr> (sample_offer sample_buyer) 1893456000000000000"

definition sample_otc :: db where
  "sample_otc = sample_ib\<lparr>listings := listings sample_offers, public_shares := public_shares sample_offers,
     public_shares_seq := 4, ib_negotiations := [sample_negotiation]\<rparr>"

lemmas sample_otc_defs = sample_otc_def sample_negotiation_def new_negotiation_def sample_offer_def sample_buyer_def
  sample_seller_def sample_offers_def

end
