(* ===== verification/Interbank_Negotiation.thy ===== *)
theory Interbank_Negotiation
  imports Interbank_OTC Interbank_Idempotence
begin

text \<open>
  Properties of the negotiations: the protocol every sequence of requests follows (turns alternate, a closed
  negotiation stays closed), the round trip from an offer to its view, and the balance of the transactions
  that accepting and exercising build.
\<close>

section \<open>Requests\<close>

datatype otc_op = Create OtcOffer | Counter int string OtcOffer | Cancel int string | Accept int string
  | Exercise int int string | Expire int

fun otc_run :: "env \<Rightarrow> bank \<Rightarrow> otc_op \<Rightarrow> unit dbp" where
  "otc_run E B (Create offer) = ignore (CreateNegotiation E B offer)"
| "otc_run E B (Counter routing i offer) = ignore (CounterNegotiation E routing i offer)"
| "otc_run E B (Cancel routing i) = ignore (CancelNegotiation E routing i)"
| "otc_run E B (Accept routing i) = ignore (AcceptNegotiation E B routing i)"
| "otc_run E B (Exercise caller routing i) = ignore (ExerciseContract E B caller routing i)"
| "otc_run E B (Expire now) = ignore (ExpireDue B now)"

section \<open>What the requests leave alone\<close>

lemma outside_more [simp]: "outside ib_negotiations" "outside listings" "outside now_utc"
  by (simp_all add: outside_def)

lemma keeps_InitiateInterbankTransaction:
  assumes u: "unsettled f" and o: "outside f"
  shows "keeps f (InitiateInterbankTransaction E B tx i)"
proof -
  note k = keeps_outside [OF o] keeps_executor [OF u outsideD(6) [OF o]]
  have "keeps f (conclude_transaction E B tx x b)" for x b
    unfolding conclude_transaction_def undo_transaction_def by (cases b) (simp_all add: keeps_bnd keeps_ignore keeps_attempt keeps_ret keeps_case_sum k)
  then show ?thesis
    unfolding InitiateInterbankTransaction_def run_transaction_def by (intro keeps_intros k)
qed

lemma keeps_shares: "unsettled f \<Longrightarrow> keeps f (BlockShares u t a)" "unsettled f \<Longrightarrow> keeps f (ReleaseShares u t a)"
  unfolding BlockShares_def ReleaseShares_def
  by (intro keeps_unsettled_tx keeps_unsettled keeps_intros; simp add: unsettledD)+

lemma keeps_collect_premium: "unsettled f \<Longrightarrow> outside f \<Longrightarrow> keeps f (collect_premium E B n u)"
  unfolding collect_premium_def buildAcceptTransaction_def
  by (intro keeps_intros keeps_InitiateInterbankTransaction keeps_outside)

lemma keeps_negotiations:
  "keeps ib_negotiations (ExerciseContract E B caller routing i)" "keeps ib_negotiations (ExpireDue B now)"
  unfolding ExerciseContract_def ExpireDue_def expire_contract_def
  by (intro keeps_intros keeps_repo_writes keeps_InitiateInterbankTransaction keeps_outside keeps_shares; simp)+

section \<open>The protocol\<close>

definition last_by :: "InterbankNegotiation \<Rightarrow> int \<times> string" where
  "last_by n = (ng_LastModifiedRouting n, ng_LastModifiedID n)"

definition parties :: "InterbankNegotiation \<Rightarrow> (int \<times> string) \<times> int \<times> string" where
  "parties n = ((ng_BuyerRouting n, ng_BuyerID n), ng_SellerRouting n, ng_SellerID n)"

text \<open>The moves of one negotiation: the party that did not make the last offer makes the next one while the
  negotiation is open; a negotiation may be accepted while it is ongoing; it may be cancelled.\<close>

inductive negotiates :: "InterbankNegotiation \<Rightarrow> InterbankNegotiation \<Rightarrow> bool" where
  offer: "ng_IsOngoing n \<Longrightarrow> ng_Status n = NsOpen \<Longrightarrow> last_by n' \<noteq> last_by n \<Longrightarrow> parties n' = parties n \<Longrightarrow>
    ng_IsOngoing n' \<Longrightarrow> ng_Status n' = NsOpen \<Longrightarrow> negotiates n n'"
| accept: "ng_IsOngoing n \<Longrightarrow> last_by n' = last_by n \<Longrightarrow> parties n' = parties n \<Longrightarrow>
    \<not> ng_IsOngoing n' \<Longrightarrow> ng_Status n' = NsAccepted \<Longrightarrow> negotiates n n'"
| cancel: "last_by n' = last_by n \<Longrightarrow> parties n' = parties n \<Longrightarrow>
    \<not> ng_IsOngoing n' \<Longrightarrow> ng_Status n' = NsCancelled \<Longrightarrow> negotiates n n'"

definition evolved :: "db \<Rightarrow> db \<Rightarrow> bool" where
  "evolved s t \<longleftrightarrow> (\<forall>routing i n. negotiation_of routing i s = Some n \<longrightarrow>
     (\<exists>n'. negotiation_of routing i t = Some n' \<and> (n' = n \<or> negotiates n n')))"

abbreviation same_negotiations :: "db \<Rightarrow> db \<Rightarrow> bool" where
  "same_negotiations s t \<equiv> ib_negotiations t = ib_negotiations s"

lemma negotiation_of_cong: "same_negotiations s t \<Longrightarrow> negotiation_of routing i t = negotiation_of routing i s"
  by (simp add: negotiation_of_def)

lemma evolved_same: "same_negotiations s t \<Longrightarrow> evolved s t"
  by (simp add: evolved_def negotiation_of_def)

lemma hoare_same:
  assumes "keeps ib_negotiations m" and "\<And>a. hoare (same_negotiations s) (g a) (\<lambda>_. evolved s) (evolved s)"
  shows "hoare (same_negotiations s) (bnd m g) (\<lambda>_. evolved s) (evolved s)"
proof (rule hoare_bnd [OF _ assms(2)])
  show "hoare (same_negotiations s) m (\<lambda>_. same_negotiations s) (evolved s)"
    using hoare_of_keeps [OF assms(1), of "same_negotiations s"] by (rule hoare_weaken) (auto intro: evolved_same)
qed

lemma hoare_done: "keeps ib_negotiations m \<Longrightarrow> hoare (same_negotiations s) m (\<lambda>_. evolved s) (evolved s)"
  by (rule hoareI) (metis evolved_same keepsD)+

lemma negotiation_of_key: "negotiation_of routing i s = Some n \<Longrightarrow> ng_Routing n = routing \<and> ng_ForeignID n = i"
  by (auto simp: negotiation_of_def find_Some_iff)

lemma find_updated:
  "(\<And>x. Q x \<Longrightarrow> P (f x) = P x) \<Longrightarrow> List.find P (upd_where Q f xs) =
     map_option (\<lambda>x. if Q x then f x else x) (List.find P xs)"
  by (induction xs) (auto simp: upd_where_def)

lemma UpdateNegotiation_run:
  assumes "UpdateNegotiation E m s = (r, s')"
  shows "negotiation_of routing i s' = (if routing = ng_Routing m \<and> i = ng_ForeignID m \<and> r = Inr ()
    then map_option (\<lambda>_. store_negotiation E (now_utc s) m) (negotiation_of routing i s) else negotiation_of routing i s)"
proof (cases r)
  case (Inl e)
  with assms show ?thesis by (auto simp: UpdateNegotiation_def stmt_root_def negotiation_of_def split: if_splits)
next
  case (Inr u)
  let ?Q = "\<lambda>x. ng_Routing x = ng_Routing m \<and> ng_ForeignID x = ng_ForeignID m"
  let ?f = "\<lambda>_. store_negotiation E (now_utc s) m"
  have "ib_negotiations s' = upd_where ?Q ?f (ib_negotiations s)" using assms Inr
    by (auto simp: UpdateNegotiation_def stmt_root_def split: if_splits)
  moreover have "List.find (\<lambda>x. ng_Routing x = routing \<and> ng_ForeignID x = i) (upd_where ?Q ?f xs) =
      map_option (\<lambda>x. if ?Q x then ?f x else x) (List.find (\<lambda>x. ng_Routing x = routing \<and> ng_ForeignID x = i) xs)" for xs
    by (rule find_updated) (simp add: store_negotiation_def)
  ultimately have "negotiation_of routing i s' = map_option (\<lambda>x. if ?Q x then ?f x else x) (negotiation_of routing i s)"
    by (simp add: negotiation_of_def)
  then show ?thesis using Inr by (cases "negotiation_of routing i s") (auto dest: negotiation_of_key)
qed

lemma hoare_update:
  assumes "negotiation_of (ng_Routing m) (ng_ForeignID m) s = Some n" and "\<And>now. negotiates n (store_negotiation E now m)"
  shows "hoare (same_negotiations s) (UpdateNegotiation E m) (\<lambda>_. evolved s) (evolved s)"
proof -
  have "evolved s t'" if "same_negotiations s t" "UpdateNegotiation E m t = (r, t')" for t r t'
    unfolding evolved_def UpdateNegotiation_run [OF that(2)] negotiation_of_cong [OF that(1)] using assms by auto
  then show ?thesis by (intro hoareI) blast+
qed

lemma GetNegotiation_cases:
  assumes "\<And>n. negotiation_of routing i s = Some n \<Longrightarrow> hoare (same_negotiations s) (g (Some n)) (\<lambda>_. evolved s) (evolved s)"
    and "hoare (same_negotiations s) (g None) (\<lambda>_. evolved s) (evolved s)"
  shows "hoare (same_negotiations s) (bnd (GetNegotiationByID routing i) g) (\<lambda>_. evolved s) (evolved s)"
proof (rule hoare_bnd [where Q' = "\<lambda>r t. r = negotiation_of routing i s \<and> same_negotiations s t"])
  show "hoare (same_negotiations s) (GetNegotiationByID routing i) (\<lambda>r t. r = negotiation_of routing i s \<and> same_negotiations s t) (evolved s)"
  proof (rule hoareI)
    have k: "keeps ib_negotiations (GetNegotiationByID routing i)" by (intro keeps_intros) simp
    show "r = negotiation_of routing i s \<and> same_negotiations s t'"
      if "same_negotiations s t" "GetNegotiationByID routing i t = (Inr r, t')" for t r t'
      using that(1) root_query_InrD [OF that(2) [unfolded GetNegotiationByID_def]] by (simp add: negotiation_of_def)
    show "evolved s t'" if "same_negotiations s t" "GetNegotiationByID routing i t = (Inl e, t')" for t e t'
      using evolved_same keepsD [OF k that(2)] that(1) by simp
  qed
  show "hoare (\<lambda>t. r = negotiation_of routing i s \<and> same_negotiations s t) (g r) (\<lambda>_. evolved s) (evolved s)" for r
  proof (cases "r = negotiation_of routing i s")
    case True
    then have "hoare (same_negotiations s) (g r) (\<lambda>_. evolved s) (evolved s)" using assms by (cases "negotiation_of routing i s") auto
    then show ?thesis by (rule hoare_weaken) auto
  qed (simp add: hoare_def)
qed

lemma stored_moves:
  "last_by (store_negotiation E now n) = last_by n" "parties (store_negotiation E now n) = parties n"
  "ng_IsOngoing (store_negotiation E now n) = ng_IsOngoing n" "ng_Status (store_negotiation E now n) = ng_Status n"
  "last_by (counter_offer offer t n) = (fb_routingNumber (of_LastModifiedBy offer), fb_id (of_LastModifiedBy offer))"
  "parties (counter_offer offer t n) = parties n" "ng_IsOngoing (counter_offer offer t n) = ng_IsOngoing n"
  "ng_Status (counter_offer offer t n) = ng_Status n" "ng_Routing (counter_offer offer t n) = ng_Routing n"
  "ng_ForeignID (counter_offer offer t n) = ng_ForeignID n"
  "last_by (n\<lparr>ng_IsOngoing := b, ng_Status := st\<rparr>) = last_by n" "parties (n\<lparr>ng_IsOngoing := b, ng_Status := st\<rparr>) = parties n"
  by (simp_all add: last_by_def parties_def store_negotiation_def counter_offer_def)

lemma evolves_Counter: "hoare (same_negotiations s) (CounterNegotiation E routing i offer) (\<lambda>_. evolved s) (evolved s)"
  unfolding CounterNegotiation_def
proof (rule GetNegotiation_cases)
  fix n
  assume n: "negotiation_of routing i s = Some n"
  have "hoare (same_negotiations s) (UpdateNegotiation E (counter_offer offer t n)) (\<lambda>_. evolved s) (evolved s)"
    if "ng_IsOngoing n" "ng_Status n = NsOpen" "last_by n \<noteq> (fb_routingNumber (of_LastModifiedBy offer), fb_id (of_LastModifiedBy offer))" for t
    by (rule hoare_update [where n = n]) (use that n negotiation_of_key [OF n] in \<open>auto simp: stored_moves intro!: offer\<close>)
  then show "hoare (same_negotiations s) (case Some n of None \<Rightarrow> fail ErrInterbankNotFound | Some n \<Rightarrow>
         if \<not> ng_IsOngoing n \<or> ng_Status n \<noteq> NsOpen then fail ErrInterbankConflict
         else if ng_LastModifiedRouting n = fb_routingNumber (of_LastModifiedBy offer) \<and>
                 ng_LastModifiedID n = fb_id (of_LastModifiedBy offer) then fail ErrInterbankConflict
         else case parseRFC3339 (of_SettlementDate offer) of
           None \<Rightarrow> fail (Errorf ''invalid settlementDate'')
         | Some settlement \<Rightarrow> UpdateNegotiation E (counter_offer offer settlement n)) (\<lambda>_. evolved s) (evolved s)"
    by (auto simp: last_by_def hoare_done keeps_fail split: option.split)
qed (simp add: hoare_done keeps_fail)

lemma evolves_Cancel: "hoare (same_negotiations s) (CancelNegotiation E routing i) (\<lambda>_. evolved s) (evolved s)"
  unfolding CancelNegotiation_def
proof (rule GetNegotiation_cases)
  fix n
  assume n: "negotiation_of routing i s = Some n"
  show "hoare (same_negotiations s) (case Some n of None \<Rightarrow> fail ErrInterbankNotFound
     | Some n \<Rightarrow> UpdateNegotiation E (n\<lparr>ng_IsOngoing := False, ng_Status := NsCancelled\<rparr>)) (\<lambda>_. evolved s) (evolved s)"
    unfolding option.case
    by (rule hoare_update [where n = n]) (use n negotiation_of_key [OF n] in \<open>auto simp: stored_moves intro!: cancel\<close>)
qed (simp add: hoare_done keeps_fail)

lemma evolves_Accept: "hoare (same_negotiations s) (AcceptNegotiation E B routing i) (\<lambda>_. evolved s) (evolved s)"
  unfolding AcceptNegotiation_def
proof (rule GetNegotiation_cases)
  fix n
  assume n: "negotiation_of routing i s = Some n"
  have close: "hoare (same_negotiations s) (close_accepted E n) (\<lambda>_. evolved s) (evolved s)" if "ng_IsOngoing n"
    unfolding close_accepted_def
    by (rule hoare_update [where n = n]) (use that n negotiation_of_key [OF n] in \<open>auto simp: stored_moves intro!: accept\<close>)
  have fin: "hoare (same_negotiations s) (bnd (CreateOptionContract E c) (\<lambda>_. close_accepted E n)) (\<lambda>_. evolved s) (evolved s)"
    if "ng_IsOngoing n" for c by (rule hoare_same [OF _ close [OF that]]) (intro keeps_repo_writes; simp)
  have sell: "hoare (same_negotiations s) (bnd (BlockShares u t a) (\<lambda>_. bnd (collect_premium E B n u) (\<lambda>committed.
      if \<not> committed then bnd (ReleaseShares u t a) (\<lambda>_. fail e) else bnd (CreateOptionContract E c) (\<lambda>_. close_accepted E n))))
      (\<lambda>_. evolved s) (evolved s)" if "ng_IsOngoing n" for u t a e c
    by (rule hoare_same [OF keeps_shares(1)], simp, rule hoare_same [OF keeps_collect_premium], simp, simp, rule hoare_if,
      rule hoare_done, intro keeps_intros keeps_shares, simp, rule fin [OF that])
  show "hoare (same_negotiations s) (case Some n of None \<Rightarrow> fail ErrInterbankNotFound | Some n \<Rightarrow>
         if ng_Status n = NsAccepted then ret ()
         else if \<not> ng_IsOngoing n then fail ErrInterbankConflict
         else if ng_SellerRouting n \<noteq> ourRoutingNumber B then finalizeAccept E n
         else accept_as_seller E B n)
      (\<lambda>_. evolved s) (evolved s)"
    by (simp add: finalizeAccept_def accept_as_seller_def hoare_done keeps_ret keeps_fail fin sell split: option.split)
qed (simp add: hoare_done keeps_fail)

lemma find_append: "List.find P (xs @ ys) = (case List.find P xs of None \<Rightarrow> List.find P ys | Some x \<Rightarrow> Some x)"
  by (induction xs) auto

lemma evolves_Create: "hoare (same_negotiations s) (CreateNegotiation E B offer) (\<lambda>_. evolved s) (evolved s)"
proof -
  have app: "evolved s t'" if "same_negotiations s t" "repo_CreateNegotiation E m t = (r, t')" for m t r t'
    using that by (auto simp: repo_CreateNegotiation_def stmt_root_def evolved_def negotiation_of_def find_append split: if_splits)
  have ins: "hoare (same_negotiations s) (repo_CreateNegotiation E m) (\<lambda>_. evolved s) (evolved s)" for m
    by (intro hoareI) (blast intro: app)+
  have "hoare (same_negotiations s) (bnd (repo_CreateNegotiation E m) (\<lambda>_. ret i)) (\<lambda>_. evolved s) (evolved s)" for m i
    by (rule hoare_bnd [OF ins]) (rule hoare_ret)
  then show ?thesis
    unfolding CreateNegotiation_def Let_def
    by (auto simp: hoare_done keeps_fail intro!: hoare_same [OF keeps_outside(1)] split: option.split)
qed

lemma evolves_op:
  assumes "otc_run E B op s = (r, s')"
  shows "evolved s s'"
proof -
  have ig: "hoare (same_negotiations s) (ignore m) (\<lambda>_. evolved s) (evolved s)"
    if "hoare (same_negotiations s) m (\<lambda>_. evolved s) (evolved s)" for m :: "'x dbp" using that by (rule hoare_ignore)
  have "hoare (same_negotiations s) (otc_run E B op) (\<lambda>_. evolved s) (evolved s)"
    by (cases op) (simp_all add: ig evolves_Create evolves_Counter evolves_Cancel evolves_Accept hoare_done keeps_negotiations)
  with assms show ?thesis by (cases r) (auto dest: hoareD)
qed

lemma evolves_runs:
  assumes "foreach ops (otc_run E B) s = (r, s')" and "negotiation_of routing i s = Some n"
  shows "\<exists>n'. negotiation_of routing i s' = Some n' \<and> negotiates\<^sup>*\<^sup>* n n'"
  using assms
proof (induction ops arbitrary: s n)
  case Nil
  then show ?case by auto
next
  case (Cons op ops)
  obtain r1 s1 where run: "otc_run E B op s = (r1, s1)" by force
  from evolves_op [OF run] Cons.prems(2) obtain n1 where n1: "negotiation_of routing i s1 = Some n1" "n1 = n \<or> negotiates n n1"
    unfolding evolved_def by blast
  have "r1 = Inr ()" using run by (cases op) (auto simp: ignore_def split: prod.splits)
  with run Cons.prems(1) have "foreach ops (otc_run E B) s1 = (r, s')" by (simp add: bnd_def)
  from Cons.IH [OF this n1(1)] n1(2) show ?case by (auto intro: converse_rtranclp_into_rtranclp)
qed

lemma negotiates_closed:
  assumes "negotiates\<^sup>*\<^sup>* n n'" and "\<not> ng_IsOngoing n"
  shows "\<not> ng_IsOngoing n' \<and> last_by n' = last_by n \<and> (n' = n \<or> ng_Status n' = NsCancelled)"
  using assms by (induction rule: rtranclp_induct) (auto elim: negotiates.cases)

lemma negotiates_parties: "negotiates\<^sup>*\<^sup>* n n' \<Longrightarrow> parties n' = parties n"
  by (induction rule: rtranclp_induct) (auto elim: negotiates.cases)


lemma sample_counter:
  "\<exists>n' s'. otc_run sample_env sample_bank (Counter 333 ''n1'' (sample_offer sample_seller)) sample_otc = (Inr (), s') \<and>
     negotiation_of 333 ''n1'' s' = Some n' \<and> last_by n' = (333, ''7'')"
  by (simp add: ignore_def CounterNegotiation_def GetNegotiationByID_def negotiation_of_def UpdateNegotiation_def counter_offer_def
      negotiation_fits_def terms_fit_def store_negotiation_def last_by_def sample_date executor_eval sample_state sample_otc_defs
      sample_env_def exact_env_def)


section \<open>An offer and its view\<close>

text \<open>A date that Go prints and reads back: a whole second of the years 0 to 9999 in the server's location,
  whose offset is a whole number of minutes.\<close>

definition printable :: "(int \<Rightarrow> int) \<Rightarrow> int \<Rightarrow> bool" where
  "printable loc t \<longleftrightarrow> t mod 10 ^ 9 = 0 \<and> loc t mod 60 = 0 \<and> \<bar>loc t\<bar> < 86400 \<and>
     (case civil ((t div 10 ^ 9 + loc t) div 86400) of (y, m, d) \<Rightarrow> 0 \<le> y \<and> y < 10000)"

lemma printable_parse: "printable loc t \<Longrightarrow> parseRFC3339 (formatRFC3339 (loc t) t) = Some t"
  using parse_format by (auto simp: printable_def split: prod.splits)

lemma printable_micros: "printable loc t \<Longrightarrow> t mod 1000 = 0"
  using mod_0_trans [of 1000 "10 ^ 9" t] by (simp add: printable_def)

lemma CreateNegotiation_InrD:
  assumes "CreateNegotiation E B offer s = (Inr i, s')"
  shows "\<exists>t. parseRFC3339 (of_SettlementDate offer) = Some t \<and>
    negotiation_of (fb_routingNumber i) (fb_id i) s' = Some (store_negotiation E (now_utc s') (new_negotiation i offer t))"
proof -
  from assms obtain t s1 where t: "parseRFC3339 (of_SettlementDate offer) = Some t"
    and c: "repo_CreateNegotiation E (new_negotiation i offer t) s1 = (Inr (), s')"
    unfolding CreateNegotiation_def Let_def by (auto elim!: bnd_InrE split: if_splits option.splits)
  from c have "negotiation_of (fb_routingNumber i) (fb_id i) s1 = None"
    and n: "ib_negotiations s' = ib_negotiations s1 @ [store_negotiation E (now_utc s1) (new_negotiation i offer t)]" "now_utc s' = now_utc s1"
    by (auto simp: repo_CreateNegotiation_def stmt_root_def new_negotiation_def negotiation_of_def split: if_splits)
  then have "negotiation_of (fb_routingNumber i) (fb_id i) s' = Some (store_negotiation E (now_utc s') (new_negotiation i offer t))"
    by (simp add: negotiation_of_def find_append store_negotiation_def new_negotiation_def)
  with t show ?thesis by blast
qed

text \<open>A negotiation that was created can be read back: the view has exactly the offered terms, the same
  parties and the same author, it is ongoing, and its settlement date denotes the instant the offer named.
  Amounts are in cents and the date is one Go can print.\<close>

theorem create_then_get:
  assumes "numerics E" and "CreateNegotiation E B offer s = (Inr i, s1)"
    and "GetNegotiation loc (fb_routingNumber i) (fb_id i) s1 = (Inr v, s2)"
    and "cents (mv_amount (of_PricePerUnit offer))" and "cents (mv_amount (of_Premium offer))"
    and "parseRFC3339 (of_SettlementDate offer) = Some t" and "printable loc t"
  shows "OtcOffer.truncate v = offer\<lparr>of_SettlementDate := of_SettlementDate v\<rparr> \<and> on_IsOngoing v \<and>
    parseRFC3339 (of_SettlementDate v) = Some t"
proof -
  note st = numerics.storeTime_micros [OF assms(1) printable_micros [OF assms(7)]] and r6 = numerics.round6_cents [OF assms(1)]
  from CreateNegotiation_InrD [OF assms(2)] assms(6)
  have "negotiation_of (fb_routingNumber i) (fb_id i) s1 = Some (store_negotiation E (now_utc s1) (new_negotiation i offer t))" by auto
  with assms(3) have v: "v = negotiation_view loc (store_negotiation E (now_utc s1) (new_negotiation i offer t))"
    unfolding GetNegotiation_def GetNegotiationByID_def
    by (auto elim!: bnd_InrE dest!: root_query_InrD simp: negotiation_of_def split: option.splits)
  then have "of_SettlementDate v = formatRFC3339 (loc t) t"
    by (simp add: negotiation_view_def store_negotiation_def new_negotiation_def st)
  moreover have "OtcOffer.truncate v = offer\<lparr>of_SettlementDate := of_SettlementDate v\<rparr>" "on_IsOngoing v"
    using v assms(4,5) by (simp_all add: OtcOffer.truncate_def negotiation_view_def store_negotiation_def new_negotiation_def r6)
  ultimately show ?thesis using printable_parse [OF assms(7)] by simp
qed

lemma sample_create:
  "\<exists>s1 s2 v. CreateNegotiation sample_env sample_bank (sample_offer sample_buyer) sample_ib = (Inr \<lparr>fb_routingNumber = 333, fb_id = ''k''\<rparr>, s1) \<and>
     GetNegotiation (\<lambda>_. 0) 333 ''k'' s1 = (Inr v, s2)"
  by (simp add: CreateNegotiation_def NewLocalKey_def repo_CreateNegotiation_def GetNegotiation_def GetNegotiationByID_def negotiation_of_def
      negotiation_fits_def terms_fit_def store_negotiation_def sample_date executor_eval sample_state sample_otc_defs
      sample_env_def exact_env_def)

theorem create_then_get_witness:
  "\<exists>s1 s2 v. CreateNegotiation sample_env sample_bank (sample_offer sample_buyer) sample_ib = (Inr \<lparr>fb_routingNumber = 333, fb_id = ''k''\<rparr>, s1) \<and>
     GetNegotiation (\<lambda>_. 0) 333 ''k'' s1 = (Inr v, s2) \<and> of_Stock v = ''AAPL'' \<and> of_Amount v = 6 \<and> on_IsOngoing v"
proof -
  from sample_create obtain s1 s2 v where
    run: "CreateNegotiation sample_env sample_bank (sample_offer sample_buyer) sample_ib = (Inr \<lparr>fb_routingNumber = 333, fb_id = ''k''\<rparr>, s1)"
    "GetNegotiation (\<lambda>_. 0) 333 ''k'' s1 = (Inr v, s2)" by blast
  have "printable (\<lambda>_. 0) 1893456000000000000" unfolding printable_def by code_simp
  with create_then_get [OF sample_numerics run(1), of "\<lambda>_. 0" v s2 1893456000000000000] run(2)
  have "OtcOffer.truncate v = (sample_offer sample_buyer)\<lparr>of_SettlementDate := of_SettlementDate v\<rparr>" "on_IsOngoing v"
    by (simp_all add: sample_offer_def sample_date cents_def)
  with run show ?thesis by (auto simp: OtcOffer.truncate_def sample_offer_def)
qed

section \<open>Balanced transactions\<close>

text \<open>The transactions of the option protocol are balanced: per asset, the postings that accepting an offer
  and exercising a contract send to the banks sum to zero, so no executor refuses them as \<open>UNBALANCED_TX\<close>
  and neither money nor shares are created.\<close>

theorem option_transactions_balanced:
  "isBalanced (accept_postings B n) \<and> isBalanced (exercise_postings c)"
  by (simp add: isBalanced_def posting_sums_def accept_postings_def exercise_postings_def id_posting_def monas_def stock_asset_def
      assetKey_def Let_def)

end
