(* ===== verification/Interbank_Options.thy ===== *)
theory Interbank_Options
  imports Interbank_Negotiation
begin

text \<open>
  The shares behind an option: accepting an offer moves them from the seller's published shares into escrow,
  expiry moves them back, and in between nobody gains or loses one; a contract is exercised at most once.
\<close>

section \<open>The premium moves money only\<close>

text \<open>A posting, and a reservation row, that neither delivers shares nor uses a contract up.\<close>

definition posting_plain :: "Posting \<Rightarrow> bool" where
  "posting_plain p \<longleftrightarrow> as_type (p_asset p) \<noteq> STOCK \<and> (ta_type (p_account p) = OPTION_ACC \<longrightarrow> as_type (p_asset p) = OPTION)"

definition row_plain :: "InterbankReservation \<Rightarrow> bool" where
  "row_plain x \<longleftrightarrow> rv_AssetType x \<noteq> STOCK \<and> (rv_AccountKind x = OPTION_ACC \<longrightarrow> rv_AssetType x = OPTION)"

definition shelf :: "db \<Rightarrow> public_share list \<times> InterbankOptionContract list" where
  "shelf s = (public_shares s, ib_contracts s)"

definition untouched :: "public_share list \<times> InterbankOptionContract list \<Rightarrow> int \<Rightarrow> db \<Rightarrow> bool" where
  "untouched v i s \<longleftrightarrow> shelf s = v \<and> list_all (\<lambda>x. rv_TxID x = i \<longrightarrow> row_plain x) (ib_reservations s)"

lemma outside_shelf [simp]: "outside shelf" "outside (\<lambda>s. (shelf s, ib_reservations s))"
  by (simp_all add: outside_def clock_free_def shelf_def)

lemma clock_free_shelf [simp]: "clock_free shelf" "clock_free (untouched v i)"
  by (simp_all add: clock_free_def shelf_def untouched_def)

lemma keeps_shelf [keeps_intros]:
  "keeps shelf (update_racun E P g)" "keeps shelf (insert_transakcije E ts)" "keeps shelf (CreateReservation E x)"
  "keeps shelf (UpdateTransactionStatus j st step)"
  by (intro keeps_update_racun keeps_insert_transakcije keeps_repo_writes; simp add: shelf_def)+

lemma untouched_of_keeps:
  assumes "keeps shelf m" and "keeps ib_reservations m"
  shows "preserves (untouched v i) m"
  using assms by (auto simp: preserves_def keeps_def untouched_def)

lemma untouched_outside: "preserves (untouched v i) (announce B t txi)" "preserves (untouched v i) (request_vote B tx)"
  "preserves (untouched v i) (mark x st step)"
  by (intro untouched_of_keeps keeps_outside; simp)+

lemma untouched_Create: "row_plain x \<Longrightarrow> preserves (untouched v i) (CreateReservation E x)"
  by (auto simp: preserves_def untouched_def shelf_def row_plain_def CreateReservation_def stmt_root_def split: if_splits)

lemma untouched_update: "preserves (untouched v i) (update_racun E P g)"
  by (rule untouched_of_keeps) (intro keeps_intros keeps_update_racun; simp)+

lemma row_plain_updates [simp]: "row_plain (x\<lparr>rv_Reserved := b\<rparr>) = row_plain x" "row_plain (x\<lparr>rv_AccountNum := n\<rparr>) = row_plain x"
  "row_plain (x\<lparr>rv_Amount := a\<rparr>) = row_plain x"
  by (simp_all add: row_plain_def)

lemma untouched_reservePosting:
  assumes "posting_plain p"
  shows "preserves (untouched v i) (reservePosting E j k p)"
proof -
  have row: "row_plain (reservation_row j k p)" using assms by (simp add: row_plain_def posting_plain_def)
  have money: "preserves (untouched v i) (reserve_money E num x)" if "row_plain x" for num x
    unfolding reserve_money_def reserve_update_def using that
    by (intro preserves_intros untouched_update untouched_Create) simp_all
  have acc: "preserves (untouched v i) (resolvePersonAccount pid cur)" for pid cur
    by (rule untouched_of_keeps) (intro keeps_resolvePersonAccount; simp)+
  have "preserves (untouched v i) (reserve_person_money E pid cur x)" if "row_plain x" for pid cur x
    unfolding reserve_person_money_def using that by (intro preserves_intros acc money) simp
  with assms row money show ?thesis
    unfolding reservePosting_def Let_def posting_plain_def
    by (auto intro!: preserves_intros untouched_Create split: AccountKind.split option.split)
qed

lemma untouched_in_tx: "preserves (untouched v i) m \<Longrightarrow> preserves (untouched v i) (in_tx m)"
  by (erule preserves_in_tx) (auto simp: untouched_def shelf_def)

lemma untouched_Prepare:
  assumes "list_all posting_plain (tx_postings tx)"
  shows "preserves (untouched v i) (Prepare E B j tx)"
proof -
  have "preserves (untouched v i) (reserve_postings E B j k ps)" if "list_all posting_plain ps" for k ps
    using that by (induction ps arbitrary: k) (auto intro: preserves_intros untouched_reservePosting)
  moreover have "preserves (untouched v i) (validate_postings E B ps)" for ps
    by (rule untouched_of_keeps) (intro keeps_validate_postings; simp)+
  ultimately show ?thesis
    unfolding Prepare_def using assms by (intro preserves_intros untouched_in_tx)
qed

text \<open>Settling the rows of a transaction, all of them plain.\<close>

lemma keeps_foreach_in: "(\<And>x. x \<in> set xs \<Longrightarrow> keeps f (body x)) \<Longrightarrow> keeps f (foreach xs body)"
  by (induction xs) (auto intro: keeps_intros)

lemma keeps_reservations_executor:
  "keeps ib_reservations (commit_money E r)" "keeps ib_reservations (commit_strike E B r)"
  "keeps ib_reservations (rollback_money E r)" "keeps ib_reservations (writeTxRow E n x)"
  "keeps ib_reservations (UpdateTransactionStatus j st step)"
proof -
  show w: "keeps ib_reservations (writeTxRow E n x)" for n x
    unfolding writeTxRow_def by (intro keeps_intros keeps_insert_transakcije; simp)
  show "keeps ib_reservations (commit_money E r)" "keeps ib_reservations (commit_strike E B r)"
    "keeps ib_reservations (rollback_money E r)" "keeps ib_reservations (UpdateTransactionStatus j st step)"
    unfolding commit_money_def commit_strike_def rollback_money_def Let_def
    by (intro keeps_intros keeps_update_racun keeps_repo_writes w; simp)+
qed

lemma keeps_shelf_executor:
  "keeps shelf (commit_money E r)" "keeps shelf (commit_strike E B r)" "keeps shelf (rollback_money E r)"
proof -
  have w: "keeps shelf (writeTxRow E n x)" for n x unfolding writeTxRow_def by (intro keeps_intros) simp
  show "keeps shelf (commit_money E r)" "keeps shelf (commit_strike E B r)" "keeps shelf (rollback_money E r)"
    unfolding commit_money_def commit_strike_def rollback_money_def Let_def by (intro keeps_intros w; simp)+
qed

lemma plain_settles:
  assumes "row_plain r"
  shows "preserves (untouched v i) (bnd (commit_money E r) (\<lambda>_. bnd (commit_shares E r) (\<lambda>_. bnd (commit_strike E B r) (\<lambda>_. commit_option r))))"
    and "preserves (untouched v i) (if \<not> rv_Reserved r then ret () else bnd (rollback_money E r) (\<lambda>_. rollback_shares r))"
proof -
  have "commit_shares E r = ret ()" "commit_option r = ret ()" "rollback_shares r = ret ()"
    using assms by (auto simp: row_plain_def commit_shares_def commit_option_def rollback_shares_def)
  then show "preserves (untouched v i) (bnd (commit_money E r) (\<lambda>_. bnd (commit_shares E r) (\<lambda>_. bnd (commit_strike E B r) (\<lambda>_. commit_option r))))"
    "preserves (untouched v i) (if \<not> rv_Reserved r then ret () else bnd (rollback_money E r) (\<lambda>_. rollback_shares r))"
    by (auto intro!: preserves_intros untouched_of_keeps keeps_intros keeps_shelf_executor keeps_reservations_executor)
qed

lemma preserves_foreach_in: "(\<And>x. x \<in> set xs \<Longrightarrow> preserves P (body x)) \<Longrightarrow> preserves P (foreach xs body)"
  by (induction xs) (auto intro: preserves_intros)

lemma untouched_settle:
  assumes "\<And>r. row_plain r \<Longrightarrow> preserves (untouched v i) (body r)"
  shows "preserves (untouched v i) (bnd (ListReservationsByTx i) (\<lambda>resvs. in_tx (bnd (foreach resvs body)
    (\<lambda>_. UpdateTransactionStatus j st step))))"
proof (rule preserves_hoare, rule hoare_bnd)
  show "hoare (untouched v i) (ListReservationsByTx i) (\<lambda>xs s. untouched v i s \<and> list_all row_plain xs) (untouched v i)"
  proof (rule hoareI)
    have k: "preserves (untouched v i) (ListReservationsByTx i)" by (intro untouched_of_keeps keeps_intros) simp_all
    show "untouched v i s' \<and> list_all row_plain xs" if "untouched v i s" "ListReservationsByTx i s = (Inr xs, s')" for s xs s'
      using preservesD [OF k that] that(1) root_query_InrD [OF that(2) [unfolded ListReservationsByTx_def]]
      by (auto simp: reservations_of_def untouched_def list_all_iff)
    show "untouched v i s'" if "untouched v i s" "ListReservationsByTx i s = (Inl e, s')" for s e s'
      by (rule preservesD [OF k that])
  qed
  show "hoare (\<lambda>s. untouched v i s \<and> list_all row_plain xs) (in_tx (bnd (foreach xs body) (\<lambda>_. UpdateTransactionStatus j st step)))
      (\<lambda>_. untouched v i) (untouched v i)" for xs
  proof (cases "list_all row_plain xs")
    case True
    then have "preserves (untouched v i) (in_tx (bnd (foreach xs body) (\<lambda>_. UpdateTransactionStatus j st step)))"
      by (intro untouched_in_tx preserves_bnd preserves_foreach_in assms untouched_of_keeps keeps_intros keeps_reservations_executor)
        (simp_all add: list_all_iff)
    with True show ?thesis by (simp add: hoare_of_preserves)
  qed (simp add: hoare_def)
qed

lemma untouched_Commit: "preserves (untouched v i) (Commit E B i)" "preserves (untouched v i) (Rollback E i)"
  unfolding Commit_def Rollback_def by (rule untouched_settle, erule plain_settles)+

lemma untouched_run:
  assumes "list_all posting_plain (tx_postings tx)" and "it_ID x = i"
  shows "preserves (untouched v i) (run_transaction E B tx x)"
proof -
  note k = untouched_outside untouched_Commit untouched_Prepare [OF assms(1)]
  have "preserves (untouched v i) (conclude_transaction E B tx x b)" for b
    unfolding conclude_transaction_def undo_transaction_def assms(2)
    by (cases b) (simp_all add: preserves_bnd preserves_ignore preserves_attempt preserves_ret preserves_case_sum k)
  then show ?thesis
    unfolding run_transaction_def assms(2) by (intro preserves_intros k)
qed

definition at_start :: "db \<Rightarrow> db \<Rightarrow> bool" where
  "at_start s t \<longleftrightarrow> shelf t = shelf s \<and> ib_reservations t = ib_reservations s \<and> ib_tx_seq t = ib_tx_seq s"

lemma hoare_new_transaction:
  assumes "numbered s"
  shows "hoare (at_start s) (CreateTransaction y) (\<lambda>x. untouched (shelf s) (it_ID x)) (\<lambda>t. shelf t = shelf s)"
proof (rule hoareI)
  fix t x t'
  assume t: "at_start s t" and run: "CreateTransaction y t = (Inr x, t')"
  have "it_ID x = ib_tx_seq t" using CreateTransaction_InrD [OF run] by simp
  moreover have "shelf t' = shelf t" "ib_reservations t' = ib_reservations t"
    using keepsD [OF keeps_outside(8) [OF outside_shelf(1)] run] keepsD [OF keeps_outside(8) [OF outside_fields(3)] run] .
  ultimately show "untouched (shelf s) (it_ID x) t'" using t assms by (auto simp: untouched_def at_start_def numbered_def list_all_iff)
next
  fix t e t'
  assume "at_start s t" and run: "CreateTransaction y t = (Inl e, t')"
  then show "shelf t' = shelf s" using keepsD [OF keeps_outside(8) [OF outside_shelf(1)] run] by (simp add: at_start_def)
qed

lemma hoare_plain_transaction:
  assumes "numbered s" and "list_all posting_plain (tx_postings tx)"
  shows "hoare (at_start s) (InitiateInterbankTransaction E B tx u) (\<lambda>_ t. shelf t = shelf s) (\<lambda>t. shelf t = shelf s)"
proof (cases "MarshalTransaction (codec B) tx")
  case None
  then show ?thesis by (simp add: InitiateInterbankTransaction_def hoare_def at_start_def)
next
  case (Some payload)
  have "hoare (untouched (shelf s) (it_ID x)) (run_transaction E B tx x) (\<lambda>_ t. shelf t = shelf s) (\<lambda>t. shelf t = shelf s)" for x
    by (rule hoare_weaken [OF hoare_of_preserves [OF untouched_run [OF assms(2) refl]]]) (auto simp: untouched_def)
  with hoare_new_transaction [OF assms(1)] show ?thesis
    unfolding InitiateInterbankTransaction_def Some option.case by (rule hoare_bnd)
qed

lemma collect_premium_shelf:
  assumes "collect_premium E B n u s = (r, s')" and "numbered s"
  shows "shelf s' = shelf s"
proof -
  define tx where "tx = \<lparr>tx_postings = accept_postings B n,
    tx_transactionId = \<lparr>fb_routingNumber = ourRoutingNumber B, fb_id = newKey B (key_seq s)\<rparr>,
    tx_message = ''OTC accept '' @ ng_ForeignID n, tx_callNumber = None, tx_paymentCode = ''289'', tx_paymentPurpose = ''OTC_PREMIUM''\<rparr>"
  define s1 where "s1 = s\<lparr>key_seq := Suc (key_seq s)\<rparr>"
  have b: "buildAcceptTransaction B n s = (Inr tx, s1)"
    by (simp add: buildAcceptTransaction_def NewLocalKey_def bnd_def tx_def s1_def)
  obtain r2 s2 where run: "InitiateInterbankTransaction E B tx (Some u) s1 = (r2, s2)" by force
  have "list_all posting_plain (tx_postings tx)"
    by (simp add: tx_def accept_postings_def id_posting_def posting_plain_def monas_def Let_def)
  from hoareD [OF hoare_plain_transaction [OF assms(2) this, of E B "Some u"], of s1] run
  have "shelf s2 = shelf s" by (cases r2) (auto simp: at_start_def s1_def shelf_def)
  moreover have "s' = s2" using assms(1) b run by (auto simp: collect_premium_def bnd_def attempt_def split: sum.splits prod.splits)
  ultimately show ?thesis by simp
qed

section \<open>A connection that works keeps working\<close>

lemma healthy_stmt_root: "(\<And>s a s'. g s = Some (a, s') \<Longrightarrow> healthy s' = healthy s) \<Longrightarrow> preserves healthy (stmt_root g)"
  by (auto simp: preserves_def stmt_root_def split: option.split)

lemma healthy_in_tx: "keeps faults m \<Longrightarrow> preserves healthy (in_tx m)"
  unfolding preserves_def
proof (intro allI impI)
  fix s
  assume k: "keeps faults m" and s: "healthy s"
  obtain r s1 where m: "m (begin_tx s) = (r, s1)" by force
  from keepsD [OF k m] have "faults s1 = faults s" by simp
  with s m show "healthy (snd (in_tx m s))" by (auto simp: in_tx_def healthy_def split: sum.split)
qed

lemma healthy_modify: "(\<And>s. healthy (g s) = healthy s) \<Longrightarrow> preserves healthy (modify g)"
  by (simp add: preserves_def)

lemma healthy_root_query [preserves_intros]: "preserves healthy (root_query f)"
  unfolding root_query_def by (rule healthy_stmt_root) auto

lemma healthy_repo [preserves_intros]:
  "preserves healthy (CreateMessage m)" "preserves healthy (UpdateMessage m)" "preserves healthy (CreateTransaction t)"
  "preserves healthy (UpdateTransactionStatus i st step)" "preserves healthy (CreateOptionContract E c)"
  "preserves healthy (UpdateOptionContractStatus j k cs)" "preserves healthy (UpdateNegotiation E n)"
  unfolding CreateMessage_def UpdateMessage_def CreateTransaction_def UpdateTransactionStatus_def CreateOptionContract_def
    UpdateOptionContractStatus_def UpdateNegotiation_def
  by (rule healthy_stmt_root; auto simp: Let_def healthy_def split: if_splits)+

lemma preserves_Pair [preserves_intros]: "preserves P (Pair r)"
  by (simp add: preserves_def)

lemma preserves_case_kind [preserves_intros]:
  "preserves P a \<Longrightarrow> preserves P b \<Longrightarrow> preserves P c \<Longrightarrow> (\<And>k. preserves P (d k)) \<Longrightarrow>
   preserves P (case x of PERSON \<Rightarrow> a | ACCOUNT \<Rightarrow> b | OPTION_ACC \<Rightarrow> c | OtherKind k \<Rightarrow> d k)"
  by (cases x) simp_all

lemma preserves_case_asset [preserves_intros]:
  "preserves P a \<Longrightarrow> preserves P b \<Longrightarrow> preserves P c \<Longrightarrow> (\<And>k. preserves P (d k)) \<Longrightarrow>
   preserves P (case x of MONAS \<Rightarrow> a | STOCK \<Rightarrow> b | OPTION \<Rightarrow> c | OtherAsset k \<Rightarrow> d k)"
  by (cases x) simp_all

lemma preserves_case_bool [preserves_intros]:
  "preserves P a \<Longrightarrow> preserves P b \<Longrightarrow> preserves P (case x of True \<Rightarrow> a | False \<Rightarrow> b)"
  by (cases x) simp_all

lemma healthy_executor [preserves_intros]:
  "preserves healthy (Prepare E B i tx)" "preserves healthy (Commit E B i)" "preserves healthy (Rollback E i)"
  "preserves healthy (BlockShares u t a)"
proof -
  note k = keeps_unsettled [OF unsettled_fields(5)]
  have p: "preserves healthy (validatePosting E B p)" for p
    unfolding validatePosting_def resolvePersonAccount_def isActuary_def GetOptionContract_def Let_def by (intro preserves_intros)
  have "preserves healthy (validate_postings E B ps)" for ps
    by (induction ps) (auto intro!: preserves_intros p split: sum.split bool.split)
  moreover have "keeps faults (reserve_postings E B i n ps)" for n ps
    by (induction ps arbitrary: n) (simp_all add: keeps_ret keeps_bnd k)
  ultimately show "preserves healthy (Prepare E B i tx)"
    unfolding Prepare_def by (intro preserves_intros healthy_in_tx)
  have st: "keeps faults (UpdateTransactionStatus i st step)" for st step by (intro keeps_repo_writes) simp_all
  show "preserves healthy (Commit E B i)" "preserves healthy (Rollback E i)"
    unfolding Commit_def Rollback_def ListReservationsByTx_def
    by (intro preserves_intros healthy_in_tx keeps_intros k st)+
  show "preserves healthy (BlockShares u t a)" unfolding BlockShares_def by (intro healthy_in_tx k)
qed

lemma healthy_collect_premium: "preserves healthy (collect_premium E B n u)"
proof -
  have key: "preserves healthy (NewLocalKey B)"
    unfolding NewLocalKey_def by (intro preserves_intros healthy_modify) (simp add: healthy_def)
  have q: "preserves healthy (EnqueueOutgoing t i k b)" for t i k b
    unfolding EnqueueOutgoing_def GetOutgoingByIdempotence_def by (intro preserves_intros)
  have snd: "preserves healthy (SendMessage B m)" for m
    unfolding SendMessage_def client_SendMessage_def Let_def by (intro preserves_intros healthy_modify) (simp add: healthy_def)
  have v: "preserves healthy (request_vote B tx)" for tx
    unfolding request_vote_def by (intro preserves_intros key q snd)
  have a: "preserves healthy (announce B t i)" for t i
    unfolding announce_def by (intro preserves_intros key q snd)
  have m: "preserves healthy (mark x st step)" for x st step unfolding mark_def by (intro preserves_intros)
  have c: "preserves healthy (conclude_transaction E B tx x b)" for tx x b
    unfolding conclude_transaction_def undo_transaction_def by (cases b) (auto intro!: preserves_intros a m)
  show ?thesis
    unfolding collect_premium_def buildAcceptTransaction_def InitiateInterbankTransaction_def run_transaction_def
    by (intro preserves_intros key v m c)
qed

section \<open>Published and escrowed shares\<close>

definition escrowed_by :: "bank \<Rightarrow> int \<Rightarrow> string \<Rightarrow> InterbankOptionContract \<Rightarrow> bool" where
  "escrowed_by B u t c \<longleftrightarrow> ic_Status c = CsActive \<and> ic_SellerRouting c = ourRoutingNumber B \<and>
     ParseInt (ic_SellerID c) = Some u \<and> ic_StockTicker c = t"

definition escrowed :: "bank \<Rightarrow> int \<Rightarrow> string \<Rightarrow> db \<Rightarrow> int" where
  "escrowed B u t s = (\<Sum>c \<leftarrow> filter (escrowed_by B u t) (ib_contracts s). ic_Amount c)"

text \<open>The shares of a user under a ticker: offered to others, or set aside for the active contracts.\<close>

definition stake :: "bank \<Rightarrow> int \<Rightarrow> string \<Rightarrow> db \<Rightarrow> int" where
  "stake B u t s = published (owned_by u t s) s + escrowed B u t s"

text \<open>What the tables promise: keys are unique, published quantities are positive.\<close>

definition listings_wf :: "db \<Rightarrow> bool" where
  "listings_wf s \<longleftrightarrow> distinct (map l_ID (listings s)) \<and> list_all (\<lambda>l. l_ID l \<noteq> 0) (listings s)"

definition shares_wf :: "db \<Rightarrow> bool" where
  "shares_wf s \<longleftrightarrow> distinct (map ps_id (public_shares s)) \<and> list_all (\<lambda>p. 0 < ps_quantity p) (public_shares s) \<and> listings_wf s"

lemma distinct_map_eq: "distinct (map f xs) \<Longrightarrow> x \<in> set xs \<Longrightarrow> y \<in> set xs \<Longrightarrow> f x = f y \<Longrightarrow> x = y"
  by (simp add: distinct_map inj_on_def)

lemma owned_by_unique:
  assumes "listings_wf s" and "owned_by u t s p" and "owned_by v k s p"
  shows "u = v \<and> t = k"
proof -
  from assms(2,3) obtain x y where "x \<in> set (listings s)" "y \<in> set (listings s)" "l_ID x = l_ID y" "l_Ticker x = t" "l_Ticker y = k"
    by (auto simp: owned_by_def list_ex_iff)
  with assms distinct_map_eq [of l_ID "listings s" x y] show ?thesis by (auto simp: listings_wf_def owned_by_def)
qed

lemma published_filter:
  assumes "filter (\<lambda>p. \<not> Q p) (public_shares s') = filter (\<lambda>p. \<not> Q p) (public_shares s)" and "\<And>p. R p \<Longrightarrow> \<not> Q p"
  shows "published R s' = published R s"
proof -
  have "filter R xs = filter R (filter (\<lambda>p. \<not> Q p) xs)" for xs using assms(2) by (auto intro: filter_cong)
  with assms(1) show ?thesis unfolding published_def by metis
qed

lemma block_published:
  assumes "no_faults s" and "shares_wf s" and "0 \<le> a" and "BlockShares v k a s = (r, s')"
  shows "published (owned_by u t s) s' = published (owned_by u t s) s - (if r = Inr () \<and> u = v \<and> t = k then a else 0)"
    and "r = Inr () \<Longrightarrow> a \<le> published (owned_by v k s) s"
proof -
  note run = BlockShares_run [OF assms(1), of a v k] assms(2-4)
  show "r = Inr () \<Longrightarrow> a \<le> published (owned_by v k s) s" using run by (auto simp: shares_wf_def split: if_splits)
  show "published (owned_by u t s) s' = published (owned_by u t s) s - (if r = Inr () \<and> u = v \<and> t = k then a else 0)"
  proof (cases "u = v \<and> t = k")
    case True
    then show ?thesis using run by (auto simp: shares_wf_def split: if_splits)
  next
    case False
    have "published (owned_by u t s) s' = published (owned_by u t s) s"
      by (rule published_filter [of "owned_by v k s"]) (use run False owned_by_unique [of s u t _ v k] in \<open>auto simp: shares_wf_def split: if_splits\<close>)
    then show ?thesis using False by auto
  qed
qed

lemma listing_id_owned:
  assumes "listing_id k s \<noteq> 0"
  shows "owned_by v k s \<lparr>ps_id = i, ps_listing_id = listing_id k s, ps_user_id = v, ps_quantity = a\<rparr>"
proof -
  from assms obtain x where "List.find (\<lambda>l. l_Ticker l = k) (listings s) = Some x" "listing_id k s = l_ID x"
    by (auto simp: listing_id_def split: option.splits)
  then show ?thesis by (auto simp: owned_by_def find_Some_iff list_ex_iff)
qed

lemma listing_id_nonzero: "listings_wf s \<Longrightarrow> owned_by v k s p \<Longrightarrow> listing_id k s \<noteq> 0"
  by (auto simp: listings_wf_def owned_by_def listing_id_def list_ex_iff list_all_iff find_None_iff find_Some_iff split: option.splits)

lemma release_published:
  assumes "no_faults s" and "listings_wf s" and "ReleaseShares v k a s = (r, s')"
  shows "published (owned_by u t s) s' = published (owned_by u t s) s + (if r = Inr () \<and> u = v \<and> t = k then a else 0)"
    and "0 < a \<Longrightarrow> int32 a \<Longrightarrow> listing_id k s \<noteq> 0 \<Longrightarrow> r = Inr ()"
proof -
  let ?row = "\<lparr>ps_id = public_shares_seq s, ps_listing_id = listing_id k s, ps_user_id = v, ps_quantity = a\<rparr>"
  have l: "listing_id k (bump s) = listing_id k s" by (simp add: listing_id_def)
  have run: "r = Inr () \<and> listing_id k s \<noteq> 0 \<and> public_shares s' = public_shares s @ [?row] \<or> r \<noteq> Inr () \<and> public_shares s' = public_shares s"
    using assms(1,3) by (auto simp: ReleaseShares_def bnd_def query_ok insert_share_def stmt_def l split: if_splits)
  show "published (owned_by u t s) s' = published (owned_by u t s) s + (if r = Inr () \<and> u = v \<and> t = k then a else 0)"
    using run listing_id_owned [of k s v "public_shares_seq s" a] owned_by_unique [OF assms(2), of u t ?row v k]
    by (auto simp: published_def)
  have "list_ex (\<lambda>l. l_ID l = listing_id k s) (listings s)" if "listing_id k s \<noteq> 0"
    using listing_id_owned [OF that] by (auto simp: owned_by_def list_ex_iff)
  with assms(1,3) show "0 < a \<Longrightarrow> int32 a \<Longrightarrow> listing_id k s \<noteq> 0 \<Longrightarrow> r = Inr ()"
    by (auto simp: ReleaseShares_def bnd_def query_ok insert_share_def stmt_def l split: if_splits)
qed

lemma published_cong: "public_shares s' = public_shares s \<Longrightarrow> published Q s' = published Q s"
  by (simp add: published_def)

text \<open>What the negotiations table promises about a row: its columns fit, the amount is an \<open>int32\<close>.\<close>

definition negotiation_ok :: "env \<Rightarrow> InterbankNegotiation \<Rightarrow> bool" where
  "negotiation_ok E n \<longleftrightarrow> negotiation_fits E n \<and> int32 (ng_Amount n)"

lemma Create_contract:
  assumes "no_faults s" and "negotiation_ok E n" and "contract_of (ng_Routing n) (ng_ForeignID n) s = None"
  shows "\<exists>s'. CreateOptionContract E (contractFromNegotiation n) s = (Inr (), s') \<and> public_shares s' = public_shares s \<and>
    listings s' = listings s \<and> escrowed B u t s' = escrowed B u t s +
      (if ng_SellerRouting n = ourRoutingNumber B \<and> ParseInt (ng_SellerID n) = Some u \<and> ng_StockTicker n = t then ng_Amount n else 0)"
proof -
  let ?c = "contractFromNegotiation n"
  let ?row = "?c\<lparr>ic_PriceAmount := round6 E (ic_PriceAmount ?c), ic_PremiumAmount := round6 E (ic_PremiumAmount ?c),
    ic_SettlementDate := storeTime E (ic_SettlementDate ?c)\<rparr>"
  have "contract_of (ic_Routing ?c) (ic_ForeignID ?c) (bump s) = None"
    using assms(3) by (simp add: contract_of_def contractFromNegotiation_def)
  moreover have "terms_fit E (ic_ForeignID ?c) (ic_StockTicker ?c) (ic_PriceCurrency ?c) (ic_PriceAmount ?c) (ic_PremiumCurrency ?c)
      (ic_PremiumAmount ?c) (ic_Amount ?c) (ic_BuyerID ?c) (ic_SellerID ?c)"
    using assms(2) by (simp add: negotiation_ok_def negotiation_fits_def contractFromNegotiation_def)
  ultimately have "CreateOptionContract E ?c s = (Inr (), (bump s)\<lparr>ib_contracts := ib_contracts s @ [?row]\<rparr>)"
    using assms(1) by (simp add: CreateOptionContract_def stmt_root_def)
  moreover have "escrowed_by B u t ?row \<longleftrightarrow>
      ng_SellerRouting n = ourRoutingNumber B \<and> ParseInt (ng_SellerID n) = Some u \<and> ng_StockTicker n = t"
    "ic_Amount ?row = ng_Amount n" by (simp_all add: escrowed_by_def contractFromNegotiation_def)
  ultimately show ?thesis by (simp add: escrowed_def)
qed

lemma close_frame: "close_accepted E n s = (r, s') \<Longrightarrow> public_shares s' = public_shares s \<and> listings s' = listings s \<and> ib_contracts s' = ib_contracts s"
  by (auto simp: close_accepted_def UpdateNegotiation_def stmt_root_def split: if_splits)

lemma stake_cong: "public_shares s' = public_shares s \<Longrightarrow> listings s' = listings s \<Longrightarrow> ib_contracts s' = ib_contracts s \<Longrightarrow> stake B u t s' = stake B u t s"
  using owned_by_cong [of s' s u t] by (simp add: stake_def escrowed_def published_def)

lemma finish_stake:
  assumes "no_faults s" and "negotiation_ok E n" and "contract_of (ng_Routing n) (ng_ForeignID n) s = None"
    and run: "bnd (CreateOptionContract E (contractFromNegotiation n)) (\<lambda>_. close_accepted E n) s = (r, s')"
  shows "stake B u t s' = stake B u t s +
    (if ng_SellerRouting n = ourRoutingNumber B \<and> ParseInt (ng_SellerID n) = Some u \<and> ng_StockTicker n = t then ng_Amount n else 0)"
proof -
  from Create_contract [OF assms(1-3), of B u t] obtain s1 where
    c: "CreateOptionContract E (contractFromNegotiation n) s = (Inr (), s1)" and s1: "public_shares s1 = public_shares s"
      "listings s1 = listings s" "escrowed B u t s1 = escrowed B u t s +
      (if ng_SellerRouting n = ourRoutingNumber B \<and> ParseInt (ng_SellerID n) = Some u \<and> ng_StockTicker n = t then ng_Amount n else 0)"
    by blast
  from run c have "close_accepted E n s1 = (r, s')" by (simp add: bnd_def)
  from close_frame [OF this] stake_cong have "stake B u t s' = stake B u t s1" by blast
  with s1 show ?thesis by (simp add: stake_def owned_by_cong [OF s1(2)] published_def)
qed

lemma block_frame: "BlockShares v k a s = (r, s') \<Longrightarrow> ib_contracts s' = ib_contracts s \<and> ib_reservations s' = ib_reservations s \<and> ib_tx_seq s' = ib_tx_seq s"
proof -
  assume run: "BlockShares v k a s = (r, s')"
  let ?f = "\<lambda>s. (ib_contracts s, ib_reservations s, ib_tx_seq s)"
  have "keeps ?f (BlockShares v k a)"
    unfolding BlockShares_def decrementPublicShares_def
    by (intro keeps_in_tx keeps_intros take_frame) (simp_all add: clock_free_def rollback_core_def)
  from keepsD [OF this run] show ?thesis by simp
qed

lemma published_owner: "0 < published Q s \<Longrightarrow> \<exists>p. Q p"
  by (rule ccontr) (simp add: published_def)

lemma ReleaseShares_frame: "ReleaseShares v k a s = (r, s') \<Longrightarrow> ib_contracts s' = ib_contracts s \<and> listings s' = listings s"
  by (auto simp: ReleaseShares_def bnd_def query_def insert_share_def stmt_def split: if_splits)

lemma release_stake:
  assumes "no_faults s" and "listings_wf s" and "ReleaseShares v k a s = (r, s')"
  shows "stake B u t s' = stake B u t s + (if r = Inr () \<and> u = v \<and> t = k then a else 0)"
  using release_published(1) [OF assms, of u t] ReleaseShares_frame [OF assms(3)] owned_by_cong [of s' s u t]
  by (simp add: stake_def escrowed_def)

lemma sell_stake:
  assumes s: "healthy s" "shares_wf s" "numbered s" and n: "negotiation_ok E n" "contract_of (ng_Routing n) (ng_ForeignID n) s = None"
    and ours: "ng_SellerRouting n = ourRoutingNumber B" "ParseInt (ng_SellerID n) = Some v"
    and r0: "accept_as_seller E B n s = (r, s')"
  shows "stake B u t s' = stake B u t s"
proof -
  let ?k = "ng_StockTicker n" and ?a = "ng_Amount n"
  note run = r0 [unfolded accept_as_seller_def ours(2) option.case]
  have a: "0 < ?a" "int32 ?a" using n(1) by (simp_all add: negotiation_ok_def negotiation_fits_def terms_fit_def)
  obtain r1 s1 where b: "BlockShares v ?k ?a s = (r1, s1)" by force
  note bp = block_published [OF healthy_no_faults [OF s(1)] s(2) _ b]
  have s1: "healthy s1" "listings s1 = listings s" "numbered s1" "ib_contracts s1 = ib_contracts s"
    using preservesD [OF healthy_executor(4) s(1) b] keepsD [OF keeps_BlockShares b] block_frame [OF b] s(3)
    by (auto simp: numbered_def)
  show ?thesis
  proof (cases r1)
    case (Inl e')
    with run b have "s' = s1" by (simp add: bnd_def)
    then show ?thesis using bp(1) [of u t] a Inl s1 by (simp add: stake_def escrowed_def owned_by_cong [OF s1(2)])
  next
    case (Inr x)
    obtain r2 s2 where c: "collect_premium E B n v s1 = (r2, s2)" by force
    have "never_fails (collect_premium E B n v)" 
      unfolding collect_premium_def buildAcceptTransaction_def NewLocalKey_def by (intro never_fails_bnd never_fails_state never_fails_basic)
    then obtain ok where r2: "r2 = Inr ok" using c unfolding never_fails_def by (metis Pair_inject)
    have s2: "healthy s2" "listings s2 = listings s" "public_shares s2 = public_shares s1" "ib_contracts s2 = ib_contracts s"
      using preservesD [OF healthy_collect_premium s1(1) c] keepsD [OF keeps_collect_premium c, of listings] collect_premium_shelf [OF c s1(3)] s1
      by (simp_all add: shelf_def)
    have part: "stake B u t s2 = stake B u t s - (if u = v \<and> t = ?k then ?a else 0)"
      using bp(1) [of u t] a Inr s2 by (auto simp: stake_def escrowed_def owned_by_cong [OF s2(2)] published_cong [OF s2(3)])
    have l2: "listings_wf s2" using s(2) s2(2) by (simp add: shares_wf_def listings_wf_def)
    from bp(2) Inr a obtain p where "owned_by v ?k s p" using published_owner [of "owned_by v ?k s" s] by auto
    then have "listing_id ?k s2 \<noteq> 0" using listing_id_nonzero [OF l2, of v ?k p] by (simp add: owned_by_cong [OF s2(2)])
    note returned = release_published(2) [OF healthy_no_faults [OF s2(1)] l2 _ a this]
    show ?thesis
    proof (cases ok)
      case True
      with run b c r2 Inr have "bnd (CreateOptionContract E (contractFromNegotiation n)) (\<lambda>_. close_accepted E n) s2 = (r, s')"
        by (simp add: bnd_def)
      from finish_stake [OF healthy_no_faults [OF s2(1)] n(1) _ this, of B u t] n(2) s2(4) part ours show ?thesis
        by (auto simp: contract_of_def)
    next
      case False
      obtain r3 s3 where rel: "ReleaseShares v ?k ?a s2 = (r3, s3)" by force
      with run b c r2 Inr False have "s' = s3" by (cases r3) (simp_all add: bnd_def)
      then show ?thesis using release_stake [OF healthy_no_faults [OF s2(1)] l2 rel, of B u t] returned [OF rel] part by simp
    qed
  qed
qed

text \<open>What the tables promise about negotiations: the rows fit, and one that is still to be accepted has no
  contract yet.\<close>

definition offers_wf :: "env \<Rightarrow> db \<Rightarrow> bool" where
  "offers_wf E s \<longleftrightarrow> list_all (\<lambda>n. negotiation_ok E n \<and> (ng_IsOngoing n \<and> ng_Status n \<noteq> NsAccepted \<longrightarrow>
     contract_of (ng_Routing n) (ng_ForeignID n) s = None)) (ib_negotiations s)"

lemma offers_wfD:
  "offers_wf E s \<Longrightarrow> negotiation_of routing i s = Some n \<Longrightarrow> negotiation_ok E n \<and> ng_Routing n = routing \<and> ng_ForeignID n = i \<and>
     (ng_IsOngoing n \<and> ng_Status n \<noteq> NsAccepted \<longrightarrow> contract_of routing i s = None)"
  by (auto simp: offers_wf_def list_all_iff negotiation_of_def find_Some_iff)

text \<open>C35. Accepting an offer never creates or loses a share: whatever the other bank answers, the seller's
  published shares together with those set aside for active contracts are the same after as before, for
  every user and ticker. The shares are blocked before the premium is asked for, given back when it is not
  collected, and covered by the new contract when it is. The database itself does not fail.\<close>

theorem accept_conserves_shares:
  assumes "healthy s" and "shares_wf s" and "numbered s" and "offers_wf E s"
    and run: "AcceptNegotiation E B routing i s = (r, s')"
  shows "stake B u t s' = stake B u t s"
proof -
  have g: "GetNegotiationByID routing i s = (Inr (negotiation_of routing i s), bump s)"
    by (simp add: GetNegotiationByID_def root_query_ok [OF healthy_no_faults [OF assms(1)]]) (simp add: negotiation_of_def)
  have b: "stake B u t (bump s) = stake B u t s" by (rule stake_cong) simp_all
  have w: "healthy (bump s)" "shares_wf (bump s)" "numbered (bump s)"
    using assms(1-3) by (simp_all add: shares_wf_def listings_wf_def numbered_def)
  consider (stop) "s' = bump s"
    | (buyer) n where "negotiation_of routing i s = Some n" "ng_IsOngoing n" "ng_Status n \<noteq> NsAccepted"
        "ng_SellerRouting n \<noteq> ourRoutingNumber B" "finalizeAccept E n (bump s) = (r, s')"
    | (seller) n v where "negotiation_of routing i s = Some n" "ng_IsOngoing n" "ng_Status n \<noteq> NsAccepted"
        "ng_SellerRouting n = ourRoutingNumber B" "ParseInt (ng_SellerID n) = Some v" "accept_as_seller E B n (bump s) = (r, s')"
    using run g by (cases "negotiation_of routing i s")
      (auto simp: AcceptNegotiation_def bnd_def accept_as_seller_def split: if_splits option.splits)
  then show ?thesis
  proof cases
    case stop
    with b show ?thesis by simp
  next
    case buyer
    with offers_wfD [OF assms(4) buyer(1)] finish_stake [OF healthy_no_faults [OF w(1)] _ _ buyer(5) [unfolded finalizeAccept_def], of B u t] b
    show ?thesis by (simp add: contract_of_def)
  next
    case seller
    with offers_wfD [OF assms(4) seller(1)] sell_stake [OF w _ _ seller(4-6), of u t] b show ?thesis by (simp add: contract_of_def)
  qed
qed

section \<open>Expiry\<close>

definition contract_key :: "InterbankOptionContract \<Rightarrow> int \<times> string" where
  "contract_key c = (ic_Routing c, ic_ForeignID c)"

lemma escrow_update:
  assumes "distinct (map contract_key cs)" and "c \<in> set cs"
  shows "(\<Sum>d \<leftarrow> filter (escrowed_by B u t) (upd_where (\<lambda>d. contract_key d = contract_key c) (\<lambda>d. d\<lparr>ic_Status := CsExpired\<rparr>) cs). ic_Amount d) =
    (\<Sum>d \<leftarrow> filter (escrowed_by B u t) cs. ic_Amount d) - (if escrowed_by B u t c then ic_Amount c else 0)"
  using assms
proof (induction cs)
  case (Cons d cs)
  have gone: "\<not> escrowed_by B u t (d\<lparr>ic_Status := CsExpired\<rparr>)" by (simp add: escrowed_by_def)
  show ?case
  proof (cases "contract_key d = contract_key c")
    case True
    have keys: "contract_key x \<noteq> contract_key c" if "x \<in> set cs" for x
      using that Cons.prems(1) True by (metis distinct.simps(2) imageI list.set_map list.simps(9))
    then have "c \<notin> set cs" by blast
    then have "d = c" using Cons.prems(2) by simp
    moreover have "upd_where (\<lambda>d. contract_key d = contract_key c) (\<lambda>d. d\<lparr>ic_Status := CsExpired\<rparr>) cs = cs"
      unfolding upd_where_def by (rule map_idI) (simp add: keys)
    ultimately show ?thesis using gone by (simp add: upd_where_def)
  next
    case False
    then have "c \<in> set cs" "distinct (map contract_key cs)" using Cons.prems by auto
    from Cons.IH [OF this(2,1)] False show ?thesis by (simp add: upd_where_def)
  qed
qed simp

lemma expire_status:
  assumes "no_faults s" and "distinct (map contract_key (ib_contracts s))" and "c \<in> set (ib_contracts s)"
    and run: "ignore (UpdateOptionContractStatus (ic_Routing c) (ic_ForeignID c) CsExpired) s = (r, s')"
  shows "stake B u t s' = stake B u t s - (if escrowed_by B u t c then ic_Amount c else 0)"
    and "public_shares s' = public_shares s" "listings s' = listings s"
    and "ib_contracts s' = upd_where (\<lambda>d. contract_key d = contract_key c) (\<lambda>d. d\<lparr>ic_Status := CsExpired\<rparr>) (ib_contracts s)"
proof -
  show u: "public_shares s' = public_shares s" "listings s' = listings s"
    "ib_contracts s' = upd_where (\<lambda>d. contract_key d = contract_key c) (\<lambda>d. d\<lparr>ic_Status := CsExpired\<rparr>) (ib_contracts s)"
    using run assms(1) by (auto simp: ignore_def UpdateOptionContractStatus_def stmt_root_def contract_key_def)
  from escrow_update [OF assms(2,3), of B u t] u owned_by_cong [OF u(2), of u t]
  show "stake B u t s' = stake B u t s - (if escrowed_by B u t c then ic_Amount c else 0)"
    by (simp add: stake_def escrowed_def published_def)
qed

definition contracts_wf :: "db \<Rightarrow> bool" where
  "contracts_wf s \<longleftrightarrow> healthy s \<and> listings_wf s \<and> distinct (map contract_key (ib_contracts s))"

lemma healthy_release: "preserves healthy (ReleaseShares v k a)"
  unfolding ReleaseShares_def insert_share_def
  by (intro preserves_intros preserves_healthy_stmt) (auto simp: healthy_def split: if_splits)

lemma expire_contract_stake:
  assumes w: "contracts_wf s" and c: "c \<in> set (ib_contracts s)" "ic_Status c = CsActive" and run: "expire_contract B c s = (r, s')"
  shows "r = Inr () \<and> stake B u t s' = stake B u t s \<and> contracts_wf s' \<and>
    (\<forall>d \<in> set (ib_contracts s). d \<noteq> c \<longrightarrow> d \<in> set (ib_contracts s'))"
proof -
  let ?seller = "if ic_SellerRouting c = ourRoutingNumber B then (case ParseInt (ic_SellerID c) of None \<Rightarrow> ret (Inr ())
      | Some uid \<Rightarrow> attempt (ReleaseShares uid (ic_StockTicker c) (ic_Amount c))) else ret (Inr ())"
  note wf = w [unfolded contracts_wf_def]
  have "never_fails ?seller" by (simp split: option.split)
  then obtain x s1 where r1: "?seller s = (Inr x, s1)" unfolding never_fails_def by blast
  have "preserves healthy ?seller" by (intro preserves_intros healthy_release)
  then have h1: "healthy s1" using preservesD [where P = healthy and m = ?seller and s = s] r1 wf by blast
  have s1: "ib_contracts s1 = ib_contracts s" "listings s1 = listings s"
    using r1 ReleaseShares_frame by (auto simp: attempt_def split: if_splits option.splits prod.splits)
  have gain: "stake B u t s1 = stake B u t s + (if (\<exists>u. x = Inr u) \<and> escrowed_by B u t c then ic_Amount c else 0)"
  proof (cases "\<exists>uid. ic_SellerRouting c = ourRoutingNumber B \<and> ParseInt (ic_SellerID c) = Some uid")
    case True
    then obtain uid where uid: "ic_SellerRouting c = ourRoutingNumber B" "ParseInt (ic_SellerID c) = Some uid" by blast
    with r1 have rel: "ReleaseShares uid (ic_StockTicker c) (ic_Amount c) s = (x, s1)"
      by (auto simp: attempt_def split: prod.splits)
    have "escrowed_by B u t c \<longleftrightarrow> u = uid \<and> t = ic_StockTicker c" using uid c(2) by (auto simp: escrowed_by_def)
    moreover have "(\<exists>u. x = Inr u) \<longleftrightarrow> x = Inr ()" by auto
    ultimately show ?thesis using release_stake [OF healthy_no_faults _ rel, of B u t] wf by simp
  next
    case False
    then have "s1 = s" "\<not> escrowed_by B u t c" using r1 by (auto simp: escrowed_by_def split: option.splits if_splits)
    then show ?thesis by simp
  qed
  have w1: "contracts_wf s1" using wf h1 s1 by (simp add: contracts_wf_def listings_wf_def)
  show ?thesis
  proof (cases x)
    case (Inl e)
    with run r1 have "r = Inr ()" "s' = s1" by (simp_all add: expire_contract_def bnd_def)
    with gain Inl w1 s1 show ?thesis by simp
  next
    case (Inr v)
    with run r1 have u: "ignore (UpdateOptionContractStatus (ic_Routing c) (ic_ForeignID c) CsExpired) s1 = (r, s')"
      by (simp add: expire_contract_def bnd_def)
    note e = expire_status [OF healthy_no_faults [OF h1] _ _ u]
    have d1: "distinct (map contract_key (ib_contracts s1))" and c1: "c \<in> set (ib_contracts s1)" using wf s1 c by simp_all
    have "r = Inr ()" using u by (simp add: ignore_def split: prod.splits)
    moreover have "stake B u t s' = stake B u t s" using e(1) [OF d1 c1, of B u t] gain Inr by simp
    moreover have "map contract_key (ib_contracts s') = map contract_key (ib_contracts s)"
      using e(4) [OF d1 c1] s1 by (simp add: upd_where_def contract_key_def comp_def)
    moreover have "preserves healthy (ignore (UpdateOptionContractStatus i k st))" for i k st by (intro preserves_intros)
    from preservesD [OF this h1 u] have "healthy s'" .
    moreover have "d \<in> set (ib_contracts s')" if "d \<in> set (ib_contracts s)" "d \<noteq> c" for d
      using that e(4) [OF d1 c1] s1 distinct_map_eq [OF _ that(1) c(1)] wf by (fastforce simp: upd_where_def)
    ultimately show ?thesis using \<open>healthy s'\<close> w1 wf e(3) [OF d1 c1] s1 by (auto simp: contracts_wf_def listings_wf_def)
  qed
qed

lemma expire_loop_stake:
  assumes "contracts_wf s" and "set cs \<subseteq> set (ib_contracts s)" and "list_all (\<lambda>c. ic_Status c = CsActive) cs" and "distinct cs"
    and "foreach cs (expire_contract B) s = (r, s')"
  shows "r = Inr () \<and> stake B u t s' = stake B u t s"
  using assms
proof (induction cs arbitrary: s)
  case (Cons c cs)
  obtain r1 s1 where x: "expire_contract B c s = (r1, s1)" by force
  have "c \<in> set (ib_contracts s)" "ic_Status c = CsActive" using Cons.prems by simp_all
  note one = expire_contract_stake [OF Cons.prems(1) this x, of u t]
  then have "foreach cs (expire_contract B) s1 = (r, s')" using Cons.prems(5) x by (simp add: bnd_def)
  moreover have "set cs \<subseteq> set (ib_contracts s1)" using one Cons.prems(2,4) by auto
  ultimately show ?case using Cons.IH [of s1] Cons.prems(3,4) one by simp
qed simp


section \<open>Exercise\<close>

lemma run_transaction_None:
  assumes "run_transaction E B tx x s = (Inr (y, None), s')"
  shows "it_Status y = TxCommitted"
proof -
  have c: "it_Status y = TxCommitted" if "conclude_transaction E B tx x b t = (Inr (y, None), t')" for b t t'
    using that unfolding conclude_transaction_def undo_transaction_def
    by (auto elim!: bnd_InrE split: ballot.splits if_splits sum.splits)
  show ?thesis
    using assms unfolding run_transaction_def by (auto elim!: bnd_InrE split: sum.splits if_splits intro: c)
qed

lemma InitiateInterbankTransaction_None:
  "InitiateInterbankTransaction E B tx u s = (Inr (y, None), s') \<Longrightarrow> it_Status y = TxCommitted"
  unfolding InitiateInterbankTransaction_def
  by (auto elim!: bnd_InrE intro: run_transaction_None split: option.splits)

lemma contract_of_key: "contract_of routing i s = Some c \<Longrightarrow> ic_Routing c = routing \<and> ic_ForeignID c = i"
  by (auto simp: contract_of_def find_Some_iff)

lemma contract_of_status:
  assumes "UpdateOptionContractStatus routing i st s = (Inr u, s')"
  shows "contract_of routing i s' = map_option (\<lambda>c. c\<lparr>ic_Status := st\<rparr>) (contract_of routing i s)"
proof -
  have "ib_contracts s' = upd_where (\<lambda>c. ic_Routing c = routing \<and> ic_ForeignID c = i) (\<lambda>c. c\<lparr>ic_Status := st\<rparr>) (ib_contracts s)"
    using assms by (auto simp: UpdateOptionContractStatus_def stmt_root_def split: if_splits)
  then have "contract_of routing i s' = map_option (\<lambda>c. if ic_Routing c = routing \<and> ic_ForeignID c = i then c\<lparr>ic_Status := st\<rparr> else c)
      (contract_of routing i s)" unfolding contract_of_def by (simp only:) (rule find_updated, simp)
  then show ?thesis by (cases "contract_of routing i s") (auto dest: contract_of_key)
qed

lemma exercise_refused:
  assumes "\<forall>c. contract_of routing i s = Some c \<longrightarrow> ic_Status c \<noteq> CsActive" and "ExerciseContract E B caller routing i s = (r, s')"
  shows "(\<exists>e. r = Inl e) \<and> core s' = core s"
proof -
  obtain q s1 where q: "GetOptionContract routing i s = (q, s1)" by force
  have "keeps core (GetOptionContract routing i)" by (intro keeps_intros) simp
  from keepsD [OF this q] have k: "core s1 = core s" .
  have "\<forall>c. q = Inr (Some c) \<longrightarrow> ic_Status c \<noteq> CsActive"
    using q assms(1) root_query_InrD [of "contract_of routing i" s _ s1] by (auto simp: GetOptionContract_def contract_of_def)
  with assms(2) q k show ?thesis
    by (auto simp: ExerciseContract_def bnd_def split: sum.splits option.splits if_splits)
qed

text \<open>C37. An option is exercised at most once, and only by its buyer in time: an exercise that reports success
  was asked for by the buyer of an active contract before its settlement date, its transaction is
  committed, and every further attempt on the contract is refused without touching an account, an order or
  a published share.\<close>

theorem exercise_once:
  assumes run: "ExerciseContract E B caller routing i s = (Inr (tx, None), s')"
  shows "(\<exists>c. contract_of routing i s = Some c \<and> ic_BuyerRouting c = ourRoutingNumber B \<and> ic_BuyerID c = FormatInt caller \<and>
      ic_Status c = CsActive \<and> now_utc s < ic_SettlementDate c) \<and> it_Status tx = TxCommitted \<and>
    (\<forall>F D who r s''. ExerciseContract F D who routing i s' = (r, s'') \<longrightarrow> (\<exists>e. r = Inl e) \<and> core s'' = core s')"
proof -
  from run obtain q s1 where q: "GetOptionContract routing i s = (Inr q, s1)" unfolding ExerciseContract_def by (rule bnd_InrE)
  from root_query_InrD [OF q [unfolded GetOptionContract_def]] have s1: "s1 = bump s" "q = contract_of routing i s"
    by (simp_all add: contract_of_def)
  with run q obtain c where c: "contract_of routing i s = Some c"
    by (cases "contract_of routing i s") (auto simp: ExerciseContract_def bnd_def)
  have g: "ic_BuyerRouting c = ourRoutingNumber B \<and> ic_BuyerID c = FormatInt caller \<and> ic_Status c = CsActive \<and> now_utc s < ic_SettlementDate c"
    using run q s1 c by (auto simp: ExerciseContract_def bnd_def split: if_splits)
  with run q s1 c obtain k s2 y e s3 where init: "InitiateInterbankTransaction E B (exercise_transaction B c k) (Some caller) s2 = (Inr (y, e), s3)"
    and rest: "(if e \<noteq> None then ret (y, e) else if it_Status y = TxCommitted then bnd (attempt (UpdateOptionContractStatus routing i CsExercised))
       (\<lambda>u. ret (y, case u of Inl _ \<Rightarrow> Some (Errorf ''status not recorded'') | Inr _ \<Rightarrow> None)) else ret (y, None)) s3 = (Inr (tx, None), s')"
    by (auto simp: ExerciseContract_def elim!: bnd_InrE split: if_splits)
  have e: "e = None" using rest by (auto split: if_splits)
  have y: "it_Status y = TxCommitted" using init InitiateInterbankTransaction_None unfolding e by blast
  with rest e have "tx = y" and u: "\<exists>v. UpdateOptionContractStatus routing i CsExercised s3 = (Inr v, s')"
    by (auto simp: bnd_def attempt_def split: prod.splits sum.splits)
  from u have "contract_of routing i s' = map_option (\<lambda>c. c\<lparr>ic_Status := CsExercised\<rparr>) (contract_of routing i s3)"
    using contract_of_status by blast
  then have "\<forall>c. contract_of routing i s' = Some c \<longrightarrow> ic_Status c \<noteq> CsActive" by auto
  with exercise_refused c g y \<open>tx = y\<close> show ?thesis by blast
qed

section \<open>Samples\<close>

lemma sample_otc_wf: "healthy sample_otc" "shares_wf sample_otc" "numbered sample_otc" "offers_wf sample_env sample_otc"
  by (simp_all add: healthy_def shares_wf_def listings_wf_def numbered_def offers_wf_def negotiation_ok_def negotiation_fits_def
      terms_fit_def contract_of_def int32_def numeric20_6_def sample_env_def exact_env_def sample_otc_defs sample_state)

lemma sample_seller_id: "ParseInt ''7'' = Some 7"
  by (simp add: ParseInt_def parse_nat_def digit_val_def Let_def)

lemma sample_stake: "stake yes_bank 7 ''AAPL'' sample_otc = 9"
  by (simp add: stake_def published_def escrowed_def owned_by_def sample_otc_defs sample_state)

theorem accept_conserves_shares_witness:
  "\<exists>r s. AcceptNegotiation sample_env yes_bank 333 ''n1'' sample_otc = (r, s) \<and> stake yes_bank 7 ''AAPL'' s = 9"
proof -
  obtain r s where run: "AcceptNegotiation sample_env yes_bank 333 ''n1'' sample_otc = (r, s)" by force
  from accept_conserves_shares [OF sample_otc_wf run, of 7 "''AAPL''"] run sample_stake show ?thesis by auto
qed

text \<open>A contract of our client with a seller at the other bank, and one we sold.\<close>

definition sample_contract :: InterbankOptionContract where
  "sample_contract = \<lparr>ic_Routing = 111, ic_ForeignID = ''n9'', ic_StockTicker = ''AAPL'', ic_PriceCurrency = ''EUR'',
     ic_PriceAmount = 5 / 4, ic_PremiumCurrency = ''EUR'', ic_PremiumAmount = 1, ic_SettlementDate = 100, ic_Amount = 2,
     ic_BuyerRouting = 333, ic_BuyerID = ''7'', ic_SellerRouting = 111, ic_SellerID = ''5'', ic_Status = CsActive\<rparr>"

definition sample_sold :: InterbankOptionContract where
  "sample_sold = (contractFromNegotiation sample_negotiation)\<lparr>ic_SettlementDate := 50\<rparr>"

definition sample_options :: db where
  "sample_options = sample_otc\<lparr>ib_negotiations := [], ib_contracts := [sample_contract, sample_sold]\<rparr>"

lemmas sample_options_defs = sample_options_def sample_contract_def sample_sold_def contractFromNegotiation_def sample_otc_defs


lemma sample_caller: "FormatInt 7 = ''7''"
  by code_simp

lemma sample_numbers: "parseIntOr0 ''7'' = 7" "IntPart 2 = 2"
  by (simp_all add: parseIntOr0_def signed_nat_def parse_nat_def digit_val_def IntPart_def wrap64_def Let_def)

lemma sample_exercise: "\<exists>t s. ExerciseContract sample_env yes_bank 7 111 ''n9'' sample_options = (Inr (t, None), s)"
  by (simp add: ExerciseContract_def GetOptionContract_def contract_of_def exercise_transaction_def exercise_postings_def
      id_posting_def monas_def stock_asset_def InitiateInterbankTransaction_def run_transaction_def conclude_transaction_def mark_def
      transactionHasRemote_def resolvePersonAccount_def reserve_person_money_def pick_racun_def first_racun_def convertForSettlement_def
      listing_id_def row_id_def insert_order_def delivered_order_def order_check_def known_type_def known_direction_def fits6_def
      store_order_def int32_def UpdateOptionContractStatus_def sample_caller sample_numbers
      yes_vote_dec MarshalTransaction_def encPosting_def MarshalAsset_def
      coordinator_eval executor_eval sample_state sample_options_defs sample_seller_id sample_env_def exact_env_def)

theorem exercise_once_witness:
  "\<exists>t s. ExerciseContract sample_env yes_bank 7 111 ''n9'' sample_options = (Inr (t, None), s) \<and> it_Status t = TxCommitted \<and>
     (\<exists>e. fst (ExerciseContract sample_env yes_bank 7 111 ''n9'' s) = Inl e)"
proof -
  from sample_exercise obtain t s where run: "ExerciseContract sample_env yes_bank 7 111 ''n9'' sample_options = (Inr (t, None), s)" by blast
  obtain r s' where again: "ExerciseContract sample_env yes_bank 7 111 ''n9'' s = (r, s')" by force
  from exercise_once [OF run] again run show ?thesis by (metis fst_conv)
qed

end
