(* ===== verification/Accounts.thy ===== *)
theory Accounts
  imports Core_DB Go_Time
begin

text \<open>
  Accounts and requests that wait for confirmation on the client's phone: \<open>service/account_service.go\<close> and
  \<open>repository/account_repository.go\<close>, with the types of \<open>domain/account.go\<close>.

  A column read into a \<open>float64\<close> is its nearest \<open>float64\<close>, and a \<open>float64\<close> bound to a statement is its shortest
  decimal (\<open>newFromFloat\<close>). \<open>NaN\<close> and infinities, which a client could only send through a protobuf
  \<open>double\<close>, are outside the model. Random numbers are arguments; \<open>strings.ToUpper\<close> is modelled on ASCII letters.
\<close>

section \<open>Account numbers\<close>

definition ascii_upper :: "string \<Rightarrow> string" where
  "ascii_upper = map (\<lambda>c. let n = of_char c :: nat in if 97 \<le> n \<and> n \<le> 122 then char_of (n - 32) else c)"

definition accountTypePrefix :: "string \<Rightarrow> string \<Rightarrow> string \<Rightarrow> err + string" where
  "accountTypePrefix kategorija vrsta podvrsta =
     (let number = (\<lambda>typeCode. Inr (''666'' @ ''0001'' @ typeCode)) in
      if kategorija = ''TEKUCI'' \<and> vrsta = ''POSLOVNI'' then number ''12''
      else if kategorija = ''DEVIZNI'' \<and> vrsta = ''LICNI'' then number ''21''
      else if kategorija = ''DEVIZNI'' \<and> vrsta = ''POSLOVNI'' then number ''22''
      else if kategorija = ''TEKUCI'' \<and> vrsta = ''LICNI'' then
        (let p = ascii_upper podvrsta in
         if p = ''STANDARDNI'' then number ''11''
         else if p = ''STEDNI'' then number ''13''
         else if p = ''PENZIONERSKI'' then number ''14''
         else if p = ''MLADI'' then number ''15''
         else if p = ''STUDENT'' then number ''16''
         else if p = ''NEZAPOSLENI'' then number ''17''
         else Inl (Errorf ''nepoznata podvrsta''))
      else Inl (Errorf ''nevalidna kombinacija''))"

definition digit_sum :: "string \<Rightarrow> int" where
  "digit_sum s = (\<Sum>c \<leftarrow> s. int (of_char c) - 48)"

text \<open>The loop draws until the check digit has one place; it has not ended when the draws run out.\<close>

fun generateAccountNumber :: "string \<Rightarrow> nat list \<Rightarrow> string option" where
  "generateAccountNumber prefix [] = None"
| "generateAccountNumber prefix (n # ns) =
     (let random8 = appendInt (int n) 8;
          s = digit_sum prefix + digit_sum random8;
          check = (11 - s mod 11) mod 11 in
      if check > 9 then generateAccountNumber prefix ns
      else Some (prefix @ random8 @ FormatInt check))"

section \<open>Opening an account\<close>

record Firma =
  fi_Naziv :: string
  fi_MaticniBroj :: string
  fi_PIB :: string
  fi_DelatnostID :: int
  fi_Adresa :: string

record CreateAccountInput =
  ca_VlasnikID :: int
  ca_ValutaID :: int
  ca_Firma :: "Firma option"
  ca_KategorijaRacuna :: string
  ca_VrstaRacuna :: string
  ca_Podvrsta :: string
  ca_NazivRacuna :: string
  ca_StanjeRacuna :: float64

definition currency_by_id :: "int \<Rightarrow> string dbp" where
  "currency_by_id i = bnd (query (\<lambda>s. map_of (valute s) i)) (\<lambda>r. case r of
     None \<Rightarrow> fail (Errorf ''record not found'') | Some oznaka \<Rightarrow> ret oznaka)"

definition validDevizneValute :: "string list" where
  "validDevizneValute = [''EUR'', ''CHF'', ''USD'', ''GBP'', ''JPY'', ''CAD'', ''AUD'']"

definition validateCurrency :: "int \<Rightarrow> string \<Rightarrow> unit dbp" where
  "validateCurrency valutaID kategorija = bnd (currency_by_id valutaID) (\<lambda>oznaka.
     if kategorija = ''TEKUCI'' then if oznaka \<noteq> ''RSD'' then fail ErrInvalidCurrency else ret ()
     else if kategorija = ''DEVIZNI'' then if \<not> List.member validDevizneValute oznaka then fail ErrInvalidCurrency else ret ()
     else ret ())"

definition insert_firma :: "Firma \<Rightarrow> int \<Rightarrow> int dbp" where
  "insert_firma f vlasnik = stmt (\<lambda>s.
     if length (fi_Naziv f) \<le> 255 \<and> length (fi_MaticniBroj f) \<le> 20 \<and> length (fi_PIB f) \<le> 20 \<and> length (fi_Adresa f) \<le> 255 \<and>
        List.member (delatnosti s) (fi_DelatnostID f) \<and>
        \<not> list_ex (\<lambda>x. maticni_broj x = fi_MaticniBroj f \<or> poreski_broj x = fi_PIB f) (firme s)
     then Some (firma_seq s, s\<lparr>firme := firme s @ [\<lparr>f_id = firma_seq s, naziv_firme = fi_Naziv f, maticni_broj = fi_MaticniBroj f,
         poreski_broj = fi_PIB f, id_delatnosti = fi_DelatnostID f, f_adresa = fi_Adresa f, f_vlasnik_id = vlasnik\<rparr>],
       firma_seq := firma_seq s + 1\<rparr>)
     else None)"

definition new_racun :: "env \<Rightarrow> CreateAccountInput \<Rightarrow> string \<Rightarrow> int option \<Rightarrow> string \<Rightarrow> int \<Rightarrow> racun" where
  "new_racun E input brojRacuna firmaID oznaka i = \<lparr>r_id = i, broj_racuna = brojRacuna, id_vlasnika = ca_VlasnikID input,
     valuta_oznaka = oznaka, vrsta_racuna = ca_VrstaRacuna input, r_status = ''AKTIVAN'',
     stanje_racuna = round2 E (newFromFloat E (ca_StanjeRacuna input)), rezervisana_sredstva = 0,
     dnevni_limit = Some 0, mesecni_limit = Some 0, dnevna_potrosnja = 0, mesecna_potrosnja = 0,
     kategorija_racuna = ca_KategorijaRacuna input, naziv_racuna = ca_NazivRacuna input, id_firme = firmaID\<rparr>"

definition racun_fits :: "CreateAccountInput \<Rightarrow> racun \<Rightarrow> bool" where
  "racun_fits input r \<longleftrightarrow> length (broj_racuna r) \<le> 18 \<and> length (ca_Podvrsta input) \<le> 100 \<and> length (naziv_racuna r) \<le> 255 \<and>
     (kategorija_racuna r = ''TEKUCI'' \<or> kategorija_racuna r = ''DEVIZNI'') \<and>
     (vrsta_racuna r = ''LICNI'' \<or> vrsta_racuna r = ''POSLOVNI'') \<and> \<bar>stanje_racuna r\<bar> < 10 ^ 13"

definition insert_racun :: "env \<Rightarrow> CreateAccountInput \<Rightarrow> string \<Rightarrow> int option \<Rightarrow> int dbp" where
  "insert_racun E input brojRacuna firmaID = stmt (\<lambda>s. case map_of (valute s) (ca_ValutaID input) of None \<Rightarrow> None
     | Some oznaka \<Rightarrow> let r = new_racun E input brojRacuna firmaID oznaka (racun_seq s) in
         if racun_fits input r \<and> \<not> list_ex (\<lambda>x. broj_racuna x = brojRacuna) (racuni s)
         then Some (racun_seq s, s\<lparr>racuni := racuni s @ [r], racun_seq := racun_seq s + 1\<rparr>) else None)"

definition accounts_CreateAccount :: "env \<Rightarrow> CreateAccountInput \<Rightarrow> string \<Rightarrow> int dbp" where
  "accounts_CreateAccount E input brojRacuna = in_tx (
     bnd (case ca_Firma input of
         Some f \<Rightarrow> if ca_VrstaRacuna input = ''POSLOVNI'' then insert_firma f (ca_VlasnikID input) else ret 0
       | None \<Rightarrow> ret 0) (\<lambda>idFirme.
       insert_racun E input brojRacuna (if idFirme \<noteq> 0 then Some idFirme else None)))"

definition CreateAccount :: "env \<Rightarrow> nat list \<Rightarrow> CreateAccountInput \<Rightarrow> int dbp" where
  "CreateAccount E draws input = bnd (validateCurrency (ca_ValutaID input) (ca_KategorijaRacuna input)) (\<lambda>_.
     case accountTypePrefix (ca_KategorijaRacuna input) (ca_VrstaRacuna input) (ca_Podvrsta input) of
       Inl _ \<Rightarrow> fail ErrInvalidPodvrsta
     | Inr prefix \<Rightarrow> (case generateAccountNumber prefix draws of
         None \<Rightarrow> fail (Errorf ''crypto/rand'')
       | Some brojRacuna \<Rightarrow> accounts_CreateAccount E input brojRacuna))"

section \<open>Reading accounts\<close>

definition owned :: "int \<Rightarrow> int \<Rightarrow> racun \<Rightarrow> bool" where
  "owned accountID vlasnikID r \<longleftrightarrow> r_id r = accountID \<and> id_vlasnika r = vlasnikID \<and> r_status r = ''AKTIVAN''"

definition FindAccountIDByNumber :: "string \<Rightarrow> int dbp" where
  "FindAccountIDByNumber brojRacuna = query (\<lambda>s.
     case List.find (\<lambda>r. broj_racuna r = brojRacuna \<and> r_status r = ''AKTIVAN'') (racuni s) of
       None \<Rightarrow> 0 | Some r \<Rightarrow> r_id r)"

definition GetClientAccounts :: "int \<Rightarrow> (racun \<times> float64) list dbp" where
  "GetClientAccounts vlasnikID = query (\<lambda>s. map (\<lambda>r. (r, fl64 (fl64 (stanje_racuna r) - fl64 (rezervisana_sredstva r))))
     (sort_key (\<lambda>r. - raspolozivo r) (filter (\<lambda>r. id_vlasnika r = vlasnikID \<and> r_status r = ''AKTIVAN'') (racuni s))))"

definition GetAccountDetail :: "int \<Rightarrow> int \<Rightarrow> (racun \<times> string option) dbp" where
  "GetAccountDetail accountID vlasnikID = bnd (query (\<lambda>s. map_option (\<lambda>r. (r, case id_firme r of None \<Rightarrow> None
       | Some f \<Rightarrow> map_option naziv_firme (List.find (\<lambda>x. f_id x = f) (firme s))))
       (List.find (owned accountID vlasnikID) (racuni s)))) (\<lambda>row. case row of
     None \<Rightarrow> fail ErrAccountNotFound
   | Some d \<Rightarrow> if r_id (fst d) = 0 then fail ErrAccountNotFound else ret d)"

definition RenameAccount :: "int \<Rightarrow> int \<Rightarrow> string \<Rightarrow> unit dbp" where
  "RenameAccount vlasnikID accountID noviNaziv = in_tx (
     bnd (query (\<lambda>s. List.find (owned accountID vlasnikID) (racuni s))) (\<lambda>row. case row of
       None \<Rightarrow> fail ErrAccountNotFound
     | Some racun \<Rightarrow>
         if naziv_racuna racun = noviNaziv then fail ErrNazivIsti
         else bnd (query (\<lambda>s. length (filter (\<lambda>r. id_vlasnika r = vlasnikID \<and> naziv_racuna r = noviNaziv \<and>
             r_id r \<noteq> accountID) (racuni s)))) (\<lambda>dupCount.
           if dupCount > 0 then fail ErrNazivVecPostoji
           else stmt (\<lambda>s. if length noviNaziv \<le> 255
             then Some ((), s\<lparr>racuni := upd_where (\<lambda>r. r_id r = accountID) (\<lambda>r. r\<lparr>naziv_racuna := noviNaziv\<rparr>) (racuni s)\<rparr>)
             else None))))"

section \<open>Requests waiting for a code\<close>

definition limit_params :: "float64 \<Rightarrow> float64 \<Rightarrow> json" where
  "limit_params d m = JObj [(''dnevni_limit'', JNum d), (''mesecni_limit'', JNum m)]"

definition decFloat :: "string \<Rightarrow> (string \<times> json) list \<Rightarrow> float64 option" where
  "decFloat k fs = (case jfield k fs of None \<Rightarrow> Some 0 | Some JNull \<Rightarrow> Some 0 | Some (JNum q) \<Rightarrow> Some (fl64 q) | Some _ \<Rightarrow> None)"

definition limitParams :: "json \<Rightarrow> (float64 \<times> float64) option" where
  "limitParams j = do { fs \<leftarrow> jmembers j; d \<leftarrow> decFloat ''dnevni_limit'' fs; m \<leftarrow> decFloat ''mesecni_limit'' fs; Some (d, m) }"

definition insert_pending :: "env \<Rightarrow> int \<Rightarrow> int \<Rightarrow> ActionType \<Rightarrow> json \<Rightarrow> int dbp" where
  "insert_pending E vlasnik racun t params = stmt (\<lambda>s. if list_ex (\<lambda>r. r_id r = racun) (racuni s)
     then Some (pending_action_seq s, s\<lparr>pending_actions := pending_actions s @ [\<lparr>pa_id = pending_action_seq s, pa_vlasnik_id = vlasnik,
         pa_racun_id = racun, pa_action_type = t, pa_params = params, pa_status = PaPending, pa_code = None,
         pa_expires_at = None, pa_attempts = 0, pa_created_at = storeTime E (now_utc s)\<rparr>],
       pending_action_seq := pending_action_seq s + 1\<rparr>)
     else None)"

definition update_pending :: "int \<Rightarrow> (pending_action \<Rightarrow> pending_action) \<Rightarrow> unit dbp" where
  "update_pending i f = stmt (\<lambda>s. Some ((), s\<lparr>pending_actions := upd_where (\<lambda>a. pa_id a = i) f (pending_actions s)\<rparr>))"

definition pending_of :: "int \<Rightarrow> int \<Rightarrow> db \<Rightarrow> pending_action option" where
  "pending_of actionID vlasnikID s = List.find (\<lambda>a. pa_id a = actionID \<and> pa_vlasnik_id a = vlasnikID) (pending_actions s)"

definition UpdateAccountLimit :: "env \<Rightarrow> int \<Rightarrow> int \<Rightarrow> float64 \<Rightarrow> float64 \<Rightarrow> int dbp" where
  "UpdateAccountLimit E vlasnikID accountID dnevniLimit mesecniLimit =
     bnd (query (\<lambda>s. List.find (owned accountID vlasnikID) (racuni s))) (\<lambda>row.
       if (case row of None \<Rightarrow> True | Some r \<Rightarrow> broj_racuna r = []) then fail ErrAccountNotFound
       else bnd (query (\<lambda>s. length (filter (\<lambda>a. pa_racun_id a = accountID \<and> pa_action_type a = PROMENA_LIMITA \<and>
           pa_status a = PaPending) (pending_actions s)))) (\<lambda>existingCount.
         if existingCount > 0 then fail ErrPendingAlreadyExists
         else insert_pending E vlasnikID accountID PROMENA_LIMITA (limit_params dnevniLimit mesecniLimit)))"

text \<open>A row of the list: the request, its account, and the payment it belongs to, if any.\<close>

definition pending_rows :: "db \<Rightarrow> (pending_action \<Rightarrow> bool) \<Rightarrow> (pending_action \<times> racun \<times> PaymentIntent option) list" where
  "pending_rows s P = concat (map (\<lambda>a. concat (map (\<lambda>r.
      (case filter (\<lambda>p. pi_PendingActionID p = Some (pa_id a)) (payment_intents s) of
         [] \<Rightarrow> [(a, r, None)] | ps \<Rightarrow> map (\<lambda>p. (a, r, Some p)) ps))
     (filter (\<lambda>r. r_id r = pa_racun_id a) (racuni s)))) (filter P (pending_actions s)))"

record PendingActionItem =
  pd_ID :: int
  pd_ActionType :: ActionType
  pd_Status :: ActionStatus
  pd_BrojRacuna :: string
  pd_ValutaOznaka :: string
  pd_DnevniLimit :: float64
  pd_MesecniLimit :: float64
  pd_CreatedAt :: int
  pd_NazivPrimaoca :: string
  pd_BrojRacunaPrimaoca :: string
  pd_Iznos :: float64

definition parsePendingActionRow :: "pending_action \<times> racun \<times> PaymentIntent option \<Rightarrow> PendingActionItem" where
  "parsePendingActionRow row = (case row of (a, r, p) \<Rightarrow>
     let lim = (case limitParams (pa_params a) of None \<Rightarrow> (0, 0) | Some dm \<Rightarrow> dm) in
     \<lparr>pd_ID = pa_id a, pd_ActionType = pa_action_type a, pd_Status = pa_status a, pd_BrojRacuna = broj_racuna r,
      pd_ValutaOznaka = valuta_oznaka r, pd_DnevniLimit = fst lim, pd_MesecniLimit = snd lim, pd_CreatedAt = pa_created_at a,
      pd_NazivPrimaoca = (case p of None \<Rightarrow> [] | Some i \<Rightarrow> pi_NazivPrimaoca i),
      pd_BrojRacunaPrimaoca = (case p of None \<Rightarrow> [] | Some i \<Rightarrow> pi_BrojRacunaPrimaoca i),
      pd_Iznos = (case p of None \<Rightarrow> 0 | Some i \<Rightarrow> fl64 (pi_Iznos i))\<rparr>)"

definition GetPendingActions :: "int \<Rightarrow> PendingActionItem list dbp" where
  "GetPendingActions vlasnikID = query (\<lambda>s. map parsePendingActionRow (sort_key (\<lambda>(a, r, p). - pa_created_at a)
     (pending_rows s (\<lambda>a. pa_vlasnik_id a = vlasnikID \<and> pa_status a = PaPending))))"

definition GetPendingAction :: "int \<Rightarrow> int \<Rightarrow> PendingActionItem dbp" where
  "GetPendingAction actionID vlasnikID = bnd (query (\<lambda>s.
       pending_rows s (\<lambda>a. pa_id a = actionID \<and> pa_vlasnik_id a = vlasnikID))) (\<lambda>rows. case rows of
     [] \<Rightarrow> fail ErrPendingNotFound
   | row # _ \<Rightarrow> if pa_id (fst row) = 0 then fail ErrPendingNotFound else ret (parsePendingActionRow row))"

definition approval_code :: "int \<Rightarrow> string" where
  "approval_code now = appendInt (now mod 900000 + 100000) 6"

definition ApprovePendingAction :: "env \<Rightarrow> int \<Rightarrow> int \<Rightarrow> (string \<times> int) dbp" where
  "ApprovePendingAction E actionID vlasnikID = bnd (query (pending_of actionID vlasnikID)) (\<lambda>m. case m of
     None \<Rightarrow> fail ErrPendingNotFound
   | Some m \<Rightarrow>
       if pa_status m \<noteq> PaPending then fail ErrAlreadyApproved
       else bnd (gets now_utc) (\<lambda>now.
         let code = approval_code now; expiresAt = now + 5 * 60 * 10 ^ 9 in
         bnd (update_pending actionID (\<lambda>a. a\<lparr>pa_code := Some code, pa_expires_at := Some (storeTime E expiresAt),
             pa_status := PaApproved\<rparr>)) (\<lambda>_. ret (code, expiresAt))))"

text \<open>The new limits; a negative one leaves the column alone.\<close>

definition set_limits :: "env \<Rightarrow> float64 \<Rightarrow> float64 \<Rightarrow> racun \<Rightarrow> racun" where
  "set_limits E d m r = r\<lparr>dnevni_limit := (if d \<ge> 0 then Some (round2 E (newFromFloat E d)) else dnevni_limit r),
     mesecni_limit := (if m \<ge> 0 then Some (round2 E (newFromFloat E m)) else mesecni_limit r)\<rparr>"

definition fits_limits :: "racun \<Rightarrow> bool" where
  "fits_limits r \<longleftrightarrow> (case dnevni_limit r of None \<Rightarrow> True | Some l \<Rightarrow> \<bar>l\<bar> < 10 ^ 13) \<and>
     (case mesecni_limit r of None \<Rightarrow> True | Some l \<Rightarrow> \<bar>l\<bar> < 10 ^ 13)"

definition update_limits :: "env \<Rightarrow> int \<Rightarrow> float64 \<Rightarrow> float64 \<Rightarrow> unit dbp" where
  "update_limits E racun d m = (if d \<ge> 0 \<or> m \<ge> 0
     then stmt (\<lambda>s. let P = (\<lambda>r. r_id r = racun \<and> r_status r = ''AKTIVAN'') in
       if list_all (\<lambda>r. P r \<longrightarrow> fits_limits (set_limits E d m r)) (racuni s)
       then Some ((), s\<lparr>racuni := upd_where P (set_limits E d m) (racuni s)\<rparr>) else None)
     else ret ())"

text \<open>The test of a code that both kinds of request share: expired, wrong, or right.\<close>

definition code_expired :: "int \<Rightarrow> pending_action \<Rightarrow> bool" where
  "code_expired now m = (case pa_expires_at m of None \<Rightarrow> True | Some t \<Rightarrow> now > t)"

definition apply_limit :: "env \<Rightarrow> int \<Rightarrow> string \<Rightarrow> pending_action \<Rightarrow> unit dbp" where
  "apply_limit E actionID code m = bnd (gets now_utc) (\<lambda>now.
     if code_expired now m
     then bnd (ignore (update_pending actionID (\<lambda>a. a\<lparr>pa_status := PaCancelled\<rparr>))) (\<lambda>_. fail ErrCodeExpired)
     else if pa_code m \<noteq> Some code
     then let newAttempts = pa_attempts m + 1 in
       bnd (ignore (update_pending actionID (\<lambda>a. a\<lparr>pa_attempts := newAttempts,
           pa_status := (if newAttempts \<ge> 3 then PaCancelled else pa_status a)\<rparr>))) (\<lambda>_.
         if newAttempts \<ge> 3 then fail ErrTooManyAttempts else fail ErrWrongCode)
     else case limitParams (pa_params m) of
         None \<Rightarrow> fail (Errorf ''neispravni parametri akcije'')
       | Some (dnevniLimit, mesecniLimit) \<Rightarrow>
           bnd (update_limits E (pa_racun_id m) dnevniLimit mesecniLimit) (\<lambda>_.
             update_pending actionID (\<lambda>a. a\<lparr>pa_status := PaCancelled\<rparr>)))"

definition VerifyAndApplyLimit :: "env \<Rightarrow> int \<Rightarrow> int \<Rightarrow> string \<Rightarrow> unit dbp" where
  "VerifyAndApplyLimit E vlasnikID actionID code = in_tx (bnd (query (pending_of actionID vlasnikID)) (\<lambda>m. case m of
     None \<Rightarrow> fail ErrPendingNotFound
   | Some m \<Rightarrow>
       if pa_status m \<noteq> PaApproved then if pa_status m = PaCancelled then fail ErrTooManyAttempts else fail ErrPendingNotFound
       else apply_limit E actionID code m))"

end
