(* ===== verification/Payments.thy ===== *)
theory Payments
  imports Accounts
begin

text \<open>
  Payments and transfers inside the bank: \<open>service/payment_service.go\<close> and \<open>repository/payment_repository.go\<close>, with
  the types of \<open>domain/payment.go\<close>.

  The amounts of a \<open>PaymentIntent\<close> are the columns' decimals; the code reads them into \<open>float64\<close> (\<open>fl64\<close>) before
  it computes with them. The random part of \<open>generateBrojNaloga\<close> is an argument. A row lock (\<open>FOR UPDATE\<close>)
  orders transactions, which run one at a time in this model, and reads the rows.
\<close>

section \<open>Recipients\<close>

definition valid_recipient :: "string \<Rightarrow> string \<Rightarrow> err option" where
  "valid_recipient naziv brojRacuna =
     (if naziv = [] then Some (Errorf ''naziv primaoca'')
      else if length brojRacuna < 10 \<or> length brojRacuna > 18 then Some (Errorf ''broj racuna'') else None)"

definition recipient_fits :: "PaymentRecipient \<Rightarrow> db \<Rightarrow> bool" where
  "recipient_fits r s \<longleftrightarrow> length (pr_Naziv r) \<le> 255 \<and> length (pr_BrojRacuna r) \<le> 18 \<and>
     \<not> list_ex (\<lambda>x. pr_ID x \<noteq> pr_ID r \<and> pr_VlasnikID x = pr_VlasnikID r \<and> pr_BrojRacuna x = pr_BrojRacuna r) (payment_recipients s)"

definition recipients_Create :: "int \<Rightarrow> string \<Rightarrow> string \<Rightarrow> PaymentRecipient dbp" where
  "recipients_Create vlasnikID naziv brojRacuna = stmt (\<lambda>s.
     let r = \<lparr>pr_ID = payment_recipient_seq s, pr_VlasnikID = vlasnikID, pr_Naziv = naziv, pr_BrojRacuna = brojRacuna\<rparr> in
     if recipient_fits r s
     then Some (r, s\<lparr>payment_recipients := payment_recipients s @ [r], payment_recipient_seq := payment_recipient_seq s + 1\<rparr>)
     else None)"

definition recipients_GetByID :: "int \<Rightarrow> int \<Rightarrow> PaymentRecipient dbp" where
  "recipients_GetByID i vlasnikID = bnd (query (\<lambda>s. List.find (\<lambda>r. pr_ID r = i \<and> pr_VlasnikID r = vlasnikID)
     (payment_recipients s))) (\<lambda>r. case r of None \<Rightarrow> fail ErrPaymentRecipientNotFound | Some x \<Rightarrow> ret x)"

text \<open>Sorted by name; the order of text is the database's collation, an argument.\<close>

definition recipients_GetByOwner :: "(string \<Rightarrow> 'k::linorder) \<Rightarrow> int \<Rightarrow> PaymentRecipient list dbp" where
  "recipients_GetByOwner collate vlasnikID = query (\<lambda>s. sort_key (\<lambda>r. collate (pr_Naziv r))
     (filter (\<lambda>r. pr_VlasnikID r = vlasnikID) (payment_recipients s)))"

definition recipients_Update :: "PaymentRecipient \<Rightarrow> unit dbp" where
  "recipients_Update r = bnd (stmt (\<lambda>s. let P = (\<lambda>x. pr_ID x = pr_ID r \<and> pr_VlasnikID x = pr_VlasnikID r) in
       if list_ex P (payment_recipients s) \<longrightarrow> recipient_fits r s
       then Some (length (filter P (payment_recipients s)), s\<lparr>payment_recipients := upd_where P
         (\<lambda>x. x\<lparr>pr_Naziv := pr_Naziv r, pr_BrojRacuna := pr_BrojRacuna r\<rparr>) (payment_recipients s)\<rparr>) else None)) (\<lambda>n.
     if n = 0 then fail ErrPaymentRecipientNotFound else ret ())"

definition recipients_Delete :: "int \<Rightarrow> int \<Rightarrow> unit dbp" where
  "recipients_Delete i vlasnikID = bnd (stmt (\<lambda>s. let P = (\<lambda>x. pr_ID x = i \<and> pr_VlasnikID x = vlasnikID) in
       Some (length (filter P (payment_recipients s)),
         s\<lparr>payment_recipients := filter (\<lambda>x. \<not> P x) (payment_recipients s)\<rparr>))) (\<lambda>n.
     if n = 0 then fail ErrPaymentRecipientNotFound else ret ())"

definition ExistsByOwnerAndAccount :: "int \<Rightarrow> string \<Rightarrow> bool dbp" where
  "ExistsByOwnerAndAccount vlasnikID brojRacuna = query (\<lambda>s.
     list_ex (\<lambda>r. pr_VlasnikID r = vlasnikID \<and> pr_BrojRacuna r = brojRacuna) (payment_recipients s))"

definition CreateRecipient :: "int \<Rightarrow> string \<Rightarrow> string \<Rightarrow> PaymentRecipient dbp" where
  "CreateRecipient vlasnikID naziv brojRacuna = (case valid_recipient naziv brojRacuna of
     Some e \<Rightarrow> fail e | None \<Rightarrow> recipients_Create vlasnikID naziv brojRacuna)"

definition UpdateRecipient :: "int \<Rightarrow> int \<Rightarrow> string \<Rightarrow> string \<Rightarrow> PaymentRecipient dbp" where
  "UpdateRecipient i vlasnikID naziv brojRacuna = (case valid_recipient naziv brojRacuna of
     Some e \<Rightarrow> fail e
   | None \<Rightarrow> bnd (recipients_GetByID i vlasnikID) (\<lambda>recipient.
       let r = recipient\<lparr>pr_Naziv := naziv, pr_BrojRacuna := brojRacuna\<rparr> in
       bnd (recipients_Update r) (\<lambda>_. ret r)))"

section \<open>Conversion\<close>

definition paymentFallbackRates :: "(string \<times> float64) list" where
  "paymentFallbackRates = [(''EUR'', 117), (''CHF'', 12675 / 100), (''USD'', 10775 / 100), (''GBP'', 13675 / 100),
     (''JPY'', fl64 (69 / 100)), (''CAD'', 755 / 10), (''AUD'', 685 / 10)]"

definition kupovni :: "string \<Rightarrow> float64 option" where
  "kupovni code = map_option (\<lambda>mid. fl64 (mid * fl64 (995 / 1000))) (map_of paymentFallbackRates code)"

definition prodajni :: "string \<Rightarrow> float64 option" where
  "prodajni code = map_option (\<lambda>mid. fl64 (mid * fl64 (1005 / 1000))) (map_of paymentFallbackRates code)"

text \<open>The gross amount and the rate; \<open>None\<close> where the code returns the amount unchanged.\<close>

definition bruto_kurs :: "string \<Rightarrow> string \<Rightarrow> float64 \<Rightarrow> (float64 \<times> float64) option" where
  "bruto_kurs fromCurrency toCurrency amount =
     (if fromCurrency = ''RSD'' then
        (case prodajni toCurrency of None \<Rightarrow> None
         | Some toRate \<Rightarrow> if toRate = 0 then None else Some (fl64 (amount / toRate), fl64 (1 / toRate)))
      else if toCurrency = ''RSD'' then
        (case kupovni fromCurrency of None \<Rightarrow> None
         | Some fromRate \<Rightarrow> Some (fl64 (amount * fromRate), fromRate))
      else (case (kupovni fromCurrency, prodajni toCurrency) of
          (Some fromRate, Some toRate) \<Rightarrow> if toRate = 0 then None
            else Some (fl64 (fl64 (amount * fromRate) / toRate), fl64 (fromRate / toRate))
        | _ \<Rightarrow> None))"

definition convertPaymentAmountWithFee :: "string \<Rightarrow> string \<Rightarrow> float64 \<Rightarrow> float64 \<times> float64 \<times> float64" where
  "convertPaymentAmountWithFee fromCurrency toCurrency amount =
     (if fromCurrency = toCurrency then (amount, 1, 0)
      else case bruto_kurs fromCurrency toCurrency amount of
          None \<Rightarrow> (amount, 1, 0)
        | Some (bruto, effectiveKurs) \<Rightarrow>
            (let p0 = fl64 (bruto * fl64 (5 / 1000)); p = (if p0 < 0 then 0 else p0);
                 net0 = fl64 (bruto - p); net = (if net0 < 0 then 0 else net0)
             in (net, effectiveKurs, p)))"

definition generateBrojNaloga :: "int \<Rightarrow> string" where
  "generateBrojNaloga n = ''NAL'' @ appendInt (n + 1) 11"

section \<open>Creating a payment\<close>

definition limit_col :: "decimal option \<Rightarrow> float64" where
  "limit_col l = (case l of None \<Rightarrow> 0 | Some x \<Rightarrow> fl64 x)"

text \<open>The checks of balance and limits, before a payment is accepted and again when it is executed.\<close>

definition checkFunds :: "racun \<Rightarrow> float64 \<Rightarrow> err option" where
  "checkFunds payer iznos =
     (if fl64 (fl64 (stanje_racuna payer) - fl64 (rezervisana_sredstva payer)) < iznos then Some ErrPaymentFunds
      else if limit_col (dnevni_limit payer) > 0 \<and>
        fl64 (fl64 (dnevna_potrosnja payer) + iznos) > limit_col (dnevni_limit payer) then Some ErrDailyLimitExceeded
      else if limit_col (mesecni_limit payer) > 0 \<and>
        fl64 (fl64 (mesecna_potrosnja payer) + iznos) > limit_col (mesecni_limit payer) then Some ErrMonthlyLimitExceeded
      else None)"

record CreatePaymentIntentInput =
  cp_IdempotencyKey :: string
  cp_RacunPlatiocaID :: int
  cp_BrojRacunaPrimaoca :: string
  cp_NazivPrimaoca :: string
  cp_Iznos :: float64
  cp_SifraPlacanja :: string
  cp_PozivNaBroj :: string
  cp_SvrhaPlacanja :: string
  cp_InitiatedByUserID :: int

record CreateTransferIntentInput =
  ct_IdempotencyKey :: string
  ct_RacunPlatiocaID :: int
  ct_RacunPrimaocaID :: int
  ct_Iznos :: float64
  ct_ConvertedIznos :: float64
  ct_SvrhaPlacanja :: string
  ct_InitiatedByUserID :: int

definition intent_by_key :: "env \<Rightarrow> string \<Rightarrow> PaymentIntent option dbp" where
  "intent_by_key E key = stmt (\<lambda>s. case uuidIn E key of None \<Rightarrow> None
     | Some k \<Rightarrow> Some (List.find (\<lambda>p. pi_IdempotencyKey p = k) (payment_intents s), s))"

text \<open>An account that was not found has the id 0.\<close>

definition account_where :: "(racun \<Rightarrow> bool) \<Rightarrow> racun option dbp" where
  "account_where P = bnd (query (\<lambda>s. List.find P (racuni s))) (\<lambda>r. ret (case r of None \<Rightarrow> None
     | Some x \<Rightarrow> if r_id x = 0 then None else Some x))"

definition intent_fits :: "PaymentIntent \<Rightarrow> db \<Rightarrow> bool" where
  "intent_fits p s \<longleftrightarrow> \<not> list_ex (\<lambda>q. pi_IdempotencyKey q = pi_IdempotencyKey p) (payment_intents s) \<and>
     list_ex (\<lambda>r. r_id r = pi_RacunPlatiocaID p) (racuni s) \<and>
     (case pi_RacunPrimaocaID p of None \<Rightarrow> True | Some i \<Rightarrow> list_ex (\<lambda>r. r_id r = i) (racuni s)) \<and>
     length (pi_BrojNaloga p) \<le> 30 \<and> length (pi_BrojRacunaPlatioca p) \<le> 18 \<and> length (pi_BrojRacunaPrimaoca p) \<le> 18 \<and>
     length (pi_NazivPrimaoca p) \<le> 255 \<and> length (pi_Valuta p) \<le> 10 \<and> length (pi_ValutaPrimaoca p) \<le> 10 \<and>
     length (pi_SifraPlacanja p) \<le> 3 \<and> length (pi_PozivNaBroj p) \<le> 50 \<and> length (pi_SvrhaPlacanja p) \<le> 500 \<and>
     \<bar>pi_Iznos p\<bar> < 10 ^ 11 \<and> (case pi_KrajnjiIznos p of None \<Rightarrow> True | Some k \<Rightarrow> \<bar>k\<bar> < 10 ^ 11) \<and>
     \<bar>pi_Provizija p\<bar> < 10 ^ 11 \<and> \<bar>pi_Kurs p\<bar> < 10 ^ 12"

text \<open>Storing a row: the key in canonical form, the amounts rounded to their columns.\<close>

definition store_intent :: "env \<Rightarrow> PaymentIntent \<Rightarrow> PaymentIntent" where
  "store_intent E p = p\<lparr>pi_Iznos := round4 E (pi_Iznos p), pi_KrajnjiIznos := map_option (round4 E) (pi_KrajnjiIznos p),
     pi_Provizija := round4 E (pi_Provizija p), pi_Kurs := round6 E (pi_Kurs p), pi_CreatedAt := storeTime E (pi_CreatedAt p)\<rparr>"

definition insert_intent :: "env \<Rightarrow> PaymentIntent \<Rightarrow> unit dbp" where
  "insert_intent E p = stmt (\<lambda>s. case uuidIn E (pi_IdempotencyKey p) of None \<Rightarrow> None
     | Some k \<Rightarrow> let q = (store_intent E p)\<lparr>pi_ID := payment_intent_seq s, pi_IdempotencyKey := k\<rparr> in
         if intent_fits q s
         then Some ((), s\<lparr>payment_intents := payment_intents s @ [q], payment_intent_seq := payment_intent_seq s + 1\<rparr>)
         else None)"

definition new_intent :: "env \<Rightarrow> string \<Rightarrow> string \<Rightarrow> ActionType \<Rightarrow> racun \<Rightarrow> int option \<Rightarrow> string \<Rightarrow> string \<Rightarrow> float64
    \<Rightarrow> (float64 \<times> float64 \<times> float64 \<times> string) option \<Rightarrow> string \<times> string \<times> string \<Rightarrow> int \<Rightarrow> int \<Rightarrow> int \<Rightarrow> PaymentIntent" where
  "new_intent E key nalog tip payer primalacID brojPrimaoca naziv iznos conv texts userID actionID now =
     \<lparr>pi_ID = 0, pi_IdempotencyKey = key, pi_BrojNaloga = nalog, pi_TipTransakcije = tip, pi_RacunPlatiocaID = r_id payer,
      pi_BrojRacunaPlatioca = broj_racuna payer, pi_RacunPrimaocaID = primalacID, pi_BrojRacunaPrimaoca = brojPrimaoca,
      pi_NazivPrimaoca = naziv, pi_Iznos = newFromFloat E iznos,
      pi_KrajnjiIznos = map_option (\<lambda>(net, _). newFromFloat E net) conv,
      pi_Provizija = (case conv of None \<Rightarrow> 0 | Some (_, _, p, _) \<Rightarrow> newFromFloat E p),
      pi_Kurs = (case conv of None \<Rightarrow> 0 | Some (_, k, _, _) \<Rightarrow> newFromFloat E k),
      pi_ValutaPrimaoca = (case conv of None \<Rightarrow> [] | Some (_, _, _, v) \<Rightarrow> v), pi_Valuta = valuta_oznaka payer,
      pi_SifraPlacanja = fst texts, pi_PozivNaBroj = fst (snd texts), pi_SvrhaPlacanja = snd (snd texts),
      pi_Status = U_OBRADI, pi_PendingActionID = Some actionID, pi_InitiatedByUserID = userID, pi_CreatedAt = now,
      pi_VerifiedAt = None, pi_ExecutedAt = None, pi_FailedReason = []\<rparr>"

text \<open>What an existing key answers: the intent there is.\<close>

definition existing_answer :: "PaymentIntent \<Rightarrow> PaymentIntent \<times> int" where
  "existing_answer p = (p, case pi_PendingActionID p of None \<Rightarrow> 0 | Some a \<Rightarrow> a)"

definition created_answer :: "env \<Rightarrow> string \<Rightarrow> int \<Rightarrow> (PaymentIntent \<times> int) dbp" where
  "created_answer E key actionID = bnd (intent_by_key E key) (\<lambda>r. case r of
     None \<Rightarrow> fail (Errorf ''record not found'') | Some created \<Rightarrow> ret (created, actionID))"

text \<open>The transaction that inserts the request and the payment, and the reading of the new row.\<close>

definition create_rows :: "env \<Rightarrow> int \<Rightarrow> int \<Rightarrow> ActionType \<Rightarrow> json \<Rightarrow> string \<Rightarrow> (int \<Rightarrow> PaymentIntent) \<Rightarrow> (PaymentIntent \<times> int) dbp" where
  "create_rows E userID racunID tip params key intent =
     bnd (in_tx (bnd (insert_pending E userID racunID tip params) (\<lambda>actionID.
       bnd (insert_intent E (intent actionID)) (\<lambda>_. ret actionID)))) (created_answer E key)"

definition CreateIntent :: "env \<Rightarrow> int \<Rightarrow> CreatePaymentIntentInput \<Rightarrow> (PaymentIntent \<times> int) dbp" where
  "CreateIntent E n input = bnd (intent_by_key E (cp_IdempotencyKey input)) (\<lambda>existing. case existing of
     Some p \<Rightarrow> ret (existing_answer p)
   | None \<Rightarrow>
     bnd (account_where (owned (cp_RacunPlatiocaID input) (cp_InitiatedByUserID input))) (\<lambda>payer. case payer of
       None \<Rightarrow> fail ErrAccountNotOwned
     | Some payer \<Rightarrow>
       if broj_racuna payer = cp_BrojRacunaPrimaoca input then fail ErrSameAccount
       else case checkFunds payer (cp_Iznos input) of Some e \<Rightarrow> fail e
       | None \<Rightarrow>
         bnd (account_where (\<lambda>r. broj_racuna r = cp_BrojRacunaPrimaoca input \<and> r_status r = ''AKTIVAN'')) (\<lambda>recipient.
         bnd (gets now_utc) (\<lambda>now.
         let conv = (case recipient of None \<Rightarrow> None | Some r \<Rightarrow>
               if valuta_oznaka r \<noteq> [] \<and> valuta_oznaka payer \<noteq> valuta_oznaka r
               then (case convertPaymentAmountWithFee (valuta_oznaka payer) (valuta_oznaka r) (cp_Iznos input) of
                 (net, k, prov) \<Rightarrow> Some (net, k, prov, valuta_oznaka r)) else None) in
         create_rows E (cp_InitiatedByUserID input) (cp_RacunPlatiocaID input) PLACANJE
           (JObj [(''sifra_placanja'', JStr (cp_SifraPlacanja input))]) (cp_IdempotencyKey input) (\<lambda>actionID.
             new_intent E (cp_IdempotencyKey input) (generateBrojNaloga n) PLACANJE payer
               (map_option r_id recipient) (cp_BrojRacunaPrimaoca input) (cp_NazivPrimaoca input) (cp_Iznos input) conv
               (cp_SifraPlacanja input, cp_PozivNaBroj input, cp_SvrhaPlacanja input)
               (cp_InitiatedByUserID input) actionID now)))))"

definition transfer_conversion :: "CreateTransferIntentInput \<Rightarrow> racun \<Rightarrow> racun \<Rightarrow> (float64 \<times> float64 \<times> float64 \<times> string) option" where
  "transfer_conversion input payer recipient =
     (case convertPaymentAmountWithFee (valuta_oznaka payer) (valuta_oznaka recipient) (ct_Iznos input) of (net, k, prov) \<Rightarrow>
        if ct_ConvertedIznos input > 0 \<and> ct_ConvertedIznos input \<noteq> ct_Iznos input
        then Some (ct_ConvertedIznos input, k, prov, valuta_oznaka recipient)
        else if valuta_oznaka recipient \<noteq> [] \<and> valuta_oznaka payer \<noteq> valuta_oznaka recipient
        then Some (net, k, prov, valuta_oznaka recipient) else None)"

definition repo_CreateTransferIntent :: "env \<Rightarrow> int \<Rightarrow> CreateTransferIntentInput \<Rightarrow> (PaymentIntent \<times> int) dbp" where
  "repo_CreateTransferIntent E n input = bnd (intent_by_key E (ct_IdempotencyKey input)) (\<lambda>existing. case existing of
     Some p \<Rightarrow> ret (existing_answer p)
   | None \<Rightarrow>
     if ct_RacunPlatiocaID input = ct_RacunPrimaocaID input then fail ErrSameAccount
     else bnd (account_where (owned (ct_RacunPlatiocaID input) (ct_InitiatedByUserID input))) (\<lambda>payer. case payer of
       None \<Rightarrow> fail ErrAccountNotOwned
     | Some payer \<Rightarrow>
       bnd (account_where (owned (ct_RacunPrimaocaID input) (ct_InitiatedByUserID input))) (\<lambda>recipient. case recipient of
         None \<Rightarrow> fail ErrRecipientAccountInvalid
       | Some recipient \<Rightarrow>
         (case checkFunds payer (ct_Iznos input) of Some e \<Rightarrow> fail e
          | None \<Rightarrow> bnd (gets now_utc) (\<lambda>now.
            create_rows E (ct_InitiatedByUserID input) (ct_RacunPlatiocaID input) PRENOS
              (JObj [(''racun_primaoca_id'', JNum (of_int (ct_RacunPrimaocaID input)))]) (ct_IdempotencyKey input) (\<lambda>actionID.
                new_intent E (ct_IdempotencyKey input) (generateBrojNaloga n) PRENOS payer
                  (Some (ct_RacunPrimaocaID input)) (broj_racuna recipient) ''Interni prenos'' (ct_Iznos input)
                  (transfer_conversion input payer recipient) ([], [], ct_SvrhaPlacanja input)
                  (ct_InitiatedByUserID input) actionID now))))))"

section \<open>Executing a payment\<close>

definition update_intent :: "int \<Rightarrow> (PaymentIntent \<Rightarrow> PaymentIntent) \<Rightarrow> unit dbp" where
  "update_intent i f = stmt (\<lambda>s. Some ((), s\<lparr>payment_intents := upd_where (\<lambda>p. pi_ID p = i) f (payment_intents s)\<rparr>))"

definition reject_intent :: "string \<Rightarrow> PaymentIntent \<Rightarrow> PaymentIntent" where
  "reject_intent why p = p\<lparr>pi_Status := ODBIJENO, pi_FailedReason := why\<rparr>"

text \<open>The three updates of an account: the payer's debit, and a change of balance.\<close>

definition debit_payer :: "env \<Rightarrow> decimal \<Rightarrow> racun \<Rightarrow> racun" where
  "debit_payer E x r = r\<lparr>stanje_racuna := stanje_racuna r - x, dnevna_potrosnja := round2 E (dnevna_potrosnja r + x),
     mesecna_potrosnja := round2 E (mesecna_potrosnja r + x)\<rparr>"

definition fits_spending :: "racun \<Rightarrow> bool" where
  "fits_spending r \<longleftrightarrow> \<bar>dnevna_potrosnja r\<bar> < 10 ^ 13 \<and> \<bar>mesecna_potrosnja r\<bar> < 10 ^ 13"

definition active_racun :: "int \<Rightarrow> racun \<Rightarrow> bool" where
  "active_racun i r \<longleftrightarrow> r_id r = i \<and> r_status r = ''AKTIVAN''"

definition update_payer :: "env \<Rightarrow> int \<Rightarrow> decimal \<Rightarrow> unit dbp" where
  "update_payer E i x = stmt (\<lambda>s. let f = (\<lambda>r. store_racun E (debit_payer E x r)) in
     if list_all (\<lambda>r. active_racun i r \<longrightarrow> fits_racun (f r) \<and> fits_spending (f r)) (racuni s)
     then Some ((), s\<lparr>racuni := upd_where (active_racun i) f (racuni s)\<rparr>) else None)"

definition change_balance :: "env \<Rightarrow> int \<Rightarrow> decimal \<Rightarrow> unit dbp" where
  "change_balance E i x = bnd (update_racun E (active_racun i) (\<lambda>r. r\<lparr>stanje_racuna := stanje_racuna r + x\<rparr>)) (\<lambda>_. ret ())"

definition entry :: "env \<Rightarrow> string \<Rightarrow> int \<Rightarrow> decimal \<Rightarrow> unit dbp" where
  "entry E tip i x = insert_transakcije E [\<lparr>t_racun_id = i, tip_transakcije = tip, t_iznos = x\<rparr>]"

text \<open>Whether the amounts differ, so that the treasury stands between the accounts; its two accounts.\<close>

definition isCrossCurrency :: "PaymentIntent \<Rightarrow> bool" where
  "isCrossCurrency p \<longleftrightarrow> pi_RacunPrimaocaID p \<noteq> None \<and> (case pi_KrajnjiIznos p of None \<Rightarrow> False
     | Some k \<Rightarrow> fl64 k > 0 \<and> fl64 k \<noteq> fl64 (pi_Iznos p))"

definition creditAmount :: "PaymentIntent \<Rightarrow> float64" where
  "creditAmount p = (case pi_KrajnjiIznos p of None \<Rightarrow> fl64 (pi_Iznos p)
     | Some k \<Rightarrow> if fl64 k > 0 \<and> fl64 k \<noteq> fl64 (pi_Iznos p) then fl64 k else fl64 (pi_Iznos p))"

definition treasury_of :: "string \<Rightarrow> db \<Rightarrow> int" where
  "treasury_of oznaka s = (case rev (filter (\<lambda>r. id_vlasnika r = 2 \<and> r_status r = ''AKTIVAN'' \<and> valuta_oznaka r = oznaka)
     (racuni s)) of [] \<Rightarrow> 0 | r # _ \<Rightarrow> r_id r)"

definition treasuries :: "PaymentIntent \<Rightarrow> (int \<times> int) dbp" where
  "treasuries p = (if isCrossCurrency p
     then bnd (query (\<lambda>s. case pi_RacunPrimaocaID p of None \<Rightarrow> [] | Some i \<Rightarrow>
         (case racun_of s i of None \<Rightarrow> [] | Some r \<Rightarrow> valuta_oznaka r))) (\<lambda>recCurrency.
       bnd (query (\<lambda>s. (treasury_of (pi_Valuta p) s, treasury_of recCurrency s))) (\<lambda>(bankPayer, bankRecipient).
         if bankPayer = 0 \<or> bankRecipient = 0 then fail (Errorf ''trezorski racuni'') else ret (bankPayer, bankRecipient)))
     else ret (0, 0))"

text \<open>Steps 10 to 13: the movements of money, then the intent and the request are closed.\<close>

definition treasury_legs :: "env \<Rightarrow> PaymentIntent \<Rightarrow> int \<times> int \<Rightarrow> decimal \<Rightarrow> decimal \<Rightarrow> unit dbp" where
  "treasury_legs E intent banks iznos credit = (if isCrossCurrency intent
     then bnd (change_balance E (fst banks) iznos) (\<lambda>_.
       bnd (entry E ''UPLATA'' (fst banks) iznos) (\<lambda>_.
       bnd (change_balance E (snd banks) (- credit)) (\<lambda>_.
         entry E ''ISPLATA'' (snd banks) credit)))
     else ret ())"

definition credit_recipient :: "env \<Rightarrow> PaymentIntent \<Rightarrow> bool \<Rightarrow> decimal \<Rightarrow> unit dbp" where
  "credit_recipient E intent found credit = (case pi_RacunPrimaocaID intent of None \<Rightarrow> ret ()
     | Some i \<Rightarrow> if found then bnd (change_balance E i credit) (\<lambda>_. entry E ''UPLATA'' i credit) else ret ())"

definition move_money :: "env \<Rightarrow> PaymentIntent \<Rightarrow> int \<times> int \<Rightarrow> bool \<Rightarrow> unit dbp" where
  "move_money E intent banks found =
     (let iznos = newFromFloat E (fl64 (pi_Iznos intent)); credit = newFromFloat E (creditAmount intent) in
      bnd (update_payer E (pi_RacunPlatiocaID intent) iznos) (\<lambda>_.
      bnd (entry E ''ISPLATA'' (pi_RacunPlatiocaID intent) iznos) (\<lambda>_.
      bnd (treasury_legs E intent banks iznos credit) (\<lambda>_. credit_recipient E intent found credit))))"

definition executed_intent :: "env \<Rightarrow> int \<Rightarrow> float64 \<Rightarrow> PaymentIntent \<Rightarrow> PaymentIntent" where
  "executed_intent E now credit p = p\<lparr>pi_Status := REALIZOVANO, pi_KrajnjiIznos := Some (round4 E (newFromFloat E credit)),
     pi_VerifiedAt := Some (storeTime E now), pi_ExecutedAt := Some (storeTime E now)\<rparr>"

text \<open>The answer carries the values as computed, the row as stored.\<close>

definition answered_intent :: "env \<Rightarrow> int \<Rightarrow> float64 \<Rightarrow> PaymentIntent \<Rightarrow> PaymentIntent" where
  "answered_intent E now credit p = p\<lparr>pi_Status := REALIZOVANO, pi_KrajnjiIznos := Some (newFromFloat E credit),
     pi_VerifiedAt := Some now, pi_ExecutedAt := Some now\<rparr>"

definition complete_intent :: "env \<Rightarrow> int \<Rightarrow> int \<Rightarrow> float64 \<Rightarrow> unit dbp" where
  "complete_intent E i now credit = stmt (\<lambda>s. if \<bar>round4 E (newFromFloat E credit)\<bar> < 10 ^ 11
     then Some ((), s\<lparr>payment_intents := upd_where (\<lambda>p. pi_ID p = i) (executed_intent E now credit) (payment_intents s)\<rparr>)
     else None)"

definition settle_payment :: "env \<Rightarrow> PaymentIntent \<Rightarrow> int \<Rightarrow> int \<times> int \<Rightarrow> bool \<Rightarrow> PaymentIntent dbp" where
  "settle_payment E intent actionID banks found = bnd (gets now_utc) (\<lambda>now.
     bnd (move_money E intent banks found) (\<lambda>_.
     bnd (complete_intent E (pi_ID intent) now (creditAmount intent)) (\<lambda>_.
     bnd (update_pending actionID (\<lambda>a. a\<lparr>pa_status := PaCancelled\<rparr>)) (\<lambda>_.
       ret (answered_intent E now (creditAmount intent) intent)))))"

definition execute_payment :: "env \<Rightarrow> PaymentIntent \<Rightarrow> int \<Rightarrow> PaymentIntent dbp" where
  "execute_payment E intent actionID = bnd (treasuries intent) (\<lambda>banks.
     bnd (query (\<lambda>s. (racun_of s (pi_RacunPlatiocaID intent), case pi_RacunPrimaocaID intent of None \<Rightarrow> False
         | Some i \<Rightarrow> racun_of s i \<noteq> None))) (\<lambda>(payer, found). case payer of
       None \<Rightarrow> fail ErrAccountNotOwned
     | Some payer \<Rightarrow>
       if r_status payer \<noteq> ''AKTIVAN'' then fail ErrAccountNotOwned
       else case checkFunds payer (fl64 (pi_Iznos intent)) of Some e \<Rightarrow> fail e
       | None \<Rightarrow> settle_payment E intent actionID banks found))"

text \<open>The body of the transaction. A failure that has to be recorded is a value, so that it is committed.\<close>

definition verify_code :: "env \<Rightarrow> string \<Rightarrow> PaymentIntent \<Rightarrow> pending_action \<Rightarrow> (err + PaymentIntent) dbp" where
  "verify_code E code intent action = bnd (gets now_utc) (\<lambda>now.
     if code_expired now action
     then bnd (ignore (update_pending (pa_id action) (\<lambda>a. a\<lparr>pa_status := PaCancelled\<rparr>))) (\<lambda>_.
       bnd (ignore (update_intent (pi_ID intent) (reject_intent ''Verifikacioni kod je istekao''))) (\<lambda>_.
         ret (Inl ErrCodeExpired)))
     else if pa_code action \<noteq> Some code
     then let newAttempts = pa_attempts action + 1 in
       bnd (if newAttempts \<ge> 3
            then ignore (update_intent (pi_ID intent) (reject_intent ''Previse neuspesnih pokusaja''))
            else ret ()) (\<lambda>_.
       bnd (ignore (update_pending (pa_id action) (\<lambda>a. a\<lparr>pa_attempts := newAttempts,
           pa_status := (if newAttempts \<ge> 3 then PaCancelled else pa_status a)\<rparr>))) (\<lambda>_.
         ret (Inl (if newAttempts \<ge> 3 then ErrTooManyAttempts else ErrWrongCode))))
     else bnd (execute_payment E intent (pa_id action)) (\<lambda>done. ret (Inr done)))"

definition verify_intent :: "env \<Rightarrow> string \<Rightarrow> int \<Rightarrow> PaymentIntent \<Rightarrow> (err + PaymentIntent) dbp" where
  "verify_intent E code userID intent =
     (if pi_ID intent = 0 \<or> pi_InitiatedByUserID intent \<noteq> userID then fail ErrPaymentIntentNotFound
      else if pi_Status intent = REALIZOVANO then ret (Inr intent)
      else if pi_Status intent = ODBIJENO then fail ErrPaymentAlreadyFailed
      else case pi_PendingActionID intent of None \<Rightarrow> fail ErrPaymentIntentNotFound
      | Some actionID \<Rightarrow> bnd (query (pending_of actionID userID)) (\<lambda>arow. case arow of
          None \<Rightarrow> fail ErrPendingNotFound
        | Some action \<Rightarrow>
          if pa_id action = 0 then fail ErrPendingNotFound
          else if pa_status action = PaCancelled then fail ErrTooManyAttempts
          else if pa_status action \<noteq> PaApproved then fail ErrPendingNotFound
          else verify_code E code intent action))"

definition verify_body :: "env \<Rightarrow> int \<Rightarrow> string \<Rightarrow> int \<Rightarrow> (err + PaymentIntent) dbp" where
  "verify_body E intentID code userID =
     bnd (query (\<lambda>s. List.find (\<lambda>p. pi_ID p = intentID) (payment_intents s))) (\<lambda>row. case row of
       None \<Rightarrow> fail ErrPaymentIntentNotFound | Some intent \<Rightarrow> verify_intent E code userID intent)"

definition repo_VerifyAndExecute :: "env \<Rightarrow> int \<Rightarrow> string \<Rightarrow> int \<Rightarrow> PaymentIntent dbp" where
  "repo_VerifyAndExecute E intentID code userID = bnd (in_tx (verify_body E intentID code userID)) (\<lambda>r. case r of
     Inl failureErr \<Rightarrow> fail failureErr | Inr finalIntent \<Rightarrow> ret finalIntent)"

definition payments_GetByID :: "int \<Rightarrow> int \<Rightarrow> PaymentIntent dbp" where
  "payments_GetByID i userID = bnd (query (\<lambda>s. List.find (\<lambda>p. pi_ID p = i \<and> pi_InitiatedByUserID p = userID) (payment_intents s)))
     (\<lambda>r. case r of None \<Rightarrow> fail ErrPaymentIntentNotFound | Some p \<Rightarrow> ret p)"

record PaymentHistoryFilter =
  hf_DateFrom :: "int option"
  hf_DateTo :: "int option"
  hf_MinIznos :: "float64 option"
  hf_MaxIznos :: "float64 option"
  hf_Status :: "IntentStatus option"

definition history_match :: "env \<Rightarrow> PaymentHistoryFilter \<Rightarrow> PaymentIntent \<Rightarrow> bool" where
  "history_match E h p \<longleftrightarrow> (case hf_DateFrom h of None \<Rightarrow> True | Some t \<Rightarrow> pi_CreatedAt p \<ge> storeTime E t) \<and>
     (case hf_DateTo h of None \<Rightarrow> True | Some t \<Rightarrow> pi_CreatedAt p \<le> storeTime E t) \<and>
     (case hf_MinIznos h of None \<Rightarrow> True | Some x \<Rightarrow> pi_Iznos p \<ge> newFromFloat E x) \<and>
     (case hf_MaxIznos h of None \<Rightarrow> True | Some x \<Rightarrow> pi_Iznos p \<le> newFromFloat E x) \<and>
     (case hf_Status h of None \<Rightarrow> True | Some st \<Rightarrow> pi_Status p = st)"

definition GetHistory :: "env \<Rightarrow> int \<Rightarrow> PaymentHistoryFilter \<Rightarrow> PaymentIntent list dbp" where
  "GetHistory E userID h = query (\<lambda>s. sort_key (\<lambda>p. - pi_CreatedAt p)
     (filter (\<lambda>p. pi_InitiatedByUserID p = userID \<and> history_match E h p) (payment_intents s)))"

section \<open>The service\<close>

text \<open>\<open>unicode.IsDigit\<close> over the runes of a text: an ASCII digit, or one of the digits that UTF-8 writes with two bytes
  (Arabic-Indic, Extended Arabic-Indic, N'Ko). Longer runes cannot stand in a code, which has three bytes
  and starts with \<open>2\<close>.\<close>

fun all_digits :: "string \<Rightarrow> bool" where
  "all_digits [] = True"
| "all_digits [c] = (of_char c \<in> {48 .. 57 :: nat})"
| "all_digits (c # d # cs) =
     (if of_char c \<in> {48 .. 57 :: nat} then all_digits (d # cs)
      else if of_char c \<in> {194 .. 223 :: nat} \<and> of_char d \<in> {128 .. 191 :: nat}
      then (let n = (of_char c - 192) * 64 + (of_char d - 128) :: nat in
        (n \<in> {1632 .. 1641} \<or> n \<in> {1776 .. 1785} \<or> n \<in> {1984 .. 1993}) \<and> all_digits cs)
      else False)"

definition validateSifraPlacanja :: "string \<Rightarrow> err option" where
  "validateSifraPlacanja sifra =
     (if length sifra \<noteq> 3 then Some ErrInvalidPaymentCode
      else if \<not> all_digits sifra then Some ErrInvalidPaymentCode
      else if hd sifra \<noteq> CHR ''2'' then Some ErrInvalidPaymentCode else None)"

definition CreatePaymentIntent :: "env \<Rightarrow> int \<Rightarrow> CreatePaymentIntentInput \<Rightarrow> (PaymentIntent \<times> int) dbp" where
  "CreatePaymentIntent E n input = (case validateSifraPlacanja (cp_SifraPlacanja input) of Some e \<Rightarrow> fail e
   | None \<Rightarrow>
     if cp_NazivPrimaoca input = [] then fail (Errorf ''naziv primaoca'')
     else if cp_BrojRacunaPrimaoca input = [] then fail (Errorf ''broj racuna primaoca'')
     else if cp_Iznos input \<le> 0 then fail (Errorf ''iznos'')
     else if cp_IdempotencyKey input = [] then fail (Errorf ''idempotency key'')
     else CreateIntent E n input)"

definition CreateTransferIntent :: "env \<Rightarrow> int \<Rightarrow> CreateTransferIntentInput \<Rightarrow> (PaymentIntent \<times> int) dbp" where
  "CreateTransferIntent E n input =
     (if ct_Iznos input \<le> 0 then fail (Errorf ''iznos'')
      else if ct_RacunPlatiocaID input = ct_RacunPrimaocaID input then fail ErrSameAccount
      else if ct_IdempotencyKey input = [] then fail (Errorf ''idempotency key'')
      else repo_CreateTransferIntent E n input)"

definition VerifyAndExecute :: "env \<Rightarrow> int \<Rightarrow> string \<Rightarrow> int \<Rightarrow> PaymentIntent dbp" where
  "VerifyAndExecute E intentID code userID =
     (if code = [] then fail (Errorf ''verifikacioni kod'') else repo_VerifyAndExecute E intentID code userID)"

end
