(* ===== verification/Account_Properties.thy ===== *)
theory Account_Properties
  imports Accounts Interbank_Coordinator
begin

text \<open>
  What holds of accounts: the numbers they are opened with, the shape of the table, and the confirmation of
  limit changes by code.
\<close>

section \<open>Account numbers\<close>

definition is_digit :: "char \<Rightarrow> bool" where
  "is_digit c \<longleftrightarrow> digit_val c \<noteq> None"

lemma digit_char_val: "d < 10 \<Longrightarrow> is_digit (digit_char d)"
  by (simp add: is_digit_def digit_val_digit_char)

lemma digits_are_digits: "list_all is_digit (digits w n)"
  by (induction w n rule: digits.induct) (simp_all add: digit_char_val)

lemma digit_sum_append [simp]: "digit_sum (xs @ ys) = digit_sum xs + digit_sum ys"
  by (simp add: digit_sum_def)

lemma digit_sum_digit: "d < 10 \<Longrightarrow> digit_sum [digit_char d] = int d"
  by (simp add: digit_sum_def digit_char_def)

lemma FormatInt_digit: "0 \<le> c \<Longrightarrow> c \<le> 9 \<Longrightarrow> FormatInt c = [digit_char (nat c)]"
  by (simp add: FormatInt_def nat_str.simps)

lemma accountTypePrefix_shape:
  assumes "accountTypePrefix k v p = Inr prefix"
  shows "length prefix = 9 \<and> list_all is_digit prefix \<and> take (length ''666'') prefix = ''666''"
  using assms by (auto simp: accountTypePrefix_def Let_def is_digit_def digit_val_def split: if_splits)

lemma check_digit: "((s :: int) + (11 - s mod 11) mod 11) mod 11 = 0"
  by presburger

lemma generateAccountNumber_shape:
  assumes "generateAccountNumber prefix draws = Some number" and "list_all (\<lambda>n. n < 10 ^ 8) draws"
  shows "\<exists>tail. number = prefix @ tail \<and> length tail = 9 \<and> list_all is_digit tail \<and> digit_sum number mod 11 = 0"
  using assms
proof (induction draws)
  case (Cons n ns)
  have r: "appendInt (int n) 8 = digits 8 n" using Cons.prems(2) by (simp add: appendInt_def)
  define s where "s = digit_sum prefix + digit_sum (digits 8 n)"
  define c where "c = (11 - s mod 11) mod 11"
  show ?case
  proof (cases "c > 9")
    case True
    with Cons show ?thesis by (simp add: Let_def r s_def c_def)
  next
    case False
    then have c: "0 \<le> c" "c \<le> 9" by (simp_all add: c_def)
    have "generateAccountNumber prefix (n # ns) = Some (prefix @ digits 8 n @ FormatInt c)"
      using False by (simp add: Let_def r s_def c_def)
    with Cons.prems(1) have num: "number = prefix @ digits 8 n @ [digit_char (nat c)]" by (simp add: FormatInt_digit [OF c])
    have d: "nat c < 10" using c by linarith
    have "digit_sum number = s + c" using c by (simp add: num s_def digit_sum_digit [OF d])
    moreover have "(s + c) mod 11 = 0" unfolding c_def by (rule check_digit)
    ultimately show ?thesis
      using num d by (intro exI [of _ "digits 8 n @ [digit_char (nat c)]"]) (simp add: digits_are_digits digit_char_val)
  qed
qed simp

text \<open>C24. Every number an account can be opened with has eighteen digits, starts with the bank's code, the
  branch and the type of the account, and its digits add up to a multiple of eleven; the coordinator of
  payments between banks, configured with the bank's code, takes it for an account of this bank.\<close>

theorem account_number_valid:
  assumes "accountTypePrefix kategorija vrsta podvrsta = Inr prefix"
    and "generateAccountNumber prefix draws = Some number" and "list_all (\<lambda>n. n < 10 ^ 8) draws"
  shows "length number = 18 \<and> list_all is_digit number \<and> take 9 number = prefix \<and> digit_sum number mod 11 = 0 \<and>
    (accountPrefix B = ''666'' \<longrightarrow> IsLocalAccount B number)"
proof -
  note p = accountTypePrefix_shape [OF assms(1)]
  obtain tail where t: "number = prefix @ tail" "length tail = 9" "list_all is_digit tail" "digit_sum number mod 11 = 0"
    using generateAccountNumber_shape [OF assms(2,3)] by (elim exE conjE)
  have "number \<noteq> []" using p t(1) by auto
  with p t show ?thesis by (simp add: IsLocalAccount_def)
qed

lemma digits_numeral: "digits (numeral k) n = digits (pred_numeral k) (n div 10) @ [digit_char (n mod 10)]"
  unfolding numeral_eq_Suc [of k] by (rule digits.simps(2))

theorem account_number_valid_witness:
  "\<exists>number. generateAccountNumber ''666000112'' [7] = Some number \<and> length number = 18 \<and> digit_sum number mod 11 = 0"
proof -
  have p: "accountTypePrefix ''TEKUCI'' ''POSLOVNI'' [] = Inr ''666000112''" by (simp add: accountTypePrefix_def)
  obtain number where g: "generateAccountNumber ''666000112'' [7] = Some number"
    by (simp add: Let_def appendInt_def digits_numeral digit_sum_def digit_char_def)
  from account_number_valid [OF p g] g show ?thesis by simp
qed

section \<open>Codes for limit changes\<close>

lemma atomic_VerifyAndApplyLimit: "atomic core (VerifyAndApplyLimit E v a code)"
  unfolding VerifyAndApplyLimit_def by (rule atomic_in_tx)

lemma wrong_code_fails:
  assumes m: "pending_of a v s = Some m" and "pa_code m \<noteq> Some code"
  shows "\<exists>e. fst (VerifyAndApplyLimit E v a code s) = Inl e"
proof (rule ccontr)
  assume "\<nexists>e. fst (VerifyAndApplyLimit E v a code s) = Inl e"
  then obtain u s' where "VerifyAndApplyLimit E v a code s = (Inr u, s')"
    by (cases "VerifyAndApplyLimit E v a code s"; cases "fst (VerifyAndApplyLimit E v a code s)") auto
  then obtain s1 s2 m' where "pending_of a v (bump (begin_tx s)) = Some m'" "apply_limit E a code m' s1 = (Inr u, s2)"
    unfolding VerifyAndApplyLimit_def
    by (auto elim!: in_tx_InrE bnd_InrE dest!: query_InrD split: option.splits if_splits)
  moreover from this(1) m have "m' = m" by (simp add: pending_of_def)
  ultimately show False
    using assms(2) by (auto simp: apply_limit_def Let_def elim!: bnd_InrE split: if_splits)
qed

text \<open>C25. Wrong codes for a limit change are not counted: the attempt counter and the cancellation after
  the third failure are written inside the transaction that the error undoes, so after any number of wrong
  guesses the request stands as it was, approved and open to the next guess.\<close>

theorem limit_guesses_not_counted:
  assumes "pending_of a v s = Some m" and "list_all (\<lambda>c. pa_code m \<noteq> Some c) guesses"
  shows "core (fold (\<lambda>c s. snd (VerifyAndApplyLimit E v a c s)) guesses s) = core s"
  using assms
proof (induction guesses arbitrary: s)
  case (Cons c cs)
  let ?s' = "snd (VerifyAndApplyLimit E v a c s)"
  from wrong_code_fails [of a v s m c E] Cons.prems obtain e where "VerifyAndApplyLimit E v a c s = (Inl e, ?s')"
    by (auto simp: prod_eq_iff)
  from atomicD [OF atomic_VerifyAndApplyLimit this] have k: "core ?s' = core s" .
  then have "pending_of a v ?s' = Some m" using Cons.prems(1) by (simp add: core_def pending_of_def)
  with Cons.IH [of ?s'] Cons.prems k show ?case by simp
qed simp

definition sample_request :: pending_action where
  "sample_request = \<lparr>pa_id = 1, pa_vlasnik_id = 7, pa_racun_id = 10, pa_action_type = PROMENA_LIMITA,
     pa_params = limit_params 500 9000, pa_status = PaApproved, pa_code = Some ''123456'', pa_expires_at = Some 100,
     pa_attempts = 0, pa_created_at = 0\<rparr>"

definition sample_requests :: db where
  "sample_requests = sample_db\<lparr>pending_actions := [sample_request], pending_action_seq := 2\<rparr>"

theorem limit_guesses_not_counted_witness:
  "pending_of 1 7 (fold (\<lambda>c s. snd (VerifyAndApplyLimit sample_env 7 1 c s)) [''000000'', ''000001'', ''000002'', ''000003'']
     sample_requests) = Some sample_request"
proof -
  have m: "pending_of 1 7 sample_requests = Some sample_request"
    by (simp add: pending_of_def sample_requests_def sample_request_def)
  from limit_guesses_not_counted [OF m, of "[''000000'', ''000001'', ''000002'', ''000003'']" sample_env] m show ?thesis
    by (simp add: sample_request_def core_def pending_of_def)
qed

lemma update_limits_ok:
  assumes "no_faults s" and "list_all (\<lambda>r. r_id r = i \<and> r_status r = ''AKTIVAN'' \<longrightarrow> fits_limits (set_limits E d m r)) (racuni s)"
  shows "\<exists>s'. update_limits E i d m s = (Inr (), s') \<and> no_faults s' \<and> pending_actions s' = pending_actions s \<and>
    racuni s' = (if d \<ge> 0 \<or> m \<ge> 0 then upd_where (\<lambda>r. r_id r = i \<and> r_status r = ''AKTIVAN'') (set_limits E d m) (racuni s) else racuni s)"
  using assms by (simp add: update_limits_def stmt_ok Let_def)

lemma update_pending_ok:
  "no_faults s \<Longrightarrow> update_pending i f s = (Inr (), (bump s)\<lparr>pending_actions := upd_where (\<lambda>a. pa_id a = i) f (pending_actions s)\<rparr>)"
  by (simp add: update_pending_def stmt_ok)

text \<open>The effect of the right code in time.\<close>

lemma limit_change_applied:
  assumes h: "no_faults s" and m: "pending_of a v s = Some m" "pa_status m = PaApproved" "\<not> code_expired (now_utc s) m"
    "pa_code m = Some code" and l: "limitParams (pa_params m) = Some (d, l)" "d \<ge> 0 \<or> l \<ge> 0"
    and f: "list_all (\<lambda>r. r_id r = pa_racun_id m \<and> r_status r = ''AKTIVAN'' \<longrightarrow> fits_limits (set_limits E d l r)) (racuni s)"
  shows "\<exists>s'. VerifyAndApplyLimit E v a code s = (Inr (), s') \<and>
    racuni s' = upd_where (\<lambda>r. r_id r = pa_racun_id m \<and> r_status r = ''AKTIVAN'') (set_limits E d l) (racuni s) \<and>
    pending_actions s' = upd_where (\<lambda>x. pa_id x = a) (\<lambda>x. x\<lparr>pa_status := PaCancelled\<rparr>) (pending_actions s)"
proof -
  let ?t = "bump (begin_tx s)"
  have t: "no_faults ?t" "now_utc ?t = now_utc s" "racuni ?t = racuni s" using h by simp_all
  have q: "query (pending_of a v) (begin_tx s) = (Inr (Some m), ?t)" using h m(1) by (simp add: query_ok pending_of_def)
  from update_limits_ok [OF t(1) f [folded t(3)]] l(2) t(3) obtain s1 where u: "update_limits E (pa_racun_id m) d l ?t = (Inr (), s1)"
    "no_faults s1" "pending_actions s1 = pending_actions s" "racuni s1 = upd_where (\<lambda>r. r_id r = pa_racun_id m \<and> r_status r = ''AKTIVAN'')
      (set_limits E d l) (racuni s)" by auto
  let ?s2 = "(bump s1)\<lparr>pending_actions := upd_where (\<lambda>x. pa_id x = a) (\<lambda>x. x\<lparr>pa_status := PaCancelled\<rparr>) (pending_actions s1)\<rparr>"
  have "apply_limit E a code m ?t = (Inr (), ?s2)"
    using m l u t by (simp add: apply_limit_def bnd_def gets_def update_pending_ok)
  with q m have "VerifyAndApplyLimit E v a code s = (Inr (), end_tx s (bump ?s2))"
    unfolding VerifyAndApplyLimit_def using h u(2) by (intro in_tx_ok) (simp_all add: bnd_def)
  with u show ?thesis by simp
qed

text \<open>The kind of the request is not looked at: the code of a payment, given to the limit endpoint, sets both limits
  of the payer's account to zero, which means no limit.\<close>

lemma payment_code_lifts_limits:
  assumes "no_faults s" and "pending_of a v s = Some m" "pa_status m = PaApproved" "\<not> code_expired (now_utc s) m"
    "pa_code m = Some code" and "pa_action_type m = PLACANJE" "pa_params m = JObj [(''sifra_placanja'', JStr sifra)]"
    and "numerics E"
  shows "\<exists>s'. VerifyAndApplyLimit E v a code s = (Inr (), s') \<and>
    racuni s' = upd_where (\<lambda>r. r_id r = pa_racun_id m \<and> r_status r = ''AKTIVAN'')
      (\<lambda>r. r\<lparr>dnevni_limit := Some 0, mesecni_limit := Some 0\<rparr>) (racuni s)"
proof -
  have z: "newFromFloat E 0 = 0" "round2 E 0 = 0"
    using numerics.newFromFloat_literal [OF assms(8), of 0] numerics.round2_id [OF assms(8), of 0] by (simp_all add: cents_def)
  have s: "set_limits E 0 0 = (\<lambda>r. r\<lparr>dnevni_limit := Some 0, mesecni_limit := Some 0\<rparr>)"
    by (simp add: fun_eq_iff set_limits_def z)
  have "limitParams (pa_params m) = Some (0, 0)"
    using assms(7) by (simp add: limitParams_def decFloat_def jfield_def)
  from limit_change_applied [OF assms(1-5) this, of E] show ?thesis
    unfolding s by (auto simp: fits_limits_def list_all_iff)
qed

end
