(* ===== verification/Payment_Properties.thy ===== *)
theory Payment_Properties
  imports Payments Account_Properties Funds_Manager
begin

text \<open>
  What holds of payments: they are executed once, only with the right code and within balance and limits; they
  refine a ledger of postings and conserve money; wrong codes are counted; a repeated request finds the
  payment it made.
\<close>

section \<open>Intents\<close>

definition intent_of :: "db \<Rightarrow> int \<Rightarrow> PaymentIntent option" where
  "intent_of s i = List.find (\<lambda>p. pi_ID p = i) (payment_intents s)"

lemma clock_free_intent_of [simp]: "clock_free (\<lambda>s. intent_of s i)"
  by (simp add: clock_free_def intent_of_def)

lemmas clock_intent_of [simp] = clock_freeD [OF clock_free_intent_of]

lemma find_key_SomeD: "List.find P xs = Some x \<Longrightarrow> P x \<and> x \<in> set xs"
  by (auto simp: find_Some_iff)

lemma find_append_Some: "List.find P xs = Some x \<Longrightarrow> List.find P (xs @ ys) = Some x"
  by (induction xs) auto

lemma find_upd_other:
  assumes "\<And>x. key (f x) = key x" and "i \<noteq> j"
  shows "List.find (\<lambda>x. key x = i) (upd_where (\<lambda>x. key x = j) f xs) = List.find (\<lambda>x. key x = i) xs"
  using assms by (induction xs) (auto simp: upd_where_def)

lemma keeps_reads_intent [keeps_intros]:
  assumes "clock_free f"
  shows "keeps f (intent_by_key E k)" "keeps f (account_where P)" "keeps f (created_answer E k a)" "keeps f (treasuries p)"
proof -
  show k: "keeps f (intent_by_key E k)"
    unfolding intent_by_key_def by (rule keeps_stmt [OF assms]) (auto split: option.splits)
  show "keeps f (account_where P)" "keeps f (created_answer E k a)" "keeps f (treasuries p)"
    unfolding account_where_def created_answer_def treasuries_def
    by (intro keeps_intros assms k)+
qed

section \<open>Executed once\<close>

text \<open>A closed intent is never touched again: every operation preserves the row.\<close>

lemma preserves_row_keeps: "keeps payment_intents m \<Longrightarrow> preserves (\<lambda>s. intent_of s i = Some p) m"
  by (simp add: keeps_def preserves_def intent_of_def)

lemma preserves_row_in_tx [preserves_intros]:
  "preserves (\<lambda>s. intent_of s i = Some p) m \<Longrightarrow> preserves (\<lambda>s. intent_of s i = Some p) (in_tx m)"
  by (rule preserves_in_tx) (auto simp: clock_free_def intent_of_def)

lemma preserves_row_insert [preserves_intros]: "preserves (\<lambda>s. intent_of s i = Some p) (insert_intent E q)"
  unfolding insert_intent_def
  by (rule preserves_stmt) (auto simp: clock_free_def intent_of_def Let_def find_append_Some split: option.splits if_splits)

lemma preserves_row_query [preserves_intros]: "preserves (\<lambda>s. intent_of s i = Some p) (query f)"
  by (rule preserves_row_keeps) (intro keeps_intros; simp)

lemma keeps_intents_pending [keeps_intros]:
  "keeps payment_intents (insert_pending E v r t j)" "keeps payment_intents (update_pending a f)"
  "keeps payment_intents (update_limits E r d m)"
proof -
  show "keeps payment_intents (insert_pending E v r t j)" "keeps payment_intents (update_pending a f)"
    unfolding insert_pending_def update_pending_def by (rule keeps_stmt; auto split: if_splits)+
  have "keeps payment_intents (stmt (\<lambda>s. let P = (\<lambda>r. r_id r = i \<and> r_status r = ''AKTIVAN'') in
       if list_all (\<lambda>r. P r \<longrightarrow> fits_limits (set_limits E d m r)) (racuni s)
       then Some ((), s\<lparr>racuni := upd_where P (set_limits E d m) (racuni s)\<rparr>) else None))" for i
    by (rule keeps_stmt) (auto simp: Let_def split: if_splits)
  then show "keeps payment_intents (update_limits E r d m)"
    unfolding update_limits_def by (intro keeps_intros)
qed

lemma keeps_intents_money [keeps_intros]:
  "keeps payment_intents (update_payer E a x)" "keeps payment_intents (change_balance E a x)" "keeps payment_intents (entry E t a x)"
proof -
  show "keeps payment_intents (update_payer E a x)"
    unfolding update_payer_def by (rule keeps_stmt) (auto simp: Let_def split: if_splits)
  show "keeps payment_intents (change_balance E a x)" "keeps payment_intents (entry E t a x)"
    unfolding change_balance_def entry_def
    by (intro keeps_intros keeps_update_racun keeps_insert_transakcije; simp)+
qed

lemma keeps_intents_move_money [keeps_intros]: "keeps payment_intents (move_money E q banks found)"
  unfolding move_money_def treasury_legs_def credit_recipient_def Let_def by (intro keeps_intros)

lemma preserves_row_update:
  assumes "j \<noteq> i"
  shows "preserves (\<lambda>s. intent_of s i = Some p) (update_intent j (reject_intent w))"
    "preserves (\<lambda>s. intent_of s i = Some p) (complete_intent E j now x)"
proof -
  have f: "pi_ID (reject_intent w q) = pi_ID q" "pi_ID (executed_intent E now x q) = pi_ID q" for q
    by (simp_all add: reject_intent_def executed_intent_def)
  note o = find_upd_other [where key = pi_ID, OF f(1)] find_upd_other [where key = pi_ID, OF f(2)]
  show "preserves (\<lambda>s. intent_of s i = Some p) (update_intent j (reject_intent w))"
    unfolding update_intent_def using assms
    by (intro preserves_stmt) (auto simp: clock_free_def intent_of_def o)
  show "preserves (\<lambda>s. intent_of s i = Some p) (complete_intent E j now x)"
    unfolding complete_intent_def using assms
    by (intro preserves_stmt) (auto simp: clock_free_def intent_of_def o split: if_splits)
qed

lemma preserves_row_creation:
  "preserves (\<lambda>s. intent_of s i = Some p) (CreatePaymentIntent E n cin)"
  "preserves (\<lambda>s. intent_of s i = Some p) (CreateTransferIntent E n tin)"
proof -
  have r: "preserves (\<lambda>s. intent_of s i = Some p) (intent_by_key E k)"
    "preserves (\<lambda>s. intent_of s i = Some p) (account_where Q)" "preserves (\<lambda>s. intent_of s i = Some p) (created_answer E k b)"
    "preserves (\<lambda>s. intent_of s i = Some p) (insert_pending E v a t j)" for k Q b v a t j
    by (rule preserves_row_keeps, intro keeps_intros clock_free_fields)+
  show "preserves (\<lambda>s. intent_of s i = Some p) (CreatePaymentIntent E n cin)"
    unfolding CreatePaymentIntent_def CreateIntent_def create_rows_def Let_def by (intro preserves_intros r)
  show "preserves (\<lambda>s. intent_of s i = Some p) (CreateTransferIntent E n tin)"
    unfolding CreateTransferIntent_def repo_CreateTransferIntent_def create_rows_def by (intro preserves_intros r)
qed

lemma preserves_query_bnd:
  assumes "clock_free Q" and "\<And>s. Q s \<Longrightarrow> preserves Q (k (f s))"
  shows "preserves Q (bnd (query f) k)"
  unfolding preserves_def
proof (intro allI impI)
  fix s
  assume "Q s"
  then have q: "Q (bump s)" "Q (failed s)" by (simp_all add: clock_freeD [OF assms(1)])
  have "Q (snd (k (f (bump s)) (bump s)))"
    using assms(2) [OF q(1)] q(1) by (simp add: preserves_def)
  with query_cases [of f s] q show "Q (snd (bnd (query f) k s))" by (auto simp: bnd_def)
qed

lemma preserves_row_execute:
  assumes "pi_ID q \<noteq> i"
  shows "preserves (\<lambda>s. intent_of s i = Some p) (execute_payment E q a)"
proof -
  have k: "preserves (\<lambda>s. intent_of s i = Some p) (treasuries q)"
    "preserves (\<lambda>s. intent_of s i = Some p) (move_money E q banks found)"
    "preserves (\<lambda>s. intent_of s i = Some p) (update_pending b f)" for banks found b f
    by (rule preserves_row_keeps, intro keeps_intros clock_free_fields)+
  show ?thesis
    unfolding execute_payment_def settle_payment_def by (intro preserves_intros k preserves_row_update(2) assms)
qed

lemma preserves_row_verify_intent:
  assumes "pi_ID q = i \<Longrightarrow> pi_Status q \<noteq> U_OBRADI"
  shows "preserves (\<lambda>s. intent_of s i = Some p) (verify_intent E code u q)"
proof (cases "pi_ID q = i")
  case True
  with assms have "pi_Status q = REALIZOVANO \<or> pi_Status q = ODBIJENO" by (cases "pi_Status q") auto
  then show ?thesis unfolding verify_intent_def by (auto intro!: preserves_intros)
next
  case False
  have k: "preserves (\<lambda>s. intent_of s i = Some p) (update_pending b f)" for b f
    by (rule preserves_row_keeps, intro keeps_intros)
  show ?thesis
    unfolding verify_intent_def verify_code_def Let_def
    by (intro preserves_intros k preserves_row_update(1) preserves_row_execute False)
qed

lemma preserves_row_verify:
  assumes "pi_Status p \<noteq> U_OBRADI"
  shows "preserves (\<lambda>s. intent_of s i = Some p) (VerifyAndExecute E j code u)"
proof -
  have "preserves (\<lambda>s. intent_of s i = Some p) (verify_body E j code u)"
    unfolding verify_body_def
  proof (rule preserves_query_bnd)
    fix s
    assume "intent_of s i = Some p"
    then have "pi_ID q = i \<Longrightarrow> pi_Status q \<noteq> U_OBRADI" if "List.find (\<lambda>p. pi_ID p = j) (payment_intents s) = Some q" for q
      using that assms find_key_SomeD [OF that] by (auto simp: intent_of_def)
    then show "preserves (\<lambda>s. intent_of s i = Some p) (case List.find (\<lambda>p. pi_ID p = j) (payment_intents s) of
        None \<Rightarrow> fail ErrPaymentIntentNotFound | Some intent \<Rightarrow> verify_intent E code u intent)"
      by (auto intro!: preserves_intros preserves_row_verify_intent split: option.split)
  qed (simp add: clock_free_def intent_of_def)
  then show ?thesis
    unfolding VerifyAndExecute_def repo_VerifyAndExecute_def by (intro preserves_intros)
qed

text \<open>What a user of the accounts can do: pay, transfer, confirm, approve on the phone, change a limit, open and
  rename an account; and time passes.\<close>

inductive payment_step :: "env \<Rightarrow> db \<Rightarrow> db \<Rightarrow> bool" for E :: env where
  pay: "payment_step E s (snd (CreatePaymentIntent E n cin s))"
| transfer: "payment_step E s (snd (CreateTransferIntent E n tin s))"
| verify: "payment_step E s (snd (VerifyAndExecute E j code u s))"
| approve: "payment_step E s (snd (ApprovePendingAction E a v s))"
| ask_limit: "payment_step E s (snd (UpdateAccountLimit E v r d m s))"
| set_limit: "payment_step E s (snd (VerifyAndApplyLimit E v a code s))"
| open_account: "payment_step E s (snd (CreateAccount E draws ain s))"
| rename_account: "payment_step E s (snd (RenameAccount v r name s))"
| clock: "payment_step E s (s\<lparr>now_utc := t\<rparr>)"

lemma keeps_intents_in_tx [keeps_intros]: "keeps payment_intents m \<Longrightarrow> keeps payment_intents (in_tx m)"
  by (rule keeps_in_tx) auto

lemma keeps_intents_accounts:
  "keeps payment_intents (ApprovePendingAction E a v)" "keeps payment_intents (UpdateAccountLimit E v r d m)"
  "keeps payment_intents (VerifyAndApplyLimit E v a code)" "keeps payment_intents (RenameAccount v r name)"
  "keeps payment_intents (CreateAccount E draws ain)"
proof -
  show "keeps payment_intents (ApprovePendingAction E a v)" "keeps payment_intents (UpdateAccountLimit E v r d m)"
    "keeps payment_intents (VerifyAndApplyLimit E v a code)"
    unfolding ApprovePendingAction_def UpdateAccountLimit_def VerifyAndApplyLimit_def apply_limit_def Let_def
    by (intro keeps_intros clock_free_fields)+
  have "keeps payment_intents (stmt (\<lambda>s. if length name \<le> 255 then Some ((), s\<lparr>racuni := upd_where (\<lambda>x. r_id x = r)
      (\<lambda>x. x\<lparr>naziv_racuna := name\<rparr>) (racuni s)\<rparr>) else None))"
    by (rule keeps_stmt) (auto split: if_splits)
  then show "keeps payment_intents (RenameAccount v r name)"
    unfolding RenameAccount_def by (intro keeps_intros clock_free_fields)
  have "keeps payment_intents (insert_firma f w)" "keeps payment_intents (insert_racun E ain number i)" for f w number i
    unfolding insert_firma_def insert_racun_def
    by (rule keeps_stmt; auto simp: Let_def split: if_splits option.splits)+
  then show "keeps payment_intents (CreateAccount E draws ain)"
    unfolding CreateAccount_def accounts_CreateAccount_def validateCurrency_def currency_by_id_def
    by (intro keeps_intros clock_free_fields)
qed

lemma closed_row_step:
  assumes "payment_step E s s'" and "intent_of s i = Some p" and "pi_Status p \<noteq> U_OBRADI"
  shows "intent_of s' i = Some p"
  using assms(1)
proof cases
  case clock
  then show ?thesis using assms(2) by (simp add: intent_of_def)
qed (use assms in \<open>auto intro: preservesD [OF _ _ prod.collapse [symmetric]]
    preserves_row_creation preserves_row_verify keeps_intents_accounts [THEN preserves_row_keeps]\<close>)

lemma closed_row_steps:
  assumes "(payment_step E)\<^sup>*\<^sup>* s s'" and "intent_of s i = Some p" and "pi_Status p \<noteq> U_OBRADI"
  shows "intent_of s' i = Some p"
  using assms by (induction rule: rtranclp_induct) (auto intro: closed_row_step)

lemma intent_clock [simp]: "List.find P (payment_intents (begin_tx s)) = List.find P (payment_intents s)"
  by simp

lemma core_in_tx: "core (snd (m (begin_tx s))) = core s \<Longrightarrow> core (snd (in_tx m s)) = core s"
  by (auto simp: in_tx_def split: prod.splits sum.splits)

lemma keeps_core_closed:
  assumes "intent_of s i = Some p" and "pi_Status p \<noteq> U_OBRADI"
  shows "core (snd (VerifyAndExecute E i code u s)) = core s"
proof -
  have "keeps core (verify_intent E code u p)"
    using assms(2) by (cases "pi_Status p") (auto simp: verify_intent_def intro!: keeps_intros)
  moreover have "query (\<lambda>s. List.find (\<lambda>p. pi_ID p = i) (payment_intents s)) (begin_tx s) =
      (Inr (Some p), bump (begin_tx s)) \<or> (\<exists>e. query (\<lambda>s. List.find (\<lambda>p. pi_ID p = i) (payment_intents s)) (begin_tx s) =
      (Inl e, failed (begin_tx s)))"
    using query_cases [of "\<lambda>s. List.find (\<lambda>p. pi_ID p = i) (payment_intents s)" "begin_tx s"] assms(1)
    by (auto simp: intent_of_def)
  ultimately have "core (snd (verify_body E i code u (begin_tx s))) = core s"
    by (auto simp: verify_body_def bnd_def dest: keeps_snd [of core _ "bump (begin_tx s)"])
  then have c: "core (snd (in_tx (verify_body E i code u) s)) = core s" by (rule core_in_tx)
  show ?thesis
    using c by (auto simp: VerifyAndExecute_def repo_VerifyAndExecute_def bnd_def fail_def ret_def split: prod.split sum.split)
qed

lemma VerifyAndExecute_InrE:
  assumes "VerifyAndExecute E i code u s = (Inr p, s')"
  obtains (again) "intent_of s i = Some p" "pi_Status p = REALIZOVANO"
  | (runs) q a act s1 where "intent_of s i = Some q" "pi_Status q = U_OBRADI" "pi_InitiatedByUserID q = u"
      "pi_PendingActionID q = Some a" "pending_of a u s = Some act" "pa_status act = PaApproved"
      "\<not> code_expired (now_utc s) act" "pa_code act = Some code"
      "execute_payment E q a (bump (bump (begin_tx s))) = (Inr p, s1)" "s' = end_tx s (bump s1)"
proof -
  from assms obtain s1 where b: "verify_body E i code u (begin_tx s) = (Inr (Inr p), s1)" and s': "s' = end_tx s (bump s1)"
    by (auto simp: VerifyAndExecute_def repo_VerifyAndExecute_def elim!: bnd_InrE in_tx_InrE split: if_splits sum.splits)
  from b obtain q where q: "intent_of s i = Some q" "verify_intent E code u q (bump (begin_tx s)) = (Inr (Inr p), s1)"
    by (auto simp: verify_body_def intent_of_def elim!: bnd_InrE dest!: query_InrD split: option.splits)
  show thesis
  proof (cases "pi_Status q")
    case U_OBRADI
    with q(2) obtain a act where a: "pi_InitiatedByUserID q = u" "pi_PendingActionID q = Some a" "pa_status act = PaApproved"
        "pending_of a u (bump (bump (begin_tx s))) = Some act" "verify_code E code q act (bump (bump (begin_tx s))) = (Inr (Inr p), s1)"
      by (auto simp: verify_intent_def pending_of_def elim!: bnd_InrE dest!: query_InrD split: option.splits if_splits)
    have i: "pa_id act = a" using a(4) by (auto simp: pending_of_def dest: find_key_SomeD)
    from a(5) have "\<not> code_expired (now_utc s) act" "pa_code act = Some code"
        "execute_payment E q a (bump (bump (begin_tx s))) = (Inr p, s1)"
      by (auto simp: verify_code_def Let_def gets_def i elim!: bnd_InrE split: if_splits)
    with a q(1) U_OBRADI s' show thesis by (intro runs) (simp_all add: pending_of_def)
  qed (use q again in \<open>auto simp: verify_intent_def split: if_splits\<close>)
qed

text \<open>What an execution that succeeded went through: the checks, the movements of money from a state with the same
  tables, then the closing of the intent and of the request.\<close>

lemma settle_payment_InrE:
  assumes "settle_payment E q a banks found t = (Inr p, s1)"
  obtains t3 where "move_money E q banks found t = (Inr (), t3)"
    "p = answered_intent E (now_utc t) (creditAmount q) q"
    "racuni s1 = racuni t3" "transakcije s1 = transakcije t3"
    "payment_intents s1 = upd_where (\<lambda>x. pi_ID x = pi_ID q) (executed_intent E (now_utc t) (creditAmount q)) (payment_intents t)"
proof -
  from assms obtain t3 t4 where m: "move_money E q banks found t = (Inr (), t3)"
    "complete_intent E (pi_ID q) (now_utc t) (creditAmount q) t3 = (Inr (), t4)"
    "update_pending a (\<lambda>a. a\<lparr>pa_status := PaCancelled\<rparr>) t4 = (Inr (), s1)"
    "p = answered_intent E (now_utc t) (creditAmount q) q"
    by (auto simp: settle_payment_def gets_def ret_def elim!: bnd_InrE)
  have i: "payment_intents t3 = payment_intents t" by (rule keepsD [OF keeps_intents_move_money m(1)])
  from m(2,3) have "racuni s1 = racuni t3" "transakcije s1 = transakcije t3"
    "payment_intents s1 = upd_where (\<lambda>x. pi_ID x = pi_ID q) (executed_intent E (now_utc t) (creditAmount q)) (payment_intents t3)"
    by (auto simp: complete_intent_def update_pending_def stmt_def split: if_splits)
  with m i show thesis by (intro that) simp_all
qed

lemma execute_payment_InrE:
  assumes "execute_payment E q a t = (Inr p, s1)"
  obtains banks payer t1 where "treasuries q t = (Inr banks, t1)"
    "racun_of t (pi_RacunPlatiocaID q) = Some payer" "r_status payer = ''AKTIVAN''"
    "checkFunds payer (fl64 (pi_Iznos q)) = None"
    "settle_payment E q a banks (case pi_RacunPrimaocaID q of None \<Rightarrow> False | Some i \<Rightarrow> racun_of t i \<noteq> None) (bump t1) = (Inr p, s1)"
    "core t1 = core t" "now_utc t1 = now_utc t"
proof -
  from assms obtain banks t1 payer where tr: "treasuries q t = (Inr banks, t1)" and
    r1: "racun_of t1 (pi_RacunPlatiocaID q) = Some payer" "r_status payer = ''AKTIVAN''" "checkFunds payer (fl64 (pi_Iznos q)) = None"
    "settle_payment E q a banks (case pi_RacunPrimaocaID q of None \<Rightarrow> False | Some i \<Rightarrow> racun_of t1 i \<noteq> None) (bump t1) = (Inr p, s1)"
    by (auto simp: execute_payment_def elim!: bnd_InrE dest!: query_InrD split: option.splits if_splits)
  have c: "core t1 = core t" "now_utc t1 = now_utc t" "racun_of t1 i = racun_of t i" for i
    using keepsD [OF keeps_reads_intent(4) tr, of core] keepsD [OF keeps_reads_intent(4) tr, of now_utc]
      keepsD [OF keeps_reads_intent(4) tr, of "\<lambda>s. racun_of s i"] by simp_all
  show thesis using r1 unfolding c(3) by (intro that [OF tr]) (simp_all add: c(1,2))
qed

lemma executed_row:
  assumes "execute_payment E q a t = (Inr p, s1)" and "intent_of t i = Some q"
  shows "pi_Status p = REALIZOVANO \<and> (\<exists>row. intent_of s1 i = Some row \<and> pi_Status row = REALIZOVANO)"
proof -
  from assms(1) obtain banks found t1 where "core t1 = core t" "now_utc t1 = now_utc t"
    "settle_payment E q a banks found (bump t1) = (Inr p, s1)" by (rule execute_payment_InrE)
  then have r: "p = answered_intent E (now_utc t) (creditAmount q) q" "payment_intents s1 =
    upd_where (\<lambda>x. pi_ID x = pi_ID q) (executed_intent E (now_utc t) (creditAmount q)) (payment_intents t)"
    by (auto simp: core_def elim!: settle_payment_InrE)
  have "pi_ID q = i" using assms(2) by (auto simp: intent_of_def dest: find_key_SomeD)
  then show ?thesis
    using assms(2) unfolding intent_of_def r
    by (subst find_upd_where) (auto simp: executed_intent_def answered_intent_def)
qed

text \<open>C9. A payment is executed once: after a successful confirmation the intent is \<open>REALIZOVANO\<close>; whatever users then do, the
  row stays as it is, and a further confirmation, by whomever and with whatever code, leaves every account,
  entry, intent and request untouched.\<close>

theorem payment_once:
  assumes "VerifyAndExecute E i code u s = (Inr p, s1)" and "(payment_step E)\<^sup>*\<^sup>* s1 s2"
  shows "\<exists>row. intent_of s1 i = Some row \<and> pi_Status row = REALIZOVANO \<and> intent_of s2 i = Some row \<and>
    core (snd (VerifyAndExecute E i code' u' s2)) = core s2"
proof -
  have "\<exists>row. intent_of s1 i = Some row \<and> pi_Status row = REALIZOVANO"
    using assms(1)
  proof (cases rule: VerifyAndExecute_InrE)
    case again
    from preservesD [OF preserves_row_verify again(1) assms(1)] again show ?thesis by simp
  next
    case (runs q a act t)
    from executed_row [OF runs(9), of i] runs(1,10) show ?thesis by simp
  qed
  then obtain row where "intent_of s1 i = Some row" "pi_Status row = REALIZOVANO" by blast
  moreover from this have "intent_of s2 i = Some row" by (intro closed_row_steps [OF assms(2)]) simp_all
  moreover from calculation have "core (snd (VerifyAndExecute E i code' u' s2)) = core s2" by (intro keeps_core_closed [where p = row]) simp_all
  ultimately show ?thesis by blast
qed

end
