(* ===== verification/Payment_Ledger.thy ===== *)
theory Payment_Ledger
  imports Payment_Properties
begin

text \<open>
  Payments against an abstract ledger: a map from active accounts to balances and a journal of postings. A
  confirmed payment is a list of postings; the treasury's accounts stand between two currencies, so the money of
  each currency is conserved.
\<close>

section \<open>The ledger\<close>

type_synonym ledger = "int \<Rightarrow> decimal option"

type_synonym posting = "int \<times> decimal"

definition post :: "posting \<Rightarrow> ledger \<Rightarrow> ledger" where
  "post p B = B(fst p := map_option (\<lambda>b. b + snd p) (B (fst p)))"

definition active_of :: "db \<Rightarrow> int \<Rightarrow> racun option" where
  "active_of s i = (case racun_of s i of None \<Rightarrow> None | Some r \<Rightarrow> if r_status r = ''AKTIVAN'' then Some r else None)"

definition active_ledger :: "db \<Rightarrow> ledger" where
  "active_ledger s i = map_option stanje_racuna (active_of s i)"

definition currency_of :: "db \<Rightarrow> int \<Rightarrow> string option" where
  "currency_of s i = map_option valuta_oznaka (active_of s i)"

definition cents_db :: "db \<Rightarrow> bool" where
  "cents_db s \<longleftrightarrow> list_all (\<lambda>r. cents (stanje_racuna r)) (racuni s)"

text \<open>What the postings add to the money in a currency.\<close>

definition posted_in :: "db \<Rightarrow> string \<Rightarrow> posting list \<Rightarrow> decimal" where
  "posted_in s c ps = (\<Sum>(i, x) \<leftarrow> ps. if currency_of s i = Some c then x else 0)"

text \<open>The journal entry of a posting.\<close>

definition journal :: "posting \<Rightarrow> transakcija" where
  "journal p = \<lparr>t_racun_id = fst p, tip_transakcije = (if snd p < 0 then ''ISPLATA'' else ''UPLATA''), t_iznos = \<bar>snd p\<bar>\<rparr>"

definition posts :: "posting list \<Rightarrow> db \<Rightarrow> db \<Rightarrow> bool" where
  "posts ps s s' \<longleftrightarrow> racun_keys s' = racun_keys s \<and> cents_db s' \<and>
     active_ledger s' = fold post ps (active_ledger s) \<and> (\<forall>c. ukupno c s' = ukupno c s + posted_in s c ps)"

lemma active_of_keys: "racun_keys s' = racun_keys s \<Longrightarrow> currency_of s' = currency_of s"
proof
  fix i
  assume "racun_keys s' = racun_keys s"
  moreover have "currency_of s i = (case List.find (\<lambda>k. fst k = i) (racun_keys s) of None \<Rightarrow> None
    | Some (_, _, _, v, _, st) \<Rightarrow> if st = ''AKTIVAN'' then Some v else None)" for s
  proof -
    have "map_option valuta_oznaka (case List.find (\<lambda>r. r_id r = i) rs of None \<Rightarrow> None
        | Some r \<Rightarrow> if r_status r = ''AKTIVAN'' then Some r else None) =
      (case List.find (\<lambda>k. fst k = i) (map (\<lambda>r. (r_id r, broj_racuna r, id_vlasnika r, valuta_oznaka r, vrsta_racuna r, r_status r)) rs)
        of None \<Rightarrow> None | Some (_, _, _, v, _, st) \<Rightarrow> if st = ''AKTIVAN'' then Some v else None)" for rs
      by (induction rs) auto
    then show ?thesis by (simp only: currency_of_def active_of_def racun_of_def racun_keys_def)
  qed
  ultimately show "currency_of s' i = currency_of s i" by simp
qed

lemma ledger_cong:
  assumes "racuni t = racuni s"
  shows "active_ledger t = active_ledger s" "racun_keys t = racun_keys s" "cents_db t = cents_db s" "ukupno c t = ukupno c s"
    "currency_of t = currency_of s"
  using assms by (simp_all add: ukupno_def racun_keys_def cents_db_def currency_of_def active_ledger_def active_of_def racun_of_def fun_eq_iff)

lemma posts_trans: "posts ps s t \<Longrightarrow> posts qs t u \<Longrightarrow> posts (ps @ qs) s u"
  by (auto simp: posts_def posted_in_def dest: active_of_keys)

lemma posts_refl: "cents_db s \<Longrightarrow> racuni s' = racuni s \<Longrightarrow> posts [] s s'"
  using ledger_cong [of s' s] by (simp add: posts_def posted_in_def)

lemma posts_same_racuni:
  "posts ps s s' \<Longrightarrow> racuni t = racuni s \<Longrightarrow> racuni t' = racuni s' \<Longrightarrow> posts ps t t'"
  using ledger_cong [of t s] ledger_cong [of t' s'] by (simp add: posts_def posted_in_def)

lemma sum_one_active:
  assumes "distinct (map r_id rs)"
  shows "(\<Sum>r \<leftarrow> rs. if active_racun i r \<and> valuta_oznaka r = c then x else 0) =
    (case List.find (\<lambda>r. r_id r = i) rs of None \<Rightarrow> 0
     | Some r \<Rightarrow> if r_status r = ''AKTIVAN'' \<and> valuta_oznaka r = c then x else (0 :: rat))"
  using assms
proof (induction rs)
  case (Cons a rs)
  show ?case
  proof (cases "r_id a = i")
    case True
    with Cons.prems have "i \<notin> r_id ` set rs" by simp
    then have "\<forall>r \<in> set rs. r_id r \<noteq> i" by blast
    then have "(\<Sum>r \<leftarrow> rs. if active_racun i r \<and> valuta_oznaka r = c then x else 0) = 0"
      by (induction rs) (auto simp: active_racun_def)
    with True show ?thesis by (auto simp: active_racun_def)
  qed (use Cons in \<open>simp add: active_racun_def\<close>)
qed simp

lemma posts_update:
  assumes u: "ids_unique s" and c: "cents_db s" "cents x" and s': "racuni s' = upd_where (active_racun i) f (racuni s)"
    and f: "same_key f" "\<And>r. r \<in> set (racuni s) \<Longrightarrow> stanje_racuna (f r) = stanje_racuna r + x"
  shows "posts [(i, x)] s s'"
  unfolding posts_def
proof (intro conjI allI)
  show "racun_keys s' = racun_keys s"
    using f(1) by (auto simp: racun_keys_def s' upd_where_def same_key_def)
  show "cents_db s'"
    using c f(2) unfolding cents_db_def s' by (intro list_all_upd_where) auto
  have r: "racun_of s' j = map_option (\<lambda>r. if active_racun i r then f r else r) (racun_of s j)" for j
    unfolding racun_of_def s' using f(1) by (intro find_upd_where) (simp add: same_key_def)
  show "active_ledger s' = fold post [(i, x)] (active_ledger s)"
  proof
    fix j
    show "active_ledger s' j = fold post [(i, x)] (active_ledger s) j"
      using racun_of_SomeD [of s j] racun_of_SomeD [of s i] f
      by (cases "racun_of s j"; cases "j = i")
        (auto simp: active_ledger_def active_of_def r post_def active_racun_def same_key_def)
  qed
  fix cur
  have d: "distinct (map r_id (racuni s))" using u by (simp add: ids_unique_def)
  have "(\<Sum>r \<leftarrow> upd_where (active_racun i) f rs. if valuta_oznaka r = cur then stanje_racuna r else 0) =
      (\<Sum>r \<leftarrow> rs. if valuta_oznaka r = cur then stanje_racuna r else 0) +
      (\<Sum>r \<leftarrow> rs. if active_racun i r \<and> valuta_oznaka r = cur then x else 0)" if "set rs \<subseteq> set (racuni s)" for rs
    using that f by (induction rs) (auto simp: upd_where_def same_key_def)
  from this [OF order_refl] have "ukupno cur s' = ukupno cur s + (\<Sum>r \<leftarrow> racuni s. if active_racun i r \<and> valuta_oznaka r = cur then x else 0)"
    by (simp add: ukupno_def s')
  also have "(\<Sum>r \<leftarrow> racuni s. if active_racun i r \<and> valuta_oznaka r = cur then x else 0) = posted_in s cur [(i, x)]"
    unfolding sum_one_active [OF d] by (auto simp: posted_in_def currency_of_def active_of_def racun_of_def split: option.splits)
  finally show "ukupno cur s' = ukupno cur s + posted_in s cur [(i, x)]" .
qed

section \<open>A payment is a list of postings\<close>

text \<open>Accounts and journal together.\<close>

definition books :: "posting list \<Rightarrow> db \<Rightarrow> db \<Rightarrow> bool" where
  "books ps s s' \<longleftrightarrow> posts ps s s' \<and> transakcije s' = transakcije s @ map journal ps"

lemma books_trans: "books ps s t \<Longrightarrow> books qs t u \<Longrightarrow> books (ps @ qs) s u"
  by (auto simp: books_def intro: posts_trans)

lemma books_unique: "books ps s t \<Longrightarrow> ids_unique s \<Longrightarrow> ids_unique t \<and> cents_db t"
  by (auto simp: books_def posts_def dest: ids_unique_cong)

lemma entry_InrD:
  "entry E tip i x s = (Inr u, s') \<Longrightarrow> racuni s' = racuni s \<and>
     transakcije s' = transakcije s @ [\<lparr>t_racun_id = i, tip_transakcije = tip, t_iznos = round2 E x\<rparr>]"
  unfolding entry_def by (auto dest!: insert_transakcije_Inr)

context numerics
begin

lemma round2_neg: "\<not> half_cent x \<Longrightarrow> round2 E (- x) = - round2 E x"
  using round2_shift(2) [of 0 x] by simp

lemma books_credit:
  assumes "ids_unique s" "cents_db s" and x: "\<not> half_cent x" "0 < round2 E x"
    and "change_balance E i x s = (Inr u, t)" and "entry E ''UPLATA'' i x t = (Inr u', s')"
  shows "books [(i, round2 E x)] s s'"
proof -
  let ?f = "\<lambda>r. store_racun E (r\<lparr>stanje_racuna := stanje_racuna r + x\<rparr>)"
  have "racuni t = upd_where (active_racun i) ?f (racuni s)" "transakcije t = transakcije s"
    using assms(5) by (auto simp: change_balance_def elim!: bnd_InrE dest!: update_racun_Inr(2))
  moreover from this(1) have "posts [(i, round2 E x)] s t"
    by (rule posts_update [OF assms(1,2) round2_cents])
      (use assms(2) x in \<open>auto simp: same_key_def cents_db_def list_all_iff round2_shift\<close>)
  ultimately show ?thesis
    using entry_InrD [OF assms(6)] x(2) by (auto simp: books_def journal_def intro: posts_same_racuni)
qed

lemma books_debit:
  assumes "ids_unique s" "cents_db s" and x: "\<not> half_cent x" "0 < round2 E x"
    and t: "racuni t = upd_where (active_racun i) f (racuni s)" "transakcije t = transakcije s"
    and f: "same_key f" "\<And>r. stanje_racuna (f r) = round2 E (stanje_racuna r - x)"
    and "entry E ''ISPLATA'' i x t = (Inr u', s')"
  shows "books [(i, - round2 E x)] s s'"
proof -
  have "posts [(i, - round2 E x)] s t"
    using assms(2) x f by (intro posts_update [OF assms(1,2) _ t(1)]) (auto simp: cents_db_def list_all_iff round2_shift round2_cents)
  with t(2) entry_InrD [OF assms(9)] x(2) show ?thesis
    by (auto simp: books_def journal_def intro: posts_same_racuni)
qed

lemma books_payer:
  assumes "ids_unique s" "cents_db s" and "\<not> half_cent x" "0 < round2 E x"
    and "update_payer E i x s = (Inr u, t)" and "entry E ''ISPLATA'' i x t = (Inr u', s')"
  shows "books [(i, - round2 E x)] s s'"
proof -
  have "racuni t = upd_where (active_racun i) (\<lambda>r. store_racun E (debit_payer E x r)) (racuni s) \<and> transakcije t = transakcije s"
    using assms(5) by (auto simp: update_payer_def stmt_def Let_def split: if_splits)
  then show ?thesis
    by (intro books_debit [OF assms(1-4) _ _ _ _ assms(6)]) (auto simp: same_key_def debit_payer_def)
qed

lemma books_treasury_debit:
  assumes "ids_unique s" "cents_db s" and "\<not> half_cent x" "0 < round2 E x"
    and "change_balance E i (- x) s = (Inr u, t)" and "entry E ''ISPLATA'' i x t = (Inr u', s')"
  shows "books [(i, - round2 E x)] s s'"
proof -
  have "racuni t = upd_where (active_racun i) (\<lambda>r. store_racun E (r\<lparr>stanje_racuna := stanje_racuna r + - x\<rparr>)) (racuni s) \<and>
      transakcije t = transakcije s"
    using assms(5) by (auto simp: change_balance_def elim!: bnd_InrE dest!: update_racun_Inr(2))
  then show ?thesis
    by (intro books_debit [OF assms(1-4) _ _ _ _ assms(6)]) (auto simp: same_key_def)
qed

lemma books_empty: "cents_db s \<Longrightarrow> books [] s s"
  by (simp add: books_def posts_refl)

lemma books_treasury_legs:
  assumes s: "ids_unique s" "cents_db s" and "treasury_legs E q banks x y s = (Inr u, s')"
    and x: "\<not> half_cent x" "0 < round2 E x" and y: "\<not> half_cent y" "0 < round2 E y"
  shows "books (if isCrossCurrency q then [(fst banks, round2 E x), (snd banks, - round2 E y)] else []) s s'"
proof (cases "isCrossCurrency q")
  case True
  with assms(3) obtain t1 t2 t3 where t: "change_balance E (fst banks) x s = (Inr (), t1)" "entry E ''UPLATA'' (fst banks) x t1 = (Inr (), t2)"
    "change_balance E (snd banks) (- y) t2 = (Inr (), t3)" "entry E ''ISPLATA'' (snd banks) y t3 = (Inr (), s')"
    by (auto simp: treasury_legs_def elim!: bnd_InrE)
  have 1: "books [(fst banks, round2 E x)] s t2" by (rule books_credit [OF s x t(1,2)])
  from books_unique [OF 1 s(1)] have "books [(snd banks, - round2 E y)] t2 s'"
    by (intro books_treasury_debit [OF _ _ y t(3,4)]) auto
  from books_trans [OF 1 this] True show ?thesis by simp
qed (use assms(3) books_empty [OF s(2)] in \<open>simp add: treasury_legs_def ret_def\<close>)

lemma books_credit_recipient:
  assumes "ids_unique s" "cents_db s" and "credit_recipient E q found y s = (Inr u, s')" and "\<not> half_cent y" "0 < round2 E y"
  shows "books (case pi_RacunPrimaocaID q of None \<Rightarrow> [] | Some i \<Rightarrow> if found then [(i, round2 E y)] else []) s s'"
  using assms(3) books_empty [OF assms(2)]
  by (auto simp: credit_recipient_def ret_def elim!: bnd_InrE intro: books_credit [OF assms(1,2,4,5)] split: option.splits if_splits)

lemma books_move_money:
  assumes s: "ids_unique s" "cents_db s" and m: "move_money E q banks found s = (Inr u, s')"
    and x: "x = newFromFloat E (fl64 (pi_Iznos q))" "\<not> half_cent x" "0 < round2 E x"
    and y: "y = newFromFloat E (creditAmount q)" "\<not> half_cent y" "0 < round2 E y"
  shows "books ([(pi_RacunPlatiocaID q, - round2 E x)] @
    (if isCrossCurrency q then [(fst banks, round2 E x), (snd banks, - round2 E y)] else []) @
    (case pi_RacunPrimaocaID q of None \<Rightarrow> [] | Some i \<Rightarrow> if found then [(i, round2 E y)] else [])) s s'"
proof -
  from m obtain t1 t2 t3 where t: "update_payer E (pi_RacunPlatiocaID q) x s = (Inr (), t1)"
      "entry E ''ISPLATA'' (pi_RacunPlatiocaID q) x t1 = (Inr (), t2)" "treasury_legs E q banks x y t2 = (Inr (), t3)"
      "credit_recipient E q found y t3 = (Inr (), s')"
    unfolding move_money_def Let_def x(1) y(1) by (auto elim!: bnd_InrE)
  note 1 = books_payer [OF s x(2,3) t(1,2)]
  note 2 = books_treasury_legs [OF conjunct1 [OF books_unique [OF 1 s(1)]] conjunct2 [OF books_unique [OF 1 s(1)]] t(3) x(2,3) y(2,3)]
  note u = books_unique [OF 2 conjunct1 [OF books_unique [OF 1 s(1)]]]
  note 3 = books_credit_recipient [OF conjunct1 [OF u] conjunct2 [OF u] t(4) y(2,3)]
  show ?thesis by (rule books_trans [OF 1 books_trans [OF 2 3]])
qed

end

text \<open>The postings of a payment, as the accounts stand when it is confirmed: the amount leaves the payer; between currencies
  the treasury takes it and gives the converted amount from its account in the recipient's currency;
  a recipient in this bank is credited.\<close>

definition recipient_currency :: "db \<Rightarrow> PaymentIntent \<Rightarrow> string" where
  "recipient_currency s q = (case pi_RacunPrimaocaID q of None \<Rightarrow> [] | Some i \<Rightarrow>
     (case racun_of s i of None \<Rightarrow> [] | Some r \<Rightarrow> valuta_oznaka r))"

definition payment_postings :: "env \<Rightarrow> db \<Rightarrow> PaymentIntent \<Rightarrow> posting list" where
  "payment_postings E s q =
     (let iznos = round2 E (newFromFloat E (fl64 (pi_Iznos q))); credit = round2 E (newFromFloat E (creditAmount q)) in
      [(pi_RacunPlatiocaID q, - iznos)] @
      (if isCrossCurrency q then [(treasury_of (pi_Valuta q) s, iznos), (treasury_of (recipient_currency s q) s, - credit)] else []) @
      (case pi_RacunPrimaocaID q of None \<Rightarrow> [] | Some i \<Rightarrow> if racun_of s i \<noteq> None then [(i, credit)] else []))"

text \<open>Neither amount rounds to nothing or ends in exactly half a cent.\<close>

definition payable :: "env \<Rightarrow> PaymentIntent \<Rightarrow> bool" where
  "payable E q \<longleftrightarrow> (let iznos = newFromFloat E (fl64 (pi_Iznos q)); credit = newFromFloat E (creditAmount q) in
     \<not> half_cent iznos \<and> 0 < round2 E iznos \<and> \<not> half_cent credit \<and> 0 < round2 E credit)"

lemma treasuries_InrD:
  assumes "treasuries q s = (Inr banks, s')" and "isCrossCurrency q"
  shows "banks = (treasury_of (pi_Valuta q) s, treasury_of (recipient_currency s q) s) \<and> fst banks \<noteq> 0 \<and> snd banks \<noteq> 0"
  using assms
  by (auto simp: treasuries_def recipient_currency_def treasury_of_def ret_def elim!: bnd_InrE dest!: query_InrD split: if_splits
    cong: option.case_cong)

lemma executed_books:
  assumes "numerics E" "ids_unique t" "cents_db t" "payable E q" and "execute_payment E q a t = (Inr p, s1)"
  shows "books (payment_postings E t q) t s1"
proof -
  from assms(5) obtain banks payer t1 where tr: "treasuries q t = (Inr banks, t1)" "core t1 = core t"
    "settle_payment E q a banks (case pi_RacunPrimaocaID q of None \<Rightarrow> False | Some i \<Rightarrow> racun_of t i \<noteq> None) (bump t1) = (Inr p, s1)"
    by (rule execute_payment_InrE)
  from tr(3) obtain t3 where t3: "move_money E q banks (case pi_RacunPrimaocaID q of None \<Rightarrow> False | Some i \<Rightarrow> racun_of t i \<noteq> None)
      (bump t1) = (Inr (), t3)" "racuni s1 = racuni t3" "transakcije s1 = transakcije t3"
    by (rule settle_payment_InrE)
  have e: "racuni t1 = racuni t" "transakcije t1 = transakcije t" using tr(2) by (simp_all add: core_def)
  then have u: "ids_unique (bump t1)" "cents_db (bump t1)"
    using assms(2,3) by (simp_all add: ids_unique_def cents_db_def)
  let ?x = "newFromFloat E (fl64 (pi_Iznos q))" and ?y = "newFromFloat E (creditAmount q)"
  define ps where "ps = [(pi_RacunPlatiocaID q, - round2 E ?x)] @
    (if isCrossCurrency q then [(fst banks, round2 E ?x), (snd banks, - round2 E ?y)] else []) @
    (case pi_RacunPrimaocaID q of None \<Rightarrow> [] | Some i \<Rightarrow>
      if (case pi_RacunPrimaocaID q of None \<Rightarrow> False | Some i \<Rightarrow> racun_of t i \<noteq> None) then [(i, round2 E ?y)] else [])"
  have "books ps (bump t1) t3" unfolding ps_def
    using assms(4) by (intro numerics.books_move_money [OF assms(1) u t3(1)]) (auto simp: payable_def Let_def)
  moreover have "ps = payment_postings E t q"
    using treasuries_InrD [OF tr(1)] by (auto simp: ps_def payment_postings_def Let_def split: option.split)
  ultimately show ?thesis
    using t3 e by (auto simp: books_def intro: posts_same_racuni)
qed

lemma verified_books:
  assumes "numerics E" and "ids_unique s" "cents_db s" and "intent_of s i = Some q" "pi_Status q = U_OBRADI" "payable E q"
    and "VerifyAndExecute E i code u s = (Inr p, s')"
  shows "books (payment_postings E s q) s s'"
  using assms(7)
proof (cases rule: VerifyAndExecute_InrE)
  case again
  with assms(4,5) show ?thesis by simp
next
  case (runs q' a act s1)
  let ?t = "bump (bump (begin_tx s))"
  have t: "ids_unique ?t" "cents_db ?t" "racuni ?t = racuni s" using assms(2,3) by (simp_all add: cents_db_def)
  from runs assms(4) have "execute_payment E q a ?t = (Inr p, s1)" by simp
  from executed_books [OF assms(1) t(1,2) assms(6) this] have "books (payment_postings E ?t q) ?t s1" .
  moreover have "payment_postings E ?t q = payment_postings E s q"
    unfolding payment_postings_def treasury_of_def recipient_currency_def racun_of_def t(3) ..
  ultimately show ?thesis using runs(10) by (auto simp: books_def intro: posts_same_racuni)
qed

text \<open>C10. A confirmed payment refines the ledger: on the active accounts the balances after it are those before it with
  the postings of the payment applied, and the journal grows by exactly one entry per posting. The only
  assumption on the amounts is that neither ends in exactly half a cent or rounds to nothing.\<close>

theorem payment_refines_ledger:
  assumes "numerics E" and "ids_unique s" "cents_db s" and "intent_of s i = Some q" "pi_Status q = U_OBRADI" "payable E q"
    and "VerifyAndExecute E i code u s = (Inr p, s')"
  shows "active_ledger s' = fold post (payment_postings E s q) (active_ledger s) \<and>
    transakcije s' = transakcije s @ map journal (payment_postings E s q)"
  using verified_books [OF assms] by (simp add: books_def posts_def)

lemma treasury_ofE:
  assumes "treasury_of v s \<noteq> 0"
  obtains r where "treasury_of v s = r_id r" "r \<in> set (racuni s)" "id_vlasnika r = 2" "r_status r = ''AKTIVAN''" "valuta_oznaka r = v"
proof -
  let ?ts = "filter (\<lambda>r. id_vlasnika r = 2 \<and> r_status r = ''AKTIVAN'' \<and> valuta_oznaka r = v) (racuni s)"
  obtain r rs where eq: "rev ?ts = r # rs" using assms by (cases "rev ?ts") (auto simp: treasury_of_def)
  have "r \<in> set ?ts" unfolding set_rev [of ?ts, symmetric] eq by simp
  moreover have "treasury_of v s = r_id r" unfolding treasury_of_def eq by simp
  ultimately show thesis by (intro that) auto
qed

lemma treasury_currency:
  assumes "ids_unique s" and "treasury_of v s \<noteq> 0"
  shows "currency_of s (treasury_of v s) = Some v"
proof -
  obtain r where "treasury_of v s = r_id r" "r \<in> set (racuni s)" "r_status r = ''AKTIVAN''" "valuta_oznaka r = v"
    using assms(2) by (rule treasury_ofE)
  with racun_of_unique [OF assms(1)] show ?thesis by (simp add: currency_of_def active_of_def)
qed

lemma verified_treasuries:
  assumes "intent_of s i = Some q" "pi_Status q = U_OBRADI" "VerifyAndExecute E i code u s = (Inr p, s')" "isCrossCurrency q"
  shows "treasury_of (pi_Valuta q) s \<noteq> 0 \<and> treasury_of (recipient_currency s q) s \<noteq> 0"
  using assms(3)
proof (cases rule: VerifyAndExecute_InrE)
  case (runs q' a act s1)
  let ?t = "bump (bump (begin_tx s))"
  from runs assms(1) have "execute_payment E q a ?t = (Inr p, s1)" by simp
  then obtain banks t1 where "treasuries q ?t = (Inr banks, t1)" by (rule execute_payment_InrE)
  from treasuries_InrD [OF this assms(4)] show ?thesis
    by (auto simp: treasury_of_def recipient_currency_def cong: option.case_cong)
qed (use assms in simp)


text \<open>An amount of exactly half a cent is money from nothing: PostgreSQL rounds the payer's balance back up, and the
  recipient's up by a whole cent.\<close>

lemma half_cent_creates_money:
  assumes "cents (stanje_racuna payer)" "0 < stanje_racuna payer" "cents (stanje_racuna recipient)" "0 \<le> stanje_racuna recipient"
  shows "stanje_racuna (store_racun exact_env (debit_payer exact_env (1 / 200) payer)) = stanje_racuna payer \<and>
    stanje_racuna (store_racun exact_env (recipient\<lparr>stanje_racuna := stanje_racuna recipient + 1 / 200\<rparr>)) = stanje_racuna recipient + 1 / 100"
proof -
  from assms obtain m n :: int where e: "stanje_racuna payer = of_int m / 100" "stanje_racuna recipient = of_int n / 100"
    unfolding cents_iff by blast
  have "1 \<le> m" "0 \<le> n" using assms(2,4) e by auto
  then have "half_away (of_int m - 1 / 2) = m" "half_away (of_int n + 1 / 2) = n + 1" by (auto simp: half_away_def)
  moreover have "100 * (of_int m / 100 - 1 / 200) = of_int m - (1 / 2 :: rat)" "100 * (of_int n / 100 + 1 / 200) = of_int n + (1 / 2 :: rat)"
    by simp_all
  ultimately show ?thesis
    by (simp add: exact_env_def debit_payer_def store_racun_def pg_round_def e add_divide_distrib)
qed

end
