(* ===== verification/Payment_Safety.thy ===== *)
theory Payment_Safety
  imports Payment_Ledger
begin

text \<open>
  When a payment may move money: the code that was sent to the initiator's phone, and an amount within the
  available balance and the limits, in exact decimals although the code compares \<open>float64\<close> values; wrong codes
  are counted and the third closes the payment; no client's account is ever overdrawn.
\<close>

section \<open>Amounts in floating point\<close>

text \<open>Below \<open>10 ^ 13\<close>, the range of a \<open>DECIMAL(15,2)\<close> column, a sum of two amounts in cents is off by less than half a cent.\<close>

lemma two_powi_tiny: "(2 :: rat) powi (- 1022) \<le> 1 / 200"
proof -
  have "(2 :: rat) powi (- 1022) = 1 / 2 ^ 1022" by (simp add: power_int_def field_simps)
  also have "\<dots> \<le> 1 / 2 ^ 8" by (intro divide_left_mono power_increasing) auto
  finally show ?thesis by simp
qed

lemma cents_nonzero: "cents a \<Longrightarrow> a \<noteq> 0 \<Longrightarrow> 1 / 100 \<le> \<bar>a\<bar>"
  using cents_less [of 0 "\<bar>a\<bar>"] by simp

lemma fl64_cents:
  assumes "cents a" "\<bar>a\<bar> < 10 ^ 13"
  shows "\<bar>fl64 a - a\<bar> \<le> 1 / 900"
proof (cases "a = 0")
  case False
  have "2 powi (- 1022) \<le> \<bar>a\<bar>" using cents_nonzero [OF assms(1) False] two_powi_tiny by linarith
  from fl64_error [OF this] have "\<bar>fl64 a - a\<bar> \<le> \<bar>a\<bar> / 2 ^ 53" .
  also have "\<dots> \<le> 1 / 900" using assms(2) by simp
  finally show ?thesis .
qed simp

lemma fl64_sum:
  assumes a: "cents a" "\<bar>a\<bar> < 10 ^ 13" and b: "cents b" "\<bar>b\<bar> < 10 ^ 13"
  shows "\<bar>fl64 (fl64 a + fl64 b) - (a + b)\<bar> \<le> 9 / 2000"
proof (cases "a + b = 0")
  case True
  then have "fl64 b = - fl64 a" using fl64_minus [of a] by (simp add: add_eq_0_iff)
  with True show ?thesis by simp
next
  case False
  let ?d = "fl64 a + fl64 b"
  have d: "\<bar>?d - (a + b)\<bar> \<le> 2 / 900" using fl64_cents [OF a] fl64_cents [OF b] by linarith
  have "1 / 100 \<le> \<bar>a + b\<bar>" by (rule cents_nonzero) (use a b False in auto)
  with d two_powi_tiny have "2 powi (- 1022) \<le> \<bar>?d\<bar>" by linarith
  from fl64_error [OF this] have "\<bar>fl64 ?d - ?d\<bar> \<le> \<bar>?d\<bar> / 2 ^ 53" .
  moreover have "\<bar>?d\<bar> \<le> 2 * 10 ^ 13 + 1" using d a(2) b(2) by linarith
  then have "\<bar>?d\<bar> / 2 ^ 53 \<le> (2 * 10 ^ 13 + 1) / 2 ^ 53" by (rule divide_right_mono) simp
  then have "\<bar>?d\<bar> / 2 ^ 53 \<le> 9 / 2000 - 2 / 900" by (rule order_trans) simp
  ultimately show ?thesis using d by linarith
qed

lemma cents_le_add: "cents x \<Longrightarrow> cents y \<Longrightarrow> x < y + 1 / 100 \<Longrightarrow> x \<le> y"
  using cents_less [of y x] by linarith

text \<open>The checks of balance and limits, read in exact decimals.\<close>

definition amounts_ok :: "racun \<Rightarrow> bool" where
  "amounts_ok r \<longleftrightarrow> list_all (\<lambda>x. cents x \<and> \<bar>x\<bar> < 10 ^ 13)
     ([stanje_racuna r, rezervisana_sredstva r, dnevna_potrosnja r, mesecna_potrosnja r] @
      (case dnevni_limit r of None \<Rightarrow> [] | Some l \<Rightarrow> [l]) @ (case mesecni_limit r of None \<Rightarrow> [] | Some l \<Rightarrow> [l]))"

definition within_limit :: "decimal option \<Rightarrow> decimal \<Rightarrow> bool" where
  "within_limit l x \<longleftrightarrow> (case l of None \<Rightarrow> True | Some m \<Rightarrow> m \<le> 0 \<or> x \<le> m)"

lemma limit_exact:
  assumes d: "cents d" "\<bar>d\<bar> < 10 ^ 13" and x: "cents x" "\<bar>x\<bar> < 10 ^ 13"
    and l: "\<And>m. l = Some m \<Longrightarrow> cents m \<and> \<bar>m\<bar> < 10 ^ 13"
    and "\<not> (limit_col l > 0 \<and> fl64 (fl64 d + fl64 x) > limit_col l)"
  shows "within_limit l (d + x)"
proof (cases l)
  case (Some m)
  show ?thesis
  proof (cases "0 < m")
    case True
    have m: "cents m" "\<bar>m\<bar> < 10 ^ 13" using l [OF Some] by auto
    have e: "\<bar>fl64 m - m\<bar> \<le> 1 / 900" by (rule fl64_cents [OF m])
    have "1 / 100 \<le> m" using cents_nonzero [OF m(1)] True by simp
    with e have "0 < fl64 m" by linarith
    with assms(6) have "fl64 (fl64 d + fl64 x) \<le> fl64 m" by (simp add: limit_col_def Some)
    with e fl64_sum [OF d x] have "d + x < m + 1 / 100" by linarith
    with cents_le_add [OF cents_add [OF d(1) x(1)] m(1)] show ?thesis by (simp add: within_limit_def Some)
  qed (simp add: within_limit_def Some)
qed (simp add: within_limit_def)

lemma checkFunds_available:
  assumes s: "cents (stanje_racuna r)" "\<bar>stanje_racuna r\<bar> < 10 ^ 13" "cents (rezervisana_sredstva r)" "\<bar>rezervisana_sredstva r\<bar> < 10 ^ 13"
    and x: "cents x" "\<bar>x\<bar> < 10 ^ 13" and c: "checkFunds r (fl64 x) = None"
  shows "x \<le> raspolozivo r"
proof -
  have m: "cents (- rezervisana_sredstva r)" "\<bar>- rezervisana_sredstva r\<bar> < 10 ^ 13" using s by auto
  have "fl64 x \<le> fl64 (fl64 (stanje_racuna r) + fl64 (- rezervisana_sredstva r))"
    using c by (simp add: checkFunds_def fl64_minus split: if_splits)
  with fl64_sum [OF s(1,2) m] fl64_cents [OF x] have "x < raspolozivo r + 1 / 100" unfolding raspolozivo_def by linarith
  then show ?thesis by (rule cents_le_add [OF x(1), rotated]) (use s(1,3) in \<open>simp add: raspolozivo_def\<close>)
qed

lemma checkFunds_exact:
  assumes r: "amounts_ok r" and x: "cents x" "\<bar>x\<bar> < 10 ^ 13" and c: "checkFunds r (fl64 x) = None"
  shows "x \<le> raspolozivo r" "within_limit (dnevni_limit r) (dnevna_potrosnja r + x)" "within_limit (mesecni_limit r) (mesecna_potrosnja r + x)"
proof -
  show "x \<le> raspolozivo r"
    using r by (intro checkFunds_available [OF _ _ _ _ x c]) (simp_all add: amounts_ok_def)
  show "within_limit (dnevni_limit r) (dnevna_potrosnja r + x)" "within_limit (mesecni_limit r) (mesecna_potrosnja r + x)"
    using r c by (auto simp: amounts_ok_def checkFunds_def intro!: limit_exact [OF _ _ x] split: if_splits)
qed

section \<open>Who may pay\<close>

definition money :: "db \<Rightarrow> racun list \<times> transakcija list" where
  "money s = (racuni s, transakcije s)"

lemma clock_free_money [simp]: "clock_free money"
  by (simp add: clock_free_def money_def)

lemmas clock_money [simp] = clock_freeD [OF clock_free_money]

lemma money_core: "core s' = core s \<Longrightarrow> money s' = money s"
  by (simp add: core_def money_def)

lemma keeps_money_updates [keeps_intros]:
  "keeps money (update_pending a f)" "keeps money (update_intent j g)"
  unfolding update_pending_def update_intent_def by (rule keeps_stmt; auto simp: money_def)+

text \<open>A recorded failure touches the intent and the request only.\<close>

lemma recorded_failure:
  assumes "verify_body E i code u t = (Inr (Inl e), s1)"
  shows "money s1 = money t"
proof -
  have k: "keeps money (ignore (update_pending a f))" "keeps money (ignore (update_intent j g))"
    "keeps money (if b then ignore (update_intent j g) else ret ())" for a f j g b
    by (intro keeps_intros)+
  have "money s1 = money t'" if "verify_code E code q act t' = (Inr (Inl e), s1)" for q act t'
    using that k [THEN keepsD]
    by (auto simp: verify_code_def Let_def gets_def ret_def elim!: bnd_InrE split: if_splits)
  then show ?thesis
    using assms by (auto simp: verify_body_def verify_intent_def ret_def fail_def elim!: bnd_InrE dest!: query_InrD
        split: option.splits if_splits)
qed

lemma failed_payment_moves_nothing:
  assumes "VerifyAndExecute E i code u s = (Inl e, s')"
  shows "money s' = money s"
proof -
  have "money s' = money s" if "repo_VerifyAndExecute E i code u s = (Inl e, s')"
    using that unfolding repo_VerifyAndExecute_def
  proof (rule bnd_InlE)
    assume "in_tx (verify_body E i code u) s = (Inl e, s')"
    then show ?thesis by (intro money_core in_tx_Inl)
  next
    fix r s1
    assume r: "in_tx (verify_body E i code u) s = (Inr r, s1)" "(case r of Inl e \<Rightarrow> fail e | Inr p \<Rightarrow> ret p) s1 = (Inl e, s')"
    from r(1) obtain s2 where "verify_body E i code u (begin_tx s) = (Inr r, s2)" "s1 = end_tx s (bump s2)" by (rule in_tx_InrE)
    with r(2) recorded_failure [of E i code u "begin_tx s" e s2] show ?thesis
      by (auto simp: fail_def ret_def split: sum.splits)
  qed
  with assms show ?thesis by (auto simp: VerifyAndExecute_def fail_def split: if_splits)
qed

text \<open>C8. Money moves only on authority: if a confirmation changes any account or journal entry, the intent was open and
  initiated by the caller, its request belongs to the caller and was approved on the phone, the
  code is the one sent there and has not expired, and the payer's account is active, has the amount available and stays within
  its daily and monthly limits, in exact decimals.\<close>

theorem payment_authorised:
  assumes "VerifyAndExecute E i code u s = (r, s')" and "money s' \<noteq> money s"
    and "list_all amounts_ok (racuni s)" and "list_all (\<lambda>q. cents (pi_Iznos q) \<and> \<bar>pi_Iznos q\<bar> < 10 ^ 13) (payment_intents s)"
  shows "\<exists>q a act payer. intent_of s i = Some q \<and> pi_Status q = U_OBRADI \<and> pi_InitiatedByUserID q = u \<and>
    pi_PendingActionID q = Some a \<and> pending_of a u s = Some act \<and> pa_status act = PaApproved \<and> pa_code act = Some code \<and>
    \<not> code_expired (now_utc s) act \<and> racun_of s (pi_RacunPlatiocaID q) = Some payer \<and> r_status payer = ''AKTIVAN'' \<and>
    pi_Iznos q \<le> raspolozivo payer \<and> within_limit (dnevni_limit payer) (dnevna_potrosnja payer + pi_Iznos q) \<and>
    within_limit (mesecni_limit payer) (mesecna_potrosnja payer + pi_Iznos q)"
proof -
  from assms(1,2) failed_payment_moves_nothing obtain p where "VerifyAndExecute E i code u s = (Inr p, s')" by (cases r) auto
  then show ?thesis
  proof (cases rule: VerifyAndExecute_InrE)
    case again
    then have "core (snd (VerifyAndExecute E i code u s)) = core s" by (intro keeps_core_closed) auto
    then have "core s' = core s" by (simp add: assms(1))
    then have "money s' = money s" by (rule money_core)
    with assms(2) show ?thesis by contradiction
  next
    case (runs q a act s1)
    from runs(9) obtain payer where p: "racun_of (bump (bump (begin_tx s))) (pi_RacunPlatiocaID q) = Some payer"
      "r_status payer = ''AKTIVAN''" "checkFunds payer (fl64 (pi_Iznos q)) = None" by (rule execute_payment_InrE)
    then have "racun_of s (pi_RacunPlatiocaID q) = Some payer" by simp
    moreover from racun_of_SomeD [OF this] assms(3) have "amounts_ok payer" by (auto simp: list_all_iff)
    moreover have "cents (pi_Iznos q)" "\<bar>pi_Iznos q\<bar> < 10 ^ 13"
      using assms(4) runs(1) by (auto simp: intent_of_def list_all_iff dest: find_key_SomeD)
    ultimately show ?thesis
      using checkFunds_exact [of payer "pi_Iznos q"] p(2,3) runs(1-8)
      by (intro exI [of _ q] exI [of _ a] exI [of _ act] exI [of _ payer]) simp
  qed
qed

section \<open>Wrong codes\<close>

lemma update_intent_ok:
  "no_faults s \<Longrightarrow> update_intent i f s = (Inr (), (bump s)\<lparr>payment_intents := upd_where (\<lambda>p. pi_ID p = i) f (payment_intents s)\<rparr>)"
  by (simp add: update_intent_def stmt_ok)

text \<open>An open payment that waits for its code, with \<open>n\<close> failures so far.\<close>

definition awaits_code :: "db \<Rightarrow> int \<Rightarrow> int \<Rightarrow> string \<Rightarrow> int \<Rightarrow> bool" where
  "awaits_code s i u code n \<longleftrightarrow> healthy s \<and> i \<noteq> 0 \<and> (\<exists>q a act. intent_of s i = Some q \<and> pi_Status q = U_OBRADI \<and>
     pi_InitiatedByUserID q = u \<and> pi_PendingActionID q = Some a \<and> a \<noteq> 0 \<and> pending_of a u s = Some act \<and>
     pa_status act = PaApproved \<and> pa_code act = Some code \<and> pa_attempts act = n \<and> \<not> code_expired (now_utc s) act)"

definition count_failure :: "pending_action \<Rightarrow> pending_action \<Rightarrow> pending_action" where
  "count_failure act x = x\<lparr>pa_attempts := pa_attempts act + 1, pa_status := (if pa_attempts act \<ge> 2 then PaCancelled else pa_status x)\<rparr>"

definition after_wrong_code :: "pending_action \<Rightarrow> int \<Rightarrow> db \<Rightarrow> db" where
  "after_wrong_code act i t = (let t1 = (if pa_attempts act \<ge> 2
       then (bump t)\<lparr>payment_intents := upd_where (\<lambda>p. pi_ID p = i) (reject_intent ''Previse neuspesnih pokusaja'') (payment_intents t)\<rparr>
       else t) in
     (bump t1)\<lparr>pending_actions := upd_where (\<lambda>x. pa_id x = pa_id act) (count_failure act) (pending_actions t1)\<rparr>)"

lemma after_wrong_code_fields [simp]:
  "faults (after_wrong_code act i t) = faults t" "tx_aborted (after_wrong_code act i t) = tx_aborted t"
  "now_utc (after_wrong_code act i t) = now_utc t" "money (after_wrong_code act i t) = money t"
  "payment_intents (after_wrong_code act i t) = (if pa_attempts act \<ge> 2 then upd_where (\<lambda>p. pi_ID p = i)
     (reject_intent ''Previse neuspesnih pokusaja'') (payment_intents t) else payment_intents t)"
  "pending_actions (after_wrong_code act i t) = upd_where (\<lambda>x. pa_id x = pa_id act) (count_failure act) (pending_actions t)"
  by (simp_all add: after_wrong_code_def Let_def money_def)

lemma verify_code_wrong:
  assumes "no_faults t" and "pa_code act \<noteq> Some c" and "\<not> code_expired (now_utc t) act"
  shows "verify_code E c q act t =
    (Inr (Inl (if pa_attempts act \<ge> 2 then ErrTooManyAttempts else ErrWrongCode)), after_wrong_code act (pi_ID q) t)"
proof -
  have c: "(\<lambda>a. a\<lparr>pa_attempts := pa_attempts act + 1, pa_status := (if pa_attempts act \<ge> 2 then PaCancelled else pa_status a)\<rparr>) =
      count_failure act" by (simp add: count_failure_def fun_eq_iff)
  have e: "(pa_attempts act + 1 \<ge> 3) = (pa_attempts act \<ge> 2)" by linarith
  have "verify_code E c q act t = bnd (if pa_attempts act \<ge> 2 then ignore (update_intent (pi_ID q)
      (reject_intent ''Previse neuspesnih pokusaja'')) else ret ()) (\<lambda>_. bnd (ignore (update_pending (pa_id act) (count_failure act)))
      (\<lambda>_. ret (Inl (if pa_attempts act \<ge> 2 then ErrTooManyAttempts else ErrWrongCode)))) t"
    unfolding verify_code_def Let_def e c using assms(2,3) by (simp add: bnd_def gets_def)
  also have "\<dots> = (Inr (Inl (if pa_attempts act \<ge> 2 then ErrTooManyAttempts else ErrWrongCode)), after_wrong_code act (pi_ID q) t)"
    using assms(1) by (cases "pa_attempts act \<ge> 2")
      (simp_all add: bnd_def ret_def ignore_def update_intent_ok update_pending_ok after_wrong_code_def)
  finally show ?thesis .
qed

lemma wrong_code_run:
  assumes h: "healthy s" "i \<noteq> 0" and q: "intent_of s i = Some q" "pi_Status q = U_OBRADI" "pi_InitiatedByUserID q = u"
    "pi_PendingActionID q = Some a" "a \<noteq> 0" and act: "pending_of a u s = Some act" "pa_status act = PaApproved"
    "pa_code act \<noteq> Some c" "\<not> code_expired (now_utc s) act" and c: "c \<noteq> []"
  shows "VerifyAndExecute E i c u s = (Inl (if pa_attempts act \<ge> 2 then ErrTooManyAttempts else ErrWrongCode),
    end_tx s (bump (after_wrong_code act i (bump (bump (begin_tx s))))))"
proof -
  let ?t = "bump (bump (begin_tx s))"
  have ids: "pi_ID q = i" "pa_id act = a"
    using q(1) act(1) by (auto simp: intent_of_def pending_of_def dest: find_key_SomeD)
  have t: "no_faults (begin_tx s)" "no_faults ?t" using h by (simp_all add: healthy_def)
  have b: "verify_body E i c u (begin_tx s) = verify_code E c q act ?t"
    using q act(1,2) h(2) ids t(1)
    by (simp add: verify_body_def verify_intent_def bnd_def query_ok intent_of_def pending_of_def)
  have v: "verify_code E c q act ?t = (Inr (Inl (if pa_attempts act \<ge> 2 then ErrTooManyAttempts else ErrWrongCode)), after_wrong_code act i ?t)"
    using verify_code_wrong [OF t(2) act(3)] act(4) by (simp add: ids)
  have "in_tx (verify_body E i c u) s = (Inr (Inl (if pa_attempts act \<ge> 2 then ErrTooManyAttempts else ErrWrongCode)),
      end_tx s (bump (after_wrong_code act i ?t)))"
    by (rule in_tx_ok) (use b v t(2) h(1) in \<open>simp_all add: healthy_def\<close>)
  then show ?thesis using c by (simp add: VerifyAndExecute_def repo_VerifyAndExecute_def bnd_def fail_def)
qed

lemma find_upd_pred:
  "(\<And>x. P (f x) = P x) \<Longrightarrow> List.find P (upd_where Q f xs) = map_option (\<lambda>x. if Q x then f x else x) (List.find P xs)"
  by (induction xs) (auto simp: upd_where_def)

lemma pending_after_wrong_code:
  assumes "pending_of a u s = Some act" and "pending_actions s' = upd_where (\<lambda>x. pa_id x = a) (count_failure act) (pending_actions s)"
  shows "pending_of a u s' = Some (count_failure act act)"
proof -
  have "pa_id act = a" using assms(1) by (auto simp: pending_of_def dest: find_key_SomeD)
  moreover have "pa_id (count_failure act x) = pa_id x" "pa_vlasnik_id (count_failure act x) = pa_vlasnik_id x" for x
    by (simp_all add: count_failure_def)
  ultimately show ?thesis using assms by (simp add: pending_of_def find_upd_pred)
qed

text \<open>After a wrong code the payment waits on, one failure more.\<close>

lemma awaits_code_again:
  assumes w: "awaits_code s i u code n" "n < 2" and c: "c \<noteq> []" "c \<noteq> code"
  shows "\<exists>s'. VerifyAndExecute E i c u s = (Inl ErrWrongCode, s') \<and> awaits_code s' i u code (n + 1) \<and> money s' = money s"
proof -
  from w obtain q a act where q: "intent_of s i = Some q" "pi_Status q = U_OBRADI" "pi_InitiatedByUserID q = u"
    "pi_PendingActionID q = Some a" "a \<noteq> 0" and act: "pending_of a u s = Some act" "pa_status act = PaApproved"
    "pa_code act = Some code" "\<not> code_expired (now_utc s) act" and h: "healthy s" "i \<noteq> 0" and n: "pa_attempts act = n"
    unfolding awaits_code_def by blast
  let ?s' = "end_tx s (bump (after_wrong_code act i (bump (bump (begin_tx s)))))"
  have "VerifyAndExecute E i c u s = (Inl ErrWrongCode, ?s')"
    using wrong_code_run [OF h q act(1,2) _ act(4) c(1)] act(3) c(2) n w(2) by simp
  moreover have "pa_id act = a" using act(1) by (auto simp: pending_of_def dest: find_key_SomeD)
  then have "pending_of a u ?s' = Some (count_failure act act)" by (intro pending_after_wrong_code [OF act(1)]) simp
  moreover have "intent_of ?s' i = Some q" using q(1) n w(2) by (simp add: intent_of_def)
  moreover have "healthy ?s'" "now_utc ?s' = now_utc s" "money ?s' = money s" using h by (simp_all add: healthy_def)
  moreover have "pa_status (count_failure act act) = PaApproved" "pa_code (count_failure act act) = Some code"
    "pa_attempts (count_failure act act) = n + 1" "\<not> code_expired (now_utc s) (count_failure act act)"
    using act n w(2) by (simp_all add: count_failure_def code_expired_def)
  ultimately show ?thesis using h(2) q(2-5) unfolding awaits_code_def by fastforce
qed

lemma third_wrong_code:
  assumes w: "awaits_code s i u code 2" and c: "c \<noteq> []" "c \<noteq> code"
  shows "\<exists>s' p. VerifyAndExecute E i c u s = (Inl ErrTooManyAttempts, s') \<and> money s' = money s \<and> healthy s' \<and>
    intent_of s' i = Some p \<and> pi_Status p = ODBIJENO \<and> pi_ID p = i \<and> pi_InitiatedByUserID p = u"
proof -
  from w obtain q a act where q: "intent_of s i = Some q" "pi_Status q = U_OBRADI" "pi_InitiatedByUserID q = u"
    "pi_PendingActionID q = Some a" "a \<noteq> 0" and act: "pending_of a u s = Some act" "pa_status act = PaApproved"
    "pa_code act = Some code" "\<not> code_expired (now_utc s) act" and h: "healthy s" "i \<noteq> 0" and n: "pa_attempts act = 2"
    unfolding awaits_code_def by blast
  let ?s' = "end_tx s (bump (after_wrong_code act i (bump (bump (begin_tx s)))))"
  have "VerifyAndExecute E i c u s = (Inl ErrTooManyAttempts, ?s')"
    using wrong_code_run [OF h q act(1,2) _ act(4) c(1)] act(3) c(2) n by simp
  moreover have "pi_ID q = i" using q(1) by (auto simp: intent_of_def dest: find_key_SomeD)
  moreover have "intent_of ?s' i = Some (reject_intent ''Previse neuspesnih pokusaja'' q)"
    using q(1) n \<open>pi_ID q = i\<close> by (simp add: intent_of_def find_upd_pred reject_intent_def)
  moreover have "healthy ?s'" "money ?s' = money s" using h by (simp_all add: healthy_def)
  ultimately show ?thesis using q(3) by (auto simp: reject_intent_def)
qed

lemma rejected_stays_rejected:
  assumes "healthy s" "intent_of s i = Some p" "pi_Status p = ODBIJENO" "i \<noteq> 0" "pi_InitiatedByUserID p = u" "c \<noteq> []"
  shows "fst (VerifyAndExecute E i c u s) = Inl ErrPaymentAlreadyFailed"
proof -
  have "pi_ID p = i" using assms(2) by (auto simp: intent_of_def dest: find_key_SomeD)
  with assms show ?thesis
    by (simp add: VerifyAndExecute_def repo_VerifyAndExecute_def bnd_def in_tx_def verify_body_def verify_intent_def query_ok
        intent_of_def healthy_def fail_def)
qed

text \<open>C14. Three wrong codes close a payment: the first two are refused and counted, the third rejects the payment; no
  account or journal entry changes, and from then on even the right code is refused.\<close>

theorem three_wrong_codes:
  assumes "awaits_code s i u code 0" and "list_all (\<lambda>c. c \<noteq> [] \<and> c \<noteq> code) [c1, c2, c3]" and "c4 \<noteq> []"
    and "s1 = snd (VerifyAndExecute E i c1 u s)" and "s2 = snd (VerifyAndExecute E i c2 u s1)"
    and "s3 = snd (VerifyAndExecute E i c3 u s2)"
  shows "fst (VerifyAndExecute E i c1 u s) = Inl ErrWrongCode \<and> fst (VerifyAndExecute E i c2 u s1) = Inl ErrWrongCode \<and>
    fst (VerifyAndExecute E i c3 u s2) = Inl ErrTooManyAttempts \<and> money s3 = money s \<and>
    map_option pi_Status (intent_of s3 i) = Some ODBIJENO \<and> fst (VerifyAndExecute E i c4 u s3) = Inl ErrPaymentAlreadyFailed"
proof -
  from awaits_code_again [OF assms(1), of c1 E] assms(2,4) have 1: "fst (VerifyAndExecute E i c1 u s) = Inl ErrWrongCode"
    "awaits_code s1 i u code 1" "money s1 = money s" by auto
  from awaits_code_again [OF 1(2), of c2 E] assms(2,5) have 2: "fst (VerifyAndExecute E i c2 u s1) = Inl ErrWrongCode"
    "awaits_code s2 i u code 2" "money s2 = money s1" by auto
  from third_wrong_code [OF 2(2), of c3 E] assms(2,6) obtain p where 3: "fst (VerifyAndExecute E i c3 u s2) = Inl ErrTooManyAttempts"
    "money s3 = money s2" "healthy s3" "intent_of s3 i = Some p" "pi_Status p = ODBIJENO" "pi_InitiatedByUserID p = u" by auto
  have "i \<noteq> 0" using assms(1) by (simp add: awaits_code_def)
  from rejected_stays_rejected [OF 3(3-5) this 3(6) assms(3)] 1 2 3 show ?thesis by simp
qed

section \<open>A payment of the small bank\<close>

text \<open>The client pays 100 EUR to a USD account of the bank, which receives 108 USD through the treasury.\<close>

definition sample_intent :: PaymentIntent where
  "sample_intent = \<lparr>pi_ID = 5, pi_IdempotencyKey = ''k'', pi_BrojNaloga = ''NAL1'', pi_TipTransakcije = PLACANJE,
     pi_RacunPlatiocaID = 10, pi_BrojRacunaPlatioca = ''A10'', pi_RacunPrimaocaID = Some 11, pi_BrojRacunaPrimaoca = ''A11'',
     pi_NazivPrimaoca = ''X'', pi_Iznos = 100, pi_KrajnjiIznos = Some 108, pi_Provizija = 0, pi_Kurs = 1, pi_ValutaPrimaoca = ''USD'',
     pi_Valuta = ''EUR'', pi_SifraPlacanja = ''289'', pi_PozivNaBroj = [], pi_SvrhaPlacanja = [], pi_Status = U_OBRADI,
     pi_PendingActionID = Some 1, pi_InitiatedByUserID = 7, pi_CreatedAt = 0, pi_VerifiedAt = None, pi_ExecutedAt = None,
     pi_FailedReason = []\<rparr>"

definition sample_payments :: db where
  "sample_payments = sample_requests\<lparr>payment_intents := [sample_intent], payment_intent_seq := 6\<rparr>"

lemma sample_payments_fields [simp]:
  "racuni sample_payments = racuni sample_db" "payment_intents sample_payments = [sample_intent]"
  "pending_actions sample_payments = [sample_request]" "now_utc sample_payments = 0" "no_faults sample_payments"
  "transakcije sample_payments = []"
  by (simp_all add: sample_payments_def sample_requests_def sample_db_def empty_db_def)

lemma sample_open:
  "healthy sample_payments" "intent_of sample_payments 5 = Some sample_intent" "pending_of 1 7 sample_payments = Some sample_request"
  by (simp_all add: healthy_def sample_payments_def sample_requests_def sample_db_def empty_db_def intent_of_def sample_intent_def
      pending_of_def sample_request_def)

lemma sample_awaits: "awaits_code sample_payments 5 7 ''123456'' 0"
  unfolding awaits_code_def using sample_open by (auto simp: sample_intent_def sample_request_def code_expired_def)

theorem three_wrong_codes_witness:
  "\<exists>s1 s2 s3. fst (VerifyAndExecute sample_env 5 ''000000'' 7 sample_payments) = Inl ErrWrongCode \<and>
    fst (VerifyAndExecute sample_env 5 ''222222'' 7 s2) = Inl ErrTooManyAttempts \<and>
    fst (VerifyAndExecute sample_env 5 ''123456'' 7 s3) = Inl ErrPaymentAlreadyFailed \<and> money s3 = money sample_payments \<and>
    s1 = snd (VerifyAndExecute sample_env 5 ''000000'' 7 sample_payments) \<and>
    s2 = snd (VerifyAndExecute sample_env 5 ''111111'' 7 s1) \<and> s3 = snd (VerifyAndExecute sample_env 5 ''222222'' 7 s2)"
  using three_wrong_codes [OF sample_awaits, of "''000000''" "''111111''" "''222222''" "''123456''" _ sample_env] by simp

lemma right_code_run:
  assumes h: "healthy s" "i \<noteq> 0" and q: "intent_of s i = Some q" "pi_Status q = U_OBRADI" "pi_InitiatedByUserID q = u"
    "pi_PendingActionID q = Some a" "a \<noteq> 0" and act: "pending_of a u s = Some act" "pa_status act = PaApproved"
    "pa_code act = Some c" "\<not> code_expired (now_utc s) act" and c: "c \<noteq> []"
    and "execute_payment E q a (bump (bump (begin_tx s))) = (Inr p, s1)" "no_faults s1"
  shows "VerifyAndExecute E i c u s = (Inr p, end_tx s (bump s1))"
proof -
  let ?t = "bump (bump (begin_tx s))"
  have ids: "pi_ID q = i" "pa_id act = a"
    using q(1) act(1) by (auto simp: intent_of_def pending_of_def dest: find_key_SomeD)
  have t: "no_faults (begin_tx s)" "no_faults ?t" using h by (simp_all add: healthy_def)
  have "verify_body E i c u (begin_tx s) = verify_code E c q act ?t"
    using q act(1,2) h(2) ids t(1)
    by (simp add: verify_body_def verify_intent_def bnd_def query_ok intent_of_def pending_of_def)
  moreover have "verify_code E c q act ?t = (Inr (Inr p), s1)"
    using assms(12-14) act(3,4) by (simp add: verify_code_def bnd_def gets_def ret_def ids)
  ultimately have "in_tx (verify_body E i c u) s = (Inr (Inr p), end_tx s (bump s1))"
    by (intro in_tx_ok) (use assms(14) h(1) in \<open>simp_all add: healthy_def\<close>)
  then show ?thesis using c by (simp add: VerifyAndExecute_def repo_VerifyAndExecute_def bnd_def ret_def)
qed

text \<open>A margin of a cent is enough for the checks in \<open>float64\<close> to pass.\<close>

lemma checkFunds_passes:
  assumes "amounts_ok r" "dnevni_limit r = None" "mesecni_limit r = None" and x: "cents x" "\<bar>x\<bar> < 10 ^ 13" "x + 1 / 100 \<le> raspolozivo r"
  shows "checkFunds r (fl64 x) = None"
proof -
  have s: "cents (stanje_racuna r)" "\<bar>stanje_racuna r\<bar> < 10 ^ 13" "cents (- rezervisana_sredstva r)" "\<bar>- rezervisana_sredstva r\<bar> < 10 ^ 13"
    using assms(1) by (auto simp: amounts_ok_def)
  from fl64_sum [OF s] fl64_cents [OF x(1,2)] x(3)
  have "fl64 x \<le> fl64 (fl64 (stanje_racuna r) + fl64 (- rezervisana_sredstva r))" unfolding raspolozivo_def by linarith
  then show ?thesis using assms(2,3) by (simp add: checkFunds_def fl64_minus limit_col_def)
qed

lemma sample_amounts:
  "isCrossCurrency sample_intent" "newFromFloat sample_env (fl64 (pi_Iznos sample_intent)) = 100"
  "newFromFloat sample_env (creditAmount sample_intent) = 108"
proof -
  have c: "cents (100 :: rat)" "cents (108 :: rat)" "\<bar>100 :: rat\<bar> < 10 ^ 13" "\<bar>108 :: rat\<bar> < 10 ^ 13" by (simp_all add: cents_def)
  have n: "fl64 108 > 0" "fl64 108 \<noteq> fl64 100" using fl64_cents [OF c(1,3)] fl64_cents [OF c(2,4)] by (linarith, force)
  show "isCrossCurrency sample_intent" using n by (simp add: isCrossCurrency_def sample_intent_def)
  show "newFromFloat sample_env (fl64 (pi_Iznos sample_intent)) = 100"
    using numerics.newFromFloat_literal [OF sample_numerics c(1,3)] by (simp add: sample_intent_def)
  show "newFromFloat sample_env (creditAmount sample_intent) = 108"
    using numerics.newFromFloat_literal [OF sample_numerics c(2,4)] n by (simp add: creditAmount_def sample_intent_def)
qed

lemma sample_spending [simp]:
  "dnevna_potrosnja (sample_racun i n w c b) = 0" "mesecna_potrosnja (sample_racun i n w c b) = 0"
  "dnevni_limit (sample_racun i n w c b) = None" "mesecni_limit (sample_racun i n w c b) = None"
  by (simp_all add: sample_racun_def)

lemma sample_move_money:
  assumes "no_faults t" "racuni t = racuni sample_db"
  shows "\<exists>t'. move_money sample_env sample_intent (20, 21) True t = (Inr (), t') \<and> no_faults t'"
  using assms sample_amounts
  by (simp add: move_money_def treasury_legs_def credit_recipient_def bnd_def ret_def update_payer_def change_balance_def entry_def
      update_racun_ok insert_transakcije_def stmt_ok Let_def sample_intent_def active_racun_def upd_where_def store_racun_def
      fits_racun_def fits_spending_def debit_payer_def)

lemma sample_execute:
  assumes t: "no_faults t" "racuni t = racuni sample_db"
  shows "\<exists>p s1. execute_payment sample_env sample_intent 1 t = (Inr p, s1) \<and> no_faults s1"
proof -
  have f: "pi_RacunPlatiocaID sample_intent = 10" "pi_RacunPrimaocaID sample_intent = Some 11" "pi_Iznos sample_intent = 100"
    "pi_Valuta sample_intent = ''EUR''" by (simp_all add: sample_intent_def)
  have tr: "treasuries sample_intent t = (Inr (20, 21), bump (bump t))"
    using t sample_amounts(1) f by (simp add: treasuries_def bnd_def ret_def query_ok racun_of_def treasury_of_def)
  let ?r = "sample_racun 10 ''A10'' 7 ''EUR'' 1000"
  have "checkFunds ?r (fl64 100) = None"
    by (rule checkFunds_passes) (simp_all add: amounts_ok_def cents_def raspolozivo_def)
  moreover obtain t' where m: "move_money sample_env sample_intent (20, 21) True (bump (bump (bump t))) = (Inr (), t')" "no_faults t'"
    using sample_move_money [of "bump (bump (bump t))"] t by auto
  moreover have "\<bar>round4 sample_env (newFromFloat sample_env (creditAmount sample_intent))\<bar> < 10 ^ 11"
    unfolding sample_amounts(3) using numerics.round4_cents [OF sample_numerics, of 108] by (simp add: cents_def)
  ultimately show ?thesis
    using t tr f by (simp add: execute_payment_def settle_payment_def bnd_def ret_def gets_def query_ok racun_of_def
        complete_intent_def update_pending_ok stmt_ok)
qed

lemma sample_payment_runs: "\<exists>p s'. VerifyAndExecute sample_env 5 ''123456'' 7 sample_payments = (Inr p, s')"
proof -
  let ?t = "bump (bump (begin_tx sample_payments))"
  obtain p s1 where "execute_payment sample_env sample_intent 1 ?t = (Inr p, s1)" "no_faults s1"
    using sample_execute [of ?t] by auto
  then have "VerifyAndExecute sample_env 5 ''123456'' 7 sample_payments = (Inr p, end_tx sample_payments (bump s1))"
    by (intro right_code_run [OF sample_open(1) _ sample_open(2) _ _ _ _ sample_open(3)])
      (simp_all add: sample_intent_def sample_request_def code_expired_def)
  then show ?thesis by blast
qed

theorem payment_once_witness:
  "\<exists>p s'. VerifyAndExecute sample_env 5 ''123456'' 7 sample_payments = (Inr p, s') \<and>
    core (snd (VerifyAndExecute sample_env 5 ''123456'' 7 s')) = core s'"
proof -
  obtain p s' where r: "VerifyAndExecute sample_env 5 ''123456'' 7 sample_payments = (Inr p, s')" using sample_payment_runs by blast
  from payment_once [OF r rtranclp.rtrancl_refl, of "''123456''" 7] r show ?thesis by blast
qed

lemma sample_ledger: "ids_unique sample_payments" "cents_db sample_payments" "payable sample_env sample_intent"
proof -
  show "ids_unique sample_payments" "cents_db sample_payments" by (simp_all add: ids_unique_def cents_db_def cents_def)
  show "payable sample_env sample_intent"
    unfolding payable_def Let_def sample_amounts(2,3) by (simp add: half_cent_def cents_def)
qed

theorem payment_refines_ledger_witness:
  "\<exists>p s'. VerifyAndExecute sample_env 5 ''123456'' 7 sample_payments = (Inr p, s') \<and>
    map (active_ledger s') [10, 20, 21, 11] = [Some 900, Some 5100, Some 4892, Some 608] \<and>
    map tip_transakcije (transakcije s') = [''ISPLATA'', ''UPLATA'', ''ISPLATA'', ''UPLATA'']"
proof -
  obtain p s' where r: "VerifyAndExecute sample_env 5 ''123456'' 7 sample_payments = (Inr p, s')" using sample_payment_runs by blast
  have st: "pi_Status sample_intent = U_OBRADI" by (simp add: sample_intent_def)
  have "payment_postings sample_env sample_payments sample_intent = [(10, - 100), (20, 100), (21, - 108), (11, 108)]"
    unfolding payment_postings_def Let_def sample_amounts(2,3)
    by (simp add: sample_amounts(1)) (simp add: sample_intent_def racun_of_def treasury_of_def recipient_currency_def)
  moreover have "active_ledger sample_payments 10 = Some 1000" "active_ledger sample_payments 20 = Some 5000"
    "active_ledger sample_payments 21 = Some 5000" "active_ledger sample_payments 11 = Some 500"
    by (simp_all add: active_ledger_def active_of_def racun_of_def)
  ultimately show ?thesis
    using payment_refines_ledger [OF sample_numerics sample_ledger(1,2) sample_open(2) st sample_ledger(3) r] r
    by (simp add: post_def journal_def)
qed


theorem payment_authorised_witness:
  "\<exists>p s'. VerifyAndExecute sample_env 5 ''123456'' 7 sample_payments = (Inr p, s') \<and> money s' \<noteq> money sample_payments \<and>
    (\<exists>q payer. intent_of sample_payments 5 = Some q \<and> racun_of sample_payments (pi_RacunPlatiocaID q) = Some payer \<and>
      pi_Iznos q \<le> raspolozivo payer)"
proof -
  obtain p s' where r: "VerifyAndExecute sample_env 5 ''123456'' 7 sample_payments = (Inr p, s')" using sample_payment_runs by blast
  have "pi_Status sample_intent = U_OBRADI" by (simp add: sample_intent_def)
  from verified_books [OF sample_numerics sample_ledger(1,2) sample_open(2) this sample_ledger(3) r]
  have m: "money s' \<noteq> money sample_payments" by (auto simp: books_def money_def payment_postings_def Let_def)
  have "list_all amounts_ok (racuni sample_payments)" by (simp add: amounts_ok_def cents_def)
  moreover have "list_all (\<lambda>q. cents (pi_Iznos q) \<and> \<bar>pi_Iznos q\<bar> < 10 ^ 13) (payment_intents sample_payments)"
    by (simp add: sample_intent_def cents_def)
  ultimately show ?thesis using payment_authorised [OF r m] r m by blast
qed

end
