(* ===== verification/Payment_Schema.thy ===== *)
theory Payment_Schema
  imports Payment_Safety
begin

text \<open>
  The shape of the tables of accounts, requests and payments, kept by everything users can do: keys are unique and below
  their sequences, and references resolve.
\<close>

section \<open>The shape of the tables\<close>

definition racun_ids :: "db \<Rightarrow> int set" where
  "racun_ids s = r_id ` set (racuni s)"

definition requests_ok :: "int set \<Rightarrow> int \<Rightarrow> pending_action list \<Rightarrow> bool" where
  "requests_ok ids n as \<longleftrightarrow> distinct (map pa_id as) \<and> list_all (\<lambda>a. pa_id a < n \<and> pa_racun_id a \<in> ids) as"

definition intents_ok :: "int set \<Rightarrow> int \<Rightarrow> PaymentIntent list \<Rightarrow> bool" where
  "intents_ok ids n ps \<longleftrightarrow> distinct (map pi_ID ps) \<and> distinct (map pi_IdempotencyKey ps) \<and>
     list_all (\<lambda>p. pi_ID p < n \<and> pi_RacunPlatiocaID p \<in> ids \<and> set_option (pi_RacunPrimaocaID p) \<subseteq> ids) ps"

definition schema_ok :: "db \<Rightarrow> bool" where
  "schema_ok s \<longleftrightarrow> ids_unique s \<and> list_all (\<lambda>r. r_id r < racun_seq s) (racuni s) \<and>
     requests_ok (racun_ids s) (pending_action_seq s) (pending_actions s) \<and>
     intents_ok (racun_ids s) (payment_intent_seq s) (payment_intents s)"

lemma requests_ok_mono: "requests_ok ids n as \<Longrightarrow> ids \<subseteq> ids' \<Longrightarrow> n \<le> n' \<Longrightarrow> requests_ok ids' n' as"
  by (auto simp: requests_ok_def list_all_iff)

lemma intents_ok_mono: "intents_ok ids n ps \<Longrightarrow> ids \<subseteq> ids' \<Longrightarrow> n \<le> n' \<Longrightarrow> intents_ok ids' n' ps"
  by (fastforce simp: intents_ok_def list_all_iff)

lemma requests_ok_upd:
  assumes "requests_ok ids n as" and "\<And>x. pa_id (f x) = pa_id x \<and> pa_racun_id (f x) = pa_racun_id x"
  shows "requests_ok ids n (upd_where P f as)"
proof -
  have "map pa_id (upd_where P f as) = map pa_id as" by (rule map_upd_where) (simp add: assms(2))
  with assms show ?thesis by (auto simp: requests_ok_def intro: list_all_upd_where)
qed

lemma intents_ok_upd:
  assumes "intents_ok ids n ps" and f: "\<And>x. pi_ID (f x) = pi_ID x \<and> pi_IdempotencyKey (f x) = pi_IdempotencyKey x \<and>
    pi_RacunPlatiocaID (f x) = pi_RacunPlatiocaID x \<and> pi_RacunPrimaocaID (f x) = pi_RacunPrimaocaID x"
  shows "intents_ok ids n (upd_where P f ps)"
proof -
  have "map pi_ID (upd_where P f ps) = map pi_ID ps" "map pi_IdempotencyKey (upd_where P f ps) = map pi_IdempotencyKey ps"
    by (rule map_upd_where; simp add: f)+
  with assms show ?thesis by (auto simp: intents_ok_def intro: list_all_upd_where)
qed

lemma requests_ok_snoc: "requests_ok ids n as \<Longrightarrow> pa_id a = n \<Longrightarrow> pa_racun_id a \<in> ids \<Longrightarrow> requests_ok ids (n + 1) (as @ [a])"
  by (auto simp: requests_ok_def list_all_iff)

lemma intents_ok_snoc:
  "intents_ok ids n ps \<Longrightarrow> pi_ID p = n \<Longrightarrow> pi_IdempotencyKey p \<notin> pi_IdempotencyKey ` set ps \<Longrightarrow> pi_RacunPlatiocaID p \<in> ids \<Longrightarrow>
   set_option (pi_RacunPrimaocaID p) \<subseteq> ids \<Longrightarrow> intents_ok ids (n + 1) (ps @ [p])"
  by (fastforce simp: intents_ok_def list_all_iff)

text \<open>Sequences are not undone by a rollback, so they are followed with a lower bound.\<close>

definition schema_from :: "int \<times> int \<times> int \<Rightarrow> db \<Rightarrow> bool" where
  "schema_from n s \<longleftrightarrow> schema_ok s \<and> fst n \<le> racun_seq s \<and> fst (snd n) \<le> pending_action_seq s \<and> snd (snd n) \<le> payment_intent_seq s"

definition keeps_schema :: "'a dbp \<Rightarrow> bool" where
  "keeps_schema m \<longleftrightarrow> (\<forall>n. preserves (schema_from n) m)"

named_theorems schema_intros

lemma clock_free_schema: "clock_free (schema_from n)"
  by (simp add: clock_free_def schema_from_def schema_ok_def ids_unique_def racun_ids_def)

lemma keeps_schema_bnd [schema_intros]:
  "keeps_schema m \<Longrightarrow> (\<And>a. keeps_schema (f a)) \<Longrightarrow> keeps_schema (bnd m f)"
  unfolding keeps_schema_def by (blast intro: preserves_intros)

lemma keeps_schema_basic [schema_intros]:
  "keeps_schema (ret a)" "keeps_schema (fail e)" "keeps_schema (gets g)" "keeps_schema (query f)"
  by (auto simp: keeps_schema_def intro!: preserves_intros clock_free_schema)

lemma keeps_schema_ignore [schema_intros]: "keeps_schema m \<Longrightarrow> keeps_schema (ignore m)"
  unfolding keeps_schema_def by (blast intro: preserves_intros)

lemma keeps_schema_if [schema_intros]: "(b \<Longrightarrow> keeps_schema m) \<Longrightarrow> (\<not> b \<Longrightarrow> keeps_schema m') \<Longrightarrow> keeps_schema (if b then m else m')"
  by simp

lemma keeps_schema_option [schema_intros]:
  "keeps_schema m \<Longrightarrow> (\<And>x. keeps_schema (f x)) \<Longrightarrow> keeps_schema (case v of None \<Rightarrow> m | Some x \<Rightarrow> f x)"
  by (cases v) simp_all

lemma keeps_schema_sum [schema_intros]:
  "(\<And>x. keeps_schema (f x)) \<Longrightarrow> (\<And>x. keeps_schema (g x)) \<Longrightarrow> keeps_schema (case v of Inl x \<Rightarrow> f x | Inr x \<Rightarrow> g x)"
  by (cases v) simp_all

lemma keeps_schema_prod [schema_intros]:
  "(\<And>x y. keeps_schema (f x y)) \<Longrightarrow> keeps_schema (case v of (x, y) \<Rightarrow> f x y)"
  by (cases v) simp

lemma keeps_schema_stmt:
  assumes "\<And>n s a s'. schema_from n s \<Longrightarrow> g s = Some (a, s') \<Longrightarrow> schema_from n s'"
  shows "keeps_schema (stmt g)"
  unfolding keeps_schema_def using assms by (blast intro: preserves_stmt clock_free_schema)

lemma keeps_schema_in_tx [schema_intros]:
  assumes "keeps_schema m"
  shows "keeps_schema (in_tx m)"
  unfolding keeps_schema_def preserves_def
proof (intro allI impI)
  fix n s
  assume s: "schema_from n s"
  let ?n = "(racun_seq s, pending_action_seq s, payment_intent_seq s)"
  obtain r s1 where m: "m (begin_tx s) = (r, s1)" by force
  have "schema_from ?n (begin_tx s)" using s by (simp add: schema_from_def clock_freeD [OF clock_free_schema] schema_ok_def ids_unique_def racun_ids_def)
  from preservesD [OF assms [unfolded keeps_schema_def, rule_format] this m] have s1: "schema_from ?n s1" .
  then have "schema_from n (rollback_core s (bump s1))" "schema_from n s1"
    using s by (auto simp: schema_from_def schema_ok_def ids_unique_def racun_ids_def list_all_iff
        intro: requests_ok_mono intents_ok_mono)
  with s show "schema_from n (snd (in_tx m s))"
    by (simp add: in_tx_def m clock_freeD [OF clock_free_schema] split: sum.split)
qed

section \<open>Statements\<close>

lemma schema_racuni:
  assumes "schema_from n s" and "map (\<lambda>r. (r_id r, broj_racuna r)) rs = map (\<lambda>r. (r_id r, broj_racuna r)) (racuni s)"
  shows "schema_from n (s\<lparr>racuni := rs\<rparr>)"
proof -
  have i: "map r_id rs = map r_id (racuni s)" "map broj_racuna rs = map broj_racuna (racuni s)"
    using arg_cong [OF assms(2), of "map fst"] arg_cong [OF assms(2), of "map snd"] by (simp_all add: comp_def)
  have "set (map r_id rs) = set (map r_id (racuni s))" by (simp only: i)
  then have "r_id ` set rs = r_id ` set (racuni s)" by simp
  moreover have l: "list_all (\<lambda>r. r_id r < k) xs = list_all (\<lambda>x. x < k) (map r_id xs)" for k and xs :: "racun list"
    by (induction xs) simp_all
  have "list_all (\<lambda>r. r_id r < k) rs = list_all (\<lambda>r. r_id r < k) (racuni s)" for k unfolding l i ..
  ultimately show ?thesis
    using assms(1) i by (simp add: schema_from_def schema_ok_def ids_unique_def racun_ids_def)
qed

lemma schema_upd_racuni:
  assumes "schema_from n s" and "\<And>r. r_id (f r) = r_id r \<and> broj_racuna (f r) = broj_racuna r"
  shows "schema_from n (s\<lparr>racuni := upd_where P f (racuni s)\<rparr>)"
  by (rule schema_racuni [OF assms(1)]) (simp add: upd_where_def assms(2))

lemma schema_frame [simp]:
  "schema_from n (s\<lparr>transakcije := ts\<rparr>) = schema_from n s" "schema_from n (s\<lparr>firme := fs, firma_seq := k\<rparr>) = schema_from n s"
  "schema_from n (s\<lparr>now_utc := t\<rparr>) = schema_from n s"
  by (simp_all add: schema_from_def schema_ok_def ids_unique_def racun_ids_def)

lemma keeps_schema_money [schema_intros]:
  "same_key f \<Longrightarrow> keeps_schema (update_racun E P f)" "keeps_schema (insert_transakcije E ts)" "keeps_schema (update_payer E i x)"
  "keeps_schema (update_limits E i d m)"
proof -
  show "keeps_schema (update_racun E P f)" if "same_key f"
    unfolding update_racun_def using that
    by (intro keeps_schema_stmt) (auto intro!: schema_upd_racuni simp: same_key_def split: if_splits)
  show "keeps_schema (insert_transakcije E ts)"
    unfolding insert_transakcije_def by (rule keeps_schema_stmt) (auto simp: Let_def split: if_splits)
  show "keeps_schema (update_payer E i x)"
    unfolding update_payer_def by (rule keeps_schema_stmt) (auto simp: Let_def debit_payer_def intro!: schema_upd_racuni split: if_splits)
  have "keeps_schema (stmt (\<lambda>s. let P = (\<lambda>r. r_id r = i \<and> r_status r = ''AKTIVAN'') in
       if list_all (\<lambda>r. P r \<longrightarrow> fits_limits (set_limits E d m r)) (racuni s)
       then Some ((), s\<lparr>racuni := upd_where P (set_limits E d m) (racuni s)\<rparr>) else None))"
    by (rule keeps_schema_stmt) (auto simp: Let_def set_limits_def intro!: schema_upd_racuni split: if_splits)
  then show "keeps_schema (update_limits E i d m)" unfolding update_limits_def by (intro schema_intros)
qed

lemma keeps_schema_change_balance [schema_intros]: "keeps_schema (change_balance E i x)" "keeps_schema (entry E t i x)"
  unfolding change_balance_def entry_def by (intro schema_intros; simp add: same_key_def)+

lemma keeps_schema_update_intents [schema_intros]:
  "keeps_schema (update_intent j (reject_intent w))" "keeps_schema (complete_intent E j now x)"
  unfolding update_intent_def complete_intent_def
  by (rule keeps_schema_stmt; auto simp: schema_from_def schema_ok_def ids_unique_def racun_ids_def reject_intent_def
      executed_intent_def intro!: intents_ok_upd split: if_splits)+

lemma keeps_schema_update_pending:
  assumes "\<And>x. pa_id (f x) = pa_id x \<and> pa_racun_id (f x) = pa_racun_id x"
  shows "keeps_schema (update_pending a f)"
  unfolding update_pending_def using assms
  by (intro keeps_schema_stmt) (auto simp: schema_from_def schema_ok_def ids_unique_def racun_ids_def intro!: requests_ok_upd)

lemma racun_exists: "list_ex (\<lambda>r. r_id r = i) (racuni s) = (i \<in> racun_ids s)"
  by (auto simp: racun_ids_def list_ex_iff)

lemma keeps_schema_insert_pending [schema_intros]: "keeps_schema (insert_pending E v r t j)"
  unfolding insert_pending_def racun_exists
  by (rule keeps_schema_stmt) (auto simp: schema_from_def schema_ok_def ids_unique_def racun_ids_def intro!: requests_ok_snoc split: if_splits)

lemma intent_fitsD:
  assumes "intent_fits p s"
  shows "pi_IdempotencyKey p \<notin> pi_IdempotencyKey ` set (payment_intents s)" "pi_RacunPlatiocaID p \<in> racun_ids s"
    "set_option (pi_RacunPrimaocaID p) \<subseteq> racun_ids s"
  using assms unfolding intent_fits_def racun_exists by (auto simp: list_ex_iff split: option.splits)

lemma schema_snoc_intent:
  assumes "schema_from n s" "intent_fits p s" "pi_ID p = payment_intent_seq s"
  shows "schema_from n (s\<lparr>payment_intents := payment_intents s @ [p], payment_intent_seq := payment_intent_seq s + 1\<rparr>)"
  using assms(1) intents_ok_snoc [OF _ assms(3) intent_fitsD [OF assms(2)]]
  by (simp add: schema_from_def schema_ok_def ids_unique_def racun_ids_def)

lemma keeps_schema_insert_intent [schema_intros]: "keeps_schema (insert_intent E p)"
  unfolding insert_intent_def
  by (rule keeps_schema_stmt) (auto simp: Let_def intro!: schema_snoc_intent split: if_splits option.splits)

lemma keeps_schema_open [schema_intros]: "keeps_schema (insert_firma f w)" "keeps_schema (insert_racun E ain number i)"
proof -
  show "keeps_schema (insert_firma f w)"
    unfolding insert_firma_def by (rule keeps_schema_stmt) (auto split: if_splits)
  show "keeps_schema (insert_racun E ain number i)"
    unfolding insert_racun_def
    by (rule keeps_schema_stmt) (auto simp: schema_from_def schema_ok_def ids_unique_def racun_ids_def list_all_iff list_ex_iff Let_def
        new_racun_def intro: requests_ok_mono intents_ok_mono split: if_splits option.splits)
qed

section \<open>Everything a user can do\<close>

lemma keeps_schema_reads [schema_intros]:
  "keeps_schema (intent_by_key E k)" "keeps_schema (account_where P)" "keeps_schema (created_answer E k a)" "keeps_schema (treasuries q)"
proof -
  show k: "keeps_schema (intent_by_key E k)"
    unfolding intent_by_key_def by (rule keeps_schema_stmt) (auto split: option.splits)
  show "keeps_schema (account_where P)" "keeps_schema (created_answer E k a)" "keeps_schema (treasuries q)"
    unfolding account_where_def created_answer_def treasuries_def by (intro schema_intros k)+
qed

lemma keeps_schema_execute [schema_intros]: "keeps_schema (execute_payment E q a)"
  unfolding execute_payment_def settle_payment_def move_money_def treasury_legs_def credit_recipient_def Let_def
  by (intro schema_intros keeps_schema_update_pending) simp

lemma keeps_schema_payments:
  "keeps_schema (CreatePaymentIntent E n cin)" "keeps_schema (CreateTransferIntent E n tin)" "keeps_schema (VerifyAndExecute E j code u)"
proof -
  show "keeps_schema (CreatePaymentIntent E n cin)" "keeps_schema (CreateTransferIntent E n tin)"
    unfolding CreatePaymentIntent_def CreateIntent_def CreateTransferIntent_def repo_CreateTransferIntent_def create_rows_def Let_def
    by (intro schema_intros)+
  show "keeps_schema (VerifyAndExecute E j code u)"
    unfolding VerifyAndExecute_def repo_VerifyAndExecute_def verify_body_def verify_intent_def verify_code_def Let_def
    by (intro schema_intros keeps_schema_update_pending) simp_all
qed

lemma keeps_schema_accounts:
  "keeps_schema (ApprovePendingAction E a v)" "keeps_schema (UpdateAccountLimit E v r d m)" "keeps_schema (VerifyAndApplyLimit E v a code)"
  "keeps_schema (CreateAccount E draws ain)" "keeps_schema (RenameAccount v r name)"
proof -
  show "keeps_schema (ApprovePendingAction E a v)" "keeps_schema (UpdateAccountLimit E v r d m)" "keeps_schema (VerifyAndApplyLimit E v a code)"
    unfolding ApprovePendingAction_def UpdateAccountLimit_def VerifyAndApplyLimit_def apply_limit_def Let_def
    by (intro schema_intros keeps_schema_update_pending; simp)+
  show "keeps_schema (CreateAccount E draws ain)"
    unfolding CreateAccount_def accounts_CreateAccount_def validateCurrency_def currency_by_id_def by (intro schema_intros)
  have "keeps_schema (stmt (\<lambda>s. if length name \<le> 255 then Some ((), s\<lparr>racuni := upd_where (\<lambda>x. r_id x = r)
      (\<lambda>x. x\<lparr>naziv_racuna := name\<rparr>) (racuni s)\<rparr>) else None))"
    by (rule keeps_schema_stmt) (auto intro!: schema_upd_racuni split: if_splits)
  then show "keeps_schema (RenameAccount v r name)"
    unfolding RenameAccount_def by (intro schema_intros)
qed

lemma keeps_schemaD: "keeps_schema m \<Longrightarrow> schema_ok s \<Longrightarrow> schema_ok (snd (m s))"
  unfolding keeps_schema_def preserves_def schema_from_def
  by (elim allE [of _ "(racun_seq s, pending_action_seq s, payment_intent_seq s)"]) auto

lemma schema_step:
  assumes "payment_step E s s'" and "schema_ok s"
  shows "schema_ok s'"
  using assms(1)
proof cases
  case clock
  with assms(2) show ?thesis by (simp add: schema_ok_def ids_unique_def racun_ids_def)
qed (use assms(2) in \<open>auto intro: keeps_schemaD keeps_schema_payments keeps_schema_accounts\<close>)


end
