(* ===== verification/Payment_Solvency.thy ===== *)
theory Payment_Solvency
  imports Payment_Schema
begin

text \<open>
  No client's account is overdrawn by payments: the reserved amount stays between zero and the balance, whatever
  users do with amounts given in whole cents. The treasury's accounts (owner 2) may go below zero, since the code
  never checks them.
\<close>

section \<open>Solvent accounts\<close>

definition solvent_racun :: "racun \<Rightarrow> bool" where
  "solvent_racun r \<longleftrightarrow> id_vlasnika r = 2 \<or> racun_ok r \<and> fits_racun r"

definition solvent :: "db \<Rightarrow> bool" where
  "solvent s \<longleftrightarrow> list_all solvent_racun (racuni s) \<and>
     list_all (\<lambda>q. cents (pi_Iznos q) \<and> 0 \<le> pi_Iznos q \<and> pi_Iznos q < 10 ^ 13) (payment_intents s)"

definition bank_account :: "db \<Rightarrow> int \<Rightarrow> bool" where
  "bank_account s i \<longleftrightarrow> list_all (\<lambda>r. r_id r = i \<longrightarrow> id_vlasnika r = 2) (racuni s)"

lemma bank_owner_keys:
  assumes "racun_keys s' = racun_keys s"
  shows "bank_account s' i = bank_account s i"
proof -
  have "bank_account s i = list_all (\<lambda>k. fst k = i \<longrightarrow> fst (snd (snd k)) = 2) (racun_keys s)" for s
    by (simp add: bank_account_def racun_keys_def list_all_iff)
  with assms show ?thesis by simp
qed

lemma solvent_update:
  assumes "list_all solvent_racun rs" and "same_key f"
    and "\<And>r. r \<in> set rs \<Longrightarrow> P r \<Longrightarrow> racun_ok r \<Longrightarrow> fits_racun r \<Longrightarrow> id_vlasnika r \<noteq> 2 \<Longrightarrow> racun_ok (f r) \<and> fits_racun (f r)"
  shows "list_all solvent_racun (upd_where P f rs)"
  by (rule list_all_upd_where [OF assms(1)]) (use assms(2,3) in \<open>auto simp: solvent_racun_def same_key_def\<close>)

lemma keeps_racun_keys_balance:
  "keeps racun_keys (change_balance E i x)" "keeps racun_keys (entry E t i x)" "keeps racun_keys (update_payer E i x)"
proof -
  show "keeps racun_keys (change_balance E i x)" "keeps racun_keys (entry E t i x)"
    unfolding change_balance_def entry_def by (intro keeps_intros; simp add: same_key_def)+
  show "keeps racun_keys (update_payer E i x)"
    unfolding update_payer_def
    by (rule keeps_stmt) (auto simp: Let_def racun_keys_def upd_where_def debit_payer_def split: if_splits)
qed

context numerics
begin

lemma solvent_credit:
  assumes "list_all solvent_racun (racuni s)" "0 \<le> x" and "change_balance E i x s = (Inr u, s')"
  shows "list_all solvent_racun (racuni s')"
proof -
  let ?f = "\<lambda>r. store_racun E (r\<lparr>stanje_racuna := stanje_racuna r + x\<rparr>)"
  have s': "racuni s' = upd_where (active_racun i) ?f (racuni s)" "list_all (\<lambda>r. active_racun i r \<longrightarrow> fits_racun (?f r)) (racuni s)"
    using assms(3) by (auto simp: change_balance_def update_racun_def stmt_def elim!: bnd_InrE split: if_splits)
  show ?thesis
    unfolding s'(1) using assms(1,2) s'(2)
    by (intro solvent_update conjI racun_ok_store_add_balance) (auto simp: same_key_def list_all_iff)
qed

lemma solvent_bank_debit:
  assumes "list_all solvent_racun (racuni s)" "bank_account s i" and "change_balance E i x s = (Inr u, s')"
  shows "list_all solvent_racun (racuni s')"
proof -
  have s': "racuni s' = upd_where (active_racun i) (\<lambda>r. store_racun E (r\<lparr>stanje_racuna := stanje_racuna r + x\<rparr>)) (racuni s)"
    using assms(3) by (auto simp: change_balance_def update_racun_def stmt_def elim!: bnd_InrE split: if_splits)
  show ?thesis
    unfolding s' using assms(1,2) by (intro solvent_update) (auto simp: same_key_def active_racun_def bank_account_def list_all_iff)
qed

lemma solvent_payer:
  assumes "list_all solvent_racun (racuni s)" "ids_unique s" "racun_of s i = Some r" "cents x" "0 \<le> x" "id_vlasnika r \<noteq> 2 \<Longrightarrow> x \<le> raspolozivo r"
    and "update_payer E i x s = (Inr u, s')"
  shows "list_all solvent_racun (racuni s')"
proof -
  let ?f = "\<lambda>r. store_racun E (debit_payer E x r)"
  have s': "racuni s' = upd_where (active_racun i) ?f (racuni s)" "list_all (\<lambda>r. active_racun i r \<longrightarrow> fits_racun (?f r)) (racuni s)"
    using assms(7) by (auto simp: update_payer_def stmt_def Let_def list_all_iff split: if_splits)
  have "x' = r" if "x' \<in> set (racuni s)" "active_racun i x'" for x'
    using racun_of_unique [OF assms(2) that(1)] assms(3) that(2) by (simp add: active_racun_def)
  moreover have "racun_ok (?f r)" if "racun_ok r" "id_vlasnika r \<noteq> 2"
    using that(1) assms(4,5) assms(6) [OF that(2)] by (auto simp: racun_ok_def debit_payer_def raspolozivo_def round2_id)
  ultimately show ?thesis
    unfolding s'(1) using assms(1) s'(2)
    by (intro solvent_update) (auto simp: same_key_def debit_payer_def list_all_iff)
qed

lemma solvent_treasury_legs:
  assumes "list_all solvent_racun (racuni s)" "isCrossCurrency q \<Longrightarrow> bank_account s (snd banks)" "0 \<le> x"
    and "treasury_legs E q banks x y s = (Inr u, s')"
  shows "list_all solvent_racun (racuni s')"
proof (cases "isCrossCurrency q")
  case True
  with assms(4) obtain t1 t2 t3 where t: "change_balance E (fst banks) x s = (Inr (), t1)" "entry E ''UPLATA'' (fst banks) x t1 = (Inr (), t2)"
    "change_balance E (snd banks) (- y) t2 = (Inr (), t3)" "entry E ''ISPLATA'' (snd banks) y t3 = (Inr (), s')"
    by (auto simp: treasury_legs_def elim!: bnd_InrE)
  have "list_all solvent_racun (racuni t2)" using solvent_credit [OF assms(1,3) t(1)] entry_InrD [OF t(2)] by simp
  moreover have "racun_keys t2 = racun_keys s"
    using keepsD [OF keeps_racun_keys_balance(1) t(1)] keepsD [OF keeps_racun_keys_balance(2) t(2)] by simp
  from bank_owner_keys [OF this] have "bank_account t2 (snd banks)" using assms(2) [OF True] by simp
  ultimately show ?thesis using solvent_bank_debit [OF _ _ t(3)] entry_InrD [OF t(4)] by simp
qed (use assms in \<open>simp add: treasury_legs_def ret_def\<close>)

lemma solvent_credit_recipient:
  assumes "list_all solvent_racun (racuni s)" "0 \<le> y" and c: "credit_recipient E q found y s = (Inr u, s')"
  shows "list_all solvent_racun (racuni s')"
proof (cases "pi_RacunPrimaocaID q = None \<or> \<not> found")
  case True
  then have "s' = s" using c by (auto simp: credit_recipient_def ret_def split: option.splits)
  with assms(1) show ?thesis by simp
next
  case False
  then obtain i t where "change_balance E i y s = (Inr (), t)" "entry E ''UPLATA'' i y t = (Inr (), s')"
    using c by (auto simp: credit_recipient_def elim!: bnd_InrE)
  with solvent_credit [OF assms(1,2)] entry_InrD show ?thesis by metis
qed

lemma solvent_move_money:
  assumes s: "list_all solvent_racun (racuni s)" "ids_unique s" "racun_of s (pi_RacunPlatiocaID q) = Some r"
    and x: "cents (pi_Iznos q)" "0 \<le> pi_Iznos q" "pi_Iznos q < 10 ^ 13" "id_vlasnika r \<noteq> 2 \<Longrightarrow> pi_Iznos q \<le> raspolozivo r"
    and b: "isCrossCurrency q \<Longrightarrow> bank_account s (snd banks)" and m: "move_money E q banks found s = (Inr u, s')"
  shows "list_all solvent_racun (racuni s')"
proof -
  let ?y = "newFromFloat E (creditAmount q)"
  have e: "newFromFloat E (fl64 (pi_Iznos q)) = pi_Iznos q" using x(1-3) by (intro newFromFloat_literal) auto
  from m obtain t1 t2 t3 where t: "update_payer E (pi_RacunPlatiocaID q) (pi_Iznos q) s = (Inr (), t1)"
      "entry E ''ISPLATA'' (pi_RacunPlatiocaID q) (pi_Iznos q) t1 = (Inr (), t2)"
      "treasury_legs E q banks (pi_Iznos q) ?y t2 = (Inr (), t3)" "credit_recipient E q found ?y t3 = (Inr (), s')"
    unfolding move_money_def Let_def e by (auto elim!: bnd_InrE)
  have y: "0 \<le> ?y" using fl64_nonneg [OF x(2)] by (auto simp: creditAmount_def intro!: newFromFloat_nonneg split: option.split)
  have "list_all solvent_racun (racuni t2)" using solvent_payer [OF s x(1,2,4) t(1)] entry_InrD [OF t(2)] by simp
  moreover have "racun_keys t2 = racun_keys s"
    using keepsD [OF keeps_racun_keys_balance(3) t(1)] keepsD [OF keeps_racun_keys_balance(2) t(2)] by simp
  from bank_owner_keys [OF this] have "isCrossCurrency q \<Longrightarrow> bank_account t2 (snd banks)" using b by simp
  ultimately have "list_all solvent_racun (racuni t3)" by (intro solvent_treasury_legs [OF _ _ x(2) t(3)])
  from solvent_credit_recipient [OF this y t(4)] show ?thesis .
qed

end

lemma treasury_is_bank:
  assumes "ids_unique s" "treasury_of v s \<noteq> 0"
  shows "bank_account s (treasury_of v s)"
proof -
  obtain r where r: "treasury_of v s = r_id r" "r \<in> set (racuni s)" "id_vlasnika r = 2"
    using assms(2) by (rule treasury_ofE)
  have "id_vlasnika x = 2" if x: "x \<in> set (racuni s)" "r_id x = r_id r" for x
  proof -
    have "racun_of s (r_id r) = Some x" using racun_of_unique [OF assms(1) x(1)] unfolding x(2) .
    from trans [OF sym [OF this] racun_of_unique [OF assms(1) r(2)]] r(3) show ?thesis by simp
  qed
  then show ?thesis unfolding bank_account_def r(1) list_all_iff by blast
qed

text \<open>Confirming a payment.\<close>

lemma solvent_execute:
  assumes "numerics E" "ids_unique t" "list_all solvent_racun (racuni t)" "cents (pi_Iznos q)" "0 \<le> pi_Iznos q" "pi_Iznos q < 10 ^ 13"
    and "execute_payment E q a t = (Inr p, s1)"
  shows "list_all solvent_racun (racuni s1)"
proof -
  from assms(7) obtain banks payer t1 where tr: "treasuries q t = (Inr banks, t1)"
    "racun_of t (pi_RacunPlatiocaID q) = Some payer" "checkFunds payer (fl64 (pi_Iznos q)) = None"
    "settle_payment E q a banks (case pi_RacunPrimaocaID q of None \<Rightarrow> False | Some i \<Rightarrow> racun_of t i \<noteq> None) (bump t1) = (Inr p, s1)"
    "core t1 = core t" by (rule execute_payment_InrE)
  from tr(4) obtain t3 where t3: "move_money E q banks (case pi_RacunPrimaocaID q of None \<Rightarrow> False | Some i \<Rightarrow> racun_of t i \<noteq> None)
      (bump t1) = (Inr (), t3)" "racuni s1 = racuni t3" by (rule settle_payment_InrE)
  have e: "racuni (bump t1) = racuni t" using tr(5) by (simp add: core_def)
  then have u: "ids_unique (bump t1)" "racun_of (bump t1) i = racun_of t i" "bank_account (bump t1) i = bank_account t i" for i
    using assms(2) by (simp_all add: ids_unique_def racun_of_def bank_account_def)
  have "solvent_racun payer" using assms(3) racun_of_SomeD [OF tr(2)] by (auto simp: list_all_iff)
  then have a: "pi_Iznos q \<le> raspolozivo payer" if "id_vlasnika payer \<noteq> 2"
    using that checkFunds_available [OF _ _ _ _ _ _ tr(3)] assms(4-6) by (auto simp: solvent_racun_def racun_ok_def fits_racun_def)
  have b: "bank_account (bump t1) (snd banks)" if "isCrossCurrency q"
    using treasuries_InrD [OF tr(1) that] treasury_is_bank [OF assms(2)] u(3) by auto
  from numerics.solvent_move_money [OF assms(1) _ u(1) _ assms(4-6) a b t3(1)] assms(3) tr(2) e u(2) t3(2)
  show ?thesis by simp
qed

definition amounts :: "db \<Rightarrow> decimal list" where
  "amounts s = map pi_Iznos (payment_intents s)"

lemma solvent_iff: "solvent s \<longleftrightarrow> list_all solvent_racun (racuni s) \<and> list_all (\<lambda>x. cents x \<and> 0 \<le> x \<and> x < 10 ^ 13) (amounts s)"
  by (simp add: solvent_def amounts_def list_all_iff)

lemma clock_free_amounts [simp]: "clock_free amounts"
  by (simp add: clock_free_def amounts_def)

lemma keeps_amounts_keeps: "keeps payment_intents m \<Longrightarrow> keeps amounts m"
  by (simp add: keeps_def amounts_def)

lemma keeps_amounts_verify: "keeps amounts (VerifyAndExecute E i code u)"
proof -
  have t: "keeps amounts (in_tx m)" if "keeps amounts m" for m :: "'a dbp"
    by (rule keeps_in_tx [OF that]) (auto simp: amounts_def)
  have k: "keeps amounts (update_intent j (reject_intent w))" "keeps amounts (complete_intent E j now x)" for j w now x
    unfolding update_intent_def complete_intent_def
    by (rule keeps_stmt; auto simp: amounts_def upd_where_def reject_intent_def executed_intent_def split: if_splits)+
  have p: "keeps amounts (update_pending a f)" "keeps amounts (move_money E q banks found)" for a f q banks found
    by (rule keeps_amounts_keeps, intro keeps_intros)+
  have e: "keeps amounts (execute_payment E q a)" for q a
    unfolding execute_payment_def settle_payment_def by (intro keeps_intros clock_free_amounts k p)
  have v: "keeps amounts (verify_body E i code u)"
    unfolding verify_body_def verify_intent_def verify_code_def Let_def by (intro keeps_intros clock_free_amounts k p e)
  show ?thesis
    unfolding VerifyAndExecute_def repo_VerifyAndExecute_def by (intro keeps_intros t v)
qed

lemma solvent_verify:
  assumes "numerics E" "ids_unique s" "solvent s"
  shows "solvent (snd (VerifyAndExecute E i code u s))"
proof -
  let ?s' = "snd (VerifyAndExecute E i code u s)"
  have "amounts ?s' = amounts s" by (rule keeps_snd [OF keeps_amounts_verify])
  moreover have "list_all solvent_racun (racuni ?s')"
  proof (cases "fst (VerifyAndExecute E i code u s)")
    case (Inl e)
    then have "money ?s' = money s" by (intro failed_payment_moves_nothing) (auto simp: prod_eq_iff)
    with assms(3) show ?thesis by (simp add: solvent_def money_def)
  next
    case (Inr p)
    then have "VerifyAndExecute E i code u s = (Inr p, ?s')" by (auto simp: prod_eq_iff)
    then show ?thesis
    proof (cases rule: VerifyAndExecute_InrE)
      case again
      then have "core ?s' = core s" by (intro keeps_core_closed) auto
      with assms(3) show ?thesis by (simp add: solvent_def core_def)
    next
      case (runs q a act s1)
      have "cents (pi_Iznos q)" "0 \<le> pi_Iznos q" "pi_Iznos q < 10 ^ 13"
        using assms(3) runs(1) by (auto simp: solvent_def intent_of_def list_all_iff dest: find_key_SomeD)
      from solvent_execute [OF assms(1) _ _ this runs(9)] assms(2,3) have "list_all solvent_racun (racuni s1)"
        by (simp add: solvent_def)
      then show ?thesis using runs(10) by simp
    qed
  qed
  ultimately show ?thesis using assms(3) by (simp add: solvent_iff)
qed

section \<open>Everything a user can do\<close>

lemma clock_free_solvent [simp]: "clock_free solvent"
  by (simp add: clock_free_def solvent_def)

lemma preserves_solvent_keeps: "keeps racuni m \<Longrightarrow> keeps payment_intents m \<Longrightarrow> preserves solvent m"
  by (simp add: keeps_def preserves_def solvent_def)

lemma preserves_solvent_in_tx [preserves_intros]: "preserves solvent m \<Longrightarrow> preserves solvent (in_tx m)"
  by (rule preserves_in_tx) (auto simp: solvent_def)

lemma keeps_racuni_pending [keeps_intros]: "keeps racuni (insert_pending E v r t j)" "keeps racuni (update_pending a f)"
  unfolding insert_pending_def update_pending_def by (rule keeps_stmt; auto split: if_splits)+

lemma preserves_solvent_reads:
  "preserves solvent (intent_by_key E k)" "preserves solvent (account_where P)" "preserves solvent (created_answer E k b)"
  "preserves solvent (insert_pending E v a t j)" "preserves solvent (update_pending r f)"
  by (rule preserves_solvent_keeps; intro keeps_intros clock_free_fields)+

lemma solvent_racun_same:
  "stanje_racuna (f r) = stanje_racuna r \<Longrightarrow> rezervisana_sredstva (f r) = rezervisana_sredstva r \<Longrightarrow> id_vlasnika (f r) = id_vlasnika r \<Longrightarrow>
   solvent_racun (f r) = solvent_racun r"
  by (simp add: solvent_racun_def racun_ok_def fits_racun_def)

lemma solvent_same_amounts:
  assumes "solvent s" and "\<And>r. stanje_racuna (f r) = stanje_racuna r \<and> rezervisana_sredstva (f r) = rezervisana_sredstva r \<and>
    id_vlasnika (f r) = id_vlasnika r"
  shows "solvent (s\<lparr>racuni := upd_where P f (racuni s)\<rparr>)"
  using assms solvent_racun_same [of f] by (auto simp: solvent_def upd_where_def list_all_iff)

lemma preserves_solvent_limits [preserves_intros]: "preserves solvent (update_limits E i d m)"
proof -
  have "preserves solvent (stmt (\<lambda>s. let P = (\<lambda>r. r_id r = i \<and> r_status r = ''AKTIVAN'') in
       if list_all (\<lambda>r. P r \<longrightarrow> fits_limits (set_limits E d m r)) (racuni s)
       then Some ((), s\<lparr>racuni := upd_where P (set_limits E d m) (racuni s)\<rparr>) else None))"
    by (rule preserves_stmt) (auto simp: Let_def set_limits_def intro!: solvent_same_amounts split: if_splits)
  then show ?thesis unfolding update_limits_def by (intro preserves_intros)
qed

lemma preserves_solvent_accounts:
  "preserves solvent (ApprovePendingAction E a v)" "preserves solvent (UpdateAccountLimit E v r d m)"
  "preserves solvent (VerifyAndApplyLimit E v a code)" "preserves solvent (RenameAccount v r name)"
proof -
  show "preserves solvent (ApprovePendingAction E a v)" "preserves solvent (UpdateAccountLimit E v r d m)"
    "preserves solvent (VerifyAndApplyLimit E v a code)"
    unfolding ApprovePendingAction_def UpdateAccountLimit_def VerifyAndApplyLimit_def apply_limit_def Let_def
    by (intro preserves_intros preserves_solvent_reads clock_free_solvent)+
  have "preserves solvent (stmt (\<lambda>s. if length name \<le> 255 then Some ((), s\<lparr>racuni := upd_where (\<lambda>x. r_id x = r)
      (\<lambda>x. x\<lparr>naziv_racuna := name\<rparr>) (racuni s)\<rparr>) else None))"
    by (rule preserves_stmt) (auto intro!: solvent_same_amounts split: if_splits)
  then show "preserves solvent (RenameAccount v r name)"
    unfolding RenameAccount_def by (intro preserves_intros clock_free_solvent)
qed

text \<open>An amount a client enters in whole cents, as the \<open>float64\<close> it arrives as.\<close>

definition cents_amount :: "float64 \<Rightarrow> bool" where
  "cents_amount x \<longleftrightarrow> (\<exists>c. cents c \<and> \<bar>c\<bar> < 10 ^ 13 \<and> x = fl64 c)"

lemma stored_amount:
  assumes "numerics E" "cents_amount x" "0 < x"
  shows "cents (round4 E (newFromFloat E x)) \<and> 0 \<le> round4 E (newFromFloat E x) \<and> round4 E (newFromFloat E x) < 10 ^ 13"
proof -
  from assms(2) obtain c where c: "cents c" "\<bar>c\<bar> < 10 ^ 13" "x = fl64 c" by (auto simp: cents_amount_def)
  have "0 \<le> c"
  proof (rule ccontr)
    assume "\<not> 0 \<le> c"
    with fl64_nonneg [of "- c"] fl64_minus [of c] c(3) assms(3) show False by simp
  qed
  moreover have "round4 E (newFromFloat E x) = c"
    using numerics.newFromFloat_literal [OF assms(1) c(1,2)] numerics.round4_cents [OF assms(1) c(1)] c(3) by simp
  ultimately show ?thesis using c by simp
qed

lemma preserves_solvent_insert_intent:
  assumes "cents (round4 E (pi_Iznos p)) \<and> 0 \<le> round4 E (pi_Iznos p) \<and> round4 E (pi_Iznos p) < 10 ^ 13"
  shows "preserves solvent (insert_intent E p)"
  unfolding insert_intent_def
  by (rule preserves_stmt) (use assms in \<open>auto simp: solvent_def Let_def store_intent_def split: option.splits if_splits\<close>)

lemma preserves_solvent_creation:
  assumes "numerics E"
  shows "cents_amount (cp_Iznos cin) \<Longrightarrow> preserves solvent (CreatePaymentIntent E n cin)"
    "cents_amount (ct_Iznos tin) \<Longrightarrow> preserves solvent (CreateTransferIntent E n tin)"
proof -
  assume c: "cents_amount (cp_Iznos cin)"
  have "preserves solvent (CreateIntent E n cin)" if "0 < cp_Iznos cin"
    unfolding CreateIntent_def create_rows_def Let_def
    by (intro preserves_intros preserves_solvent_reads preserves_solvent_insert_intent clock_free_solvent)
      (use stored_amount [OF assms c that] in \<open>simp add: new_intent_def\<close>)
  then show "preserves solvent (CreatePaymentIntent E n cin)"
    unfolding CreatePaymentIntent_def by (cases "0 < cp_Iznos cin") (auto intro!: preserves_intros split: option.splits)
next
  assume c: "cents_amount (ct_Iznos tin)"
  have "preserves solvent (repo_CreateTransferIntent E n tin)" if "0 < ct_Iznos tin"
    unfolding repo_CreateTransferIntent_def create_rows_def
    by (intro preserves_intros preserves_solvent_reads preserves_solvent_insert_intent clock_free_solvent)
      (use stored_amount [OF assms c that] in \<open>simp add: new_intent_def\<close>)
  then show "preserves solvent (CreateTransferIntent E n tin)"
    unfolding CreateTransferIntent_def by (cases "0 < ct_Iznos tin") (auto intro!: preserves_intros)
qed

lemma preserves_solvent_open:
  assumes "numerics E" "0 \<le> ca_StanjeRacuna ain"
  shows "preserves solvent (CreateAccount E draws ain)"
proof -
  have "0 \<le> round2 E (newFromFloat E (ca_StanjeRacuna ain))"
    using numerics.round2_nonneg [OF assms(1) numerics.newFromFloat_nonneg [OF assms]] .
  then have "preserves solvent (insert_racun E ain number i)" for number i
    unfolding insert_racun_def
    by (intro preserves_stmt) (auto simp: solvent_def Let_def new_racun_def solvent_racun_def racun_ok_def fits_racun_def racun_fits_def
        numerics.round2_cents [OF assms(1)] split: option.splits if_splits)
  moreover have "preserves solvent (insert_firma f w)" for f w
    unfolding insert_firma_def by (rule preserves_stmt) (auto simp: solvent_def split: if_splits)
  ultimately show ?thesis
    unfolding CreateAccount_def accounts_CreateAccount_def validateCurrency_def currency_by_id_def
    by (intro preserves_intros clock_free_solvent)
qed

text \<open>Steps whose amounts are whole cents, and accounts that are opened with a balance of at least zero.\<close>

inductive cents_step :: "env \<Rightarrow> db \<Rightarrow> db \<Rightarrow> bool" for E :: env where
  pay: "cents_amount (cp_Iznos cin) \<Longrightarrow> cents_step E s (snd (CreatePaymentIntent E n cin s))"
| transfer: "cents_amount (ct_Iznos tin) \<Longrightarrow> cents_step E s (snd (CreateTransferIntent E n tin s))"
| verify: "cents_step E s (snd (VerifyAndExecute E j code u s))"
| approve: "cents_step E s (snd (ApprovePendingAction E a v s))"
| ask_limit: "cents_step E s (snd (UpdateAccountLimit E v r d m s))"
| set_limit: "cents_step E s (snd (VerifyAndApplyLimit E v a code s))"
| open_account: "0 \<le> ca_StanjeRacuna ain \<Longrightarrow> cents_step E s (snd (CreateAccount E draws ain s))"
| rename_account: "cents_step E s (snd (RenameAccount v r name s))"
| clock: "cents_step E s (s\<lparr>now_utc := t\<rparr>)"

lemma cents_step_step: "cents_step E s s' \<Longrightarrow> payment_step E s s'"
  by (induction rule: cents_step.induct) (auto intro: payment_step.intros)

lemma preserves_snd: "preserves P m \<Longrightarrow> P s \<Longrightarrow> P (snd (m s))"
  by (simp add: preserves_def)

lemma solvent_step:
  assumes "numerics E" "cents_step E s s'" "schema_ok s" "solvent s"
  shows "solvent s'"
  using assms(2)
proof cases
  case (verify j code u)
  with solvent_verify assms show ?thesis by (simp add: schema_ok_def)
next
  case clock
  with assms(4) show ?thesis by (simp add: solvent_def)
qed (use assms in \<open>auto intro: preserves_snd preserves_solvent_creation preserves_solvent_accounts preserves_solvent_open\<close>)


section \<open>Witnesses\<close>

lemma sample_schema: "schema_ok (sample_payments\<lparr>racun_seq := 100\<rparr>)"
  by (simp add: schema_ok_def ids_unique_def racun_ids_def requests_ok_def intents_ok_def sample_intent_def sample_request_def
      sample_payments_def sample_requests_def sample_db_def empty_db_def)

lemma sample_solvent: "solvent (sample_payments\<lparr>racun_seq := 100\<rparr>)"
  by (simp add: solvent_def solvent_racun_def racun_ok_def fits_racun_def sample_intent_def cents_def)



end
