(* ===== verification/Payment_Idempotence.thy ===== *)
theory Payment_Idempotence
  imports Payment_Solvency
begin

text \<open>
  A repeated request finds the payment it made: the idempotency key names one payment, whatever happened to it since.
\<close>

definition keyed :: "db \<Rightarrow> string \<Rightarrow> PaymentIntent option" where
  "keyed s k = List.find (\<lambda>p. pi_IdempotencyKey p = k) (payment_intents s)"

text \<open>What of the payment with a key never changes.\<close>

definition key_row :: "db \<Rightarrow> string \<Rightarrow> (int \<times> int option) option" where
  "key_row s k = map_option (\<lambda>p. (pi_ID p, pi_PendingActionID p)) (keyed s k)"

definition has_row :: "string \<Rightarrow> int \<times> int option \<Rightarrow> db \<Rightarrow> bool" where
  "has_row k x s \<longleftrightarrow> key_row s k = Some x"

lemma clock_free_has_row [simp]: "clock_free (has_row k x)"
  by (simp add: clock_free_def has_row_def key_row_def keyed_def)

lemma preserves_has_row_keeps: "keeps payment_intents m \<Longrightarrow> preserves (has_row k x) m"
  by (simp add: keeps_def preserves_def has_row_def key_row_def keyed_def)

lemma preserves_has_row_in_tx [preserves_intros]: "preserves (has_row k x) m \<Longrightarrow> preserves (has_row k x) (in_tx m)"
  by (rule preserves_in_tx) (auto simp: has_row_def key_row_def keyed_def)

lemma preserves_has_row_writes [preserves_intros]:
  "preserves (has_row k x) (insert_intent E p)" "preserves (has_row k x) (update_intent j (reject_intent w))"
  "preserves (has_row k x) (complete_intent E j now y)"
proof -
  show "preserves (has_row k x) (insert_intent E p)"
    unfolding insert_intent_def
    by (rule preserves_stmt) (auto simp: has_row_def key_row_def keyed_def Let_def find_append_Some split: option.splits if_splits)
  show "preserves (has_row k x) (update_intent j (reject_intent w))" "preserves (has_row k x) (complete_intent E j now y)"
    unfolding update_intent_def complete_intent_def
    by (rule preserves_stmt; auto simp: has_row_def key_row_def keyed_def find_upd_pred reject_intent_def executed_intent_def split: if_splits)+
qed

lemma preserves_has_row_reads:
  "preserves (has_row k x) (intent_by_key E l)" "preserves (has_row k x) (account_where P)" "preserves (has_row k x) (created_answer E l b)"
  "preserves (has_row k x) (insert_pending E v a t j)" "preserves (has_row k x) (update_pending r f)"
  "preserves (has_row k x) (treasuries q)" "preserves (has_row k x) (move_money E q banks found)"
  by (rule preserves_has_row_keeps, intro keeps_intros clock_free_fields)+

lemma preserves_has_row_payments:
  "preserves (has_row k x) (CreatePaymentIntent E n cin)" "preserves (has_row k x) (CreateTransferIntent E n tin)"
  "preserves (has_row k x) (VerifyAndExecute E j code u)"
  unfolding CreatePaymentIntent_def CreateIntent_def CreateTransferIntent_def repo_CreateTransferIntent_def create_rows_def VerifyAndExecute_def
    repo_VerifyAndExecute_def verify_body_def verify_intent_def verify_code_def execute_payment_def settle_payment_def Let_def
  by (intro preserves_intros preserves_has_row_reads clock_free_has_row)+

lemma has_row_steps:
  assumes "(payment_step E)\<^sup>*\<^sup>* s s'" "has_row k x s"
  shows "has_row k x s'"
  using assms
proof (induction rule: rtranclp_induct)
  case (step s1 s2)
  from step.hyps(2) show ?case
  proof cases
    case clock
    with step show ?thesis by (simp add: has_row_def key_row_def keyed_def)
  qed (use step in \<open>auto intro: preserves_snd preserves_has_row_payments keeps_intents_accounts [THEN preserves_has_row_keeps]\<close>)
qed

lemma intent_by_key_InrD:
  "intent_by_key E key s = (Inr r, s') \<Longrightarrow> \<exists>k. uuidIn E key = Some k \<and> r = keyed s k \<and> s' = bump s"
  by (auto simp: intent_by_key_def stmt_def keyed_def split: if_splits option.splits)

lemma find_snoc_new: "\<not> list_ex P xs \<Longrightarrow> P x \<Longrightarrow> List.find P (xs @ [x]) = Some x"
  by (induction xs) auto

text \<open>The row a creation leaves: the payment that was answered.\<close>

lemma inserted_row:
  assumes "in_tx (bnd (insert_pending E v r t j) (\<lambda>a. bnd (insert_intent E (p a)) (\<lambda>_. ret a))) s = (Inr a, s1)"
    and "\<And>a. pi_PendingActionID (p a) = Some a" "\<And>a. pi_IdempotencyKey (p a) = key" "uuidIn E key = Some k"
  shows "map_option pi_PendingActionID (keyed s1 k) = Some (Some a)"
proof -
  from assms(1) obtain t1 t2 where i: "insert_pending E v r t j (begin_tx s) = (Inr a, t1)" "insert_intent E (p a) t1 = (Inr (), t2)"
    "s1 = end_tx s (bump t2)" by (auto simp: ret_def elim!: in_tx_InrE bnd_InrE)
  define q where "q = (store_intent E (p a))\<lparr>pi_ID := payment_intent_seq t1, pi_IdempotencyKey := k\<rparr>"
  from i(2) assms(3,4) have "intent_fits q (bump t1)" "payment_intents t2 = payment_intents t1 @ [q]"
    unfolding insert_intent_def stmt_def Let_def by (auto simp: q_def split: if_splits)
  moreover have "pi_IdempotencyKey q = k" "pi_PendingActionID q = Some a" using assms(2) by (simp_all add: q_def store_intent_def)
  moreover from calculation have "List.find (\<lambda>x. pi_IdempotencyKey x = k) (payment_intents t1 @ [q]) = Some q"
    by (intro find_snoc_new) (simp_all add: intent_fits_def)
  ultimately show ?thesis using i(3) by (simp add: keyed_def)
qed

text \<open>Both kinds of creation end by reading the row back.\<close>

lemma created_answer_row:
  assumes "map_option pi_PendingActionID (keyed t k) = Some (Some a)" "uuidIn E key = Some k" "created_answer E key a t = (Inr (p, b), s1)"
  shows "keyed s1 k = Some p \<and> existing_answer p = (p, b)"
  using assms
  by (auto simp: created_answer_def existing_answer_def ret_def fail_def keyed_def elim!: bnd_InrE dest!: intent_by_key_InrD split: option.splits)

lemma create_rows_answer:
  assumes "create_rows E v r t j key p s = (Inr (q, b), s1)" and "uuidIn E key = Some k"
    and "\<And>a. pi_PendingActionID (p a) = Some a" "\<And>a. pi_IdempotencyKey (p a) = key"
  shows "\<exists>p0. keyed s1 k = Some p0 \<and> existing_answer p0 = (q, b)"
proof -
  from assms(1) obtain a t1 where t: "in_tx (bnd (insert_pending E v r t j) (\<lambda>a. bnd (insert_intent E (p a)) (\<lambda>_. ret a))) s = (Inr a, t1)"
    "created_answer E key a t1 = (Inr (q, b), s1)" unfolding create_rows_def by (rule bnd_InrE)
  from created_answer_row [OF inserted_row [OF t(1) assms(3,4,2)] assms(2) t(2)] show ?thesis by blast
qed

lemma creation_answer:
  shows "CreateIntent E n cin s = (Inr (p, a), s1) \<Longrightarrow> uuidIn E (cp_IdempotencyKey cin) = Some k \<Longrightarrow>
      \<exists>p0. keyed s1 k = Some p0 \<and> existing_answer p0 = (p, a)"
    and "repo_CreateTransferIntent E n tin s = (Inr (p, a), s1) \<Longrightarrow> uuidIn E (ct_IdempotencyKey tin) = Some k \<Longrightarrow>
      \<exists>p0. keyed s1 k = Some p0 \<and> existing_answer p0 = (p, a)"
proof -
  assume c: "CreateIntent E n cin s = (Inr (p, a), s1)" and k: "uuidIn E (cp_IdempotencyKey cin) = Some k"
  from c show "\<exists>p0. keyed s1 k = Some p0 \<and> existing_answer p0 = (p, a)"
    unfolding CreateIntent_def
    by (auto simp: k ret_def fail_def gets_def Let_def new_intent_def keyed_def [of "bump s"] keyed_def [of s] elim!: bnd_InrE
        dest!: intent_by_key_InrD create_rows_answer [OF _ k] split: option.splits if_splits)
next
  assume c: "repo_CreateTransferIntent E n tin s = (Inr (p, a), s1)" and k: "uuidIn E (ct_IdempotencyKey tin) = Some k"
  from c show "\<exists>p0. keyed s1 k = Some p0 \<and> existing_answer p0 = (p, a)"
    unfolding repo_CreateTransferIntent_def
    by (auto simp: k ret_def fail_def gets_def Let_def new_intent_def keyed_def [of "bump s"] keyed_def [of s] elim!: bnd_InrE
        dest!: intent_by_key_InrD create_rows_answer [OF _ k] split: option.splits if_splits)
qed

lemma creation_succeeds_key:
  assumes "CreatePaymentIntent E n cin s = (Inr r, s1)"
  shows "CreateIntent E n cin s = (Inr r, s1)" "CreatePaymentIntent E n' cin = CreateIntent E n' cin"
    "\<exists>k. uuidIn E (cp_IdempotencyKey cin) = Some k"
proof -
  show c: "CreateIntent E n cin s = (Inr r, s1)" and "CreatePaymentIntent E n' cin = CreateIntent E n' cin"
    using assms by (auto simp: CreatePaymentIntent_def fail_def fun_eq_iff split: option.splits if_splits)
  from c show "\<exists>k. uuidIn E (cp_IdempotencyKey cin) = Some k"
    unfolding CreateIntent_def by (rule bnd_InrE) (auto dest: intent_by_key_InrD)
qed

text \<open>C15. Creating a payment is idempotent: after a successful request, and whatever users do in between, the same request answers the
  same payment and the same confirmation request, and changes nothing.\<close>

theorem create_payment_idempotent:
  assumes "CreatePaymentIntent E n cin s = (Inr (p, a), s1)" and "(payment_step E)\<^sup>*\<^sup>* s1 s2" and "healthy s2"
  shows "\<exists>p'. fst (CreatePaymentIntent E n' cin s2) = Inr (p', a) \<and> pi_ID p' = pi_ID p \<and>
    pi_IdempotencyKey p' = pi_IdempotencyKey p \<and> core (snd (CreatePaymentIntent E n' cin s2)) = core s2"
proof -
  note c = creation_succeeds_key [OF assms(1)]
  obtain k where k: "uuidIn E (cp_IdempotencyKey cin) = Some k" using c(3) by blast
  obtain p0 where p0: "keyed s1 k = Some p0" "existing_answer p0 = (p, a)" using creation_answer(1) [OF c(1) k] by blast
  have "has_row k (pi_ID p0, pi_PendingActionID p0) s2"
    by (rule has_row_steps [OF assms(2)]) (simp add: has_row_def key_row_def p0)
  then obtain p' where p': "keyed s2 k = Some p'" "pi_ID p' = pi_ID p0" "pi_PendingActionID p' = pi_PendingActionID p0"
    by (auto simp: has_row_def key_row_def)
  have "pi_IdempotencyKey p' = k" "pi_IdempotencyKey p0 = k" using p'(1) p0(1) by (auto simp: keyed_def dest: find_key_SomeD)
  moreover have "intent_by_key E (cp_IdempotencyKey cin) s2 = (Inr (Some p'), bump s2)"
    using assms(3) k p'(1) by (simp add: intent_by_key_def stmt_ok healthy_def keyed_def)
  then have "CreateIntent E n' cin s2 = (Inr (existing_answer p'), bump s2)" by (simp add: CreateIntent_def bnd_def ret_def)
  ultimately show ?thesis using p0(2) p' unfolding c(2) by (auto simp: existing_answer_def)
qed

definition sample_input :: CreatePaymentIntentInput where
  "sample_input = \<lparr>cp_IdempotencyKey = ''k'', cp_RacunPlatiocaID = 10, cp_BrojRacunaPrimaoca = ''A11'', cp_NazivPrimaoca = ''X'',
     cp_Iznos = 100, cp_SifraPlacanja = ''289'', cp_PozivNaBroj = [], cp_SvrhaPlacanja = [], cp_InitiatedByUserID = 7\<rparr>"

theorem create_payment_idempotent_witness:
  "\<exists>p s1 p'. CreatePaymentIntent sample_env 1 sample_input sample_payments = (Inr (p, 1), s1) \<and>
    fst (CreatePaymentIntent sample_env 2 sample_input s1) = Inr (p', 1) \<and> pi_ID p' = 5 \<and>
    core (snd (CreatePaymentIntent sample_env 2 sample_input s1)) = core s1"
proof -
  have e: "uuidIn sample_env = Some" by (simp add: sample_env_def exact_env_def)
  have r: "CreatePaymentIntent sample_env 1 sample_input sample_payments = (Inr (sample_intent, 1), bump sample_payments)"
    by (simp add: CreatePaymentIntent_def validateSifraPlacanja_def sample_input_def CreateIntent_def intent_by_key_def bnd_def stmt_ok e
        ret_def existing_answer_def) (simp add: sample_intent_def)
  have "healthy (bump sample_payments)" "pi_ID sample_intent = 5" using sample_open(1) by (simp_all add: sample_intent_def)
  from create_payment_idempotent [OF r rtranclp.rtrancl_refl this(1), of 2] this(2) r show ?thesis by auto
qed

end
