(* ===== verification/Go_Math.thy ===== *)
theory Go_Math
  imports Go_Time
begin

text \<open>
  What the services use of Go's package \<open>math\<close> on \<open>float64\<close> values, and bounds on its errors.

  \<open>math.Round\<close> rounds halves away from zero (\<open>half_away\<close>). \<open>math.Pow\<close> with a whole exponent squares and multiplies;
  Go keeps the binary exponents apart meanwhile, which changes no digit of the result, so the loop below
  works on the numbers themselves.
\<close>

section \<open>Definitions\<close>

fun pow_loop :: "nat \<Rightarrow> float64 \<Rightarrow> float64 \<Rightarrow> float64" where
  "pow_loop i a x = (if i = 0 then a
     else pow_loop (i div 2) (if odd i then fl64 (a * x) else a) (fl64 (x * x)))"

declare pow_loop.simps [simp del]

definition mathPow :: "float64 \<Rightarrow> nat \<Rightarrow> float64" where
  "mathPow x n = (if n = 0 \<or> x = 1 then 1 else if n = 1 then x else pow_loop n 1 x)"

definition roundCent :: "float64 \<Rightarrow> float64" where
  "roundCent v = fl64 (of_int (half_away (fl64 (v * 100))) / 100)"

section \<open>Errors of one operation\<close>

text \<open>Half a unit in the last place, relative to the result.\<close>

abbreviation ulp :: rat where
  "ulp \<equiv> 1 / 2 ^ 53"

lemma normal_range: "1 / 10 ^ 9 \<le> \<bar>x\<bar> \<Longrightarrow> (2::rat) powi (- 1022) \<le> \<bar>x\<bar>"
proof -
  assume "1 / 10 ^ 9 \<le> \<bar>x\<bar>"
  moreover have "(2::rat) powi (- 1022) \<le> 2 powi (- 30)" by (rule power_int_increasing) simp_all
  moreover have "(2::rat) powi (- 30) = 1 / 2 ^ 30" by (simp add: power_int_def power_divide)
  moreover have "1 / 2 ^ 30 \<le> (1 / 10 ^ 9 :: rat)" by simp
  ultimately show ?thesis by linarith
qed

lemma fl64_le: "1 / 10 ^ 9 \<le> x \<Longrightarrow> fl64 x \<le> x * (1 + ulp)"
  and fl64_ge: "1 / 10 ^ 9 \<le> x \<Longrightarrow> x * (1 - ulp) \<le> fl64 x"
proof -
  assume x: "1 / 10 ^ 9 \<le> x"
  then have "0 \<le> x" by (rule order_trans [rotated]) simp
  with x fl64_error [OF normal_range [of x]] have "\<bar>fl64 x - x\<bar> \<le> x * ulp" by simp
  then show "fl64 x \<le> x * (1 + ulp)" "x * (1 - ulp) \<le> fl64 x"
    unfolding distrib_left right_diff_distrib mult_1_right by linarith+
qed

text \<open>An absolute bound, which also covers the subnormal range.\<close>

lemma fl64_near:
  assumes "\<bar>x\<bar> \<le> B" and "1 \<le> B"
  shows "\<bar>fl64 x - x\<bar> \<le> B * ulp"
proof (cases "(2::rat) powi (- 1022) \<le> \<bar>x\<bar>")
  case True
  have "\<bar>fl64 x - x\<bar> \<le> \<bar>x\<bar> * ulp" using fl64_error [OF True] by simp
  also have "\<dots> \<le> B * ulp" by (rule mult_right_mono [OF assms(1)]) simp
  finally show ?thesis .
next
  case False
  show ?thesis
  proof (cases "x = 0")
    case True
    with assms show ?thesis by simp
  next
    case nz: False
    then have pos: "0 < \<bar>x\<bar>" by simp
    have "(2::rat) powi exponent2 \<bar>x\<bar> < 2 powi (- 1022)" using exponent2_le [OF pos] False by linarith
    then have "exponent2 \<bar>x\<bar> < - 1022"
      using power_int_increasing [of "- 1022" "exponent2 \<bar>x\<bar>" "2::rat"] by (cases "exponent2 \<bar>x\<bar> < - 1022") auto
    moreover define d where "d = (2::rat) powi (- 1074)"
    ultimately have e: "(2::rat) powi (max (exponent2 \<bar>x\<bar> - 52) (- 1074)) = d" by simp
    let ?q = "\<bar>x\<bar> / d"
    have p0: "0 < d" unfolding d_def by (rule powi_2_pos)
    have "fl64 x - x = sgn x * ((of_int (half_even ?q) - ?q) * d)"
      using nz p0 by (simp add: fl64_def Let_def e algebra_simps sgn_mult_abs abs_mult_sgn)
    then have "\<bar>fl64 x - x\<bar> = \<bar>of_int (half_even ?q) - ?q\<bar> * d"
      using nz p0 by (simp add: abs_mult)
    also have "\<dots> \<le> 1 / 2 * d"
      using half_even_error [of ?q] p0 by (intro mult_right_mono) auto
    also have "d \<le> 2 powi (- 53)" unfolding d_def by (rule power_int_increasing) simp_all
    also have "(2::rat) powi (- 53) = ulp" by (simp add: power_int_def power_divide)
    also have "1 / 2 * ulp \<le> B * ulp" using assms(2) by (intro mult_right_mono) auto
    finally show ?thesis by simp
  qed
qed

section \<open>Amounts in cents\<close>

text \<open>Up to the amounts a column can hold, rounding to cents recovers an amount from a \<open>float64\<close> value near it.\<close>

lemma roundCent_near:
  assumes "cents y" and "\<bar>v - y\<bar> \<le> 37 / 10000" and "\<bar>y\<bar> \<le> 11 * 10 ^ 12"
  shows "roundCent v = fl64 y"
proof -
  from assms(1) obtain n :: int where y: "y = of_int n / 100" unfolding cents_iff by blast
  have "\<bar>v * 100\<bar> \<le> 1101000000000000" using assms(2) assms(3) [simplified] by linarith
  then have "\<bar>fl64 (v * 100) - v * 100\<bar> \<le> 1101000000000000 * ulp" by (rule fl64_near) simp
  moreover have "1101000000000000 * ulp < 125 / 1000" by simp
  moreover have "100 * y = of_int n" by (simp add: y)
  ultimately have "\<bar>fl64 (v * 100) - of_int n\<bar> < 1 / 2" using assms(2) by linarith
  then have "half_away (fl64 (v * 100)) = n" by (rule half_away_near)
  then show ?thesis by (simp add: roundCent_def y)
qed

lemma fl64_cent: "\<bar>y\<bar> \<le> 10 ^ 11 \<Longrightarrow> \<bar>fl64 y - y\<bar> \<le> 1 / 80000"
  using fl64_near [of y "10 ^ 11"] by simp

text \<open>A payment of \<open>m\<close> of which \<open>k\<close> is interest leaves exactly \<open>p - (m - k)\<close> of the principal \<open>p\<close>.\<close>

lemma roundCent_principal:
  assumes "cents p" "cents m" "cents k" and "\<bar>p\<bar> \<le> 10 ^ 11" "\<bar>m\<bar> \<le> 10 ^ 13" "\<bar>k\<bar> \<le> 10 ^ 11"
  shows "roundCent (fl64 (fl64 p - fl64 (fl64 m - fl64 k))) = fl64 (p - (m - k))"
proof (rule roundCent_near)
  note b = assms(4-6) [simplified]
  have p: "\<bar>fl64 p - p\<bar> \<le> 1 / 80000" and k: "\<bar>fl64 k - k\<bar> \<le> 1 / 80000" by (rule fl64_cent; fact)+
  have m: "\<bar>fl64 m - m\<bar> \<le> 1112 / 1000000" using fl64_near [OF assms(5)] by simp
  have "\<bar>fl64 m - fl64 k\<bar> \<le> 10200000000000" using m k b by linarith
  then have o: "\<bar>fl64 (fl64 m - fl64 k) - (fl64 m - fl64 k)\<bar> \<le> 1134 / 1000000" using fl64_near by fastforce
  have "\<bar>fl64 p - fl64 (fl64 m - fl64 k)\<bar> \<le> 10400000000000" using p m k o b by linarith
  then have "\<bar>fl64 (fl64 p - fl64 (fl64 m - fl64 k)) - (fl64 p - fl64 (fl64 m - fl64 k))\<bar> \<le> 1156 / 1000000"
    using fl64_near by fastforce
  with p k m o show "\<bar>fl64 (fl64 p - fl64 (fl64 m - fl64 k)) - (p - (m - k))\<bar> \<le> 37 / 10000" by linarith
  show "\<bar>p - (m - k)\<bar> \<le> 11 * 10 ^ 12" using b by simp
qed (intro cents_diff assms)

lemma roundCent_sum:
  assumes "cents p" "cents k" and "\<bar>p\<bar> \<le> 10 ^ 11" "\<bar>k\<bar> \<le> 10 ^ 11"
  shows "roundCent (fl64 (fl64 k + fl64 p)) = fl64 (k + p)"
proof (rule roundCent_near)
  have p: "\<bar>fl64 p - p\<bar> \<le> 1 / 80000" and k: "\<bar>fl64 k - k\<bar> \<le> 1 / 80000" by (rule fl64_cent; fact)+
  have "\<bar>fl64 k + fl64 p\<bar> \<le> 300000000000" using p k assms(3,4) [simplified] by linarith
  then have "\<bar>fl64 (fl64 k + fl64 p) - (fl64 k + fl64 p)\<bar> \<le> 1 / 20000" using fl64_near by fastforce
  with p k show "\<bar>fl64 (fl64 k + fl64 p) - (k + p)\<bar> \<le> 37 / 10000" by linarith
  show "\<bar>k + p\<bar> \<le> 11 * 10 ^ 12" using assms(3,4) by simp
qed (intro cents_add assms)

section \<open>Powers\<close>

lemma pow_loop_step:
  assumes "1 \<le> (a::rat)" and "1 \<le> x * (1 - ulp)"
  defines "y \<equiv> fl64 (x * x)" and "b \<equiv> fl64 (a * x)"
  shows "1 \<le> y * (1 - ulp)" "1 \<le> b" "y * (1 + ulp) \<le> (x * (1 + ulp)) ^ 2" "(x * (1 - ulp)) ^ 2 \<le> y * (1 - ulp)"
    "b \<le> a * (x * (1 + ulp))" "a * (x * (1 - ulp)) \<le> b" "0 \<le> y" "1 \<le> x"
proof -
  have x: "1 \<le> x" using assms(2) by (simp add: field_simps)
  have n: "1 / 10 ^ 9 \<le> x * x" "1 / 10 ^ 9 \<le> a * x"
    using mult_mono [of 1 x 1 x] mult_mono [of 1 a 1 x] x assms(1) by auto
  note up = fl64_le [OF n(1)] fl64_le [OF n(2)] and lo = fl64_ge [OF n(1)] fl64_ge [OF n(2)]
  show "y * (1 + ulp) \<le> (x * (1 + ulp)) ^ 2"
    using mult_right_mono [OF up(1), of "1 + ulp"] unfolding y_def power2_eq_square by (simp add: ac_simps)
  show q: "(x * (1 - ulp)) ^ 2 \<le> y * (1 - ulp)"
    using mult_right_mono [OF lo(1), of "1 - ulp"] unfolding y_def power2_eq_square by (simp add: ac_simps)
  show "b \<le> a * (x * (1 + ulp))" "a * (x * (1 - ulp)) \<le> b" using up(2) lo(2) by (simp_all add: b_def ac_simps)
  then show "1 \<le> b" using mult_mono [OF assms(1) assms(2)] assms(1) by simp
  show "1 \<le> y * (1 - ulp)" using q one_le_power [OF assms(2), of 2] by linarith
  show "0 \<le> y" unfolding y_def by (rule fl64_nonneg) simp
  show "1 \<le> x" by (fact x)
qed

lemma pow_split: "(z::rat) ^ i = (if odd i then z else 1) * (z ^ 2) ^ (i div 2)"
proof -
  obtain j where "i = 2 * j \<or> i = Suc (2 * j)" by (metis evenE oddE Suc_eq_plus1)
  then show ?thesis by (auto simp: power_mult [symmetric])
qed

lemma pow_loop_bounds:
  assumes "1 \<le> a" and "1 \<le> x * (1 - ulp)"
  shows "pow_loop i a x \<le> a * (x * (1 + ulp)) ^ i \<and> a * (x * (1 - ulp)) ^ i \<le> pow_loop i a x"
  using assms
proof (induction i a x rule: pow_loop.induct)
  case (1 i a x)
  define y where "y = fl64 (x * x)"
  define b where "b = (if odd i then fl64 (a * x) else a)"
  note st = pow_loop_step [OF "1.prems", folded y_def]
  have b: "1 \<le> b" "b \<le> a * (if odd i then x * (1 + ulp) else 1)" "a * (if odd i then x * (1 - ulp) else 1) \<le> b"
    using st "1.prems" by (auto simp: b_def)
  show ?case
  proof (cases "i = 0")
    case False
    have z: "pow_loop i a x = pow_loop (i div 2) b y" using False unfolding b_def y_def by (simp add: pow_loop.simps [of i])
    have ih: "pow_loop i a x \<le> b * (y * (1 + ulp)) ^ (i div 2)" "b * (y * (1 - ulp)) ^ (i div 2) \<le> pow_loop i a x"
      unfolding z using "1.IH" [OF False] st(1) b(1) unfolding b_def y_def by blast+
    have "b * (y * (1 + ulp)) ^ (i div 2) \<le> (a * (if odd i then x * (1 + ulp) else 1)) * ((x * (1 + ulp)) ^ 2) ^ (i div 2)"
      by (intro mult_mono power_mono b st(3) mult_nonneg_nonneg zero_le_power) (use st(7,8) "1.prems"(1) in simp_all)
    moreover have "(a * (if odd i then x * (1 - ulp) else 1)) * ((x * (1 - ulp)) ^ 2) ^ (i div 2) \<le> b * (y * (1 - ulp)) ^ (i div 2)"
      by (intro mult_mono power_mono b st(4) zero_le_power) (use st(7,8) b(1) in simp_all)
    ultimately show ?thesis
      using ih unfolding pow_split [of "x * (1 + ulp)" i] pow_split [of "x * (1 - ulp)" i] mult.assoc [symmetric] by linarith
  qed (simp add: pow_loop.simps)
qed

end
