(* ===== verification/Credits.thy ===== *)
theory Credits
  imports Accounts Funds_Manager Go_Math
begin

text \<open>
  Credits: \<open>service/kredit_service.go\<close>, \<open>repository/kredit_repository.go\<close> and the daily collection of instalments,
  \<open>worker/installment_worker.go\<close>, with the types of \<open>domain/kredit.go\<close>.

  Amounts are the columns' decimals in the tables and \<open>float64\<close> values in the code; dates are day numbers. The
  random part of \<open>generateBrojKredita\<close> is an argument. Notifications to the client are outside the
  model: the worker only logs their errors.
\<close>

section \<open>Interest\<close>

text \<open>The tiers of the base rate. The last bound of the source is \<open>math.MaxFloat64\<close>, which no amount exceeds.\<close>

definition baseRateByAmount :: "(float64 \<times> float64) list" where
  "baseRateByAmount = [(500000, fl64 (625 / 10000)), (1000000, fl64 (600 / 10000)), (5000000, fl64 (575 / 10000)),
     (10000000, fl64 (550 / 10000)), (20000000, fl64 (525 / 10000))]"

definition baseRateForAmount :: "float64 \<Rightarrow> float64" where
  "baseRateForAmount rsdIznos = (case List.find (\<lambda>(maxRSD, _). rsdIznos \<le> maxRSD) baseRateByAmount of
     Some (_, rate) \<Rightarrow> rate | None \<Rightarrow> fl64 (475 / 10000))"

definition marginByType :: "(string \<times> float64) list" where
  "marginByType = [(''GOTOVINSKI'', fl64 (175 / 10000)), (''STAMBENI'', fl64 (150 / 10000)), (''AUTO'', fl64 (125 / 10000)),
     (''REFINANSIRAJUCI'', fl64 (100 / 10000)), (''STUDENTSKI'', fl64 (75 / 10000))]"

definition rsdEquivalentRates :: "(string \<times> float64) list" where
  "rsdEquivalentRates = [(''RSD'', 1), (''EUR'', 117), (''USD'', 108), (''CHF'', 122), (''GBP'', 137)]"

definition credit_toRSD :: "float64 \<Rightarrow> string \<Rightarrow> float64" where
  "credit_toRSD iznos valuta = (case map_of rsdEquivalentRates valuta of None \<Rightarrow> iznos | Some kurs \<Rightarrow> fl64 (iznos * kurs))"

definition izracunajAnuitet :: "float64 \<Rightarrow> float64 \<Rightarrow> nat \<Rightarrow> float64" where
  "izracunajAnuitet P godisnjaNominalna n =
     (let r = fl64 (godisnjaNominalna / 12) in
      if r = 0 then roundCent (fl64 (P / of_nat n))
      else let faktor = mathPow (fl64 (1 + r)) n
           in roundCent (fl64 (fl64 (P * fl64 (r * faktor)) / fl64 (faktor - 1))))"

record RataInput =
  ri_IznosRate :: float64
  ri_IznosKamate :: float64
  ri_Dospece :: int

text \<open>The loop over the instalments \<open>is\<close> still to come; the last one, number \<open>n - 1\<close>, settles what is left.\<close>

fun amort_loop :: "float64 \<Rightarrow> nat \<Rightarrow> int \<Rightarrow> float64 \<Rightarrow> float64 \<Rightarrow> nat list \<Rightarrow> RataInput list" where
  "amort_loop r n prvaRata mesecnaRata preostalo [] = []"
| "amort_loop r n prvaRata mesecnaRata preostalo (i # is) =
     (let kamata = roundCent (fl64 (preostalo * r));
          otplata = (if Suc i = n then preostalo else fl64 (mesecnaRata - kamata));
          mesecnaRata' = (if Suc i = n then roundCent (fl64 (kamata + otplata)) else mesecnaRata);
          preostalo1 = roundCent (fl64 (preostalo - otplata));
          preostalo' = (if preostalo1 < 0 then 0 else preostalo1)
      in \<lparr>ri_IznosRate = mesecnaRata', ri_IznosKamate = kamata, ri_Dospece = AddDate prvaRata 0 (int i)\<rparr>
         # amort_loop r n prvaRata mesecnaRata' preostalo' is)"

definition generisuAmortizacionuTablicu :: "float64 \<Rightarrow> float64 \<Rightarrow> nat \<Rightarrow> float64 \<Rightarrow> int \<Rightarrow> RataInput list" where
  "generisuAmortizacionuTablicu P godisnjaNominalna n mesecnaRata prvaRata =
     amort_loop (fl64 (godisnjaNominalna / 12)) n prvaRata mesecnaRata P [0..<n]"

definition dayOf :: "int \<Rightarrow> int" where
  "dayOf t = t div (86400 * 10 ^ 9)"

definition generateBrojKredita :: "int \<Rightarrow> nat \<Rightarrow> string" where
  "generateBrojKredita now n = (let (y, m, d) = civil (dayOf now) in
     ''KRD-'' @ appendInt y 4 @ appendInt m 2 @ appendInt d 2 @ ''-'' @ appendInt (int n) 8)"

section \<open>Requests\<close>

record CreateKreditniZahtevInput =
  cz_VlasnikID :: int
  cz_VrstaKredita :: string
  cz_TipKamate :: string
  cz_IznosKredita :: float64
  cz_Valuta :: string
  cz_SvrhaKredita :: string
  cz_IznosMesecnePlate :: float64
  cz_StatusZaposlenja :: string
  cz_PeriodZaposlenja :: int
  cz_KontaktTelefon :: string
  cz_BrojRacuna :: string
  cz_RokOtplate :: int

definition vrsta_check :: "string \<Rightarrow> bool" where
  "vrsta_check v \<longleftrightarrow> List.member [''GOTOVINSKI'', ''STAMBENI'', ''AUTO'', ''REFINANSIRAJUCI'', ''STUDENTSKI''] v"

definition tip_check :: "string \<Rightarrow> bool" where
  "tip_check t \<longleftrightarrow> t = ''FIKSNI'' \<or> t = ''VARIJABILNI''"

definition zahtev_fits :: "KreditniZahtev \<Rightarrow> db \<Rightarrow> bool" where
  "zahtev_fits z s \<longleftrightarrow> vrsta_check (z_VrstaKredita z) \<and> tip_check (z_TipKamate z) \<and>
     0 < z_IznosKredita z \<and> z_IznosKredita z < 10 ^ 13 \<and> 0 < z_RokOtplate z \<and> length (z_Valuta z) \<le> 10 \<and>
     \<bar>z_IznosMesecnePlate z\<bar> < 10 ^ 13 \<and>
     List.member [''STALNO'', ''PRIVREMENO'', ''NEZAPOSLEN''] (z_StatusZaposlenja z) \<and>
     length (z_KontaktTelefon z) \<le> 30 \<and> list_ex (\<lambda>r. broj_racuna r = z_BrojRacuna z) (racuni s)"

text \<open>The row of a new request, with the amounts as their columns keep them.\<close>

definition new_zahtev :: "env \<Rightarrow> CreateKreditniZahtevInput \<Rightarrow> int \<Rightarrow> int \<Rightarrow> KreditniZahtev" where
  "new_zahtev E input i now = \<lparr>z_ID = i, z_VlasnikID = cz_VlasnikID input, z_VrstaKredita = cz_VrstaKredita input,
     z_TipKamate = cz_TipKamate input, z_IznosKredita = round2 E (newFromFloat E (cz_IznosKredita input)),
     z_Valuta = cz_Valuta input, z_SvrhaKredita = cz_SvrhaKredita input,
     z_IznosMesecnePlate = round2 E (newFromFloat E (cz_IznosMesecnePlate input)),
     z_StatusZaposlenja = cz_StatusZaposlenja input, z_PeriodZaposlenja = cz_PeriodZaposlenja input,
     z_KontaktTelefon = cz_KontaktTelefon input, z_BrojRacuna = cz_BrojRacuna input, z_RokOtplate = cz_RokOtplate input,
     z_Status = NA_CEKANJU, z_DatumPodnosenja = storeTime E now\<rparr>"

definition CreateKreditniZahtev :: "env \<Rightarrow> CreateKreditniZahtevInput \<Rightarrow> KreditniZahtev dbp" where
  "CreateKreditniZahtev E input = stmt (\<lambda>s.
     let z = new_zahtev E input (zahtev_seq s) (now_utc s) in
     if zahtev_fits z s
     then Some (z, s\<lparr>kreditni_zahtevi := kreditni_zahtevi s @ [z], zahtev_seq := zahtev_seq s + 1\<rparr>) else None)"

definition zahtev_of :: "int \<Rightarrow> db \<Rightarrow> KreditniZahtev option" where
  "zahtev_of i s = List.find (\<lambda>z. z_ID z = i) (kreditni_zahtevi s)"

definition GetKreditniZahtevByID :: "int \<Rightarrow> KreditniZahtev dbp" where
  "GetKreditniZahtevByID i = bnd (query (zahtev_of i)) (\<lambda>r. case r of
     None \<Rightarrow> fail ErrKreditniZahtevNotFound | Some z \<Rightarrow> ret z)"

definition GetPendingRequests :: "string \<Rightarrow> string \<Rightarrow> KreditniZahtev list dbp" where
  "GetPendingRequests vrsta brojRacuna = query (\<lambda>s. sort_key z_DatumPodnosenja (filter (\<lambda>z. z_Status z = NA_CEKANJU \<and>
     (vrsta = [] \<or> z_VrstaKredita z = vrsta) \<and> (brojRacuna = [] \<or> z_BrojRacuna z = brojRacuna)) (kreditni_zahtevi s)))"

definition ApplyForCredit :: "env \<Rightarrow> CreateKreditniZahtevInput \<Rightarrow> KreditniZahtev dbp" where
  "ApplyForCredit E input =
     (if cz_IznosKredita input \<le> 0 then fail (Errorf ''iznos kredita'')
      else if cz_RokOtplate input \<le> 0 then fail (Errorf ''rok otplate'')
      else if cz_BrojRacuna input = [] then fail (Errorf ''broj racuna'')
      else if map_of marginByType (cz_VrstaKredita input) = None then fail (Errorf ''vrsta kredita'')
      else if cz_TipKamate input \<noteq> ''FIKSNI'' \<and> cz_TipKamate input \<noteq> ''VARIJABILNI'' then fail (Errorf ''tip kamate'')
      else CreateKreditniZahtev E input)"

definition set_zahtev_status :: "int \<Rightarrow> (KreditniZahtev \<Rightarrow> bool) \<Rightarrow> ZahtevStatus \<Rightarrow> nat dbp" where
  "set_zahtev_status i P st = stmt (\<lambda>s. let Q = (\<lambda>z. z_ID z = i \<and> P z) in
     Some (length (filter Q (kreditni_zahtevi s)),
       s\<lparr>kreditni_zahtevi := upd_where Q (\<lambda>z. z\<lparr>z_Status := st\<rparr>) (kreditni_zahtevi s)\<rparr>))"

section \<open>Credit rows\<close>

definition utcDate :: "env \<Rightarrow> int \<Rightarrow> int" where
  "utcDate E day = sqlDate E (\<lambda>_. 0) (day * 86400)"

text \<open>The amounts of a \<open>kreditModel\<close> are \<open>float64\<close> values, those of the row are what its columns keep.\<close>

definition store_kredit :: "env \<Rightarrow> kredit \<Rightarrow> kredit" where
  "store_kredit E k = k\<lparr>k_iznos := round2 E (newFromFloat E (k_iznos k)),
     k_nominalna := round4 E (newFromFloat E (k_nominalna k)), k_efektivna := round4 E (newFromFloat E (k_efektivna k)),
     k_mesecna_rata := round2 E (newFromFloat E (k_mesecna_rata k)), k_dugovanje := round2 E (newFromFloat E (k_dugovanje k)),
     k_ugovaranja := utcDate E (k_ugovaranja k), k_isplate := map_option (utcDate E) (k_isplate k),
     k_sledeca_rata := map_option (utcDate E) (k_sledeca_rata k)\<rparr>"

definition kredit_fits :: "kredit \<Rightarrow> db \<Rightarrow> bool" where
  "kredit_fits k s \<longleftrightarrow> length (k_broj k) \<le> 30 \<and> \<not> list_ex (\<lambda>x. k_broj x = k_broj k) (krediti s) \<and>
     (case k_zahtev k of None \<Rightarrow> True | Some i \<Rightarrow> list_ex (\<lambda>z. z_ID z = i) (kreditni_zahtevi s)) \<and>
     list_ex (\<lambda>r. broj_racuna r = k_racun k) (racuni s) \<and> vrsta_check (k_vrsta k) \<and> tip_check (k_tip k) \<and>
     0 < k_iznos k \<and> k_iznos k < 10 ^ 13 \<and> 0 < k_period k \<and> \<bar>k_nominalna k\<bar> < 1000 \<and> \<bar>k_efektivna k\<bar> < 1000 \<and>
     \<bar>k_mesecna_rata k\<bar> < 10 ^ 13 \<and> \<bar>k_dugovanje k\<bar> < 10 ^ 13 \<and> length (k_valuta k) \<le> 10"

definition insert_kredit :: "env \<Rightarrow> kredit \<Rightarrow> kredit dbp" where
  "insert_kredit E k = stmt (\<lambda>s. let k' = k\<lparr>k_id := kredit_seq s\<rparr>; row = store_kredit E k' in
     if kredit_fits row s then Some (k', s\<lparr>krediti := krediti s @ [row], kredit_seq := kredit_seq s + 1\<rparr>) else None)"

definition RejectKreditRequest :: "env \<Rightarrow> int \<Rightarrow> unit dbp" where
  "RejectKreditRequest E zahtevID = in_tx (bnd (query (zahtev_of zahtevID)) (\<lambda>row. case row of
     None \<Rightarrow> fail ErrKreditniZahtevNotFound
   | Some z \<Rightarrow>
     if z_ID z = 0 then fail ErrKreditniZahtevNotFound
     else if z_Status z \<noteq> NA_CEKANJU then fail ErrZahtevVecObradjen
     else bnd (set_zahtev_status zahtevID (\<lambda>_. True) ZahtevODBIJEN) (\<lambda>_.
       bnd (gets (\<lambda>s. dayOf (now_utc s))) (\<lambda>today.
       bnd (insert_kredit E \<lparr>k_id = 0, k_broj = ''REJ-'' @ FormatInt zahtevID, k_zahtev = Some (z_ID z),
           k_racun = z_BrojRacuna z, k_vlasnik = z_VlasnikID z, k_vrsta = z_VrstaKredita z, k_tip = z_TipKamate z,
           k_iznos = fl64 (z_IznosKredita z), k_period = z_RokOtplate z, k_nominalna = 0, k_efektivna = 0,
           k_ugovaranja = today, k_isplate = None, k_mesecna_rata = 0, k_sledeca_rata = None, k_dugovanje = 0,
           k_valuta = z_Valuta z, k_status = ODBIJEN\<rparr>) (\<lambda>_. ret ())))))"

definition RejectCredit :: "env \<Rightarrow> int \<Rightarrow> unit dbp" where
  "RejectCredit E zahtevID = RejectKreditRequest E zahtevID"

section \<open>Approving a request\<close>

record ApproveKreditInput =
  ak_ZahtevID :: int
  ak_BrojKredita :: string
  ak_BrojRacuna :: string
  ak_VlasnikID :: int
  ak_VrstaKredita :: string
  ak_TipKamate :: string
  ak_IznosKredita :: float64
  ak_PeriodOtplate :: int
  ak_NominalnaKamatnaStopa :: float64
  ak_EfektivnaKamatnaStopa :: float64
  ak_DatumUgovaranja :: int
  ak_IznosMesecneRate :: float64
  ak_DatumSledeceRate :: int
  ak_PreostaloDugovanje :: float64
  ak_Valuta :: string
  ak_Rate :: "RataInput list"

definition approved_kredit :: "ApproveKreditInput \<Rightarrow> int \<Rightarrow> kredit" where
  "approved_kredit input today = \<lparr>k_id = 0, k_broj = ak_BrojKredita input, k_zahtev = Some (ak_ZahtevID input),
     k_racun = ak_BrojRacuna input, k_vlasnik = ak_VlasnikID input, k_vrsta = ak_VrstaKredita input, k_tip = ak_TipKamate input,
     k_iznos = ak_IznosKredita input, k_period = ak_PeriodOtplate input, k_nominalna = ak_NominalnaKamatnaStopa input,
     k_efektivna = ak_EfektivnaKamatnaStopa input, k_ugovaranja = ak_DatumUgovaranja input, k_isplate = Some today,
     k_mesecna_rata = ak_IznosMesecneRate input, k_sledeca_rata = Some (ak_DatumSledeceRate input),
     k_dugovanje = ak_PreostaloDugovanje input, k_valuta = ak_Valuta input, k_status = ODOBREN\<rparr>"

text \<open>The rows of the schedule, numbered from \<open>i\<close>.\<close>

definition rata_row :: "env \<Rightarrow> int \<Rightarrow> string \<Rightarrow> int \<Rightarrow> RataInput \<Rightarrow> rata" where
  "rata_row E kreditID valuta i ri = \<lparr>rt_id = i, rt_kredit = kreditID, rt_iznos = round2 E (newFromFloat E (ri_IznosRate ri)),
     rt_kamata = round2 E (newFromFloat E (ri_IznosKamate ri)), rt_valuta = valuta, rt_dospece = utcDate E (ri_Dospece ri),
     rt_placena = None, rt_status = NEPLACENO, rt_pokusaja = 0, rt_sledeci = None\<rparr>"

definition rata_rows :: "env \<Rightarrow> int \<Rightarrow> string \<Rightarrow> int \<Rightarrow> RataInput list \<Rightarrow> rata list" where
  "rata_rows E kreditID valuta i ris = map (\<lambda>(j, ri). rata_row E kreditID valuta (i + int j) ri) (enumerate 0 ris)"

definition rata_fits :: "rata \<Rightarrow> db \<Rightarrow> bool" where
  "rata_fits r s \<longleftrightarrow> list_ex (\<lambda>k. k_id k = rt_kredit r) (krediti s) \<and> 0 < rt_iznos r \<and> rt_iznos r < 10 ^ 13 \<and>
     0 \<le> rt_kamata r \<and> rt_kamata r < 10 ^ 13 \<and> length (rt_valuta r) \<le> 10"

text \<open>GORM refuses to insert an empty slice.\<close>

definition insert_rate :: "env \<Rightarrow> int \<Rightarrow> string \<Rightarrow> RataInput list \<Rightarrow> unit dbp" where
  "insert_rate E kreditID valuta ris = (if ris = [] then fail (Errorf ''empty slice found'') else stmt (\<lambda>s.
     let rows = rata_rows E kreditID valuta (rata_seq s) ris in
     if list_all (\<lambda>r. rata_fits r s) rows
     then Some ((), s\<lparr>rate_kredita := rate_kredita s @ rows, rata_seq := rata_seq s + int (length rows)\<rparr>) else None))"

definition trezorRacun :: "string \<Rightarrow> int dbp" where
  "trezorRacun valuta = bnd (query (trezor valuta)) (\<lambda>r. case r of
     None \<Rightarrow> fail (Errorf ''trezorski racun'')
   | Some x \<Rightarrow> if r_id x = 0 then fail (Errorf ''trezorski racun'') else ret (r_id x))"

definition klijentRacun :: "string \<Rightarrow> int dbp" where
  "klijentRacun brojRacuna = bnd (query (\<lambda>s. List.find (\<lambda>r. broj_racuna r = brojRacuna) (racuni s))) (\<lambda>r. case r of
     None \<Rightarrow> fail (Errorf ''racun klijenta'')
   | Some x \<Rightarrow> if r_id x = 0 then fail (Errorf ''racun klijenta'') else ret (r_id x))"

text \<open>The payout: the treasury's account is debited, the client's is credited.\<close>

definition payout :: "env \<Rightarrow> string \<Rightarrow> string \<Rightarrow> float64 \<Rightarrow> unit dbp" where
  "payout E valuta brojRacuna iznos =
     bnd (trezorRacun valuta) (\<lambda>trezorRacunID.
     bnd (klijentRacun brojRacuna) (\<lambda>klijentRacunID.
     bnd (credit_update E trezorRacunID (- newFromFloat E iznos)) (\<lambda>_.
     bnd (insert_transakcije E [isplata trezorRacunID (newFromFloat E iznos)]) (\<lambda>_.
     bnd (credit_update E klijentRacunID (newFromFloat E iznos)) (\<lambda>_.
       insert_transakcije E [uplata klijentRacunID (newFromFloat E iznos)])))))"

definition approve_body :: "env \<Rightarrow> ApproveKreditInput \<Rightarrow> kredit dbp" where
  "approve_body E input =
     bnd (set_zahtev_status (ak_ZahtevID input) (\<lambda>z. z_Status z = NA_CEKANJU) ZahtevODOBREN) (\<lambda>n.
     if n = 0 then
       bnd (query_or 0 (\<lambda>s. length (filter (\<lambda>z. z_ID z = ak_ZahtevID input) (kreditni_zahtevi s)))) (\<lambda>count.
         if count = 0 then fail ErrKreditniZahtevNotFound else fail ErrZahtevVecObradjen)
     else
       bnd (gets (\<lambda>s. dayOf (now_utc s))) (\<lambda>today.
       bnd (insert_kredit E (approved_kredit input today)) (\<lambda>created.
       bnd (insert_rate E (k_id created) (ak_Valuta input) (ak_Rate input)) (\<lambda>_.
       bnd (payout E (ak_Valuta input) (ak_BrojRacuna input) (ak_IznosKredita input)) (\<lambda>_.
         ret created)))))"

definition ApproveKreditRequest :: "env \<Rightarrow> ApproveKreditInput \<Rightarrow> kredit dbp" where
  "ApproveKreditRequest E input = in_tx (approve_body E input)"

text \<open>What \<open>ApproveCredit\<close> computes from a request: the rates, the annuity and the schedule.\<close>

definition nominalnaGodisnja :: "KreditniZahtev \<Rightarrow> float64" where
  "nominalnaGodisnja z = fl64 (baseRateForAmount (credit_toRSD (fl64 (z_IznosKredita z)) (z_Valuta z)) +
     (case map_of marginByType (z_VrstaKredita z) of None \<Rightarrow> 0 | Some m \<Rightarrow> m))"

definition approve_input :: "nat \<Rightarrow> int \<Rightarrow> KreditniZahtev \<Rightarrow> ApproveKreditInput" where
  "approve_input draw now z =
     (let nominalna = nominalnaGodisnja z; n = nat (z_RokOtplate z); P = fl64 (z_IznosKredita z);
          mesecnaRata = izracunajAnuitet P nominalna n;
          efektivna = fl64 (mathPow (fl64 (1 + fl64 (nominalna / 12))) 12 - 1);
          today = dayOf now; prvaRata = AddDate today 0 1 in
      \<lparr>ak_ZahtevID = z_ID z, ak_BrojKredita = generateBrojKredita now draw, ak_BrojRacuna = z_BrojRacuna z,
       ak_VlasnikID = z_VlasnikID z, ak_VrstaKredita = z_VrstaKredita z, ak_TipKamate = z_TipKamate z,
       ak_IznosKredita = P, ak_PeriodOtplate = z_RokOtplate z, ak_NominalnaKamatnaStopa = fl64 (nominalna * 100),
       ak_EfektivnaKamatnaStopa = fl64 (efektivna * 100), ak_DatumUgovaranja = today, ak_IznosMesecneRate = mesecnaRata,
       ak_DatumSledeceRate = prvaRata, ak_PreostaloDugovanje = P, ak_Valuta = z_Valuta z,
       ak_Rate = generisuAmortizacionuTablicu P nominalna n mesecnaRata prvaRata\<rparr>)"

text \<open>With a term below 1, which the table does not admit, the code would panic.\<close>

definition ApproveCredit :: "env \<Rightarrow> nat \<Rightarrow> int \<Rightarrow> kredit dbp" where
  "ApproveCredit E draw zahtevID = bnd (GetKreditniZahtevByID zahtevID) (\<lambda>zahtev.
     if z_Status zahtev \<noteq> NA_CEKANJU then fail ErrZahtevVecObradjen
     else if z_RokOtplate zahtev \<le> 0 then fail (Errorf ''index out of range'')
     else bnd (gets now_utc) (\<lambda>now. ApproveKreditRequest E (approve_input draw now zahtev)))"

section \<open>Reading credits and instalments\<close>

definition kredit_of :: "int \<Rightarrow> db \<Rightarrow> kredit option" where
  "kredit_of i s = List.find (\<lambda>k. k_id k = i) (krediti s)"

definition GetKreditByID :: "int \<Rightarrow> kredit dbp" where
  "GetKreditByID i = bnd (query (kredit_of i)) (\<lambda>r. case r of None \<Rightarrow> fail ErrKreditNotFound | Some k \<Rightarrow> ret k)"

definition GetKreditsByVlasnik :: "int \<Rightarrow> kredit list dbp" where
  "GetKreditsByVlasnik vlasnikID = query (\<lambda>s. sort_key (\<lambda>k. - k_iznos k) (filter (\<lambda>k. k_vlasnik k = vlasnikID) (krediti s)))"

definition kreditStatus_of :: "string \<Rightarrow> KreditStatus option" where
  "kreditStatus_of t = map_of [(''ODOBREN'', ODOBREN), (''OTPLACEN'', OTPLACEN), (''U_KASNJENJU'', U_KASNJENJU),
     (''ODBIJEN'', ODBIJEN)] t"

text \<open>The order of text is the database's collation, an argument.\<close>

definition GetAllCredits :: "(string \<Rightarrow> 'k::linorder) \<Rightarrow> string \<Rightarrow> string \<Rightarrow> string \<Rightarrow> kredit list dbp" where
  "GetAllCredits collate vrsta brojRacuna status = query (\<lambda>s. sort_key (\<lambda>k. collate (k_racun k)) (filter (\<lambda>k.
     (vrsta = [] \<or> k_vrsta k = vrsta) \<and> (brojRacuna = [] \<or> k_racun k = brojRacuna) \<and>
     (status = [] \<or> kreditStatus_of status = Some (k_status k))) (krediti s)))"

definition UpdateKreditStatus :: "int \<Rightarrow> string \<Rightarrow> unit dbp" where
  "UpdateKreditStatus kreditID status = bnd (stmt (\<lambda>s. let n = length (filter (\<lambda>k. k_id k = kreditID) (krediti s)) in
       case kreditStatus_of status of
         None \<Rightarrow> if n = 0 then Some (n, s) else None
       | Some st \<Rightarrow> Some (n, s\<lparr>krediti := upd_where (\<lambda>k. k_id k = kreditID) (\<lambda>k. k\<lparr>k_status := st\<rparr>) (krediti s)\<rparr>))) (\<lambda>n.
     if n = 0 then fail ErrKreditNotFound else ret ())"

definition GetInstallmentsByKredit :: "int \<Rightarrow> rata list dbp" where
  "GetInstallmentsByKredit kreditID = query (\<lambda>s. sort_key rt_dospece (filter (\<lambda>r. rt_kredit r = kreditID) (rate_kredita s)))"

definition GetCreditDetails :: "int \<Rightarrow> int \<Rightarrow> (kredit \<times> rata list) dbp" where
  "GetCreditDetails kreditID vlasnikID = bnd (GetKreditByID kreditID) (\<lambda>kredit.
     if k_vlasnik kredit \<noteq> vlasnikID then fail ErrKreditForbidden
     else bnd (GetInstallmentsByKredit kreditID) (\<lambda>rate. ret (kredit, rate)))"

record DueInstallment =
  di_RataID :: int
  di_KreditID :: int
  di_IznosRate :: float64
  di_Valuta :: string
  di_Dospece :: int
  di_BrojPokusaja :: int
  di_SledecaPokusaj :: "int option"
  di_BrojRacuna :: string
  di_VlasnikID :: int

definition due_row :: "rata \<Rightarrow> kredit \<Rightarrow> DueInstallment" where
  "due_row r k = \<lparr>di_RataID = rt_id r, di_KreditID = rt_kredit r, di_IznosRate = fl64 (rt_iznos r), di_Valuta = rt_valuta r,
     di_Dospece = rt_dospece r, di_BrojPokusaja = rt_pokusaja r, di_SledecaPokusaj = rt_sledeci r,
     di_BrojRacuna = k_racun k, di_VlasnikID = k_vlasnik k\<rparr>"

text \<open>The join of the instalments \<open>rs\<close> with their credits, as far as these are in status \<open>ODOBREN\<close>.\<close>

definition join_krediti :: "rata list \<Rightarrow> db \<Rightarrow> DueInstallment list" where
  "join_krediti rs s = concat (map (\<lambda>r. map (due_row r)
     (filter (\<lambda>k. k_id k = rt_kredit r \<and> k_status k = ODOBREN) (krediti s))) rs)"

definition GetDueInstallments :: "env \<Rightarrow> int \<Rightarrow> DueInstallment list dbp" where
  "GetDueInstallments E asOf = query (\<lambda>s. join_krediti (sort_key rt_dospece
     (filter (\<lambda>r. rt_status r = NEPLACENO \<and> rt_dospece r \<le> sqlDate E (\<lambda>_. 0) (asOf div 10 ^ 9)) (rate_kredita s))) s)"

definition GetRetryInstallments :: "env \<Rightarrow> int \<Rightarrow> DueInstallment list dbp" where
  "GetRetryInstallments E asOf = query (\<lambda>s. join_krediti (sort_key (\<lambda>r. case rt_sledeci r of None \<Rightarrow> 0 | Some t \<Rightarrow> t)
     (filter (\<lambda>r. rt_status r = KASNI \<and> (case rt_sledeci r of None \<Rightarrow> False | Some t \<Rightarrow> t \<le> storeTime E asOf))
       (rate_kredita s))) s)"

section \<open>Charging an instalment\<close>

record ProcessInstallmentInput =
  pp_RataID :: int
  pp_KreditID :: int
  pp_BrojRacuna :: string
  pp_IznosRate :: float64
  pp_Valuta :: string

definition rata_of :: "int \<Rightarrow> db \<Rightarrow> rata option" where
  "rata_of i s = List.find (\<lambda>r. rt_id r = i) (rate_kredita s)"

definition update_rata :: "int \<Rightarrow> (rata \<Rightarrow> rata) \<Rightarrow> unit dbp" where
  "update_rata i f = stmt (\<lambda>s. Some ((), s\<lparr>rate_kredita := upd_where (\<lambda>r. rt_id r = i) f (rate_kredita s)\<rparr>))"

text \<open>An update of credits fails when an amount does not fit its column.\<close>

definition update_kredit :: "(kredit \<Rightarrow> bool) \<Rightarrow> (kredit \<Rightarrow> kredit) \<Rightarrow> unit dbp" where
  "update_kredit P f = stmt (\<lambda>s.
     if list_all (\<lambda>k. P k \<longrightarrow> \<bar>k_dugovanje (f k)\<bar> < 10 ^ 13 \<and> \<bar>k_nominalna (f k)\<bar> < 1000) (krediti s)
     then Some ((), s\<lparr>krediti := upd_where P f (krediti s)\<rparr>) else None)"

definition zeroDay :: int where
  "zeroDay = - 719162"

definition nextDue :: "int \<Rightarrow> db \<Rightarrow> int option" where
  "nextDue kreditID s = (case sort (map rt_dospece (filter (\<lambda>r. rt_kredit r = kreditID \<and> rt_status r = NEPLACENO) (rate_kredita s))) of
     [] \<Rightarrow> None | d # _ \<Rightarrow> if d = zeroDay then None else Some d)"

definition paid_rata :: "int \<Rightarrow> rata \<Rightarrow> rata" where
  "paid_rata today r = r\<lparr>rt_status := PLACENO, rt_placena := Some today, rt_pokusaja := rt_pokusaja r + 1\<rparr>"

definition after_payment :: "env \<Rightarrow> decimal \<Rightarrow> int option \<Rightarrow> kredit \<Rightarrow> kredit" where
  "after_payment E iznos next k = (case next of
     Some d \<Rightarrow> k\<lparr>k_sledeca_rata := Some d, k_dugovanje := round2 E (k_dugovanje k - iznos)\<rparr>
   | None \<Rightarrow> k\<lparr>k_sledeca_rata := None, k_dugovanje := 0, k_status := OTPLACEN\<rparr>)"

text \<open>The booking of an instalment: the client's account is debited, the treasury's is credited.\<close>

definition collect :: "env \<Rightarrow> int \<Rightarrow> string \<Rightarrow> decimal \<Rightarrow> unit dbp" where
  "collect E racunID valuta iznos =
     bnd (credit_update E racunID (- iznos)) (\<lambda>_.
     bnd (insert_transakcije E [isplata racunID iznos]) (\<lambda>_.
     bnd (trezorRacun valuta) (\<lambda>trezorRacunID.
     bnd (credit_update E trezorRacunID iznos) (\<lambda>_.
       insert_transakcije E [uplata trezorRacunID iznos]))))"

definition installment_body :: "env \<Rightarrow> ProcessInstallmentInput \<Rightarrow> unit dbp" where
  "installment_body E input =
     bnd (query (rata_of (pp_RataID input))) (\<lambda>row. case row of
       None \<Rightarrow> fail ErrRataNotFound
     | Some rata \<Rightarrow>
       if rt_id rata = 0 then fail ErrRataNotFound
       else if rt_status rata = PLACENO then fail ErrRataVecPlacena
       else
         bnd (query (\<lambda>s. List.find (\<lambda>r. broj_racuna r = pp_BrojRacuna input) (racuni s))) (\<lambda>racun. case racun of
           None \<Rightarrow> fail (Errorf ''dohvat racuna'')
         | Some racun \<Rightarrow>
           if fl64 (stanje_racuna racun) < pp_IznosRate input then fail ErrPaymentFunds
           else
             bnd (gets now_utc) (\<lambda>now.
             bnd (collect E (r_id racun) (pp_Valuta input) (newFromFloat E (pp_IznosRate input))) (\<lambda>_.
             bnd (update_rata (pp_RataID input) (paid_rata (utcDate E (dayOf now)))) (\<lambda>_.
             bnd (query (nextDue (pp_KreditID input))) (\<lambda>next.
               update_kredit (\<lambda>k. k_id k = pp_KreditID input)
                 (after_payment E (newFromFloat E (pp_IznosRate input)) next)))))))"

definition ProcessInstallmentPayment :: "env \<Rightarrow> ProcessInstallmentInput \<Rightarrow> unit dbp" where
  "ProcessInstallmentPayment E input = in_tx (installment_body E input)"

definition MarkInstallmentFailed :: "env \<Rightarrow> int \<Rightarrow> int \<Rightarrow> unit dbp" where
  "MarkInstallmentFailed E rataID nextRetry = update_rata rataID (\<lambda>r. r\<lparr>rt_status := KASNI,
     rt_pokusaja := rt_pokusaja r + 1, rt_sledeci := Some (storeTime E nextRetry)\<rparr>)"

definition ApplyLatePaymentPenalty :: "env \<Rightarrow> int \<Rightarrow> float64 \<Rightarrow> unit dbp" where
  "ApplyLatePaymentPenalty E kreditID penaltyPercent = in_tx (
     bnd (update_kredit (\<lambda>k. k_id k = kreditID)
       (\<lambda>k. k\<lparr>k_nominalna := round4 E (k_nominalna k + newFromFloat E penaltyPercent)\<rparr>)) (\<lambda>_.
     update_kredit (\<lambda>k. k_id k = kreditID \<and> k_status k = ODOBREN) (\<lambda>k. k\<lparr>k_status := U_KASNJENJU\<rparr>)))"

definition ProcessFirstInstallment :: "env \<Rightarrow> int \<Rightarrow> (bool \<times> int) dbp" where
  "ProcessFirstInstallment E kreditID = bnd (GetInstallmentsByKredit kreditID) (\<lambda>rate. case rate of
     [] \<Rightarrow> ret (False, 0)
   | prva # _ \<Rightarrow> bnd (GetKreditByID kreditID) (\<lambda>kredit.
       bnd (attempt (ProcessInstallmentPayment E \<lparr>pp_RataID = rt_id prva, pp_KreditID = kreditID, pp_BrojRacuna = k_racun kredit,
         pp_IznosRate = fl64 (rt_iznos prva), pp_Valuta = rt_valuta prva\<rparr>)) (\<lambda>payErr. case payErr of
         Inr _ \<Rightarrow> ret (False, 0)
       | Inl e \<Rightarrow>
           if e = ErrRataVecPlacena then ret (False, 0)
           else if e = ErrPaymentFunds then
             bnd (gets (\<lambda>s. now_utc s + 72 * 3600 * 10 ^ 9)) (\<lambda>retry.
             bnd (ignore (MarkInstallmentFailed E (rt_id prva) retry)) (\<lambda>_. ret (True, retry)))
           else fail e)))"

section \<open>The daily collection\<close>

record InstallmentWorker =
  retryAfter :: int
  penaltyPct :: float64

definition handleFirstFailure :: "env \<Rightarrow> InstallmentWorker \<Rightarrow> DueInstallment \<Rightarrow> unit dbp" where
  "handleFirstFailure E w due = bnd (gets (\<lambda>s. now_utc s + retryAfter w)) (\<lambda>nextRetry.
     ignore (MarkInstallmentFailed E (di_RataID due) nextRetry))"

definition handleSecondFailure :: "env \<Rightarrow> InstallmentWorker \<Rightarrow> DueInstallment \<Rightarrow> unit dbp" where
  "handleSecondFailure E w due = ignore (ApplyLatePaymentPenalty E (di_KreditID due) (penaltyPct w))"

definition due_input :: "DueInstallment \<Rightarrow> ProcessInstallmentInput" where
  "due_input due = \<lparr>pp_RataID = di_RataID due, pp_KreditID = di_KreditID due, pp_BrojRacuna = di_BrojRacuna due,
     pp_IznosRate = di_IznosRate due, pp_Valuta = di_Valuta due\<rparr>"

definition attemptPayment :: "env \<Rightarrow> InstallmentWorker \<Rightarrow> bool \<Rightarrow> DueInstallment \<Rightarrow> bool dbp" where
  "attemptPayment E w isRetry due = bnd (attempt (ProcessInstallmentPayment E (due_input due))) (\<lambda>r. case r of
     Inr _ \<Rightarrow> ret True
   | Inl e \<Rightarrow>
       if e = ErrRataVecPlacena then ret True
       else if e = ErrPaymentFunds then
         bnd (if isRetry then handleSecondFailure E w due else handleFirstFailure E w due) (\<lambda>_. ret False)
       else ret False)"

text \<open>Both loops count the attempts and those that succeeded.\<close>

primrec attempt_all :: "(DueInstallment \<Rightarrow> bool dbp) \<Rightarrow> nat \<Rightarrow> nat \<Rightarrow> DueInstallment list \<Rightarrow> (nat \<times> nat) dbp" where
  "attempt_all f cnt succ [] = ret (cnt, succ)"
| "attempt_all f cnt succ (due # dues) = bnd (f due) (\<lambda>b. attempt_all f (cnt + 1) (if b then succ + 1 else succ) dues)"

definition processFirstAttempts :: "env \<Rightarrow> InstallmentWorker \<Rightarrow> int \<Rightarrow> (nat \<times> nat) dbp" where
  "processFirstAttempts E w asOf = bnd (attempt (GetDueInstallments E asOf)) (\<lambda>r. case r of
     Inl _ \<Rightarrow> ret (0, 0) | Inr dueList \<Rightarrow> attempt_all (attemptPayment E w False) 0 0 dueList)"

definition processRetryAttempts :: "env \<Rightarrow> InstallmentWorker \<Rightarrow> int \<Rightarrow> (nat \<times> nat) dbp" where
  "processRetryAttempts E w asOf = bnd (attempt (GetRetryInstallments E asOf)) (\<lambda>r. case r of
     Inl _ \<Rightarrow> ret (0, 0) | Inr retryList \<Rightarrow> attempt_all (attemptPayment E w True) 0 0 retryList)"

definition runDailyJob :: "env \<Rightarrow> InstallmentWorker \<Rightarrow> unit dbp" where
  "runDailyJob E w = bnd (gets now_utc) (\<lambda>now.
     bnd (processFirstAttempts E w now) (\<lambda>_.
     bnd (processRetryAttempts E w now) (\<lambda>_. ret ())))"

end
