(* ===== verification/Credit_Schedule.thy ===== *)
theory Credit_Schedule
  imports Credits
begin

text \<open>
  The amortization schedule in exact cents. \<open>cent_plan\<close> is the schedule the code means to compute, on exact
  amounts; \<open>amort_loop_cent_plan\<close> shows that the \<open>float64\<close> loop computes it, and the lemmas about \<open>cent_plan\<close> give what
  a schedule repays. The bound on the interest of an instalment rests on the error analysis of the annuity.
\<close>

section \<open>The exact schedule\<close>

definition interest :: "rat \<Rightarrow> rat \<Rightarrow> rat" where
  "interest r q = of_int (half_away (fl64 (fl64 (fl64 q * r) * 100))) / 100"

fun cent_plan :: "rat \<Rightarrow> rat \<Rightarrow> nat \<Rightarrow> rat \<Rightarrow> (rat \<times> rat) list" where
  "cent_plan r M 0 p = []"
| "cent_plan r M (Suc 0) p = [(interest r p + p, interest r p)]"
| "cent_plan r M (Suc (Suc l)) p = (M, interest r p) # cent_plan r M (Suc l) (max 0 (p - (M - interest r p)))"

lemma interest_cents: "cents (interest r q)"
  by (auto simp: cents_iff interest_def)

lemma roundCent_interest: "roundCent (fl64 (fl64 q * r)) = fl64 (interest r q)"
  by (simp add: roundCent_def interest_def)

lemma interest_0 [simp]: "interest r 0 = 0"
  using half_away_of_int [of 0] by (simp add: interest_def)

lemma interest_nonneg: "0 \<le> r \<Longrightarrow> 0 \<le> q \<Longrightarrow> 0 \<le> interest r q"
  by (simp add: interest_def half_away_def fl64_nonneg)

text \<open>What the schedule relies on: a monthly payment \<open>M\<close> in whole cents that covers the interest on any
  amount up to the principal \<open>P\<close>.\<close>

locale annuity =
  fixes r M P :: rat
  assumes rate: "0 \<le> r" and payment: "cents M" "0 \<le> M" "M < 10 ^ 13" and principal: "cents P" "0 \<le> P" "P \<le> 10 ^ 11"
    and covers: "\<And>q. cents q \<Longrightarrow> 0 \<le> q \<Longrightarrow> q \<le> P \<Longrightarrow> interest r q \<le> M \<and> interest r q \<le> 10 ^ 11"
begin

lemma step:
  assumes "cents p" "0 \<le> p" "p \<le> P"
  defines "q \<equiv> max 0 (p - (M - interest r p))"
  shows "cents q" "0 \<le> q" "q \<le> P"
    "roundCent (fl64 (fl64 p - fl64 (fl64 M - fl64 (interest r p)))) = fl64 (p - (M - interest r p))"
    "roundCent (fl64 (fl64 (interest r p) + fl64 p)) = fl64 (interest r p + p)"
proof -
  have k: "0 \<le> interest r p" "interest r p \<le> M" "interest r p \<le> 10 ^ 11" "cents (interest r p)"
    using interest_nonneg [OF rate assms(2)] covers [OF assms(1-3)] interest_cents by auto
  have p: "\<bar>p\<bar> \<le> 10 ^ 11" "\<bar>M\<bar> \<le> 10 ^ 13" "\<bar>interest r p\<bar> \<le> 10 ^ 11"
    using assms(2,3) principal(3) payment(2,3) k by auto
  show "cents q" using assms(1) payment(1) k(4) by (auto simp: q_def)
  show "0 \<le> q" "q \<le> P" using assms(2,3) k(2) by (auto simp: q_def)
  show "roundCent (fl64 (fl64 p - fl64 (fl64 M - fl64 (interest r p)))) = fl64 (p - (M - interest r p))"
    by (rule roundCent_principal) (fact assms(1) payment(1) k(4) p)+
  show "roundCent (fl64 (fl64 (interest r p) + fl64 p)) = fl64 (interest r p + p)"
    by (rule roundCent_sum) (fact assms(1) k(4) p)+
qed

lemma fl64_clamp: "(if fl64 x < 0 then 0 else fl64 x) = fl64 (max 0 x)"
  using fl64_nonneg [of x] fl64_nonneg [of "- x"] by (cases "0 \<le> x") (auto simp: fl64_minus max_def)

text \<open>The \<open>float64\<close> loop computes the exact schedule.\<close>

lemma amort_loop_cent_plan:
  assumes "cents p" "0 \<le> p" "p \<le> P" and "i + l = n"
  shows "map (\<lambda>x. (ri_IznosRate x, ri_IznosKamate x)) (amort_loop r n d (fl64 M) (fl64 p) [i..<n]) =
    map (\<lambda>(R, K). (fl64 R, fl64 K)) (cent_plan r M l p)"
  using assms
proof (induction l arbitrary: p i)
  case (Suc l)
  note st = step [OF Suc.prems(1-3)] and n = Suc.prems(4)
  show ?case
  proof (cases l)
    case 0
    with n have u: "[i..<n] = [i]" "Suc i = n" by (simp_all add: upt_rec)
    show ?thesis unfolding u(1) using u(2) 0 st(5) by (simp add: Let_def roundCent_interest)
  next
    case (Suc l')
    with n have u: "[i..<n] = i # [Suc i..<n]" "Suc i \<noteq> n" "Suc i + l = n" by (simp_all add: upt_rec)
    have nxt: "(if roundCent (fl64 (fl64 p - fl64 (fl64 M - fl64 (interest r p)))) < 0 then 0
        else roundCent (fl64 (fl64 p - fl64 (fl64 M - fl64 (interest r p))))) = fl64 (max 0 (p - (M - interest r p)))"
      unfolding st(4) by (rule fl64_clamp)
    show ?thesis unfolding u(1) using u(2) Suc Suc.IH [OF st(1-3) u(3)]
      by (simp add: Let_def roundCent_interest nxt)
  qed
qed simp

text \<open>The parts of the instalments that are not interest repay the principal, unless the principal is used up
  before the last instalment, which is then zero.\<close>

lemma length_cent_plan [simp]: "length (cent_plan r M l p) = l"
  by (induction r M l p rule: cent_plan.induct) simp_all

lemma cent_plan_Suc [simp]: "cent_plan r M (Suc l) q \<noteq> []"
  using length_cent_plan [of "Suc l" q] by (metis list.size(3) nat.distinct(1))

lemma cent_plan_zero: "fst (last (cent_plan r M (Suc l) 0)) = 0"
  by (induction l) (use payment(2) in \<open>auto simp: max_def\<close>)

lemma cent_plan_repays:
  assumes "0 \<le> p"
  shows "(\<Sum>(R, K) \<leftarrow> cent_plan r M (Suc l) p. R - K) = p \<or> fst (last (cent_plan r M (Suc l) p)) = 0"
  using assms
proof (induction l arbitrary: p)
  case (Suc l)
  let ?q = "p - (M - interest r p)"
  show ?case
  proof (cases "0 \<le> ?q")
    case True
    then have "max 0 ?q = ?q" by simp
    with Suc.IH [OF True] show ?thesis by auto
  next
    case False
    then have "max 0 ?q = 0" by simp
    then show ?thesis using cent_plan_zero [of l] by simp
  qed
qed simp

lemma cent_plan_rows:
  assumes "cents p" "0 \<le> p" "p \<le> P" and "(R, K) \<in> set (cent_plan r M l p)"
  shows "cents R \<and> cents K \<and> 0 \<le> K \<and> K \<le> R \<and> K \<le> 10 ^ 11 \<and> (R = M \<or> R \<le> 2 * 10 ^ 11)"
  using assms
proof (induction l arbitrary: p)
  case (Suc l)
  note st = step [OF Suc.prems(1-3)]
  have k: "0 \<le> interest r p" "interest r p \<le> M" "interest r p \<le> 10 ^ 11" "cents (interest r p)"
    using interest_nonneg [OF rate Suc.prems(2)] covers [OF Suc.prems(1-3)] interest_cents by auto
  show ?case
  proof (cases l)
    case 0
    with Suc.prems k principal(3) show ?thesis by auto
  next
    case (Suc l')
    with Suc.prems(4) consider "R = M" "K = interest r p"
      | "(R, K) \<in> set (cent_plan r M l (max 0 (p - (M - interest r p))))" by auto
    then show ?thesis using k payment(1) Suc.IH [OF st(1-3)] by cases auto
  qed
qed simp

end

section \<open>The annuity covers the interest\<close>

text \<open>Terms up to 4800 months keep the factor below \<open>2 ^ 49\<close>, where the subtraction of 1 in the formula still counts.\<close>

lemma factor_bounds:
  assumes "3 / 1000 \<le> r" "r \<le> 68 / 10000" and "1 \<le> n" "n \<le> 4800"
  defines "f \<equiv> mathPow (fl64 (1 + r)) n"
  shows "1002 / 1000 \<le> f" "f \<le> 2 ^ 49" "f \<le> (1007 / 1000) ^ n"
proof -
  define x where "x = fl64 (1 + r)"
  have "x \<le> (1 + r) * (1 + ulp)" "(1 + r) * (1 - ulp) \<le> x"
    unfolding x_def by (rule fl64_le fl64_ge, use assms(1) in simp)+
  moreover have "(1 + r) * (1 + ulp) \<le> (1 + 68 / 10000) * (1 + ulp)" "(1 + 3 / 1000) * (1 - ulp) \<le> (1 + r) * (1 - ulp)"
    using assms(1,2) by (intro mult_right_mono; simp)+
  ultimately have x: "x \<le> (1 + 68 / 10000) * (1 + ulp)" "(1 + 3 / 1000) * (1 - ulp) \<le> x" by linarith+
  have "x * (1 + ulp) \<le> (1 + 68 / 10000) * (1 + ulp) * (1 + ulp)" "(1 + 3 / 1000) * (1 - ulp) * (1 - ulp) \<le> x * (1 - ulp)"
    using x by (intro mult_right_mono; simp)+
  moreover have "(1 + 68 / 10000) * (1 + ulp) * (1 + ulp) \<le> 1007 / 1000" "1002 / 1000 \<le> (1 + 3 / 1000) * (1 - ulp) * (1 - ulp)"
    by simp_all
  ultimately have b: "x * (1 + ulp) \<le> 1007 / 1000" "1002 / 1000 \<le> x * (1 - ulp)" by linarith+
  have x1: "x \<noteq> 1" "1002 / 1000 \<le> x" "x \<le> 1007 / 1000" using b by (auto simp: field_simps)
  have f: "x * (1 - ulp) ^ 1 * 1 \<le> f \<and> f \<le> (1007 / 1000) ^ n" if "n = 1"
    using that x1 b by (simp add: f_def mathPow_def x_def [symmetric])
  have "f = pow_loop n 1 x" if "n \<noteq> 1" using that assms(3) x1 by (simp add: f_def mathPow_def x_def [symmetric])
  moreover have "pow_loop n 1 x \<le> 1 * (x * (1 + ulp)) ^ n \<and> 1 * (x * (1 - ulp)) ^ n \<le> pow_loop n 1 x"
    by (rule pow_loop_bounds) (use b in simp_all)
  moreover have "(x * (1 + ulp)) ^ n \<le> (1007 / 1000) ^ n" using b x1 by (intro power_mono) auto
  moreover have "x * (1 - ulp) \<le> (x * (1 - ulp)) ^ n" using assms(3) b by (intro self_le_power) auto
  ultimately have f2: "x * (1 - ulp) \<le> f \<and> f \<le> (1007 / 1000) ^ n" using f by (cases "n = 1") auto
  with b show "1002 / 1000 \<le> f" by linarith
  show "f \<le> (1007 / 1000) ^ n" using f2 ..
  have "(1007 / 1000 :: rat) ^ n \<le> (1007 / 1000) ^ (98 * 49)" using assms(4) by (intro power_increasing) auto
  also have "\<dots> = ((1007 / 1000) ^ 98) ^ 49" by (rule power_mult)
  also have "\<dots> \<le> 2 ^ 49" by (intro power_mono) (simp_all add: power_divide)
  finally show "f \<le> 2 ^ 49" using f2 by linarith
qed

text \<open>The formula with each operation off by a factor between \<open>l\<close> and \<open>h\<close>.\<close>

lemma quotient_lower:
  fixes P r f :: rat
  assumes nn: "0 \<le> P" "0 \<le> r" "0 \<le> f" "0 \<le> l" "0 \<le> h" and c: "r * f * l \<le> c" and g: "g \<le> (f - 1) * h" "0 < g"
    and Q: "P * l \<le> Q" and B: "Q * c * l \<le> B" and f: "(f - 1) * h ^ 4 \<le> f * l ^ 5"
  shows "P * r * h ^ 3 \<le> B / g * l ^ 2"
proof -
  have "P * l * (r * f * l) \<le> Q * c" using nn c Q by (intro mult_mono) (auto intro: order_trans [rotated, OF c] order_trans [rotated, OF Q])
  then have b: "P * l * (r * f * l) * l \<le> B" using B mult_right_mono [OF _ nn(4)] by (blast intro: order_trans)
  have "P * r * h ^ 3 * g \<le> P * r * h ^ 3 * ((f - 1) * h)" using g nn by (intro mult_left_mono) auto
  also have "\<dots> = P * r * ((f - 1) * h ^ 4)" by algebra
  also have "\<dots> \<le> P * r * (f * l ^ 5)" using f nn by (intro mult_left_mono) auto
  also have "\<dots> = P * l * (r * f * l) * l * l ^ 2" by algebra
  also have "\<dots> \<le> B * l ^ 2" using b by (intro mult_right_mono) auto
  finally show ?thesis using g by (simp add: pos_le_divide_eq)
qed

lemma quotient_upper:
  fixes P r f :: rat
  assumes nn: "0 \<le> P" "0 \<le> c" "0 \<le> Q" "0 \<le> l" "0 \<le> h" and c: "c \<le> r * f * h" and g: "(f - 1) * l \<le> g" "0 < g"
    and Q: "Q \<le> P * h" and B: "B \<le> Q * c * h" and f: "r * f * h ^ 5 \<le> 45 / 10 * ((f - 1) * l)"
  shows "B / g * h ^ 2 \<le> 45 / 10 * P"
proof -
  have "Q * c \<le> P * h * (r * f * h)" using nn c Q by (intro mult_mono) auto
  then have b: "B \<le> P * h * (r * f * h) * h" using B mult_right_mono [OF _ nn(5)] by (blast intro: order_trans)
  then have "B * h ^ 2 \<le> P * h * (r * f * h) * h * h ^ 2" by (intro mult_right_mono) auto
  also have "\<dots> = P * (r * f * h ^ 5)" by algebra
  also have "\<dots> \<le> P * (45 / 10 * g)" using f g nn by (intro mult_left_mono) linarith+
  finally show ?thesis using g by (simp add: pos_divide_le_eq ac_simps)
qed

lemma in_cents:
  assumes "1 / 1000000 \<le> x"
  shows "x * (1 - ulp) ^ 2 * 100 \<le> fl64 (fl64 x * 100)" "fl64 (fl64 x * 100) \<le> x * (1 + ulp) ^ 2 * 100"
proof -
  have x: "x * (1 - ulp) \<le> fl64 x" "fl64 x \<le> x * (1 + ulp)" by (rule fl64_ge fl64_le, use assms in simp)+
  have "1 / 1000000 * (1 / 2) \<le> x * (1 - ulp)" by (rule mult_mono) (use assms in simp_all)
  then have n: "1 / 10 ^ 9 \<le> fl64 x * 100" using x by simp
  have "x * (1 - ulp) ^ 2 * 100 = x * (1 - ulp) * 100 * (1 - ulp)" by algebra
  also have "\<dots> \<le> fl64 x * 100 * (1 - ulp)" using x(1) by (intro mult_right_mono) auto
  also note fl64_ge [OF n]
  finally show "x * (1 - ulp) ^ 2 * 100 \<le> fl64 (fl64 x * 100)" .
  note fl64_le [OF n]
  also have "fl64 x * 100 * (1 + ulp) \<le> x * (1 + ulp) * 100 * (1 + ulp)" using x(2) by (intro mult_right_mono) auto
  also have "\<dots> = x * (1 + ulp) ^ 2 * 100" by (simp add: power2_eq_square)
  finally show "fl64 (fl64 x * 100) \<le> x * (1 + ulp) ^ 2 * 100" .
qed

text \<open>The annuity of the code, before it is rounded to cents: at least the interest on the whole principal, and
  less than five times the principal.\<close>

lemma annuity_bounds:
  assumes r: "3 / 1000 \<le> r" "r \<le> 68 / 10000" and f: "1002 / 1000 \<le> f" "f \<le> 2 ^ 49" and P: "1 / 100 \<le> P" "P \<le> 10 ^ 11"
  defines "A \<equiv> fl64 (fl64 (fl64 P * fl64 (r * f)) / fl64 (f - 1))"
  shows "P * r * (1 + ulp) ^ 3 * 100 \<le> fl64 (A * 100)" "fl64 (A * 100) \<le> 450 * P"
proof -
  define c where "c = fl64 (r * f)"
  define g where "g = fl64 (f - 1)"
  define B where "B = fl64 (fl64 P * c)"
  have A: "A = fl64 (B / g)" by (simp add: A_def B_def c_def g_def)
  have rf: "3 / 1000 \<le> r * f" using mult_mono [of "3 / 1000" r 1 f] r f by simp
  have c: "r * f * (1 - ulp) \<le> c" "c \<le> r * f * (1 + ulp)" unfolding c_def by (rule fl64_ge fl64_le, use rf in simp)+
  have g: "g \<le> (f - 1) * (1 + ulp)" "(f - 1) * (1 - ulp) \<le> g" unfolding g_def by (rule fl64_ge fl64_le, use f in simp)+
  have Q: "P * (1 - ulp) \<le> fl64 P" "fl64 P \<le> P * (1 + ulp)" by (rule fl64_ge fl64_le, use P in simp)+
  have "1 / 100 * (1 / 2) \<le> P * (1 - ulp)" "3 / 1000 * (1 / 2) \<le> r * f * (1 - ulp)" "2 / 1000 * (1 / 2) \<le> (f - 1) * (1 - ulp)"
    by (rule mult_mono, use P rf f in simp_all)+
  then have pos: "1 / 200 \<le> fl64 P" "1 / 1000 \<le> c" "1 / 1000 \<le> g" using Q(1) c(1) g(2) by linarith+
  have n: "1 / 10 ^ 9 \<le> fl64 P * c" using mult_mono [OF pos(1,2)] pos(1) by simp
  have B: "fl64 P * c * (1 - ulp) \<le> B" "B \<le> fl64 P * c * (1 + ulp)" unfolding B_def using fl64_ge [OF n] fl64_le [OF n] by simp_all
  have "(f - 1) * (1 + ulp) ^ 4 \<le> (f - 1) * (1 + 5 * ulp)" using f by (intro mult_left_mono) (simp_all add: power_divide)
  also have "\<dots> \<le> f * (1 - 5 * ulp)" using f(2) by (simp add: field_simps)
  also have "\<dots> \<le> f * (1 - ulp) ^ 5" using f by (intro mult_left_mono) (simp_all add: power_divide)
  finally have lo: "P * r * (1 + ulp) ^ 3 \<le> B / g * (1 - ulp) ^ 2"
    by (intro quotient_lower [OF _ _ _ _ _ c(1) g(1) _ Q(1) B(1)]) (use P r f pos in simp_all)
  have "r * f * (1 + ulp) ^ 5 \<le> 68 / 10000 * f * (1001 / 1000)"
    using r f by (intro mult_mono) (simp_all add: power_divide)
  also have "\<dots> \<le> 45 / 10 * ((f - 1) * (999 / 1000))" using f by simp
  also have "\<dots> \<le> 45 / 10 * ((f - 1) * (1 - ulp))" using f by (intro mult_left_mono) simp_all
  finally have up: "B / g * (1 + ulp) ^ 2 \<le> 45 / 10 * P"
    by (intro quotient_upper [OF _ _ _ _ _ c(2) g(2) _ Q(2) B(2)]) (use P r f pos in simp_all)
  have "3 / 100000 \<le> P * r * (1 + ulp) ^ 3" using mult_mono [of "1 / 100" P "3 / 1000" r] P r
    mult_mono [of "3 / 100000" "P * r" 1 "(1 + ulp) ^ 3"] by (simp add: power_divide)
  then have lo2: "3 / 100000 \<le> B / g * (1 - ulp) ^ 2" using lo by linarith
  moreover have "0 \<le> B / g" unfolding B_def using pos by (simp add: fl64_nonneg)
  then have "B / g * (1 - ulp) ^ 2 \<le> B / g * 1" by (intro mult_left_mono) (simp_all add: power_divide)
  ultimately have "1 / 1000000 \<le> B / g" by linarith
  note A100 = in_cents [OF this, folded A]
  show "P * r * (1 + ulp) ^ 3 * 100 \<le> fl64 (A * 100)" by (rule order_trans [OF mult_right_mono [OF lo] A100(1)]) simp
  have "fl64 (A * 100) \<le> 45 / 10 * P * 100" by (rule order_trans [OF A100(2) mult_right_mono [OF up]]) simp
  then show "fl64 (A * 100) \<le> 450 * P" by simp
qed

text \<open>So the monthly payment is an amount in cents that covers the interest on anything up to the principal.\<close>

lemma interest_le:
  assumes r: "3 / 1000 \<le> r" "r \<le> 68 / 10000" and q: "cents q" "0 \<le> q" "q \<le> P" and P: "P \<le> 10 ^ 11"
  shows "fl64 (fl64 (fl64 q * r) * 100) \<le> P * r * (1 + ulp) ^ 3 * 100"
proof (cases "q = 0")
  case True
  then show ?thesis using r q by simp
next
  case False
  with q have q1: "1 / 100 \<le> q" using cents_less [of 0 q] by simp
  have a: "q * (1 - ulp) \<le> fl64 q" "fl64 q \<le> q * (1 + ulp)" by (rule fl64_ge fl64_le, use q1 in simp)+
  have "1 / 100 * (1 / 2) \<le> q * (1 - ulp)" by (rule mult_mono) (use q1 in simp_all)
  then have "1 / 200 * (3 / 1000) \<le> fl64 q * r" using a(1) r q1 by (intro mult_mono) auto
  then have "fl64 (fl64 (fl64 q * r) * 100) \<le> fl64 q * r * (1 + ulp) ^ 2 * 100" by (intro in_cents) simp
  also have "\<dots> \<le> q * (1 + ulp) * r * (1 + ulp) ^ 2 * 100" using a(2) r by (intro mult_right_mono) auto
  also have "\<dots> \<le> P * (1 + ulp) * r * (1 + ulp) ^ 2 * 100" using q r by (intro mult_right_mono) auto
  also have "\<dots> = P * r * (1 + ulp) ^ 3 * 100" by (simp add: power2_eq_square power3_eq_cube)
  finally show ?thesis .
qed

lemma annuity_of_rate:
  assumes r: "3 / 1000 \<le> r" "r \<le> 68 / 10000" and n: "1 \<le> n" "n \<le> 4800" and P: "cents P" "0 < P" "P \<le> 10 ^ 11"
  defines "A \<equiv> fl64 (fl64 (fl64 P * fl64 (r * mathPow (fl64 (1 + r)) n)) / fl64 (mathPow (fl64 (1 + r)) n - 1))"
  shows "annuity r (of_int (half_away (fl64 (A * 100))) / 100) P"
proof -
  have P1: "1 / 100 \<le> P" using P cents_less [of 0 P] by simp
  note b = annuity_bounds [OF r factor_bounds(1,2) [OF r n] P1 P(3), folded A_def]
  have pr: "P * r * (1 + ulp) ^ 3 * 100 \<le> P * (68 / 10000) * 2 * 100"
    using r P by (intro mult_right_mono mult_mono) (simp_all add: power_divide)
  have i: "interest r q \<le> of_int (half_away (fl64 (A * 100))) / 100" "interest r q \<le> 10 ^ 11" if "cents q" "0 \<le> q" "q \<le> P" for q
  proof -
    note l = interest_le [OF r that P(3)]
    show "interest r q \<le> of_int (half_away (fl64 (A * 100))) / 100"
      unfolding interest_def using half_away_mono [OF order_trans [OF l b(1)]] by simp
    have "of_int (half_away (fl64 (fl64 (fl64 q * r) * 100))) \<le> fl64 (fl64 (fl64 q * r) * 100) + 1 / 2"
      using half_away_error [of "fl64 (fl64 (fl64 q * r) * 100)"] by linarith
    then show "interest r q \<le> 10 ^ 11" unfolding interest_def using l pr P(3) by simp
  qed
  have A0: "0 \<le> A" unfolding A_def
    by (intro fl64_nonneg divide_nonneg_nonneg mult_nonneg_nonneg) (use r P factor_bounds(1) [OF r n] in auto)
  have "of_int (half_away (fl64 (A * 100))) \<le> fl64 (A * 100) + 1 / 2" using half_away_error [of "fl64 (A * 100)"] by linarith
  then have "of_int (half_away (fl64 (A * 100))) / 100 < (10 ^ 13 :: rat)" using b(2) P(3) by simp
  then show ?thesis
    using r P i A0 by unfold_locales (auto simp: cents_iff half_away_def fl64_nonneg)
qed

end
