(* ===== verification/Credit_Schema.thy ===== *)
theory Credit_Schema
  imports Credit_Schedule
begin

text \<open>
  The tables of credits: what holds of their rows in every state the operations on credits reach, and what the
  statements of those operations do to them.
\<close>

section \<open>The shape of the tables\<close>

definition zahtevi_ok :: "int \<Rightarrow> KreditniZahtev list \<Rightarrow> bool" where
  "zahtevi_ok n zs \<longleftrightarrow> distinct (map z_ID zs) \<and>
     list_all (\<lambda>z. z_ID z < n \<and> cents (z_IznosKredita z) \<and> 0 < z_IznosKredita z \<and> 0 < z_RokOtplate z) zs"

definition krediti_ok :: "int \<Rightarrow> kredit list \<Rightarrow> bool" where
  "krediti_ok n ks \<longleftrightarrow> distinct (map k_id ks) \<and> list_all (\<lambda>k. k_id k < n) ks"

definition rate_ok :: "int set \<Rightarrow> int \<Rightarrow> rata list \<Rightarrow> bool" where
  "rate_ok ids n rs \<longleftrightarrow> distinct (map rt_id rs) \<and>
     list_all (\<lambda>r. rt_id r < n \<and> rt_kredit r \<in> ids \<and> cents (rt_iznos r) \<and> 0 < rt_iznos r \<and> rt_iznos r < 10 ^ 13) rs"

definition credits_ok :: "db \<Rightarrow> bool" where
  "credits_ok s \<longleftrightarrow> zahtevi_ok (zahtev_seq s) (kreditni_zahtevi s) \<and> krediti_ok (kredit_seq s) (krediti s) \<and>
     rate_ok (k_id ` set (krediti s)) (rata_seq s) (rate_kredita s)"

text \<open>Sequences are not undone by a rollback, so they are followed with a lower bound.\<close>

definition credits_from :: "int \<times> int \<times> int \<Rightarrow> db \<Rightarrow> bool" where
  "credits_from n s \<longleftrightarrow> credits_ok s \<and> fst n \<le> zahtev_seq s \<and> fst (snd n) \<le> kredit_seq s \<and> snd (snd n) \<le> rata_seq s"

definition credit_seqs :: "db \<Rightarrow> int \<times> int \<times> int" where
  "credit_seqs s = (zahtev_seq s, kredit_seq s, rata_seq s)"

lemma clock_free_credits [simp]: "clock_free (credits_from n)"
  by (simp add: clock_free_def credits_from_def credits_ok_def)

lemmas clock_credits [simp] = clock_freeD [OF clock_free_credits]

lemma credits_frame [simp]:
  "credits_from n (s\<lparr>racuni := rs\<rparr>) = credits_from n s" "credits_from n (s\<lparr>transakcije := ts\<rparr>) = credits_from n s"
  "credits_from n (s\<lparr>now_utc := t\<rparr>) = credits_from n s"
  by (simp_all add: credits_from_def credits_ok_def)

lemma zahtevi_ok_mono: "zahtevi_ok n zs \<Longrightarrow> n \<le> n' \<Longrightarrow> zahtevi_ok n' zs"
  and krediti_ok_mono: "krediti_ok n ks \<Longrightarrow> n \<le> n' \<Longrightarrow> krediti_ok n' ks"
  and rate_ok_mono: "rate_ok ids n rs \<Longrightarrow> ids \<subseteq> ids' \<Longrightarrow> n \<le> n' \<Longrightarrow> rate_ok ids' n' rs"
  by (auto simp: zahtevi_ok_def krediti_ok_def rate_ok_def list_all_iff)

lemma credits_rollback:
  "credits_from n s \<Longrightarrow> credits_from (credit_seqs s) s' \<Longrightarrow> credits_from n (rollback_core s s') \<and> credits_from n s'"
  by (auto simp: credits_from_def credits_ok_def credit_seqs_def intro: zahtevi_ok_mono krediti_ok_mono rate_ok_mono)

lemma preserves_credits_in_tx [preserves_intros]:
  assumes "\<And>n. preserves (credits_from n) m"
  shows "preserves (credits_from n) (in_tx m)"
  unfolding preserves_def
proof (intro allI impI)
  fix s
  assume s: "credits_from n s"
  obtain r s1 where m: "m (begin_tx s) = (r, s1)" by force
  have "credits_from (credit_seqs s) (begin_tx s)" using s by (simp add: credits_from_def credits_ok_def credit_seqs_def)
  then have "credits_from (credit_seqs s) s1" by (rule preservesD [OF assms _ m])
  then show "credits_from n (snd (in_tx m s))"
    using s credits_rollback [OF s, of s1] credits_rollback [OF s, of "bump s1"]
    by (simp add: in_tx_def m split: sum.split)
qed

section \<open>Statements\<close>

lemma zahtevi_ok_upd: "zahtevi_ok n zs \<Longrightarrow> zahtevi_ok n (upd_where P (\<lambda>z. z\<lparr>z_Status := st\<rparr>) zs)"
  by (simp add: zahtevi_ok_def map_upd_where list_all_upd_where)

lemma krediti_ok_upd:
  assumes "krediti_ok n ks" and "\<And>k. k_id (f k) = k_id k"
  shows "krediti_ok n (upd_where P f ks)" "k_id ` set (upd_where P f ks) = k_id ` set ks"
proof -
  have m: "map k_id (upd_where P f ks) = map k_id ks" by (rule map_upd_where) (rule assms(2))
  then show "krediti_ok n (upd_where P f ks)" using assms by (auto simp: krediti_ok_def intro: list_all_upd_where)
  show "k_id ` set (upd_where P f ks) = k_id ` set ks" using arg_cong [OF m, of set] by simp
qed

lemma rate_ok_upd:
  assumes "rate_ok ids n rs" and f: "\<And>r. rt_id (f r) = rt_id r \<and> rt_kredit (f r) = rt_kredit r \<and> rt_iznos (f r) = rt_iznos r"
  shows "rate_ok ids n (upd_where P f rs)"
proof -
  have "map rt_id (upd_where P f rs) = map rt_id rs" by (rule map_upd_where) (simp add: f)
  with assms show ?thesis by (auto simp: rate_ok_def intro: list_all_upd_where)
qed

lemma preserves_credits_money [preserves_intros]:
  "preserves (credits_from n) (update_racun E P f)" "preserves (credits_from n) (credit_update E i d)"
proof -
  show u: "preserves (credits_from n) (update_racun E P f)" for P f
    unfolding update_racun_def by (rule preserves_stmt) (auto split: if_splits)
  show "preserves (credits_from n) (credit_update E i d)" unfolding credit_update_def by (intro preserves_intros u)
qed

lemma preserves_credits_zahtev [preserves_intros]: "preserves (credits_from n) (set_zahtev_status i P st)"
  unfolding set_zahtev_status_def
  by (rule preserves_stmt) (auto simp: credits_from_def credits_ok_def Let_def intro: zahtevi_ok_upd)

lemma preserves_credits_update_kredit:
  assumes "\<And>k. k_id (f k) = k_id k"
  shows "preserves (credits_from n) (update_kredit P f)"
  unfolding update_kredit_def
  by (rule preserves_stmt) (use assms in \<open>auto simp: credits_from_def credits_ok_def krediti_ok_upd split: if_splits\<close>)

lemma preserves_credits_update_rata:
  assumes "\<And>r. rt_id (f r) = rt_id r \<and> rt_kredit (f r) = rt_kredit r \<and> rt_iznos (f r) = rt_iznos r"
  shows "preserves (credits_from n) (update_rata i f)"
  unfolding update_rata_def
  by (rule preserves_stmt) (auto simp: credits_from_def credits_ok_def intro!: rate_ok_upd assms)

lemma preserves_credits_insert_kredit [preserves_intros]: "preserves (credits_from n) (insert_kredit E k)"
  unfolding insert_kredit_def
  by (rule preserves_stmt) (auto simp: credits_from_def credits_ok_def Let_def krediti_ok_def store_kredit_def list_all_iff
      intro: rate_ok_mono split: if_splits)

lemma preserves_credits_CreateKreditniZahtev:
  assumes "numerics E"
  shows "preserves (credits_from n) (CreateKreditniZahtev E input)"
  unfolding CreateKreditniZahtev_def
  by (rule preserves_stmt) (auto simp: credits_from_def credits_ok_def Let_def zahtevi_ok_def zahtev_fits_def new_zahtev_def
      list_all_iff numerics.round2_cents [OF assms] split: if_splits)

lemma rata_rows_fields:
  "map rt_id (rata_rows E kid v i ris) = map (\<lambda>j. i + int j) [0..<length ris]"
  "r \<in> set (rata_rows E kid v i ris) \<Longrightarrow> rt_kredit r = kid \<and> rt_status r = NEPLACENO \<and> rt_valuta r = v \<and>
     (\<exists>j ri. j < length ris \<and> rt_id r = i + int j \<and> ri \<in> set ris \<and> rt_iznos r = round2 E (newFromFloat E (ri_IznosRate ri)))"
  by (auto simp: rata_rows_def rata_row_def enumerate_eq_zip map_eq_conv comp_def split_def set_zip intro!: nth_equalityI) (fastforce simp: in_set_conv_nth)+

lemma length_rata_rows [simp]: "length (rata_rows E kid v i ris) = length ris"
  by (simp add: rata_rows_def)

lemma preserves_credits_insert_rate:
  assumes "numerics E"
  shows "preserves (credits_from n) (insert_rate E kid v ris)"
proof -
  have "rate_ok ids (m + int (length ris)) (rs @ rata_rows E kid v m ris)"
    if "rate_ok ids m rs" "list_all (\<lambda>r. rata_fits r s) (rata_rows E kid v m ris)" "ids = k_id ` set (krediti s)" for ids m rs s
    using that rata_rows_fields(2) [of _ E kid v m ris]
    by (fastforce simp: rate_ok_def list_all_iff rata_rows_fields(1) distinct_map inj_on_def rata_fits_def list_ex_iff
        numerics.round2_cents [OF assms])
  then show ?thesis
    unfolding insert_rate_def
    by (intro preserves_if preserves_fail preserves_stmt) (auto simp: credits_from_def credits_ok_def Let_def split: if_splits)
qed

section \<open>Everything that happens to credits\<close>

lemma preserves_credits_installment [preserves_intros]: "preserves (credits_from n) (ProcessInstallmentPayment E input)"
  unfolding ProcessInstallmentPayment_def installment_body_def collect_def trezorRacun_def
  by (intro preserves_intros preserves_credits_update_rata preserves_credits_update_kredit)
    (simp_all add: paid_rata_def after_payment_def split: option.splits)

lemma preserves_credits_failures [preserves_intros]:
  "preserves (credits_from n) (MarkInstallmentFailed E i t)" "preserves (credits_from n) (ApplyLatePaymentPenalty E j x)"
  unfolding MarkInstallmentFailed_def ApplyLatePaymentPenalty_def
  by (intro preserves_intros preserves_credits_update_rata preserves_credits_update_kredit; simp)+

lemma preserves_credits_attempt_all:
  "(\<And>d. preserves P (f d)) \<Longrightarrow> preserves P (attempt_all f i j ds)"
  by (induction ds arbitrary: i j) (auto intro!: preserves_intros)

lemma preserves_credits_daily [preserves_intros]: "preserves (credits_from n) (runDailyJob E w)"
proof -
  have "preserves (credits_from n) (attemptPayment E w b d)" for b d
    unfolding attemptPayment_def handleFirstFailure_def handleSecondFailure_def by (intro preserves_intros)
  then show ?thesis
    unfolding runDailyJob_def processFirstAttempts_def processRetryAttempts_def GetDueInstallments_def GetRetryInstallments_def
    by (intro preserves_intros preserves_credits_attempt_all) simp_all
qed

lemma preserves_credits_first [preserves_intros]: "preserves (credits_from n) (ProcessFirstInstallment E i)"
  unfolding ProcessFirstInstallment_def GetInstallmentsByKredit_def GetKreditByID_def
  by (intro preserves_intros) (auto split: list.split intro!: preserves_intros)

lemma preserves_credits_requests:
  assumes "numerics E"
  shows "preserves (credits_from n) (ApplyForCredit E input)" "preserves (credits_from n) (ApproveCredit E draw i)"
    "preserves (credits_from n) (RejectCredit E i)" "preserves (credits_from n) (UpdateKreditStatus i t)"
proof -
  show "preserves (credits_from n) (ApplyForCredit E input)"
    unfolding ApplyForCredit_def by (intro preserves_intros preserves_credits_CreateKreditniZahtev assms)
  show "preserves (credits_from n) (ApproveCredit E draw i)"
    unfolding ApproveCredit_def GetKreditniZahtevByID_def ApproveKreditRequest_def approve_body_def payout_def
      trezorRacun_def klijentRacun_def
    by (intro preserves_intros preserves_credits_insert_rate assms) simp_all
  show "preserves (credits_from n) (RejectCredit E i)"
    unfolding RejectCredit_def RejectKreditRequest_def by (intro preserves_intros) simp_all
  have "preserves (credits_from n) (stmt (\<lambda>s. let n = length (filter (\<lambda>k. k_id k = i) (krediti s)) in
       case kreditStatus_of t of
         None \<Rightarrow> if n = 0 then Some (n, s) else None
       | Some st \<Rightarrow> Some (n, s\<lparr>krediti := upd_where (\<lambda>k. k_id k = i) (\<lambda>k. k\<lparr>k_status := st\<rparr>) (krediti s)\<rparr>)))"
    by (rule preserves_stmt) (auto simp: credits_from_def credits_ok_def Let_def krediti_ok_upd split: option.splits if_splits)
  then show "preserves (credits_from n) (UpdateKreditStatus i t)"
    unfolding UpdateKreditStatus_def by (intro preserves_intros)
qed

text \<open>Clients apply, employees decide, the handler that approves also charges the first instalment, and the worker
  runs once a day. Time passes in between, and accounts change through the other services.\<close>

inductive credit_step :: "env \<Rightarrow> InstallmentWorker \<Rightarrow> db \<Rightarrow> db \<Rightarrow> bool" for E w where
  apply_for: "credit_step E w s (snd (ApplyForCredit E input s))"
| approve: "credit_step E w s (snd (ApproveCredit E draw i s))"
| reject: "credit_step E w s (snd (RejectCredit E i s))"
| first: "credit_step E w s (snd (ProcessFirstInstallment E i s))"
| status: "credit_step E w s (snd (UpdateKreditStatus i t s))"
| daily: "credit_step E w s (snd (runDailyJob E w s))"
| clock: "credit_step E w s (s\<lparr>now_utc := t\<rparr>)"
| accounts: "credit_step E w s (s\<lparr>racuni := rs, transakcije := ts\<rparr>)"

lemma preserves_credits_ok: "(\<And>n. preserves (credits_from n) m) \<Longrightarrow> credits_ok s \<Longrightarrow> credits_ok (snd (m s))"
  unfolding preserves_def credits_from_def by (drule meta_spec [of _ "credit_seqs s"]) (auto simp: credit_seqs_def)

lemma credits_ok_step:
  assumes "numerics E" and "credit_step E w s s'" and "credits_ok s"
  shows "credits_ok s'"
  using assms(2)
proof cases
  case (accounts rs ts)
  with assms(3) show ?thesis by (simp add: credits_ok_def)
next
  case (clock t)
  with assms(3) show ?thesis by (simp add: credits_ok_def)
qed (use assms(1,3) in \<open>auto intro!: preserves_credits_ok preserves_intros preserves_credits_requests\<close>)

lemma credits_ok_reachable:
  assumes "numerics E" and "(credit_step E w)\<^sup>*\<^sup>* s s'" and "credits_ok s"
  shows "credits_ok s'"
  using assms(2,3) by (induction rule: rtranclp_induct) (auto intro: credits_ok_step [OF assms(1)])

end
