(* ===== verification/Credit_Ledger.thy ===== *)
theory Credit_Ledger
  imports Credit_Schema Payment_Ledger
begin

text \<open>
  What credits do to accounts, as postings on a ledger of all accounts, and what approving a request leaves in the
  tables.
\<close>

section \<open>Postings\<close>

definition all_ledger :: "db \<Rightarrow> ledger" where
  "all_ledger s i = map_option stanje_racuna (racun_of s i)"

definition entered :: "posting list \<Rightarrow> db \<Rightarrow> db \<Rightarrow> bool" where
  "entered ps s s' \<longleftrightarrow> racun_keys s' = racun_keys s \<and> cents_db s' \<and> all_ledger s' = fold post ps (all_ledger s) \<and>
     transakcije s' = transakcije s @ map journal ps"

text \<open>The tables of credits, which postings leave alone.\<close>

definition credit_tables :: "db \<Rightarrow> kredit list \<times> KreditniZahtev list \<times> rata list" where
  "credit_tables s = (krediti s, kreditni_zahtevi s, rate_kredita s)"

lemma clock_free_credit_tables [simp]: "clock_free credit_tables"
  by (simp add: clock_free_def credit_tables_def)

lemmas clock_credit_tables [simp] = clock_freeD [OF clock_free_credit_tables]

lemma entered_trans: "entered ps s t \<Longrightarrow> entered qs t u \<Longrightarrow> entered (ps @ qs) s u"
  by (simp add: entered_def)

lemma all_ledger_cong: "racuni t = racuni s \<Longrightarrow> all_ledger t = all_ledger s"
  by (simp add: all_ledger_def racun_of_def fun_eq_iff)

lemma entered_same:
  "entered ps s s' \<Longrightarrow> racuni t = racuni s \<Longrightarrow> transakcije t = transakcije s \<Longrightarrow> racuni t' = racuni s' \<Longrightarrow>
   transakcije t' = transakcije s' \<Longrightarrow> entered ps t t'"
  using all_ledger_cong [of t s] all_ledger_cong [of t' s'] by (simp add: entered_def racun_keys_def cents_db_def)

lemma stmt_InrD: "stmt f s = (Inr a, s') \<Longrightarrow> f (bump s) = Some (a, s')"
  by (auto simp: stmt_def split: if_splits option.splits)

lemma credit_update_InrD:
  "credit_update E i d s = (Inr u, s') \<Longrightarrow>
   s' = (bump s)\<lparr>racuni := upd_where (\<lambda>r. r_id r = i) (\<lambda>r. store_racun E (add_balance d r)) (racuni s)\<rparr>"
  by (auto simp: credit_update_def elim!: bnd_InrE dest!: update_racun_Inr(2))

lemma trezor_find: "trezor c s = Some t \<Longrightarrow> t \<in> set (racuni s) \<and> id_vlasnika t = 2 \<and> valuta_oznaka t = c \<and> r_status t = ''AKTIVAN''"
  by (auto simp: trezor_def find_Some_iff)

context numerics
begin

lemma entered_posting:
  assumes "cents_db s" "cents d" "d \<noteq> 0" and u: "credit_update E i d s = (Inr u, t)"
    and e: "insert_transakcije E [if d < 0 then isplata i (- d) else uplata i d] t = (Inr u', s')"
  shows "entered [(i, d)] s s'"
proof -
  let ?f = "\<lambda>r. store_racun E (add_balance d r)"
  note t = credit_update_InrD [OF u] and s' = insert_transakcije_Inr [OF e]
  have "racun_keys s' = racun_keys s"
    by (simp add: s' t racun_keys_def upd_where_def add_balance_def)
  moreover have "cents_db s'"
    using assms(1) by (auto simp: s' t cents_db_def list_all_iff upd_where_def round2_cents)
  moreover have "racun_of s' j = map_option (\<lambda>r. if r_id r = i then ?f r else r) (racun_of s j)" for j
    unfolding racun_of_def by (simp add: s' t) (rule find_upd_where, simp add: add_balance_def)
  then have "all_ledger s' j = post (i, d) (all_ledger s) j" for j
    using racun_of_SomeD [of s j] assms(1,2)
    by (cases "racun_of s j") (auto simp: all_ledger_def post_def add_balance_def cents_db_def list_all_iff round2_id)
  moreover have "transakcije s' = transakcije s @ [journal (i, d)]"
    using assms(2,3) by (auto simp: s' t journal_def isplata_def uplata_def round2_id)
  ultimately show ?thesis by (auto simp: entered_def)
qed

lemma entered_cents: "entered ps s t \<Longrightarrow> cents_db t"
  by (simp add: entered_def)

end

lemma keeps_credit_tables [keeps_intros]:
  "keeps credit_tables (credit_update E i d)" "keeps credit_tables (insert_transakcije E ts)" "keeps credit_tables (trezorRacun c)"
  "keeps credit_tables (klijentRacun b)"
  unfolding credit_update_def trezorRacun_def klijentRacun_def
  by (intro keeps_intros keeps_update_racun keeps_insert_transakcije; simp add: credit_tables_def)+

section \<open>The payout of a credit\<close>

lemma trezorRacun_InrD: "trezorRacun c s = (Inr i, s') \<Longrightarrow> s' = bump s \<and> (\<exists>t. trezor c s = Some t \<and> r_id t = i)"
  by (auto simp: trezorRacun_def trezor_def elim!: bnd_InrE dest!: query_InrD split: option.splits if_splits)

lemma klijentRacun_InrD:
  "klijentRacun b s = (Inr i, s') \<Longrightarrow> s' = bump s \<and> (\<exists>r. List.find (\<lambda>r. broj_racuna r = b) (racuni s) = Some r \<and> r_id r = i)"
  by (auto simp: klijentRacun_def elim!: bnd_InrE dest!: query_InrD split: option.splits if_splits)

lemma payout_entered:
  assumes "numerics E" and "cents_db s" "cents x" "0 < x" "x < 10 ^ 13" and "payout E c b (fl64 x) s = (Inr u, s')"
  shows "\<exists>t r. trezor c s = Some t \<and> List.find (\<lambda>r. broj_racuna r = b) (racuni s) = Some r \<and>
    entered [(r_id t, - x), (r_id r, x)] s s' \<and> credit_tables s' = credit_tables s"
proof -
  have n: "newFromFloat E (fl64 x) = x" using assms(3-5) by (intro numerics.newFromFloat_literal [OF assms(1)]) auto
  from assms(6) obtain i j t1 t2 t3 t4 t5 where st: "trezorRacun c s = (Inr i, t1)" "klijentRacun b t1 = (Inr j, t2)"
    "credit_update E i (- x) t2 = (Inr (), t3)" "insert_transakcije E [isplata i x] t3 = (Inr (), t4)"
    "credit_update E j x t4 = (Inr (), t5)" "insert_transakcije E [uplata j x] t5 = (Inr (), s')"
    unfolding payout_def n by (auto elim!: bnd_InrE)
  from trezorRacun_InrD [OF st(1)] obtain t where t: "trezor c s = Some t" "r_id t = i" "t1 = bump s" by blast
  from klijentRacun_InrD [OF st(2)] t(3) obtain r where r: "List.find (\<lambda>r. broj_racuna r = b) (racuni s) = Some r" "r_id r = j" "t2 = bump t1"
    by auto
  have e1: "entered [(i, - x)] t2 t4"
    by (rule numerics.entered_posting [OF assms(1) _ _ _ st(3)]) (use assms(2-4) st(4) r t in \<open>simp_all add: cents_db_def\<close>)
  have e2: "entered [(j, x)] t4 s'"
    by (rule numerics.entered_posting [OF assms(1) _ _ _ st(5)]) (use assms(3,4) st(6) e1 in \<open>simp_all add: entered_def\<close>)
  have "entered [(i, - x), (j, x)] s s'"
    using entered_same [OF entered_trans [OF e1 e2], of s s'] r(3) t(3) by simp
  moreover have "keeps credit_tables (payout E c b (fl64 x))" unfolding payout_def by (intro keeps_intros)
  from keepsD [OF this assms(6)] have "credit_tables s' = credit_tables s" .
  ultimately show ?thesis using t r by blast
qed

section \<open>Approving a request\<close>

lemma insert_kredit_InrD:
  assumes "insert_kredit E k s = (Inr k', s')"
  shows "k' = k\<lparr>k_id := kredit_seq s\<rparr> \<and> s' = (bump s)\<lparr>krediti := krediti s @ [store_kredit E k'], kredit_seq := kredit_seq s + 1\<rparr> \<and>
    kredit_fits (store_kredit E k') (bump s)"
  using assms by (auto simp: insert_kredit_def Let_def dest!: stmt_InrD split: if_splits)

lemma insert_rate_InrD:
  assumes "insert_rate E kid v ris s = (Inr u, s')"
  shows "s' = (bump s)\<lparr>rate_kredita := rate_kredita s @ rata_rows E kid v (rata_seq s) ris, rata_seq := rata_seq s + int (length ris)\<rparr> \<and>
    ris \<noteq> [] \<and> list_all (\<lambda>r. rata_fits r (bump s)) (rata_rows E kid v (rata_seq s) ris)"
  using assms by (auto simp: insert_rate_def Let_def dest!: stmt_InrD split: if_splits)

text \<open>What an approval leaves behind. \<open>x\<close> is the amount of the credit, which the code carries as \<open>fl64 x\<close>.\<close>

lemma approve_body_InrE:
  assumes "numerics E" and "cents_db s" "cents x" "0 < x" "x < 10 ^ 13" "ak_IznosKredita input = fl64 x"
    and "approve_body E input s = (Inr k, s')"
  obtains t r where "trezor (ak_Valuta input) s = Some t" "List.find (\<lambda>r. broj_racuna r = ak_BrojRacuna input) (racuni s) = Some r"
    "entered [(r_id t, - x), (r_id r, x)] s s'"
    "k = (approved_kredit input (dayOf (now_utc s)))\<lparr>k_id := kredit_seq s\<rparr>" "krediti s' = krediti s @ [store_kredit E k]"
    "rate_kredita s' = rate_kredita s @ rata_rows E (kredit_seq s) (ak_Valuta input) (rata_seq s) (ak_Rate input)"
    "list_all (\<lambda>r. rata_fits r s') (rata_rows E (kredit_seq s) (ak_Valuta input) (rata_seq s) (ak_Rate input))"
    "kreditni_zahtevi s' = upd_where (\<lambda>z. z_ID z = ak_ZahtevID input \<and> z_Status z = NA_CEKANJU)
       (\<lambda>z. z\<lparr>z_Status := ZahtevODOBREN\<rparr>) (kreditni_zahtevi s)"
    "\<exists>z \<in> set (kreditni_zahtevi s). z_ID z = ak_ZahtevID input \<and> z_Status z = NA_CEKANJU"
proof -
  let ?P = "\<lambda>z. z_ID z = ak_ZahtevID input \<and> z_Status z = NA_CEKANJU"
  from assms(7) obtain n t1 t2 t3 where u: "set_zahtev_status (ak_ZahtevID input) (\<lambda>z. z_Status z = NA_CEKANJU) ZahtevODOBREN s = (Inr n, t1)"
    and "n \<noteq> 0" and st: "insert_kredit E (approved_kredit input (dayOf (now_utc t1))) t1 = (Inr k, t2)"
      "insert_rate E (k_id k) (ak_Valuta input) (ak_Rate input) t2 = (Inr (), t3)"
      "payout E (ak_Valuta input) (ak_BrojRacuna input) (fl64 x) t3 = (Inr (), s')"
    unfolding approve_body_def assms(6) by (auto elim!: bnd_InrE split: if_splits)
  have t1: "t1 = (bump s)\<lparr>kreditni_zahtevi := upd_where ?P (\<lambda>z. z\<lparr>z_Status := ZahtevODOBREN\<rparr>) (kreditni_zahtevi s)\<rparr>"
    and n: "n = length (filter ?P (kreditni_zahtevi s))" using u by (auto simp: set_zahtev_status_def Let_def dest!: stmt_InrD)
  note k = insert_kredit_InrD [OF st(1)] and r = insert_rate_InrD [OF st(2)]
  have racuni: "racuni t3 = racuni s" "transakcije t3 = transakcije s" using k r t1 by simp_all
  then have "cents_db t3" using assms(2) by (simp add: cents_db_def)
  from payout_entered [OF assms(1) this assms(3-5) st(3)] obtain t c where
    p: "trezor (ak_Valuta input) t3 = Some t" "List.find (\<lambda>r. broj_racuna r = ak_BrojRacuna input) (racuni t3) = Some c"
      "entered [(r_id t, - x), (r_id c, x)] t3 s'" "credit_tables s' = credit_tables t3" by blast
  show thesis
  proof (rule that)
    show "trezor (ak_Valuta input) s = Some t" "List.find (\<lambda>r. broj_racuna r = ak_BrojRacuna input) (racuni s) = Some c"
      using p(1,2) racuni by (simp_all add: trezor_def)
    show "entered [(r_id t, - x), (r_id c, x)] s s'" using entered_same [OF p(3)] racuni by simp
    show "\<exists>z \<in> set (kreditni_zahtevi s). ?P z" using \<open>n \<noteq> 0\<close> unfolding n by (auto simp: filter_empty_conv)
  qed (use p(4) k r t1 in \<open>auto simp: credit_tables_def rata_fits_def\<close>)
qed

end
