(* ===== verification/Credit_Approval.thy ===== *)
theory Credit_Approval
  imports Credit_Ledger
begin

text \<open>
  Approving a credit: the schedule that is stored repays the principal exactly, and the payout is one transfer
  from the treasury's account.
\<close>

section \<open>The schedule of a request\<close>

definition monthlyRate :: "KreditniZahtev \<Rightarrow> float64" where
  "monthlyRate z = fl64 (nominalnaGodisnja z / 12)"

text \<open>The annuity of a request in exact cents.\<close>

definition monthlyPayment :: "KreditniZahtev \<Rightarrow> rat" where
  "monthlyPayment z = (let r = monthlyRate z; f = mathPow (fl64 (1 + r)) (nat (z_RokOtplate z)) in
     of_int (half_away (fl64 (fl64 (fl64 (fl64 (z_IznosKredita z) * fl64 (r * f)) / fl64 (f - 1)) * 100))) / 100)"

definition ordinary :: "KreditniZahtev \<Rightarrow> bool" where
  "ordinary z \<longleftrightarrow> cents (z_IznosKredita z) \<and> 0 < z_IznosKredita z \<and> z_IznosKredita z \<le> 10 ^ 11 \<and>
     0 < z_RokOtplate z \<and> z_RokOtplate z \<le> 4800"

lemma literal_bounds: "1 / 1000 \<le> c \<Longrightarrow> c \<le> 1 / 10 \<Longrightarrow> c - 1 / 10 ^ 6 \<le> fl64 c \<and> fl64 c \<le> c + 1 / 10 ^ 6"
  using fl64_le [of c] fl64_ge [of c] by (simp add: algebra_simps)

lemma baseRate_bounds: "47 / 1000 \<le> baseRateForAmount x" "baseRateForAmount x \<le> 63 / 1000"
proof -
  have "c \<in> {625 / 10000, 600 / 10000, 575 / 10000, 550 / 10000, 525 / 10000, 475 / 10000} \<Longrightarrow> 47 / 1000 \<le> fl64 c \<and> fl64 c \<le> 63 / 1000"
    for c :: rat using literal_bounds [of c] by auto
  then show "47 / 1000 \<le> baseRateForAmount x" "baseRateForAmount x \<le> 63 / 1000"
    by (auto simp: baseRateForAmount_def baseRateByAmount_def)
qed

lemma margin_bounds:
  "0 \<le> (case map_of marginByType t of None \<Rightarrow> 0 | Some m \<Rightarrow> m)" "(case map_of marginByType t of None \<Rightarrow> 0 | Some m \<Rightarrow> m) \<le> 176 / 10000"
proof -
  have "c \<in> {175 / 10000, 150 / 10000, 125 / 10000, 100 / 10000, 75 / 10000} \<Longrightarrow> 0 \<le> fl64 c \<and> fl64 c \<le> 176 / 10000" for c :: rat
    using literal_bounds [of c] by auto
  then show "0 \<le> (case map_of marginByType t of None \<Rightarrow> 0 | Some m \<Rightarrow> m)" "(case map_of marginByType t of None \<Rightarrow> 0 | Some m \<Rightarrow> m) \<le> 176 / 10000"
    by (auto simp: marginByType_def)
qed

lemma nominalna_bounds: "46 / 1000 \<le> nominalnaGodisnja z" "nominalnaGodisnja z \<le> 81 / 1000"
  using literal_bounds [of "baseRateForAmount (credit_toRSD (fl64 (z_IznosKredita z)) (z_Valuta z)) +
      (case map_of marginByType (z_VrstaKredita z) of None \<Rightarrow> 0 | Some m \<Rightarrow> m)"]
    baseRate_bounds [of "credit_toRSD (fl64 (z_IznosKredita z)) (z_Valuta z)"] margin_bounds [of "z_VrstaKredita z"]
  by (auto simp: nominalnaGodisnja_def)

lemma monthlyRate_bounds: "3 / 1000 \<le> monthlyRate z" "monthlyRate z \<le> 68 / 10000"
  using literal_bounds [of "nominalnaGodisnja z / 12"] nominalna_bounds [of z] by (simp_all add: monthlyRate_def)

lemma ordinary_annuity: "ordinary z \<Longrightarrow> annuity (monthlyRate z) (monthlyPayment z) (z_IznosKredita z)"
  unfolding monthlyPayment_def Let_def ordinary_def by (intro annuity_of_rate monthlyRate_bounds) auto

lemma izracunajAnuitet_payment:
  "izracunajAnuitet (fl64 (z_IznosKredita z)) (nominalnaGodisnja z) (nat (z_RokOtplate z)) = fl64 (monthlyPayment z)"
  using monthlyRate_bounds [of z]
  by (simp add: izracunajAnuitet_def Let_def monthlyRate_def [symmetric] monthlyPayment_def roundCent_def)

text \<open>The rows that are stored are the exact schedule.\<close>

lemma stored_schedule:
  assumes "numerics E" and "ordinary z"
  shows "map (\<lambda>r. (rt_iznos r, rt_kamata r)) (rata_rows E kid v i (ak_Rate (approve_input draw now z))) =
    cent_plan (monthlyRate z) (monthlyPayment z) (nat (z_RokOtplate z)) (z_IznosKredita z)"
proof -
  let ?plan = "cent_plan (monthlyRate z) (monthlyPayment z) (nat (z_RokOtplate z)) (z_IznosKredita z)"
  define ris where "ris = ak_Rate (approve_input draw now z)"
  note a = ordinary_annuity [OF assms(2)]
  have P: "cents (z_IznosKredita z)" "0 \<le> z_IznosKredita z" using assms(2) by (auto simp: ordinary_def)
  have "map (\<lambda>x. (ri_IznosRate x, ri_IznosKamate x)) ris = map (\<lambda>(R, K). (fl64 R, fl64 K)) ?plan"
    unfolding ris_def approve_input_def Let_def generisuAmortizacionuTablicu_def izracunajAnuitet_payment
    using annuity.amort_loop_cent_plan [OF a P order_refl, of 0] by (simp add: monthlyRate_def [symmetric])
  then have "map (\<lambda>(a, b). (round2 E (newFromFloat E a), round2 E (newFromFloat E b))) (map (\<lambda>x. (ri_IznosRate x, ri_IznosKamate x)) ris) =
    map (\<lambda>(R, K). (round2 E (newFromFloat E (fl64 R)), round2 E (newFromFloat E (fl64 K)))) ?plan"
    by (simp add: comp_def split_def)
  also have "\<dots> = ?plan"
  proof (rule map_idI, clarify)
    fix R K
    assume "(R, K) \<in> set ?plan"
    from annuity.cent_plan_rows [OF a P order_refl this] have c: "cents R" "cents K" "\<bar>R\<bar> < 10 ^ 13" "\<bar>K\<bar> < 10 ^ 13"
      using annuity.payment [OF a] by auto
    then show "round2 E (newFromFloat E (fl64 R)) = R \<and> round2 E (newFromFloat E (fl64 K)) = K"
      by (simp add: numerics.newFromFloat_literal [OF assms(1)] numerics.round2_id [OF assms(1)])
  qed
  finally have "map (\<lambda>x. (round2 E (newFromFloat E (ri_IznosRate x)), round2 E (newFromFloat E (ri_IznosKamate x)))) ris = ?plan"
    by (simp add: comp_def)
  moreover have "map (\<lambda>r. (rt_iznos r, rt_kamata r)) (rata_rows E kid v i ris) =
      map (\<lambda>x. (round2 E (newFromFloat E (ri_IznosRate x)), round2 E (newFromFloat E (ri_IznosKamate x)))) (map snd (enumerate 0 ris))"
    by (simp add: rata_rows_def rata_row_def comp_def split_def del: map_snd_enumerate)
  ultimately show ?thesis by (simp only: map_snd_enumerate ris_def)
qed

lemma stored_schedule_repays:
  assumes "numerics E" and "ordinary z" and rows: "rows = rata_rows E kid v i (ak_Rate (approve_input draw now z))"
    and fits: "list_all (\<lambda>r. rata_fits r s) rows"
  shows "length rows = nat (z_RokOtplate z)" "(\<Sum>r \<leftarrow> rows. rt_iznos r - rt_kamata r) = z_IznosKredita z"
    "r \<in> set rows \<Longrightarrow> 0 \<le> rt_kamata r \<and> rt_kamata r \<le> rt_iznos r"
proof -
  let ?plan = "cent_plan (monthlyRate z) (monthlyPayment z) (nat (z_RokOtplate z)) (z_IznosKredita z)"
  note a = ordinary_annuity [OF assms(2)]
  have P: "cents (z_IznosKredita z)" "0 \<le> z_IznosKredita z" using assms(2) by (auto simp: ordinary_def)
  have m: "map (\<lambda>r. (rt_iznos r, rt_kamata r)) rows = ?plan" unfolding rows by (rule stored_schedule [OF assms(1,2)])
  from arg_cong [OF m, of length] show len: "length rows = nat (z_RokOtplate z)" by (simp add: annuity.length_cent_plan [OF a])
  obtain l where l: "nat (z_RokOtplate z) = Suc l" using assms(2) by (cases "nat (z_RokOtplate z)") (auto simp: ordinary_def)
  with len have ne: "rows \<noteq> []" by auto
  then have "fst (last ?plan) = rt_iznos (last rows)" unfolding m [symmetric] by (simp add: last_map)
  moreover have "0 < rt_iznos (last rows)" using fits ne by (simp add: list_all_iff rata_fits_def)
  ultimately have "(\<Sum>(R, K) \<leftarrow> ?plan. R - K) = z_IznosKredita z"
    using annuity.cent_plan_repays [OF a P(2), of l] unfolding l by simp
  then show "(\<Sum>r \<leftarrow> rows. rt_iznos r - rt_kamata r) = z_IznosKredita z" unfolding m [symmetric] by (simp add: comp_def)
  assume "r \<in> set rows"
  then have "(rt_iznos r, rt_kamata r) \<in> set ?plan" unfolding m [symmetric] by auto
  from annuity.cent_plan_rows [OF a P order_refl this] show "0 \<le> rt_kamata r \<and> rt_kamata r \<le> rt_iznos r" by simp
qed

section \<open>Approval\<close>

lemma clock_free_zahtev_of [simp]: "clock_free (zahtev_of i)"
  by (simp add: clock_free_def zahtev_of_def fun_eq_iff)

lemmas clock_zahtev_of [simp] = clock_freeD [OF clock_free_zahtev_of]

lemma zahtev_of_SomeD: "zahtev_of i s = Some z \<Longrightarrow> z \<in> set (kreditni_zahtevi s) \<and> z_ID z = i"
  by (auto simp: zahtev_of_def find_Some_iff)

lemma ApproveCredit_InrE:
  assumes "ApproveCredit E draw i s = (Inr k, s')"
  obtains z s1 where "zahtev_of i s = Some z" "z_Status z = NA_CEKANJU" "0 < z_RokOtplate z"
    "approve_body E (approve_input draw (now_utc s) z) (begin_tx (bump s)) = (Inr k, s1)" "s' = end_tx (bump s) (bump s1)"
  using assms
  by (auto simp: ApproveCredit_def GetKreditniZahtevByID_def ApproveKreditRequest_def
      elim!: bnd_InrE in_tx_InrE dest!: query_InrD split: option.splits if_splits)

lemma approve_input_fields [simp]:
  "ak_ZahtevID (approve_input d t z) = z_ID z" "ak_BrojRacuna (approve_input d t z) = z_BrojRacuna z"
  "ak_IznosKredita (approve_input d t z) = fl64 (z_IznosKredita z)" "ak_Valuta (approve_input d t z) = z_Valuta z"
  "ak_VlasnikID (approve_input d t z) = z_VlasnikID z" "ak_PreostaloDugovanje (approve_input d t z) = fl64 (z_IznosKredita z)"
  by (simp_all add: approve_input_def Let_def)

text \<open>Everything an approval does.\<close>

lemma ApproveCredit_effect:
  assumes "numerics E" "credits_ok s" "cents_db s" and "zahtev_of i s = Some z" "z_IznosKredita z < 10 ^ 13"
    and "ApproveCredit E draw i s = (Inr k, s')"
  obtains t r rows where "z_Status z = NA_CEKANJU" "0 < z_RokOtplate z" "trezor (z_Valuta z) s = Some t"
    "List.find (\<lambda>r. broj_racuna r = z_BrojRacuna z) (racuni s) = Some r"
    "entered [(r_id t, - z_IznosKredita z), (r_id r, z_IznosKredita z)] s s'"
    "k = (approved_kredit (approve_input draw (now_utc s) z) (dayOf (now_utc s)))\<lparr>k_id := kredit_seq s\<rparr>"
    "krediti s' = krediti s @ [store_kredit E k]"
    "rows = rata_rows E (kredit_seq s) (z_Valuta z) (rata_seq s) (ak_Rate (approve_input draw (now_utc s) z))"
    "rate_kredita s' = rate_kredita s @ rows" "list_all (\<lambda>r. rata_fits r s') rows"
    "kreditni_zahtevi s' = upd_where (\<lambda>z. z_ID z = i \<and> z_Status z = NA_CEKANJU) (\<lambda>z. z\<lparr>z_Status := ZahtevODOBREN\<rparr>) (kreditni_zahtevi s)"
proof -
  from assms(6) obtain z' s1 where a: "zahtev_of i s = Some z'" "z_Status z' = NA_CEKANJU" "0 < z_RokOtplate z'"
    "approve_body E (approve_input draw (now_utc s) z') (begin_tx (bump s)) = (Inr k, s1)" "s' = end_tx (bump s) (bump s1)"
    by (rule ApproveCredit_InrE)
  with assms(4) have z: "z' = z" "z_ID z = i" using zahtev_of_SomeD [of i s z] by auto
  have P: "cents (z_IznosKredita z)" "0 < z_IznosKredita z"
    using zahtev_of_SomeD [OF assms(4)] assms(2) by (auto simp: credits_ok_def zahtevi_ok_def list_all_iff)
  have c: "cents_db (begin_tx (bump s))" using assms(3) by (simp add: cents_db_def)
  show thesis
    by (rule approve_body_InrE [OF assms(1) c P assms(5) approve_input_fields(3) a(4) [unfolded z]], rule that)
      (use a z in \<open>auto simp: trezor_def rata_fits_def intro: entered_same\<close>)
qed

text \<open>C16. The schedule stored with an approved credit repays the principal to the cent: it has one instalment per month of the
  term, the interest of each lies between nothing and the whole instalment, and what the instalments contain beside
  interest adds up to the amount of the credit, although the code computes it in \<open>float64\<close>. This holds for credits up to
  a hundred billion and terms up to 400 years; schedules that would repay the principal too early are
  refused by the database.\<close>

theorem schedule_repays_principal:
  assumes "numerics E" "credits_ok s" "cents_db s" and "zahtev_of i s = Some z"
    and "z_IznosKredita z \<le> 10 ^ 11" "z_RokOtplate z \<le> 4800" and "ApproveCredit E draw i s = (Inr k, s')"
  defines "rows \<equiv> filter (\<lambda>r. rt_kredit r = k_id k) (rate_kredita s')"
  shows "length rows = nat (z_RokOtplate z) \<and> (\<Sum>r \<leftarrow> rows. rt_iznos r - rt_kamata r) = z_IznosKredita z \<and>
    (\<forall>r \<in> set rows. 0 \<le> rt_kamata r \<and> rt_kamata r \<le> rt_iznos r \<and> rt_status r = NEPLACENO)"
proof -
  have "z_IznosKredita z < 10 ^ 13" using assms(5) by simp
  from this assms(7) obtain rs where
    e: "0 < z_RokOtplate z" "k_id k = kredit_seq s" "rate_kredita s' = rate_kredita s @ rs" "list_all (\<lambda>r. rata_fits r s') rs"
      "rs = rata_rows E (kredit_seq s) (z_Valuta z) (rata_seq s) (ak_Rate (approve_input draw (now_utc s) z))"
    by (rule ApproveCredit_effect [OF assms(1-4)]) auto
  have "ordinary z"
    using zahtev_of_SomeD [OF assms(4)] assms(2,5,6) by (auto simp: ordinary_def credits_ok_def zahtevi_ok_def list_all_iff)
  note sched = stored_schedule_repays [OF assms(1) this e(5,4)]
  have "rt_kredit r \<noteq> kredit_seq s" if "r \<in> set (rate_kredita s)" for r
    using that assms(2) by (fastforce simp: credits_ok_def krediti_ok_def rate_ok_def list_all_iff)
  then have "filter (\<lambda>r. rt_kredit r = kredit_seq s) (rate_kredita s) = []" by (simp add: filter_empty_conv)
  moreover have "\<forall>r \<in> set rs. rt_kredit r = kredit_seq s \<and> rt_status r = NEPLACENO" unfolding e(5) using rata_rows_fields(2) by blast
  ultimately have "rows = rs" "\<forall>r \<in> set rs. rt_status r = NEPLACENO" by (simp_all add: rows_def e filter_id_conv)
  with sched show ?thesis by auto
qed

text \<open>C18. Approving a request pays the credit out as one transfer: the treasury's account in the credit's currency gives the amount and
  the account named in the request receives it, every other balance is as before, and the journal shows the two entries. The
  request is marked as approved, and the credit owes its whole amount. An approval that fails changes no table.\<close>

theorem credit_payout_refines_ledger:
  assumes "numerics E" "credits_ok s" "cents_db s" and "zahtev_of i s = Some z" "z_IznosKredita z < 10 ^ 13"
  shows "case ApproveCredit E draw i s of (Inl e, s') \<Rightarrow> core s' = core s
    | (Inr k, s') \<Rightarrow> (\<exists>t r. trezor (z_Valuta z) s = Some t \<and> List.find (\<lambda>r. broj_racuna r = z_BrojRacuna z) (racuni s) = Some r \<and>
        all_ledger s' = fold post [(r_id t, - z_IznosKredita z), (r_id r, z_IznosKredita z)] (all_ledger s) \<and>
        transakcije s' = transakcije s @ [isplata (r_id t) (z_IznosKredita z), uplata (r_id r) (z_IznosKredita z)] \<and>
        zahtev_of i s' = Some (z\<lparr>z_Status := ZahtevODOBREN\<rparr>) \<and>
        (\<exists>row. krediti s' = krediti s @ [row] \<and> k_iznos row = z_IznosKredita z \<and> k_dugovanje row = z_IznosKredita z \<and>
          k_status row = ODOBREN \<and> k_racun row = z_BrojRacuna z \<and> k_vlasnik row = z_VlasnikID z \<and> k_zahtev row = Some i))"
proof (cases "ApproveCredit E draw i s")
  case (Pair res s')
  show ?thesis
  proof (cases res)
    case (Inl e)
    have "atomic core (ApproveCredit E draw i)"
      unfolding ApproveCredit_def GetKreditniZahtevByID_def ApproveKreditRequest_def
      by (intro atomic_intros keeps_intros) simp
    with Pair Inl show ?thesis by (auto dest: atomicD)
  next
    case (Inr k)
    have x: "cents (z_IznosKredita z)" "0 < z_IznosKredita z" "z_ID z = i"
      using zahtev_of_SomeD [OF assms(4)] assms(2) by (auto simp: credits_ok_def zahtevi_ok_def list_all_iff)
    then have f: "round2 E (newFromFloat E (fl64 (z_IznosKredita z))) = z_IznosKredita z"
      using assms(5) by (simp add: numerics.newFromFloat_literal [OF assms(1)] numerics.round2_id [OF assms(1)])
    from assms(5) Pair [unfolded Inr] obtain t r where
      e: "z_Status z = NA_CEKANJU" "trezor (z_Valuta z) s = Some t" "List.find (\<lambda>r. broj_racuna r = z_BrojRacuna z) (racuni s) = Some r"
        "entered [(r_id t, - z_IznosKredita z), (r_id r, z_IznosKredita z)] s s'"
        "k = (approved_kredit (approve_input draw (now_utc s) z) (dayOf (now_utc s)))\<lparr>k_id := kredit_seq s\<rparr>"
        "krediti s' = krediti s @ [store_kredit E k]"
        "kreditni_zahtevi s' = upd_where (\<lambda>z. z_ID z = i \<and> z_Status z = NA_CEKANJU) (\<lambda>z. z\<lparr>z_Status := ZahtevODOBREN\<rparr>) (kreditni_zahtevi s)"
      by (rule ApproveCredit_effect [OF assms(1-4)])
    have "zahtev_of i s' = Some (z\<lparr>z_Status := ZahtevODOBREN\<rparr>)"
      using assms(4) x(3) e(1) by (simp add: zahtev_of_def e(7) find_upd_where)
    then show ?thesis
      using e(2-6) x f by (auto simp: Pair Inr entered_def journal_def isplata_def uplata_def store_kredit_def approved_kredit_def)
  qed
qed

section \<open>A small credit\<close>

definition sample_zahtev :: KreditniZahtev where
  "sample_zahtev = \<lparr>z_ID = 1, z_VlasnikID = 7, z_VrstaKredita = ''GOTOVINSKI'', z_TipKamate = ''FIKSNI'', z_IznosKredita = 1000,
     z_Valuta = ''EUR'', z_SvrhaKredita = [], z_IznosMesecnePlate = 900, z_StatusZaposlenja = ''STALNO'', z_PeriodZaposlenja = 12,
     z_KontaktTelefon = [], z_BrojRacuna = ''A10'', z_RokOtplate = 1, z_Status = NA_CEKANJU, z_DatumPodnosenja = 0\<rparr>"

definition sample_credits :: db where
  "sample_credits = sample_db\<lparr>kreditni_zahtevi := [sample_zahtev], zahtev_seq := 2, now_utc := 946684800000000000\<rparr>"

lemma sample_ordinary: "ordinary sample_zahtev"
  by (simp add: ordinary_def sample_zahtev_def cents_def)

interpretation sample_plan: annuity "monthlyRate sample_zahtev" "monthlyPayment sample_zahtev" "z_IznosKredita sample_zahtev"
  by (rule ordinary_annuity [OF sample_ordinary])

lemma sample_credits_fields [simp]:
  "racuni sample_credits = racuni sample_db" "kreditni_zahtevi sample_credits = [sample_zahtev]" "krediti sample_credits = []"
  "rate_kredita sample_credits = []" "faults sample_credits = (\<lambda>_. False)" "\<not> tx_aborted sample_credits" "now_utc sample_credits = 946684800000000000"
  "kredit_seq sample_credits = 1" "rata_seq sample_credits = 1" "zahtev_seq sample_credits = 2" "transakcije sample_credits = []"
  by (simp_all add: sample_credits_def sample_db_def empty_db_def)

lemma sample_credits_ok: "credits_ok sample_credits" "cents_db sample_credits"
  by (simp_all add: credits_ok_def zahtevi_ok_def krediti_ok_def rate_ok_def cents_db_def sample_zahtev_def cents_def)

lemma sample_civil: "civil 10957 = (2000, 1, 1)"
  by (simp add: civil_def yearSplit.simps monthSplit.simps yearLen_def isLeap_def daysIn_def)

lemma sample_broj: "length (generateBrojKredita 946684800000000000 5) = 21"
  by (simp add: generateBrojKredita_def dayOf_def sample_civil appendInt_def)

lemma round4_sample [simp]: "round4 sample_env = pg_round 4"
  by (simp add: sample_env_def exact_env_def)

lemma pg_round_less: "\<bar>x\<bar> \<le> 900 \<Longrightarrow> \<bar>pg_round 4 (pg_round 2 x)\<bar> < 1000"
  unfolding pg_round_keeps_cents [OF pg_round2_cents, of 4, simplified] using pg_round2_error [of x] by linarith

lemma fl64_within: "\<bar>x\<bar> \<le> 800 \<Longrightarrow> \<bar>fl64 x\<bar> \<le> 900"
proof -
  assume "\<bar>x\<bar> \<le> 800"
  moreover from this have "\<bar>fl64 x - x\<bar> \<le> 800 * ulp" by (rule fl64_near) simp
  moreover have "800 * ulp \<le> 1" by simp
  ultimately show ?thesis by linarith
qed

lemma rates_fit:
  "\<bar>fl64 (fl64 (mathPow (fl64 (1 + monthlyRate z)) 12 - 1) * 100)\<bar> \<le> 900" "\<bar>fl64 (nominalnaGodisnja z * 100)\<bar> \<le> 900"
proof -
  define f where "f = mathPow (fl64 (1 + monthlyRate z)) 12"
  show "\<bar>fl64 (nominalnaGodisnja z * 100)\<bar> \<le> 900" using nominalna_bounds [of z] by (intro fl64_within) simp
  have "1002 / 1000 \<le> f" "f \<le> (1007 / 1000) ^ 12" unfolding f_def using factor_bounds(1,3) [OF monthlyRate_bounds, of 12] by simp_all
  moreover have "(1007 / 1000 :: rat) ^ 12 \<le> 2" by (simp add: power_divide)
  ultimately have f: "1 / 1000 \<le> f - 1" "f - 1 \<le> 1" by linarith+
  from fl64_le [of "f - 1"] f have "fl64 (f - 1) \<le> (f - 1) * (1 + ulp)" by simp
  also have "\<dots> \<le> 1 * 2" using f by (intro mult_mono) auto
  finally have "fl64 (f - 1) \<le> 2" by simp
  moreover have "0 \<le> fl64 (f - 1)" using f by (intro fl64_nonneg) simp
  ultimately show "\<bar>fl64 (fl64 (f - 1) * 100)\<bar> \<le> 900" by (intro fl64_within) simp
qed

lemma sample_kredit_fits:
  defines "k \<equiv> store_kredit sample_env ((approved_kredit (approve_input 5 946684800000000000 sample_zahtev) 10957)\<lparr>k_id := 1\<rparr>)"
  assumes "racuni s = racuni sample_db" "krediti s = []" "list_ex (\<lambda>z. z_ID z = 1) (kreditni_zahtevi s)"
  shows "kredit_fits k s" "k_id k = 1"
proof -
  have m: "newFromFloat sample_env (fl64 (monthlyPayment sample_zahtev)) = monthlyPayment sample_zahtev"
    "pg_round 2 (monthlyPayment sample_zahtev) = monthlyPayment sample_zahtev" "\<bar>monthlyPayment sample_zahtev\<bar> < 10 ^ 13"
    using sample_plan.payment numerics.newFromFloat_literal [OF sample_numerics] by (simp_all add: pg_round2_id)
  have P: "newFromFloat sample_env (fl64 1000) = 1000"
    by (rule numerics.newFromFloat_literal [OF sample_numerics]) (simp_all add: cents_def)
  have "izracunajAnuitet (fl64 1000) (nominalnaGodisnja sample_zahtev) 1 = fl64 (monthlyPayment sample_zahtev)"
    using izracunajAnuitet_payment [of sample_zahtev] by (simp add: sample_zahtev_def)
  moreover note rates_fit [of sample_zahtev, THEN pg_round_less, unfolded monthlyRate_def]
  ultimately show "kredit_fits k s"
    using m P assms(2-4) sample_broj
    by (simp add: k_def kredit_fits_def store_kredit_def approved_kredit_def approve_input_def Let_def sample_zahtev_def
        vrsta_check_def tip_check_def)
  show "k_id k = 1" by (simp add: k_def store_kredit_def)
qed

lemma sample_payout:
  assumes "racuni t = racuni sample_db" "no_faults t"
  shows "\<exists>t4. payout sample_env ''EUR'' ''A10'' (fl64 1000) t = (Inr (), t4) \<and> no_faults t4"
proof -
  have n: "newFromFloat sample_env (fl64 1000) = 1000"
    by (rule numerics.newFromFloat_literal [OF sample_numerics]) (simp_all add: cents_def)
  show ?thesis
    unfolding payout_def n
    by (simp add: trezorRacun_def klijentRacun_def credit_update_def query_ok update_racun_ok insert_transakcije_def stmt_ok assms prog_simps
        trezor_def fits_racun_def add_balance_def upd_where_def isplata_def uplata_def)
qed

lemma sample_approved: "\<exists>k s'. ApproveCredit sample_env 5 1 sample_credits = (Inr k, s')"
proof -
  define input where "input = approve_input 5 946684800000000000 sample_zahtev"
  define rows where "rows = rata_rows sample_env 1 ''EUR'' 1 (ak_Rate input)"
  have "map (\<lambda>r. (rt_iznos r, rt_kamata r)) rows =
      [(interest (monthlyRate sample_zahtev) 1000 + 1000, interest (monthlyRate sample_zahtev) 1000)]"
    unfolding rows_def input_def stored_schedule [OF sample_numerics sample_ordinary] by (simp add: sample_zahtev_def)
  then obtain r where r: "rows = [r]" "rt_iznos r = interest (monthlyRate sample_zahtev) 1000 + 1000"
      "rt_kamata r = interest (monthlyRate sample_zahtev) 1000" by (cases rows) auto
  have i: "0 \<le> interest (monthlyRate sample_zahtev) 1000" "interest (monthlyRate sample_zahtev) 1000 \<le> 10 ^ 11"
    using interest_nonneg [OF sample_plan.rate, of 1000] sample_plan.covers [of 1000] by (simp_all add: sample_zahtev_def cents_def)
  define b where "b = begin_tx (bump sample_credits)"
  define k where "k = (approved_kredit input 10957)\<lparr>k_id := 1\<rparr>"
  define t1 where "t1 = (bump b)\<lparr>kreditni_zahtevi := [sample_zahtev\<lparr>z_Status := ZahtevODOBREN\<rparr>]\<rparr>"
  define t2 where "t2 = (bump t1)\<lparr>krediti := [store_kredit sample_env k], kredit_seq := 2\<rparr>"
  define t3 where "t3 = (bump t2)\<lparr>rate_kredita := rows, rata_seq := 2\<rparr>"
  note t = t1_def t2_def t3_def b_def
  have z: "z_ID sample_zahtev = 1" "z_Status sample_zahtev = NA_CEKANJU" "z_RokOtplate sample_zahtev = 1" "z_Valuta sample_zahtev = ''EUR''"
    "z_BrojRacuna sample_zahtev = ''A10''" "z_IznosKredita sample_zahtev = 1000" by (simp_all add: sample_zahtev_def)
  have f: "no_faults t1" "no_faults t2" "no_faults t3" "kredit_seq t1 = 1" "krediti t1 = []" "rata_seq t2 = 1" "rate_kredita t2 = []"
    "racuni t3 = racuni sample_db" "now_utc t1 = 946684800000000000" by (simp_all add: t)
  have 1: "set_zahtev_status 1 (\<lambda>z. z_Status z = NA_CEKANJU) ZahtevODOBREN b = (Inr 1, t1)"
    by (simp add: set_zahtev_status_def stmt_ok t upd_where_def z)
  have "kredit_fits (store_kredit sample_env k) (bump t1)"
    unfolding k_def input_def by (rule sample_kredit_fits) (simp_all add: t z)
  then have 2: "insert_kredit sample_env (approved_kredit input 10957) t1 = (Inr k, t2)"
    by (simp add: insert_kredit_def stmt_ok f Let_def t2_def k_def)
  have "rt_kredit r = 1 \<and> rt_valuta r = ''EUR''" using rata_rows_fields(2) [of r sample_env 1 "''EUR''" 1 "ak_Rate input"] r(1) by (simp add: rows_def)
  then have "list_all (\<lambda>r. rata_fits r (bump t2)) rows"
    using i by (simp add: r rata_fits_def t2_def k_def store_kredit_def)
  moreover have "length (ak_Rate input) = 1" using arg_cong [OF r(1), of length] by (simp add: rows_def)
  ultimately have 3: "insert_rate sample_env 1 ''EUR'' (ak_Rate input) t2 = (Inr (), t3)"
    by (auto simp: insert_rate_def stmt_ok f Let_def t3_def rows_def)
  from sample_payout [OF f(8,3)]
  obtain t4 where 4: "payout sample_env ''EUR'' ''A10'' (fl64 1000) t3 = (Inr (), t4)" "no_faults t4" by blast
  have "approve_body sample_env input b = (Inr k, t4)"
    using 1 2 3 4(1) f by (simp add: approve_body_def bnd_def input_def dayOf_def z k_def)
  then show ?thesis
    using 4(2) by (simp add: ApproveCredit_def GetKreditniZahtevByID_def ApproveKreditRequest_def bnd_def query_ok zahtev_of_def z in_tx_def
        b_def input_def)
qed

text \<open>A credit of 1000 over one month.\<close>

lemma schedule_repays_principal_witness:
  "\<exists>k s'. ApproveCredit sample_env 5 1 sample_credits = (Inr k, s') \<and>
    (\<Sum>r \<leftarrow> filter (\<lambda>r. rt_kredit r = k_id k) (rate_kredita s'). rt_iznos r - rt_kamata r) = 1000"
proof -
  obtain k s' where a: "ApproveCredit sample_env 5 1 sample_credits = (Inr k, s')" using sample_approved by blast
  have z: "zahtev_of 1 sample_credits = Some sample_zahtev" by (simp add: zahtev_of_def sample_zahtev_def)
  from schedule_repays_principal [OF sample_numerics sample_credits_ok z _ _ a] a show ?thesis
    by (auto simp: sample_zahtev_def)
qed

lemma credit_payout_refines_ledger_witness:
  "\<exists>k s'. ApproveCredit sample_env 5 1 sample_credits = (Inr k, s') \<and> all_ledger s' 10 = Some 2000 \<and> all_ledger s' 20 = Some 4000"
proof -
  obtain k s' where a: "ApproveCredit sample_env 5 1 sample_credits = (Inr k, s')" using sample_approved by blast
  have z: "zahtev_of 1 sample_credits = Some sample_zahtev" by (simp add: zahtev_of_def sample_zahtev_def)
  have "all_ledger sample_credits 10 = Some 1000" "all_ledger sample_credits 20 = Some 5000"
    by (simp_all add: all_ledger_def racun_of_def)
  with credit_payout_refines_ledger [OF sample_numerics sample_credits_ok z, of 5] a show ?thesis
    by (auto simp: sample_zahtev_def trezor_def post_def)
qed

end
