(* ===== verification/Credit_Collection.thy ===== *)
theory Credit_Collection
  imports Credit_Approval
begin

text \<open>
  The collection of instalments. What an instalment is (its amount, its credit, the account it is charged to) never
  changes, so the money that collections move can be read off the instalments that are paid: the \<open>position\<close> of an
  account, its balance with the paid instalments taken back, is the same before and after any collection.
\<close>

section \<open>Positions\<close>

definition rate_keys :: "db \<Rightarrow> (int \<times> int \<times> decimal \<times> string) list" where
  "rate_keys s = map (\<lambda>r. (rt_id r, rt_kredit r, rt_iznos r, rt_valuta r)) (rate_kredita s)"

definition kredit_keys :: "db \<Rightarrow> (int \<times> string) list" where
  "kredit_keys s = map (\<lambda>k. (k_id k, k_racun k)) (krediti s)"

text \<open>The account a credit is charged to, and the treasury's account that receives an instalment.\<close>

definition charged_account :: "db \<Rightarrow> int \<Rightarrow> int option" where
  "charged_account s kid = (case map_of (kredit_keys s) kid of None \<Rightarrow> None
     | Some b \<Rightarrow> map_option r_id (List.find (\<lambda>r. broj_racuna r = b) (racuni s)))"

definition treasury_account :: "db \<Rightarrow> string \<Rightarrow> int option" where
  "treasury_account s c = map_option r_id (trezor c s)"

definition paid_sum :: "(rata \<Rightarrow> int option) \<Rightarrow> int \<Rightarrow> rata list \<Rightarrow> decimal" where
  "paid_sum f i rs = (\<Sum>r \<leftarrow> rs. if rt_status r = PLACENO \<and> f r = Some i then rt_iznos r else 0)"

definition position :: "db \<Rightarrow> int \<Rightarrow> decimal" where
  "position s i = (case all_ledger s i of None \<Rightarrow> 0 | Some b \<Rightarrow> b)
     + paid_sum (\<lambda>r. charged_account s (rt_kredit r)) i (rate_kredita s)
     - paid_sum (\<lambda>r. treasury_account s (rt_valuta r)) i (rate_kredita s)"

definition paid :: "db \<Rightarrow> int set" where
  "paid s = rt_id ` {r \<in> set (rate_kredita s). rt_status r = PLACENO}"

text \<open>Accounts are found by columns that never change.\<close>

lemma find_map_key: "List.find P (map f xs) = map_option f (List.find (P \<circ> f) xs)"
  by (induction xs) auto

lemma treasury_by_keys:
  assumes "racun_keys s' = racun_keys s"
  shows "treasury_account s' = treasury_account s"
proof -
  have "treasury_account s c = map_option fst (List.find (\<lambda>(_, _, v, cur, _, st). v = 2 \<and> cur = c \<and> st = ''AKTIVAN'') (racun_keys s))" for c s
    by (simp add: treasury_account_def trezor_def racun_keys_def find_map_key comp_def option.map_comp)
  then show ?thesis using assms by (simp add: fun_eq_iff)
qed

lemma charged_by_keys:
  assumes "racun_keys s' = racun_keys s" and "kredit_keys s' = kredit_keys s"
  shows "charged_account s' = charged_account s"
proof -
  have "map_option r_id (List.find (\<lambda>r. broj_racuna r = b) (racuni s)) = map_option fst (List.find (\<lambda>k. fst (snd k) = b) (racun_keys s))" for b s
    by (simp add: racun_keys_def find_map_key comp_def option.map_comp)
  then show ?thesis by (simp only: charged_account_def fun_eq_iff assms) simp
qed

lemma paid_sum_upd:
  assumes "distinct (map rt_id rs)" and "List.find (\<lambda>r. rt_id r = j) rs = Some row"
    and g: "\<And>r. rt_iznos (g r) = rt_iznos r" "\<And>r. f (g r) = f r"
  shows "paid_sum f i (upd_where (\<lambda>r. rt_id r = j) g rs) =
    paid_sum f i rs - (if rt_status row = PLACENO \<and> f row = Some i then rt_iznos row else 0)
      + (if rt_status (g row) = PLACENO \<and> f row = Some i then rt_iznos row else 0)"
proof -
  have "upd_where (\<lambda>r. rt_id r = j) g rs = upd_where (\<lambda>r. rt_id r = j) (\<lambda>_. g row) rs"
    using find_unique [OF assms(1)] assms(2) by (auto simp: upd_where_def)
  then show ?thesis
    unfolding paid_sum_def using sum_upd_where [OF assms(1,2), where r' = "g row" and g = "\<lambda>r. if rt_status r = PLACENO \<and> f r = Some i then rt_iznos r else 0"] g
    by simp
qed

section \<open>Charging one instalment\<close>

definition collections :: "db \<Rightarrow> (kredit list \<times> KreditniZahtev list \<times> rata list) \<times> int" where
  "collections s = (credit_tables s, now_utc s)"

lemma keeps_collect: "keeps collections (collect E i c x)"
  unfolding collect_def trezorRacun_def credit_update_def
  by (intro keeps_intros keeps_update_racun keeps_insert_transakcije; simp add: collections_def credit_tables_def clock_free_def)

lemma collect_entered:
  assumes "numerics E" and "cents_db s" "cents x" "0 < x" and "collect E i c x s = (Inr u, s')"
  shows "\<exists>j. treasury_account s c = Some j \<and> entered [(i, - x), (j, x)] s s'"
proof -
  from assms(5) obtain j t1 t2 t3 t4 where st: "credit_update E i (- x) s = (Inr (), t1)" "insert_transakcije E [isplata i x] t1 = (Inr (), t2)"
    "trezorRacun c t2 = (Inr j, t3)" "credit_update E j x t3 = (Inr (), t4)" "insert_transakcije E [uplata j x] t4 = (Inr (), s')"
    unfolding collect_def by (auto elim!: bnd_InrE)
  have e1: "entered [(i, - x)] s t2"
    by (rule numerics.entered_posting [OF assms(1,2) _ _ st(1)]) (use assms(3,4) st(2) in simp_all)
  from trezorRacun_InrD [OF st(3)] obtain t where t: "trezor c t2 = Some t" "r_id t = j" "t3 = bump t2" by blast
  have e2: "entered [(j, x)] t3 s'"
    by (rule numerics.entered_posting [OF assms(1) _ _ _ st(4)]) (use assms(3,4) st(5) e1 t(3) in \<open>simp_all add: entered_def cents_db_def\<close>)
  have "entered [(i, - x), (j, x)] s s'" using entered_trans [OF e1 entered_same [OF e2]] t(3) by simp
  moreover have "treasury_account t2 c = Some j" using t by (simp add: treasury_account_def)
  ultimately show ?thesis using treasury_by_keys [of t2 s] e1 by (auto simp: entered_def)
qed

text \<open>An input for the payment of an instalment, as the worker and the approving handler build it from the tables.\<close>

definition input_ok :: "db \<Rightarrow> ProcessInstallmentInput \<Rightarrow> bool" where
  "input_ok s input \<longleftrightarrow> (\<exists>x. (pp_RataID input, pp_KreditID input, x, pp_Valuta input) \<in> set (rate_keys s) \<and>
     pp_IznosRate input = fl64 x) \<and> map_of (kredit_keys s) (pp_KreditID input) = Some (pp_BrojRacuna input)"

lemma installment_body_InrE:
  assumes "numerics E" and "cents_db s" "cents x" "0 < x" "x < 10 ^ 13" "pp_IznosRate input = fl64 x" and "installment_body E input s = (Inr u, s')"
  obtains row r j where "rata_of (pp_RataID input) s = Some row" "rt_status row \<noteq> PLACENO"
    "List.find (\<lambda>r. broj_racuna r = pp_BrojRacuna input) (racuni s) = Some r" "treasury_account s (pp_Valuta input) = Some j"
    "entered [(r_id r, - x), (j, x)] s s'"
    "rate_kredita s' = upd_where (\<lambda>r. rt_id r = pp_RataID input) (paid_rata (utcDate E (dayOf (now_utc s)))) (rate_kredita s)"
    "kredit_keys s' = kredit_keys s"
proof -
  have n: "newFromFloat E (fl64 x) = x" using assms(3-5) by (intro numerics.newFromFloat_literal [OF assms(1)]) auto
  from assms(7) obtain row r t1 t2 d where st: "rata_of (pp_RataID input) s = Some row" "rt_status row \<noteq> PLACENO"
    "List.find (\<lambda>r. broj_racuna r = pp_BrojRacuna input) (racuni s) = Some r"
    "collect E (r_id r) (pp_Valuta input) x (bump (bump s)) = (Inr (), t1)"
    "update_rata (pp_RataID input) (paid_rata (utcDate E (dayOf (now_utc s)))) t1 = (Inr (), t2)"
    "update_kredit (\<lambda>k. k_id k = pp_KreditID input) (after_payment E x d) (bump t2) = (Inr (), s')"
    unfolding installment_body_def assms(6) n
    by (auto simp: rata_of_def elim!: bnd_InrE dest!: query_InrD split: option.splits if_splits)
  have "cents_db (bump (bump s))" using assms(2) by (simp add: cents_db_def)
  from collect_entered [OF assms(1) this assms(3,4) st(4)] obtain j where
    j: "treasury_account (bump (bump s)) (pp_Valuta input) = Some j" "entered [(r_id r, - x), (j, x)] (bump (bump s)) t1" by blast
  have c: "krediti t1 = krediti s" "rate_kredita t1 = rate_kredita s"
    using keepsD [OF keeps_collect st(4)] by (auto simp: collections_def credit_tables_def)
  have u: "t2 = (bump t1)\<lparr>rate_kredita := upd_where (\<lambda>r. rt_id r = pp_RataID input) (paid_rata (utcDate E (dayOf (now_utc s)))) (rate_kredita s)\<rparr>"
    "s' = (bump (bump t2))\<lparr>krediti := upd_where (\<lambda>k. k_id k = pp_KreditID input) (after_payment E x d) (krediti t2)\<rparr>"
    using stmt_InrD [OF st(5) [unfolded update_rata_def]] stmt_InrD [OF st(6) [unfolded update_kredit_def]] c by (auto split: if_splits)
  show thesis
  proof (rule that)
    show "entered [(r_id r, - x), (j, x)] s s'" using entered_same [OF j(2), of s s'] u by simp
    have "map (\<lambda>k. (k_id k, k_racun k)) (upd_where P (after_payment E x d) ks) = map (\<lambda>k. (k_id k, k_racun k)) ks" for P ks
      by (rule map_upd_where) (simp add: after_payment_def split: option.split)
    then show "kredit_keys s' = kredit_keys s" using u c by (simp add: kredit_keys_def)
    show "treasury_account s (pp_Valuta input) = Some j" using j(1) by (simp add: treasury_account_def trezor_def)
  qed (use st u in simp_all)
qed

section \<open>Collections keep positions\<close>

definition sound :: "db \<Rightarrow> bool" where
  "sound s \<longleftrightarrow> cents_db s \<and> distinct (map fst (rate_keys s)) \<and>
     list_all (\<lambda>(_, _, x, _). cents x \<and> 0 < x \<and> x < 10 ^ 13) (rate_keys s)"

definition collects :: "db \<Rightarrow> db \<Rightarrow> bool" where
  "collects s s' \<longleftrightarrow> racun_keys s' = racun_keys s \<and> rate_keys s' = rate_keys s \<and> kredit_keys s' = kredit_keys s \<and> cents_db s' \<and>
     position s' = position s \<and> paid s \<subseteq> paid s'"

lemma sound_of_tables: "credits_ok s \<Longrightarrow> cents_db s \<Longrightarrow> sound s"
  by (auto simp: sound_def credits_ok_def rate_ok_def rate_keys_def list_all_iff comp_def)

lemma collects_sound: "collects s s' \<Longrightarrow> sound s \<Longrightarrow> sound s'"
  by (simp add: collects_def sound_def)

lemma collects_input: "collects s s' \<Longrightarrow> input_ok s input \<Longrightarrow> input_ok s' input"
  by (simp add: collects_def input_ok_def)

lemma collects_cents: "collects s s' \<Longrightarrow> cents_db s'"
  by (simp add: collects_def)

lemma collects_trans: "collects s t \<Longrightarrow> collects t u \<Longrightarrow> collects s u"
  by (auto simp: collects_def)

lemma collects_core: "core s' = core s \<Longrightarrow> cents_db s \<Longrightarrow> collects s s'"
  using charged_by_keys [of s' s] treasury_by_keys [of s' s]
  by (auto simp: collects_def core_def racun_keys_def rate_keys_def kredit_keys_def cents_db_def position_def paid_def fun_eq_iff
      all_ledger_def racun_of_def)

lemma paid_upd:
  assumes "rate_kredita s' = upd_where P g (rate_kredita s)" and "\<And>r. rt_id (g r) = rt_id r"
    and "\<And>r. r \<in> set (rate_kredita s) \<Longrightarrow> P r \<Longrightarrow> rt_status r = PLACENO \<Longrightarrow> rt_status (g r) = PLACENO"
  shows "paid s \<subseteq> paid s'"
proof
  fix j
  assume "j \<in> paid s"
  then obtain r where r: "r \<in> set (rate_kredita s)" "rt_status r = PLACENO" "j = rt_id r" by (auto simp: paid_def)
  let ?r = "if P r then g r else r"
  have "?r \<in> set (rate_kredita s')" "rt_status ?r = PLACENO" "rt_id ?r = j" using r assms by (auto simp: upd_where_def)
  then show "j \<in> paid s'" unfolding paid_def by blast
qed

lemma balance_post:
  "B a \<noteq> None \<Longrightarrow> (case post (a, d) B i of None \<Rightarrow> 0 | Some b \<Rightarrow> b) =
     (case B i of None \<Rightarrow> 0 | Some b \<Rightarrow> b) + (if i = a then d else (0 :: rat))"
  by (auto simp: post_def)

lemma all_ledger_known: "r \<in> set (racuni s) \<Longrightarrow> all_ledger s (r_id r) \<noteq> None"
  by (auto simp: all_ledger_def racun_of_def find_None_iff)

lemma rata_of_keys:
  assumes "distinct (map fst (rate_keys s))" and "rata_of j s = Some row" and "(j, k, x, c) \<in> set (rate_keys s)"
  shows "rt_kredit row = k" "rt_iznos row = x" "rt_valuta row = c"
proof -
  have d: "distinct (map rt_id (rate_kredita s))" using assms(1) by (simp add: rate_keys_def comp_def)
  from assms(3) obtain r where r: "r \<in> set (rate_kredita s)" "rt_id r = j" "rt_kredit r = k" "rt_iznos r = x" "rt_valuta r = c"
    by (auto simp: rate_keys_def)
  from find_unique [OF d r(1)] r(2) assms(2) have "row = r" by (simp add: rata_of_def)
  with r show "rt_kredit row = k" "rt_iznos row = x" "rt_valuta row = c" by simp_all
qed

lemma paid_instalment_collects:
  assumes "numerics E" "sound s" "input_ok s input" and "installment_body E input s = (Inr u, s')"
  shows "collects s s'"
proof -
  from assms(3) obtain x where x: "(pp_RataID input, pp_KreditID input, x, pp_Valuta input) \<in> set (rate_keys s)" "pp_IznosRate input = fl64 x"
    and acc: "map_of (kredit_keys s) (pp_KreditID input) = Some (pp_BrojRacuna input)" by (auto simp: input_ok_def)
  have c: "cents x" "0 < x" "x < 10 ^ 13" "cents_db s" and d: "distinct (map fst (rate_keys s))"
    using assms(2) x(1) by (auto simp: sound_def list_all_iff)
  from installment_body_InrE [OF assms(1) c(4,1-3) x(2) assms(4)] obtain row r j where
    e: "rata_of (pp_RataID input) s = Some row" "rt_status row \<noteq> PLACENO"
      "List.find (\<lambda>r. broj_racuna r = pp_BrojRacuna input) (racuni s) = Some r" "treasury_account s (pp_Valuta input) = Some j"
      "entered [(r_id r, - x), (j, x)] s s'" "kredit_keys s' = kredit_keys s"
      "rate_kredita s' = upd_where (\<lambda>r. rt_id r = pp_RataID input) (paid_rata (utcDate E (dayOf (now_utc s)))) (rate_kredita s)" by metis
  note row = rata_of_keys [OF d e(1) x(1)]
  have d': "distinct (map rt_id (rate_kredita s))" using d by (simp add: rate_keys_def comp_def)
  have keys: "racun_keys s' = racun_keys s" "rate_keys s' = rate_keys s"
    using e(5,7) by (auto simp: entered_def rate_keys_def paid_rata_def intro!: map_upd_where)
  have sum: "paid_sum f i (rate_kredita s') = paid_sum f i (rate_kredita s) + (if f row = Some i then x else 0)"
    if "\<And>r t. f (paid_rata t r) = f r" for f i
    unfolding e(7) using paid_sum_upd [OF d' e(1) [unfolded rata_of_def], where g = "paid_rata (utcDate E (dayOf (now_utc s)))" and f = f and i = i] that e(2) row
    by (simp add: paid_rata_def)
  have "charged_account s (rt_kredit row) = Some (r_id r)" "treasury_account s (rt_valuta row) = Some j"
    using row acc e(3,4) by (simp_all add: charged_account_def)
  moreover have "all_ledger s (r_id r) \<noteq> None" "all_ledger s j \<noteq> None"
    using find_key_SomeD [OF e(3)] e(4) all_ledger_known by (auto simp: treasury_account_def dest!: trezor_find)
  moreover from this have "post (r_id r, - x) (all_ledger s) j \<noteq> None" by (simp add: post_def)
  ultimately have "position s' i = position s i" for i
    using e(5) sum [of "\<lambda>r. charged_account s (rt_kredit r)" i] sum [of "\<lambda>r. treasury_account s (rt_valuta r)" i]
    unfolding position_def charged_by_keys [OF keys(1) e(6)] treasury_by_keys [OF keys(1)] entered_def
    by (simp add: paid_rata_def balance_post)
  then have "position s' = position s" by (simp add: fun_eq_iff)
  moreover have "paid s \<subseteq> paid s'" by (rule paid_upd [OF e(7)]) (simp_all add: paid_rata_def)
  ultimately show ?thesis using keys e(5,6) by (simp add: collects_def entered_def)
qed

section \<open>The worker\<close>

lemma stmt_Inl: "stmt f s = (Inl e, s') \<Longrightarrow> e = DBError"
  by (auto simp: stmt_def split: if_splits option.splits)

lemma collect_Inl: "collect E i c x s = (Inl e, s') \<Longrightarrow> e \<noteq> ErrPaymentFunds"
  by (auto simp: collect_def credit_update_def update_racun_def insert_transakcije_def trezorRacun_def query_def
      elim!: bnd_InlE dest!: stmt_Inl split: option.splits if_splits)

text \<open>A payment refused for lack of funds left the tables alone, and its instalment is not paid.\<close>

lemma refused_for_funds:
  assumes "ProcessInstallmentPayment E input s = (Inl ErrPaymentFunds, s')"
  shows "core s' = core s \<and> (\<exists>row. rata_of (pp_RataID input) s = Some row \<and> rt_status row \<noteq> PLACENO)"
proof
  show "core s' = core s" using assms unfolding ProcessInstallmentPayment_def by (rule in_tx_Inl)
  from assms obtain s1 where "installment_body E input (begin_tx s) = (Inl ErrPaymentFunds, s1)"
    by (auto simp: ProcessInstallmentPayment_def in_tx_def split: prod.splits sum.splits if_splits)
  then show "\<exists>row. rata_of (pp_RataID input) s = Some row \<and> rt_status row \<noteq> PLACENO"
    unfolding installment_body_def
    by (auto simp: query_def update_rata_def update_kredit_def rata_of_def elim!: bnd_InlE
        dest!: stmt_Inl collect_Inl stmt_InrD split: option.splits if_splits)
qed

lemma payment_collects:
  assumes "numerics E" "sound s" "input_ok s input" and "ProcessInstallmentPayment E input s = (res, s')"
  shows "collects s s'"
proof (cases res)
  case (Inl e)
  with assms(4) have "core s' = core s" unfolding ProcessInstallmentPayment_def by (auto intro: in_tx_Inl)
  then show ?thesis by (rule collects_core) (use assms(2) in \<open>simp add: sound_def\<close>)
next
  case (Inr u)
  with assms(4) obtain s1 where b: "installment_body E input (begin_tx s) = (Inr u, s1)" "s' = end_tx s (bump s1)"
    unfolding ProcessInstallmentPayment_def by (auto elim: in_tx_InrE)
  have same: "collects s (begin_tx s)" "cents_db (begin_tx s)" using assms(2) by (auto intro: collects_core simp: sound_def cents_db_def)
  then have "collects (begin_tx s) s1"
    using assms(1-3) b(1) by (intro paid_instalment_collects [OF _ _ _ b(1)]) (auto intro: collects_sound collects_input)
  moreover from this have "collects s1 s'" unfolding b(2) by (intro collects_core) (simp_all add: collects_def)
  ultimately show ?thesis using same(1) by (blast intro: collects_trans)
qed

lemma marked_collects:
  assumes "sound s" "rata_of j s = Some row" "rt_status row \<noteq> PLACENO"
  shows "collects s (snd (MarkInstallmentFailed E j t s))"
proof -
  let ?g = "\<lambda>r. r\<lparr>rt_status := KASNI, rt_pokusaja := rt_pokusaja r + 1, rt_sledeci := Some (storeTime E t)\<rparr>"
  define s' where "s' = (bump s)\<lparr>rate_kredita := upd_where (\<lambda>r. rt_id r = j) ?g (rate_kredita s)\<rparr>"
  have d: "distinct (map rt_id (rate_kredita s))" and c: "cents_db s" using assms(1) by (simp_all add: sound_def rate_keys_def comp_def)
  have keys: "racun_keys s' = racun_keys s" "kredit_keys s' = kredit_keys s" "rate_keys s' = rate_keys s" "all_ledger s' = all_ledger s"
    by (auto simp: s'_def racun_keys_def kredit_keys_def rate_keys_def all_ledger_def racun_of_def fun_eq_iff intro!: map_upd_where)
  have "paid_sum f i (rate_kredita s') = paid_sum f i (rate_kredita s)" if "\<And>r. f (?g r) = f r" for f i
    using paid_sum_upd [OF d assms(2) [unfolded rata_of_def], where g = ?g and f = f and i = i] that assms(3) by (simp add: s'_def)
  then have "position s' = position s"
    by (simp add: position_def fun_eq_iff charged_by_keys [OF keys(1,2)] treasury_by_keys [OF keys(1)] keys(4))
  moreover have "rt_id r \<noteq> j" if "r \<in> set (rate_kredita s)" "rt_status r = PLACENO" for r
    using find_unique [OF d that(1)] that(2) assms(2,3) by (auto simp: rata_of_def)
  then have "paid s \<subseteq> paid s'" by (intro paid_upd [of s' "\<lambda>r. rt_id r = j" ?g s]) (auto simp: s'_def)
  ultimately have "collects s s'" using keys c by (simp add: collects_def s'_def cents_db_def)
  moreover have "collects s (failed s)" using c by (intro collects_core) simp_all
  ultimately show ?thesis by (auto simp: MarkInstallmentFailed_def update_rata_def stmt_def s'_def)
qed

lemma clock_free_collects: "cents_db s0 \<Longrightarrow> clock_free (collects s0)"
  unfolding clock_free_def
proof (intro allI)
  fix s :: db and t b a
  let ?s = "s\<lparr>tick := t, tx_open := b, tx_aborted := a\<rparr>"
  have c: "core ?s = core s" by (simp add: core_def)
  have "cents_db ?s = cents_db s" by (simp add: cents_db_def)
  then show "collects s0 ?s = collects s0 s"
    using collects_core [of ?s s] collects_core [of s ?s] c collects_trans by (auto simp: collects_def)
qed

lemma penalty_collects:
  assumes "cents_db s0"
  shows "preserves (collects s0) (ApplyLatePaymentPenalty E i x)"
proof -
  have "preserves (collects s0) (update_kredit P f)" if f: "\<And>k. k_id (f k) = k_id k \<and> k_racun (f k) = k_racun k" for P f
    unfolding update_kredit_def
  proof (rule preserves_stmt [OF clock_free_collects [OF assms]])
    fix s a s'
    assume s: "collects s0 s" and "(if list_all (\<lambda>k. P k \<longrightarrow> \<bar>k_dugovanje (f k)\<bar> < 10 ^ 13 \<and> \<bar>k_nominalna (f k)\<bar> < 1000) (krediti s)
        then Some ((), s\<lparr>krediti := upd_where P f (krediti s)\<rparr>) else None) = Some (a, s')"
    then have s': "s' = s\<lparr>krediti := upd_where P f (krediti s)\<rparr>" by (auto split: if_splits)
    have keys: "racun_keys s' = racun_keys s" "kredit_keys s' = kredit_keys s"
      unfolding s' racun_keys_def kredit_keys_def using f by (auto intro!: map_upd_where)
    have "collects s s'"
      using s keys charged_by_keys [OF keys] treasury_by_keys [OF keys(1)] unfolding collects_def position_def paid_def
      by (simp add: s' rate_keys_def cents_db_def all_ledger_def racun_of_def)
    with s show "collects s0 s'" by (rule collects_trans)
  qed
  then have "preserves (collects s0) (bnd (update_kredit (\<lambda>k. k_id k = i) (\<lambda>k. k\<lparr>k_nominalna := round4 E (k_nominalna k + newFromFloat E x)\<rparr>)) (\<lambda>_.
      update_kredit (\<lambda>k. k_id k = i \<and> k_status k = ODOBREN) (\<lambda>k. k\<lparr>k_status := U_KASNJENJU\<rparr>)))"
    by (intro preserves_intros) simp_all
  then show ?thesis
    unfolding ApplyLatePaymentPenalty_def
    by (rule preserves_in_tx [OF _ clock_free_collects [OF assms]]) (blast intro: collects_trans collects_core rollback_core_fields(1) dest: collects_cents)
qed

lemma attempt_collects:
  assumes "numerics E" "sound s0" "input_ok s0 (due_input due)"
  shows "preserves (collects s0) (attemptPayment E w b due)"
  unfolding preserves_def
proof (intro allI impI)
  fix s
  assume s: "collects s0 s"
  obtain res s1 where p: "ProcessInstallmentPayment E (due_input due) s = (res, s1)" by force
  have "collects s s1" by (rule payment_collects [OF assms(1) _ _ p]) (use s assms in \<open>auto intro: collects_sound collects_input\<close>)
  with s have s1: "collects s0 s1" by (rule collects_trans)
  have "collects s0 (snd (handleFirstFailure E w due s1))" if f: "res = Inl ErrPaymentFunds"
  proof -
    from refused_for_funds [OF p [unfolded f]] obtain row where "rata_of (di_RataID due) s1 = Some row" "rt_status row \<noteq> PLACENO"
      by (auto simp: core_def rata_of_def due_input_def)
    from marked_collects [OF collects_sound [OF s1 assms(2)] this, of E "now_utc s1 + retryAfter w"] s1 show ?thesis
      by (auto simp: handleFirstFailure_def bnd_def ignore_def split_beta intro: collects_trans)
  qed
  moreover have "collects s0 (snd (handleSecondFailure E w due s1))"
    using penalty_collects [of s0 E "di_KreditID due" "penaltyPct w"] s1 assms(2)
    by (auto simp: sound_def preserves_def handleSecondFailure_def ignore_def split_beta)
  ultimately show "collects s0 (snd (attemptPayment E w b due s))"
    using s1 p by (auto simp: attemptPayment_def bnd_def attempt_def split: sum.split prod.split)
qed

lemma attempt_all_collects:
  assumes "numerics E" "sound s0" and "\<And>d. d \<in> set ds \<Longrightarrow> input_ok s0 (due_input d)"
  shows "preserves (collects s0) (attempt_all (attemptPayment E w b) m n ds)"
  using assms(3) by (induction ds arbitrary: m n) (auto intro!: preserves_intros attempt_collects [OF assms(1,2)])

text \<open>What the worker reads from the tables are instalments with their credits.\<close>

lemma joined_ok:
  assumes "set rs \<subseteq> set (rate_kredita s)" "distinct (map k_id (krediti s))" and "d \<in> set (join_krediti rs s)"
  shows "input_ok s (due_input d)"
proof -
  from assms(1,3) obtain r k where d: "d = due_row r k" "r \<in> set (rate_kredita s)" "k \<in> set (krediti s)" "k_id k = rt_kredit r"
    by (auto simp: join_krediti_def)
  then have "map_of (kredit_keys s) (rt_kredit r) = Some (k_racun k)"
    using assms(2) by (intro map_of_is_SomeI) (force simp: kredit_keys_def comp_def)+
  then show ?thesis using d by (auto simp: input_ok_def due_input_def due_row_def rate_keys_def)
qed

lemma join_bump [simp]: "join_krediti rs (bump s) = join_krediti rs s"
  by (simp add: join_krediti_def)

lemma dues_ok:
  assumes "distinct (map k_id (krediti s))"
  shows "GetDueInstallments E t s = (Inr ds, s') \<Longrightarrow> d \<in> set ds \<Longrightarrow> input_ok s (due_input d)"
    "GetRetryInstallments E t s = (Inr ds, s') \<Longrightarrow> d \<in> set ds \<Longrightarrow> input_ok s (due_input d)"
  unfolding GetDueInstallments_def GetRetryInstallments_def
  by (auto dest!: query_InrD) (rule joined_ok [OF _ assms, rotated], assumption, auto)+

lemma phase_collects:
  assumes "numerics E" "sound s0" "distinct (map k_id (krediti s0))" and "collects s0 s"
  shows "collects s0 (snd (processFirstAttempts E w t s))" "collects s0 (snd (processRetryAttempts E w t s))"
proof -
  have "map fst (kredit_keys s) = map fst (kredit_keys s0)" using assms(4) by (simp add: collects_def)
  with assms(3) have d: "distinct (map k_id (krediti s))" by (simp add: kredit_keys_def comp_def)
  note sound = collects_sound [OF assms(4,2)]
  have run: "collects s (snd (bnd (attempt m) (\<lambda>r. case r of Inl _ \<Rightarrow> ret (0, 0) | Inr ds \<Rightarrow> attempt_all (attemptPayment E w b) 0 0 ds) s))"
    if m: "keeps core m" and ok: "\<And>ds s' d. m s = (Inr ds, s') \<Longrightarrow> d \<in> set ds \<Longrightarrow> input_ok s (due_input d)" for m b
  proof (cases "m s")
    case (Pair res s1)
    then have s1: "collects s s1" using keepsD [OF m] sound by (intro collects_core) (auto simp: sound_def)
    show ?thesis
    proof (cases res)
      case (Inl e)
      with Pair s1 show ?thesis by (simp add: bnd_def attempt_def)
    next
      case (Inr ds)
      with ok Pair have "preserves (collects s) (attempt_all (attemptPayment E w b) 0 0 ds)"
        by (intro attempt_all_collects [OF assms(1) sound]) blast
      with s1 Pair Inr show ?thesis by (simp add: bnd_def attempt_def preserves_def)
    qed
  qed
  have k: "keeps core (GetDueInstallments E t)" "keeps core (GetRetryInstallments E t)"
    unfolding GetDueInstallments_def GetRetryInstallments_def by (intro keeps_intros)+
  show "collects s0 (snd (processFirstAttempts E w t s))"
    unfolding processFirstAttempts_def by (rule collects_trans [OF assms(4) run [OF k(1) dues_ok(1) [OF d]]])
  show "collects s0 (snd (processRetryAttempts E w t s))"
    unfolding processRetryAttempts_def by (rule collects_trans [OF assms(4) run [OF k(2) dues_ok(2) [OF d]]])
qed

lemma daily_job_collects:
  assumes "numerics E" "sound s" "distinct (map k_id (krediti s))"
  shows "collects s (snd (runDailyJob E w s))"
proof -
  have "collects s s" using assms(2) by (intro collects_core) (simp_all add: sound_def)
  note 1 = phase_collects(1) [OF assms this, of w "now_utc s"]
  have "\<exists>c. processFirstAttempts E w t u = (Inr c, snd (processFirstAttempts E w t u))" for t u
  proof -
    have total: "\<exists>c v. attempt_all (attemptPayment E w b) m n ds u = (Inr c, v)" for m n ds u b
    proof (induction ds arbitrary: m n u)
      case (Cons d ds)
      have "\<exists>x v. attemptPayment E w b d u = (Inr x, v)"
        by (auto simp: attemptPayment_def handleFirstFailure_def handleSecondFailure_def bnd_def attempt_def ignore_def split_beta prog_simps
            split: sum.splits)
      with Cons.IH show ?case by (auto simp: bnd_def)
    qed (simp add: prog_simps)
    show ?thesis unfolding processFirstAttempts_def bnd_def attempt_def using total
      by (auto simp: split_beta prog_simps split: sum.splits) (metis fst_conv prod.collapse snd_conv)
  qed
  then obtain c where "processFirstAttempts E w (now_utc s) s = (Inr c, snd (processFirstAttempts E w (now_utc s) s))" by blast
  with phase_collects(2) [OF assms 1, of w "now_utc s"] show ?thesis
    by (auto simp: runDailyJob_def bnd_def prog_simps split: prod.splits sum.splits)
qed

text \<open>C17. A run of the daily collection charges each instalment at most once and for its own amount. Whatever fails on the way,
  an instalment that is paid stays paid, and on every account the balance moves by exactly the instalments that became paid:
  down by those of the credits that are charged to it, up by those in its currency when it is the treasury's account.
\<close>

theorem instalments_charged_once:
  assumes "numerics E" and "credits_ok s" and "cents_db s"
  shows "paid s \<subseteq> paid (snd (runDailyJob E w s)) \<and> position (snd (runDailyJob E w s)) = position s"
proof -
  have "distinct (map k_id (krediti s))" using assms(2) by (simp add: credits_ok_def krediti_ok_def)
  from daily_job_collects [OF assms(1) sound_of_tables [OF assms(2,3)] this, of w] show ?thesis by (simp add: collects_def)
qed

text \<open>A credit with one instalment of 100 that is due.\<close>

definition sample_kredit :: kredit where
  "sample_kredit = \<lparr>k_id = 1, k_broj = ''K1'', k_zahtev = Some 1, k_racun = ''A10'', k_vlasnik = 7, k_vrsta = ''GOTOVINSKI'',
     k_tip = ''FIKSNI'', k_iznos = 200, k_period = 2, k_nominalna = 8, k_efektivna = 8, k_ugovaranja = 0, k_isplate = Some 0,
     k_mesecna_rata = 100, k_sledeca_rata = Some 10957, k_dugovanje = 200, k_valuta = ''EUR'', k_status = ODOBREN\<rparr>"

definition sample_rata :: "int \<Rightarrow> RataStatus \<Rightarrow> rata" where
  "sample_rata i st = \<lparr>rt_id = i, rt_kredit = 1, rt_iznos = 100, rt_kamata = 1, rt_valuta = ''EUR'', rt_dospece = 10957,
     rt_placena = None, rt_status = st, rt_pokusaja = 0, rt_sledeci = None\<rparr>"

definition sample_due :: db where
  "sample_due = sample_credits\<lparr>krediti := [sample_kredit], kredit_seq := 2, rate_kredita := [sample_rata 1 NEPLACENO], rata_seq := 2\<rparr>"

lemma instalments_charged_once_witness:
  "position sample_due 10 = 1000 \<and> (let s' = snd (runDailyJob sample_env \<lparr>retryAfter = 1, penaltyPct = 0\<rparr> sample_due) in
     position s' 10 = 1000 \<and> position s' 20 = 5000)"
proof -
  have ok: "credits_ok sample_due" "cents_db sample_due"
    using sample_credits_ok by (simp_all add: sample_due_def sample_rata_def sample_kredit_def credits_ok_def krediti_ok_def rate_ok_def
        cents_db_def cents_def)
  have "position sample_due 10 = 1000" "position sample_due 20 = 5000"
    by (simp_all add: position_def paid_sum_def all_ledger_def racun_of_def sample_due_def sample_rata_def)
  with instalments_charged_once [OF sample_numerics ok, of "\<lparr>retryAfter = 1, penaltyPct = 0\<rparr>"] show ?thesis
    by (simp add: Let_def)
qed

section \<open>The tables over time\<close>



section \<open>Late credits\<close>

text \<open>
  The worker reads the instalments of credits in status \<open>ODOBREN\<close> only, so once a credit is late (\<open>U_KASNJENJU\<close>), none of
  its instalments is collected again.
\<close>

lemma late_credit_not_collected:
  assumes "list_all (\<lambda>k. k_id k = i \<longrightarrow> k_status k = U_KASNJENJU) (krediti s)" and "d \<in> set (join_krediti rs s)"
  shows "di_KreditID d \<noteq> i"
  using assms by (auto simp: join_krediti_def due_row_def list_all_iff)

text \<open>
  A credit is closed as soon as no instalment is in status \<open>NEPLACENO\<close>: here one of 100 is still open after a failed attempt
  (\<open>KASNI\<close>) when the other is paid, and the whole debt is written off.
\<close>

lemma closed_with_open_instalment:
  defines "s \<equiv> sample_due\<lparr>rate_kredita := [sample_rata 1 KASNI, sample_rata 2 PLACENO]\<rparr>"
  shows "nextDue 1 s = None" "k_status (after_payment E 100 (nextDue 1 s) sample_kredit) = OTPLACEN"
    "k_dugovanje (after_payment E 100 (nextDue 1 s) sample_kredit) = 0"
  by (simp_all add: s_def nextDue_def sample_rata_def after_payment_def)

end
