(* ===== verification/Cards.thy ===== *)
theory Cards
  imports Accounts Credits Go_Crypto
begin

text \<open>
  Payment cards (\<open>service/kartica_service.go\<close>, \<open>repository/kartica_repository.go\<close>, \<open>domain/kartica.go\<close>,
  \<open>transport/redis_client.go\<close>): generated card numbers, cards issued by employees, requests of clients that are confirmed
  with a code sent by e-mail, and changes of a card's status.

  Pending requests are kept in Redis, the table \<open>card_requests\<close> here: owner, state and the moment it expires. What
  \<open>crypto/rand\<close> draws is an argument. Whether an e-mail could be sent is the field \<open>sendCardOTP\<close> of the service.
\<close>

section \<open>Card numbers\<close>

definition iinVisa :: string where "iinVisa = ''466666''"

definition iinMastercard :: string where "iinMastercard = ''512345''"

definition iinDinaCard :: string where "iinDinaCard = ''989100''"

definition iinAmex :: string where "iinAmex = ''341234''"

definition maxKarticeLicni :: nat where "maxKarticeLicni = 2"

definition maxOTPAttempts :: int where "maxOTPAttempts = 3"

text \<open>The loop runs from the last digit to the first; \<open>posFromRight\<close> counts from 1.\<close>

primrec luhn_loop :: "nat \<Rightarrow> int \<Rightarrow> int list \<Rightarrow> int" where
  "luhn_loop posFromRight acc [] = acc"
| "luhn_loop posFromRight acc (d # ds) = luhn_loop (posFromRight + 1)
     (acc + (if odd posFromRight then if d * 2 > 9 then d * 2 - 9 else d * 2 else d)) ds"

definition luhnCheckDigit :: "int list \<Rightarrow> int" where
  "luhnCheckDigit ds = (10 - luhn_loop 1 0 (rev ds) mod 10) mod 10"

definition iin_of :: "string \<Rightarrow> string \<times> nat" where
  "iin_of tipKartice = (if tipKartice = ''MASTERCARD'' then (iinMastercard, 9)
     else if tipKartice = ''DINACARD'' then (iinDinaCard, 9)
     else if tipKartice = ''AMEX'' then (iinAmex, 8)
     else (iinVisa, 9))"

definition generateBrojKartice :: "string \<Rightarrow> nat \<Rightarrow> string" where
  "generateBrojKartice tipKartice n = (let (iin, accountLen) = iin_of tipKartice;
       partial = iin @ appendInt (int n) accountLen;
       check = luhnCheckDigit (map (\<lambda>c. int (of_char c) - 48) partial)
     in partial @ FormatInt check)"

definition generateCVV :: "nat \<Rightarrow> string" where
  "generateCVV n = appendInt (int n) 3"

definition generateOTP :: "nat \<Rightarrow> string" where
  "generateOTP n = appendInt (int n) 6"

definition hashCVV :: "string \<Rightarrow> string \<Rightarrow> string" where
  "hashCVV cvv pepper = EncodeToString (hmac_sha256 (map of_char pepper) (map of_char cvv))"

section \<open>The repository\<close>

record RacunInfo =
  rf_VrstaRacuna :: string
  rf_MesecniLimit :: float64
  rf_ValutaOznaka :: string

definition GetRacunInfo :: "int \<Rightarrow> RacunInfo dbp" where
  "GetRacunInfo racunID = bnd (query (\<lambda>s. racun_of s racunID)) (\<lambda>row. case row of
     None \<Rightarrow> fail (Errorf ''record not found'')
   | Some r \<Rightarrow> ret \<lparr>rf_VrstaRacuna = vrsta_racuna r,
       rf_MesecniLimit = (case mesecni_limit r of None \<Rightarrow> 0 | Some x \<Rightarrow> fl64 x), rf_ValutaOznaka = valuta_oznaka r\<rparr>)"

record RacunVlasnikInfo =
  rv_VlasnikID :: int
  rv_VrstaRacuna :: string
  rv_Status :: string
  rv_MesecniLimit :: float64

definition GetRacunVlasnikInfo :: "int \<Rightarrow> RacunVlasnikInfo dbp" where
  "GetRacunVlasnikInfo racunID = bnd (query (\<lambda>s. racun_of s racunID)) (\<lambda>row. case row of
     None \<Rightarrow> fail (Errorf ''record not found'')
   | Some r \<Rightarrow> ret \<lparr>rv_VlasnikID = id_vlasnika r, rv_VrstaRacuna = vrsta_racuna r, rv_Status = r_status r,
       rv_MesecniLimit = (case mesecni_limit r of None \<Rightarrow> 0 | Some x \<Rightarrow> fl64 x)\<rparr>)"

record CreateKarticaInput =
  ck_RacunID :: int
  ck_BrojKartice :: string
  ck_TipKartice :: string
  ck_VrstaKartice :: string
  ck_CvvKodHash :: string
  ck_DatumKreiranja :: int
  ck_DatumIsteka :: int
  ck_LimitKartice :: float64
  ck_Status :: KarticaStatus
  ck_ProvizijaProcenat :: "float64 option"
  ck_KonverzijaNaknadaProcenat :: "float64 option"

definition kartica_row :: "env \<Rightarrow> CreateKarticaInput \<Rightarrow> int \<Rightarrow> kartica" where
  "kartica_row E input i = \<lparr>kt_id = i, kt_broj = ck_BrojKartice input, kt_tip = ck_TipKartice input, kt_vrsta = ck_VrstaKartice input,
     kt_kreirana = storeTime E (ck_DatumKreiranja input), kt_istice = utcDate E (ck_DatumIsteka input), kt_racun = ck_RacunID input,
     kt_cvv = ck_CvvKodHash input, kt_limit = round2 E (newFromFloat E (ck_LimitKartice input)), kt_status = ck_Status input,
     kt_provizija = map_option (\<lambda>x. round4 E (newFromFloat E x)) (ck_ProvizijaProcenat input),
     kt_konverzija = map_option (\<lambda>x. round4 E (newFromFloat E x)) (ck_KonverzijaNaknadaProcenat input)\<rparr>"

definition fee_fits :: "decimal option \<Rightarrow> bool" where
  "fee_fits p \<longleftrightarrow> (case p of None \<Rightarrow> True | Some x \<Rightarrow> \<bar>x\<bar> < 10)"

definition kartica_fits :: "kartica \<Rightarrow> db \<Rightarrow> bool" where
  "kartica_fits k s \<longleftrightarrow> length (kt_broj k) \<le> 16 \<and> \<not> list_ex (\<lambda>x. kt_broj x = kt_broj k) (kartice s) \<and>
     (kt_vrsta k = ''DEBIT'' \<or> kt_vrsta k = ''CREDIT'') \<and>
     List.member [''VISA'', ''MASTERCARD'', ''DINACARD'', ''AMEX''] (kt_tip k) \<and>
     list_ex (\<lambda>r. r_id r = kt_racun k) (racuni s) \<and> length (kt_cvv k) \<le> 64 \<and> \<bar>kt_limit k\<bar> < 10 ^ 13 \<and>
     fee_fits (kt_provizija k) \<and> fee_fits (kt_konverzija k)"

definition CreateKartica :: "env \<Rightarrow> CreateKarticaInput \<Rightarrow> int dbp" where
  "CreateKartica E input = stmt (\<lambda>s. let k = kartica_row E input (kartica_seq s) in
     if kartica_fits k s
     then Some (kartica_seq s, s\<lparr>kartice := kartice s @ [k], kartica_seq := kartica_seq s + 1\<rparr>) else None)"

definition lice_fits :: "OvlascenoLiceInput \<Rightarrow> bool" where
  "lice_fits ol \<longleftrightarrow> length (ol_Ime ol) \<le> 100 \<and> length (ol_Prezime ol) \<le> 100 \<and> length (ol_Pol ol) \<le> 20 \<and>
     length (ol_EmailAdresa ol) \<le> 255 \<and> length (ol_BrojTelefona ol) \<le> 30 \<and> length (ol_Adresa ol) \<le> 255"

definition insert_lice :: "int \<Rightarrow> OvlascenoLiceInput \<Rightarrow> unit dbp" where
  "insert_lice karticaID ol = stmt (\<lambda>s. if lice_fits ol \<and> list_ex (\<lambda>k. kt_id k = karticaID) (kartice s)
     then Some ((), s\<lparr>ovlascena_lica := ovlascena_lica s @ [(karticaID, ol)]\<rparr>) else None)"

definition CreateKarticaSaOvlascenoLicem :: "env \<Rightarrow> CreateKarticaInput \<Rightarrow> OvlascenoLiceInput \<Rightarrow> int dbp" where
  "CreateKarticaSaOvlascenoLicem E karticaInput olInput = in_tx (
     bnd (CreateKartica E karticaInput) (\<lambda>karticaID.
     bnd (insert_lice karticaID olInput) (\<lambda>_. ret karticaID)))"

definition CountKarticeZaRacun :: "int \<Rightarrow> nat dbp" where
  "CountKarticeZaRacun racunID = query (\<lambda>s. length (filter (\<lambda>k. kt_racun k = racunID) (kartice s)))"

text \<open>The owner's cards are those without an authorised person.\<close>

definition vlasnikove :: "int \<Rightarrow> db \<Rightarrow> kartica list" where
  "vlasnikove racunID s = filter (\<lambda>k. kt_racun k = racunID \<and> \<not> list_ex (\<lambda>(i, _). i = kt_id k) (ovlascena_lica s)) (kartice s)"

definition HasVlasnikovaKarticaPostoji :: "int \<Rightarrow> bool dbp" where
  "HasVlasnikovaKarticaPostoji racunID = query (\<lambda>s. length (vlasnikove racunID s) > 0)"

definition HasOvlascenoLiceKarticu :: "string \<Rightarrow> bool dbp" where
  "HasOvlascenoLiceKarticu emailAdresa = query (\<lambda>s.
     length (filter (\<lambda>(_, ol). ol_EmailAdresa ol = emailAdresa) (ovlascena_lica s)) > 0)"

text \<open>Rows of the lists for clients and employees.\<close>

record KarticaSaRacunom =
  ks_ID :: int
  ks_BrojKartice :: string
  ks_TipKartice :: string
  ks_VrstaKartice :: string
  ks_DatumKreiranja :: int
  ks_DatumIsteka :: int
  ks_RacunID :: int
  ks_LimitKartice :: float64
  ks_Status :: KarticaStatus
  ks_NazivRacuna :: string
  ks_BrojRacuna :: string

definition kartica_view :: "kartica \<Rightarrow> racun \<Rightarrow> KarticaSaRacunom" where
  "kartica_view k r = \<lparr>ks_ID = kt_id k, ks_BrojKartice = kt_broj k, ks_TipKartice = kt_tip k, ks_VrstaKartice = kt_vrsta k,
     ks_DatumKreiranja = kt_kreirana k, ks_DatumIsteka = kt_istice k, ks_RacunID = kt_racun k, ks_LimitKartice = fl64 (kt_limit k),
     ks_Status = kt_status k, ks_NazivRacuna = naziv_racuna r, ks_BrojRacuna = broj_racuna r\<rparr>"

definition join_racuni :: "(racun \<Rightarrow> bool) \<Rightarrow> db \<Rightarrow> (kartica \<times> racun) list" where
  "join_racuni P s = concat (map (\<lambda>k. map (Pair k) (filter (\<lambda>r. r_id r = kt_racun k \<and> P r) (racuni s))) (kartice s))"

definition GetKarticeKorisnika :: "int \<Rightarrow> KarticaSaRacunom list dbp" where
  "GetKarticeKorisnika korisnikID = query (\<lambda>s. map (\<lambda>(k, r). kartica_view k r)
     (sort_key (\<lambda>(k, r). r_id r) (sort_key (\<lambda>(k, r). kt_id k) (join_racuni (\<lambda>r. id_vlasnika r = korisnikID) s))))"

record KarticaEmployeeRow =
  ke_ID :: int
  ke_BrojKartice :: string
  ke_Status :: KarticaStatus
  ke_VlasnikID :: int

definition GetKarticeZaRacunBroj :: "string \<Rightarrow> KarticaEmployeeRow list dbp" where
  "GetKarticeZaRacunBroj brojRacuna = query (\<lambda>s. map (\<lambda>(k, r). \<lparr>ke_ID = kt_id k, ke_BrojKartice = kt_broj k,
     ke_Status = kt_status k, ke_VlasnikID = id_vlasnika r\<rparr>) (join_racuni (\<lambda>r. broj_racuna r = brojRacuna) s))"

record KarticaOwnerInfo =
  ko_Status :: KarticaStatus
  ko_VlasnikID :: int

definition GetKarticaOwnerInfo :: "int \<Rightarrow> KarticaOwnerInfo dbp" where
  "GetKarticaOwnerInfo karticaID = bnd (query (\<lambda>s. filter (\<lambda>(k, r). kt_id k = karticaID) (join_racuni (\<lambda>_. True) s))) (\<lambda>rows.
     case rows of [] \<Rightarrow> fail ErrKarticaNotFound
     | (k, r) # _ \<Rightarrow> ret \<lparr>ko_Status = kt_status k, ko_VlasnikID = id_vlasnika r\<rparr>)"

definition karticaStatus_of :: "string \<Rightarrow> KarticaStatus option" where
  "karticaStatus_of t = map_of [(''AKTIVNA'', AKTIVNA), (''BLOKIRANA'', BLOKIRANA), (''DEAKTIVIRANA'', DEAKTIVIRANA)] t"

definition SetKarticaStatus :: "int \<Rightarrow> string \<Rightarrow> unit dbp" where
  "SetKarticaStatus karticaID noviStatus = bnd (stmt (\<lambda>s. let n = length (filter (\<lambda>k. kt_id k = karticaID) (kartice s)) in
       case karticaStatus_of noviStatus of
         None \<Rightarrow> if n = 0 then Some (n, s) else None
       | Some st \<Rightarrow> Some (n, s\<lparr>kartice := upd_where (\<lambda>k. kt_id k = karticaID) (\<lambda>k. k\<lparr>kt_status := st\<rparr>) (kartice s)\<rparr>))) (\<lambda>n.
     if n = 0 then fail ErrKarticaNotFound else ret ())"

record KarticaZaStatusChange =
  kc_ID :: int
  kc_TrenutniStatus :: KarticaStatus
  kc_VlasnikID :: int
  kc_VrstaRacuna :: string
  kc_OvlascenoLice :: "(string \<times> string \<times> string) option"

definition status_change_row :: "db \<Rightarrow> kartica \<times> racun \<Rightarrow> KarticaZaStatusChange" where
  "status_change_row s = (\<lambda>(k, r). \<lparr>kc_ID = kt_id k, kc_TrenutniStatus = kt_status k, kc_VlasnikID = id_vlasnika r,
     kc_VrstaRacuna = vrsta_racuna r, kc_OvlascenoLice = map_option (\<lambda>(_, ol). (ol_Ime ol, ol_Prezime ol, ol_EmailAdresa ol))
       (List.find (\<lambda>(i, _). i = kt_id k) (ovlascena_lica s))\<rparr>)"

definition GetKarticaZaStatusChange :: "string \<Rightarrow> KarticaZaStatusChange dbp" where
  "GetKarticaZaStatusChange brojKartice = bnd (query (\<lambda>s. map (status_change_row s)
       (filter (\<lambda>(k, r). kt_broj k = brojKartice) (join_racuni (\<lambda>_. True) s)))) (\<lambda>rows.
     case rows of [] \<Rightarrow> fail ErrKarticaNotFound
     | row # _ \<Rightarrow> if kc_ID row = 0 then fail ErrKarticaNotFound else ret row)"

section \<open>Pending requests in Redis\<close>

definition SaveCardRequest :: "int \<Rightarrow> CardRequestState \<Rightarrow> int \<Rightarrow> unit dbp" where
  "SaveCardRequest ownerID state ttl = stmt_root (\<lambda>s.
     Some ((), s\<lparr>card_requests := (ownerID, state, now_utc s + ttl) # filter (\<lambda>(i, _). i \<noteq> ownerID) (card_requests s)\<rparr>))"

definition live_request :: "int \<Rightarrow> db \<Rightarrow> CardRequestState option" where
  "live_request ownerID s = map_option (\<lambda>(_, st, _). st)
     (List.find (\<lambda>(i, _, expires). i = ownerID \<and> now_utc s < expires) (card_requests s))"

definition GetCardRequest :: "int \<Rightarrow> CardRequestState dbp" where
  "GetCardRequest ownerID = bnd (stmt_root (\<lambda>s. Some (live_request ownerID s, s))) (\<lambda>r. case r of
     None \<Rightarrow> fail ErrCardRequestNotFound | Some st \<Rightarrow> ret st)"

definition DeleteCardRequest :: "int \<Rightarrow> unit dbp" where
  "DeleteCardRequest ownerID = stmt_root (\<lambda>s. Some ((), s\<lparr>card_requests := filter (\<lambda>(i, _). i \<noteq> ownerID) (card_requests s)\<rparr>))"

section \<open>The service\<close>

record karticaService =
  pepper :: string
  sendCardOTP :: "string \<Rightarrow> string \<Rightarrow> bool"

record karticaGeneratedData =
  kg_BrojKartice :: string
  kg_CvvKodHash :: string
  kg_LimitKartice :: float64
  kg_ProvizijaProcenat :: "float64 option"
  kg_KonverzijaNaknadaProcenat :: "float64 option"

text \<open>The draws are those for the number and for the code on the card's back.\<close>

definition generateKarticaData :: "karticaService \<Rightarrow> nat \<times> nat \<Rightarrow> RacunInfo \<Rightarrow> string \<Rightarrow> karticaGeneratedData" where
  "generateKarticaData K draws racunInfo tipKartice =
     (let mc = (tipKartice = ''MASTERCARD'' \<and> rf_ValutaOznaka racunInfo = ''RSD'') in
      \<lparr>kg_BrojKartice = generateBrojKartice tipKartice (fst draws),
       kg_CvvKodHash = hashCVV (generateCVV (snd draws)) (pepper K),
       kg_LimitKartice = (if rf_MesecniLimit racunInfo \<le> 0 then 1000000 else rf_MesecniLimit racunInfo),
       kg_ProvizijaProcenat = (if mc then Some (fl64 (2 / 100)) else None),
       kg_KonverzijaNaknadaProcenat = (if mc then Some (fl64 (5 / 1000)) else None)\<rparr>)"

definition kartica_input :: "int \<Rightarrow> string \<Rightarrow> karticaGeneratedData \<Rightarrow> int \<Rightarrow> CreateKarticaInput" where
  "kartica_input racunID tipKartice data now = \<lparr>ck_RacunID = racunID, ck_BrojKartice = kg_BrojKartice data,
     ck_TipKartice = tipKartice, ck_VrstaKartice = ''DEBIT'', ck_CvvKodHash = kg_CvvKodHash data, ck_DatumKreiranja = now,
     ck_DatumIsteka = AddDate (dayOf now) 5 0, ck_LimitKartice = kg_LimitKartice data, ck_Status = AKTIVNA,
     ck_ProvizijaProcenat = kg_ProvizijaProcenat data, ck_KonverzijaNaknadaProcenat = kg_KonverzijaNaknadaProcenat data\<rparr>"

definition provera_licni :: "int \<Rightarrow> unit dbp" where
  "provera_licni racunID = bnd (CountKarticeZaRacun racunID) (\<lambda>count.
     if count \<ge> maxKarticeLicni then fail ErrKarticaLimitPremasen else ret ())"

definition provera_vlasnik :: "int \<Rightarrow> unit dbp" where
  "provera_vlasnik racunID = bnd (HasVlasnikovaKarticaPostoji racunID) (\<lambda>exists.
     if exists then fail ErrKarticaLimitPremasen else ret ())"

definition proveraLimita :: "int \<Rightarrow> string \<Rightarrow> unit dbp" where
  "proveraLimita racunID vrstaRacuna = (if vrstaRacuna = ''LICNI'' then provera_licni racunID
     else if vrstaRacuna = ''POSLOVNI'' then provera_vlasnik racunID else ret ())"

definition proveraLimitaFlow2 :: "int \<Rightarrow> string \<Rightarrow> OvlascenoLiceInput option \<Rightarrow> unit dbp" where
  "proveraLimitaFlow2 racunID vrstaRacuna ovlascenoLice = (if vrstaRacuna = ''LICNI'' then provera_licni racunID
     else if vrstaRacuna = ''POSLOVNI'' then (case ovlascenoLice of
         None \<Rightarrow> provera_vlasnik racunID
       | Some ol \<Rightarrow> bnd (HasOvlascenoLiceKarticu (ol_EmailAdresa ol)) (\<lambda>exists.
           if exists then fail ErrKarticaVecPostoji else ret ()))
     else ret ())"

definition CreateKarticaZaVlasnika :: "env \<Rightarrow> karticaService \<Rightarrow> nat \<times> nat \<Rightarrow> int \<Rightarrow> string \<Rightarrow> int dbp" where
  "CreateKarticaZaVlasnika E K draws racunID tipKartice = bnd (GetRacunInfo racunID) (\<lambda>racunInfo.
     if \<not> List.member [''VISA'', ''MASTERCARD'', ''DINACARD'', ''AMEX''] tipKartice then fail ErrNepoznatTipKartice
     else if tipKartice = ''DINACARD'' \<and> rf_ValutaOznaka racunInfo \<noteq> ''RSD'' then fail ErrDinaCardSamoRSD
     else bnd (proveraLimita racunID (rf_VrstaRacuna racunInfo)) (\<lambda>_.
       bnd (gets now_utc) (\<lambda>now.
         CreateKartica E (kartica_input racunID tipKartice (generateKarticaData K draws racunInfo tipKartice) now))))"

definition validateOvlascenoLice :: "OvlascenoLiceInput \<Rightarrow> err option" where
  "validateOvlascenoLice ol = (if ol_Ime ol = [] \<or> ol_Prezime ol = [] \<or> ol_EmailAdresa ol = [] then Some ErrOvlascenoLiceMissingData
     else if \<not> List.member (ol_EmailAdresa ol) (CHR ''@'') \<or> \<not> List.member (ol_EmailAdresa ol) (CHR ''.'') then Some ErrInvalidEmailFormat
     else None)"

record RequestKarticaInput =
  rk_RacunID :: int
  rk_VlasnikID :: int
  rk_VlasnikEmail :: string
  rk_TipKartice :: string
  rk_OvlascenoLice :: "OvlascenoLiceInput option"

definition otpTTL :: int where
  "otpTTL = 5 * 60 * 10 ^ 9"

definition request_state :: "RequestKarticaInput \<Rightarrow> string \<Rightarrow> CardRequestState" where
  "request_state input otpCode = \<lparr>cq_AccountID = rk_RacunID input, cq_TipKartice = rk_TipKartice input,
     cq_OvlascenoLice = rk_OvlascenoLice input, cq_OTPCode = otpCode, cq_Attempts = 0\<rparr>"

definition RequestKartica :: "karticaService \<Rightarrow> nat \<Rightarrow> RequestKarticaInput \<Rightarrow> unit dbp" where
  "RequestKartica K draw input = bnd (GetRacunVlasnikInfo (rk_RacunID input)) (\<lambda>racunInfo.
     if rv_VlasnikID racunInfo \<noteq> rk_VlasnikID input then fail ErrRacunNijeTvoj
     else if rv_Status racunInfo \<noteq> ''AKTIVAN'' then fail ErrRacunNijeAktivan
     else if rv_VrstaRacuna racunInfo = ''LICNI'' \<and> rk_OvlascenoLice input \<noteq> None then fail ErrOvlascenoLiceNijeDozvoljeno
     else case Option.bind (rk_OvlascenoLice input) validateOvlascenoLice of
       Some e \<Rightarrow> fail e
     | None \<Rightarrow>
       bnd (proveraLimitaFlow2 (rk_RacunID input) (rv_VrstaRacuna racunInfo) (rk_OvlascenoLice input)) (\<lambda>_.
       bnd (SaveCardRequest (rk_VlasnikID input) (request_state input (generateOTP draw)) otpTTL) (\<lambda>_.
       if \<not> sendCardOTP K (rk_VlasnikEmail input) (generateOTP draw)
       then bnd (ignore (DeleteCardRequest (rk_VlasnikID input))) (\<lambda>_. fail ErrNotificationFailed)
       else ret ())))"

text \<open>A wrong code is counted in the stored request, the third one cancels it.\<close>

definition wrong_code :: "int \<Rightarrow> CardRequestState \<Rightarrow> int dbp" where
  "wrong_code vlasnikID state0 = (let state = state0\<lparr>cq_Attempts := cq_Attempts state0 + 1\<rparr> in
     if cq_Attempts state \<ge> maxOTPAttempts
     then bnd (ignore (DeleteCardRequest vlasnikID)) (\<lambda>_. fail ErrOTPMaxAttempts)
     else bnd (ignore (SaveCardRequest vlasnikID state otpTTL)) (\<lambda>_. fail ErrOTPInvalid))"

definition issue_card :: "env \<Rightarrow> karticaService \<Rightarrow> nat \<times> nat \<Rightarrow> CardRequestState \<Rightarrow> int dbp" where
  "issue_card E K draws state = bnd (GetRacunInfo (cq_AccountID state)) (\<lambda>racunInfo.
     bnd (proveraLimitaFlow2 (cq_AccountID state) (rf_VrstaRacuna racunInfo) (cq_OvlascenoLice state)) (\<lambda>_.
     bnd (gets now_utc) (\<lambda>now.
       let karticaInput = kartica_input (cq_AccountID state) (cq_TipKartice state)
             (generateKarticaData K draws racunInfo (cq_TipKartice state)) now in
       case cq_OvlascenoLice state of
         Some ol \<Rightarrow> CreateKarticaSaOvlascenoLicem E karticaInput ol
       | None \<Rightarrow> CreateKartica E karticaInput)))"

definition ConfirmKartica :: "env \<Rightarrow> karticaService \<Rightarrow> nat \<times> nat \<Rightarrow> int \<Rightarrow> string \<Rightarrow> int dbp" where
  "ConfirmKartica E K draws vlasnikID otpCode = bnd (GetCardRequest vlasnikID) (\<lambda>state.
     if cq_OTPCode state \<noteq> otpCode then wrong_code vlasnikID state
     else bnd (issue_card E K draws state) (\<lambda>karticaID.
       bnd (ignore (DeleteCardRequest vlasnikID)) (\<lambda>_. ret karticaID)))"

definition ChangeEmployeeCardStatus :: "string \<Rightarrow> string \<Rightarrow> KarticaZaStatusChange dbp" where
  "ChangeEmployeeCardStatus brojKartice noviStatus = bnd (GetKarticaZaStatusChange brojKartice) (\<lambda>kartica.
     case (case kc_TrenutniStatus kartica of
         DEAKTIVIRANA \<Rightarrow> Some ErrNedozvoljenaPromenaSatusa
       | AKTIVNA \<Rightarrow> if noviStatus = ''AKTIVNA'' then Some ErrKarticaVecAktivna
           else if noviStatus \<noteq> ''BLOKIRANA'' \<and> noviStatus \<noteq> ''DEAKTIVIRANA'' then Some ErrNedozvoljenaPromenaSatusa else None
       | BLOKIRANA \<Rightarrow> if noviStatus = ''BLOKIRANA'' then Some ErrKarticaVecBlokirana
           else if noviStatus \<noteq> ''AKTIVNA'' \<and> noviStatus \<noteq> ''DEAKTIVIRANA'' then Some ErrNedozvoljenaPromenaSatusa else None) of
       Some e \<Rightarrow> fail e
     | None \<Rightarrow> bnd (SetKarticaStatus (kc_ID kartica) noviStatus) (\<lambda>_. ret kartica))"

definition BlokirajKarticu :: "int \<Rightarrow> int \<Rightarrow> unit dbp" where
  "BlokirajKarticu karticaID korisnikID = bnd (GetKarticaOwnerInfo karticaID) (\<lambda>info.
     if ko_VlasnikID info \<noteq> korisnikID then fail ErrKarticaNijeTvoja
     else case ko_Status info of
       AKTIVNA \<Rightarrow> SetKarticaStatus karticaID ''BLOKIRANA''
     | BLOKIRANA \<Rightarrow> fail ErrKarticaVecBlokirana
     | DEAKTIVIRANA \<Rightarrow> fail ErrKarticaDeaktivirana)"

end
