(* ===== verification/Card_Limits.thy ===== *)
theory Card_Limits
  imports Card_Properties
begin

text \<open>
  The limits on cards as an invariant of everything that clients and employees do with cards: a personal account has at
  most two cards, a business account at most one card of its owner, a person is authorised on at most one card, cards are
  never removed or moved, and deactivation is final.
\<close>

section \<open>The invariant\<close>

text \<open>Kind and owner of an account. Nothing in the service changes them.\<close>

definition kinds :: "db \<Rightarrow> int \<Rightarrow> (string \<times> int) option" where
  "kinds s i = map_option (\<lambda>r. (vrsta_racuna r, id_vlasnika r)) (racun_of s i)"

definition personal :: "db \<Rightarrow> int \<Rightarrow> bool" where
  "personal s i \<longleftrightarrow> map_option fst (kinds s i) = Some ''LICNI''"

definition business :: "db \<Rightarrow> int \<Rightarrow> bool" where
  "business s i \<longleftrightarrow> map_option fst (kinds s i) = Some ''POSLOVNI''"

definition cards_of :: "int \<Rightarrow> db \<Rightarrow> kartica list" where
  "cards_of i s = filter (\<lambda>k. kt_racun k = i) (kartice s)"

definition emails :: "db \<Rightarrow> string list" where
  "emails s = map (\<lambda>(_, ol). ol_EmailAdresa ol) (ovlascena_lica s)"

definition keys_ok :: "db \<Rightarrow> bool" where
  "keys_ok s \<longleftrightarrow> distinct (map kt_id (kartice s)) \<and> distinct (map kt_broj (kartice s)) \<and>
     list_all (\<lambda>k. kt_id k < kartica_seq s \<and> kinds s (kt_racun k) \<noteq> None) (kartice s) \<and>
     fst ` set (ovlascena_lica s) \<subseteq> kt_id ` set (kartice s) \<and> (\<forall>i. kinds s i = None \<or> personal s i \<or> business s i)"

definition limits_ok :: "db \<Rightarrow> bool" where
  "limits_ok s \<longleftrightarrow> (\<forall>i. personal s i \<longrightarrow> length (cards_of i s) \<le> maxKarticeLicni) \<and>
     (\<forall>i. business s i \<longrightarrow> length (vlasnikove i s) \<le> 1) \<and> distinct (emails s)"

text \<open>Pending requests are for accounts of their owner, and only business accounts have authorised persons.\<close>

definition request_ok :: "db \<Rightarrow> int \<Rightarrow> CardRequestState \<Rightarrow> bool" where
  "request_ok s owner st \<longleftrightarrow> map_option snd (kinds s (cq_AccountID st)) = Some owner \<and>
     (cq_OvlascenoLice st = None \<or> business s (cq_AccountID st))"

definition requests_ok :: "db \<Rightarrow> bool" where
  "requests_ok s \<longleftrightarrow> list_all (\<lambda>(owner, st, _). request_ok s owner st) (card_requests s)"

definition cards_ok :: "db \<Rightarrow> bool" where
  "cards_ok s \<longleftrightarrow> keys_ok s \<and> limits_ok s \<and> requests_ok s"

definition kept :: "db \<Rightarrow> db \<Rightarrow> bool" where
  "kept s t \<longleftrightarrow> (\<forall>k \<in> set (kartice s). \<exists>k' \<in> set (kartice t). kt_id k' = kt_id k \<and> kt_broj k' = kt_broj k \<and>
     kt_racun k' = kt_racun k \<and> (kt_status k = DEAKTIVIRANA \<longrightarrow> kt_status k' = DEAKTIVIRANA))"

definition fine :: "db \<Rightarrow> db \<Rightarrow> bool" where
  "fine s t \<longleftrightarrow> cards_ok t \<and> kept s t"

lemma kept_refl: "kept s s"
  unfolding kept_def by blast

lemma kept_trans: "kept s t \<Longrightarrow> kept t u \<Longrightarrow> kept s u"
  unfolding kept_def by metis

lemma kept_same: "kartice t = kartice s \<Longrightarrow> kept s t"
  unfolding kept_def by auto

section \<open>The tables of cards\<close>

definition card_view :: "db \<Rightarrow> racun list \<times> kartica list \<times> int \<times> (int \<times> OvlascenoLiceInput) list \<times> (int \<times> CardRequestState \<times> int) list \<times> int" where
  "card_view s = (racuni s, kartice s, kartica_seq s, ovlascena_lica s, card_requests s, now_utc s)"

abbreviation same_cards :: "db \<Rightarrow> db \<Rightarrow> bool" where
  "same_cards s t \<equiv> card_view t = card_view s"

lemma clock_free_cards [simp]: "clock_free card_view"
  by (simp add: clock_free_def card_view_def)

lemmas clock_card_view [simp] = clock_freeD [OF clock_free_cards]

lemma racun_of_racuni: "racuni t = racuni s \<Longrightarrow> racun_of t = racun_of s"
  by (simp add: racun_of_def fun_eq_iff)

lemma kinds_racuni: "racuni t = racuni s \<Longrightarrow> kinds t = kinds s \<and> personal t = personal s \<and> business t = business s"
  by (simp add: kinds_def personal_def business_def fun_eq_iff racun_of_racuni [of t s])

lemmas card_defs = cards_ok_def keys_ok_def limits_ok_def requests_ok_def request_ok_def cards_of_def emails_def vlasnikove_def

lemma cards_ok_same:
  assumes "same_cards s t"
  shows "cards_ok t = cards_ok s" "kept s t"
proof -
  have f: "racuni t = racuni s" "kartice t = kartice s" "kartica_seq t = kartica_seq s" "ovlascena_lica t = ovlascena_lica s"
    "card_requests t = card_requests s" using assms by (simp_all add: card_view_def)
  from kinds_racuni [OF f(1)] f show "cards_ok t = cards_ok s" by (simp add: card_defs)
  from f(2) show "kept s t" by (rule kept_same)
qed

lemma fine_same: "cards_ok s \<Longrightarrow> same_cards s t \<Longrightarrow> fine s t"
  using cards_ok_same [of t s] by (simp add: fine_def)

lemma clock_free_fine [simp]: "clock_free (fine s)"
proof -
  have "fine s (t\<lparr>tick := n, tx_open := b, tx_aborted := a\<rparr>) = fine s t" for t n b a
    using cards_ok_same(1) [of "t\<lparr>tick := n, tx_open := b, tx_aborted := a\<rparr>" t] by (simp add: fine_def card_view_def kept_def)
  then show ?thesis by (simp add: clock_free_def)
qed

text \<open>Reads of the tables in a run that has not changed them.\<close>

lemma hoare_read:
  assumes "cards_ok s" and "\<And>t. same_cards s t \<Longrightarrow> f t = f s" and "hoare (same_cards s) (g (f s)) Q (fine s)"
  shows "hoare (same_cards s) (bnd (query f) g) Q (fine s)"
proof (rule hoare_bnd [where Q' = "\<lambda>a t. a = f s \<and> same_cards s t"])
  show "hoare (same_cards s) (query f) (\<lambda>a t. a = f s \<and> same_cards s t) (fine s)"
  proof (rule hoareI)
    fix u a u'
    assume "same_cards s u" and "query f u = (Inr a, u')"
    then show "a = f s \<and> same_cards s u'" using assms(2) [of "bump u"] by (auto dest!: query_InrD)
  next
    fix u e u'
    assume "same_cards s u" and "query f u = (Inl e, u')"
    then show "fine s u'" using query_cases [of f u] by (auto intro: fine_same [OF assms(1)])
  qed
  show "hoare (\<lambda>t. a = f s \<and> same_cards s t) (g a) Q (fine s)" for a
    using assms(3) by (cases "a = f s") (auto simp: hoare_def)
qed

lemma hoare_stop: "cards_ok s \<Longrightarrow> hoare (same_cards s) (fail e) Q (fine s)"
  by (simp add: hoare_def fine_same)

lemma fail_bnd [simp]: "bnd (fail e) g = fail e"
  by (simp add: bnd_def fun_eq_iff)

lemma hoare_info:
  assumes "cards_ok s" and "\<And>r. racun_of s i = Some r \<Longrightarrow> hoare (same_cards s) (g (info r)) Q (fine s)"
  shows "hoare (same_cards s) (bnd (bnd (query (\<lambda>s. racun_of s i)) (\<lambda>row. case row of None \<Rightarrow> fail e | Some r \<Rightarrow> ret (info r))) g) Q (fine s)"
  unfolding bnd_assoc
proof (rule hoare_read [OF assms(1)])
  show "racun_of t i = racun_of s i" if "same_cards s t" for t using that by (simp add: racun_of_def card_view_def)
  show "hoare (same_cards s) (bnd (case racun_of s i of None \<Rightarrow> fail e | Some r \<Rightarrow> ret (info r)) g) Q (fine s)"
    by (cases "racun_of s i") (simp_all add: hoare_stop [OF assms(1)] assms(2))
qed

section \<open>Limits are checked before a card is issued\<close>

definition room_for :: "db \<Rightarrow> int \<Rightarrow> OvlascenoLiceInput option \<Rightarrow> bool" where
  "room_for s i ol \<longleftrightarrow> (personal s i \<longrightarrow> length (cards_of i s) < maxKarticeLicni) \<and>
     (business s i \<longrightarrow> (case ol of None \<Rightarrow> vlasnikove i s = [] | Some ol \<Rightarrow> ol_EmailAdresa ol \<notin> set (emails s)))"

lemma kinds_of: "racun_of s i = Some r \<Longrightarrow> personal s i = (vrsta_racuna r = ''LICNI'') \<and> business s i = (vrsta_racuna r = ''POSLOVNI'') \<and>
    kinds s i = Some (vrsta_racuna r, id_vlasnika r)"
  by (simp add: personal_def business_def kinds_def)

lemma same_tables: "same_cards s t \<Longrightarrow> racuni t = racuni s \<and> kartice t = kartice s \<and> ovlascena_lica t = ovlascena_lica s"
  by (simp add: card_view_def)

lemma hoare_check:
  assumes "cards_ok s" and "\<And>t. same_cards s t \<Longrightarrow> f t = f s" and "\<not> b (f s) \<Longrightarrow> hoare (same_cards s) (g ()) Q (fine s)"
  shows "hoare (same_cards s) (bnd (bnd (query f) (\<lambda>a. if b a then fail e else ret ())) g) Q (fine s)"
  unfolding bnd_assoc
proof (rule hoare_read [OF assms(1)])
  show "f t = f s" if "same_cards s t" for t using that by (rule assms(2))
  show "hoare (same_cards s) (bnd (if b (f s) then fail e else ret ()) g) Q (fine s)"
    by (cases "b (f s)") (simp_all add: hoare_stop [OF assms(1)] assms(3))
qed

lemma hoare_provera_licni:
  assumes "cards_ok s" and "length (cards_of i s) < maxKarticeLicni \<Longrightarrow> hoare (same_cards s) (g ()) Q (fine s)"
  shows "hoare (same_cards s) (bnd (provera_licni i) g) Q (fine s)"
  unfolding provera_licni_def CountKarticeZaRacun_def
  by (rule hoare_check [OF assms(1)]) (use assms(2) in \<open>auto dest: same_tables simp: cards_of_def\<close>)

lemma hoare_provera_vlasnik:
  assumes "cards_ok s" and "vlasnikove i s = [] \<Longrightarrow> hoare (same_cards s) (g ()) Q (fine s)"
  shows "hoare (same_cards s) (bnd (provera_vlasnik i) g) Q (fine s)"
  unfolding provera_vlasnik_def HasVlasnikovaKarticaPostoji_def
  by (rule hoare_check [OF assms(1)]) (use assms(2) in \<open>auto dest: same_tables simp: vlasnikove_def\<close>)

lemma hoare_provera_lice:
  assumes "cards_ok s" and "e \<notin> set (emails s) \<Longrightarrow> hoare (same_cards s) (g ()) Q (fine s)"
  shows "hoare (same_cards s) (bnd (bnd (HasOvlascenoLiceKarticu e) (\<lambda>b. if b then fail x else ret ())) g) Q (fine s)"
  unfolding HasOvlascenoLiceKarticu_def
proof (rule hoare_check [OF assms(1)])
  assume "\<not> 0 < length (filter (\<lambda>(_, ol). ol_EmailAdresa ol = e) (ovlascena_lica s))"
  then show "hoare (same_cards s) (g ()) Q (fine s)" by (intro assms(2)) (force simp: emails_def filter_empty_conv)
qed (auto dest: same_tables)

lemma hoare_proveraLimitaFlow2:
  assumes "cards_ok s" "racun_of s i = Some r" and "room_for s i ol \<Longrightarrow> hoare (same_cards s) (g ()) Q (fine s)"
  shows "hoare (same_cards s) (bnd (proveraLimitaFlow2 i (vrsta_racuna r) ol) g) Q (fine s)"
  using assms kinds_of [OF assms(2)] unfolding proveraLimitaFlow2_def room_for_def
  by (auto intro!: hoare_provera_licni hoare_provera_vlasnik hoare_provera_lice split: option.split)

lemma proveraLimita_Flow2: "proveraLimita i v = proveraLimitaFlow2 i v None"
  by (simp add: proveraLimita_def proveraLimitaFlow2_def)

section \<open>Issuing a card\<close>

abbreviation lice_row :: "int \<Rightarrow> OvlascenoLiceInput option \<Rightarrow> (int \<times> OvlascenoLiceInput) list" where
  "lice_row i ol \<equiv> (case ol of None \<Rightarrow> [] | Some x \<Rightarrow> [(i, x)])"

lemma vlasnikove_issued:
  assumes "keys_ok s" "kt_id k = kartica_seq s" "kartice t = kartice s @ [k]" "ovlascena_lica t = ovlascena_lica s @ lice_row (kt_id k) ol"
  shows "vlasnikove i t = vlasnikove i s @ (if ol = None \<and> kt_racun k = i then [k] else [])"
proof -
  have ids: "kt_id k' < kt_id k" if "k' \<in> set (kartice s)" for k' using that assms(1,2) by (auto simp: keys_ok_def list_all_iff)
  have old: "list_ex (\<lambda>(j, _). j = kt_id k') (ovlascena_lica t) = list_ex (\<lambda>(j, _). j = kt_id k') (ovlascena_lica s)"
    if "k' \<in> set (kartice s)" for k' using ids [OF that] assms(4) by (auto split: option.split)
  have "kt_id k \<notin> kt_id ` set (kartice s)" using ids by force
  then have "\<not> list_ex (\<lambda>(j, _). j = kt_id k) (ovlascena_lica s)"
    using assms(1) unfolding keys_ok_def by (force simp: list_ex_iff)
  then have "list_ex (\<lambda>(j, _). j = kt_id k) (ovlascena_lica t) = (ol \<noteq> None)" using assms(4) by (auto split: option.split)
  with old show ?thesis unfolding vlasnikove_def assms(3) by (auto intro: filter_cong)
qed

lemma issued_fine:
  assumes ok: "cards_ok s" and room: "room_for s (kt_racun k) ol" "ol \<noteq> None \<longrightarrow> business s (kt_racun k)"
    and k: "kt_id k = kartica_seq s" "kinds s (kt_racun k) \<noteq> None" "kt_broj k \<notin> kt_broj ` set (kartice s)"
    and t: "racuni t = racuni s" "kartice t = kartice s @ [k]" "kartica_seq t = kartica_seq s + 1"
      "ovlascena_lica t = ovlascena_lica s @ lice_row (kt_id k) ol" "card_requests t = card_requests s"
  shows "fine s t"
proof -
  note kd = kinds_racuni [OF t(1)]
  have keys: "keys_ok s" and lim: "limits_ok s" using ok by (simp_all add: cards_ok_def)
  note v = vlasnikove_issued [OF keys k(1) t(2,4)]
  have c: "cards_of i t = cards_of i s @ (if kt_racun k = i then [k] else [])" for i by (simp add: cards_of_def t(2))
  have e: "emails t = emails s @ (case ol of None \<Rightarrow> [] | Some x \<Rightarrow> [ol_EmailAdresa x])" by (simp add: emails_def t(4) split: option.split)
  have "kartica_seq s \<notin> kt_id ` set (kartice s)" using keys by (force simp: keys_ok_def list_all_iff)
  then have "keys_ok t"
    using keys k kd unfolding keys_ok_def by (auto simp: t list_all_iff split: option.splits)
  moreover have "limits_ok t"
    unfolding limits_ok_def
  proof (intro conjI allI impI)
    fix i
    show "length (cards_of i t) \<le> maxKarticeLicni" if "personal t i"
      using that room(1) lim kd by (auto simp: c room_for_def limits_ok_def)
    show "length (vlasnikove i t) \<le> 1" if "business t i"
      using that room(1) lim kd by (auto simp: v room_for_def limits_ok_def)
    show "distinct (emails t)" using room lim by (auto simp: e room_for_def limits_ok_def split: option.splits)
  qed
  moreover have "requests_ok t" using ok kd by (simp add: cards_ok_def requests_ok_def request_ok_def t(5))
  ultimately show ?thesis by (auto simp: fine_def cards_ok_def kept_def t(2))
qed

lemma kartica_fits_keys:
  assumes "kartica_fits k s'" "kartice s' = kartice s" "racuni s' = racuni s"
  shows "kinds s (kt_racun k) \<noteq> None" "kt_broj k \<notin> kt_broj ` set (kartice s)"
  using assms by (auto simp: kartica_fits_def kinds_def racun_of_def find_None_iff list_ex_iff)

lemma hoare_CreateKartica:
  assumes "cards_ok s" and "room_for s (ck_RacunID input) None"
  shows "hoare (same_cards s) (CreateKartica E input) (\<lambda>_. fine s) (fine s)"
proof (rule hoareI)
  fix u i u'
  assume u: "same_cards s u" and "CreateKartica E input u = (Inr i, u')"
  then obtain k where k: "k = kartica_row E input (kartica_seq u)" "kartica_fits k (bump u)"
    "u' = (bump u)\<lparr>kartice := kartice u @ [k], kartica_seq := kartica_seq u + 1\<rparr>"
    by (auto simp: CreateKartica_def stmt_def Let_def split: if_splits option.splits)
  show "fine s u'"
  proof (rule issued_fine [OF assms(1), of k None])
    show "kinds s (kt_racun k) \<noteq> None" "kt_broj k \<notin> kt_broj ` set (kartice s)"
      using kartica_fits_keys [OF k(2), of s] u by (auto simp: card_view_def)
  qed (use assms(2) u k in \<open>simp_all add: kartica_row_def card_view_def\<close>)
next
  fix u e u'
  assume "same_cards s u" and "CreateKartica E input u = (Inl e, u')"
  then show "fine s u'" by (auto simp: CreateKartica_def stmt_def Let_def intro: fine_same [OF assms(1)] split: if_splits option.splits)
qed

lemma fine_seq:
  assumes "cards_ok s" "racuni t = racuni s" "kartice t = kartice s" "ovlascena_lica t = ovlascena_lica s" "card_requests t = card_requests s"
    and "kartica_seq s \<le> kartica_seq t"
  shows "fine s t"
proof -
  have "cards_of i t = cards_of i s" "vlasnikove i t = vlasnikove i s" "emails t = emails s" for i
    using assms by (simp_all add: cards_of_def vlasnikove_def emails_def)
  with kinds_racuni [OF assms(2)] assms show ?thesis
    by (auto simp: fine_def cards_ok_def keys_ok_def limits_ok_def requests_ok_def request_ok_def list_all_iff kept_same)
qed

lemma hoare_CreateKarticaSaOvlascenoLicem:
  assumes "cards_ok s" "room_for s (ck_RacunID input) (Some ol)" "business s (ck_RacunID input)"
  shows "hoare (same_cards s) (CreateKarticaSaOvlascenoLicem E input ol) (\<lambda>_. fine s) (fine s)"
proof (rule hoareI)
  fix u i u'
  assume u: "same_cards s u" and "CreateKarticaSaOvlascenoLicem E input ol u = (Inr i, u')"
  then obtain k u2 where k: "k = kartica_row E input (kartica_seq u)" "kartica_fits k (bump (begin_tx u))" "u' = end_tx u (bump u2)"
    "u2 = (bump ((bump (begin_tx u))\<lparr>kartice := kartice u @ [k], kartica_seq := kartica_seq u + 1\<rparr>))\<lparr>ovlascena_lica := ovlascena_lica u @ [(kt_id k, ol)]\<rparr>"
    unfolding CreateKarticaSaOvlascenoLicem_def CreateKartica_def insert_lice_def
    by (auto simp: stmt_def Let_def bnd_def kartica_row_def elim!: in_tx_InrE split: if_splits option.splits sum.splits)
  show "fine s u'"
  proof (rule issued_fine [OF assms(1), of k "Some ol"])
    show "kinds s (kt_racun k) \<noteq> None" "kt_broj k \<notin> kt_broj ` set (kartice s)"
      using kartica_fits_keys [OF k(2), of s] u by (auto simp: card_view_def)
  qed (use assms(2,3) u k in \<open>simp_all add: kartica_row_def card_view_def\<close>)
next
  fix u e u'
  assume u: "same_cards s u" and r: "CreateKarticaSaOvlascenoLicem E input ol u = (Inl e, u')"
  have "preserves (\<lambda>t. kartica_seq s \<le> kartica_seq t \<and> card_requests t = card_requests s) (CreateKarticaSaOvlascenoLicem E input ol)"
    unfolding CreateKarticaSaOvlascenoLicem_def CreateKartica_def insert_lice_def
    by (rule preserves_in_tx, intro preserves_intros preserves_stmt) (auto simp: clock_free_def Let_def split: if_splits)
  from preservesD [OF this _ r] u have "kartica_seq s \<le> kartica_seq u' \<and> card_requests u' = card_requests s" by (simp add: card_view_def)
  moreover have "core u' = core u" using r unfolding CreateKarticaSaOvlascenoLicem_def by (rule in_tx_Inl)
  ultimately show "fine s u'" using u by (intro fine_seq [OF assms(1)]) (simp_all add: core_def card_view_def)
qed

section \<open>Changing the status of a card\<close>

lemma filter_upd_where: "(\<And>x. P (f x) = P x) \<Longrightarrow> filter P (upd_where Q f xs) = upd_where Q f (filter P xs)"
  by (induction xs) (auto simp: upd_where_def)

lemma status_fine:
  assumes "cards_ok s" "\<And>k. k \<in> set (kartice s) \<Longrightarrow> kt_id k = j \<Longrightarrow> kt_status k \<noteq> DEAKTIVIRANA"
    and t: "racuni t = racuni s" "kartica_seq t = kartica_seq s" "ovlascena_lica t = ovlascena_lica s" "card_requests t = card_requests s"
      "kartice t = upd_where (\<lambda>k. kt_id k = j) (\<lambda>k. k\<lparr>kt_status := st\<rparr>) (kartice s)"
  shows "fine s t"
proof -
  let ?u = "upd_where (\<lambda>k. kt_id k = j) (\<lambda>k. k\<lparr>kt_status := st\<rparr>)"
  have n: "cards_of i t = ?u (cards_of i s)" "vlasnikove i t = ?u (vlasnikove i s)" "emails t = emails s" for i
    unfolding cards_of_def vlasnikove_def emails_def t by (simp_all add: filter_upd_where)
  have l: "length (?u ks) = length ks" for ks by (simp add: upd_where_def)
  have m: "map kt_id (kartice t) = map kt_id (kartice s)" "map kt_broj (kartice t) = map kt_broj (kartice s)"
    unfolding t by (rule map_upd_where; simp)+
  have "kt_id ` set (kartice t) = kt_id ` set (kartice s)" using arg_cong [OF m(1), of set] by simp
  moreover have "list_all P (kartice t) = list_all P (kartice s)" if "\<And>k. P (k\<lparr>kt_status := st\<rparr>) = P k" for P
    by (simp add: t upd_where_def list.pred_map comp_def if_distrib [of P] that)
  ultimately have "cards_ok t"
    using assms(1) kinds_racuni [OF t(1)] m
    by (simp add: cards_ok_def keys_ok_def limits_ok_def requests_ok_def request_ok_def n l t(2,3,4))
  moreover have "kept s t"
    unfolding kept_def
  proof
    fix k
    assume k: "k \<in> set (kartice s)"
    show "\<exists>k'\<in>set (kartice t). kt_id k' = kt_id k \<and> kt_broj k' = kt_broj k \<and> kt_racun k' = kt_racun k \<and>
      (kt_status k = DEAKTIVIRANA \<longrightarrow> kt_status k' = DEAKTIVIRANA)"
      by (rule bexI [of _ "if kt_id k = j then k\<lparr>kt_status := st\<rparr> else k"]) (use assms(2) [OF k] k in \<open>auto simp: t(5) upd_where_def\<close>)
  qed
  ultimately show ?thesis by (simp add: fine_def)
qed

lemma hoare_SetKarticaStatus:
  assumes "cards_ok s" "\<And>k. k \<in> set (kartice s) \<Longrightarrow> kt_id k = j \<Longrightarrow> kt_status k \<noteq> DEAKTIVIRANA"
  shows "hoare (same_cards s) (SetKarticaStatus j novi) (\<lambda>_. fine s) (fine s)"
proof -
  have "fine s (snd (SetKarticaStatus j novi u))" if u: "same_cards s u" for u
  proof -
    have same: "same_cards s (bump u)" "same_cards s (failed u)" using u by simp_all
    have upd: "fine s ((bump u)\<lparr>kartice := upd_where (\<lambda>k. kt_id k = j) (\<lambda>k. k\<lparr>kt_status := st\<rparr>) (kartice u)\<rparr>)" for st
      by (rule status_fine [OF assms]) (use u in \<open>simp_all add: card_view_def\<close>)
    then show ?thesis
      using same [THEN fine_same [OF assms(1)]]
      by (auto simp: SetKarticaStatus_def bnd_def stmt_def Let_def split: option.split)
  qed
  then show ?thesis by (fastforce intro: hoareI)
qed

section \<open>Pending requests\<close>

lemma fine_requests:
  assumes "fine s t" "racuni u = racuni t" "kartice u = kartice t" "kartica_seq u = kartica_seq t" "ovlascena_lica u = ovlascena_lica t"
    and "\<And>w st x. (w, st, x) \<in> set (card_requests u) \<Longrightarrow> request_ok t w st"
  shows "fine s u"
proof -
  have "cards_of i u = cards_of i t" "vlasnikove i u = vlasnikove i t" "emails u = emails t" for i
    using assms by (simp_all add: cards_of_def vlasnikove_def emails_def)
  moreover have "requests_ok u" using assms(6) kinds_racuni [OF assms(2)] by (auto simp: requests_ok_def request_ok_def list_all_iff)
  ultimately show ?thesis
    using assms kinds_racuni [OF assms(2)] unfolding fine_def cards_ok_def keys_ok_def limits_ok_def
    by (auto intro: kept_trans kept_same)
qed

lemma request_okD: "cards_ok t \<Longrightarrow> (w, st, x) \<in> set (card_requests t) \<Longrightarrow> request_ok t w st"
  by (auto simp: cards_ok_def requests_ok_def list_all_iff)

lemma preserves_fine_delete [preserves_intros]: "preserves (fine s) (DeleteCardRequest w)"
proof -
  have "fine s ((bump t)\<lparr>card_requests := filter (\<lambda>(i, _). i \<noteq> w) (card_requests t)\<rparr>)" if t: "fine s t" for t
    by (rule fine_requests [OF t]) (use t in \<open>auto simp: fine_def intro: request_okD\<close>)
  then show ?thesis by (auto simp: preserves_def DeleteCardRequest_def stmt_root_def clock_freeD [OF clock_free_fine])
qed

lemma hoare_SaveCardRequest:
  assumes "cards_ok s" "request_ok s w st"
  shows "hoare (same_cards s) (SaveCardRequest w st ttl) (\<lambda>_. fine s) (fine s)"
proof -
  have "fine s (snd (SaveCardRequest w st ttl u))" if u: "same_cards s u" for u
  proof -
    have k: "request_ok u = request_ok s" using kinds_racuni [of u s] u by (simp add: request_ok_def fun_eq_iff card_view_def)
    have f: "fine s u" by (rule fine_same [OF assms(1) u])
    have "fine s ((bump u)\<lparr>card_requests := (w, st, now_utc u + ttl) # filter (\<lambda>(i, _). i \<noteq> w) (card_requests u)\<rparr>)"
      by (rule fine_requests [OF f]) (use f assms(2) k request_okD [of u] in \<open>auto simp: fine_def\<close>)
    with f show ?thesis by (auto simp: SaveCardRequest_def stmt_root_def clock_freeD [OF clock_free_fine])
  qed
  then show ?thesis by (fastforce intro: hoareI)
qed

lemma live_request_ok: "cards_ok s \<Longrightarrow> live_request w s = Some st \<Longrightarrow> request_ok s w st"
  by (auto simp: live_request_def find_Some_iff intro: request_okD dest!: nth_mem)

lemma hoare_GetCardRequest:
  assumes "cards_ok s" and "\<And>st. live_request w s = Some st \<Longrightarrow> hoare (same_cards s) (g st) Q (fine s)"
  shows "hoare (same_cards s) (bnd (GetCardRequest w) g) Q (fine s)"
proof (rule hoare_bnd [where Q' = "\<lambda>st t. live_request w s = Some st \<and> same_cards s t"])
  have "live_request w (bump u) = live_request w s" if "same_cards s u" for u using that by (simp add: live_request_def card_view_def)
  then show "hoare (same_cards s) (GetCardRequest w) (\<lambda>st t. live_request w s = Some st \<and> same_cards s t) (fine s)"
    by (auto simp: hoare_def GetCardRequest_def stmt_root_def bnd_def fine_same [OF assms(1)] split: option.split)
  show "hoare (\<lambda>t. live_request w s = Some st \<and> same_cards s t) (g st) Q (fine s)" for st
    using assms(2) by (cases "live_request w s = Some st") (auto simp: hoare_def)
qed

section \<open>Everything that happens to cards\<close>

lemma hoare_gets: "(\<And>a. hoare P (g a) Q R) \<Longrightarrow> hoare P (bnd (gets f) g) Q R"
  by (simp add: hoare_def bnd_def)

lemma hoare_CreateKarticaZaVlasnika:
  assumes "cards_ok s"
  shows "hoare (same_cards s) (CreateKarticaZaVlasnika E K draws i tip) (\<lambda>_. fine s) (fine s)"
proof -
  have "hoare (same_cards s) (CreateKartica E (kartica_input i tip d now)) (\<lambda>_. fine s) (fine s)" if "room_for s i None" for d now
    by (rule hoare_CreateKartica [OF assms]) (simp add: kartica_input_def that)
  then show ?thesis
    unfolding CreateKarticaZaVlasnika_def GetRacunInfo_def proveraLimita_Flow2
    by (intro hoare_info [OF assms]) (auto intro!: hoare_stop [OF assms] hoare_proveraLimitaFlow2 [OF assms] hoare_gets)
qed

lemma hoare_RequestKartica:
  assumes "cards_ok s"
  shows "hoare (same_cards s) (RequestKartica K draw input) (\<lambda>_. fine s) (fine s)"
proof -
  let ?o = "rk_VlasnikID input"
  have undo: "hoare (same_cards s) (bnd (SaveCardRequest ?o (request_state input c) ttl) (\<lambda>_.
      bnd (ignore (DeleteCardRequest ?o)) (\<lambda>_. fail e :: unit dbp))) (\<lambda>_. fine s) (fine s)"
    if "request_ok s ?o (request_state input c)" for c ttl e
    by (rule hoare_bnd [OF hoare_SaveCardRequest [OF assms that]], rule hoare_of_preserves) (intro preserves_intros)
  have ok: "request_ok s ?o (request_state input c)"
    if "racun_of s (rk_RacunID input) = Some r" "id_vlasnika r = ?o" "vrsta_racuna r = ''LICNI'' \<Longrightarrow> rk_OvlascenoLice input = None" for r c
  proof -
    have "kinds s i = None \<or> personal s i \<or> business s i" for i using assms by (simp add: cards_ok_def keys_ok_def)
    from this [of "rk_RacunID input"] kinds_of [OF that(1)] that(2,3) show ?thesis by (auto simp: request_ok_def request_state_def)
  qed
  show ?thesis
    unfolding RequestKartica_def GetRacunVlasnikInfo_def
    by (intro hoare_info [OF assms])
      (auto simp: hoare_stop [OF assms] split: option.split intro!: hoare_proveraLimitaFlow2 [OF assms] undo hoare_SaveCardRequest [OF assms] ok)
qed

lemma hoare_ConfirmKartica:
  assumes "cards_ok s"
  shows "hoare (same_cards s) (ConfirmKartica E K draws w code) (\<lambda>_. fine s) (fine s)"
proof -
  have wrong: "hoare (same_cards s) (wrong_code w st) (\<lambda>_. fine s) (fine s)" if "request_ok s w st" for st
  proof -
    have "request_ok s w (st\<lparr>cq_Attempts := n\<rparr>)" for n using that by (simp add: request_ok_def)
    then have save: "hoare (same_cards s) (bnd (ignore (SaveCardRequest w (st\<lparr>cq_Attempts := n\<rparr>) ttl)) (\<lambda>_. fail e :: int dbp)) (\<lambda>_. fine s) (fine s)" for n ttl e
      by (intro hoare_bnd [OF hoare_ignore [OF hoare_SaveCardRequest [OF assms]]]) (simp_all add: hoare_def)
    have "preserves (fine s) (bnd (ignore (DeleteCardRequest w)) (\<lambda>_. fail e :: int dbp))" for e by (intro preserves_intros)
    then have "hoare (same_cards s) (bnd (ignore (DeleteCardRequest w)) (\<lambda>_. fail e :: int dbp)) (\<lambda>_. fine s) (fine s)" for e
      by (intro hoare_weaken [OF hoare_of_preserves]) (auto intro: fine_same [OF assms])
    with save show ?thesis by (simp add: wrong_code_def Let_def)
  qed
  have issue: "hoare (same_cards s) (issue_card E K draws st) (\<lambda>_. fine s) (fine s)" if st: "request_ok s w st" for st
  proof -
    have "hoare (same_cards s) (case cq_OvlascenoLice st of Some ol \<Rightarrow> CreateKarticaSaOvlascenoLicem E (kartica_input (cq_AccountID st) tip d now) ol
       | None \<Rightarrow> CreateKartica E (kartica_input (cq_AccountID st) tip d now)) (\<lambda>_. fine s) (fine s)"
      if "room_for s (cq_AccountID st) (cq_OvlascenoLice st)" for tip d now
      using that st by (cases "cq_OvlascenoLice st")
        (auto simp: request_ok_def kartica_input_def intro!: hoare_CreateKartica hoare_CreateKarticaSaOvlascenoLicem assms)
    then show ?thesis
      unfolding issue_card_def GetRacunInfo_def Let_def
      by (intro hoare_info [OF assms]) (simp add: hoare_proveraLimitaFlow2 [OF assms] hoare_gets)
  qed
  have fin: "hoare (fine s) (bnd (ignore (DeleteCardRequest w)) (\<lambda>_. ret i)) (\<lambda>_. fine s) (fine s)" for i :: int
    by (rule hoare_of_preserves) (intro preserves_intros)
  show ?thesis
    unfolding ConfirmKartica_def
    by (rule hoare_GetCardRequest [OF assms]) (auto intro!: wrong hoare_bnd [OF issue fin] live_request_ok [OF assms])
qed

lemma join_racuniD: "(k, r) \<in> set (join_racuni P s) \<Longrightarrow> k \<in> set (kartice s)"
  by (auto simp: join_racuni_def)

lemma hoare_BlokirajKarticu:
  assumes "cards_ok s"
  shows "hoare (same_cards s) (BlokirajKarticu j u) (\<lambda>_. fine s) (fine s)"
  unfolding BlokirajKarticu_def GetKarticaOwnerInfo_def bnd_assoc
proof (rule hoare_read [OF assms])
  let ?rows = "filter (\<lambda>(k, r). kt_id k = j) (join_racuni (\<lambda>_. True) s)"
  show "filter (\<lambda>(k, r). kt_id k = j) (join_racuni (\<lambda>_. True) t) = ?rows" if "same_cards s t" for t
    using same_tables [OF that] by (simp add: join_racuni_def)
  have active: "kt_status k' \<noteq> DEAKTIVIRANA" if "?rows = (k, r) # rows" "kt_status k = AKTIVNA" "k' \<in> set (kartice s)" "kt_id k' = j" for k r rows k'
  proof -
    have "(k, r) \<in> set ?rows" using that(1) by simp
    then have "k \<in> set (kartice s)" "kt_id k = j" by (auto dest: join_racuniD)
    with that(3,4) assms have "k' = k" by (auto simp: cards_ok_def keys_ok_def distinct_map inj_on_def)
    with that(2) show ?thesis by simp
  qed
  show "hoare (same_cards s) (bnd (case ?rows of [] \<Rightarrow> fail ErrKarticaNotFound
      | (k, r) # _ \<Rightarrow> ret \<lparr>ko_Status = kt_status k, ko_VlasnikID = id_vlasnika r\<rparr>) (\<lambda>info.
        if ko_VlasnikID info \<noteq> u then fail ErrKarticaNijeTvoja
        else case ko_Status info of AKTIVNA \<Rightarrow> SetKarticaStatus j ''BLOKIRANA''
          | BLOKIRANA \<Rightarrow> fail ErrKarticaVecBlokirana | DEAKTIVIRANA \<Rightarrow> fail ErrKarticaDeaktivirana)) (\<lambda>_. fine s) (fine s)"
  proof (cases ?rows)
    case (Cons row rows)
    obtain k r where row: "row = (k, r)" by force
    with Cons have rows: "?rows = (k, r) # rows" by simp
    have "hoare (same_cards s) (SetKarticaStatus j ''BLOKIRANA'') (\<lambda>_. fine s) (fine s)" if "kt_status k = AKTIVNA"
      by (rule hoare_SetKarticaStatus [OF assms active [OF rows that]])
    then show ?thesis unfolding rows by (cases "kt_status k") (simp_all add: hoare_stop [OF assms])
  qed (simp add: hoare_stop [OF assms])
qed

lemma hoare_ChangeEmployeeCardStatus:
  assumes "cards_ok s"
  shows "hoare (same_cards s) (ChangeEmployeeCardStatus number novi) (\<lambda>_. fine s) (fine s)"
  unfolding ChangeEmployeeCardStatus_def GetKarticaZaStatusChange_def bnd_assoc
proof (rule hoare_read [OF assms], goal_cases)
  case (1 t)
  then show ?case using same_tables [OF 1] by (simp add: join_racuni_def status_change_row_def)
next
  case 2
  let ?rows = "map (status_change_row s) (filter (\<lambda>(k, r). kt_broj k = number) (join_racuni (\<lambda>_. True) s))"
  have live: "kt_status k' \<noteq> DEAKTIVIRANA"
    if "?rows = row # rows" "kc_TrenutniStatus row \<noteq> DEAKTIVIRANA" "k' \<in> set (kartice s)" "kt_id k' = kc_ID row" for row rows k'
  proof -
    have "row \<in> set ?rows" using that(1) by simp
    then obtain k r where "row = status_change_row s (k, r)" "k \<in> set (kartice s)" by (auto dest: join_racuniD)
    moreover from this that(3,4) assms have "k' = k"
      by (auto simp: cards_ok_def keys_ok_def distinct_map inj_on_def status_change_row_def)
    ultimately show ?thesis using that(2) by (simp add: status_change_row_def)
  qed
  have set: "hoare (same_cards s) (bnd (SetKarticaStatus (kc_ID row) novi) (\<lambda>_. ret row)) (\<lambda>_. fine s) (fine s)"
    if "?rows = row # rows" "kc_TrenutniStatus row \<noteq> DEAKTIVIRANA" for row rows
    by (rule hoare_bnd [OF hoare_SetKarticaStatus [OF assms live [OF that]]]) (simp_all add: hoare_ret)
  show ?case
  proof (cases ?rows)
    case (Cons row rows)
    have "hoare (same_cards s) (Pair (Inl e) :: KarticaZaStatusChange dbp) (\<lambda>_. fine s) (fine s)" for e by (simp add: hoare_def fine_same [OF assms])
    then show ?thesis
      unfolding Cons using set [OF Cons] by (cases "kc_TrenutniStatus row") (simp_all add: hoare_stop [OF assms])
  qed (simp add: hoare_stop [OF assms])
qed

text \<open>Employees issue cards and change their status, clients request, confirm and block cards, time passes, and the other
  services open accounts, which keep their kind and owner.\<close>

inductive card_step :: "env \<Rightarrow> karticaService \<Rightarrow> db \<Rightarrow> db \<Rightarrow> bool" for E K where
  issue: "card_step E K s (snd (CreateKarticaZaVlasnika E K draws i tip s))"
| request: "card_step E K s (snd (RequestKartica K draw input s))"
| confirm: "card_step E K s (snd (ConfirmKartica E K draws w code s))"
| employee: "card_step E K s (snd (ChangeEmployeeCardStatus number novi s))"
| block: "card_step E K s (snd (BlokirajKarticu j u s))"
| clock: "card_step E K s (s\<lparr>now_utc := t\<rparr>)"
| accounts: "kartice s' = kartice s \<Longrightarrow> kartica_seq s' = kartica_seq s \<Longrightarrow> ovlascena_lica s' = ovlascena_lica s \<Longrightarrow>
    card_requests s' = card_requests s \<Longrightarrow> \<forall>i. kinds s i \<noteq> None \<longrightarrow> kinds s' i = kinds s i \<Longrightarrow>
    \<forall>i. kinds s' i = None \<or> personal s' i \<or> business s' i \<Longrightarrow> card_step E K s s'"

lemma fine_accounts:
  assumes "cards_ok s" and t: "kartice t = kartice s" "kartica_seq t = kartica_seq s" "ovlascena_lica t = ovlascena_lica s"
      "card_requests t = card_requests s"
    and kd: "\<forall>i. kinds s i \<noteq> None \<longrightarrow> kinds t i = kinds s i" "\<forall>i. kinds t i = None \<or> personal t i \<or> business t i"
  shows "fine s t"
proof -
  have n: "cards_of i t = cards_of i s" "vlasnikove i t = vlasnikove i s" "emails t = emails s" for i
    using t by (simp_all add: cards_of_def vlasnikove_def emails_def)
  have known: "kinds s (kt_racun k) \<noteq> None" if "k \<in> set (kartice s)" for k
    using that assms(1) by (auto simp: cards_ok_def keys_ok_def list_all_iff)
  have none: "cards_of i s = []" "vlasnikove i s = []" if "kinds s i = None" for i
  proof -
    have "kt_racun k \<noteq> i" if "k \<in> set (kartice s)" for k using known [OF that] \<open>kinds s i = None\<close> by auto
    then show "cards_of i s = []" "vlasnikove i s = []" by (auto simp: cards_of_def vlasnikove_def filter_empty_conv)
  qed
  have old: "personal t i = personal s i" "business t i = business s i" if "kinds s i \<noteq> None" for i
    using that kd(1) by (simp_all add: personal_def business_def)
  have "limits_ok t"
    using assms(1) old none unfolding cards_ok_def limits_ok_def n by (metis le0 list.size(3))
  moreover have "keys_ok t" using assms(1) kd known by (auto simp: cards_ok_def keys_ok_def t list_all_iff)
  moreover have "request_ok t w st" if "request_ok s w st" for w st
    using that kd(1) old by (auto simp: request_ok_def)
  then have "requests_ok t" using assms(1) by (auto simp: cards_ok_def requests_ok_def t list_all_iff)
  ultimately show ?thesis using kept_same [OF t(1)] by (simp add: fine_def cards_ok_def)
qed

lemma hoare_fine: "hoare (same_cards s) m (\<lambda>_. fine s) (fine s) \<Longrightarrow> fine s (snd (m s))"
  by (cases "m s") (auto simp: hoare_def split: sum.splits dest: spec [of _ s])

lemma card_step_fine:
  assumes "card_step E K s s'" and "cards_ok s"
  shows "fine s s'"
  using assms(1)
proof cases
  case (clock t)
  then show ?thesis by (intro fine_seq [OF assms(2)]) simp_all
next
  case accounts
  then show ?thesis by (intro fine_accounts [OF assms(2)])
qed (simp_all add: hoare_fine hoare_CreateKarticaZaVlasnika hoare_RequestKartica hoare_ConfirmKartica hoare_BlokirajKarticu
  hoare_ChangeEmployeeCardStatus assms(2))

text \<open>C20. Through any sequence of requests the limits on cards hold: a personal account has at most two cards, a business
  account at most one card of its owner, and a person is authorised on at most one card. No card disappears or changes its
  number or account, and a deactivated card stays deactivated.\<close>

theorem cards_within_limits:
  assumes "(card_step E K)\<^sup>*\<^sup>* s s'" and "cards_ok s"
  shows "(\<forall>i. personal s' i \<longrightarrow> length (cards_of i s') \<le> 2) \<and> (\<forall>i. business s' i \<longrightarrow> length (vlasnikove i s') \<le> 1) \<and>
    distinct (emails s') \<and> kept s s'"
proof -
  have "cards_ok s' \<and> kept s s'"
    using assms(1) by (induction rule: rtranclp_induct)
      (auto simp: assms(2) kept_refl fine_def dest!: card_step_fine intro: kept_trans)
  then show ?thesis by (simp add: cards_ok_def limits_ok_def maxKarticeLicni_def)
qed

definition sample_service :: karticaService where
  "sample_service = \<lparr>pepper = ''p'', sendCardOTP = (\<lambda>_ _. True)\<rparr>"

lemma sample_kinds: "kinds sample_db i = (if i \<in> {10, 11} then Some (''LICNI'', 7) else if i \<in> {20, 21} then Some (''LICNI'', 2) else None)"
  by (simp add: kinds_def racun_of_def sample_racun_def)

lemma sample_cards_ok: "cards_ok sample_db"
proof -
  have f: "kartice sample_db = []" "ovlascena_lica sample_db = []" "card_requests sample_db = []" by (simp_all add: sample_db_def empty_db_def)
  then show ?thesis
    by (simp add: cards_ok_def keys_ok_def limits_ok_def requests_ok_def cards_of_def vlasnikove_def emails_def business_def personal_def
        sample_kinds)
qed

text \<open>A third card for the same personal account is refused.\<close>

lemma cards_within_limits_witness:
  "length (cards_of 10 (snd (CreateKarticaZaVlasnika sample_env sample_service (3, 3) 10 ''VISA''
     (snd (CreateKarticaZaVlasnika sample_env sample_service (2, 2) 10 ''VISA''
     (snd (CreateKarticaZaVlasnika sample_env sample_service (1, 1) 10 ''VISA'' sample_db))))))) \<le> 2"
    (is "length (cards_of 10 ?s) \<le> 2")
proof -
  have r: "(card_step sample_env sample_service)\<^sup>*\<^sup>* sample_db ?s"
    by (blast intro: rtranclp.rtrancl_into_rtrancl card_step.issue)
  have "keeps racuni (CreateKarticaZaVlasnika E K d i t)" for E K d i t
    unfolding CreateKarticaZaVlasnika_def GetRacunInfo_def proveraLimita_def provera_licni_def provera_vlasnik_def CountKarticeZaRacun_def
      HasVlasnikovaKarticaPostoji_def CreateKartica_def
    by (intro keeps_intros keeps_stmt) (auto simp: Let_def split: if_splits)
  then have "racuni ?s = racuni sample_db" by (simp add: keeps_snd)
  from kinds_racuni [OF this] have "personal ?s 10" by (simp add: personal_def sample_kinds)
  with cards_within_limits [OF r sample_cards_ok] show ?thesis by blast
qed

end
