(* ===== verification/Card_Codes.thy ===== *)
theory Card_Codes
  imports Card_Limits
begin

text \<open>
  The codes that confirm a client's request for a card: no card without the code, and three wrong ones cancel the request.
\<close>

section \<open>Codes\<close>

lemma keeps_kartice_requests:
  "keeps (\<lambda>s. (kartice s, racuni s)) (DeleteCardRequest w)" "keeps (\<lambda>s. (kartice s, racuni s)) (SaveCardRequest w st ttl)"
  "keeps (\<lambda>s. (kartice s, racuni s)) (GetCardRequest w)" "keeps (\<lambda>s. (kartice s, racuni s)) (proveraLimitaFlow2 i v ol)"
  "keeps (\<lambda>s. (kartice s, racuni s)) (GetRacunInfo i)"
  unfolding DeleteCardRequest_def SaveCardRequest_def GetCardRequest_def proveraLimitaFlow2_def provera_licni_def provera_vlasnik_def
    CountKarticeZaRacun_def HasVlasnikovaKarticaPostoji_def HasOvlascenoLiceKarticu_def GetRacunInfo_def
  by (intro keeps_intros keeps_stmt_root; auto simp: clock_free_def)+

lemma hashCVV_length [simp]: "length (hashCVV cvv p) = 64"
  by (simp add: hashCVV_def hmac_sha256_def Let_def)

definition new_card :: "nat \<times> nat \<Rightarrow> CardRequestState \<Rightarrow> kartica \<Rightarrow> bool" where
  "new_card draws st k \<longleftrightarrow> kt_racun k = cq_AccountID st \<and> kt_tip k = cq_TipKartice st \<and> kt_status k = AKTIVNA \<and>
     kt_broj k = generateBrojKartice (cq_TipKartice st) (fst draws) \<and> length (kt_cvv k) = 64"

lemma created_card:
  assumes "input = kartica_input (cq_AccountID st) (cq_TipKartice st) (generateKarticaData K draws info (cq_TipKartice st)) now"
  shows "CreateKartica E input s = (Inr i, s') \<Longrightarrow> \<exists>k. kartice s' = kartice s @ [k] \<and> kt_id k = i \<and> new_card draws st k"
    "CreateKartica E input s = (Inl e, s') \<Longrightarrow> kartice s' = kartice s"
    "CreateKarticaSaOvlascenoLicem E input ol s = (Inr i, s') \<Longrightarrow> \<exists>k. kartice s' = kartice s @ [k] \<and> kt_id k = i \<and> new_card draws st k"
    "CreateKarticaSaOvlascenoLicem E input ol s = (Inl e, s') \<Longrightarrow> kartice s' = kartice s"
proof -
  have k: "new_card draws st (kartica_row E input n)" for n
    unfolding assms by (simp add: new_card_def kartica_row_def kartica_input_def generateKarticaData_def Let_def)
  show c: "\<exists>k. kartice s' = kartice s @ [k] \<and> kt_id k = i \<and> new_card draws st k"
    if "CreateKartica E input s = (Inr i, s')" for s s' i
    using that k by (auto simp: CreateKartica_def stmt_def Let_def kartica_row_def split: if_splits option.splits)
  show "kartice s' = kartice s" if "CreateKartica E input s = (Inl e, s')"
    using that by (auto simp: CreateKartica_def stmt_def Let_def split: if_splits option.splits)
  show "\<exists>k. kartice s' = kartice s @ [k] \<and> kt_id k = i \<and> new_card draws st k"
    if r: "CreateKarticaSaOvlascenoLicem E input ol s = (Inr i, s')"
  proof -
    from r obtain u1 u2 where "CreateKartica E input (begin_tx s) = (Inr i, u1)" "insert_lice i ol u1 = (Inr (), u2)" "s' = end_tx s (bump u2)"
      unfolding CreateKarticaSaOvlascenoLicem_def by (auto elim!: in_tx_InrE bnd_InrE)
    with c [of "begin_tx s" i u1] show ?thesis
      by (auto simp: insert_lice_def stmt_def split: if_splits option.splits)
  qed
  show "kartice s' = kartice s" if "CreateKarticaSaOvlascenoLicem E input ol s = (Inl e, s')"
    using in_tx_Inl [OF that [unfolded CreateKarticaSaOvlascenoLicem_def]] by (simp add: core_def)
qed

lemma issued_card:
  assumes "issue_card E K draws st s = (res, s')"
  shows "case res of Inl _ \<Rightarrow> kartice s' = kartice s
    | Inr i \<Rightarrow> \<exists>k. kartice s' = kartice s @ [k] \<and> kt_id k = i \<and> new_card draws st k"
proof -
  note keep = keepsD [OF keeps_kartice_requests(4)] keepsD [OF keeps_kartice_requests(5)]
  show ?thesis
  proof (cases res)
    case (Inl e)
    from assms [unfolded issue_card_def Let_def Inl] show ?thesis
      by (auto simp: Inl elim!: bnd_InlE dest!: keep created_card(2,4) [OF refl] split: option.splits)
  next
    case (Inr i)
    from assms [unfolded issue_card_def Let_def Inr] show ?thesis
      by (auto simp: Inr elim!: bnd_InrE dest!: keep created_card(1,3) [OF refl] split: option.splits)
  qed
qed

text \<open>C21. A confirmation issues a card only when the client has a pending request that has not expired and gives its code.
  Exactly one card is added, of the requested type, for the requested account, which belongs to that client, and it is active;
  of the code on its back only a hash of 64 characters is stored.\<close>

theorem card_needs_code:
  assumes "ConfirmKartica E K draws w code s = (res, s')" and "kartice s' \<noteq> kartice s" and "cards_ok s"
  shows "\<exists>st k. live_request w s = Some st \<and> cq_OTPCode st = code \<and> kartice s' = kartice s @ [k] \<and> res = Inr (kt_id k) \<and>
    new_card draws st k \<and> map_option snd (kinds s (kt_racun k)) = Some w"
proof -
  note keep = keeps_kartice_requests
  obtain st s1 where st: "live_request w s = Some st" "s1 = bump s"
    and run: "(if cq_OTPCode st \<noteq> code then wrong_code w st else bnd (issue_card E K draws st) (\<lambda>i. bnd (ignore (DeleteCardRequest w)) (\<lambda>_. ret i))) s1 = (res, s')"
  proof (cases "GetCardRequest w s")
    case (Pair r u)
    have "kartice u = kartice s" using keepsD [OF keep(3) Pair] by simp
    then obtain st where "r = Inr st" using assms(1,2) Pair by (cases r) (auto simp: ConfirmKartica_def bnd_def)
    moreover from this Pair have "live_request w s = Some st" "u = bump s"
      by (auto simp: GetCardRequest_def bnd_def stmt_root_def live_request_def split: if_splits option.splits)
    ultimately show ?thesis using that assms(1) Pair by (simp add: ConfirmKartica_def bnd_def)
  qed
  have "keeps (\<lambda>s. (kartice s, racuni s)) (wrong_code w st)"
    unfolding wrong_code_def Let_def by (intro keeps_intros keep)
  from keepsD [OF this] run assms(2) st(2) have code: "cq_OTPCode st = code" by (auto split: if_splits)
  obtain r u where i: "issue_card E K draws st s1 = (r, u)" by force
  have d: "bnd (ignore (DeleteCardRequest w)) (\<lambda>_. ret i) u = (Inr i, snd (DeleteCardRequest w u))" for i :: int
    by (simp add: bnd_def ignore_def split: prod.split)
  have "kartice (snd (DeleteCardRequest w u)) = kartice u" using keeps_snd [OF keep(1), of w u] by simp
  with issued_card [OF i] run code i d assms(2) st(2) obtain k where
    "kartice s' = kartice s @ [k]" "res = Inr (kt_id k)" "new_card draws st k"
    by (cases r) (auto simp: bnd_def)
  moreover from this live_request_ok [OF assms(3) st(1)] have "map_option snd (kinds s (kt_racun k)) = Some w"
    by (simp add: new_card_def request_ok_def)
  ultimately show ?thesis using st(1) code by blast
qed

definition sample_request :: CardRequestState where
  "sample_request = \<lparr>cq_AccountID = 10, cq_TipKartice = ''VISA'', cq_OvlascenoLice = None, cq_OTPCode = ''000123'', cq_Attempts = 0\<rparr>"

definition sample_cards :: db where
  "sample_cards = sample_db\<lparr>card_requests := [(7, sample_request, 5)], now_utc := 0\<rparr>"

lemma sample_cards_request: "live_request 7 sample_cards = Some sample_request" "cards_ok sample_cards"
proof -
  show "live_request 7 sample_cards = Some sample_request" by (simp add: live_request_def sample_cards_def)
  have "fine sample_db sample_db" using sample_cards_ok by (simp add: fine_def kept_refl)
  then have "fine sample_db sample_cards"
    by (rule fine_requests) (simp_all add: sample_cards_def sample_request_def request_ok_def sample_kinds)
  then show "cards_ok sample_cards" by (simp add: fine_def)
qed

lemma sample_card_fits:
  assumes "kartice s = []" "racuni s = racuni sample_db"
  shows "kartica_fits (kartica_row sample_env (kartica_input 10 ''VISA'' (generateKarticaData sample_service (1, 1)
    \<lparr>rf_VrstaRacuna = ''LICNI'', rf_MesecniLimit = 0, rf_ValutaOznaka = ''EUR''\<rparr> ''VISA'') now) n) s"
proof -
  have "length (generateBrojKartice ''VISA'' 1) = 16" using generated_number [of 1 "''VISA''"] by (simp add: iin_of_def)
  moreover have "pg_round 2 (pg_round 2 1000000) = 1000000" by (simp add: pg_round2_id cents_def)
  ultimately show ?thesis
    using assms by (simp add: kartica_fits_def kartica_row_def kartica_input_def generateKarticaData_def Let_def fee_fits_def sample_env_def exact_env_def)
qed

lemma sample_confirmed:
  "\<exists>i s'. ConfirmKartica sample_env sample_service (1, 1) 7 ''000123'' sample_cards = (Inr i, s') \<and> kartice s' \<noteq> kartice sample_cards"
proof -
  have f: "no_faults sample_cards" "kartice sample_cards = []" "racuni sample_cards = racuni sample_db"
    by (simp_all add: sample_cards_def sample_db_def empty_db_def)
  let ?info = "\<lparr>rf_VrstaRacuna = ''LICNI'', rf_MesecniLimit = 0, rf_ValutaOznaka = ''EUR''\<rparr>"
  let ?c = "bump (bump (bump sample_cards))"
  have "live_request 7 (bump sample_cards) = Some sample_request" using sample_cards_request(1) by (simp add: live_request_def)
  then have 1: "GetCardRequest 7 sample_cards = (Inr sample_request, bump sample_cards)"
    using f(1) by (simp add: GetCardRequest_def stmt_root_def bnd_def)
  have "racun_of (bump (bump sample_cards)) 10 = Some (sample_racun 10 ''A10'' 7 ''EUR'' 1000)" using f(3) by (simp add: racun_of_def)
  then have 2: "GetRacunInfo 10 (bump sample_cards) = (Inr ?info, bump (bump sample_cards))"
    using f(1) by (simp add: GetRacunInfo_def bnd_def query_ok sample_racun_def)
  have 3: "proveraLimitaFlow2 10 ''LICNI'' None (bump (bump sample_cards)) = (Inr (), ?c)"
    using f by (simp add: proveraLimitaFlow2_def provera_licni_def CountKarticeZaRacun_def bnd_def query_ok maxKarticeLicni_def)
  have "\<exists>k t. CreateKartica sample_env (kartica_input 10 ''VISA'' (generateKarticaData sample_service (1, 1) ?info ''VISA'') now) ?c =
      (Inr (kartica_seq ?c), t) \<and> kartice t = [k]" for now
    using f sample_card_fits [of "bump ?c"] by (simp add: CreateKartica_def stmt_ok Let_def)
  with 2 3 obtain t k where "issue_card sample_env sample_service (1, 1) sample_request (bump sample_cards) = (Inr (kartica_seq ?c), t)" "kartice t = [k]"
    unfolding issue_card_def by (fastforce simp: bnd_def sample_request_def)
  moreover have "kartice (snd (DeleteCardRequest 7 t)) = kartice t" using keeps_snd [OF keeps_kartice_requests(1), of 7 t] by simp
  moreover have "bnd (ignore (DeleteCardRequest 7)) (\<lambda>_. ret i) t = (Inr i, snd (DeleteCardRequest 7 t))" for t and i :: int
    by (simp add: bnd_def ignore_def split: prod.split)
  moreover have "cq_OTPCode sample_request = ''000123''" by (simp add: sample_request_def)
  ultimately show ?thesis using 1 f(2) by (simp add: ConfirmKartica_def bnd_def)
qed

lemma card_needs_code_witness:
  "\<exists>i s' k. ConfirmKartica sample_env sample_service (1, 1) 7 ''000123'' sample_cards = (Inr i, s') \<and>
    kartice s' = kartice sample_cards @ [k] \<and> kt_racun k = 10 \<and> length (kt_cvv k) = 64"
proof -
  obtain i s' where r: "ConfirmKartica sample_env sample_service (1, 1) 7 ''000123'' sample_cards = (Inr i, s')" "kartice s' \<noteq> kartice sample_cards"
    using sample_confirmed by blast
  from card_needs_code [OF r sample_cards_request(2)] r(1) show ?thesis
    by (auto simp: sample_cards_request(1) new_card_def sample_request_def)
qed

text \<open>C22. A request is cancelled by the third wrong code, and none of the attempts issues a card.\<close>

theorem three_wrong_card_codes:
  assumes "no_faults s" "live_request w s = Some st" "cq_Attempts st = 0"
    and "c1 \<noteq> cq_OTPCode st" "c2 \<noteq> cq_OTPCode st" "c3 \<noteq> cq_OTPCode st"
  shows "let (r1, s1) = ConfirmKartica E K d1 w c1 s; (r2, s2) = ConfirmKartica E K d2 w c2 s1; (r3, s3) = ConfirmKartica E K d3 w c3 s2 in
    r1 = Inl ErrOTPInvalid \<and> r2 = Inl ErrOTPInvalid \<and> r3 = Inl ErrOTPMaxAttempts \<and> live_request w s3 = None \<and> kartice s3 = kartice s"
proof -
  have wrong: "ConfirmKartica E K d w c u = wrong_code w st' (bump u)"
    if "no_faults u" "live_request w u = Some st'" "c \<noteq> cq_OTPCode st'" for u st' c d
  proof -
    have "live_request w (bump u) = Some st'" using that(2) by (simp add: live_request_def)
    then show ?thesis using that(1,3) by (simp add: ConfirmKartica_def GetCardRequest_def stmt_root_def bnd_def)
  qed
  have counted: "\<exists>t. ConfirmKartica E K d w c u = (Inl ErrOTPInvalid, t) \<and> no_faults t \<and> kartice t = kartice u \<and>
      live_request w t = Some (st'\<lparr>cq_Attempts := cq_Attempts st' + 1\<rparr>)"
    if "no_faults u" "live_request w u = Some st'" "c \<noteq> cq_OTPCode st'" "cq_Attempts st' < 2" for u st' c d
    using that(1,4) by (simp add: wrong [OF that(1-3)] wrong_code_def Let_def maxOTPAttempts_def SaveCardRequest_def stmt_root_def bnd_def
        ignore_def otpTTL_def live_request_def)
  have cancelled: "\<exists>t. ConfirmKartica E K d w c u = (Inl ErrOTPMaxAttempts, t) \<and> kartice t = kartice u \<and> live_request w t = None"
    if "no_faults u" "live_request w u = Some st'" "c \<noteq> cq_OTPCode st'" "cq_Attempts st' = 2" for u st' c d
    using that(1,4) by (simp add: wrong [OF that(1-3)] wrong_code_def Let_def maxOTPAttempts_def DeleteCardRequest_def stmt_root_def bnd_def
        ignore_def live_request_def find_None_iff split_beta)
  obtain s1 where 1: "ConfirmKartica E K d1 w c1 s = (Inl ErrOTPInvalid, s1)" "no_faults s1" "kartice s1 = kartice s"
      "live_request w s1 = Some (st\<lparr>cq_Attempts := 1\<rparr>)"
    using counted [OF assms(1,2,4), of d1] assms(3) by auto
  obtain s2 where 2: "ConfirmKartica E K d2 w c2 s1 = (Inl ErrOTPInvalid, s2)" "no_faults s2" "kartice s2 = kartice s"
      "live_request w s2 = Some (st\<lparr>cq_Attempts := 2\<rparr>)"
    using counted [OF 1(2,4), of c2 d2] assms(5) 1(3) by auto
  obtain s3 where "ConfirmKartica E K d3 w c3 s2 = (Inl ErrOTPMaxAttempts, s3)" "kartice s3 = kartice s" "live_request w s3 = None"
    using cancelled [OF 2(2,4), of c3 d3] assms(6) 2(3) by auto
  with 1 2 show ?thesis by (simp add: Let_def)
qed

lemma three_wrong_card_codes_witness:
  "live_request 7 (snd (ConfirmKartica sample_env sample_service (1, 1) 7 ''3'' (snd (ConfirmKartica sample_env sample_service (1, 1) 7 ''2''
     (snd (ConfirmKartica sample_env sample_service (1, 1) 7 ''1'' sample_cards)))))) = None"
proof -
  have "no_faults sample_cards" by (simp add: sample_cards_def sample_db_def empty_db_def)
  from three_wrong_card_codes [OF this sample_cards_request(1), where ?c1.0 = "''1''" and ?c2.0 = "''2''" and ?c3.0 = "''3''"
      and E = sample_env and K = sample_service and ?d1.0 = "(1, 1)" and ?d2.0 = "(1, 1)" and ?d3.0 = "(1, 1)"]
  show ?thesis by (simp add: sample_request_def Let_def split_beta)
qed

end
