(* ===== verification/Spec2Isabelle.thy ===== *)
theory Spec2Isabelle
  imports Order_Properties Engine_Termination Interbank_Retry Interbank_Options Payment_Idempotence Credit_Collection Card_Codes
begin

text \<open>
  Verification of the bank service of EXBanka 2 (\<open>src/services/bank-service\<close>).

  \<^bold>\<open>The program.\<close> The service keeps clients' accounts in PostgreSQL and lets clients and employees trade
  listings, make payments, take credits, use cards and pay other banks. Its core is a chain of components. The funds manager
  (\<open>repository/funds_manager.go\<close>) reserves, releases and settles money; the trading service
  (\<open>trading/service.go\<close>) validates orders, prices them (\<open>trading/calculations.go\<close>), checks limits
  of agents (\<open>service/actuary_service.go\<close>) and margins (\<open>repository/margin_checker.go\<close>) and drives
  an order through its life cycle in the order repository (\<open>repository/order_repository.go\<close>). Between
  banks, \<open>service/local_transaction_executor.go\<close> prepares, commits and rolls back the local part of a
  transaction, \<open>service/interbank_message_service.go\<close> keeps the message log with its retries, and
  \<open>service/transaction_coordinator.go\<close> runs the two-phase protocol on both sides, all on top of
  \<open>repository/interbank_repository.go\<close>. On top of them, \<open>service/interbank_otc_service.go\<close>,
  \<open>service/interbank_option_contract_service.go\<close> and \<open>worker/interbank_option_expiry_worker.go\<close> negotiate,
  conclude, exercise and expire option contracts between clients of the two banks.

  Orders are executed by the engine (\<open>trading/worker/engine.go\<close>), one goroutine per order, on the prices of
  \<open>trading/worker/listing_market_adapter.go\<close> and the opening hours of \<open>service/berza_service.go\<close>; its fills go through
  the funds manager, the order repository and, for investment funds, \<open>repository/investment_fund_repository.go\<close>.
  \<open>service/account_service.go\<close> and \<open>repository/account_repository.go\<close> open accounts and change their limits,
  \<open>service/payment_service.go\<close> and \<open>repository/payment_repository.go\<close> make payments and transfers,
  \<open>service/kredit_service.go\<close>, \<open>repository/kredit_repository.go\<close> and \<open>worker/installment_worker.go\<close> grant credits and
  collect their instalments, and \<open>service/kartica_service.go\<close> with \<open>repository/kartica_repository.go\<close> issues cards. They all
  share the accounts and the treasury's accounts, which belong to user 2.

  \<^bold>\<open>State and effects.\<close> \<open>Core_DB\<close> has the schema \<open>core_banking\<close> as one record \<open>db\<close>, a list of rows per table.
  A Go function is a program \<open>db \<Rightarrow> (err + 'a) \<times> db\<close> (\<open>Prelude\<close>: \<open>ret\<close>, \<open>fail\<close>, \<open>bnd\<close>, \<open>attempt\<close> for an
  error that is inspected, \<open>ignore\<close> for one that is dropped, \<open>foreach\<close> for a loop over a slice). Every SQL
  statement is one \<open>stmt\<close>, which may fail for a reason of its own: the field \<open>faults\<close> decides it per
  statement and the theorems quantify over it. \<open>in_tx\<close> is \<open>db.Transaction\<close> with PostgreSQL's rules: an error
  undoes the writes made through the transaction's handle, and a failed statement aborts the rest.
  Statements through the root handle (\<open>stmt_root\<close>: the inter-bank tables) are outside any transaction,
  as in the code. \<open>CHECK\<close> constraints, unique indexes, foreign keys and column widths are conditions of
  the statements.

  \<^bold>\<open>Numbers.\<close> Decimals and floats are rationals. Conversions that lose precision (\<open>NewFromFloat\<close>,
  \<open>InexactFloat64\<close>, \<open>Div\<close>, \<open>StringFixed\<close>, storing into \<open>DECIMAL(15,2)\<close> and \<open>NUMERIC(20,6)\<close>) and the
  exchange rates are fields of the parameter record \<open>env\<close>; the locale \<open>numerics\<close> collects what the proofs
  use of them and is interpreted on PostgreSQL's rounding. Integers are unbounded with \<open>int32\<close> and \<open>int64\<close>
  ranges where a column or a type bounds them, and \<open>wrap64\<close> where the code can overflow.

  \<^bold>\<open>Theories and what they show.\<close>
  \<^item> \<open>Prelude\<close>: programs, frame rules (\<open>keeps\<close>), invariants (\<open>preserves\<close>), triples (\<open>hoare\<close>), error rules
    (\<open>atomic\<close>), decimals, floats, decimal text.
  \<^item> \<open>Interbank_Types\<close>: the protocol's data (\<open>domain/interbank.go\<close>) and its JSON form over a tree type; the
    locale \<open>decimal_codec\<close> stands for the text form of decimals and is interpreted on a concrete one.
    Transactions and votes survive the wire.
  \<^item> \<open>Core_DB\<close>: rows, state, statements, account invariants.
  \<^item> \<open>Trading_Calc\<close>, \<open>Funds_Manager\<close>: prices and commissions; every operation of the funds manager, as the
    interface locale \<open>funds_manager\<close> the trading service relies on and its interpretation. Errors change
    nothing, client accounts stay covered through any sequence of operations, fills conserve money,
    reserving and releasing cancel out.
  \<^item> \<open>Order_Repo\<close>, \<open>Trading_Service\<close>, \<open>Order_Properties\<close>: repositories of orders and actuaries, the margin
    checker, the trading service. Orders move only along their life cycle, cancellation is authorised,
    nobody sells what they do not hold, refused orders cost nothing, agents' limits are applied exactly,
    and the previewed price is the one charged.
  \<^item> \<open>Interbank_Repo\<close>, \<open>Interbank_Executor\<close>: the inter-bank tables and the local executor.
  \<^item> \<open>Interbank_Settlement\<close>: the abstract ledger. \<open>moves D B s s'\<close> says that every account gains \<open>D\<close> of reserved
    funds and \<open>B\<close> of balance and changes in nothing else; \<open>Prepare\<close>, \<open>Commit\<close> and \<open>Rollback\<close> are shown to be
    the movements their postings denote.
  \<^item> \<open>Interbank_Escrow\<close>: blocking and releasing published shares.
  \<^item> \<open>Interbank_Coordinator\<close>, \<open>Interbank_Protocol\<close>: message service and coordinator; a payment is booked
    exactly when it is reported as committed.
  \<^item> \<open>Interbank_Idempotence\<close>, \<open>Interbank_Retry\<close>: redelivery gives the same answer, a transaction commits once,
    retries deliver, and the back-off stays in its bounds.
  \<^item> \<open>Go_Time\<close>: Go's RFC 3339 dates, printing and parsing, with their round trip.
  \<^item> \<open>Interbank_OTC\<close>, \<open>Interbank_Negotiation\<close>, \<open>Interbank_Options\<close>: options between the banks. Negotiations follow
    their protocol (an inductive step relation), an offer reads back as it was made, the transactions are
    balanced, accepting and expiring conserve every user's shares, and a contract is exercised once.

  \<^item> \<open>Exchange_Hours\<close>, \<open>Fund_Repo\<close>, \<open>Trading_Engine\<close>: market hours with holidays and the test mode; the writes of a fund's
    fill; the engine as a program counter per goroutine over its waiting points, with the polling tick.
    \<open>Engine_Properties\<close>, \<open>Engine_Invariant\<close>, \<open>Engine_Termination\<close>: through any interleaving of requests, price changes, ticks,
    goroutines and restarts executed and remaining quantities add up and limits are respected; the fill loop ends.
  \<^item> \<open>Accounts\<close>, \<open>Account_Properties\<close>: account numbers, opening, renaming and limits; numbers have a valid check sum, and wrong
    codes for a limit are shown not to be counted.
  \<^item> \<open>Payments\<close>, \<open>Payment_Properties\<close>, \<open>Payment_Ledger\<close>, \<open>Payment_Safety\<close>, \<open>Payment_Schema\<close>, \<open>Payment_Solvency\<close>, \<open>Payment_Idempotence\<close>:
    a confirmed payment implements the postings of an abstract ledger and conserves every currency; it needs the code, the
    funds and the limits; it happens once; three wrong codes reject it; the tables stay well formed and no client is overdrawn;
    creating it again gives the same payment.
  \<^item> \<open>Go_Math\<close>: rounding and powers of floats with bounds on their errors. \<open>Credits\<close>: applications, approval, rejection,
    collection, the daily worker. \<open>Credit_Schedule\<close>: the locale \<open>annuity\<close> relates the floating point schedule to an exact plan in
    cents; every ordinary request satisfies it (\<open>ordinary_annuity\<close>). \<open>Credit_Schema\<close>, \<open>Credit_Ledger\<close>, \<open>Credit_Approval\<close>, \<open>Credit_Collection\<close>: the
    instalments repay the principal to the cent, the payout is the ledger's posting, each instalment is charged at most
    once, and the tables stay well formed.
  \<^item> \<open>Go_Crypto\<close>: SHA-256 on 32-bit words, HMAC and hexadecimal text. \<open>Cards\<close>: card numbers, issue, requests with codes kept in
    Redis, changes of status. \<open>Card_Properties\<close>, \<open>Card_Limits\<close>, \<open>Card_Codes\<close>: numbers pass the Luhn check, the limits on cards hold
    through any sequence of requests, deactivation is final, no card without its code, three wrong codes cancel a request.

  \<^bold>\<open>Loops and fuel.\<close> Loops over a slice or a query result are structural recursions. The waiting loops of the engine are
  stages of a goroutine that a step of the system leaves or stays in; the fill loop is driven with fuel, and four steps per
  remaining portion are shown to be enough. The loop that draws account numbers recurses over the list of draws and has no
  value when they run out. \<open>pow_loop\<close> halves its exponent. The endless tickers around the workers are not modelled,
  their bodies are.

  \<^bold>\<open>Outside the model.\<close> The peer bank, random keys and the clock are parameters or fields of the state:
  \<open>peer B n m\<close> answers our \<open>n\<close>-th message, \<open>newKey B n\<close> is the \<open>n\<close>-th key, \<open>now_utc\<close> the time. A nil
  dereference of the executor is an error value; it cannot occur for postings that passed validation.
  Texts for people, timestamps of rows and log lines are left out.

  Random draws (account numbers, credit and card numbers, codes) are arguments. Redis is the table \<open>card_requests\<close> with the
  moment each entry expires; whether a code could be sent by e-mail is a field of the card service. Sequences of
  card requests are sequences of complete calls: two confirmations that run between each other's statements
  are outside the theorem on limits.

  \<^bold>\<open>Not modelled.\<close> Tax (\<open>service/tax_service.go\<close>), OTC trading inside the bank with its settlement saga, investment funds beyond
  the writes of a fill, dividends, watch lists, price alerts and recurring orders: they read and write tables of their own
  on top of the accounts and orders modelled here, and no theorem depends on them. The user service is a
  separate program. Market data, exchange rates and the peer's HTTP client are external services; handlers decode requests,
  notifications are queues and e-mail; generated protocol code is not the program's own.
\<close>

end
